(* ===== verification/Py_Prelude.thy ===== *)
theory Py_Prelude
  imports "HOL-Library.Word" Unicode_Tables
begin

text \<open>
  Shared vocabulary of the development: Python strings as lists of code points, the string
  methods the services call, exceptions as values, and the generic facts the component proofs
  share.  Collections: \<open>py_eval\<close> unfolds closed Python expressions, \<open>exn_simps\<close> drives
  the result type.
\<close>

named_theorems py_eval \<open>definitions that evaluate closed Python expressions\<close>
named_theorems exn_simps \<open>rewrite rules for exceptions as values\<close>

subsection \<open>Strings\<close>

text \<open>
  A Python \<open>str\<close> is a sequence of code points, so it is a list of integers here; an ASCII
  literal \<open>"abc"\<close> of the source is \<open>lit ''abc''\<close> and a Korean literal is written as
  its code points.  Strings hold no lone surrogates (every one comes from decoded text).
\<close>

type_synonym pystr = "int list"

definition lit :: "string \<Rightarrow> pystr" where
  "lit s = map of_char s"

lemma lit_Nil [simp]: "lit [] = []"
  by (simp add: lit_def)

lemma of_char_int_inj: "(of_char c :: int) = of_char d \<longleftrightarrow> c = d"
  by simp

lemma lit_eq_iff [simp]: "lit s = lit t \<longleftrightarrow> s = t"
  unfolding lit_def by (metis inj_map_eq_map inj_onI of_char_int_inj)

lemma lit_eq_Nil_iff [simp]: "lit s = [] \<longleftrightarrow> s = []" "[] = lit s \<longleftrightarrow> s = []"
  by (auto simp: lit_def)

lemma lit_append: "lit (s @ t) = lit s @ lit t"
  by (simp add: lit_def)

lemma length_lit [simp]: "length (lit s) = length s"
  by (simp add: lit_def)

text \<open>\<open>str.isspace\<close> of one code point, which is also the class \<open>\s\<close> of \<open>re\<close>.\<close>

definition is_space :: "int \<Rightarrow> bool" where
  "is_space c \<longleftrightarrow>
     9 \<le> c \<and> c \<le> 13 \<or> 28 \<le> c \<and> c \<le> 32 \<or> c = 133 \<or> c = 160 \<or> c = 5760 \<or>
     8192 \<le> c \<and> c \<le> 8202 \<or> c = 8232 \<or> c = 8233 \<or> c = 8239 \<or> c = 8287 \<or> c = 12288"

definition in_ranges :: "(int \<times> int) list \<Rightarrow> int \<Rightarrow> bool" where
  "in_ranges rs c \<longleftrightarrow> list_ex (\<lambda>(a, b). a \<le> c \<and> c \<le> b) rs"

definition in_chars :: "pystr \<Rightarrow> int \<Rightarrow> bool" where
  "in_chars s c \<longleftrightarrow> list_ex ((=) c) s"

lemma in_chars_iff [simp]: "in_chars s c \<longleftrightarrow> c \<in> set s"
  by (auto simp: in_chars_def list_ex_iff)

lemma in_chars_code [code]:
  "in_chars [] c = False" "in_chars (x # xs) c = (if c = x then True else in_chars xs c)"
  by (auto simp: in_chars_def)

text \<open>ASCII first: the tables are consulted only for other code points.\<close>

definition is_ascii_digit :: "int \<Rightarrow> bool" where
  "is_ascii_digit c \<longleftrightarrow> 48 \<le> c \<and> c \<le> 57"

definition is_decimal :: "int \<Rightarrow> bool" where
  "is_decimal c =
     (if c < 128 then is_ascii_digit c
      else if 44032 \<le> c \<and> c \<le> 55203 then False
      else list_ex (\<lambda>z. z \<le> c \<and> c \<le> z + 9) decimal_zeros)"

definition is_digit :: "int \<Rightarrow> bool" where
  "is_digit c = (is_decimal c \<or> (128 \<le> c \<and> in_ranges extra_digit_ranges c))"

definition is_alnum :: "int \<Rightarrow> bool" where
  "is_alnum c =
     (if c < 128 then is_ascii_digit c \<or> (65 \<le> c \<and> c \<le> 90) \<or> (97 \<le> c \<and> c \<le> 122)
      else if 44032 \<le> c \<and> c \<le> 55203 then True
      else in_ranges alnum_ranges c)"

text \<open>The class \<open>\w\<close>: \<open>isalnum\<close> or the underscore.\<close>

definition is_word :: "int \<Rightarrow> bool" where
  "is_word c = (c = 95 \<or> is_alnum c)"

text \<open>\<open>str.isdigit\<close> of a whole string: false for the empty one.\<close>

definition isdigit :: "pystr \<Rightarrow> bool" where
  "isdigit s = (s \<noteq> [] \<and> list_all is_digit s)"

text \<open>Value of a decimal digit in any script.\<close>

definition digit_value :: "int \<Rightarrow> int option" where
  "digit_value c =
     (if is_ascii_digit c then Some (c - 48)
      else if c < 128 then None
      else map_option (\<lambda>z. c - z) (List.find (\<lambda>z. z \<le> c \<and> c \<le> z + 9) decimal_zeros))"

text \<open>\<open>str.lower\<close>.\<close>

definition lower_char :: "int \<Rightarrow> pystr" where
  "lower_char c =
     (if 65 \<le> c \<and> c \<le> 90 then [c + 32]
      else if c < 128 then [c]
      else if c = 304 then [105, 775]
      else (case List.find (\<lambda>(a, b, st, d). a \<le> c \<and> c \<le> b \<and> (c - a) mod st = 0) lower_runs of
              None \<Rightarrow> [c] | Some (a, b, st, d) \<Rightarrow> [c + d]))"

definition lower :: "pystr \<Rightarrow> pystr" where
  "lower s = concat (map lower_char s)"

subsection \<open>String methods\<close>

text \<open>\<open>s.startswith(p)\<close>, \<open>s.endswith(p)\<close>.\<close>

fun startswith :: "'a list \<Rightarrow> 'a list \<Rightarrow> bool" where
  "startswith s [] = True"
| "startswith [] (p # ps) = False"
| "startswith (c # s) (p # ps) = (c = p \<and> startswith s ps)"

lemma startswith_iff: "startswith s p \<longleftrightarrow> (\<exists>r. s = p @ r)"
  by (induction s p rule: startswith.induct) auto

definition endswith :: "'a list \<Rightarrow> 'a list \<Rightarrow> bool" where
  "endswith s p = startswith (rev s) (rev p)"

text \<open>\<open>p in s\<close> for strings.\<close>

fun contains :: "'a list \<Rightarrow> 'a list \<Rightarrow> bool" where
  "contains [] p = (p = [])"
| "contains (c # s) p = (startswith (c # s) p \<or> contains s p)"

lemma contains_iff: "contains s p \<longleftrightarrow> (\<exists>a b. s = a @ p @ b)"
proof (induction s)
  case Nil
  then show ?case by simp
next
  case (Cons c s)
  have "(\<exists>a b. c # s = a @ p @ b) \<longleftrightarrow> (\<exists>b. c # s = p @ b) \<or> (\<exists>a b. s = a @ p @ b)"
    by (metis append_Cons append_Nil list.exhaust list.inject)
  then show ?case using Cons.IH by (simp add: startswith_iff)
qed

lemma contains_mid [intro]: "contains (a @ p @ b) p"
  by (auto simp: contains_iff)

text \<open>\<open>s.find(p, start)\<close>: offset of the first occurrence at or after \<open>start\<close>.\<close>

fun find_at :: "nat \<Rightarrow> pystr \<Rightarrow> pystr \<Rightarrow> nat option" where
  "find_at i [] p = (if p = [] then Some i else None)"
| "find_at i (c # s) p = (if startswith (c # s) p then Some i else find_at (Suc i) s p)"

definition find_from :: "pystr \<Rightarrow> pystr \<Rightarrow> nat \<Rightarrow> nat option" where
  "find_from s p start = (if length s < start then None else find_at start (drop start s) p)"

lemma find_at_Some:
  "find_at i s p = Some j \<Longrightarrow> i \<le> j \<and> j - i + length p \<le> length s \<and> startswith (drop (j - i) s) p"
proof (induction i s p arbitrary: j rule: find_at.induct)
  case (1 i p)
  then show ?case by (auto split: if_splits)
next
  case (2 i c s p)
  show ?case
  proof (cases "startswith (c # s) p")
    case True
    then obtain r where r: "c # s = p @ r" by (auto simp: startswith_iff)
    then have "length p \<le> length (c # s)" by (metis le_add1 length_append)
    with True "2.prems" show ?thesis by auto
  next
    case False
    with "2.prems" have "find_at (Suc i) s p = Some j" by simp
    with "2.IH" False have h: "Suc i \<le> j" "j - Suc i + length p \<le> length s"
      "startswith (drop (j - Suc i) s) p" by blast+
    from h(1) have "j - i = Suc (j - Suc i)" by simp
    with h show ?thesis by simp
  qed
qed

lemma find_from_Some:
  assumes "find_from s p start = Some j"
  shows "start \<le> j" "j + length p \<le> length s" "startswith (drop j s) p"
proof -
  from assms have le: "start \<le> length s" and f: "find_at start (drop start s) p = Some j"
    by (auto simp: find_from_def split: if_splits)
  from find_at_Some [OF f] le show "start \<le> j" "j + length p \<le> length s"
    by auto
  from find_at_Some [OF f] show "startswith (drop j s) p" using le
    by (metis diff_add find_at_Some [OF f] drop_drop)
qed

lemma find_from_progress:
  "find_from s p start = Some j \<Longrightarrow> p \<noteq> [] \<Longrightarrow> Suc (length s) - (j + length p) < Suc (length s) - start"
  using find_from_Some(1,2) [of s p start j] by (cases p) auto

text \<open>\<open>s.strip()\<close> and its one-sided forms.\<close>

definition lstrip :: "pystr \<Rightarrow> pystr" where
  "lstrip s = dropWhile is_space s"

definition rstrip :: "pystr \<Rightarrow> pystr" where
  "rstrip s = rev (dropWhile is_space (rev s))"

definition strip :: "pystr \<Rightarrow> pystr" where
  "strip s = rstrip (lstrip s)"

lemma strip_Nil [simp]: "strip [] = []"
  by (simp add: strip_def lstrip_def rstrip_def)


lemma rstrip_prefix: "\<exists>b. s = rstrip s @ b \<and> (\<forall>c\<in>set b. is_space c)"
proof -
  have "s = rev (takeWhile is_space (rev s) @ dropWhile is_space (rev s))"
    by simp
  then have "s = rstrip s @ rev (takeWhile is_space (rev s))"
    by (simp only: rev_append rstrip_def)
  then show ?thesis
    by (metis set_rev set_takeWhileD)
qed

lemma strip_decomp: "\<exists>a b. s = a @ strip s @ b \<and> (\<forall>c\<in>set a. is_space c) \<and> (\<forall>c\<in>set b. is_space c)"
proof -
  obtain b where b: "lstrip s = strip s @ b" "\<forall>c\<in>set b. is_space c"
    using rstrip_prefix [of "lstrip s"] by (auto simp: strip_def)
  have "s = takeWhile is_space s @ lstrip s"
    by (simp add: lstrip_def)
  with b have "s = takeWhile is_space s @ strip s @ b" by simp
  moreover have "\<forall>c\<in>set (takeWhile is_space s). is_space c"
    by (auto dest: set_takeWhileD)
  ultimately show ?thesis using b(2) by blast
qed

lemma strip_eq_Nil_iff: "strip s = [] \<longleftrightarrow> (\<forall>c\<in>set s. is_space c)"
proof
  assume e: "strip s = []"
  obtain a b where "s = a @ strip s @ b" "\<forall>c\<in>set a. is_space c" "\<forall>c\<in>set b. is_space c"
    using strip_decomp by blast
  with e show "\<forall>c\<in>set s. is_space c" by (metis UnE append_Nil set_append)
next
  assume "\<forall>c\<in>set s. is_space c"
  then have "lstrip s = []" by (simp add: lstrip_def)
  then show "strip s = []" by (simp add: strip_def rstrip_def)
qed

lemma length_strip_le: "length (strip s) \<le> length s"
proof -
  obtain a b where "s = a @ strip s @ b" using strip_decomp by blast
  then have "length s = length (a @ strip s @ b)" by (rule arg_cong)
  then show ?thesis by simp
qed

text \<open>
  \<open>s.split(sep)\<close> and \<open>s.replace(old, new)\<close> for a non-empty separator: occurrences are taken
  from left to right without overlap.
\<close>

function split_on :: "pystr \<Rightarrow> pystr \<Rightarrow> pystr \<Rightarrow> pystr list" where
  "split_on sep acc [] = [rev acc]"
| "split_on sep acc (c # s) =
     (if sep \<noteq> [] \<and> startswith (c # s) sep then rev acc # split_on sep [] (drop (length sep) (c # s))
      else split_on sep (c # acc) s)"
  by pat_completeness auto
termination
proof (relation "measure (\<lambda>(sep, acc, s). length s)")
  fix sep acc s :: pystr and c :: int
  assume "sep \<noteq> [] \<and> startswith (c # s) sep"
  then show "((sep, [], drop (length sep) (c # s)), sep, acc, c # s)
      \<in> measure (\<lambda>(sep, acc, s). length s)"
    by (cases sep) auto
qed auto

definition str_split :: "pystr \<Rightarrow> pystr \<Rightarrow> pystr list" where
  "str_split s sep = split_on sep [] s"

definition str_join :: "pystr \<Rightarrow> pystr list \<Rightarrow> pystr" where
  "str_join sep parts =
     (case parts of [] \<Rightarrow> [] | p # ps \<Rightarrow> p @ concat (map (\<lambda>x. sep @ x) ps))"

definition replace :: "pystr \<Rightarrow> pystr \<Rightarrow> pystr \<Rightarrow> pystr" where
  "replace s old new = str_join new (str_split s old)"

lemma str_join_Cons:
  "ps \<noteq> [] \<Longrightarrow> str_join sep (p # ps) = p @ sep @ str_join sep ps"
  by (cases ps) (auto simp: str_join_def)

lemma split_on_nonempty: "split_on sep acc s \<noteq> []"
  by (induction sep acc s rule: split_on.induct) auto

lemma join_split_on: "str_join sep (split_on sep acc s) = rev acc @ s"
proof (induction sep acc s rule: split_on.induct)
  case (1 sep acc)
  then show ?case by (simp add: str_join_def)
next
  case (2 sep acc c s)
  show ?case
  proof (cases "sep \<noteq> [] \<and> startswith (c # s) sep")
    case True
    then obtain r where r: "c # s = sep @ r" by (auto simp: startswith_iff)
    have "split_on sep acc (c # s) = rev acc # split_on sep [] r"
      using True by (simp only: split_on.simps if_True) (simp add: r)
    with True 2(1) r show ?thesis
      by (simp add: str_join_Cons split_on_nonempty)
  next
    case False
    with 2 show ?thesis by auto
  qed
qed

lemma join_split [simp]: "str_join sep (str_split s sep) = s"
  by (simp add: str_split_def join_split_on)

lemma str_join_split_on:
  "str_join new (split_on old acc s) = rev acc @ str_join new (split_on old [] s)"
proof (induction s arbitrary: acc)
  case (Cons c s)
  have "str_join new (split_on old (c # acc) s) = rev (c # acc) @ str_join new (split_on old [] s)"
    and "str_join new (split_on old [c] s) = [c] @ str_join new (split_on old [] s)"
    using Cons [of "c # acc"] Cons [of "[c]"] by simp_all
  then show ?case by (cases "old = []") (auto simp: str_join_Cons split_on_nonempty)
qed (simp add: str_join_def)

lemma replace_Nil [simp]: "replace [] old new = []"
  by (simp add: replace_def str_split_def str_join_def)

lemma replace_Cons:
  "old \<noteq> [] \<Longrightarrow> replace (c # s) old new =
     (if startswith (c # s) old then new @ replace (drop (length old) (c # s)) old new
      else c # replace s old new)"
  by (simp add: replace_def str_split_def str_join_Cons split_on_nonempty
      str_join_split_on [of new old "[c]"])

lemma replace_char: "replace s [a] [b] = map (\<lambda>c. if c = a then b else c) s"
  by (induction s) (auto simp: replace_Cons)

lemma replace_absent: "old \<noteq> [] \<Longrightarrow> \<not> contains s old \<Longrightarrow> replace s old new = s"
  by (induction s) (auto simp: replace_Cons)

text \<open>
  \<open>s.splitlines(keepends=True)\<close>: the line boundaries are those of \<open>str\<close>, with
  \<open>\r\n\<close> counted once.
\<close>

definition is_linebreak :: "int \<Rightarrow> bool" where
  "is_linebreak c \<longleftrightarrow>
     c = 10 \<or> c = 13 \<or> c = 11 \<or> c = 12 \<or> c = 28 \<or> c = 29 \<or> c = 30 \<or> c = 133 \<or> c = 8232 \<or> c = 8233"

fun splitlines_keep :: "pystr \<Rightarrow> pystr \<Rightarrow> pystr list" where
  "splitlines_keep acc [] = (if acc = [] then [] else [rev acc])"
| "splitlines_keep acc (c # s) =
     (if c = 13 \<and> startswith s [10] then
        (case s of d # s' \<Rightarrow> rev (d # c # acc) # splitlines_keep [] s' | [] \<Rightarrow> [])
      else if is_linebreak c then rev (c # acc) # splitlines_keep [] s
      else splitlines_keep (c # acc) s)"

definition drop_linebreak :: "pystr \<Rightarrow> pystr" where
  "drop_linebreak l =
     (if endswith l [13, 10] then take (length l - 2) l
      else if l \<noteq> [] \<and> is_linebreak (last l) then butlast l
      else l)"

definition splitlines :: "pystr \<Rightarrow> pystr list" where
  "splitlines s = map drop_linebreak (splitlines_keep [] s)"

lemma concat_splitlines_keep: "concat (splitlines_keep acc s) = rev acc @ s"
proof (induction acc s rule: splitlines_keep.induct)
  case (2 acc c s)
  then show ?case by (cases s) auto
qed simp

lemma splitlines_keep_nonempty: "s \<noteq> [] \<or> acc \<noteq> [] \<Longrightarrow> splitlines_keep acc s \<noteq> []"
  using concat_splitlines_keep [of acc s] by (metis append_is_Nil_conv concat.simps(1) rev_is_Nil_conv)

lemma splitlines_nonempty: "s \<noteq> [] \<Longrightarrow> splitlines s \<noteq> []"
  by (simp add: splitlines_def splitlines_keep_nonempty)

text \<open>\<open>s.count(c, 0, n)\<close> for one character.\<close>

definition count_char :: "int \<Rightarrow> pystr \<Rightarrow> nat" where
  "count_char c s = length (filter ((=) c) s)"

text \<open>Slices \<open>s[a:b]\<close> with non-negative bounds.\<close>

definition slice :: "'a list \<Rightarrow> nat \<Rightarrow> nat \<Rightarrow> 'a list" where
  "slice s a b = take (b - a) (drop a s)"

lemma length_slice: "b \<le> length s \<Longrightarrow> length (slice s a b) = b - a"
  by (simp add: slice_def)

lemma slice_append_drop: "a \<le> b \<Longrightarrow> slice s a b @ drop b s = drop a s"
  by (simp add: slice_def) (metis append_take_drop_id drop_drop le_add_diff_inverse2)

subsection \<open>Numbers and text\<close>

text \<open>\<open>str(n)\<close> and the zero-padded \<open>f"{n:03d}"\<close>.\<close>

fun nat_digits :: "nat \<Rightarrow> pystr" where
  "nat_digits n =
     (if n < 10 then [48 + int n] else nat_digits (n div 10) @ [48 + int (n mod 10)])"

declare nat_digits.simps [simp del]

definition str_int :: "int \<Rightarrow> pystr" where
  "str_int i = (if i < 0 then 45 # nat_digits (nat (- i)) else nat_digits (nat i))"

definition pad0 :: "nat \<Rightarrow> pystr \<Rightarrow> pystr" where
  "pad0 w s = replicate (w - length s) 48 @ s"

lemma nat_digits_nonempty [simp]: "nat_digits n \<noteq> []"
  by (subst nat_digits.simps) auto

fun value_of_digits :: "pystr \<Rightarrow> nat" where
  "value_of_digits s = foldl (\<lambda>n c. 10 * n + nat (c - 48)) 0 s"

lemma value_nat_digits: "value_of_digits (nat_digits n) = n"
proof (induction n rule: nat_digits.induct)
  case (1 n)
  show ?case
  proof (cases "n < 10")
    case True
    then show ?thesis by (subst nat_digits.simps) simp
  next
    case False
    with 1 show ?thesis by (subst nat_digits.simps) simp
  qed
qed

lemma nat_digits_inj [simp]: "nat_digits m = nat_digits n \<longleftrightarrow> m = n"
  by (metis value_nat_digits)

lemma nat_digits_ascii: "c \<in> set (nat_digits n) \<Longrightarrow> is_ascii_digit c"
proof (induction n rule: nat_digits.induct)
  case (1 n)
  show ?case
  proof (cases "n < 10")
    case True
    with "1.prems" show ?thesis by (subst (asm) nat_digits.simps) (auto simp: is_ascii_digit_def)
  next
    case False
    with 1 show ?thesis by (subst (asm) (2) nat_digits.simps) (auto simp: is_ascii_digit_def)
  qed
qed

lemma value_replicate_zero: "value_of_digits (replicate k 48 @ s) = value_of_digits s"
  by (induction k) auto

lemma pad0_inj [simp]: "pad0 w (nat_digits m) = pad0 w (nat_digits n) \<longleftrightarrow> m = n"
  by (metis pad0_def value_replicate_zero value_nat_digits)

text \<open>\<open>int(s)\<close> for a string of decimal digits: no value when another character occurs.\<close>

fun int_of_digits :: "int \<Rightarrow> pystr \<Rightarrow> int option" where
  "int_of_digits acc [] = Some acc"
| "int_of_digits acc (c # s) =
     (case digit_value c of None \<Rightarrow> None | Some d \<Rightarrow> int_of_digits (10 * acc + d) s)"

definition parse_nat :: "pystr \<Rightarrow> int option" where
  "parse_nat s = (if s = [] then None else int_of_digits 0 s)"

lemma int_of_digits_append:
  "int_of_digits acc (a @ b) = Option.bind (int_of_digits acc a) (\<lambda>n. int_of_digits n b)"
  by (induction a arbitrary: acc) (auto split: option.splits)

lemma digit_value_ascii: "n < 10 \<Longrightarrow> digit_value (48 + int n) = Some (int n)"
  by (auto simp: digit_value_def is_ascii_digit_def)

lemma int_of_nat_digits: "int_of_digits 0 (nat_digits n) = Some (int n)"
proof (induction n rule: nat_digits.induct)
  case (1 n)
  show ?case
  proof (cases "n < 10")
    case True
    then show ?thesis by (subst nat_digits.simps) (simp add: digit_value_ascii)
  next
    case False
    have "digit_value (48 + int (n mod 10)) = Some (int (n mod 10))"
      by (rule digit_value_ascii) simp
    moreover have "10 * int (n div 10) + int (n mod 10) = int n"
      by (simp add: zdiv_int zmod_int)
    ultimately show ?thesis using 1 False
      by (subst nat_digits.simps) (simp add: int_of_digits_append)
  qed
qed

lemma parse_nat_digits [simp]: "parse_nat (nat_digits n) = Some (int n)"
  by (simp add: parse_nat_def int_of_nat_digits)

subsection \<open>Exceptions as values\<close>

text \<open>
  The exception classes the services raise and tell apart.  \<open>EvidenceValidationError\<close>
  (a subclass of \<open>ValueError\<close>) and \<open>ProviderExecutionError\<close> (of \<open>RuntimeError\<close>) carry
  the fields of the source, and \<open>HTTPException\<close> the status, the detail (its code, message and retryable
  flag, where it has them) and the headers of the answer; \<open>OtherError\<close> is any further class, with its name and text.
\<close>

record provider_error =
  reason_code :: pystr
  retryable :: bool
  error_message :: pystr
  attempt_number :: "nat option"
  error_request_id :: "pystr option"
  payload_byte_length :: "nat option"

record http_error =
  http_status :: int
  http_code :: "pystr option"
  http_message :: pystr
  http_retryable :: "bool option"
  http_headers :: "(string \<times> pystr) list"

datatype exn =
    ValueError pystr
  | EvidenceValidationError pystr pystr
  | RuntimeError pystr
  | ProviderExecutionError provider_error
  | IndexError pystr
  | KeyError pystr
  | TypeError pystr
  | AttributeError pystr
  | HTTPException http_error
  | OtherError pystr pystr

type_synonym 'a result = "exn + 'a"

fun is_value_error :: "exn \<Rightarrow> bool" where
  "is_value_error (ValueError m) = True"
| "is_value_error (EvidenceValidationError c d) = True"
| "is_value_error e = False"

fun is_runtime_error :: "exn \<Rightarrow> bool" where
  "is_runtime_error (RuntimeError m) = True"
| "is_runtime_error (ProviderExecutionError p) = True"
| "is_runtime_error e = False"

definition bind :: "'a result \<Rightarrow> ('a \<Rightarrow> 'b result) \<Rightarrow> 'b result" where
  "bind m f = (case m of Inl e \<Rightarrow> Inl e | Inr x \<Rightarrow> f x)"

lemma bind_simps [simp, exn_simps]:
  "bind (Inl e) f = Inl e" "bind (Inr x) f = f x"
  by (simp_all add: bind_def)

lemma bind_Inr_iff [exn_simps]: "bind m f = Inr y \<longleftrightarrow> (\<exists>x. m = Inr x \<and> f x = Inr y)"
  by (cases m) auto

lemma bind_Inl_iff: "bind m f = Inl e \<longleftrightarrow> m = Inl e \<or> (\<exists>x. m = Inr x \<and> f x = Inl e)"
  by (cases m) auto

text \<open>
  A sequence of \<open>if cond: raise exc\<close> statements: the first condition that holds decides.
\<close>

fun checks :: "(bool \<times> exn) list \<Rightarrow> unit result" where
  "checks [] = Inr ()"
| "checks ((b, e) # cs) = (if b then Inl e else checks cs)"

lemma checks_ok_iff: "checks cs = Inr () \<longleftrightarrow> (\<forall>(b, e)\<in>set cs. \<not> b)"
  by (induction cs rule: checks.induct) auto

lemma checks_raises: "checks cs = Inl e \<Longrightarrow> (True, e) \<in> set cs"
  by (induction cs rule: checks.induct) (auto split: if_splits)

lemma checks_append [exn_simps]: "checks (cs @ ds) = bind (checks cs) (\<lambda>_. checks ds)"
  by (induction cs rule: checks.induct) auto

declare checks.simps [simp del] checks_ok_iff [simp]

lemma result_unit_cases: "(r :: unit result) = Inr () \<or> (\<exists>e. r = Inl e)"
  by (cases r) auto

text \<open>A \<open>for\<close> loop whose body can raise; the first exception stops it.\<close>

fun for_each :: "('a \<Rightarrow> unit result) \<Rightarrow> 'a list \<Rightarrow> unit result" where
  "for_each f [] = Inr ()"
| "for_each f (x # xs) = bind (f x) (\<lambda>_. for_each f xs)"

lemma for_each_ok_iff: "for_each f xs = Inr () \<longleftrightarrow> (\<forall>x\<in>set xs. f x = Inr ())"
proof (induction xs)
  case (Cons x xs)
  then show ?case by (cases "f x") auto
qed simp

lemma for_each_raises: "for_each f xs = Inl e \<Longrightarrow> \<exists>x\<in>set xs. f x = Inl e"
  by (induction xs) (auto simp: bind_Inl_iff)

text \<open>A comprehension whose element expression can raise.\<close>

fun map_result :: "('a \<Rightarrow> 'b result) \<Rightarrow> 'a list \<Rightarrow> 'b list result" where
  "map_result f [] = Inr []"
| "map_result f (x # xs) = bind (f x) (\<lambda>y. bind (map_result f xs) (\<lambda>ys. Inr (y # ys)))"

lemma map_result_Inr:
  "map_result f xs = Inr ys \<longleftrightarrow> list_all2 (\<lambda>x y. f x = Inr y) xs ys"
  by (induction xs arbitrary: ys) (auto simp: bind_Inr_iff list_all2_Cons1)

lemma map_result_mem:
  "map_result f xs = Inr ys \<Longrightarrow> y \<in> set ys \<Longrightarrow> \<exists>x\<in>set xs. f x = Inr y"
  by (induction xs arbitrary: ys) (auto simp: bind_Inr_iff)

lemma map_result_length: "map_result f xs = Inr ys \<Longrightarrow> length ys = length xs"
  by (auto simp: map_result_Inr dest: list_all2_lengthD)

end
