(* ===== verification/Py_Regex.thy ===== *)
theory Py_Regex
  imports Py_Prelude
begin

text \<open>
  The part of Python's \<open>re\<close> the services use, as a backtracking matcher.  A pattern is
  matched from a cursor (offset, character before it, rest of the text); the result lists every
  way to match in the order the backtracking engine tries them, so its head is the match
  \<open>re\<close> reports.  Repetition is greedy and applies to one character class, which is all the
  patterns of the repository need; a group with a bounded count is written out with \<open>Opt\<close>
  and \<open>Seq\<close>.  Captured groups are kept with the text they matched, latest first.
\<close>

datatype rx =
    Chars "int \<Rightarrow> bool" nat "nat option"
  | Seq rx rx
  | Alt rx rx
  | Opt rx
  | Grp nat rx
  | WordB
  | AtEnd

type_synonym cursor = "nat \<times> int option \<times> pystr"
type_synonym captures = "(nat \<times> pystr) list"
type_synonym rmatch = "nat \<times> nat \<times> captures"

definition advance :: "nat \<Rightarrow> cursor \<Rightarrow> cursor" where
  "advance n cur = (case cur of (i, pv, s) \<Rightarrow>
     (i + n, (if n = 0 then pv else Some (s ! (n - 1))), drop n s))"

definition max_run :: "(int \<Rightarrow> bool) \<Rightarrow> nat option \<Rightarrow> pystr \<Rightarrow> nat" where
  "max_run p hi s =
     (let k = length (takeWhile p s) in case hi of None \<Rightarrow> k | Some h \<Rightarrow> min h k)"

definition word_boundary :: "cursor \<Rightarrow> bool" where
  "word_boundary cur = (case cur of (i, pv, s) \<Rightarrow>
     (case pv of None \<Rightarrow> False | Some c \<Rightarrow> is_word c) \<noteq>
     (case s of [] \<Rightarrow> False | c # s' \<Rightarrow> is_word c))"

fun rx_match :: "rx \<Rightarrow> cursor \<Rightarrow> (cursor \<times> captures) list" where
  "rx_match (Chars p lo hi) cur =
     map (\<lambda>j. (advance j cur, [])) (rev [lo..<Suc (max_run p hi (snd (snd cur)))])"
| "rx_match (Seq r1 r2) cur =
     concat (map (\<lambda>(c1, g1). map (\<lambda>(c2, g2). (c2, g2 @ g1)) (rx_match r2 c1)) (rx_match r1 cur))"
| "rx_match (Alt r1 r2) cur = rx_match r1 cur @ rx_match r2 cur"
| "rx_match (Opt r) cur = rx_match r cur @ [(cur, [])]"
| "rx_match (Grp n r) cur =
     map (\<lambda>(c1, g1). (c1, (n, take (fst c1 - fst cur) (snd (snd cur))) # g1)) (rx_match r cur)"
| "rx_match WordB cur = (if word_boundary cur then [(cur, [])] else [])"
| "rx_match AtEnd cur =
     (if snd (snd cur) = [] \<or> snd (snd cur) = [10] then [(cur, [])] else [])"

subsection \<open>Pattern builders\<close>

definition Chr :: "int \<Rightarrow> rx" where
  "Chr c = Chars ((=) c) 1 (Some 1)"

definition Cls :: "(int \<Rightarrow> bool) \<Rightarrow> rx" where
  "Cls p = Chars p 1 (Some 1)"

definition Many :: "(int \<Rightarrow> bool) \<Rightarrow> rx" where
  "Many p = Chars p 0 None"

definition Many1 :: "(int \<Rightarrow> bool) \<Rightarrow> rx" where
  "Many1 p = Chars p 1 None"

definition Times :: "nat \<Rightarrow> (int \<Rightarrow> bool) \<Rightarrow> rx" where
  "Times n p = Chars p n (Some n)"

definition Eps :: rx where
  "Eps = Chars (\<lambda>_. False) 0 (Some 0)"

fun SeqL :: "rx list \<Rightarrow> rx" where
  "SeqL [] = Eps"
| "SeqL [r] = r"
| "SeqL (r # rs) = Seq r (SeqL rs)"

fun AltL :: "rx list \<Rightarrow> rx" where
  "AltL [] = Chars (\<lambda>_. False) 1 (Some 1)"
| "AltL [r] = r"
| "AltL (r # rs) = Alt r (AltL rs)"

text \<open>\<open>re.escape(s)\<close>: the literal text.\<close>

fun Lit :: "pystr \<Rightarrow> rx" where
  "Lit [] = Eps"
| "Lit (c # s) = Seq (Chr c) (Lit s)"

lemmas rx_builders = Chr_def Cls_def Many_def Many1_def Times_def Eps_def

subsection \<open>The entry points\<close>

definition re_match :: "rx \<Rightarrow> pystr \<Rightarrow> rmatch option" where
  "re_match r s =
     (case rx_match r (0, None, s) of [] \<Rightarrow> None | ((j, _), g) # _ \<Rightarrow> Some (0, j, g))"

definition re_fullmatch :: "rx \<Rightarrow> pystr \<Rightarrow> rmatch option" where
  "re_fullmatch r s =
     (case filter (\<lambda>((j, pv, s'), g). s' = []) (rx_match r (0, None, s)) of
        [] \<Rightarrow> None | ((j, _), g) # _ \<Rightarrow> Some (0, j, g))"

text \<open>
  \<open>re.finditer\<close>: scan left to right; after a match resume at its end.  \<open>skip\<close> counts the
  characters of the last match still to be passed.
\<close>

fun finditer_from :: "rx \<Rightarrow> nat \<Rightarrow> nat \<Rightarrow> int option \<Rightarrow> pystr \<Rightarrow> rmatch list" where
  "finditer_from r skip i pv [] =
     (if skip = 0 then
        (case rx_match r (i, pv, []) of [] \<Rightarrow> [] | ((j, _), g) # _ \<Rightarrow> [(i, j, g)])
      else [])"
| "finditer_from r skip i pv (c # s) =
     (if skip = 0 then
        (case rx_match r (i, pv, c # s) of
           [] \<Rightarrow> finditer_from r 0 (Suc i) (Some c) s
         | ((j, _), g) # _ \<Rightarrow> (i, j, g) # finditer_from r (j - Suc i) (Suc i) (Some c) s)
      else finditer_from r (skip - 1) (Suc i) (Some c) s)"

definition finditer :: "rx \<Rightarrow> pystr \<Rightarrow> rmatch list" where
  "finditer r s = finditer_from r 0 0 None s"

definition re_search :: "rx \<Rightarrow> pystr \<Rightarrow> rmatch option" where
  "re_search r s = (case finditer r s of [] \<Rightarrow> None | m # _ \<Rightarrow> Some m)"

text \<open>\<open>match.group(n)\<close>: no value when the group took no part in the match.\<close>

definition group :: "rmatch \<Rightarrow> nat \<Rightarrow> pystr option" where
  "group m n = map_of (snd (snd m)) n"

text \<open>\<open>re.split(pattern, text)\<close> and \<open>re.sub(pattern, repl, text)\<close> for a pattern without groups.\<close>

fun pieces :: "pystr \<Rightarrow> nat \<Rightarrow> rmatch list \<Rightarrow> pystr list" where
  "pieces s from [] = [drop from s]"
| "pieces s from ((i, j, g) # ms) = slice s from i # pieces s j ms"

definition re_split :: "rx \<Rightarrow> pystr \<Rightarrow> pystr list" where
  "re_split r s = pieces s 0 (finditer r s)"

definition re_sub :: "rx \<Rightarrow> pystr \<Rightarrow> pystr \<Rightarrow> pystr" where
  "re_sub r repl s = str_join repl (re_split r s)"

subsection \<open>Where matches lie\<close>

text \<open>The cursor of a text at an offset, and the fewest characters a pattern consumes.\<close>

definition cursor_at :: "pystr \<Rightarrow> nat \<Rightarrow> cursor" where
  "cursor_at s i = (i, (if i = 0 then None else Some (s ! (i - 1))), drop i s)"

fun rx_min :: "rx \<Rightarrow> nat" where
  "rx_min (Chars p lo hi) = lo"
| "rx_min (Seq r1 r2) = rx_min r1 + rx_min r2"
| "rx_min (Alt r1 r2) = min (rx_min r1) (rx_min r2)"
| "rx_min (Opt r) = 0"
| "rx_min (Grp n r) = rx_min r"
| "rx_min WordB = 0"
| "rx_min AtEnd = 0"

lemma max_run_le: "max_run p hi s \<le> length s"
  using length_takeWhile_le [of p s] by (auto simp: max_run_def Let_def split: option.splits)

lemma advance_at:
  "i + n \<le> length s \<Longrightarrow> advance n (cursor_at s i) = cursor_at s (i + n)"
  by (cases n) (simp_all add: advance_def cursor_at_def add.commute)

lemma rx_match_at:
  assumes "i \<le> length s" "(cur, g) \<in> set (rx_match r (cursor_at s i))"
  shows "\<exists>j. cur = cursor_at s j \<and> i + rx_min r \<le> j \<and> j \<le> length s"
  using assms
proof (induction r arbitrary: i cur g)
  case (Chars p lo hi)
  then obtain n where n: "lo \<le> n" "n \<le> max_run p hi (drop i s)"
    "cur = advance n (cursor_at s i)"
    by (auto simp: cursor_at_def)
  from n(2) max_run_le [of p hi "drop i s"] Chars.prems(1) have "i + n \<le> length s" by simp
  with n show ?case by (auto simp: advance_at)
next
  case (Seq r1 r2)
  from Seq.prems(2) obtain c1 g1 g2 where
    "(c1, g1) \<in> set (rx_match r1 (cursor_at s i))" "(cur, g2) \<in> set (rx_match r2 c1)"
    by auto
  moreover then obtain k where "c1 = cursor_at s k" "i + rx_min r1 \<le> k" "k \<le> length s"
    using Seq.IH(1) Seq.prems(1) by blast
  ultimately obtain j where "cur = cursor_at s j" "k + rx_min r2 \<le> j" "j \<le> length s"
    using Seq.IH(2) by blast
  with \<open>i + rx_min r1 \<le> k\<close> show ?case by auto
next
  case (Alt r1 r2)
  from Alt.prems(2) consider "(cur, g) \<in> set (rx_match r1 (cursor_at s i))"
    | "(cur, g) \<in> set (rx_match r2 (cursor_at s i))" by auto
  then show ?case
  proof cases
    case 1
    from Alt.IH(1) [OF Alt.prems(1) 1] show ?thesis by auto
  next
    case 2
    from Alt.IH(2) [OF Alt.prems(1) 2] show ?thesis by auto
  qed
next
  case (Opt r)
  from Opt.prems(2) consider "(cur, g) \<in> set (rx_match r (cursor_at s i))" | "cur = cursor_at s i"
    by auto
  then show ?case
  proof cases
    case 1
    from Opt.IH [OF Opt.prems(1) 1] show ?thesis by auto
  next
    case 2
    with Opt.prems(1) show ?thesis by auto
  qed
next
  case (Grp n r)
  from Grp.prems(2) obtain g' where "(cur, g') \<in> set (rx_match r (cursor_at s i))" by auto
  then show ?case using Grp.IH Grp.prems(1) by simp
qed (auto split: if_splits)

lemma rx_match_start:
  "(cur, g) \<in> set (rx_match r (0, None, s)) \<Longrightarrow> \<exists>j. cur = cursor_at s j \<and> rx_min r \<le> j \<and> j \<le> length s"
  using rx_match_at [of 0 s cur g r] by (simp add: cursor_at_def)

text \<open>
  Matches of \<open>finditer\<close> start where the matcher succeeds, end inside the text, and come from
  left to right without overlap.
\<close>

lemma finditer_from_in:
  assumes "i \<le> length s0" "(a, b, g) \<in> set (finditer_from r skip i (fst (snd (cursor_at s0 i))) (drop i s0))"
  shows "i + skip \<le> a \<and> a + rx_min r \<le> b \<and> b \<le> length s0 \<and>
    (cursor_at s0 b, g) \<in> set (rx_match r (cursor_at s0 a))"
  using assms
proof (induction "drop i s0" arbitrary: i skip)
  case Nil
  have cur: "(i, fst (snd (cursor_at s0 i)), []) = cursor_at s0 i"
    using Nil.hyps by (simp add: cursor_at_def)
  from Nil.prems(2) have p: "(a, b, g) \<in> set (finditer_from r skip i (fst (snd (cursor_at s0 i))) [])"
    unfolding Nil.hyps [symmetric] .
  then have "skip = 0" by (cases "skip = 0") simp_all
  show ?case
  proof (cases "rx_match r (cursor_at s0 i)")
    case Nil
    with p \<open>skip = 0\<close> show ?thesis by (simp add: cur)
  next
    case (Cons m ms)
    obtain j cr g1 where m: "m = ((j, cr), g1)" by (cases m) auto
    from rx_match_at [of i s0 "(j, cr)" g1 r] Cons m Nil.prems(1)
    have j: "(j, cr) = cursor_at s0 j" "i + rx_min r \<le> j" "j \<le> length s0"
      by (auto simp: cursor_at_def)
    from p \<open>skip = 0\<close> Cons m have "(a, b, g) = (i, j, g1)"
      by (simp add: cur)
    with j \<open>skip = 0\<close> Cons m show ?thesis by auto
  qed
next
  case (Cons c s)
  have len: "Suc i \<le> length s0" using Cons.hyps(2) by (metis Suc_leI drop_all leI list.distinct(1))
  have s: "s = drop (Suc i) s0" using Cons.hyps(2) by (metis drop_Suc list.sel(3) tl_drop)
  have c: "c = s0 ! i" using Cons.hyps(2) by (metis hd_drop_conv_nth len Suc_le_lessD list.sel(1))
  have pv: "Some c = fst (snd (cursor_at s0 (Suc i)))" by (simp add: cursor_at_def c)
  have cur: "(i, fst (snd (cursor_at s0 i)), c # s) = cursor_at s0 i"
    using Cons.hyps(2) by (simp add: cursor_at_def)
  note IH = Cons.hyps(1) [OF s len]
  show ?case
  proof (cases "skip = 0")
    case False
    with Cons.prems(2) Cons.hyps(2) [symmetric]
    have "(a, b, g) \<in> set (finditer_from r (skip - 1) (Suc i) (Some c) s)" by simp
    then show ?thesis using IH [of "skip - 1"] False unfolding pv s by auto
  next
    case skip: True
    show ?thesis
    proof (cases "rx_match r (cursor_at s0 i)")
      case Nil
      with skip Cons.prems(2) Cons.hyps(2) [symmetric]
      have "(a, b, g) \<in> set (finditer_from r 0 (Suc i) (Some c) s)" by (simp add: cur)
      then show ?thesis using IH [of 0] skip unfolding pv s by auto
    next
      case (Cons m ms)
      obtain j cr g1 where m: "m = ((j, cr), g1)" by (cases m) auto
      from rx_match_at [of i s0 "(j, cr)" g1 r] Cons m Cons.prems(1)
      have j: "(j, cr) = cursor_at s0 j" "i + rx_min r \<le> j" "j \<le> length s0"
        by (auto simp: cursor_at_def)
      from skip Cons.prems(2) Cons.hyps(2) [symmetric] Cons m
      have "(a, b, g) = (i, j, g1) \<or> (a, b, g) \<in> set (finditer_from r (j - Suc i) (Suc i) (Some c) s)"
        by (simp add: cur)
      then show ?thesis
      proof
        assume "(a, b, g) = (i, j, g1)"
        with j skip Cons m show ?thesis by auto
      next
        assume "(a, b, g) \<in> set (finditer_from r (j - Suc i) (Suc i) (Some c) s)"
        then show ?thesis using IH [of "j - Suc i"] skip unfolding pv s by auto
      qed
    qed
  qed
qed

lemma finditer_in:
  assumes "(a, b, g) \<in> set (finditer r s)"
  shows "a + rx_min r \<le> b" "b \<le> length s" "(cursor_at s b, g) \<in> set (rx_match r (cursor_at s a))"
  using finditer_from_in [of 0 s a b g r 0] assms by (auto simp: finditer_def cursor_at_def)

text \<open>A literal pattern matches exactly its text.\<close>

lemma Chr_match_iff:
  "rx_match (Chr c) (i, pv, s) =
     (case s of [] \<Rightarrow> [] | d # s' \<Rightarrow> if c = d then [((Suc i, Some d, s'), [])] else [])"
  by (cases s) (auto simp: Chr_def max_run_def advance_def)

lemma cursor_at_Cons:
  "drop i s = d # s' \<Longrightarrow> cursor_at s (Suc i) = (Suc i, Some d, s')"
  by (simp add: cursor_at_def) (metis Cons_nth_drop_Suc drop_all leI list.distinct(1) list.inject)

lemma Lit_match:
  "(cur, g) \<in> set (rx_match (Lit t) (cursor_at s i)) \<Longrightarrow>
     cur = cursor_at s (i + length t) \<and> startswith (drop i s) t"
proof (induction t arbitrary: i g)
  case Nil
  then show ?case by (auto simp: Eps_def max_run_def advance_def cursor_at_def)
next
  case (Cons c t)
  from Cons.prems obtain d s' g' where d: "drop i s = d # s'" "c = d"
    "(cur, g') \<in> set (rx_match (Lit t) (Suc i, Some d, s'))"
    by (cases "drop i s") (auto simp: cursor_at_def Chr_match_iff split: if_splits)
  from d(1) have s': "drop (Suc i) s = s'" by (metis drop_Suc list.sel(3) tl_drop)
  from Cons.IH [of g' "Suc i"] d(3) cursor_at_Cons [OF d(1)] s' d(1,2) show ?case by auto
qed

lemma finditer_Lit:
  assumes "(a, b, g) \<in> set (finditer (Lit t) s)"
  shows "b = a + length t" "b \<le> length s" "slice s a b = t"
proof -
  note m = finditer_in [OF assms]
  then have "a \<le> length s" by simp
  from Lit_match [OF m(3)] have "b = a + length t" and st: "startswith (drop a s) t"
    by (auto simp: cursor_at_def)
  then show "b = a + length t" "slice s a b = t"
    by (auto simp: slice_def startswith_iff)
  show "b \<le> length s" by (rule m(2))
qed

end
