(* ===== verification/Pii_Masking.thy ===== *)
theory Pii_Masking
  imports Py_Regex "HOL-Library.Product_Lexorder"
begin

text \<open>
  Model of \<^verbatim>\<open>src/backend/app/services/pii_masking.py\<close>: detection of personal data by label
  and by pattern, resolution of overlapping candidates, assignment of mask tokens and masking.
  Entity types and prefixes are the strings of the source.  \<open>sha\<close> stands for
  \<open>hashlib.sha256(s.encode("utf-8")).hexdigest()\<close>, a native routine; nothing depends on its
  values.
\<close>

subsection \<open>Tables and patterns\<close>

definition MASK_PREFIXES :: "(pystr \<times> pystr) list" where
  "MASK_PREFIXES =
    [(lit ''person'', lit ''PERSON''),
     (lit ''person_name'', lit ''NAME''),
     (lit ''phone'', lit ''PHONE''),
     (lit ''email'', lit ''EMAIL''),
     (lit ''url_query'', lit ''QUERY''),
     (lit ''address'', lit ''ADDRESS''),
     (lit ''date_of_birth'', lit ''BIRTH''),
     (lit ''national_id_number'', lit ''RRN''),
     (lit ''foreigner_registration_number'', lit ''FR_NO''),
     (lit ''business_registration_number'', lit ''BIZ_NO''),
     (lit ''corporate_registration_number'', lit ''CORP_NO''),
     (lit ''account_number'', lit ''ACCOUNT''),
     (lit ''card_number'', lit ''CARD_NO''),
     (lit ''postal_code'', lit ''POSTAL_CODE''),
     (lit ''ip_address'', lit ''IP''),
     (lit ''passport_number'', lit ''PASSPORT''),
     (lit ''driver_license_number'', lit ''LICENSE_NO'')]"

text \<open>The labels, in the source's order: full name, name, worker, employer, representative,
  lessor, lessee; addresses; dates of birth; accounts.\<close>

definition PERSON_LABELS :: "pystr list" where
  "PERSON_LABELS =
    [[49457, 47749, 58], [51060, 47492, 58], [44540, 47196, 51088, 58], [49324, 50857, 51088, 58],
     [45824, 54364, 51088, 58], [51076, 45824, 51064, 58], [51076, 52264, 51064, 58]]"

definition ADDRESS_LABELS :: "pystr list" where
  "ADDRESS_LABELS =
    [[49324, 50629, 51109, 32, 51452, 49548, 58], [44540, 47924, 51648, 32, 51452, 49548, 58],
     [51452, 49548, 58], [49548, 51116, 51648, 58], [44144, 51452, 51648, 58]]"

definition DATE_OF_BIRTH_LABELS :: "pystr list" where
  "DATE_OF_BIRTH_LABELS = [[49373, 45380, 50900, 51068, 58], [49373, 51068, 58]]"

definition ACCOUNT_LABELS :: "pystr list" where
  "ACCOUNT_LABELS = [[44228, 51340, 48264, 54840, 58], [44228, 51340, 58]]"

text \<open>
  The source sorts the set of labels by length; only the minimum over all of them is used, so
  the order of equally long ones does not matter.
\<close>

definition VALUE_BOUNDARY_LABELS :: "pystr list" where
  "VALUE_BOUNDARY_LABELS =
     rev (sort_key length
       (PERSON_LABELS @ ADDRESS_LABELS @ DATE_OF_BIRTH_LABELS @ ACCOUNT_LABELS @
        [[51204, 54868, 48264, 54840, 58], [51060, 47700, 51068, 58], [51452, 48124, 46321, 47197, 48264, 54840, 58],
         [50808, 44397, 51064, 46321, 47197, 48264, 54840, 58], [49324, 50629, 51088, 46321, 47197, 48264, 54840, 58],
         [54924, 49324, 58]]))"

abbreviation dash :: rx where
  "dash \<equiv> Chr 45"

definition is_upper_ascii :: "int \<Rightarrow> bool" where
  "is_upper_ascii c \<longleftrightarrow> 65 \<le> c \<and> c \<le> 90"

definition is_letter_ascii :: "int \<Rightarrow> bool" where
  "is_letter_ascii c \<longleftrightarrow> is_upper_ascii c \<or> (97 \<le> c \<and> c \<le> 122)"

definition PHONE_RE :: rx where
  "PHONE_RE = SeqL [Lit (lit ''010-''), Times 4 is_decimal, dash, Times 4 is_decimal]"

definition EMAIL_RE :: rx where
  "EMAIL_RE = SeqL
     [Many1 (\<lambda>c. is_letter_ascii c \<or> is_ascii_digit c \<or> in_chars (lit ''._%+-'') c),
      Chr 64,
      Many1 (\<lambda>c. is_letter_ascii c \<or> is_ascii_digit c \<or> in_chars (lit ''.-'') c),
      Chr 46, Chars is_letter_ascii 2 None]"

definition PHONE_GENERAL_RE :: rx where
  "PHONE_GENERAL_RE = SeqL
     [WordB,
      Alt (Seq (Lit (lit ''01'')) (Cls (in_chars (lit ''016789''))))
          (SeqL [Chr 48, Cls (\<lambda>c. 50 \<le> c \<and> c \<le> 57), Cls is_decimal]),
      dash, Chars is_decimal 3 (Some 4), dash, Times 4 is_decimal, WordB]"

definition NATIONAL_ID_RE :: rx where
  "NATIONAL_ID_RE = SeqL [WordB, Times 6 is_decimal, dash, Times 7 is_decimal, WordB]"

definition FOREIGNER_ID_RE :: rx where
  "FOREIGNER_ID_RE = SeqL
     [WordB, Times 6 is_decimal, dash, Cls (\<lambda>c. 49 \<le> c \<and> c \<le> 52), Times 6 is_ascii_digit, WordB]"

definition BUSINESS_NUMBER_RE :: rx where
  "BUSINESS_NUMBER_RE = SeqL
     [WordB, Times 3 is_decimal, dash, Times 2 is_decimal, dash, Times 5 is_decimal, WordB]"

definition CORPORATE_NUMBER_RE :: rx where
  "CORPORATE_NUMBER_RE = SeqL [WordB, Times 6 is_decimal, dash, Times 7 is_decimal, WordB]"

definition ACCOUNT_NUMBER_RE :: rx where
  "ACCOUNT_NUMBER_RE = SeqL
     [WordB, Chars is_decimal 3 (Some 6), dash, Chars is_decimal 3 (Some 4), dash,
      Times 4 is_decimal, WordB]"

definition CARD_NUMBER_RE :: rx where
  "CARD_NUMBER_RE = SeqL
     [WordB, Times 4 is_decimal, dash, Times 4 is_decimal, dash, Times 4 is_decimal, dash,
      Times 4 is_decimal, WordB]"

definition POSTAL_CODE_RE :: rx where
  "POSTAL_CODE_RE = SeqL [WordB, Times 5 is_decimal, WordB]"

definition IP_ADDRESS_RE :: rx where
  "IP_ADDRESS_RE = SeqL
     [WordB, Chars is_decimal 1 (Some 3), Chr 46, Chars is_decimal 1 (Some 3), Chr 46,
      Chars is_decimal 1 (Some 3), Chr 46, Chars is_decimal 1 (Some 3), WordB]"

definition PASSPORT_RE :: rx where
  "PASSPORT_RE = SeqL
     [WordB, Chars is_upper_ascii 1 (Some 2), Chars is_decimal 7 (Some 8), WordB]"

text \<open>
  \<open>LICENSE_RE\<close> is a raw string with doubled backslashes: the class excludes the backslash and
  the letters \<open>n\<close>, \<open>r\<close>, \<open>s\<close>, and a literal backslash followed by letters \<open>s\<close> must precede
  the number.
\<close>

definition LICENSE_RE :: rx where
  "LICENSE_RE = SeqL
     [Alt (Lit [47732, 54728]) (Lit [50868, 51204, 47732, 54728]),
      Chars (\<lambda>c. \<not> in_chars [92, 110, 114, 115, 58] c) 0 (Some 6),
      Opt (Chr 58), Chr 92, Many ((=) 115), Chars is_ascii_digit 6 (Some 10)]"

text \<open>Case-insensitive matching of a lower-case ASCII letter, with the extra code points
  \<open>re.IGNORECASE\<close> identifies with \<open>i\<close>, \<open>k\<close> and \<open>s\<close>.\<close>

definition ci_eq :: "int \<Rightarrow> int \<Rightarrow> bool" where
  "ci_eq c d \<longleftrightarrow>
     d = c \<or> d = c - 32 \<or> (c = 105 \<and> (d = 304 \<or> d = 305)) \<or> (c = 107 \<and> d = 8490) \<or>
     (c = 115 \<and> d = 383)"

fun CiLit :: "pystr \<Rightarrow> rx" where
  "CiLit [] = Eps"
| "CiLit (c # s) = Seq (Cls (ci_eq c)) (CiLit s)"

definition URL_QUERY_RE :: rx where
  "URL_QUERY_RE = SeqL
     [Cls (in_chars (lit ''?&'')),
      AltL (map (\<lambda>w. CiLit (lit w))
        [''name'', ''user'', ''email'', ''tel'', ''phone'', ''id'', ''ssn'', ''rrn'', ''acct'', ''account'',
         ''card'', ''bank'', ''license'', ''driver'', ''pass'', ''name'', ''token'', ''key'']),
      Chr 61,
      Many1 (\<lambda>c. \<not> in_chars [38, 92, 115, 83, 383] c)]"

definition MASK_TOKEN_RE :: rx where
  "MASK_TOKEN_RE = SeqL
     [Chr 91, Many1 (\<lambda>c. is_upper_ascii c \<or> c = 95), Chr 95, Many1 is_decimal, Chr 93, AtEnd]"

definition MASK_TOKEN_SPAN_RE :: rx where
  "MASK_TOKEN_SPAN_RE = SeqL
     [Chr 91, Grp 1 (Many1 (\<lambda>c. is_upper_ascii c \<or> c = 95)), Chr 95, Grp 2 (Many1 is_decimal), Chr 93]"

definition ENTITY_TYPE_BY_PREFIX :: "(pystr \<times> pystr) list" where
  "ENTITY_TYPE_BY_PREFIX = map (\<lambda>(entity_type, prefix). (prefix, entity_type)) MASK_PREFIXES"

subsection \<open>Candidates\<close>

record candidate =
  cand_start :: nat
  cand_end :: nat
  cand_type :: pystr
  cand_line_start :: nat
  cand_line_end :: nat
  detection_order :: nat

definition normalize_text :: "pystr \<Rightarrow> pystr result" where
  "normalize_text text =
     (if startswith text [65279] then Inl (ValueError (lit ''UTF-8 BOM is not allowed''))
      else Inr (replace (replace text [13, 10] [10]) [13] [10]))"

fun line_spans_from :: "nat \<Rightarrow> nat \<Rightarrow> pystr list \<Rightarrow> (nat \<times> nat \<times> nat \<times> pystr) list" where
  "line_spans_from n offset [] = []"
| "line_spans_from n offset (line # ls) =
     (let line_body = (if endswith line [10] then butlast line else line)
      in (n, offset, offset + length line_body, line_body)
         # line_spans_from (Suc n) (offset + length line) ls)"

definition line_spans :: "pystr \<Rightarrow> (nat \<times> nat \<times> nat \<times> pystr) list" where
  "line_spans text =
     line_spans_from 1 0 (splitlines_keep [] text) @ (if text = [] then [(1, 0, 0, [])] else [])"

definition line_for_offset :: "pystr \<Rightarrow> nat \<Rightarrow> nat" where
  "line_for_offset text offset = count_char 10 (take offset text) + 1"

definition source_hash_of :: "(pystr \<Rightarrow> pystr) \<Rightarrow> pystr \<Rightarrow> nat \<Rightarrow> nat \<Rightarrow> pystr" where
  "source_hash_of sha text start fin = take 12 (sha (slice text start fin))"

function trim_start :: "pystr \<Rightarrow> nat \<Rightarrow> nat \<Rightarrow> nat" where
  "trim_start text start fin =
     (if start < fin \<and> is_space (text ! start) then trim_start text (Suc start) fin else start)"
  by pat_completeness auto
termination
  by (relation "measure (\<lambda>(text, start, fin). fin - start)") auto

fun trim_end :: "pystr \<Rightarrow> nat \<Rightarrow> nat \<Rightarrow> nat" where
  "trim_end text start 0 = 0"
| "trim_end text start (Suc fin) =
     (if start < Suc fin \<and> is_space (text ! fin) then trim_end text start fin else Suc fin)"

declare trim_start.simps [simp del]

definition trim_span :: "pystr \<Rightarrow> nat \<Rightarrow> nat \<Rightarrow> nat \<times> nat" where
  "trim_span text start fin =
     (let start' = trim_start text start fin in (start', trim_end text start' fin))"

definition value_end_before_next_label :: "pystr \<Rightarrow> nat \<Rightarrow> nat" where
  "value_end_before_next_label line value_start =
     foldl (\<lambda>fin label. case find_from line label value_start of None \<Rightarrow> fin | Some pos \<Rightarrow> min fin pos)
       (length line) VALUE_BOUNDARY_LABELS"

text \<open>
  One label in one line: the \<open>while True\<close> loop.  \<open>search_from\<close> moves past the label found,
  so the loop ends (labels are not empty).  The result is the candidates and the next order.
\<close>

definition label_span ::
  "pystr \<Rightarrow> rx option \<Rightarrow> nat \<Rightarrow> pystr \<Rightarrow> nat \<Rightarrow> (nat \<times> nat) option" where
  "label_span text value_regex line_start line value_start =
     (let (a, b) = trim_span text (line_start + value_start)
                     (line_start + value_end_before_next_label line value_start)
      in case value_regex of
           Some r \<Rightarrow> map_option (\<lambda>(i, j, g). (a + i, a + i + (j - i))) (re_search r (slice text a b))
         | None \<Rightarrow> (if re_fullmatch MASK_TOKEN_RE (slice text a b) \<noteq> None then None else Some (a, b)))"

function label_loop ::
  "pystr \<Rightarrow> pystr \<Rightarrow> rx option \<Rightarrow> nat \<Rightarrow> nat \<Rightarrow> pystr \<Rightarrow> pystr \<Rightarrow> nat \<Rightarrow> nat \<Rightarrow> candidate list \<times> nat" where
  "label_loop text entity_type value_regex line_number line_start line label order search_from =
     (case find_from line label search_from of
        None \<Rightarrow> ([], order)
      | Some label_pos \<Rightarrow>
          if label = [] then ([], order)
          else
            (case label_span text value_regex line_start line (label_pos + length label) of
               Some (a, b) \<Rightarrow>
                 if a < b then
                   (let (cs, order') = label_loop text entity_type value_regex line_number line_start
                          line label (Suc order) (label_pos + length label)
                    in (\<lparr>cand_start = a, cand_end = b, cand_type = entity_type,
                         cand_line_start = line_number, cand_line_end = line_number,
                         detection_order = order\<rparr> # cs, order'))
                 else label_loop text entity_type value_regex line_number line_start line label
                        order (label_pos + length label)
             | None \<Rightarrow> label_loop text entity_type value_regex line_number line_start line label
                        order (label_pos + length label)))"
  by pat_completeness auto
termination
proof (relation "measure (\<lambda>(text, ty, vr, ln, ls, line, label, order, from). length line + 1 - from)")
qed (auto dest: find_from_progress)

declare label_loop.simps [simp del]

fun labels_in_line ::
  "pystr \<Rightarrow> pystr \<Rightarrow> rx option \<Rightarrow> nat \<Rightarrow> nat \<Rightarrow> pystr \<Rightarrow> pystr list \<Rightarrow> nat \<Rightarrow> candidate list \<times> nat" where
  "labels_in_line text entity_type vr line_number line_start line [] order = ([], order)"
| "labels_in_line text entity_type vr line_number line_start line (label # labels) order =
     (let (cs, order1) = label_loop text entity_type vr line_number line_start line label order 0;
          (ds, order2) = labels_in_line text entity_type vr line_number line_start line labels order1
      in (cs @ ds, order2))"

fun labels_in_lines ::
  "pystr \<Rightarrow> pystr \<Rightarrow> rx option \<Rightarrow> pystr list \<Rightarrow> (nat \<times> nat \<times> nat \<times> pystr) list \<Rightarrow> nat \<Rightarrow> candidate list \<times> nat" where
  "labels_in_lines text entity_type vr labels [] order = ([], order)"
| "labels_in_lines text entity_type vr labels ((line_number, line_start, line_end, line) # rest) order =
     (let (cs, order1) = labels_in_line text entity_type vr line_number line_start line labels order;
          (ds, order2) = labels_in_lines text entity_type vr labels rest order1
      in (cs @ ds, order2))"

text \<open>\<open>sorted(labels, key=len, reverse=True)\<close>: longest first, equally long ones in the given order.\<close>

definition sorted_labels :: "pystr list \<Rightarrow> pystr list" where
  "sorted_labels labels = sort_key (\<lambda>l. - int (length l)) labels"

definition labeled_value_candidates ::
  "pystr \<Rightarrow> pystr list \<Rightarrow> pystr \<Rightarrow> nat \<Rightarrow> rx option \<Rightarrow> candidate list \<times> nat" where
  "labeled_value_candidates text labels entity_type order_start value_regex =
     labels_in_lines text entity_type value_regex (sorted_labels labels) (line_spans text) order_start"

fun number_matches :: "pystr \<Rightarrow> pystr \<Rightarrow> nat \<Rightarrow> rmatch list \<Rightarrow> candidate list" where
  "number_matches text entity_type order [] = []"
| "number_matches text entity_type order ((start, fin, g) # ms) =
     \<lparr>cand_start = start, cand_end = fin, cand_type = entity_type,
      cand_line_start = line_for_offset text start,
      cand_line_end = line_for_offset text (fin - 1),
      detection_order = order\<rparr> # number_matches text entity_type (Suc order) ms"

definition regex_candidates :: "pystr \<Rightarrow> rx \<Rightarrow> pystr \<Rightarrow> nat \<Rightarrow> candidate list \<times> nat" where
  "regex_candidates text pattern entity_type order_start =
     (let ms = finditer pattern text
      in (number_matches text entity_type order_start ms, order_start + length ms))"

definition overlaps :: "candidate \<Rightarrow> candidate \<Rightarrow> bool" where
  "overlaps a b \<longleftrightarrow> max (cand_start a) (cand_start b) < min (cand_end a) (cand_end b)"

subsection \<open>Mask tokens already in the text\<close>

record mask_token =
  tok_type :: pystr
  tok_ordinal :: nat
  tok_start :: nat
  tok_end :: nat
  tok_text :: pystr

definition token_of_match :: "pystr \<Rightarrow> rmatch \<Rightarrow> mask_token option" where
  "token_of_match normalized m =
     (case group m 1 of None \<Rightarrow> None | Some prefix \<Rightarrow>
      case map_of ENTITY_TYPE_BY_PREFIX prefix of None \<Rightarrow> None | Some entity_type \<Rightarrow>
      case Option.bind (group m 2) parse_nat of None \<Rightarrow> None | Some ordinal \<Rightarrow>
        if ordinal \<le> 0 then None
        else Some \<lparr>tok_type = entity_type, tok_ordinal = nat ordinal, tok_start = fst m,
                   tok_end = fst (snd m), tok_text = slice normalized (fst m) (fst (snd m))\<rparr>)"

definition find_preexisting_mask_tokens :: "pystr \<Rightarrow> mask_token list result" where
  "find_preexisting_mask_tokens text =
     bind (normalize_text text) (\<lambda>normalized.
       Inr (List.map_filter (token_of_match normalized) (finditer MASK_TOKEN_SPAN_RE normalized)))"

definition overlaps_span :: "candidate \<Rightarrow> mask_token \<Rightarrow> bool" where
  "overlaps_span c t \<longleftrightarrow> max (cand_start c) (tok_start t) < min (cand_end c) (tok_end t)"

subsection \<open>Resolution of overlaps\<close>

definition priority :: "pystr \<Rightarrow> int" where
  "priority entity_type =
     (case map_of
        [(lit ''person'', 10), (lit ''address'', 10), (lit ''date_of_birth'', 10), (lit ''phone'', 9),
         (lit ''account_number'', 6), (lit ''business_registration_number'', 9),
         (lit ''national_id_number'', 8), (lit ''email'', 7)] entity_type of
        None \<Rightarrow> 0 | Some p \<Rightarrow> p)"

definition resolve_key :: "candidate \<Rightarrow> nat \<times> int \<times> int \<times> nat" where
  "resolve_key c =
     (cand_start c, - (int (cand_end c) - int (cand_start c)), - priority (cand_type c), detection_order c)"

definition select_candidate :: "mask_token list \<Rightarrow> candidate list \<Rightarrow> candidate \<Rightarrow> candidate list" where
  "select_candidate protected selected c =
     (if list_ex (overlaps_span c) protected then selected
      else if list_ex (\<lambda>e. cand_start c = cand_start e \<and> cand_end c = cand_end e \<and>
                           cand_type c = cand_type e) selected then selected
      else if list_ex (overlaps c) selected then selected
      else selected @ [c])"

definition deduplicate_and_resolve :: "candidate list \<Rightarrow> mask_token list \<Rightarrow> candidate list" where
  "deduplicate_and_resolve candidates protected =
     sort_key cand_start
       (foldl (select_candidate protected) [] (sort_key resolve_key candidates))"

definition dense_cluster_lines :: "candidate list \<Rightarrow> nat list" where
  "dense_cluster_lines cs =
     filter (\<lambda>l. 3 \<le> length (filter (\<lambda>c. cand_line_start c = l) cs))
       (remdups (map cand_line_start cs))"

subsection \<open>Entities and tokens\<close>

record entity =
  ent_ordinal :: nat
  entity_type :: pystr
  start_offset :: nat
  end_offset :: nat
  source_line_start :: nat
  source_line_end :: nat
  ent_token :: pystr
  source_hash :: pystr
  warnings :: "pystr list"

fun entities_of ::
  "(pystr \<Rightarrow> pystr) \<Rightarrow> pystr \<Rightarrow> nat list \<Rightarrow> nat \<Rightarrow> candidate list \<Rightarrow> entity list" where
  "entities_of sha text dense n [] = []"
| "entities_of sha text dense n (c # cs) =
     \<lparr>ent_ordinal = n, entity_type = cand_type c, start_offset = cand_start c,
      end_offset = cand_end c, source_line_start = cand_line_start c,
      source_line_end = cand_line_end c, ent_token = [],
      source_hash = source_hash_of sha text (cand_start c) (cand_end c),
      warnings = (if List.member dense (cand_line_start c) then [lit ''dense_cluster''] else [])\<rparr>
     # entities_of sha text dense (Suc n) cs"

definition highest_preexisting_ordinal_by_type :: "mask_token list \<Rightarrow> pystr \<Rightarrow> nat option" where
  "highest_preexisting_ordinal_by_type tokens =
     foldl (\<lambda>m t. case m (tok_type t) of None \<Rightarrow> m
                    | Some h \<Rightarrow> m(tok_type t \<mapsto> max h (tok_ordinal t)))
       (map_of (map (\<lambda>(ty, p). (ty, 0)) MASK_PREFIXES)) tokens"

definition make_token :: "pystr \<Rightarrow> nat \<Rightarrow> pystr" where
  "make_token prefix n = [91] @ prefix @ [95] @ nat_digits n @ [93]"

fun assign_loop ::
  "pystr \<Rightarrow> (pystr \<Rightarrow> nat option) \<Rightarrow> (pystr \<times> pystr \<Rightarrow> pystr option) \<Rightarrow> entity list \<Rightarrow> entity list result" where
  "assign_loop text next_number token_by_value [] = Inr []"
| "assign_loop text next_number token_by_value (e # es) =
     (let ty = entity_type e; key = (ty, slice text (start_offset e) (end_offset e))
      in case token_by_value key of
           Some token \<Rightarrow>
             bind (assign_loop text next_number token_by_value es) (\<lambda>rest.
               Inr (e\<lparr>ent_token := token,
                      warnings := (if List.member (warnings e) (lit ''repeated_value'') then warnings e
                                   else warnings e @ [lit ''repeated_value''])\<rparr> # rest))
         | None \<Rightarrow>
             (case (map_of MASK_PREFIXES ty, next_number ty) of
                (Some prefix, Some n) \<Rightarrow>
                  (let token = make_token prefix n
                   in bind (assign_loop text (next_number(ty \<mapsto> Suc n)) (token_by_value(key \<mapsto> token)) es)
                        (\<lambda>rest. Inr (e\<lparr>ent_token := token\<rparr> # rest)))
              | _ \<Rightarrow> Inl (KeyError ty)))"

definition assign_mask_tokens :: "pystr \<Rightarrow> entity list \<Rightarrow> mask_token list \<Rightarrow> entity list result" where
  "assign_mask_tokens text entities preexisting_tokens =
     assign_loop text
       (\<lambda>ty. map_option Suc (highest_preexisting_ordinal_by_type preexisting_tokens ty))
       (\<lambda>_. None) entities"

subsection \<open>Detection and masking\<close>

definition label_detectors :: "(pystr list \<times> pystr \<times> rx option) list" where
  "label_detectors =
    [(PERSON_LABELS, lit ''person'', None),
     (ADDRESS_LABELS, lit ''address'', None),
     (DATE_OF_BIRTH_LABELS, lit ''date_of_birth'', None),
     (ACCOUNT_LABELS, lit ''account_number'', Some ACCOUNT_NUMBER_RE)]"

definition pattern_detectors :: "(rx \<times> pystr) list" where
  "pattern_detectors =
    [(BUSINESS_NUMBER_RE, lit ''business_registration_number''),
     (CORPORATE_NUMBER_RE, lit ''corporate_registration_number''),
     (NATIONAL_ID_RE, lit ''national_id_number''),
     (FOREIGNER_ID_RE, lit ''foreigner_registration_number''),
     (PHONE_RE, lit ''phone''),
     (PHONE_GENERAL_RE, lit ''phone''),
     (CARD_NUMBER_RE, lit ''card_number''),
     (IP_ADDRESS_RE, lit ''ip_address''),
     (POSTAL_CODE_RE, lit ''postal_code''),
     (ACCOUNT_NUMBER_RE, lit ''account_number''),
     (PASSPORT_RE, lit ''passport_number''),
     (LICENSE_RE, lit ''driver_license_number''),
     (URL_QUERY_RE, lit ''url_query''),
     (EMAIL_RE, lit ''email'')]"

fun run_label_detectors ::
  "pystr \<Rightarrow> (pystr list \<times> pystr \<times> rx option) list \<Rightarrow> nat \<Rightarrow> candidate list \<times> nat" where
  "run_label_detectors text [] order = ([], order)"
| "run_label_detectors text ((labels, ty, regex) # ds) order =
     (let (cs, order1) = labeled_value_candidates text labels ty order regex;
          (rest, order2) = run_label_detectors text ds order1
      in (cs @ rest, order2))"

fun run_pattern_detectors :: "pystr \<Rightarrow> (rx \<times> pystr) list \<Rightarrow> nat \<Rightarrow> candidate list \<times> nat" where
  "run_pattern_detectors text [] order = ([], order)"
| "run_pattern_detectors text ((pattern, ty) # ds) order =
     (let (cs, order1) = regex_candidates text pattern ty order;
          (rest, order2) = run_pattern_detectors text ds order1
      in (cs @ rest, order2))"

definition all_candidates :: "pystr \<Rightarrow> candidate list" where
  "all_candidates text =
     (let (cs, order) = run_label_detectors text label_detectors 0
      in cs @ fst (run_pattern_detectors text pattern_detectors order))"

definition preexisting_if :: "bool \<Rightarrow> pystr \<Rightarrow> mask_token list result" where
  "preexisting_if avoid text = (if avoid then find_preexisting_mask_tokens text else Inr [])"

definition detect_entities :: "(pystr \<Rightarrow> pystr) \<Rightarrow> pystr \<Rightarrow> bool \<Rightarrow> entity list result" where
  "detect_entities sha text avoid_preexisting_token_collisions =
     bind (normalize_text text) (\<lambda>normalized.
     bind (preexisting_if avoid_preexisting_token_collisions normalized) (\<lambda>tokens.
       let resolved = deduplicate_and_resolve (all_candidates normalized) tokens;
           dense = dense_cluster_lines resolved
       in assign_mask_tokens normalized (entities_of sha normalized dense 1 resolved) tokens))"

fun mask_parts :: "pystr \<Rightarrow> nat \<Rightarrow> entity list \<Rightarrow> pystr list" where
  "mask_parts text from [] = [drop from text]"
| "mask_parts text from (e # es) =
     slice text from (start_offset e) # ent_token e # mask_parts text (end_offset e) es"

definition mask_text :: "pystr \<Rightarrow> entity list \<Rightarrow> pystr result" where
  "mask_text text entities =
     bind (normalize_text text) (\<lambda>normalized.
       Inr (concat (mask_parts normalized 0 (sort_key start_offset entities))))"

text \<open>\<open>int(token.rsplit("_", 1)[1].rstrip("]"))\<close>.\<close>

definition token_number :: "pystr \<Rightarrow> int option" where
  "token_number token =
     parse_nat (rev (dropWhile ((=) 93) (takeWhile (\<lambda>c. c \<noteq> 95) (rev token))))"

record masking_result =
  mr_entities :: "entity list"
  masked_text :: pystr
  masked_text_sha256 :: pystr
  mr_document_warnings :: "pystr list"
  preexisting_token_count :: nat
  highest_by_prefix :: "pystr \<Rightarrow> nat option"
  token_collision_avoided :: bool
  preservation_failures :: nat
  reused_reserved_ordinal_count :: nat

definition positive_highest :: "mask_token list \<Rightarrow> pystr \<Rightarrow> nat option" where
  "positive_highest tokens ty =
     (case highest_preexisting_ordinal_by_type tokens ty of
        None \<Rightarrow> None | Some h \<Rightarrow> if 0 < h then Some h else None)"

definition reserved_ordinals_by_type :: "mask_token list \<Rightarrow> pystr \<Rightarrow> nat option" where
  "reserved_ordinals_by_type tokens prefix =
     map_of (List.map_filter (\<lambda>(ty, p). map_option (Pair p) (positive_highest tokens ty))
               (rev MASK_PREFIXES)) prefix"

definition reuses_reserved :: "(pystr \<Rightarrow> nat option) \<Rightarrow> entity \<Rightarrow> bool result" where
  "reuses_reserved reserved e =
     (case map_of MASK_PREFIXES (entity_type e) of
        None \<Rightarrow> Inl (KeyError (entity_type e))
      | Some prefix \<Rightarrow>
          (case token_number (ent_token e) of
             None \<Rightarrow> Inl (ValueError (lit ''invalid literal for int()''))
           | Some n \<Rightarrow> Inr (case reserved prefix of None \<Rightarrow> False | Some h \<Rightarrow> n \<le> int h)))"

definition detect_and_mask :: "(pystr \<Rightarrow> pystr) \<Rightarrow> pystr \<Rightarrow> bool \<Rightarrow> masking_result result" where
  "detect_and_mask sha text avoid =
     bind (normalize_text text) (\<lambda>normalized.
     bind (preexisting_if avoid normalized) (\<lambda>tokens.
     bind (detect_entities sha normalized avoid) (\<lambda>entities.
     bind (mask_text normalized entities) (\<lambda>masked.
     bind (map_result (reuses_reserved (reserved_ordinals_by_type tokens)) entities) (\<lambda>reused.
       let reused_reserved = length (filter id reused);
           failures = length (filter (\<lambda>t. \<not> contains masked (slice normalized (tok_start t) (tok_end t))) tokens)
       in Inr \<lparr>mr_entities = entities, masked_text = masked, masked_text_sha256 = sha masked,
               mr_document_warnings = (if entities = [] then [lit ''no_pii_detected''] else []),
               preexisting_token_count = length tokens,
               highest_by_prefix = reserved_ordinals_by_type tokens,
               token_collision_avoided = (reused_reserved = 0 \<and> failures = 0),
               preservation_failures = failures,
               reused_reserved_ordinal_count = reused_reserved\<rparr>)))))"

end
