(* ===== verification/Pii_Masking_Spans.thy ===== *)
theory Pii_Masking_Spans
  imports Pii_Masking
begin

text \<open>
  Where the detected entities lie: candidates are non-empty and inside the text, resolution
  keeps a sorted, pairwise disjoint subset that touches no mask token already present.  The
  locale \<open>span_source\<close> is the contract masking needs of a detector; the resolved candidates
  and the preexisting tokens provide it.
\<close>

subsection \<open>The contract of a span source\<close>

text \<open>\<open>weave [g0, g1, .., gn] [p1, .., pn]\<close> is the text \<open>g0 p1 g1 .. pn gn\<close>.\<close>

fun weave :: "pystr list \<Rightarrow> pystr list \<Rightarrow> pystr" where
  "weave (g # gs) (p # ps) = g @ p @ weave gs ps"
| "weave [g] [] = g"
| "weave gs ps = []"

text \<open>The text between the spans, from a position on.\<close>

fun gaps :: "('a \<Rightarrow> nat) \<Rightarrow> ('a \<Rightarrow> nat) \<Rightarrow> pystr \<Rightarrow> nat \<Rightarrow> 'a list \<Rightarrow> pystr list" where
  "gaps lo hi s i [] = [drop i s]"
| "gaps lo hi s i (x # xs) = slice s i (lo x) # gaps lo hi s (hi x) xs"

lemma length_gaps [simp]: "length (gaps lo hi s i xs) = Suc (length xs)"
  by (induction xs arbitrary: i) auto

lemma weave_gaps:
  assumes "sorted_wrt (\<lambda>x y. hi x \<le> lo y) xs" "\<forall>x\<in>set xs. lo x < hi x \<and> hi x \<le> length s"
    "\<forall>x\<in>set xs. i \<le> lo x"
  shows "weave (gaps lo hi s i xs) (map (\<lambda>x. slice s (lo x) (hi x)) xs) = drop i s"
  using assms
proof (induction xs arbitrary: i)
  case (Cons x xs)
  then have IH: "weave (gaps lo hi s (hi x) xs) (map (\<lambda>x. slice s (lo x) (hi x)) xs) = drop (hi x) s"
    by auto
  from Cons.prems have "i \<le> lo x" "lo x \<le> hi x" by auto
  then show ?case by (simp add: IH slice_append_drop)
qed simp

locale span_source =
  fixes scan :: "pystr \<Rightarrow> 'a list" and lo hi :: "'a \<Rightarrow> nat"
  assumes in_text: "x \<in> set (scan s) \<Longrightarrow> lo x < hi x \<and> hi x \<le> length s"
    and ordered: "sorted_wrt (\<lambda>x y. hi x \<le> lo y) (scan s)"
begin

text \<open>Putting each span's own text between the gaps gives the text back.\<close>

lemma rebuild: "weave (gaps lo hi s 0 (scan s)) (map (\<lambda>x. slice s (lo x) (hi x)) (scan s)) = s"
  using weave_gaps [of hi lo "scan s" s 0] in_text ordered by auto

lemma disjoint:
  assumes "i < j" "j < length (scan s)"
  shows "hi (scan s ! i) \<le> lo (scan s ! j)"
  using assms ordered by (simp add: sorted_wrt_iff_nth_less)

lemma starts_sorted: "sorted (map lo (scan s))"
proof -
  have "sorted_wrt (\<lambda>x y. lo x \<le> lo y) (scan s)"
    by (rule sorted_wrt_mono_rel [OF _ ordered]) (use in_text in fastforce)
  then show ?thesis by (simp add: sorted_map)
qed

end

subsection \<open>Candidates lie in the text\<close>

definition known_type :: "pystr \<Rightarrow> bool" where
  "known_type ty \<longleftrightarrow> map_of MASK_PREFIXES ty \<noteq> None"

definition good_candidate :: "pystr \<Rightarrow> candidate \<Rightarrow> bool" where
  "good_candidate text c \<longleftrightarrow>
     cand_start c < cand_end c \<and> cand_end c \<le> length text \<and> known_type (cand_type c)"

lemma trim_start_ge: "start \<le> trim_start text start fin"
proof (induction "text" start fin rule: trim_start.induct)
  case (1 tx start fin)
  then show ?case
    by (cases "start < fin \<and> is_space (tx ! start)") (auto simp: trim_start.simps [of tx start fin])
qed

lemma trim_end_le: "trim_end text start fin \<le> fin"
  by (induction "text" start fin rule: trim_end.induct) auto

lemma trim_span_end: "trim_span text start fin = (a, b) \<Longrightarrow> b \<le> fin"
  by (auto simp: trim_span_def Let_def trim_end_le)

lemma line_spans_from_in:
  "(n, a, b, line) \<in> set (line_spans_from k offset ls) \<Longrightarrow>
     b = a + length line \<and> b \<le> offset + length (concat ls)"
proof (induction k offset ls rule: line_spans_from.induct)
  case (2 k offset l ls)
  have "(if endswith l [10] then length l - 1 else length l) \<le> length l" by simp
  with 2 show ?case by (auto simp: Let_def split: if_splits)
qed simp

lemma line_spans_in:
  "(n, a, b, line) \<in> set (line_spans text) \<Longrightarrow> a + length line \<le> length text"
  using line_spans_from_in [of n a b line 1 0 "splitlines_keep [] text"]
  by (auto simp: line_spans_def concat_splitlines_keep split: if_splits)

lemma foldl_min_le:
  "foldl (\<lambda>fin l. case f l of None \<Rightarrow> fin | Some p \<Rightarrow> min fin p) m ls \<le> (m :: nat)"
proof (induction ls arbitrary: m)
  case (Cons l ls)
  show ?case
  proof (cases "f l")
    case None
    then show ?thesis using Cons by simp
  next
    case (Some p)
    have "foldl (\<lambda>fin l. case f l of None \<Rightarrow> fin | Some p \<Rightarrow> min fin p) (min m p) ls \<le> min m p"
      by (rule Cons)
    then show ?thesis using Some by simp
  qed
qed simp

lemma value_end_le: "value_end_before_next_label line v \<le> length line"
  unfolding value_end_before_next_label_def by (rule foldl_min_le)

lemma label_span_end:
  assumes "label_span text vr line_start line v = Some (a, b)" "a < b"
  shows "b \<le> line_start + length line"
proof -
  obtain p q where pq: "trim_span text (line_start + v)
      (line_start + value_end_before_next_label line v) = (p, q)"
    by (cases "trim_span text (line_start + v) (line_start + value_end_before_next_label line v)")
  from trim_span_end [OF pq] value_end_le [of line v] have q: "q \<le> line_start + length line"
    by simp
  show ?thesis
  proof (cases vr)
    case None
    with assms(1) pq q show ?thesis by (auto simp: label_span_def split: if_splits)
  next
    case (Some r)
    with assms(1) pq obtain i j g where m: "re_search r (slice text p q) = Some (i, j, g)"
      "a = p + i" "b = p + i + (j - i)" by (auto simp: label_span_def)
    then have "(i, j, g) \<in> set (finditer r (slice text p q))"
      by (auto simp: re_search_def split: list.splits)
    from finditer_in [OF this] have "i \<le> j" "j \<le> length (slice text p q)" by auto
    moreover have "length (slice text p q) \<le> q - p" by (simp add: slice_def)
    ultimately show ?thesis using m assms(2) q by auto
  qed
qed

lemma label_loop_good:
  assumes "line_start + length line \<le> length text" "known_type ty"
    "c \<in> set (fst (label_loop text ty vr ln line_start line label order from))"
  shows "good_candidate text c"
  using assms
proof (induction "text" ty vr ln line_start line label order "from" rule: label_loop.induct)
  case (1 tx ty vr ln line_start line label order "from")
  show ?case
  proof (cases "find_from line label from")
    case None
    with "1.prems" show ?thesis by (simp add: label_loop.simps [of tx ty vr ln line_start line label order "from"])
  next
    case (Some p)
    note simps = label_loop.simps [of tx ty vr ln line_start line label order "from"]
    show ?thesis
    proof (cases "label = []")
      case True
      with Some have "label_loop tx ty vr ln line_start line label order from = ([], order)"
        by (subst simps) simp
      with "1.prems"(3) show ?thesis by simp
    next
      case ne: False
      show ?thesis
      proof (cases "label_span tx vr line_start line (p + length label)")
        case None
        with "1.prems" Some ne have "c \<in> set (fst (label_loop tx ty vr ln line_start line label order (p + length label)))"
          by (simp add: simps)
        with "1.IH" Some ne None "1.prems"(1,2) show ?thesis by blast
      next
        case (Some ab)
        obtain a b where ab: "ab = (a, b)" by (cases ab)
        show ?thesis
        proof (cases "a < b")
          case True
          obtain cs o' where rec: "label_loop tx ty vr ln line_start line label (Suc order) (p + length label) = (cs, o')"
            by (cases "label_loop tx ty vr ln line_start line label (Suc order) (p + length label)")
          from "1.prems"(3) \<open>find_from line label from = Some p\<close> ne Some ab True rec
          consider "cand_start c = a \<and> cand_end c = b \<and> cand_type c = ty" | "c \<in> set cs" by (auto simp: simps)
          then show ?thesis
          proof cases
            case 1
            with label_span_end [OF Some [unfolded ab] True] True "1.prems"(1,2) show ?thesis
              by (auto simp: good_candidate_def)
          next
            case 2
            with "1.IH" \<open>find_from line label from = Some p\<close> ne Some ab True "1.prems"(1,2) rec
            show ?thesis by (metis fst_conv)
          qed
        next
          case False
          with "1.prems" \<open>find_from line label from = Some p\<close> ne Some ab
          have "c \<in> set (fst (label_loop tx ty vr ln line_start line label order (p + length label)))"
            by (simp add: simps)
          with "1.IH" \<open>find_from line label from = Some p\<close> ne Some ab False "1.prems"(1,2)
          show ?thesis by blast
        qed
      qed
    qed
  qed
qed

lemma labels_in_line_good:
  assumes "line_start + length line \<le> length text" "known_type ty"
  shows "c \<in> set (fst (labels_in_line text ty vr ln line_start line labels order)) \<Longrightarrow> good_candidate text c"
proof (induction labels arbitrary: order)
  case (Cons l ls)
  then show ?case using label_loop_good [OF assms, of c vr ln l order 0]
    by (auto simp: Let_def split_beta)
qed simp

lemma labels_in_lines_good:
  assumes "\<forall>(n, a, b, line)\<in>set spans. a + length line \<le> length text"
    "known_type ty" "c \<in> set (fst (labels_in_lines text ty vr labels spans order))"
  shows "good_candidate text c"
  using assms
proof (induction spans arbitrary: order)
  case (Cons sp spans)
  obtain n a b line where sp: "sp = (n, a, b, line)" by (cases sp) auto
  with Cons.prems(1) have "a + length line \<le> length text" by simp
  note line = labels_in_line_good [OF this Cons.prems(2)]
  obtain cs o1 ds o2 where eq: "labels_in_line text ty vr n a line labels order = (cs, o1)"
    "labels_in_lines text ty vr labels spans o1 = (ds, o2)" by fastforce
  with Cons.prems(3) sp consider "c \<in> set cs" | "c \<in> set ds" by auto
  then show ?case
  proof cases
    case 1
    with line [of c vr n labels order] eq show ?thesis by simp
  next
    case 2
    with Cons.IH [of o1] Cons.prems(1,2) eq show ?thesis by simp
  qed
qed simp

lemma labeled_good:
  "known_type ty \<Longrightarrow> c \<in> set (fst (labeled_value_candidates text labels ty order vr)) \<Longrightarrow> good_candidate text c"
  unfolding labeled_value_candidates_def
  by (rule labels_in_lines_good [where ty = ty]) (auto dest: line_spans_in)

lemma run_label_good:
  "list_all (\<lambda>(ls, ty, r). known_type ty) ds \<Longrightarrow> c \<in> set (fst (run_label_detectors s ds order)) \<Longrightarrow> good_candidate s c"
proof (induction ds arbitrary: order)
  case (Cons d ds)
  obtain labels ty regex where d: "d = (labels, ty, regex)" by (cases d)
  from Cons show ?case using labeled_good [of ty c s labels order regex]
    by (auto simp: d Let_def split_beta)
qed simp

lemma number_matches_in:
  "c \<in> set (number_matches s ty order ms) \<Longrightarrow>
     cand_type c = ty \<and> (\<exists>g. (cand_start c, cand_end c, g) \<in> set ms)"
  by (induction s ty order ms rule: number_matches.induct) auto

lemma regex_candidates_good:
  assumes "c \<in> set (fst (regex_candidates s r ty order))" "0 < rx_min r \<and> known_type ty"
  shows "good_candidate s c"
proof -
  from assms(1) obtain g where "cand_type c = ty" "(cand_start c, cand_end c, g) \<in> set (finditer r s)"
    by (auto simp: regex_candidates_def Let_def dest!: number_matches_in)
  with finditer_in(1,2) [OF this(2)] assms(2) show ?thesis by (simp add: good_candidate_def)
qed

lemma run_pattern_good:
  "list_all (\<lambda>(r, ty). 0 < rx_min r \<and> known_type ty) ds \<Longrightarrow>
   c \<in> set (fst (run_pattern_detectors s ds order)) \<Longrightarrow> good_candidate s c"
proof (induction ds arbitrary: order)
  case (Cons d ds)
  obtain r ty where d: "d = (r, ty)" by (cases d)
  from Cons show ?case using regex_candidates_good [of c s r ty order]
    by (auto simp: d Let_def split_beta)
qed simp

lemma label_detectors_known: "list_all (\<lambda>(ls, ty, r). known_type ty) label_detectors"
  by code_simp

lemma pattern_detectors_min: "list_all (\<lambda>(r, ty). 0 < rx_min r \<and> known_type ty) pattern_detectors"
  by code_simp

lemma all_candidates_good: "c \<in> set (all_candidates s) \<Longrightarrow> good_candidate s c"
  using run_label_good [OF label_detectors_known, of c s 0] run_pattern_good [OF pattern_detectors_min, of c s]
  by (auto simp: all_candidates_def Let_def split_beta)

subsection \<open>Resolution\<close>

lemma overlaps_sym: "overlaps a b \<longleftrightarrow> overlaps b a"
  by (auto simp: overlaps_def)

lemma sorted_resolve_key:
  "sorted (map cand_start (sort_key resolve_key cs))"
proof -
  have "sorted_wrt (\<lambda>a b. resolve_key a \<le> resolve_key b) (sort_key resolve_key cs)"
    using sorted_sort_key [of resolve_key cs] by (simp add: sorted_map)
  then have "sorted_wrt (\<lambda>a b. cand_start a \<le> cand_start b) (sort_key resolve_key cs)"
    by (rule sorted_wrt_mono_rel [rotated]) (auto simp: resolve_key_def less_eq_prod_def)
  then show ?thesis by (simp add: sorted_map)
qed

text \<open>What the selection loop keeps of its result: sorted, disjoint, clear of protected spans.\<close>

definition resolved_inv :: "pystr \<Rightarrow> mask_token list \<Rightarrow> candidate list \<Rightarrow> bool" where
  "resolved_inv text protected sel \<longleftrightarrow>
     sorted_wrt (\<lambda>a b. cand_end a \<le> cand_start b) sel \<and>
     (\<forall>c\<in>set sel. good_candidate text c \<and> (\<forall>t\<in>set protected. \<not> overlaps_span c t))"

lemma select_candidate_inv:
  assumes "resolved_inv text protected sel" "good_candidate text c"
    "\<forall>a\<in>set sel. cand_start a \<le> cand_start c"
  shows "resolved_inv text protected (select_candidate protected sel c)"
proof (cases "list_ex (overlaps_span c) protected \<or> list_ex (overlaps c) sel")
  case True
  with assms(1) show ?thesis by (auto simp: select_candidate_def)
next
  case False
  have "cand_end a \<le> cand_start c" if a: "a \<in> set sel" for a
  proof -
    from False a have "\<not> overlaps c a" by (auto simp: list_ex_iff)
    moreover from assms a have "cand_start a \<le> cand_start c" "good_candidate text a"
      by (auto simp: resolved_inv_def)
    ultimately show ?thesis using assms(2)
      by (auto simp: overlaps_def good_candidate_def max_def min_def split: if_splits)
  qed
  with False assms show ?thesis
    by (auto simp: select_candidate_def resolved_inv_def sorted_wrt_append list_ex_iff)
qed

lemma set_select_candidate: "set (select_candidate p sel c) \<subseteq> insert c (set sel)"
  by (auto simp: select_candidate_def)

lemma select_all_inv:
  assumes "resolved_inv text protected sel" "\<forall>c\<in>set cs. good_candidate text c"
    "sorted (map cand_start cs)" "\<forall>a\<in>set sel. \<forall>c\<in>set cs. cand_start a \<le> cand_start c"
  shows "resolved_inv text protected (foldl (select_candidate protected) sel cs)"
  using assms
proof (induction cs arbitrary: sel)
  case (Cons c cs)
  have "resolved_inv text protected (select_candidate protected sel c)"
    using Cons.prems by (intro select_candidate_inv) auto
  moreover have "\<forall>a\<in>set (select_candidate protected sel c). \<forall>d\<in>set cs. cand_start a \<le> cand_start d"
    using Cons.prems(3,4) set_select_candidate [of protected sel c] by auto
  ultimately show ?case using Cons.IH Cons.prems(2,3) by simp
qed simp

lemma resolved_inv_sorted:
  assumes "resolved_inv text protected sel"
  shows "sorted (map cand_start sel)"
proof -
  from assms have "sorted_wrt (\<lambda>a b. cand_end a \<le> cand_start b) sel"
    and good: "\<And>c. c \<in> set sel \<Longrightarrow> cand_start c < cand_end c"
    by (auto simp: resolved_inv_def good_candidate_def)
  then have "sorted_wrt (\<lambda>a b. cand_start a \<le> cand_start b) sel"
    by (elim sorted_wrt_mono_rel [rotated]) (use good in fastforce)
  then show ?thesis by (simp add: sorted_map)
qed

lemma deduplicate_inv:
  assumes "\<forall>c\<in>set cs. good_candidate text c"
  shows "resolved_inv text protected (deduplicate_and_resolve cs protected)"
proof -
  have "resolved_inv text protected (foldl (select_candidate protected) [] (sort_key resolve_key cs))"
    using assms by (intro select_all_inv) (auto simp: resolved_inv_def sorted_resolve_key)
  with resolved_inv_sorted [OF this] show ?thesis
    by (simp add: deduplicate_and_resolve_def sort_key_id_if_sorted)
qed

lemma resolved_all: "resolved_inv s tokens (deduplicate_and_resolve (all_candidates s) tokens)"
  by (rule deduplicate_inv) (blast intro: all_candidates_good)

lemma resolved_good:
  "c \<in> set (deduplicate_and_resolve (all_candidates s) tokens) \<Longrightarrow> good_candidate s c"
  using resolved_all [of s tokens] by (simp add: resolved_inv_def)

lemma resolved_clear:
  "c \<in> set (deduplicate_and_resolve (all_candidates s) tokens) \<Longrightarrow> t \<in> set tokens \<Longrightarrow> \<not> overlaps_span c t"
  using resolved_all [of s tokens] by (simp add: resolved_inv_def)

text \<open>The resolved candidates of a text are a span source.\<close>

interpretation resolved: span_source
  "\<lambda>s. deduplicate_and_resolve (all_candidates s) tokens" cand_start cand_end
  for tokens
  by unfold_locales (use resolved_all in \<open>auto simp: resolved_inv_def good_candidate_def\<close>)

end
