(* ===== verification/Pii_Masking_Correct.thy ===== *)
theory Pii_Masking_Correct
  imports Pii_Masking_Spans
begin

text \<open>
  Correctness of PII detection and masking: detection fails only on a byte order mark, spans are
  disjoint and inside the text, equal values share a token and different values do not, masking
  changes nothing outside the spans, and tokens already present survive with numbers no new
  token reuses.
\<close>

subsection \<open>Normalisation\<close>

lemma crlf_no_bom: "startswith (replace s [13, 10] [10]) [65279] \<longleftrightarrow> startswith s [65279]"
  by (cases s) (auto simp: replace_Cons)

lemma normalize_cases:
  "normalize_text s =
     (if startswith s [65279] then Inl (ValueError (lit ''UTF-8 BOM is not allowed''))
      else Inr (map (\<lambda>c. if c = 13 then 10 else c) (replace s [13, 10] [10])))"
  by (simp add: normalize_text_def replace_char)

lemma not_contains_head: "x \<notin> set s \<Longrightarrow> x \<in> set p \<Longrightarrow> \<not> contains s p"
  by (auto simp: contains_iff)

lemma normalize_idem:
  assumes "normalize_text s = Inr n"
  shows "normalize_text n = Inr n"
proof -
  from assms have n: "n = map (\<lambda>c. if c = 13 then 10 else c) (replace s [13, 10] [10])"
    and bom: "\<not> startswith s [65279]" by (auto simp: normalize_cases split: if_splits)
  then have no13: "13 \<notin> set n" by auto
  have "\<not> startswith n [65279]"
    using bom crlf_no_bom [of s] unfolding n by (cases "replace s [13, 10] [10]") auto
  moreover have "replace n [13, 10] [10] = n"
    using no13 by (intro replace_absent) (simp, rule not_contains_head, auto)
  moreover have "replace n [13] [10] = n"
    using no13 by (intro replace_absent) (simp, rule not_contains_head, auto)
  ultimately show ?thesis by (simp add: normalize_text_def)
qed

lemma normalize_no_cr: "normalize_text s = Inr n \<Longrightarrow> 13 \<notin> set n"
  by (auto simp: normalize_cases split: if_splits)

lemma preexisting_total:
  "normalize_text n = Inr n \<Longrightarrow> \<exists>ts. preexisting_if av n = Inr ts"
  by (simp add: preexisting_if_def find_preexisting_mask_tokens_def)

subsection \<open>Mask tokens\<close>

lemma token_number_make_token [simp]: "token_number (make_token p n) = Some (int n)"
proof -
  have nd: "\<forall>c\<in>set (rev (nat_digits n)). c \<noteq> 95 \<and> c \<noteq> 93"
    using nat_digits_ascii [of _ n] by (fastforce simp: is_ascii_digit_def)
  have "takeWhile (\<lambda>c. c \<noteq> 95) (rev (make_token p n)) = 93 # rev (nat_digits n)"
    using nd takeWhile_append2 [of "rev (nat_digits n)" "\<lambda>c. c \<noteq> 95" "95 # rev p @ [91]"]
    by (simp add: make_token_def)
  moreover have "dropWhile ((=) 93) (93 # rev (nat_digits n)) = rev (nat_digits n)"
    using nd by (cases "rev (nat_digits n)") auto
  ultimately show ?thesis by (simp add: token_number_def)
qed

lemma make_token_inj [simp]: "make_token p n = make_token q m \<longleftrightarrow> p = q \<and> n = m"
proof
  assume eq: "make_token p n = make_token q m"
  then have "int n = int m" by (metis option.inject token_number_make_token)
  with eq show "p = q \<and> n = m" by (simp add: make_token_def)
qed simp

lemma distinct_prefixes: "distinct (map snd MASK_PREFIXES)"
  by (simp add: MASK_PREFIXES_def)

lemma distinct_types: "distinct (map fst MASK_PREFIXES)"
  by (simp add: MASK_PREFIXES_def)

lemma prefix_inj:
  assumes "map_of MASK_PREFIXES a = Some p" "map_of MASK_PREFIXES b = Some p"
  shows "a = b"
proof -
  from assms have "(a, p) \<in> set MASK_PREFIXES" "(b, p) \<in> set MASK_PREFIXES"
    by (auto dest: map_of_SomeD)
  then show ?thesis using distinct_prefixes by (metis distinct_map inj_onD prod.inject snd_conv)
qed

text \<open>Highest ordinals: known types stay known and every token counts.\<close>

definition highest_step :: "(pystr \<Rightarrow> nat option) \<Rightarrow> mask_token \<Rightarrow> pystr \<Rightarrow> nat option" where
  "highest_step m t = (case m (tok_type t) of None \<Rightarrow> m | Some h \<Rightarrow> m(tok_type t \<mapsto> max h (tok_ordinal t)))"

lemma highest_foldl:
  "(foldl highest_step m ts ty = None \<longleftrightarrow> m ty = None) \<and>
   (\<forall>h. m ty = Some h \<longrightarrow> (\<exists>h'. foldl highest_step m ts ty = Some h' \<and> h \<le> h'))"
proof (induction ts arbitrary: m)
  case (Cons t ts)
  have "(highest_step m t ty = None \<longleftrightarrow> m ty = None) \<and>
    (\<forall>h. m ty = Some h \<longrightarrow> (\<exists>h'. highest_step m t ty = Some h' \<and> h \<le> h'))"
    by (auto simp: highest_step_def split: option.splits)
  then show ?case using Cons [of "highest_step m t"] by (fastforce intro: order_trans)
qed simp

lemma map_of_zeros: "map_of (map (\<lambda>(ty, p). (ty, 0 :: nat)) xs) ty = map_option (\<lambda>_. 0) (map_of xs ty)"
  by (induction xs) auto

lemma highest_known:
  "highest_preexisting_ordinal_by_type ts ty = None \<longleftrightarrow> \<not> known_type ty"
  using highest_foldl [of "map_of (map (\<lambda>(ty, p). (ty, 0)) MASK_PREFIXES)" ts ty]
  by (simp add: highest_preexisting_ordinal_by_type_def highest_step_def [abs_def] known_type_def
      map_of_zeros)

lemma reserved_map_of:
  assumes "distinct (map snd xs)" "(ty, p) \<in> set xs"
  shows "map_of (List.map_filter (\<lambda>(t, q). map_option (Pair q) (f t)) xs) p = f ty"
  using assms
proof (induction xs)
  case (Cons x xs)
  have none: "map_of (List.map_filter (\<lambda>(t, q). map_option (Pair q) (f t)) ys) p = None"
    if "p \<notin> snd ` set ys" for ys
    using that by (induction ys) (auto simp: List.map_filter_simps split: option.splits)
  show ?case
  proof (cases "x = (ty, p)")
    case True
    with Cons.prems none [of xs] show ?thesis
      by (auto simp: List.map_filter_simps split: option.splits)
  next
    case False
    with Cons.prems(2) have i: "(ty, p) \<in> set xs" by simp
    with Cons.prems(1) have "snd x \<noteq> p" by (metis distinct.simps(2) image_eqI list.simps(9) list.set_map snd_conv)
    with i Cons show ?thesis by (cases x) (auto simp: List.map_filter_simps split: option.splits)
  qed
qed simp

lemma reserved_eq:
  assumes "map_of MASK_PREFIXES ty = Some p"
  shows "reserved_ordinals_by_type ts p = positive_highest ts ty"
  unfolding reserved_ordinals_by_type_def
  using assms distinct_prefixes by (intro reserved_map_of) (auto simp: rev_map [symmetric] dest: map_of_SomeD)

subsection \<open>Token assignment\<close>

text \<open>
  The invariant of the assignment loop, over the numbers reserved by preexisting tokens: tokens
  handed out are numbered above the reserved ones and below the next number of their type, and
  no two keys share a token.
\<close>

definition token_inv ::
  "(pystr \<Rightarrow> nat) \<Rightarrow> (pystr \<Rightarrow> nat option) \<Rightarrow> (pystr \<times> pystr \<Rightarrow> pystr option) \<Rightarrow> bool" where
  "token_inv h next tok \<longleftrightarrow>
     (\<forall>ty v t. tok (ty, v) = Some t \<longrightarrow>
        (\<exists>p n m. map_of MASK_PREFIXES ty = Some p \<and> next ty = Some m \<and> t = make_token p n \<and>
                 h ty < n \<and> n < m)) \<and>
     (\<forall>k k' t. tok k = Some t \<longrightarrow> tok k' = Some t \<longrightarrow> k = k') \<and>
     (\<forall>ty m. next ty = Some m \<longrightarrow> h ty < m)"

definition entity_key :: "pystr \<Rightarrow> entity \<Rightarrow> pystr \<times> pystr" where
  "entity_key text e = (entity_type e, slice text (start_offset e) (end_offset e))"

lemma token_inv_step:
  assumes inv: "token_inv h next tok" and new: "tok (ty, v) = None"
    and p: "map_of MASK_PREFIXES ty = Some p" and n: "next ty = Some n"
  shows "token_inv h (next(ty \<mapsto> Suc n)) (tok((ty, v) \<mapsto> make_token p n))"
proof -
  have fresh: "tok k \<noteq> Some (make_token p n)" for k
  proof
    assume a: "tok k = Some (make_token p n)"
    obtain ty' v' where k: "k = (ty', v')" by (cases k)
    from inv a k obtain p' n' m where "map_of MASK_PREFIXES ty' = Some p'" "next ty' = Some m"
      "make_token p n = make_token p' n'" "n' < m" unfolding token_inv_def by blast
    with p n prefix_inj [of ty' p ty] show False by auto
  qed
  from inv n have hn: "h ty < n" by (auto simp: token_inv_def)
  have "\<exists>p' n' m. map_of MASK_PREFIXES ty' = Some p' \<and> (next(ty \<mapsto> Suc n)) ty' = Some m \<and>
      t = make_token p' n' \<and> h ty' < n' \<and> n' < m"
    if t: "(tok((ty, v) \<mapsto> make_token p n)) (ty', v') = Some t" for ty' v' t
  proof (cases "(ty', v') = (ty, v)")
    case True
    with t p hn show ?thesis by auto
  next
    case False
    with t have "tok (ty', v') = Some t" by auto
    with inv obtain p' n' m where "map_of MASK_PREFIXES ty' = Some p'" "next ty' = Some m"
      "t = make_token p' n'" "h ty' < n'" "n' < m" unfolding token_inv_def by blast
    with n show ?thesis by (cases "ty' = ty") auto
  qed
  moreover have "k = k'" if "(tok((ty, v) \<mapsto> make_token p n)) k = Some t"
    "(tok((ty, v) \<mapsto> make_token p n)) k' = Some t" for k k' t
  proof -
    from inv have inj: "\<And>a b u. tok a = Some u \<Longrightarrow> tok b = Some u \<Longrightarrow> a = b"
      unfolding token_inv_def by blast
    show ?thesis using that fresh [of k] fresh [of k'] inj [of k t k']
      by (auto split: if_splits)
  qed
  moreover have "h ty' < m" if "(next(ty \<mapsto> Suc n)) ty' = Some m" for ty' m
    using that hn inv by (auto simp: token_inv_def split: if_splits)
  ultimately show ?thesis unfolding token_inv_def by blast
qed

lemma assign_loop_spec:
  assumes "token_inv h next tok" "assign_loop text next tok es = Inr as"
  shows "\<exists>next' tok'. token_inv h next' tok' \<and> tok \<subseteq>\<^sub>m tok' \<and>
    (\<forall>a\<in>set as. tok' (entity_key text a) = Some (ent_token a)) \<and>
    map start_offset as = map start_offset es \<and> map end_offset as = map end_offset es \<and>
    map entity_type as = map entity_type es"
  using assms
proof (induction es arbitrary: "next" tok as)
  case Nil
  then show ?case by (auto intro: map_le_refl)
next
  case (Cons e es)
  let ?k = "(entity_type e, slice text (start_offset e) (end_offset e))"
  show ?case
  proof (cases "tok ?k")
    case (Some t)
    with Cons.prems(2) obtain rest w where r: "assign_loop text next tok es = Inr rest"
      "as = e\<lparr>ent_token := t, warnings := w\<rparr> # rest"
      by (auto simp: Let_def bind_Inr_iff)
    from Cons.IH [OF Cons.prems(1) r(1)] obtain next' tok' where ih: "token_inv h next' tok'"
      "tok \<subseteq>\<^sub>m tok'" "\<forall>a\<in>set rest. tok' (entity_key text a) = Some (ent_token a)"
      "map start_offset rest = map start_offset es" "map end_offset rest = map end_offset es"
      "map entity_type rest = map entity_type es" by blast
    from ih(2) Some have "tok' ?k = Some t" by (auto simp: map_le_def dom_def)
    with ih r(2) show ?thesis by (intro exI [of _ next'] exI [of _ tok']) (auto simp: entity_key_def)
  next
    case None
    with Cons.prems(2) obtain p n rest where r: "map_of MASK_PREFIXES (entity_type e) = Some p"
      "next (entity_type e) = Some n"
      "assign_loop text (next(entity_type e \<mapsto> Suc n)) (tok(?k \<mapsto> make_token p n)) es = Inr rest"
      "as = e\<lparr>ent_token := make_token p n\<rparr> # rest"
      by (auto simp: Let_def bind_Inr_iff split: option.splits)
    from Cons.IH [OF token_inv_step [OF Cons.prems(1) None r(1,2)] r(3)] obtain next' tok'
      where ih: "token_inv h next' tok'" "tok(?k \<mapsto> make_token p n) \<subseteq>\<^sub>m tok'"
        "\<forall>a\<in>set rest. tok' (entity_key text a) = Some (ent_token a)"
        "map start_offset rest = map start_offset es" "map end_offset rest = map end_offset es"
        "map entity_type rest = map entity_type es" by blast
    from ih(2) have "tok' ?k = Some (make_token p n)" by (auto simp: map_le_def)
    moreover have "tok \<subseteq>\<^sub>m tok'" using ih(2) None by (auto simp: map_le_def dom_def split: if_splits)
    ultimately show ?thesis using ih r(4)
      by (intro exI [of _ next'] exI [of _ tok']) (auto simp: entity_key_def)
  qed
qed

lemma assign_loop_total:
  assumes "\<forall>e\<in>set es. known_type (entity_type e)" "\<forall>ty. known_type ty \<longrightarrow> next ty \<noteq> None"
  shows "\<exists>as. assign_loop text next tok es = Inr as"
  using assms
proof (induction es arbitrary: "next" tok)
  case (Cons e es)
  let ?k = "(entity_type e, slice text (start_offset e) (end_offset e))"
  show ?case
  proof (cases "tok ?k")
    case (Some t)
    from Cons.IH [of "next" tok] Cons.prems obtain rest where "assign_loop text next tok es = Inr rest"
      by auto
    with Some show ?thesis by (simp add: Let_def)
  next
    case None
    from Cons.prems obtain p n where pn: "map_of MASK_PREFIXES (entity_type e) = Some p"
      "next (entity_type e) = Some n" by (auto simp: known_type_def)
    have "\<forall>ty. known_type ty \<longrightarrow> (next(entity_type e \<mapsto> Suc n)) ty \<noteq> None"
      using Cons.prems(2) by simp
    with Cons.IH [of "next(entity_type e \<mapsto> Suc n)" "tok(?k \<mapsto> make_token p n)"] Cons.prems(1) obtain rest
      where "assign_loop text (next(entity_type e \<mapsto> Suc n)) (tok(?k \<mapsto> make_token p n)) es = Inr rest"
      by (metis list.set_intros(2))
    with None pn show ?thesis by (simp add: Let_def)
  qed
qed simp

lemma token_inv_start:
  "token_inv (\<lambda>ty. case highest_preexisting_ordinal_by_type ts ty of None \<Rightarrow> 0 | Some h \<Rightarrow> h)
     (\<lambda>ty. map_option Suc (highest_preexisting_ordinal_by_type ts ty)) (\<lambda>_. None)"
  by (auto simp: token_inv_def)

subsection \<open>Detected entities\<close>

lemma entities_of_fields:
  "map start_offset (entities_of sha text dense k cs) = map cand_start cs"
  "map end_offset (entities_of sha text dense k cs) = map cand_end cs"
  "map entity_type (entities_of sha text dense k cs) = map cand_type cs"
  by (induction cs arbitrary: k) auto

lemma detect_entities_cases:
  assumes "detect_entities sha text av = Inr es"
  obtains n ts where "normalize_text text = Inr n" "preexisting_if av n = Inr ts"
    "map start_offset es = map cand_start (deduplicate_and_resolve (all_candidates n) ts)"
    "map end_offset es = map cand_end (deduplicate_and_resolve (all_candidates n) ts)"
    "map entity_type es = map cand_type (deduplicate_and_resolve (all_candidates n) ts)"
    "\<forall>e\<in>set es. \<exists>p m. map_of MASK_PREFIXES (entity_type e) = Some p \<and> ent_token e = make_token p m \<and>
       (case highest_preexisting_ordinal_by_type ts (entity_type e) of None \<Rightarrow> 0 | Some h \<Rightarrow> h) < m"
    "\<forall>a\<in>set es. \<forall>b\<in>set es. ent_token a = ent_token b \<longleftrightarrow> entity_key n a = entity_key n b"
proof -
  let ?h = "\<lambda>ts ty. case highest_preexisting_ordinal_by_type ts ty of None \<Rightarrow> 0 | Some h \<Rightarrow> h"
  from assms obtain n ts where nt: "normalize_text text = Inr n" "preexisting_if av n = Inr ts"
    and as: "assign_mask_tokens n
      (entities_of sha n (dense_cluster_lines (deduplicate_and_resolve (all_candidates n) ts)) 1
        (deduplicate_and_resolve (all_candidates n) ts)) ts = Inr es"
    by (auto simp: detect_entities_def bind_Inr_iff Let_def)
  from assign_loop_spec [OF token_inv_start as [unfolded assign_mask_tokens_def]]
  obtain next' tok' where inv: "token_inv (?h ts) next' tok'"
    and tok: "\<forall>a\<in>set es. tok' (entity_key n a) = Some (ent_token a)"
    and fields: "map start_offset es = map cand_start (deduplicate_and_resolve (all_candidates n) ts)"
      "map end_offset es = map cand_end (deduplicate_and_resolve (all_candidates n) ts)"
      "map entity_type es = map cand_type (deduplicate_and_resolve (all_candidates n) ts)"
    by (auto simp: entities_of_fields)
  have "\<forall>e\<in>set es. \<exists>p m. map_of MASK_PREFIXES (entity_type e) = Some p \<and> ent_token e = make_token p m \<and>
      ?h ts (entity_type e) < m"
  proof
    fix e assume "e \<in> set es"
    with tok have "tok' (entity_type e, snd (entity_key n e)) = Some (ent_token e)"
      by (simp add: entity_key_def)
    with inv show "\<exists>p m. map_of MASK_PREFIXES (entity_type e) = Some p \<and> ent_token e = make_token p m \<and>
      ?h ts (entity_type e) < m" unfolding token_inv_def by blast
  qed
  moreover have "\<forall>a\<in>set es. \<forall>b\<in>set es. ent_token a = ent_token b \<longleftrightarrow> entity_key n a = entity_key n b"
    using tok inv unfolding token_inv_def by (metis option.inject)
  ultimately show ?thesis using that nt fields by blast
qed

lemma entities_as_candidates:
  fixes es :: "entity list"
  assumes "map start_offset es = map cand_start cs" "map end_offset es = map cand_end cs"
  shows "list_all2 (\<lambda>e c. start_offset e = cand_start c \<and> end_offset e = cand_end c) es cs"
proof -
  from assms(1) have "length es = length cs" by (rule map_eq_imp_length_eq)
  moreover have "start_offset (es ! i) = cand_start (cs ! i) \<and> end_offset (es ! i) = cand_end (cs ! i)"
    if "i < length es" for i
    using that assms calculation by (metis nth_map)
  ultimately show ?thesis by (simp add: list_all2_conv_all_nth)
qed

lemma detected_span_facts:
  assumes "detect_entities sha text av = Inr es" "normalize_text text = Inr n"
  shows "sorted_wrt (\<lambda>a b. end_offset a \<le> start_offset b) es"
    "\<forall>e\<in>set es. start_offset e < end_offset e \<and> end_offset e \<le> length n"
proof -
  obtain ts where f: "map start_offset es = map cand_start (deduplicate_and_resolve (all_candidates n) ts)"
    "map end_offset es = map cand_end (deduplicate_and_resolve (all_candidates n) ts)"
    using detect_entities_cases [OF assms(1)] assms(2) by (metis sum.inject(2))
  let ?cs = "deduplicate_and_resolve (all_candidates n) ts"
  note l2 = entities_as_candidates [OF f]
  then have len: "length es = length ?cs" by (rule list_all2_lengthD)
  have nth: "start_offset (es ! i) = cand_start (?cs ! i) \<and> end_offset (es ! i) = cand_end (?cs ! i)"
    if "i < length es" for i using l2 that by (simp add: list_all2_conv_all_nth)
  show "sorted_wrt (\<lambda>a b. end_offset a \<le> start_offset b) es"
    unfolding sorted_wrt_iff_nth_less
    using resolved.disjoint [of _ _ n ts] nth len by (metis less_trans)
  show "\<forall>e\<in>set es. start_offset e < end_offset e \<and> end_offset e \<le> length n"
    using resolved.in_text [of _ n ts] nth len by (metis in_set_conv_nth nth_mem)
qed

text \<open>C3: The detected entities are non-empty spans inside the normalised text, in text order,
  and no two of them overlap.\<close>

theorem detected_spans_disjoint:
  assumes "detect_entities sha text avoid = Inr es" and "normalize_text text = Inr n"
  shows "sorted_wrt (\<lambda>a b. end_offset a \<le> start_offset b) es \<and>
    (\<forall>e\<in>set es. start_offset e < end_offset e \<and> end_offset e \<le> length n)"
  using detected_span_facts [OF assms] by blast

theorem detected_spans_disjoint_witness:
  "\<exists>es. detect_entities id (lit ''call 010-1234-5678'') True = Inr es \<and> length es = 1 \<and>
     sorted_wrt (\<lambda>a b. end_offset a \<le> start_offset b) es"
proof -
  obtain es where es: "detect_entities id (lit ''call 010-1234-5678'') True = Inr es" "length es = 1"
  proof -
    have "(case detect_entities id (lit ''call 010-1234-5678'') True of
        Inr es \<Rightarrow> length es = 1 | Inl e \<Rightarrow> False)" by code_simp
    then show ?thesis using that by (auto split: sum.splits)
  qed
  have "normalize_text (lit ''call 010-1234-5678'') = Inr (lit ''call 010-1234-5678'')" by code_simp
  from detected_spans_disjoint [OF es(1) this] es show ?thesis by blast
qed

lemma detect_entities_ok:
  assumes "\<not> startswith text [65279]"
  shows "\<exists>es. detect_entities sha text av = Inr es"
proof -
  from assms obtain n where n: "normalize_text text = Inr n" by (simp add: normalize_cases)
  with normalize_idem [OF n] obtain ts where ts: "preexisting_if av n = Inr ts"
    using preexisting_total by blast
  have known: "\<forall>e\<in>set (entities_of sha n d 1 (deduplicate_and_resolve (all_candidates n) ts)).
      known_type (entity_type e)" for d
  proof
    fix e assume "e \<in> set (entities_of sha n d 1 (deduplicate_and_resolve (all_candidates n) ts))"
    then have "entity_type e \<in> cand_type ` set (deduplicate_and_resolve (all_candidates n) ts)"
      using entities_of_fields(3) [of sha n d 1 "deduplicate_and_resolve (all_candidates n) ts"]
      by (metis image_eqI list.set_map)
    then show "known_type (entity_type e)"
      using resolved_good [of _ n ts] by (auto simp: good_candidate_def)
  qed
  have "\<exists>es. assign_mask_tokens n (entities_of sha n d 1 (deduplicate_and_resolve (all_candidates n) ts)) ts = Inr es" for d
    unfolding assign_mask_tokens_def
    by (rule assign_loop_total [OF known]) (auto simp: highest_known)
  with n ts show ?thesis by (simp add: detect_entities_def Let_def)
qed

text \<open>Detection is total up to the byte order mark: it returns a list of entities for every
  text that does not start with one, and raises \<open>ValueError\<close> for every text that does.\<close>

theorem detect_entities_total:
  "(\<exists>es. detect_entities sha text avoid = Inr es) = (\<not> startswith text [65279]) \<and>
   (detect_entities sha text avoid = Inl (ValueError (lit ''UTF-8 BOM is not allowed''))) =
     startswith text [65279]"
proof (cases "startswith text [65279]")
  case True
  then show ?thesis by (simp add: detect_entities_def normalize_cases)
next
  case False
  with detect_entities_ok [OF False, of sha avoid] show ?thesis by auto
qed

text \<open>C2: Mask tokens are consistent and injective: two detected entities carry the same token
  exactly when they have the same type and the same text.\<close>

theorem tokens_identify_values:
  assumes "detect_entities sha text avoid = Inr es" and "normalize_text text = Inr n"
    and "a \<in> set es" and "b \<in> set es"
  shows "ent_token a = ent_token b \<longleftrightarrow>
    entity_type a = entity_type b \<and>
    slice n (start_offset a) (end_offset a) = slice n (start_offset b) (end_offset b)"
proof -
  have "\<forall>a\<in>set es. \<forall>b\<in>set es. ent_token a = ent_token b \<longleftrightarrow> entity_key n a = entity_key n b"
    using detect_entities_cases [OF assms(1)] assms(2) by (metis sum.inject(2))
  with assms(3,4) show ?thesis by (simp add: entity_key_def)
qed

definition two_phones :: pystr where
  "two_phones = lit ''010-1234-5678 010-1234-5678''"

theorem tokens_identify_values_witness:
  "\<exists>es a b. detect_entities id two_phones True = Inr es \<and> es = [a, b] \<and> ent_token a = ent_token b"
proof -
  obtain a b where es: "detect_entities id two_phones True = Inr [a, b]"
    "entity_type a = entity_type b"
    "slice two_phones (start_offset a) (end_offset a) = slice two_phones (start_offset b) (end_offset b)"
  proof -
    have "(case detect_entities id two_phones True of
        Inr [a, b] \<Rightarrow> entity_type a = entity_type b \<and>
          slice two_phones (start_offset a) (end_offset a) = slice two_phones (start_offset b) (end_offset b)
      | _ \<Rightarrow> False)" by code_simp
    then show ?thesis using that by (auto split: sum.splits list.splits)
  qed
  have "normalize_text two_phones = Inr two_phones" by code_simp
  from tokens_identify_values [OF es(1) this, of a b] es show ?thesis by auto
qed

subsection \<open>Masking\<close>

lemma mask_parts_weave:
  "concat (mask_parts text i es) = weave (gaps start_offset end_offset text i es) (map ent_token es)"
  by (induction es arbitrary: i) auto

lemma sorted_starts:
  fixes es :: "entity list"
  assumes "sorted_wrt (\<lambda>a b. end_offset a \<le> start_offset b) es" "\<forall>e\<in>set es. start_offset e < end_offset e"
  shows "sorted (map start_offset es)"
proof -
  have "sorted_wrt (\<lambda>a b. start_offset a \<le> start_offset b) es"
    by (rule sorted_wrt_mono_rel [OF _ assms(1)]) (use assms(2) in fastforce)
  then show ?thesis by (simp add: sorted_map)
qed

lemma detect_and_mask_cases:
  assumes "detect_and_mask sha text av = Inr r" "normalize_text text = Inr n"
  obtains ts reused where "preexisting_if av n = Inr ts" "detect_entities sha n av = Inr (mr_entities r)"
    "masked_text r = concat (mask_parts n 0 (mr_entities r))"
    "map_result (reuses_reserved (reserved_ordinals_by_type ts)) (mr_entities r) = Inr reused"
    "token_collision_avoided r \<longleftrightarrow> filter id reused = [] \<and>
       (\<forall>t\<in>set ts. contains (masked_text r) (slice n (tok_start t) (tok_end t)))"
proof -
  note nn = normalize_idem [OF assms(2)]
  from assms obtain ts es m reused where d: "preexisting_if av n = Inr ts"
    "detect_entities sha n av = Inr es" "mask_text n es = Inr m"
    "map_result (reuses_reserved (reserved_ordinals_by_type ts)) es = Inr reused"
    "mr_entities r = es" "masked_text r = m"
    "token_collision_avoided r \<longleftrightarrow> length (filter id reused) = 0 \<and>
       length (filter (\<lambda>t. \<not> contains m (slice n (tok_start t) (tok_end t))) ts) = 0"
    by (auto simp: detect_and_mask_def bind_Inr_iff Let_def)
  have "sort_key start_offset es = es"
    using detected_span_facts [OF d(2) nn] by (intro sort_key_id_if_sorted sorted_starts) auto
  with d(3) nn have "m = concat (mask_parts n 0 es)" by (simp add: mask_text_def)
  with d that show ?thesis by (auto simp: filter_empty_conv)
qed

text \<open>C1: Masking replaces exactly the detected spans: the normalised text is the gaps between
  the spans woven with the spans' own text, and the masked text is the same gaps woven with the
  mask tokens, so nothing outside a detected span changes.\<close>

theorem masking_replaces_only_spans:
  assumes "detect_and_mask sha text avoid = Inr r" and "normalize_text text = Inr n"
  shows "n = weave (gaps start_offset end_offset n 0 (mr_entities r))
           (map (\<lambda>e. slice n (start_offset e) (end_offset e)) (mr_entities r)) \<and>
    masked_text r = weave (gaps start_offset end_offset n 0 (mr_entities r))
           (map ent_token (mr_entities r))"
proof -
  obtain ts reused where d: "detect_entities sha n avoid = Inr (mr_entities r)"
    "masked_text r = concat (mask_parts n 0 (mr_entities r))"
    by (rule detect_and_mask_cases [OF assms])
  from weave_gaps [of end_offset start_offset "mr_entities r" n 0]
    detected_span_facts [OF d(1) normalize_idem [OF assms(2)]]
  show ?thesis using d(2) by (simp add: mask_parts_weave)
qed

definition mail_text :: pystr where
  "mail_text = lit ''mail a.b@c.org now''"

theorem masking_replaces_only_spans_witness:
  "\<exists>r. detect_and_mask id mail_text True = Inr r \<and> masked_text r = lit ''mail [EMAIL_1] now'' \<and>
     masked_text r = weave (gaps start_offset end_offset mail_text 0 (mr_entities r))
           (map ent_token (mr_entities r))"
proof -
  obtain r where r: "detect_and_mask id mail_text True = Inr r"
    "masked_text r = lit ''mail [EMAIL_1] now''"
  proof -
    have "(case detect_and_mask id mail_text True of
        Inr r \<Rightarrow> masked_text r = lit ''mail [EMAIL_1] now'' | Inl e \<Rightarrow> False)" by code_simp
    then show ?thesis using that by (auto split: sum.splits)
  qed
  have "normalize_text mail_text = Inr mail_text" by code_simp
  from masking_replaces_only_spans [OF r(1) this] r show ?thesis by blast
qed

subsection \<open>Tokens that were already there\<close>

lemma mask_parts_keeps:
  assumes "i \<le> a" "a < b" "b \<le> length text"
    "sorted_wrt (\<lambda>x y. end_offset x \<le> start_offset y) es"
    "\<forall>e\<in>set es. start_offset e < end_offset e \<and> end_offset e \<le> length text \<and> i \<le> start_offset e \<and>
       \<not> (max (start_offset e) a < min (end_offset e) b)"
  shows "contains (concat (mask_parts text i es)) (slice text a b)"
  using assms
proof (induction es arbitrary: i)
  case Nil
  have "drop i text = slice text i a @ slice text a b @ drop b text"
    using Nil.prems(1,2) slice_append_drop [of a b "text"] slice_append_drop [of i a "text"] by simp
  then show ?case by (auto simp: contains_iff)
next
  case (Cons e es)
  show ?case
  proof (cases "b \<le> start_offset e")
    case True
    let ?s = "start_offset e"
    have "slice text i ?s = slice text i a @ slice text a b @ slice text b ?s"
    proof -
      have "slice text i ?s = take (?s - i) (slice text i a @ slice text a b @ drop b text)"
        using Cons.prems(1,2) slice_append_drop [of a b "text"] slice_append_drop [of i a "text"]
        by (simp add: slice_def)
      then show ?thesis using True Cons.prems(1-3) by (simp add: length_slice slice_def)
    qed
    then have "concat (mask_parts text i (e # es)) =
        slice text i a @ slice text a b @ (slice text b ?s @ ent_token e @ concat (mask_parts text (end_offset e) es))"
      by simp
    then show ?thesis unfolding contains_iff by blast
  next
    case False
    have "\<not> (max (start_offset e) a < min (end_offset e) b)" "start_offset e < end_offset e"
      using Cons.prems(5) by simp_all
    with False Cons.prems(2) have "end_offset e \<le> a" by (simp add: max_def min_def split: if_splits)
    moreover have "\<forall>x\<in>set es. end_offset e \<le> start_offset x" using Cons.prems(4) by simp
    ultimately have "contains (concat (mask_parts text (end_offset e) es)) (slice text a b)"
      using Cons.IH [of "end_offset e"] Cons.prems by auto
    then obtain u v where uv: "concat (mask_parts text (end_offset e) es) = u @ slice text a b @ v"
      by (auto simp: contains_iff)
    have "concat (mask_parts text i (e # es)) =
        (slice text i (start_offset e) @ ent_token e @ u) @ slice text a b @ v"
      by (simp add: uv)
    then show ?thesis unfolding contains_iff by blast
  qed
qed

lemma token_spans:
  assumes "preexisting_if av n = Inr ts" "normalize_text n = Inr n" "t \<in> set ts"
  shows "tok_start t < tok_end t \<and> tok_end t \<le> length n"
proof -
  from assms obtain m where m: "m \<in> set (finditer MASK_TOKEN_SPAN_RE n)" "token_of_match n m = Some t"
    by (auto simp: preexisting_if_def find_preexisting_mask_tokens_def List.map_filter_def
        split: if_splits)
  from m(2) have f: "tok_start t = fst m" "tok_end t = fst (snd m)"
    by (auto simp: token_of_match_def split: option.splits if_splits)
  obtain a b g where abg: "m = (a, b, g)" by (cases m)
  have "rx_min MASK_TOKEN_SPAN_RE = 5" by code_simp
  with finditer_in(1,2) [of a b g MASK_TOKEN_SPAN_RE n] m(1) f abg show ?thesis by auto
qed

text \<open>C35: With collision avoidance on, the collision flag always holds: every mask token already
  in the text survives masking, and no new token reuses a reserved number.\<close>

theorem collisions_always_avoided:
  assumes "detect_and_mask sha text True = Inr r"
  shows "token_collision_avoided r"
proof -
  from assms obtain n where n: "normalize_text text = Inr n"
    by (auto simp: detect_and_mask_def bind_Inr_iff)
  note nn = normalize_idem [OF n]
  obtain ts reused where d: "preexisting_if True n = Inr ts"
    "detect_entities sha n True = Inr (mr_entities r)"
    "masked_text r = concat (mask_parts n 0 (mr_entities r))"
    "map_result (reuses_reserved (reserved_ordinals_by_type ts)) (mr_entities r) = Inr reused"
    "token_collision_avoided r \<longleftrightarrow> filter id reused = [] \<and>
       (\<forall>t\<in>set ts. contains (masked_text r) (slice n (tok_start t) (tok_end t)))"
    by (rule detect_and_mask_cases [OF assms n])
  obtain ts' where e: "preexisting_if True n = Inr ts'"
    "map start_offset (mr_entities r) = map cand_start (deduplicate_and_resolve (all_candidates n) ts')"
    "map end_offset (mr_entities r) = map cand_end (deduplicate_and_resolve (all_candidates n) ts')"
    "\<forall>e\<in>set (mr_entities r). \<exists>p m. map_of MASK_PREFIXES (entity_type e) = Some p \<and> ent_token e = make_token p m \<and>
       (case highest_preexisting_ordinal_by_type ts' (entity_type e) of None \<Rightarrow> 0 | Some h \<Rightarrow> h) < m"
    using detect_entities_cases [OF d(2)] nn by (metis sum.inject(2))
  with d(1) have ts: "ts' = ts" by simp
  have clear: "\<not> (max (start_offset e) (tok_start t) < min (end_offset e) (tok_end t))"
    if "e \<in> set (mr_entities r)" "t \<in> set ts" for e t
  proof -
    from that(1) list_all2_conv_all_nth [THEN iffD1, OF entities_as_candidates [OF e(2,3)]]
    obtain c where "c \<in> set (deduplicate_and_resolve (all_candidates n) ts')"
      "start_offset e = cand_start c" "end_offset e = cand_end c"
      by (metis in_set_conv_nth nth_mem)
    with resolved_clear [of c n ts' t] that(2) ts show ?thesis by (simp add: overlaps_span_def)
  qed
  have "contains (masked_text r) (slice n (tok_start t) (tok_end t))" if t: "t \<in> set ts" for t
    unfolding d(3)
    using token_spans [OF d(1) nn t] clear [OF _ t] detected_span_facts [OF d(2) nn]
    by (intro mask_parts_keeps) auto
  moreover have "filter id reused = []"
  proof -
    have "\<not> b" if "b \<in> set reused" for b
    proof -
      from map_result_mem [OF d(4) that] obtain e where e1: "e \<in> set (mr_entities r)"
        "reuses_reserved (reserved_ordinals_by_type ts) e = Inr b" by blast
      with e(4) ts obtain p m where pm: "map_of MASK_PREFIXES (entity_type e) = Some p"
        "ent_token e = make_token p m"
        "(case highest_preexisting_ordinal_by_type ts (entity_type e) of None \<Rightarrow> 0 | Some h \<Rightarrow> h) < m"
        by blast
      from e1(2) pm(1,2) reserved_eq [OF pm(1), of ts]
      have "b \<longleftrightarrow> (case positive_highest ts (entity_type e) of None \<Rightarrow> False | Some h \<Rightarrow> int m \<le> int h)"
        by (simp add: reuses_reserved_def)
      with pm(3) show ?thesis by (auto simp: positive_highest_def split: option.splits if_splits)
    qed
    then show ?thesis by (auto simp: filter_empty_conv)
  qed
  ultimately show ?thesis using d(5) by blast
qed

definition token_text :: pystr where
  "token_text = lit ''[EMAIL_3] and a.b@c.org''"

theorem collisions_always_avoided_witness:
  "\<exists>r. detect_and_mask id token_text True = Inr r \<and>
     masked_text r = lit ''[EMAIL_3] and [EMAIL_4]'' \<and> token_collision_avoided r"
proof -
  obtain r where r: "detect_and_mask id token_text True = Inr r"
    "masked_text r = lit ''[EMAIL_3] and [EMAIL_4]''"
  proof -
    have "(case detect_and_mask id token_text True of
        Inr r \<Rightarrow> masked_text r = lit ''[EMAIL_3] and [EMAIL_4]'' | Inl e \<Rightarrow> False)" by code_simp
    then show ?thesis using that by (auto split: sum.splits)
  qed
  with collisions_always_avoided [OF r(1)] show ?thesis by blast
qed

subsection \<open>Numbers the patterns cannot see\<close>

lemma no_candidates_unchanged:
  assumes "normalize_text s = Inr s" "finditer MASK_TOKEN_SPAN_RE s = []" "all_candidates s = []"
  shows "case detect_and_mask sha s True of Inr r \<Rightarrow> masked_text r = s | Inl e \<Rightarrow> False"
proof -
  have "preexisting_if True s = Inr []"
    by (simp add: preexisting_if_def find_preexisting_mask_tokens_def assms List.map_filter_simps)
  moreover then have "detect_entities sha s True = Inr []"
    using assms by (simp add: detect_entities_def deduplicate_and_resolve_def Let_def assign_mask_tokens_def)
  ultimately show ?thesis using assms(1)
    by (simp add: detect_and_mask_def mask_text_def Let_def)
qed

text \<open>A resident registration number followed directly by a Hangul copula, as Korean sentences
  write it, and a driver's licence number after its label.\<close>

definition id_in_sentence :: pystr where
  "id_in_sentence = lit ''900101-1234567'' @ [51077, 45768, 45796]"

definition licence_in_sentence :: pystr where
  "licence_in_sentence = [50868, 51204, 47732, 54728, 58, 32] @ lit ''1234567890''"

text \<open>A resident registration number that a Hangul syllable follows without a space is
  neither detected nor masked, because the patterns end in a word boundary and Hangul counts as
  a word character: masking returns the sentence unchanged.\<close>

theorem id_before_particle_not_masked:
  "case detect_and_mask sha id_in_sentence True of
     Inr r \<Rightarrow> masked_text r = id_in_sentence | Inl e \<Rightarrow> False"
  by (rule no_candidates_unchanged) code_simp+

text \<open>A driver's licence number after its label is neither detected nor masked: the pattern,
  a raw string with doubled backslashes, asks for a literal backslash before the digits.\<close>

theorem licence_number_not_masked:
  "case detect_and_mask sha licence_in_sentence True of
     Inr r \<Rightarrow> masked_text r = licence_in_sentence | Inl e \<Rightarrow> False"
  by (rule no_candidates_unchanged) code_simp+

end
