(* ===== verification/Py_Values.thy ===== *)
theory Py_Values
  imports Py_Prelude "HOL-Library.List_Lexorder" "HOL-Library.Multiset"
begin

text \<open>
  Dynamically typed values (\<open>dict[str, Any]\<close>, decoded JSON) with the conversions the services
  apply to them: \<open>str\<close>, \<open>int\<close>, \<open>isinstance\<close> tests, \<open>dict.get\<close>, \<open>json.dumps\<close>
  and the length of a UTF-8 encoding.  A finite float is modelled by its shortest decimal
  \<open>m * 10 ^ e\<close> (what \<open>repr\<close> prints), so comparisons with the small constants of the code and
  the text of a float are exact; no arithmetic on floats is modelled here, and negative zero is
  not distinguished.
\<close>

datatype pyfloat = Dec int int | PosInf | NegInf | NaN

datatype pyval =
    PNone
  | PBool bool
  | PInt int
  | PFloat pyfloat
  | PStr pystr
  | PList "pyval list"
  | PDict "(pystr \<times> pyval) list"

type_synonym pydict = "(pystr \<times> pyval) list"

subsection \<open>Type tests and lookups\<close>

definition get :: "pydict \<Rightarrow> string \<Rightarrow> pyval \<Rightarrow> pyval" where
  "get d k v = (case map_of d (lit k) of None \<Rightarrow> v | Some x \<Rightarrow> x)"

definition get0 :: "pydict \<Rightarrow> string \<Rightarrow> pyval" where
  "get0 d k = get d k PNone"

text \<open>\<open>d[k] = v\<close>: an existing key keeps its place.\<close>

fun put :: "pystr \<Rightarrow> pyval \<Rightarrow> pydict \<Rightarrow> pydict" where
  "put k v [] = [(k, v)]"
| "put k v ((k', v') # d) = (if k = k' then (k, v) # d else (k', v') # put k v d)"

lemma map_of_put: "map_of (put k v d) = (map_of d)(k \<mapsto> v)"
  by (induction k v d rule: put.induct) auto

text \<open>The integer a value is when \<open>isinstance(x, int)\<close> holds; \<open>bool\<close> is a subclass of \<open>int\<close>.\<close>

fun as_int :: "pyval \<Rightarrow> int option" where
  "as_int (PInt i) = Some i"
| "as_int (PBool b) = Some (if b then 1 else 0)"
| "as_int v = None"

fun as_str :: "pyval \<Rightarrow> pystr option" where
  "as_str (PStr s) = Some s"
| "as_str v = None"

fun as_list :: "pyval \<Rightarrow> pyval list option" where
  "as_list (PList xs) = Some xs"
| "as_list v = None"

fun as_dict :: "pyval \<Rightarrow> pydict option" where
  "as_dict (PDict d) = Some d"
| "as_dict v = None"

fun is_truthy :: "pyval \<Rightarrow> bool" where
  "is_truthy PNone = False"
| "is_truthy (PBool b) = b"
| "is_truthy (PInt i) = (i \<noteq> 0)"
| "is_truthy (PFloat (Dec m e)) = (m \<noteq> 0)"
| "is_truthy (PFloat f) = True"
| "is_truthy (PStr s) = (s \<noteq> [])"
| "is_truthy (PList xs) = (xs \<noteq> [])"
| "is_truthy (PDict d) = (d \<noteq> [])"

definition dicts_of :: "pyval list \<Rightarrow> pydict list" where
  "dicts_of xs = List.map_filter as_dict xs"

subsection \<open>Floats\<close>

definition dec_le :: "int \<Rightarrow> int \<Rightarrow> int \<Rightarrow> int \<Rightarrow> bool" where
  "dec_le m e n f = (let k = min e f in m * 10 ^ nat (e - k) \<le> n * 10 ^ nat (f - k))"

text \<open>\<open>x < y\<close> and \<open>x \<le> y\<close> on floats: false as soon as one side is not a number.\<close>

fun float_le :: "pyfloat \<Rightarrow> pyfloat \<Rightarrow> bool" where
  "float_le NaN y = False"
| "float_le x NaN = False"
| "float_le NegInf y = True"
| "float_le x PosInf = True"
| "float_le PosInf y = False"
| "float_le x NegInf = False"
| "float_le (Dec m e) (Dec n f) = dec_le m e n f"

definition float_lt :: "pyfloat \<Rightarrow> pyfloat \<Rightarrow> bool" where
  "float_lt x y \<longleftrightarrow> float_le x y \<and> \<not> float_le y x"

abbreviation fzero :: pyfloat where
  "fzero \<equiv> Dec 0 0"

abbreviation fone :: pyfloat where
  "fone \<equiv> Dec 1 0"

lemma float_le_refl: "x \<noteq> NaN \<Longrightarrow> float_le x x"
  by (cases x) (auto simp: dec_le_def)

subsection \<open>Text of a value\<close>

definition hex_digit :: "nat \<Rightarrow> int" where
  "hex_digit n = (if n < 10 then 48 + int n else 87 + int n)"

fun hex_fixed :: "nat \<Rightarrow> nat \<Rightarrow> pystr" where
  "hex_fixed 0 n = []"
| "hex_fixed (Suc w) n = hex_fixed w (n div 16) @ [hex_digit (n mod 16)]"

definition is_printable :: "int \<Rightarrow> bool" where
  "is_printable c =
     (if c < 128 then 32 \<le> c \<and> c \<le> 126
      else if 44032 \<le> c \<and> c \<le> 55203 then True
      else in_ranges printable_ranges c)"

definition repr_char :: "int \<Rightarrow> int \<Rightarrow> pystr" where
  "repr_char q c =
     (if c = q \<or> c = 92 then [92, c]
      else if c = 9 then [92, 116] else if c = 10 then [92, 110] else if c = 13 then [92, 114]
      else if is_printable c then [c]
      else if c < 256 then [92, 120] @ hex_fixed 2 (nat c)
      else if c < 65536 then [92, 117] @ hex_fixed 4 (nat c)
      else [92, 85] @ hex_fixed 8 (nat c))"

definition repr_str :: "pystr \<Rightarrow> pystr" where
  "repr_str s =
     (let q = (if 39 \<in> set s \<and> 34 \<notin> set s then 34 else 39)
      in [q] @ concat (map (repr_char q) s) @ [q])"

text \<open>\<open>repr\<close> of a finite float: positional notation for decimal points from -3 to 16.\<close>

definition repr_dec :: "int \<Rightarrow> int \<Rightarrow> pystr" where
  "repr_dec m e =
     (let sign = (if m < 0 then [45] else []);
          ds = nat_digits (nat \<bar>m\<bar>);
          n = int (length ds);
          point = n + e
      in if m = 0 then lit ''0.0''
         else if - 4 < point \<and> point \<le> 16 then
           (if 0 \<le> e then sign @ ds @ replicate (nat e) 48 @ lit ''.0''
            else if 0 < point then sign @ take (nat point) ds @ [46] @ drop (nat point) ds
            else sign @ lit ''0.'' @ replicate (nat (- point)) 48 @ ds)
         else
           sign @ take 1 ds @ (if 1 < n then [46] @ drop 1 ds else []) @ [101] @
           (if point - 1 < 0 then [45] else [43]) @ pad0 2 (nat_digits (nat \<bar>point - 1\<bar>)))"

fun repr_float :: "pyfloat \<Rightarrow> pystr" where
  "repr_float (Dec m e) = repr_dec m e"
| "repr_float PosInf = lit ''inf''"
| "repr_float NegInf = lit ''-inf''"
| "repr_float NaN = lit ''nan''"

fun py_repr :: "pyval \<Rightarrow> pystr" where
  "py_repr PNone = lit ''None''"
| "py_repr (PBool b) = (if b then lit ''True'' else lit ''False'')"
| "py_repr (PInt i) = str_int i"
| "py_repr (PFloat f) = repr_float f"
| "py_repr (PStr s) = repr_str s"
| "py_repr (PList xs) = [91] @ str_join (lit '', '') (map py_repr xs) @ [93]"
| "py_repr (PDict d) =
     [123] @ str_join (lit '', '') (map (\<lambda>(k, v). repr_str k @ lit '': '' @ py_repr v) d) @ [125]"

definition py_str :: "pyval \<Rightarrow> pystr" where
  "py_str v = (case v of PStr s \<Rightarrow> s | _ \<Rightarrow> py_repr v)"

lemma py_str_PStr [simp]: "py_str (PStr s) = s"
  by (simp add: py_str_def)

text \<open>\<open>str(d.get(k, default))\<close> with a string default.\<close>

definition get_str :: "pydict \<Rightarrow> string \<Rightarrow> string \<Rightarrow> pystr" where
  "get_str d k v = py_str (get d k (PStr (lit v)))"

subsection \<open>Integers from values\<close>

text \<open>\<open>int(s)\<close> for text: surrounding whitespace, a sign and single underscores are allowed.\<close>

fun int_digits_us :: "bool \<Rightarrow> int \<Rightarrow> pystr \<Rightarrow> int option" where
  "int_digits_us after_digit acc [] = (if after_digit then Some acc else None)"
| "int_digits_us after_digit acc (c # s) =
     (if c = 95 then (if after_digit \<and> s \<noteq> [] then int_digits_us False acc s else None)
      else (case digit_value c of None \<Rightarrow> None | Some d \<Rightarrow> int_digits_us True (10 * acc + d) s))"

definition int_of_str :: "pystr \<Rightarrow> int option" where
  "int_of_str s =
     (case strip s of
        [] \<Rightarrow> None
      | c # r \<Rightarrow> if c = 45 then map_option uminus (int_digits_us False 0 r)
                 else if c = 43 then int_digits_us False 0 r
                 else int_digits_us False 0 (c # r))"

definition trunc_dec :: "int \<Rightarrow> int \<Rightarrow> int" where
  "trunc_dec m e = (if 0 \<le> e then m * 10 ^ nat e else sgn m * (\<bar>m\<bar> div 10 ^ nat (- e)))"

fun py_int :: "pyval \<Rightarrow> int result" where
  "py_int (PInt i) = Inr i"
| "py_int (PBool b) = Inr (if b then 1 else 0)"
| "py_int (PFloat (Dec m e)) = Inr (trunc_dec m e)"
| "py_int (PFloat NaN) = Inl (ValueError (lit ''cannot convert float NaN to integer''))"
| "py_int (PFloat f) = Inl (OtherError (lit ''OverflowError'') (lit ''cannot convert float infinity to integer''))"
| "py_int (PStr s) =
     (case int_of_str s of
        Some i \<Rightarrow> Inr i | None \<Rightarrow> Inl (ValueError (lit ''invalid literal for int() with base 10'')))"
| "py_int v = Inl (TypeError (lit ''int() argument must be a string or a number''))"

subsection \<open>JSON and UTF-8\<close>

definition json_char :: "int \<Rightarrow> pystr" where
  "json_char c =
     (if c = 34 then [92, 34] else if c = 92 then [92, 92]
      else if c = 10 then [92, 110] else if c = 13 then [92, 114] else if c = 9 then [92, 116]
      else if c = 8 then [92, 98] else if c = 12 then [92, 102]
      else if c < 32 then [92, 117] @ hex_fixed 4 (nat c)
      else [c])"

definition json_string :: "pystr \<Rightarrow> pystr" where
  "json_string s = [34] @ concat (map json_char s) @ [34]"

fun json_float :: "pyfloat \<Rightarrow> pystr" where
  "json_float (Dec m e) = repr_dec m e"
| "json_float PosInf = lit ''Infinity''"
| "json_float NegInf = lit ''-Infinity''"
| "json_float NaN = lit ''NaN''"

text \<open>\<open>json.dumps(v, sort_keys=True, ensure_ascii=False)\<close>.\<close>

fun json_dumps :: "pyval \<Rightarrow> pystr" where
  "json_dumps PNone = lit ''null''"
| "json_dumps (PBool b) = (if b then lit ''true'' else lit ''false'')"
| "json_dumps (PInt i) = str_int i"
| "json_dumps (PFloat f) = json_float f"
| "json_dumps (PStr s) = json_string s"
| "json_dumps (PList xs) = [91] @ str_join (lit '', '') (map json_dumps xs) @ [93]"
| "json_dumps (PDict d) =
     [123] @ str_join (lit '', '')
       (map snd (sort_key fst (map (\<lambda>(k, v). (k, json_string k @ lit '': '' @ json_dumps v)) d)))
     @ [125]"

definition utf8_len :: "pystr \<Rightarrow> nat" where
  "utf8_len s =
     sum_list (map (\<lambda>c. if c < 128 then 1 else if c < 2048 then 2 else if c < 65536 then 3 else 4) s)"

lemma utf8_len_ge: "length s \<le> utf8_len s"
  by (induction s) (auto simp: utf8_len_def)

lemma utf8_len_append [simp]: "utf8_len (s @ t) = utf8_len s + utf8_len t"
  by (simp add: utf8_len_def)

text \<open>\<open>s.encode("utf-8")\<close>: bytes are 8-bit words.\<close>

type_synonym bytes = "8 word list"

definition utf8_char :: "int \<Rightarrow> bytes" where
  "utf8_char c = map word_of_int
     (if c < 128 then [c]
      else if c < 2048 then [192 + c div 64, 128 + c mod 64]
      else if c < 65536 then [224 + c div 4096, 128 + c div 64 mod 64, 128 + c mod 64]
      else [240 + c div 262144, 128 + c div 4096 mod 64, 128 + c div 64 mod 64, 128 + c mod 64])"

definition utf8_encode :: "pystr \<Rightarrow> bytes" where
  "utf8_encode s = concat (map utf8_char s)"

lemma length_utf8_encode: "length (utf8_encode s) = utf8_len s"
  by (induction s) (simp_all add: utf8_encode_def utf8_len_def utf8_char_def)

text \<open>A bound on the size of an encoding that needs no sorting and no escaping to evaluate.\<close>

fun json_weight :: "pyval \<Rightarrow> nat" where
  "json_weight PNone = 4"
| "json_weight (PBool b) = 5"
| "json_weight (PInt i) = utf8_len (str_int i)"
| "json_weight (PFloat f) = utf8_len (json_float f)"
| "json_weight (PStr s) = 2 + 6 * length s"
| "json_weight (PList xs) = 2 + sum_list (map (\<lambda>x. 2 + json_weight x) xs)"
| "json_weight (PDict d) = 2 + sum_list (map (\<lambda>(k, v). 6 + 6 * length k + json_weight v) d)"

lemma utf8_len_Nil [simp]: "utf8_len [] = 0"
  by (simp add: utf8_len_def)

lemma utf8_len_Cons: "utf8_len (c # s) = utf8_len [c] + utf8_len s"
  by (simp add: utf8_len_def)

lemma utf8_len_ascii: "\<forall>c\<in>set s. c < 128 \<Longrightarrow> utf8_len s = length s"
  by (induction s) (auto simp: utf8_len_def)

lemma utf8_len_json_char: "utf8_len (json_char c) \<le> 6"
proof -
  have hex: "utf8_len (hex_fixed w n) = w" for w n
  proof -
    have "(\<forall>c\<in>set (hex_fixed w n). c < 128) \<and> length (hex_fixed w n) = w"
      by (induction w n rule: hex_fixed.induct) (auto simp: hex_digit_def)
    then show ?thesis using utf8_len_ascii by metis
  qed
  have one: "utf8_len [c] \<le> 4" by (simp add: utf8_len_def)
  have two: "utf8_len [92, a] = 2" if "a < 128" for a using that by (simp add: utf8_len_def)
  show ?thesis unfolding json_char_def
    using one by (simp add: two hex del: append.simps split: if_split)
qed

lemma utf8_len_json_string: "utf8_len (json_string s) \<le> 2 + 6 * length s"
proof -
  have "utf8_len (concat (map json_char s)) \<le> 6 * length s"
  proof (induction s)
    case (Cons c s)
    then show ?case using utf8_len_json_char [of c] by simp
  qed simp
  moreover have "utf8_len [34] = 1" by (simp add: utf8_len_def)
  moreover have "utf8_len (json_string s) = utf8_len [34] + utf8_len (concat (map json_char s)) + utf8_len [34]"
    unfolding json_string_def utf8_len_append by simp
  ultimately show ?thesis by linarith
qed

lemma utf8_len_join: "utf8_len (str_join sep ps) \<le> sum_list (map (\<lambda>p. utf8_len sep + utf8_len p) ps)"
proof (induction ps)
  case (Cons p ps)
  then show ?case by (cases "ps = []") (auto simp: str_join_Cons, simp add: str_join_def)
qed (simp add: str_join_def)

lemma sum_list_sort_key: "sum_list (map f (sort_key k xs)) = (sum_list (map f xs) :: nat)"
  by (metis mset_map mset_sort sum_mset_sum_list)

lemma utf8_len_json: "utf8_len (json_dumps v) \<le> json_weight v"
proof (induction v)
  case (PStr s)
  show ?case by (simp only: json_dumps.simps json_weight.simps utf8_len_json_string)
next
  case (PList xs)
  let ?js = "map json_dumps xs"
  have "sum_list (map (\<lambda>p. 2 + utf8_len p) ?js) \<le> sum_list (map (\<lambda>x. 2 + json_weight x) xs)"
    unfolding map_map by (rule sum_list_mono) (use PList in auto)
  moreover have "utf8_len (str_join (lit '', '') ?js) \<le> sum_list (map (\<lambda>p. 2 + utf8_len p) ?js)"
    using utf8_len_join [of "lit '', ''" ?js] by (simp add: lit_def utf8_len_def)
  moreover have "utf8_len [91] = 1" "utf8_len [93] = 1" by (simp_all add: utf8_len_def)
  ultimately show ?case unfolding json_dumps.simps utf8_len_append json_weight.simps by linarith
next
  case (PDict d)
  let ?es = "map (\<lambda>(k, v). (k, json_string k @ lit '': '' @ json_dumps v)) d"
  let ?js = "map snd (sort_key fst ?es)"
  have "utf8_len (json_string k @ lit '': '' @ json_dumps v) \<le> 4 + 6 * length k + json_weight v"
    if "(k, v) \<in> set d" for k v
  proof -
    have "utf8_len (json_dumps v) \<le> json_weight v" using PDict that by auto
    moreover have "utf8_len (lit '': '') = 2" by (simp add: lit_def utf8_len_def)
    ultimately show ?thesis using utf8_len_json_string [of k] by simp
  qed
  then have "sum_list (map (\<lambda>(k, v). 2 + utf8_len (json_string k @ lit '': '' @ json_dumps v)) d) \<le>
      sum_list (map (\<lambda>(k, v). 6 + 6 * length k + json_weight v) d)"
    by (intro sum_list_mono) fastforce
  moreover have "sum_list (map (\<lambda>p. 2 + utf8_len p) ?js) =
      sum_list (map (\<lambda>(k, v). 2 + utf8_len (json_string k @ lit '': '' @ json_dumps v)) d)"
    unfolding map_map comp_def
    by (subst sum_list_sort_key) (simp add: comp_def case_prod_unfold)
  moreover have "utf8_len (str_join (lit '', '') ?js) \<le> sum_list (map (\<lambda>p. 2 + utf8_len p) ?js)"
    using utf8_len_join [of "lit '', ''" ?js] by (simp add: lit_def utf8_len_def)
  moreover have "utf8_len [123] = 1" "utf8_len [125] = 1" by (simp_all add: utf8_len_def)
  ultimately show ?case unfolding json_dumps.simps utf8_len_append json_weight.simps by linarith
qed (simp_all add: lit_def utf8_len_def)

end
