(* ===== verification/Clause_Splitter.thy ===== *)
theory Clause_Splitter
  imports Py_Regex Py_Values
begin

text \<open>
  Model of \<^verbatim>\<open>src/backend/app/services/clause_splitter.py\<close>: recognition of clause markers and
  the two splitters, for plain text and for a snapshot of pages.  \<open>sha\<close> is the hexadecimal
  SHA-256 digest of the UTF-8 encoding, a native routine.
\<close>

subsection \<open>Markers\<close>

text \<open>The patterns are anchored and used with \<open>match\<close>, so the leading anchor is implicit.\<close>

definition any_char :: "int \<Rightarrow> bool" where
  "any_char c \<longleftrightarrow> c \<noteq> 10"

definition ARTICLE_RE :: rx where
  "ARTICLE_RE = SeqL
     [Chr 51228, Many is_space, Many1 is_decimal, Many is_space, Chr 51312,
      Opt (SeqL [Many is_space, Chr 40, Grp 1 (Many (\<lambda>c. c \<noteq> 41)), Chr 41]),
      Opt (Seq (Many1 is_space) (Grp 2 (Many any_char))), AtEnd]"

definition ARTICLE_ITEM_RE :: rx where
  "ARTICLE_ITEM_RE = SeqL
     [Chr 51228, Many is_space, Many1 is_decimal, Many is_space, Chr 54637,
      Opt (SeqL [Many is_space, Chr 40, Grp 1 (Many (\<lambda>c. c \<noteq> 41)), Chr 41]),
      Opt (Seq (Many1 is_space) (Grp 2 (Many any_char))), AtEnd]"

definition NUMBER_DOT_RE :: rx where
  "NUMBER_DOT_RE = SeqL
     [Grp 1 (Many1 is_decimal), Chr 46, Many is_space, Grp 2 (Many any_char), AtEnd]"

definition NUMBER_PAREN_RE :: rx where
  "NUMBER_PAREN_RE = SeqL
     [Grp 1 (Many1 is_decimal), Chr 41, Many is_space, Grp 2 (Many any_char), AtEnd]"

definition PAREN_NUMBER_RE :: rx where
  "PAREN_NUMBER_RE = SeqL
     [Chr 40, Grp 1 (Many1 is_decimal), Chr 41, Many is_space, Grp 2 (Many any_char), AtEnd]"

definition CIRCLED_RE :: rx where
  "CIRCLED_RE = SeqL
     [Grp 1 (Cls (\<lambda>c. 9312 \<le> c \<and> c \<le> 9320)), Many is_space, Grp 2 (Many any_char), AtEnd]"

definition HANGUL_DOT_RE :: rx where
  "HANGUL_DOT_RE = SeqL
     [Grp 1 (Cls (\<lambda>c. 44032 \<le> c \<and> c \<le> 54616)), Chr 46, Many is_space, Grp 2 (Many any_char), AtEnd]"

definition SPECIAL_CLAUSE_RE :: rx where
  "SPECIAL_CLAUSE_RE = SeqL [Lit [51204, 47928], Many is_space, Grp 1 (Many any_char), AtEnd]"

definition APPENDIX_RE :: rx where
  "APPENDIX_RE = SeqL
     [Lit [48512, 52825], Many is_space,
      Opt (SeqL [Chr 40, Grp 1 (Many (\<lambda>c. c \<noteq> 41)), Chr 41]),
      Opt (Seq (Many is_space) (Grp 2 (Many any_char))), AtEnd]"

definition short_source_hash :: "(pystr \<Rightarrow> pystr) \<Rightarrow> pystr \<Rightarrow> pystr" where
  "short_source_hash sha text = take 12 (sha text)"

definition normalize_title :: "pystr \<Rightarrow> pystr option" where
  "normalize_title raw_title =
     (if raw_title = [] then None
      else
        let title = strip raw_title;
            title' = (if startswith title [40] \<and> endswith title [41] then strip (slice title 1 (length title - 1))
                      else if startswith title [65288] \<and> endswith title [65289]
                        then strip (slice title 1 (length title - 1))
                      else title)
        in if title' = [] then None else Some title')"

record marker =
  mk_marker :: pystr
  mk_title :: "pystr option"
  mk_rest :: pystr
  mk_inline_text :: pystr
  mk_include_rest_as_body :: bool
  mk_clause_type :: pystr

text \<open>A row of the pattern table: the pattern, its number of groups, whether it is one of the two
  article patterns, whether the rest of the line counts as body, and the clause type.\<close>

definition marker_patterns :: "(rx \<times> nat \<times> bool \<times> bool \<times> pystr) list" where
  "marker_patterns =
    [(ARTICLE_RE, 2, True, True, lit ''normal''),
     (ARTICLE_ITEM_RE, 2, True, True, lit ''normal''),
     (NUMBER_DOT_RE, 2, False, True, lit ''normal''),
     (NUMBER_PAREN_RE, 2, False, True, lit ''normal''),
     (PAREN_NUMBER_RE, 2, False, True, lit ''normal''),
     (CIRCLED_RE, 2, False, True, lit ''normal''),
     (HANGUL_DOT_RE, 2, False, True, lit ''normal''),
     (SPECIAL_CLAUSE_RE, 1, False, False, lit ''special_agreement''),
     (APPENDIX_RE, 2, False, False, lit ''appendix'')]"

text \<open>\<open>text.split()[0] if text.split() else text\<close>.\<close>

definition first_word :: "pystr \<Rightarrow> pystr" where
  "first_word s =
     (let t = lstrip s in if t = [] then s else takeWhile (\<lambda>c. \<not> is_space c) t)"

definition group_or :: "rmatch \<Rightarrow> nat \<Rightarrow> pystr" where
  "group_or m n = (case group m n of None \<Rightarrow> [] | Some g \<Rightarrow> g)"

text \<open>
  \<open>match.group(1) or match.group(2) or ""\<close>: the second group is asked for only when the first
  is empty or absent, and asking for a group the pattern does not have raises \<open>IndexError\<close>.
\<close>

definition first_group :: "nat \<Rightarrow> rmatch \<Rightarrow> pystr result" where
  "first_group n_groups m =
     (if group_or m 1 \<noteq> [] then Inr (group_or m 1)
      else if n_groups < 2 then Inl (IndexError (lit ''no such group''))
      else Inr (group_or m 2))"

definition marker_of_match ::
  "pystr \<Rightarrow> rmatch \<Rightarrow> nat \<Rightarrow> bool \<Rightarrow> bool \<Rightarrow> pystr \<Rightarrow> marker result" where
  "marker_of_match stripped m n_groups article in_body clause_type =
     (let marker = first_word (slice stripped (fst m) (fst (snd m)))
      in if article then
           (let title = strip (group_or m 1); inline = strip (group_or m 2)
            in Inr (if title \<noteq> [] then
                 \<lparr>mk_marker = marker, mk_title = Some title, mk_rest = inline, mk_inline_text = [],
                  mk_include_rest_as_body = False, mk_clause_type = clause_type\<rparr>
               else
                 \<lparr>mk_marker = marker, mk_title = None, mk_rest = [], mk_inline_text = inline,
                  mk_include_rest_as_body = True, mk_clause_type = clause_type\<rparr>))
         else
           bind (first_group n_groups m) (\<lambda>g.
             let rest = strip g
             in Inr \<lparr>mk_marker = marker, mk_title = None, mk_rest = rest, mk_inline_text = rest,
                     mk_include_rest_as_body = in_body, mk_clause_type = clause_type\<rparr>))"

fun try_patterns :: "pystr \<Rightarrow> (rx \<times> nat \<times> bool \<times> bool \<times> pystr) list \<Rightarrow> marker option result" where
  "try_patterns stripped [] = Inr None"
| "try_patterns stripped ((pattern, n_groups, article, in_body, clause_type) # ps) =
     (case re_match pattern stripped of
        None \<Rightarrow> try_patterns stripped ps
      | Some m \<Rightarrow> bind (marker_of_match stripped m n_groups article in_body clause_type) (\<lambda>k. Inr (Some k)))"

definition detect_marker :: "pystr \<Rightarrow> marker option result" where
  "detect_marker line =
     (let stripped = strip line
      in if stripped = [] then Inr None else try_patterns stripped marker_patterns)"

subsection \<open>Splitting plain text\<close>

record clause =
  clause_id :: pystr
  reference_id :: pystr
  cl_source_hash :: pystr
  ordinal :: nat
  cl_marker :: pystr
  clause_type :: pystr
  title :: "pystr option"
  body :: pystr
  cl_warnings :: "pystr list"

record split_result =
  sr_document_id :: pystr
  clause_count :: nat
  clauses :: "clause list"
  unclassified_sections :: "pystr list"
  document_warnings :: "pystr list"

text \<open>\<open>str(marker.get("title"))\<close>: the text of a missing title is \<open>None\<close>.\<close>

definition title_text :: "marker \<Rightarrow> pystr" where
  "title_text k = (case mk_title k of None \<Rightarrow> lit ''None'' | Some t \<Rightarrow> t)"

definition paragraph_gap :: rx where
  "paragraph_gap = SeqL [Chr 10, Many is_space, Chr 10]"

definition paragraphs :: "pystr \<Rightarrow> pystr list" where
  "paragraphs text = filter (\<lambda>p. p \<noteq> []) (map strip (re_split paragraph_gap text))"

definition make_clause :: "(pystr \<Rightarrow> pystr) \<Rightarrow> pystr \<Rightarrow> nat \<Rightarrow> pystr \<Rightarrow> marker \<Rightarrow> clause" where
  "make_clause sha document_id n paragraph k =
     (let lines = splitlines paragraph;
          body_lines = (if mk_inline_text k \<noteq> [] then [mk_inline_text k] else []) @ tl lines;
          body = strip (str_join [10] body_lines)
      in \<lparr>clause_id = lit ''clause-'' @ pad0 3 (nat_digits n),
          reference_id = document_id @ lit '':clause:'' @ nat_digits n,
          cl_source_hash = short_source_hash sha paragraph,
          ordinal = n, cl_marker = mk_marker k, clause_type = mk_clause_type k,
          title = normalize_title (title_text k), body = body,
          cl_warnings = (if body = [] then [lit ''empty_body''] else [])\<rparr>)"

fun split_loop ::
  "(pystr \<Rightarrow> pystr) \<Rightarrow> pystr \<Rightarrow> nat \<Rightarrow> pystr list \<Rightarrow> (clause list \<times> pystr list) result" where
  "split_loop sha document_id n [] = Inr ([], [])"
| "split_loop sha document_id n (paragraph # ps) =
     (case splitlines paragraph of
        [] \<Rightarrow> Inl (IndexError (lit ''list index out of range''))
      | line # _ \<Rightarrow>
          bind (detect_marker line) (\<lambda>marker.
            case marker of
              None \<Rightarrow> bind (split_loop sha document_id n ps) (\<lambda>(cs, us). Inr (cs, paragraph # us))
            | Some k \<Rightarrow> bind (split_loop sha document_id (Suc n) ps)
                (\<lambda>(cs, us). Inr (make_clause sha document_id (Suc n) paragraph k # cs, us))))"

definition split_clauses :: "(pystr \<Rightarrow> pystr) \<Rightarrow> pystr \<Rightarrow> pystr \<Rightarrow> split_result result" where
  "split_clauses sha text document_id =
     bind (split_loop sha document_id 0 (paragraphs text)) (\<lambda>(cs, us).
       Inr \<lparr>sr_document_id = document_id, clause_count = length cs, clauses = cs,
            unclassified_sections = us,
            document_warnings = (if cs = [] then [lit ''no_clause_marker_detected''] else [])\<rparr>)"

subsection \<open>Blocks of a page\<close>

record block =
  block_id :: pystr
  block_text :: pystr
  start_in_page_offset :: int
  end_in_page_offset :: int

fun normalize_block_loop ::
  "int \<Rightarrow> nat \<Rightarrow> pystr list \<Rightarrow> pyval list \<Rightarrow> block list result" where
  "normalize_block_loop page_number index used [] = Inr []"
| "normalize_block_loop page_number index used (b # bs) =
     (case as_dict b of
        None \<Rightarrow> normalize_block_loop page_number (Suc index) used bs
      | Some d \<Rightarrow>
          let id0 = strip (get_str d ''block_id'' '''');
              bid = (if id0 = [] \<or> List.member used id0
                     then lit ''p'' @ str_int page_number @ lit ''-b'' @ nat_digits (index + 1) else id0);
              text = get_str d ''text'' '''';
              end_value = get d ''end_in_page_offset'' (PInt 0)
          in bind (py_int (get d ''start_in_page_offset'' (PInt 0))) (\<lambda>start.
             bind (if is_truthy end_value then py_int end_value else Inr (int (length text))) (\<lambda>fin.
             bind (normalize_block_loop page_number (Suc index) (bid # used) bs) (\<lambda>rest.
               Inr (\<lparr>block_id = bid, block_text = text, start_in_page_offset = start,
                     end_in_page_offset = fin\<rparr> # rest)))))"

definition normalize_block_ids :: "pyval list \<Rightarrow> int \<Rightarrow> block list result" where
  "normalize_block_ids blocks page_number =
     bind (normalize_block_loop page_number 0 [] blocks) (\<lambda>normalized.
       Inr (if normalized = [] then
              [\<lparr>block_id = lit ''p'' @ str_int page_number @ lit ''-b1'', block_text = [],
                start_in_page_offset = 0, end_in_page_offset = 0\<rparr>]
            else normalized))"

subsection \<open>Splitting a snapshot\<close>

record snapshot_clause =
  sc_clause_id :: pystr
  sc_reference_id :: pystr
  sc_source_hash :: pystr
  sc_ordinal :: nat
  sc_marker :: pystr
  sc_clause_type :: pystr
  sc_title :: "pystr option"
  sc_body :: pystr
  sc_text :: pystr
  sc_warnings :: "pystr list"
  clause_level :: pystr
  page_start :: int
  page_end :: int
  sc_start_offset :: nat
  sc_end_offset :: nat
  sc_block_ids :: "pystr list"
  sc_split_method :: pystr

record snapshot_result =
  sn_clauses :: "snapshot_clause list"
  sn_unclassified_sections :: "pystr list"
  sn_document_warnings :: "pystr list"
  page_metadata :: "(int \<times> block list) list"
  sn_split_method :: pystr

text \<open>
  A page after the loop over the sorted pages: its number with the position as default, the
  number with default 0 that the fallback branch reads again, its text and normalised blocks.
\<close>

record page =
  pg_number :: int
  pg_number0 :: int
  pg_text :: pystr
  pg_blocks :: "block list"

definition page_sort_key :: "pydict \<Rightarrow> int result" where
  "page_sort_key p = py_int (get p ''page_number'' (PInt 0))"

definition sort_pages :: "pydict list \<Rightarrow> pydict list result" where
  "sort_pages ps =
     bind (map_result page_sort_key ps) (\<lambda>keys.
       Inr (map snd (sort_key fst (zip keys ps))))"

fun read_pages :: "nat \<Rightarrow> pydict list \<Rightarrow> page list result" where
  "read_pages index [] = Inr []"
| "read_pages index (p # ps) =
     bind (py_int (get p ''page_number'' (PInt (int index)))) (\<lambda>number.
     bind (page_sort_key p) (\<lambda>number0.
     bind (normalize_block_ids (case as_list (get0 p ''blocks'') of None \<Rightarrow> [] | Some bs \<Rightarrow> bs) number) (\<lambda>blocks.
     bind (read_pages (Suc index) ps) (\<lambda>rest.
       Inr (\<lparr>pg_number = number, pg_number0 = number0, pg_text = get_str p ''final_text'' '''',
             pg_blocks = blocks\<rparr> # rest)))))"

text \<open>Non-blank lines with the offset counted as in the loop: each line's length plus one.\<close>

fun page_lines :: "int \<Rightarrow> nat \<Rightarrow> pystr list \<Rightarrow> (int \<times> pystr \<times> nat) list" where
  "page_lines number offset [] = []"
| "page_lines number offset (raw_line # ls) =
     (if strip raw_line = [] then page_lines number (offset + length raw_line + 1) ls
      else (number, strip raw_line, offset) # page_lines number (offset + length raw_line + 1) ls)"

definition all_lines :: "page list \<Rightarrow> (int \<times> pystr \<times> nat) list" where
  "all_lines pages = concat (map (\<lambda>p. page_lines (pg_number p) 0 (splitlines (pg_text p))) pages)"

text \<open>The dictionaries keyed by page number: the last page with a number wins.\<close>

definition blocks_of_page :: "page list \<Rightarrow> int \<Rightarrow> block list" where
  "blocks_of_page pages n =
     (case map_of (rev (map (\<lambda>p. (pg_number p, pg_blocks p)) pages)) n of None \<Rightarrow> [] | Some bs \<Rightarrow> bs)"

definition text_of_page :: "page list \<Rightarrow> int \<Rightarrow> pystr" where
  "text_of_page pages n =
     (case map_of (rev (map (\<lambda>p. (pg_number p, pg_text p)) pages)) n of None \<Rightarrow> [] | Some t \<Rightarrow> t)"

text \<open>\<open>any(_detect_marker(line) is not None for line in lines)\<close>: stops at the first marker.\<close>

fun any_marker :: "(int \<times> pystr \<times> nat) list \<Rightarrow> bool result" where
  "any_marker [] = Inr False"
| "any_marker ((n, line, off) # ls) =
     bind (detect_marker line) (\<lambda>m. if m \<noteq> None then Inr True else any_marker ls)"

definition whole_page_clause ::
  "(pystr \<Rightarrow> pystr) \<Rightarrow> pystr \<Rightarrow> nat \<Rightarrow> int \<Rightarrow> pystr \<Rightarrow> pystr \<Rightarrow> pystr list \<Rightarrow> snapshot_clause" where
  "whole_page_clause sha document_id n page_number page_text clause_body block_ids =
     \<lparr>sc_clause_id = lit ''snapshot-clause-'' @ pad0 3 (nat_digits n),
      sc_reference_id = document_id @ lit '':clause:'' @ nat_digits n,
      sc_source_hash = short_source_hash sha page_text, sc_ordinal = n,
      sc_marker = lit ''unclassified'', sc_clause_type = lit ''normal'', sc_title = None,
      sc_body = clause_body, sc_text = page_text, sc_warnings = [], clause_level = lit ''document'',
      page_start = page_number, page_end = page_number, sc_start_offset = 0,
      sc_end_offset = length page_text, sc_block_ids = block_ids,
      sc_split_method = lit ''whole_document_fallback''\<rparr>"

fun page_clauses ::
  "(pystr \<Rightarrow> pystr) \<Rightarrow> pystr \<Rightarrow> page list \<Rightarrow> nat \<Rightarrow> page list \<Rightarrow> snapshot_clause list" where
  "page_clauses sha document_id all n [] = []"
| "page_clauses sha document_id all n (p # ps) =
     (let number = pg_number0 p; text = text_of_page all number
      in whole_page_clause sha document_id n number text (strip text)
           (map block_id (blocks_of_page all number))
         # page_clauses sha document_id all (Suc n) ps)"

definition start_clause ::
  "(pystr \<Rightarrow> pystr) \<Rightarrow> pystr \<Rightarrow> page list \<Rightarrow> nat \<Rightarrow> int \<Rightarrow> pystr \<Rightarrow> nat \<Rightarrow> marker \<Rightarrow> snapshot_clause" where
  "start_clause sha document_id pages n page_number line line_offset k =
     (let rest = mk_inline_text k
      in \<lparr>sc_clause_id = lit ''snapshot-clause-'' @ pad0 3 (nat_digits n),
          sc_reference_id = document_id @ lit '':clause:'' @ nat_digits n,
          sc_source_hash = short_source_hash sha line, sc_ordinal = n,
          sc_marker = mk_marker k, sc_clause_type = mk_clause_type k,
          sc_title = normalize_title (title_text k), sc_body = rest, sc_text = line,
          sc_warnings = (if rest = [] then [lit ''empty_body''] else []),
          clause_level = lit ''line'', page_start = page_number, page_end = page_number,
          sc_start_offset = line_offset, sc_end_offset = line_offset + length line,
          sc_block_ids = map block_id (blocks_of_page pages page_number),
          sc_split_method = lit ''marker_split''\<rparr>)"

text \<open>\<open>_close_current\<close>: a clause whose body is blank is dropped.\<close>

definition close_current :: "snapshot_clause option \<Rightarrow> snapshot_clause list" where
  "close_current current =
     (case current of None \<Rightarrow> [] | Some c \<Rightarrow> if strip (sc_body c) \<noteq> [] then [c] else [])"

definition extend_clause :: "int \<Rightarrow> pystr \<Rightarrow> nat \<Rightarrow> snapshot_clause \<Rightarrow> snapshot_clause" where
  "extend_clause page_number line line_offset c =
     c\<lparr>sc_body := sc_body c @ [10] @ line, sc_end_offset := line_offset + length line,
       page_end := page_number\<rparr>"

fun marker_loop ::
  "(pystr \<Rightarrow> pystr) \<Rightarrow> pystr \<Rightarrow> page list \<Rightarrow> nat \<Rightarrow> snapshot_clause option \<Rightarrow>
   (int \<times> pystr \<times> nat) list \<Rightarrow> (snapshot_clause list \<times> pystr list) result" where
  "marker_loop sha document_id pages n current [] = Inr (close_current current, [])"
| "marker_loop sha document_id pages n current ((page_number, line, line_offset) # ls) =
     bind (detect_marker line) (\<lambda>marker.
       case marker of
         None \<Rightarrow>
           (case current of
              Some c \<Rightarrow> marker_loop sha document_id pages n
                          (Some (extend_clause page_number line line_offset c)) ls
            | None \<Rightarrow> bind (marker_loop sha document_id pages n None ls)
                        (\<lambda>(cs, us). Inr (cs, line # us)))
       | Some k \<Rightarrow>
           bind (marker_loop sha document_id pages (Suc n)
                   (Some (start_clause sha document_id pages (Suc n) page_number line line_offset k)) ls)
             (\<lambda>(cs, us). Inr (close_current current @ cs, us)))"

definition split_clauses_with_snapshot ::
  "(pystr \<Rightarrow> pystr) \<Rightarrow> pyval list \<Rightarrow> pystr \<Rightarrow> snapshot_result result" where
  "split_clauses_with_snapshot sha pages document_id =
     (if pages = [] then
        Inr \<lparr>sn_clauses = [], sn_unclassified_sections = [],
             sn_document_warnings = [lit ''empty_snapshot''], page_metadata = [],
             sn_split_method = lit ''whole_document_fallback''\<rparr>
      else
        bind (sort_pages (dicts_of pages)) (\<lambda>sorted_pages.
        bind (read_pages 1 sorted_pages) (\<lambda>ps.
          let lines = all_lines ps; metadata = map (\<lambda>p. (pg_number p, pg_blocks p)) ps
          in bind (any_marker lines) (\<lambda>has_marker.
            if \<not> has_marker then
              Inr \<lparr>sn_clauses = page_clauses sha document_id ps 1 ps, sn_unclassified_sections = [],
                   sn_document_warnings = [], page_metadata = metadata,
                   sn_split_method = lit ''whole_document_fallback''\<rparr>
            else
              bind (marker_loop sha document_id ps 0 None lines) (\<lambda>(cs, us).
                case (cs, ps) of
                  ([], p # _) \<Rightarrow>
                    bind (py_int (get (hd sorted_pages) ''page_number'' (PInt 1))) (\<lambda>number.
                      let full_text = pg_text p
                      in Inr \<lparr>sn_clauses = [whole_page_clause sha document_id 1 number full_text full_text
                                (map block_id (blocks_of_page ps number))],
                              sn_unclassified_sections = us,
                              sn_document_warnings = [lit ''fallback_clause_from_snapshot''],
                              page_metadata = metadata, sn_split_method = lit ''marker_or_fallback''\<rparr>)
                | ([], []) \<Rightarrow> Inl (IndexError (lit ''list index out of range''))
                | (cs, _) \<Rightarrow> Inr \<lparr>sn_clauses = cs, sn_unclassified_sections = us,
                     sn_document_warnings = [], page_metadata = metadata,
                     sn_split_method = lit ''marker_or_fallback''\<rparr>)))))"

end
