(* ===== verification/Clause_Splitter_Correct.thy ===== *)
theory Clause_Splitter_Correct
  imports Clause_Splitter
begin

text \<open>
  Correctness of the two splitters: numbering and identifiers, the partition of the text into
  clauses and unclassified sections, the error branch, and what becomes of the text and title of
  a clause.
\<close>

subsection \<open>Plain text\<close>

lemma split_loop_Cons:
  assumes "split_loop sha doc n (p # ps) = Inr (cs, us)"
  obtains us' where "detect_marker (hd (splitlines p)) = Inr None"
      "split_loop sha doc n ps = Inr (cs, us')" "us = p # us'"
  | k cs' where "detect_marker (hd (splitlines p)) = Inr (Some k)"
      "split_loop sha doc (Suc n) ps = Inr (cs', us)" "cs = make_clause sha doc (Suc n) p k # cs'"
proof -
  from assms obtain line ls m where l: "splitlines p = line # ls" "detect_marker line = Inr m"
    by (auto simp: bind_Inr_iff split: list.splits)
  show ?thesis
  proof (cases m)
    case None
    with assms l that(1) show ?thesis by (auto simp: bind_Inr_iff)
  next
    case (Some k)
    with assms l that(2) show ?thesis by (auto simp: bind_Inr_iff)
  qed
qed

lemma split_loop_ordinals:
  "split_loop sha doc n ps = Inr (cs, us) \<Longrightarrow> map ordinal cs = [Suc n..<Suc n + length cs]"
proof (induction ps arbitrary: n cs us)
  case (Cons p ps)
  from Cons.prems show ?case
  proof (cases rule: split_loop_Cons)
    case (1 us')
    then show ?thesis using Cons.IH by blast
  next
    case (2 k cs')
    from Cons.IH [OF 2(2)] have "map ordinal cs' = [Suc (Suc n)..<Suc n + length cs]"
      by (simp add: 2(3))
    then show ?thesis by (simp add: 2(3) make_clause_def Let_def upt_conv_Cons del: upt_Suc)
  qed
qed simp

lemma split_loop_ids:
  "split_loop sha doc n ps = Inr (cs, us) \<Longrightarrow> c \<in> set cs \<Longrightarrow>
     \<exists>m p k. c = make_clause sha doc m p k \<and> p \<in> set ps \<and> detect_marker (hd (splitlines p)) = Inr (Some k)"
proof (induction ps arbitrary: n cs us)
  case (Cons p ps)
  from Cons.prems(1) show ?case
  proof (cases rule: split_loop_Cons)
    case (1 us')
    then show ?thesis using Cons.IH Cons.prems(2) by fastforce
  next
    case (2 k cs')
    with Cons.prems(2) consider "c = make_clause sha doc (Suc n) p k" | "c \<in> set cs'" by auto
    then show ?thesis
    proof cases
      case 1
      with 2(1) show ?thesis by auto
    next
      case 22: 2
      from Cons.IH [OF 2(2) this] show ?thesis by auto
    qed
  qed
qed simp

lemma make_clause_ids:
  "reference_id (make_clause sha doc n p k) = doc @ lit '':clause:'' @ nat_digits n"
  "clause_id (make_clause sha doc n p k) = lit ''clause-'' @ pad0 3 (nat_digits n)"
  "ordinal (make_clause sha doc n p k) = n"
  "title (make_clause sha doc n p k) = normalize_title (title_text k)"
  by (simp_all add: make_clause_def Let_def)

lemma split_loop_partition:
  "split_loop sha doc n ps = Inr (cs, us) \<Longrightarrow>
     us = filter (\<lambda>p. detect_marker (hd (splitlines p)) = Inr None) ps \<and>
     length cs = length (filter (\<lambda>p. detect_marker (hd (splitlines p)) \<noteq> Inr None) ps)"
proof (induction ps arbitrary: n cs us)
  case (Cons p ps)
  from Cons.prems show ?case
  proof (cases rule: split_loop_Cons)
    case (1 us')
    from Cons.IH [OF 1(2)] show ?thesis by (simp add: 1(1,3))
  next
    case (2 k cs')
    from Cons.IH [OF 2(2)] show ?thesis by (simp add: 2(1,3))
  qed
qed simp

lemma split_clauses_cases:
  assumes "split_clauses sha text doc = Inr r"
  shows "split_loop sha doc 0 (paragraphs text) = Inr (clauses r, unclassified_sections r)"
    "clause_count r = length (clauses r)"
  using assms by (auto simp: split_clauses_def bind_Inr_iff)

text \<open>The clauses of a text are numbered 1 to \<open>clause_count\<close> in order, and each carries the
  reference \<open>document:clause:ordinal\<close>, so references and clause ids are distinct.\<close>

theorem clauses_numbered:
  assumes "split_clauses sha text doc = Inr r"
  shows "map ordinal (clauses r) = [1..<Suc (clause_count r)] \<and>
    (\<forall>c\<in>set (clauses r). reference_id c = doc @ lit '':clause:'' @ nat_digits (ordinal c)) \<and>
    distinct (map reference_id (clauses r)) \<and> distinct (map clause_id (clauses r))"
proof -
  note sl = split_clauses_cases [OF assms]
  have ord: "map ordinal (clauses r) = [1..<Suc (clause_count r)]"
    using split_loop_ordinals [OF sl(1)] sl(2) by simp
  have ids: "\<forall>c\<in>set (clauses r). reference_id c = doc @ lit '':clause:'' @ nat_digits (ordinal c) \<and>
      clause_id c = lit ''clause-'' @ pad0 3 (nat_digits (ordinal c))"
    using split_loop_ids [OF sl(1)] make_clause_ids by metis
  have "distinct (map ordinal (clauses r))" by (simp add: ord)
  then have inj: "inj_on ordinal (set (clauses r))" "distinct (clauses r)"
    by (simp_all add: distinct_map)
  have "inj_on reference_id (set (clauses r))" "inj_on clause_id (set (clauses r))"
    using inj(1) ids by (auto simp: inj_on_def)
  with inj(2) ord ids show ?thesis by (simp add: distinct_map)
qed

definition two_items :: pystr where
  "two_items = lit ''intro'' @ [10, 10] @ lit ''1. scope'' @ [10, 10] @ lit ''2. price'' @ [10] @ lit ''net''"

theorem clauses_numbered_witness:
  "\<exists>r. split_clauses id two_items (lit ''d'') = Inr r \<and> clause_count r = 2 \<and>
     map ordinal (clauses r) = [1, 2]"
proof -
  obtain r where r: "split_clauses id two_items (lit ''d'') = Inr r" "clause_count r = 2"
  proof -
    have "(case split_clauses id two_items (lit ''d'') of Inr r \<Rightarrow> clause_count r = 2 | Inl e \<Rightarrow> False)"
      by code_simp
    then show ?thesis using that by (auto split: sum.splits)
  qed
  from clauses_numbered [OF r(1)] r show ?thesis by (simp add: upt_conv_Cons)
qed

text \<open>C39: Splitting partitions the paragraphs: the unclassified sections are exactly the
  paragraphs whose first line has no marker, in order, and there is one clause for every other
  paragraph.\<close>

theorem paragraphs_partitioned:
  assumes "split_clauses sha text doc = Inr r"
  shows "unclassified_sections r =
      filter (\<lambda>p. detect_marker (hd (splitlines p)) = Inr None) (paragraphs text) \<and>
    length (clauses r) + length (unclassified_sections r) = length (paragraphs text)"
proof -
  note sl = split_loop_partition [OF split_clauses_cases(1) [OF assms]]
  then show ?thesis
    using sum_length_filter_compl [of "\<lambda>p. detect_marker (hd (splitlines p)) = Inr None" "paragraphs text"]
    by simp
qed

theorem paragraphs_partitioned_witness:
  "\<exists>r. split_clauses id two_items (lit ''d'') = Inr r \<and> length (unclassified_sections r) = 1 \<and>
     length (clauses r) + length (unclassified_sections r) = length (paragraphs two_items)"
proof -
  obtain r where r: "split_clauses id two_items (lit ''d'') = Inr r" "length (unclassified_sections r) = 1"
  proof -
    have "(case split_clauses id two_items (lit ''d'') of
        Inr r \<Rightarrow> length (unclassified_sections r) = 1 | Inl e \<Rightarrow> False)"
      by code_simp
    then show ?thesis using that by (auto split: sum.splits)
  qed
  from paragraphs_partitioned [OF r(1)] r show ?thesis by blast
qed

subsection \<open>Headings, numbers and titles\<close>

lemma split_loop_raises:
  assumes "p \<in> set ps" "splitlines p \<noteq> []" "detect_marker (hd (splitlines p)) = Inl e"
  shows "\<exists>e'. split_loop sha doc n ps = Inl e'"
  using assms
proof (induction ps arbitrary: n)
  case (Cons q qs)
  show ?case
  proof (cases "split_loop sha doc n (q # qs)")
    case (Inr r)
    obtain cs us where "r = (cs, us)" by (cases r)
    with Inr have sl: "split_loop sha doc n (q # qs) = Inr (cs, us)" by simp
    from Cons.prems consider "p = q" | "p \<in> set qs" by auto
    then show ?thesis
    proof cases
      case 1
      from sl show ?thesis by (cases rule: split_loop_Cons) (use 1 Cons.prems(3) in auto)
    next
      case 2
      then obtain e1 e2 where "split_loop sha doc n qs = Inl e1" "split_loop sha doc (Suc n) qs = Inl e2"
        using Cons.IH Cons.prems by meson
      with sl show ?thesis by (cases rule: split_loop_Cons) auto
    qed
  qed simp
qed simp

text \<open>The heading of a preamble (the word the source's \<open>SPECIAL_CLAUSE_RE\<close> looks for).\<close>

definition preamble_heading :: pystr where
  "preamble_heading = [51204, 47928]"

lemma preamble_heading_raises:
  "detect_marker preamble_heading = Inl (IndexError (lit ''no such group''))"
  by code_simp

text \<open>A paragraph whose first line is the bare preamble heading makes the whole split raise:
  the pattern has one group, it is empty there, and the code then asks for a second one.\<close>

theorem bare_preamble_aborts_split:
  assumes "p \<in> set (paragraphs text)" and "splitlines p \<noteq> []"
    and "hd (splitlines p) = preamble_heading"
  shows "\<exists>e. split_clauses sha text doc = Inl e"
proof -
  from split_loop_raises [OF assms(1,2), of _ sha doc 0] assms(3) preamble_heading_raises
  obtain e where "split_loop sha doc 0 (paragraphs text) = Inl e" by auto
  then show ?thesis by (simp add: split_clauses_def)
qed

definition contract_with_preamble :: pystr where
  "contract_with_preamble = preamble_heading @ [10] @ lit ''We agree.'' @ [10, 10] @ lit ''1. scope''"

theorem bare_preamble_aborts_split_witness:
  "\<exists>e. split_clauses id contract_with_preamble (lit ''d'') = Inl e"
proof -
  have "hd (paragraphs contract_with_preamble) = preamble_heading @ [10] @ lit ''We agree.''"
    "paragraphs contract_with_preamble \<noteq> []"
    "splitlines (preamble_heading @ [10] @ lit ''We agree.'') \<noteq> []"
    "hd (splitlines (preamble_heading @ [10] @ lit ''We agree.'')) = preamble_heading"
    by code_simp+
  then show ?thesis
    by (intro bare_preamble_aborts_split [of "preamble_heading @ [10] @ lit ''We agree.''"])
       (metis list.set_sel(1), simp_all)
qed

text \<open>Which groups a pattern can set.\<close>

fun rx_groups :: "rx \<Rightarrow> nat set" where
  "rx_groups (Seq r1 r2) = rx_groups r1 \<union> rx_groups r2"
| "rx_groups (Alt r1 r2) = rx_groups r1 \<union> rx_groups r2"
| "rx_groups (Opt r) = rx_groups r"
| "rx_groups (Grp n r) = insert n (rx_groups r)"
| "rx_groups r = {}"

lemma captured_groups:
  "(c, g) \<in> set (rx_match r cur) \<Longrightarrow> n \<in> fst ` set g \<Longrightarrow> n \<in> rx_groups r"
proof (induction r arbitrary: cur c g)
  case (Chars p lo hi)
  then show ?case by auto
next
  case (Seq r1 r2)
  from Seq.prems(1) obtain c1 g1 g2 where "(c1, g1) \<in> set (rx_match r1 cur)"
    "(c, g2) \<in> set (rx_match r2 c1)" "g = g2 @ g1" by auto
  with Seq.prems(2) consider "n \<in> fst ` set g2" | "n \<in> fst ` set g1" by auto
  then show ?case
  proof cases
    case 1
    with Seq.IH(2) \<open>(c, g2) \<in> set (rx_match r2 c1)\<close> show ?thesis by simp
  next
    case 2
    with Seq.IH(1) \<open>(c1, g1) \<in> set (rx_match r1 cur)\<close> show ?thesis by simp
  qed
next
  case (Alt r1 r2)
  then show ?case unfolding rx_match.simps rx_groups.simps set_append by blast
next
  case (Opt r)
  from Opt.prems have "(c, g) \<in> set (rx_match r cur)" by auto
  with Opt.IH Opt.prems(2) show ?case by simp
next
  case (Grp k r)
  from Grp.prems(1) obtain g1 where "(c, g1) \<in> set (rx_match r cur)" "fst ` set g = insert k (fst ` set g1)"
    by auto
  with Grp.IH [of c g1 cur] Grp.prems(2) show ?case unfolding rx_groups.simps by blast
qed (auto split: if_splits)

lemma match_Seq:
  assumes "x \<in> set (rx_match (Seq r1 r2) cur)"
  obtains c1 g1 c2 g2 where "(c1, g1) \<in> set (rx_match r1 cur)" "(c2, g2) \<in> set (rx_match r2 c1)"
    "x = (c2, g2 @ g1)"
  using assms by auto

lemma match_group_run:
  assumes "(c1, g1) \<in> set (rx_match (Grp n (Many1 p)) (0, None, s))"
  obtains k where "0 < k" "k \<le> length (takeWhile p s)" "g1 = [(n, take k s)]"
proof -
  from assms obtain k where "k \<in> set [1..<Suc (max_run p None s)]" "g1 = [(n, take k s)]"
    by (auto simp: Many1_def advance_def simp del: upt_Suc)
  moreover from this(1) have "0 < k" "k \<le> length (takeWhile p s)"
    by (auto simp: max_run_def Let_def simp del: upt_Suc)
  ultimately show ?thesis using that by blast
qed

lemma leading_group:
  assumes "re_match (Seq (Grp 1 (Many1 p)) r) s = Some m" "1 \<notin> rx_groups r"
  shows "\<exists>k. group m 1 = Some (take k s) \<and> 0 < k \<and> k \<le> length (takeWhile p s)"
proof -
  obtain x xs where x: "rx_match (Seq (Grp 1 (Many1 p)) r) (0, None, s) = x # xs" "snd (snd m) = snd x"
    using assms(1) by (auto simp: re_match_def simp del: rx_match.simps split: list.splits)
  then have "x \<in> set (rx_match (Seq (Grp 1 (Many1 p)) r) (0, None, s))"
    by (simp del: rx_match.simps)
  then obtain c1 g1 c2 g2 where c: "(c1, g1) \<in> set (rx_match (Grp 1 (Many1 p)) (0, None, s))"
    "(c2, g2) \<in> set (rx_match r c1)" "x = (c2, g2 @ g1)"
    by (rule match_Seq)
  from c(1) obtain k where k: "0 < k" "k \<le> length (takeWhile p s)" "g1 = [(1, take k s)]"
    by (rule match_group_run)
  have "1 \<notin> fst ` set g2" using captured_groups [OF c(2)] assms(2) by blast
  then have "map_of g2 1 = None" by (simp only: map_of_eq_None_iff not_False_eq_True)
  with c(3) k x(2) show ?thesis by (auto simp: group_def map_add_def)
qed

lemma decimal_not_space:
  assumes "is_space c"
  shows "\<not> is_decimal c"
proof -
  have "c \<in> {9, 10, 11, 12, 13, 28, 29, 30, 31, 32, 133, 160, 5760, 8192, 8193, 8194, 8195, 8196,
      8197, 8198, 8199, 8200, 8201, 8202, 8232, 8233, 8239, 8287, 12288}"
    using assms unfolding is_space_def insert_iff empty_iff by presburger
  moreover have "list_all (\<lambda>c. \<not> is_decimal c) [9, 10, 11, 12, 13, 28, 29, 30, 31, 32, 133, 160,
      5760, 8192, 8193, 8194, 8195, 8196, 8197, 8198, 8199, 8200, 8201, 8202, 8232, 8233, 8239,
      8287, 12288]"
    by code_simp
  ultimately show ?thesis unfolding list_all_iff by (simp only: list.set) blast
qed

lemma strip_digits:
  assumes "list_all is_decimal s"
  shows "strip s = s"
proof -
  have nsp: "\<not> is_space c" if "c \<in> set s" for c
    using assms that decimal_not_space unfolding list_all_iff by blast
  have "lstrip s = s"
    using nsp by (cases s) (auto simp: lstrip_def)
  moreover have "rstrip s = s"
    using nsp by (cases s rule: rev_cases) (auto simp: rstrip_def)
  ultimately show "strip s = s" by (simp add: strip_def)
qed

lemma number_dot_shape: "NUMBER_DOT_RE = Seq (Grp 1 (Many1 is_decimal))
    (SeqL [Chr 46, Many is_space, Grp 2 (Many any_char), AtEnd])"
  by (simp add: NUMBER_DOT_RE_def)

lemma article_needs_prefix:
  assumes "is_decimal c"
  shows "re_match ARTICLE_RE (c # s) = None" "re_match ARTICLE_ITEM_RE (c # s) = None"
proof -
  have "\<not> is_decimal 51228" by code_simp
  with assms have "c \<noteq> 51228" by auto
  then show "re_match ARTICLE_RE (c # s) = None" "re_match ARTICLE_ITEM_RE (c # s) = None"
    by (simp_all add: re_match_def ARTICLE_RE_def ARTICLE_ITEM_RE_def Chr_match_iff)
qed

text \<open>On a numbered line (\<open>1. text\<close>) the recognised inline text is the number itself, in
  decimal digits, and never the text after it: the first group wins whenever it is not empty.\<close>

theorem numbered_line_keeps_only_number:
  assumes "re_match NUMBER_DOT_RE (strip line) = Some m"
  shows "\<exists>k. detect_marker line = Inr (Some k) \<and> mk_inline_text k = group_or m 1 \<and>
    mk_inline_text k \<noteq> [] \<and> list_all is_decimal (mk_inline_text k)"
proof -
  have "1 \<notin> rx_groups (SeqL [Chr 46, Many is_space, Grp 2 (Many any_char), AtEnd])"
    by (simp add: rx_builders)
  from leading_group [OF assms [unfolded number_dot_shape] this] obtain k where
    k: "group m 1 = Some (take k (strip line))" "0 < k"
      "k \<le> length (takeWhile is_decimal (strip line))" by blast
  let ?g = "take k (strip line)"
  have g: "?g = take k (takeWhile is_decimal (strip line))"
    using k(3) by (metis takeWhile_eq_take take_take min.absorb1)
  then have digits: "list_all is_decimal ?g"
    unfolding list_all_iff by (metis in_set_takeD set_takeWhileD)
  from k(2,3) have "strip line \<noteq> []" by auto
  then obtain c s where cs: "strip line = c # s" by (cases "strip line") auto
  with k(2,3) have "is_decimal c" by (auto split: if_splits)
  note na = article_needs_prefix [OF this, of s]
  have ne: "?g \<noteq> []" using k(2) cs by (cases k) auto
  have "detect_marker line = bind (marker_of_match (strip line) m 2 False True (lit ''normal'')) (\<lambda>k. Inr (Some k))"
    using assms na cs by (simp add: detect_marker_def marker_patterns_def)
  with k(1) ne digits strip_digits [OF digits] show ?thesis
    by (simp add: marker_of_match_def first_group_def group_or_def Let_def)
qed

theorem numbered_line_keeps_only_number_witness:
  "\<exists>k. detect_marker (lit ''1. Pay within 30 days'') = Inr (Some k) \<and> mk_inline_text k = lit ''1''"
proof -
  obtain m where m: "re_match NUMBER_DOT_RE (strip (lit ''1. Pay within 30 days'')) = Some m"
    "group_or m 1 = lit ''1''"
  proof -
    have "(case re_match NUMBER_DOT_RE (strip (lit ''1. Pay within 30 days'')) of
        Some m \<Rightarrow> group_or m 1 = lit ''1'' | None \<Rightarrow> False)" by code_simp
    then show ?thesis using that by (auto split: option.splits)
  qed
  from numbered_line_keeps_only_number [OF m(1)] m(2) show ?thesis by auto
qed

lemma normalize_None_text: "normalize_title (lit ''None'') = Some (lit ''None'')"
  by code_simp

text \<open>Every clause whose marker carries no title gets the title \<open>None\<close> as text: the missing
  title is turned into a string before it is normalised.\<close>

theorem untitled_clause_titled_None:
  assumes "split_clauses sha text doc = Inr r" and "c \<in> set (clauses r)"
  shows "\<exists>p k. p \<in> set (paragraphs text) \<and> detect_marker (hd (splitlines p)) = Inr (Some k) \<and>
    title c = (case mk_title k of None \<Rightarrow> Some (lit ''None'') | Some t \<Rightarrow> normalize_title t)"
proof -
  from split_loop_ids [OF split_clauses_cases(1) [OF assms(1)] assms(2)] obtain m p k
    where "c = make_clause sha doc m p k" "p \<in> set (paragraphs text)"
      "detect_marker (hd (splitlines p)) = Inr (Some k)" by blast
  then show ?thesis
    by (intro exI [of _ p] exI [of _ k])
       (simp add: make_clause_ids title_text_def normalize_None_text split: option.splits)
qed

theorem untitled_clause_titled_None_witness:
  "\<exists>r c. split_clauses id (lit ''1. scope'') (lit ''d'') = Inr r \<and> c \<in> set (clauses r) \<and>
     (\<exists>p k. p \<in> set (paragraphs (lit ''1. scope'')) \<and> detect_marker (hd (splitlines p)) = Inr (Some k) \<and>
       title c = (case mk_title k of None \<Rightarrow> Some (lit ''None'') | Some t \<Rightarrow> normalize_title t))"
proof -
  obtain r c where r: "split_clauses id (lit ''1. scope'') (lit ''d'') = Inr r" "c \<in> set (clauses r)"
  proof -
    have "(case split_clauses id (lit ''1. scope'') (lit ''d'') of Inr r \<Rightarrow> clauses r \<noteq> [] | Inl e \<Rightarrow> False)"
      by code_simp
    then show ?thesis using that by (auto split: sum.splits) (meson list.set_sel(1))
  qed
  from untitled_clause_titled_None [OF r] r show ?thesis by blast
qed

subsection \<open>Snapshots\<close>

lemma set_drop_linebreak: "set (drop_linebreak l) \<subseteq> set l"
  unfolding drop_linebreak_def using set_take_subset [of "length l - 2" l] in_set_butlastD [of _ l] by auto

lemma splitlines_keep_single:
  "l \<in> set (splitlines_keep acc s) \<Longrightarrow> 10 \<notin> set acc \<Longrightarrow> 10 \<notin> set (drop_linebreak l)"
proof (induction acc s rule: splitlines_keep.induct)
  case (1 acc)
  then have "l = rev acc" by (simp split: if_splits)
  then show ?case using set_drop_linebreak [of l] 1(2) by auto
next
  case (2 acc c s)
  consider (crlf) s' where "c = 13" "s = 10 # s'" | (break) "is_linebreak c" "\<not> (c = 13 \<and> startswith s [10])"
    | (plain) "\<not> is_linebreak c" "c \<noteq> 13"
  proof -
    have "is_linebreak 13" by (simp add: is_linebreak_def)
    then show ?thesis using that by (cases "c = 13 \<and> startswith s [10]") (auto simp: startswith_iff)
  qed
  then show ?case
  proof cases
    case crlf
    with "2.prems"(1) consider "l = rev acc @ [13, 10]" | "l \<in> set (splitlines_keep [] s')" by auto
    then show ?thesis
    proof cases
      case 1
      then have "drop_linebreak l = rev acc" by (simp add: drop_linebreak_def endswith_def)
      with "2.prems"(2) show ?thesis by simp
    next
      case 2
      with "2.IH"(1) [OF _ crlf(2)] crlf show ?thesis by simp
    qed
  next
    case break
    then have "splitlines_keep acc (c # s) = rev (c # acc) # splitlines_keep [] s"
      by auto
    with "2.prems"(1) consider "l = rev acc @ [c]" | "l \<in> set (splitlines_keep [] s)" by auto
    then show ?thesis
    proof cases
      case 1
      then have "drop_linebreak l = (if c = 10 \<and> startswith acc [13] then take (length l - 2) l else rev acc)"
        using break(1) by (simp add: drop_linebreak_def endswith_def)
      moreover have "set (take (length l - 2) l) \<subseteq> set acc"
        using 1 by (cases acc) (auto dest: in_set_takeD)
      ultimately show ?thesis using "2.prems"(2) by (auto split: if_splits)
    next
      case 2
      with "2.IH"(2) break show ?thesis by simp
    qed
  next
    case plain
    then have "10 \<notin> set (c # acc)" using "2.prems"(2) by (auto simp: is_linebreak_def)
    with "2.IH"(3) plain "2.prems"(1) show ?thesis by simp
  qed
qed

lemma splitlines_no_newline: "l \<in> set (splitlines s) \<Longrightarrow> 10 \<notin> set l"
  using splitlines_keep_single [of _ "[]" s] by (auto simp: splitlines_def)

lemma set_strip: "set (strip s) \<subseteq> set s"
  using strip_decomp [of s] by (metis Un_iff set_append subsetI)

lemma page_lines_no_newline:
  "(n, line, off) \<in> set (page_lines number k ls) \<Longrightarrow> \<forall>l\<in>set ls. 10 \<notin> set l \<Longrightarrow> 10 \<notin> set line"
  by (induction number k ls rule: page_lines.induct) (use set_strip in \<open>auto split: if_splits\<close>)

lemma all_lines_no_newline: "(n, line, off) \<in> set (all_lines ps) \<Longrightarrow> 10 \<notin> set line"
  unfolding all_lines_def using page_lines_no_newline splitlines_no_newline by fastforce

lemma marker_loop_Cons:
  assumes "marker_loop sha doc ps n current ((page_number, line, off) # ls) = Inr (cs, us)"
  obtains us' where "detect_marker line = Inr None" "current = None"
      "marker_loop sha doc ps n None ls = Inr (cs, us')" "us = line # us'"
  | c where "detect_marker line = Inr None" "current = Some c"
      "marker_loop sha doc ps n (Some (extend_clause page_number line off c)) ls = Inr (cs, us)"
  | k cs' where "detect_marker line = Inr (Some k)" "cs = close_current current @ cs'"
      "marker_loop sha doc ps (Suc n)
         (Some (start_clause sha doc ps (Suc n) page_number line off k)) ls = Inr (cs', us)"
proof -
  from assms obtain m where m: "detect_marker line = Inr m" by (auto simp: bind_Inr_iff)
  show ?thesis
  proof (cases m)
    case None
    show ?thesis
    proof (cases current)
      case c: None
      with assms m None that(1) show ?thesis by (auto simp: bind_Inr_iff)
    next
      case (Some c)
      with assms m None that(2) show ?thesis by (auto simp: bind_Inr_iff)
    qed
  next
    case (Some k)
    with assms m that(3) show ?thesis by (auto simp: bind_Inr_iff)
  qed
qed

lemma close_current_mem: "c \<in> set (close_current current) \<longleftrightarrow> current = Some c \<and> strip (sc_body c) \<noteq> []"
  by (auto simp: close_current_def split: option.splits)

text \<open>A property of clauses that starting and extending a clause keep holds of every clause the loop
  returns.\<close>

lemma marker_loop_keeps:
  assumes "marker_loop sha doc ps n current ls = Inr (cs, us)"
    and "\<And>c. current = Some c \<Longrightarrow> P c"
    and "\<And>m number line off k. (number, line, off) \<in> set ls \<Longrightarrow> P (start_clause sha doc ps m number line off k)"
    and "\<And>c number line off. P c \<Longrightarrow> P (extend_clause number line off c)"
  shows "\<forall>c\<in>set cs. P c"
  using assms(1-3)
proof (induction ls arbitrary: n current cs us)
  case Nil
  then show ?case by (auto simp: close_current_mem)
next
  case (Cons x ls)
  obtain number line off where x: "x = (number, line, off)" by (cases x)
  note starts = Cons.prems(3) [OF list.set_intros(2)]
  from Cons.prems(1) [unfolded x] show ?case
  proof (cases rule: marker_loop_Cons)
    case (1 us')
    then show ?thesis using Cons.IH [OF 1(3) _ starts] by blast
  next
    case (2 c)
    then show ?thesis using Cons.IH [OF 2(3) _ starts] Cons.prems(2) assms(4) by blast
  next
    case (3 k cs')
    have "\<forall>c\<in>set cs'. P c"
      using Cons.IH [OF 3(3) _ starts] Cons.prems(3) [of number line off] x by auto
    with 3(2) Cons.prems(2) show ?thesis by (auto simp: close_current_mem)
  qed
qed

lemma start_clause_simps [simp]:
  "sc_ordinal (start_clause sha doc ps n number line off k) = n"
  "sc_reference_id (start_clause sha doc ps n number line off k) = doc @ lit '':clause:'' @ nat_digits n"
  "sc_text (start_clause sha doc ps n number line off k) = line"
  "sc_split_method (start_clause sha doc ps n number line off k) = lit ''marker_split''"
  by (simp_all add: start_clause_def Let_def)

lemma extend_clause_simps [simp]:
  "sc_ordinal (extend_clause number line off c) = sc_ordinal c"
  "sc_reference_id (extend_clause number line off c) = sc_reference_id c"
  "sc_text (extend_clause number line off c) = sc_text c"
  by (simp_all add: extend_clause_def)

lemma marker_loop_ordinals:
  assumes "marker_loop sha doc ps n current ls = Inr (cs, us)"
    and "\<And>c. current = Some c \<Longrightarrow> sc_ordinal c \<le> n"
  shows "sorted_wrt (<) (map sc_ordinal cs) \<and>
    (\<forall>c\<in>set cs. (case current of None \<Rightarrow> n < sc_ordinal c | Some c0 \<Rightarrow> sc_ordinal c0 \<le> sc_ordinal c))"
  using assms
proof (induction ls arbitrary: n current cs us)
  case Nil
  then show ?case by (auto simp: close_current_def split: option.splits)
next
  case (Cons x ls)
  obtain number line off where x: "x = (number, line, off)" by (cases x)
  from Cons.prems(1) [unfolded x] show ?case
  proof (cases rule: marker_loop_Cons)
    case (1 us')
    then show ?thesis using Cons.IH [OF 1(3)] by simp
  next
    case (2 c)
    then show ?thesis using Cons.IH [OF 2(3)] Cons.prems(2) by simp
  next
    case (3 k cs')
    have ih: "sorted_wrt (<) (map sc_ordinal cs')" "\<forall>c\<in>set cs'. Suc n \<le> sc_ordinal c"
      using Cons.IH [OF 3(3)] by simp_all
    with 3(2) Cons.prems(2) show ?thesis
      by (force simp: close_current_def sorted_wrt_append split: option.splits)
  qed
qed

lemma page_clauses_ids:
  "map sc_ordinal (page_clauses sha doc all n ps) = [n..<n + length ps]"
  "c \<in> set (page_clauses sha doc all n ps) \<Longrightarrow>
     sc_reference_id c = doc @ lit '':clause:'' @ nat_digits (sc_ordinal c) \<and>
     sc_split_method c = lit ''whole_document_fallback''"
  by (induction ps arbitrary: n) (auto simp: whole_page_clause_def Let_def upt_conv_Cons simp del: upt_Suc)

text \<open>What a successful split returns, by the branch that produced it.\<close>

lemma snapshot_cases:
  assumes "split_clauses_with_snapshot sha pages doc = Inr r"
  obtains (empty) "pages = []" "sn_clauses r = []"
  | (unmarked) "\<exists>sorted_pages qs. sort_pages (dicts_of pages) = Inr sorted_pages \<and> read_pages 1 sorted_pages = Inr qs \<and>
         sn_clauses r = page_clauses sha doc qs 1 qs"
  | (fallback) number t b bs where "sn_clauses r = [whole_page_clause sha doc 1 number t b bs]"
  | (marked) ps us where "marker_loop sha doc ps 0 None (all_lines ps) = Inr (sn_clauses r, us)"
      "sn_clauses r \<noteq> []"
proof (cases "pages = []")
  case True
  with assms that(1) show ?thesis by (auto simp: split_clauses_with_snapshot_def)
next
  case False
  from assms False obtain sp ps hm where s: "sort_pages (dicts_of pages) = Inr sp" "read_pages 1 sp = Inr ps"
    "any_marker (all_lines ps) = Inr hm"
    by (auto simp: split_clauses_with_snapshot_def bind_Inr_iff Let_def)
  show ?thesis
  proof (cases hm)
    case False
    with assms s \<open>pages \<noteq> []\<close> that(2) show ?thesis
      by (auto simp: split_clauses_with_snapshot_def Let_def)
  next
    case True
    with assms s \<open>pages \<noteq> []\<close> obtain cs us where cs: "marker_loop sha doc ps 0 None (all_lines ps) = Inr (cs, us)"
      by (auto simp: split_clauses_with_snapshot_def bind_Inr_iff Let_def)
    show ?thesis
    proof (cases cs)
      case Nil
      with assms s \<open>pages \<noteq> []\<close> True cs that(3) show ?thesis
        by (auto simp: split_clauses_with_snapshot_def bind_Inr_iff Let_def split: list.splits)
    next
      case (Cons c cs')
      with assms s \<open>pages \<noteq> []\<close> True cs that(4) show ?thesis
        by (auto simp: split_clauses_with_snapshot_def Let_def)
    qed
  qed
qed

lemma marked_reference:
  assumes "marker_loop sha doc ps n None ls = Inr (cs, us)"
  shows "\<forall>c\<in>set cs. sc_reference_id c = doc @ lit '':clause:'' @ nat_digits (sc_ordinal c)"
  by (rule marker_loop_keeps [OF assms]) auto

text \<open>The clauses of a snapshot have strictly increasing ordinals and each is referenced as
  \<open>document:clause:ordinal\<close>, so no two clauses share a reference, whichever branch split the
  document.\<close>

theorem snapshot_references_distinct:
  assumes "split_clauses_with_snapshot sha pages doc = Inr r"
  shows "sorted_wrt (<) (map sc_ordinal (sn_clauses r)) \<and>
    (\<forall>c\<in>set (sn_clauses r). sc_reference_id c = doc @ lit '':clause:'' @ nat_digits (sc_ordinal c)) \<and>
    distinct (map sc_reference_id (sn_clauses r))"
proof -
  have *: "sorted_wrt (<) (map sc_ordinal (sn_clauses r)) \<and>
    (\<forall>c\<in>set (sn_clauses r). sc_reference_id c = doc @ lit '':clause:'' @ nat_digits (sc_ordinal c))"
    using assms
  proof (cases rule: snapshot_cases)
    case unmarked
    then show ?thesis by (auto simp: page_clauses_ids simp del: upt_Suc)
  next
    case (fallback number t b bs)
    then show ?thesis by (simp add: whole_page_clause_def)
  next
    case (marked ps us)
    from marker_loop_ordinals [OF marked(1)] marked_reference [OF marked(1)] show ?thesis by simp
  qed simp
  then have "distinct (map sc_ordinal (sn_clauses r))"
    by (simp add: strict_sorted_iff)
  moreover have "inj_on sc_reference_id (set (sn_clauses r))"
    using * calculation by (auto simp: inj_on_def distinct_map)
  ultimately show ?thesis using * by (simp add: distinct_map)
qed

definition one_page :: "pyval list" where
  "one_page = [PDict [(lit ''page_number'', PInt 1),
     (lit ''final_text'', PStr (lit ''1. scope'' @ [10] @ lit ''all goods'' @ [10] @ lit ''2. price''))]]"

lemma one_page_split:
  obtains r where "split_clauses_with_snapshot id one_page (lit ''d'') = Inr r"
    "map sc_text (sn_clauses r) = [lit ''1. scope'', lit ''2. price'']"
    "map sc_split_method (sn_clauses r) = [lit ''marker_split'', lit ''marker_split'']"
proof -
  have "(case split_clauses_with_snapshot id one_page (lit ''d'') of
      Inr r \<Rightarrow> map sc_text (sn_clauses r) = [lit ''1. scope'', lit ''2. price''] \<and>
        map sc_split_method (sn_clauses r) = [lit ''marker_split'', lit ''marker_split'']
    | Inl e \<Rightarrow> False)"
    by code_simp
  then show ?thesis using that by (auto split: sum.splits)
qed

theorem snapshot_references_distinct_witness:
  "\<exists>r. split_clauses_with_snapshot id one_page (lit ''d'') = Inr r \<and> length (sn_clauses r) = 2 \<and>
     distinct (map sc_reference_id (sn_clauses r))"
proof -
  obtain r where r: "split_clauses_with_snapshot id one_page (lit ''d'') = Inr r"
    "map sc_text (sn_clauses r) = [lit ''1. scope'', lit ''2. price'']"
    by (rule one_page_split)
  have "length (map sc_text (sn_clauses r)) = 2" by (simp only: r(2) list.size)
  moreover from snapshot_references_distinct [OF r(1)] have "distinct (map sc_reference_id (sn_clauses r))"
    by blast
  ultimately show ?thesis using r(1) by (simp only: length_map) blast
qed

lemma sort_pages_length: "sort_pages ps = Inr qs \<Longrightarrow> length qs = length ps"
  by (auto simp: sort_pages_def bind_Inr_iff dest: map_result_length)

lemma read_pages_length: "read_pages n ps = Inr qs \<Longrightarrow> length qs = length ps"
  by (induction n ps arbitrary: qs rule: read_pages.induct) (auto simp: bind_Inr_iff)

text \<open>A snapshot with at least one page dictionary always yields a clause to analyse: when the
  marker pass keeps nothing, the whole first page becomes the clause.\<close>

theorem snapshot_yields_clause:
  assumes "split_clauses_with_snapshot sha pages doc = Inr r" and "dicts_of pages \<noteq> []"
  shows "sn_clauses r \<noteq> []"
  using assms(1)
proof (cases rule: snapshot_cases)
  case empty
  with assms(2) show ?thesis by (simp add: dicts_of_def)
next
  case unmarked
  then obtain sp qs where "sort_pages (dicts_of pages) = Inr sp" "read_pages 1 sp = Inr qs"
    and q: "sn_clauses r = page_clauses sha doc qs 1 qs" by blast
  then have "qs \<noteq> []" using assms(2) sort_pages_length read_pages_length by fastforce
  with q show ?thesis by (cases qs) (auto simp: Let_def)
qed simp_all

theorem snapshot_yields_clause_witness:
  "\<exists>r. split_clauses_with_snapshot id one_page (lit ''d'') = Inr r \<and> sn_clauses r \<noteq> []"
proof -
  obtain r where r: "split_clauses_with_snapshot id one_page (lit ''d'') = Inr r"
    by (rule one_page_split)
  have "dicts_of one_page \<noteq> []" by code_simp
  from snapshot_yields_clause [OF r this] r show ?thesis by blast
qed

text \<open>The field \<open>text\<close> of a clause split at a marker is the marker line alone: it never holds
  a line break, so the continuation lines the loop collects reach only \<open>body\<close>.\<close>

theorem marked_clause_text_is_one_line:
  assumes "split_clauses_with_snapshot sha pages doc = Inr r" and "c \<in> set (sn_clauses r)"
    and "sc_split_method c = lit ''marker_split''"
  shows "10 \<notin> set (sc_text c)"
  using assms(1)
proof (cases rule: snapshot_cases)
  case unmarked
  with assms(2) have "sc_split_method c = lit ''whole_document_fallback''"
    using page_clauses_ids(2) by metis
  with assms(3) show ?thesis by simp
next
  case (fallback number t b bs)
  with assms(2,3) show ?thesis by (simp add: whole_page_clause_def)
next
  case (marked ps us)
  have "\<forall>c\<in>set (sn_clauses r). 10 \<notin> set (sc_text c)"
    by (rule marker_loop_keeps [OF marked(1)]) (auto dest: all_lines_no_newline)
  with assms(2) show ?thesis by blast
qed (use assms(2) in simp)

theorem marked_clause_text_is_one_line_witness:
  "\<exists>r c. split_clauses_with_snapshot id one_page (lit ''d'') = Inr r \<and> c \<in> set (sn_clauses r) \<and>
     sc_text c = lit ''1. scope'' \<and> 10 \<notin> set (sc_text c)"
proof -
  obtain r where r: "split_clauses_with_snapshot id one_page (lit ''d'') = Inr r"
    "map sc_text (sn_clauses r) = [lit ''1. scope'', lit ''2. price'']"
    "map sc_split_method (sn_clauses r) = [lit ''marker_split'', lit ''marker_split'']"
    by (rule one_page_split)
  then obtain c where c: "c \<in> set (sn_clauses r)" "sc_text c = lit ''1. scope''"
    "sc_split_method c = lit ''marker_split''"
    by (cases "sn_clauses r") auto
  from marked_clause_text_is_one_line [OF r(1) c(1,3)] r(1) c show ?thesis by blast
qed

end
