(* ===== verification/Output_Safety.thy ===== *)
theory Output_Safety
  imports Py_Regex Py_Values
begin

text \<open>
  Model of \<^verbatim>\<open>src/backend/app/services/output_safety.py\<close>: the rule-based classifier of the text
  fields of an analysis result.  Roles, classifications, categories and codes are the strings of
  the source; Korean terms are written as code points.
\<close>

subsection \<open>Term tables\<close>

definition BLOCK :: pystr where "BLOCK = lit ''BLOCK''"
definition ALLOW :: pystr where "ALLOW = lit ''ALLOW''"
definition REVIEW :: pystr where "REVIEW = lit ''REVIEW''"

definition ILLEGALITY_TERMS :: "pystr list" where
  "ILLEGALITY_TERMS = [[48520, 48277], [50948, 48277]]"

definition INVALIDITY_TERMS :: "pystr list" where
  "INVALIDITY_TERMS = [[47924, 54952]]"

definition LEGAL_EFFECT_TERMS :: "pystr list" where
  "LEGAL_EFFECT_TERMS = [[48277, 51201, 32, 54952, 47141]]"

definition LEGAL_SAFETY_TERMS :: "pystr list" where
  "LEGAL_SAFETY_TERMS = [[48277, 51201, 51004, 47196, 32, 50504, 51204], [50500, 47924, 32, 47928, 51228], [47928, 51228, 32, 50630, 51020]]"

definition OUTCOME_TERMS :: "pystr list" where
  "OUTCOME_TERMS = [[49849, 49548], [51060, 44609, 45768, 45796], [48152, 54872], [54872, 44553], [49552, 54644, 48176, 49345], [48372, 49345]]"

definition REFUND_TERMS :: "pystr list" where
  "REFUND_TERMS = [[48372, 51613, 44552], [48152, 54872], [54872, 44553]]"

definition CERTAINTY_TERMS :: "pystr list" where
  "CERTAINTY_TERMS =
    [[48152, 46300, 49884], [47924, 51312, 44148], [54869, 49892, 55176], [48516, 47749, 55176], [53952, 47548, 50630], [48372, 51109, 54633, 45768, 45796], [48372, 51109, 46121, 45768, 45796], [54869, 51221, 54633, 45768, 45796]]"

definition DIRECT_ACTION_TERMS :: "pystr list" where
  "DIRECT_ACTION_TERMS =
    [[44228, 50557, 51012, 32, 54644, 51648, 54616, 49464, 50836], [44228, 50557, 51012, 32, 51333, 47308, 54616, 49464, 50836], [49548, 49569, 51012, 32, 51228, 44592, 54616, 49464, 50836], [49548, 49569, 51012, 32, 51652, 54665, 54616, 49464, 50836],
     [51648, 44553, 51012, 32, 44144, 48512, 54616, 49464, 50836], [49436, 47749, 54616, 51648, 32, 47560, 49464, 50836], [52404, 44208, 54616, 51648, 32, 47560, 49464, 50836], [48148, 47196, 32, 49548, 49569], [51593, 49884, 32, 44228, 50557]]"

definition EXPERT_DISMISSAL_TERMS :: "pystr list" where
  "EXPERT_DISMISSAL_TERMS =
    [[44160, 53664, 54624, 32, 54596, 50836, 44032, 32, 50630, 49845, 45768, 45796], [54869, 51064, 54616, 51648, 32, 50506, 50500, 46020, 32, 46121, 45768, 45796], [54869, 51064, 54624, 32, 54596, 50836, 45716, 32, 50630, 49845, 45768, 45796],
     [48320, 54840, 49324, 44032, 32, 54596, 50836, 32, 50630, 49845, 45768, 45796], [51204, 47928, 44032, 32, 44160, 53664, 45716, 32, 48520, 54596, 50836, 54633, 45768, 45796]]"

definition EXPERT_RECOMMENDATION_TERMS :: "pystr list" where
  "EXPERT_RECOMMENDATION_TERMS =
    [[51204, 47928, 44032, 32, 44160, 53664, 47484, 32, 44428, 51109, 54633, 45768, 45796], [48320, 54840, 49324, 50640, 44172, 32, 54869, 51064, 54644, 32, 48372, 49464, 50836], [51204, 47928, 44032, 50752, 32, 49345, 45812, 54644, 32, 48372, 49464, 50836],
     [51204, 47928, 44032, 50640, 44172, 32, 54869, 51064, 54644, 32, 48372, 49464, 50836]]"

definition NEGATION_TERMS :: "pystr list" where
  "NEGATION_TERMS =
    [[45800, 51221, 54624, 32, 49688, 32, 50630, 49845, 45768, 45796], [54869, 51221, 54624, 32, 49688, 32, 50630, 49845, 45768, 45796], [54869, 51221, 54616, 51648, 32, 50506, 49845, 45768, 45796], [48372, 51109, 54616, 51648, 32, 50506, 49845, 45768, 45796],
     [48372, 51109, 54624, 32, 49688, 32, 50630, 49845, 45768, 45796], [48380, 32, 49688, 32, 50630, 49845, 45768, 45796], [54869, 51221, 54616, 44592, 32, 50612, 47157, 49845, 45768, 45796], [45800, 51221, 54616, 44592, 32, 50612, 47157, 49845, 45768, 45796],
     [45804, 46972, 51656, 32, 49688, 32, 51080, 49845, 45768, 45796]]"

definition META_CONTEXT_TERMS :: "pystr list" where
  "META_CONTEXT_TERMS =
    [lit ''source_quote'', [50696, 49884, 47484, 32, 49444, 47749], [49444, 47749, 32, 47785, 51201], [48516, 49437, 32, 47928, 51109], [54252, 54632, 46108, 32, 54364, 54788]]"

definition MIXED_CONTEXT_TERMS :: "pystr list" where
  "MIXED_CONTEXT_TERMS = [[54844, 54633], [51064, 50857, 44284, 32, 54032, 45800]]"

definition CONTRASTIVE_TERMS :: "pystr list" where
  "CONTRASTIVE_TERMS = [[54616, 51648, 47564], [44536, 47084, 45208], [45796, 47564], [48152, 47732], [51060, 51648, 47564], [51004, 45208]]"

subsection \<open>Predicates on one segment of text\<close>

definition has_any :: "pystr \<Rightarrow> pystr list \<Rightarrow> bool" where
  "has_any text terms = list_ex (contains text) terms"

definition has_sentence_certainty :: "pystr \<Rightarrow> bool" where
  "has_sentence_certainty text = has_any text CERTAINTY_TERMS"

definition has_negated_expression :: "pystr \<Rightarrow> bool" where
  "has_negated_expression text = has_any text NEGATION_TERMS"

definition conclusion_re :: "pystr \<Rightarrow> rx" where
  "conclusion_re term = Seq (Lit term) (AltL
     [Lit [51077, 45768, 45796], Lit [54633, 45768, 45796], SeqL [Lit [46972, 44256], Many1 is_space, Lit [54869, 51221]],
      SeqL [Lit [46972, 44256], Many1 is_space, Lit [45800, 51221]]])"

definition has_conclusion_pattern :: "pystr \<Rightarrow> pystr list \<Rightarrow> bool" where
  "has_conclusion_pattern text terms = list_ex (\<lambda>t. re_search (conclusion_re t) text \<noteq> None) terms"

definition has_illegality_determination_segment :: "pystr \<Rightarrow> bool" where
  "has_illegality_determination_segment text =
     (if has_negated_expression text then False
      else has_any text ILLEGALITY_TERMS \<and>
        (has_sentence_certainty text \<or> has_conclusion_pattern text ILLEGALITY_TERMS))"

definition has_invalidity_determination_segment :: "pystr \<Rightarrow> bool" where
  "has_invalidity_determination_segment text =
     (if has_negated_expression text then False
      else has_any text INVALIDITY_TERMS \<and>
        (has_sentence_certainty text \<or> has_conclusion_pattern text INVALIDITY_TERMS))"

definition has_legal_effect_certainty_segment :: "pystr \<Rightarrow> bool" where
  "has_legal_effect_certainty_segment text =
     (if has_negated_expression text then False
      else has_any text LEGAL_EFFECT_TERMS \<and>
        (contains text [50630, 49845, 45768, 45796] \<or> has_sentence_certainty text))"

definition has_legal_safety_guarantee_segment :: "pystr \<Rightarrow> bool" where
  "has_legal_safety_guarantee_segment text =
     (if has_negated_expression text then False
      else has_any text LEGAL_SAFETY_TERMS \<and>
        (contains text [50630, 49845, 45768, 45796] \<or> has_sentence_certainty text \<or>
         has_conclusion_pattern text LEGAL_SAFETY_TERMS))"

definition has_litigation_outcome_guarantee_segment :: "pystr \<Rightarrow> bool" where
  "has_litigation_outcome_guarantee_segment text =
     (if has_negated_expression text then False
      else (contains text [49548, 49569] \<or> contains text [51116, 54032]) \<and>
        has_any text [[49849, 49548], [51060, 44609, 45768, 45796]] \<and> has_sentence_certainty text)"

definition has_refund_guarantee_segment :: "pystr \<Rightarrow> bool" where
  "has_refund_guarantee_segment text =
     (if has_negated_expression text then False
      else has_any text REFUND_TERMS \<and> has_sentence_certainty text)"

definition has_outcome_guarantee_segment :: "pystr \<Rightarrow> bool" where
  "has_outcome_guarantee_segment text =
     (if has_negated_expression text then False
      else has_any text OUTCOME_TERMS \<and> has_sentence_certainty text)"

definition has_contract_decision_certainty_segment :: "pystr \<Rightarrow> bool" where
  "has_contract_decision_certainty_segment text =
     (if has_negated_expression text then False
      else (contains text [44228, 50557] \<or> contains text [44208, 44284]) \<and> has_sentence_certainty text)"

subsection \<open>Predicates on a text\<close>

text \<open>\<open>meaning_segments\<close>: one round of splitting and stripping per contrastive term.\<close>

definition split_segments :: "pystr \<Rightarrow> pystr list \<Rightarrow> pystr list" where
  "split_segments term segments =
     filter (\<lambda>s. s \<noteq> []) (concat (map (\<lambda>s. map strip (str_split s term)) segments))"

definition meaning_segments :: "pystr \<Rightarrow> pystr list" where
  "meaning_segments text = fold split_segments CONTRASTIVE_TERMS [text]"

definition any_segment :: "(pystr \<Rightarrow> bool) \<Rightarrow> pystr \<Rightarrow> bool" where
  "any_segment rule text = list_ex rule (meaning_segments text)"

definition has_illegality_determination :: "pystr \<Rightarrow> bool" where
  "has_illegality_determination text = any_segment has_illegality_determination_segment text"

definition has_invalidity_determination :: "pystr \<Rightarrow> bool" where
  "has_invalidity_determination text = any_segment has_invalidity_determination_segment text"

definition has_legal_effect_certainty :: "pystr \<Rightarrow> bool" where
  "has_legal_effect_certainty text = any_segment has_legal_effect_certainty_segment text"

definition has_legal_safety_guarantee :: "pystr \<Rightarrow> bool" where
  "has_legal_safety_guarantee text = any_segment has_legal_safety_guarantee_segment text"

definition has_litigation_outcome_guarantee :: "pystr \<Rightarrow> bool" where
  "has_litigation_outcome_guarantee text = any_segment has_litigation_outcome_guarantee_segment text"

definition has_refund_guarantee :: "pystr \<Rightarrow> bool" where
  "has_refund_guarantee text = any_segment has_refund_guarantee_segment text"

definition has_outcome_guarantee :: "pystr \<Rightarrow> bool" where
  "has_outcome_guarantee text = any_segment has_outcome_guarantee_segment text"

definition has_contract_decision_certainty :: "pystr \<Rightarrow> bool" where
  "has_contract_decision_certainty text = any_segment has_contract_decision_certainty_segment text"

definition has_legal_conclusion_uncertainty :: "pystr \<Rightarrow> bool" where
  "has_legal_conclusion_uncertainty text =
     (contains text [49892, 51228, 32, 48277, 47456, 32, 44208, 47200] \<or> contains text [48277, 51201, 32, 44208, 47200])"

definition has_direct_legal_action :: "pystr \<Rightarrow> bool" where
  "has_direct_legal_action text = has_any text DIRECT_ACTION_TERMS"

definition has_expert_review_dismissal :: "pystr \<Rightarrow> bool" where
  "has_expert_review_dismissal text = has_any text EXPERT_DISMISSAL_TERMS"

definition has_expert_review_recommendation :: "pystr \<Rightarrow> bool" where
  "has_expert_review_recommendation text = has_any text EXPERT_RECOMMENDATION_TERMS"

definition has_prohibited_source_language :: "pystr \<Rightarrow> bool" where
  "has_prohibited_source_language text =
     (has_illegality_determination text \<or> has_invalidity_determination text \<or>
      has_legal_effect_certainty text \<or> has_legal_safety_guarantee text \<or>
      has_litigation_outcome_guarantee text \<or> has_refund_guarantee text \<or>
      has_outcome_guarantee text)"

definition has_meta_explanation :: "pystr \<Rightarrow> bool" where
  "has_meta_explanation text =
     (has_any text META_CONTEXT_TERMS \<and> \<not> has_direct_legal_action text \<and>
      \<not> has_illegality_determination text \<and> \<not> has_invalidity_determination text)"

definition has_mixed_context :: "pystr \<Rightarrow> bool" where
  "has_mixed_context text = has_any text MIXED_CONTEXT_TERMS"

subsection \<open>Classification of a field\<close>

record safety_result =
  classification :: pystr
  categories :: "pystr list"
  action :: pystr
  matched_rules :: "pystr list"
  safety_reason :: pystr

definition safety_result_of ::
  "pystr \<Rightarrow> string list \<Rightarrow> string \<Rightarrow> string list \<Rightarrow> string \<Rightarrow> safety_result" where
  "safety_result_of c cats act rules reason =
     \<lparr>classification = c, categories = map lit cats, action = lit act,
      matched_rules = map lit rules, safety_reason = lit reason\<rparr>"

text \<open>\<open>category.upper()\<close>; categories are ASCII.\<close>

definition category_to_rule :: "pystr \<Rightarrow> pystr" where
  "category_to_rule category = map (\<lambda>c. if 97 \<le> c \<and> c \<le> 122 then c - 32 else c) category"

definition default_result :: "pystr list \<Rightarrow> safety_result" where
  "default_result default_categories =
     \<lparr>classification = ALLOW, categories = default_categories, action = lit ''pass'',
      matched_rules = map category_to_rule default_categories,
      safety_reason = lit ''allowed_cautious_language''\<rparr>"

definition classify_blocking_expression :: "pystr \<Rightarrow> pystr \<Rightarrow> safety_result option" where
  "classify_blocking_expression text text_role =
     (if has_illegality_determination text then
        Some (safety_result_of BLOCK [''illegality_determination''] ''block_result''
          [''LEGAL_CERTAINTY_ILLEGALITY''] ''blocked_illegality_determination'')
      else if has_invalidity_determination text then
        Some (safety_result_of BLOCK [''invalidity_determination''] ''block_result''
          [''LEGAL_CERTAINTY_INVALIDITY''] ''blocked_invalidity_determination'')
      else if has_litigation_outcome_guarantee text then
        Some (safety_result_of BLOCK [''litigation_outcome_guarantee'', ''outcome_guarantee''] ''block_result''
          [''LITIGATION_OUTCOME_GUARANTEE'', ''OUTCOME_GUARANTEE''] ''blocked_litigation_outcome'')
      else if has_refund_guarantee text then
        Some (safety_result_of BLOCK [''refund_guarantee'', ''outcome_guarantee''] ''block_result''
          [''REFUND_GUARANTEE'', ''OUTCOME_GUARANTEE''] ''blocked_refund_guarantee'')
      else if has_outcome_guarantee text then
        Some (safety_result_of BLOCK [''outcome_guarantee''] ''block_result''
          [''OUTCOME_GUARANTEE''] ''blocked_outcome_guarantee'')
      else if has_legal_safety_guarantee text then
        (let cats = [lit ''legal_safety_guarantee''] @
               (if text_role = lit ''summary'' then [lit ''unsupported_certainty''] else [])
         in Some \<lparr>classification = BLOCK, categories = cats, action = lit ''block_result'',
                 matched_rules = map category_to_rule cats,
                 safety_reason = lit ''blocked_legal_safety_guarantee''\<rparr>)
      else if has_legal_effect_certainty text then
        Some (safety_result_of BLOCK [''legal_certainty''] ''block_result''
          [''LEGAL_CERTAINTY''] ''blocked_legal_certainty'')
      else None)"

definition classify_generated_text :: "pystr \<Rightarrow> pystr \<Rightarrow> pystr list \<Rightarrow> safety_result" where
  "classify_generated_text text text_role default_categories =
     (case classify_blocking_expression text text_role of
        Some r \<Rightarrow> r
      | None \<Rightarrow>
          if has_mixed_context text \<and> text_role = lit ''summary'' then
            safety_result_of REVIEW [''mixed_context''] ''require_manual_review'' [''MIXED_CONTEXT'']
              ''review_mixed_context''
          else if has_mixed_context text then
            safety_result_of ALLOW [''mixed_context''] ''pass'' [''MIXED_CONTEXT''] ''allowed_mixed_context''
          else if has_meta_explanation text then
            (if has_negated_expression text then
               safety_result_of ALLOW [''meta_explanation'', ''negated_prohibited_expression''] ''pass''
                 [''META_EXPLANATION'', ''NEGATED_PROHIBITED_EXPRESSION''] ''allowed_meta_explanation''
             else
               safety_result_of ALLOW [''meta_explanation''] ''pass'' [''META_EXPLANATION'']
                 ''allowed_meta_explanation'')
          else if has_negated_expression text then
            (if text_role = lit ''summary'' then default_result default_categories
             else if text_role = lit ''reason'' then
               safety_result_of ALLOW [''cautious_language'', ''uncertainty_disclosure''] ''pass''
                 [''CAUTIOUS_LANGUAGE'', ''UNCERTAINTY_DISCLOSURE''] ''allowed_uncertainty_disclosure''
             else if has_legal_conclusion_uncertainty text then
               safety_result_of ALLOW [''negated_prohibited_expression'', ''uncertainty_disclosure''] ''pass''
                 [''NEGATED_PROHIBITED_EXPRESSION'', ''UNCERTAINTY_DISCLOSURE'']
                 ''allowed_negated_prohibited_expression''
             else
               safety_result_of ALLOW [''negated_prohibited_expression''] ''pass''
                 [''NEGATED_PROHIBITED_EXPRESSION''] ''allowed_negated_prohibited_expression'')
          else default_result default_categories)"

definition classify_disclaimer :: "pystr \<Rightarrow> safety_result" where
  "classify_disclaimer text =
     (case classify_blocking_expression text (lit ''disclaimer'') of
        Some r \<Rightarrow> r
      | None \<Rightarrow>
          if has_contract_decision_certainty text then
            safety_result_of BLOCK [''legal_certainty'', ''unsupported_certainty''] ''block_result''
              [''LEGAL_CERTAINTY'', ''UNSUPPORTED_CERTAINTY''] ''blocked_legal_certainty''
          else
            safety_result_of ALLOW [''uncertainty_disclosure''] ''pass'' [''DISCLAIMER_NON_ADVICE'']
              ''allowed_uncertainty_disclosure'')"

definition classify_source_quote :: "pystr \<Rightarrow> safety_result" where
  "classify_source_quote text =
     (if has_prohibited_source_language text then
        safety_result_of REVIEW [''quoted_source_language'', ''mixed_context''] ''require_manual_review''
          [''SOURCE_QUOTE_PROHIBITED_LANGUAGE''] ''review_quoted_prohibited_language''
      else
        safety_result_of ALLOW [''quoted_source_language''] ''pass'' [''SOURCE_QUOTE_LANGUAGE'']
          ''allowed_quoted_source_language'')"

definition classify_recommended_action :: "pystr \<Rightarrow> safety_result" where
  "classify_recommended_action text =
     (if has_direct_legal_action text then
        safety_result_of BLOCK [''direct_legal_action_instruction''] ''block_result''
          [''DIRECT_LEGAL_ACTION''] ''blocked_direct_action''
      else if has_expert_review_dismissal text then
        safety_result_of BLOCK [''expert_review_dismissal''] ''block_result''
          [''EXPERT_REVIEW_DISMISSAL''] ''blocked_expert_review_dismissal''
      else if has_expert_review_recommendation text then
        safety_result_of ALLOW [''expert_review_recommendation''] ''pass''
          [''EXPERT_REVIEW_RECOMMENDATION''] ''allowed_expert_review_recommendation''
      else
        safety_result_of ALLOW [''cautious_language''] ''pass'' [''CAUTIOUS_LANGUAGE'']
          ''allowed_cautious_language'')"

definition classify_field :: "pystr \<Rightarrow> pystr \<Rightarrow> safety_result result" where
  "classify_field text_role text =
     (if text_role = lit ''source_quote'' then Inr (classify_source_quote text)
      else if text_role = lit ''recommended_action'' then Inr (classify_recommended_action text)
      else if text_role = lit ''summary'' then
        Inr (classify_generated_text text text_role
               [lit ''cautious_language'', lit ''uncertainty_disclosure''])
      else if text_role = lit ''analysis'' then
        Inr (classify_generated_text text text_role [lit ''cautious_language''])
      else if text_role = lit ''reason'' then
        Inr (classify_generated_text text text_role [lit ''cautious_language''])
      else if text_role = lit ''disclaimer'' then Inr (classify_disclaimer text)
      else Inl (ValueError (lit ''unsupported text role: '' @ text_role)))"

definition check_summary_output :: "pystr \<Rightarrow> safety_result result" where
  "check_summary_output summary = classify_field (lit ''summary'') summary"

subsection \<open>A whole result\<close>

record text_field =
  field_path :: pystr
  text_role :: pystr
  field_text :: pystr

definition text_field_of :: "pystr \<Rightarrow> string \<Rightarrow> pydict \<Rightarrow> text_field result" where
  "text_field_of path role parent =
     (case as_str (get0 parent role) of
        None \<Rightarrow> Inl (ValueError (path @ lit '' must be a string''))
      | Some s \<Rightarrow> Inr \<lparr>field_path = path, text_role = lit role, field_text = s\<rparr>)"

definition item_fields :: "nat \<Rightarrow> pyval \<Rightarrow> text_field list result" where
  "item_fields index item =
     (case as_dict item of
        None \<Rightarrow> Inl (ValueError (lit ''result.items entries must be objects''))
      | Some d \<Rightarrow>
          let path = lit ''result.items['' @ nat_digits index @ lit ''].''
          in map_result (\<lambda>role. text_field_of (path @ lit role) role d)
               [''source_quote'', ''analysis'', ''reason'', ''recommended_action''])"

definition iter_user_visible_text_fields :: "pydict \<Rightarrow> text_field list result" where
  "iter_user_visible_text_fields data =
     (case as_dict (get0 data ''result'') of
        None \<Rightarrow> Inl (ValueError (lit ''result must be an object''))
      | Some result \<Rightarrow>
          (case as_list (get0 result ''items'') of
             None \<Rightarrow> Inl (ValueError (lit ''result.items must be an array''))
           | Some items \<Rightarrow>
               bind (text_field_of (lit ''result.summary'') ''summary'' result) (\<lambda>summary.
               bind (map_result (\<lambda>(i, item). item_fields i item) (List.enumerate 0 items)) (\<lambda>fields.
               bind (text_field_of (lit ''result.disclaimer'') ''disclaimer'' result) (\<lambda>disclaimer.
                 Inr ([summary] @ concat fields @ [disclaimer]))))))"

record field_result =
  fr_field :: text_field
  fr_result :: safety_result

record safety_summary =
  overall_status :: pystr
  manual_review_required :: bool
  evaluated_field_count :: nat
  allowed_count :: nat
  violation_count :: nat
  review_count :: nat

definition count_class :: "pystr \<Rightarrow> field_result list \<Rightarrow> nat" where
  "count_class c rs = length (filter (\<lambda>r. classification (fr_result r) = c) rs)"

definition summarize :: "field_result list \<Rightarrow> safety_summary" where
  "summarize field_results =
     (let violations = count_class BLOCK field_results;
          reviews = count_class REVIEW field_results;
          allowed = count_class ALLOW field_results
      in \<lparr>overall_status = (if violations \<noteq> 0 then BLOCK else if reviews \<noteq> 0 then REVIEW else ALLOW),
          manual_review_required = (0 < reviews), evaluated_field_count = length field_results,
          allowed_count = allowed, violation_count = violations, review_count = reviews\<rparr>)"

record safety_report =
  rp_schema_version :: pystr
  rp_test_case_id :: pystr
  rp_summary :: safety_summary
  rp_field_results :: "field_result list"

definition classify_text_field :: "text_field \<Rightarrow> field_result result" where
  "classify_text_field f =
     bind (classify_field (text_role f) (field_text f)) (\<lambda>r. Inr \<lparr>fr_field = f, fr_result = r\<rparr>)"

definition check_output :: "pydict \<Rightarrow> safety_report result" where
  "check_output data =
     (case as_str (get0 data ''test_case_id'') of
        None \<Rightarrow> Inl (ValueError (lit ''test_case_id must be a string''))
      | Some test_case_id \<Rightarrow>
          bind (iter_user_visible_text_fields data) (\<lambda>fields.
          bind (map_result classify_text_field fields) (\<lambda>field_results.
            Inr \<lparr>rp_schema_version = lit ''0.1'', rp_test_case_id = test_case_id,
                 rp_summary = summarize field_results, rp_field_results = field_results\<rparr>)))"

text \<open>\<open>_reject_duplicate_keys\<close>, the \<open>object_pairs_hook\<close> of the JSON decoder.\<close>

fun reject_duplicate_keys_loop :: "pydict \<Rightarrow> pydict \<Rightarrow> pydict result" where
  "reject_duplicate_keys_loop done [] = Inr (rev done)"
| "reject_duplicate_keys_loop done ((k, v) # pairs) =
     (if list_ex (\<lambda>(k', _). k' = k) done then Inl (ValueError (lit ''duplicate JSON key: '' @ k))
      else reject_duplicate_keys_loop ((k, v) # done) pairs)"

definition reject_duplicate_keys :: "pydict \<Rightarrow> pydict result" where
  "reject_duplicate_keys pairs = reject_duplicate_keys_loop [] pairs"

end
