(* ===== verification/Output_Safety_Correct.thy ===== *)
theory Output_Safety_Correct
  imports Output_Safety
begin

text \<open>
  What the output classifier promises: the shape of meaning segments, the contract every segment
  rule obeys (a negation silences its own segment only), the classification of each role, and the
  consistency of a report with its fields.
\<close>

subsection \<open>Meaning segments\<close>

text \<open>A separator does not occur in the pieces of a split.\<close>

lemma startswith_append: "startswith s p \<Longrightarrow> startswith (s @ t) p"
  by (auto simp: startswith_iff)

lemma contains_drop: "contains s p \<longleftrightarrow> (\<exists>i\<le>length s. startswith (drop i s) p)"
  unfolding contains_iff startswith_iff
proof
  assume "\<exists>a b. s = a @ p @ b"
  then obtain a b where "s = a @ p @ b" by blast
  then show "\<exists>i\<le>length s. \<exists>r. drop i s = p @ r" by (intro exI [of _ "length a"]) simp
next
  assume "\<exists>i\<le>length s. \<exists>r. drop i s = p @ r"
  then obtain i r where "drop i s = p @ r" by blast
  then have "s = take i s @ p @ r" by (metis append_take_drop_id)
  then show "\<exists>a b. s = a @ p @ b" by blast
qed

lemma split_on_pieces:
  assumes "x \<in> set (split_on sep acc s)" and "sep \<noteq> []"
    and "\<forall>i<length acc. \<not> startswith (drop i (rev acc @ s)) sep"
  shows "\<not> contains x sep"
  using assms
proof (induction sep acc s rule: split_on.induct)
  case (1 sep acc)
  then have "x = rev acc" by simp
  with 1 show ?case
    by (auto simp: contains_drop le_less startswith_iff)
next
  case (2 sep acc c s)
  show ?case
  proof (cases "startswith (c # s) sep")
    case True
    with 2(3,4) consider "x = rev acc" | "x \<in> set (split_on sep [] (drop (length sep) (c # s)))"
      by auto
    then show ?thesis
    proof cases
      case 1
      have "\<not> startswith (drop i (rev acc)) sep" if "i < length acc" for i
        using 2(5) that startswith_append [of "drop i (rev acc)" sep "c # s"] by auto
      with 1 2(4) show ?thesis by (auto simp: contains_drop le_less startswith_iff)
    next
      case 2
      with "2.IH"(1) True "2.prems"(2) show ?thesis by simp
    qed
  next
    case False
    have "\<forall>i<length (c # acc). \<not> startswith (drop i (rev (c # acc) @ s)) sep"
      using "2.prems"(3) False by (auto simp: less_Suc_eq)
    with "2.IH"(2) False "2.prems"(1,2) show ?thesis by simp
  qed
qed

lemma str_split_piece: "x \<in> set (str_split s sep) \<Longrightarrow> sep \<noteq> [] \<Longrightarrow> \<not> contains x sep"
  by (auto simp: str_split_def dest: split_on_pieces)

lemma contains_trans: "contains a b \<Longrightarrow> contains b c \<Longrightarrow> contains a c"
  unfolding contains_iff by (metis append.assoc)

lemma contains_refl [simp]: "contains s s"
  unfolding contains_iff by (metis append_Nil append_Nil2)

lemma contains_strip: "contains s (strip s)"
  unfolding contains_iff using strip_decomp [of s] by blast

lemma str_join_contains: "x \<in> set xs \<Longrightarrow> contains (str_join sep xs) x"
proof (induction xs)
  case (Cons y ys)
  show ?case
  proof (cases "ys = []")
    case True
    with Cons.prems show ?thesis by (simp add: str_join_def)
  next
    case False
    then have j: "str_join sep (y # ys) = y @ sep @ str_join sep ys" by (rule str_join_Cons)
    from Cons.prems consider "x = y" | "x \<in> set ys" by auto
    then show ?thesis
    proof cases
      case 1
      then show ?thesis unfolding j contains_iff by (metis append_Nil)
    next
      case 2
      have "contains (str_join sep (y # ys)) (str_join sep ys)"
        unfolding j contains_iff by (metis append.assoc append_Nil2)
      with Cons.IH [OF 2] show ?thesis using contains_trans by blast
    qed
  qed
qed simp

lemma str_split_contains: "x \<in> set (str_split s sep) \<Longrightarrow> contains s x"
  using str_join_contains [of x "str_split s sep" sep] by simp

lemma split_segments_mem:
  assumes "x \<in> set (split_segments term segments)" "term \<noteq> []"
  shows "x \<noteq> [] \<and> \<not> contains x term \<and> (\<exists>s\<in>set segments. contains s x)"
proof -
  from assms(1) obtain s y where s: "s \<in> set segments" "y \<in> set (str_split s term)" "x = strip y" "x \<noteq> []"
    by (auto simp: split_segments_def)
  have "\<not> contains x term"
    using str_split_piece [OF s(2) assms(2)] contains_trans [OF contains_strip] s(3) by blast
  moreover have "contains s x"
    using str_split_contains [OF s(2)] contains_trans contains_strip s(3) by blast
  ultimately show ?thesis using s by blast
qed

lemma fold_split_segments:
  assumes "x \<in> set (fold split_segments terms segments)" "[] \<notin> set terms"
  shows "(\<forall>t\<in>set terms. \<not> contains x t) \<and> (terms \<noteq> [] \<longrightarrow> x \<noteq> []) \<and> (\<exists>s\<in>set segments. contains s x)"
  using assms
proof (induction terms arbitrary: segments)
  case Nil
  then show ?case by (auto intro: bexI [of _ x])
next
  case (Cons t ts)
  from Cons.prems have m: "x \<in> set (fold split_segments ts (split_segments t segments))" by simp
  with Cons have ih: "\<forall>u\<in>set ts. \<not> contains x u" "ts \<noteq> [] \<longrightarrow> x \<noteq> []"
    "\<exists>s\<in>set (split_segments t segments). contains s x" by simp_all
  then obtain s where s: "s \<in> set (split_segments t segments)" "contains s x" by blast
  have t: "t \<noteq> []" using Cons.prems(2) by auto
  note sm = split_segments_mem [OF s(1) t]
  have "x \<noteq> []"
  proof (cases "ts = []")
    case True
    with m split_segments_mem [OF _ t] show ?thesis by simp
  qed (use ih in simp)
  moreover have "\<not> contains x t" using sm s(2) contains_trans by blast
  moreover have "\<exists>s\<in>set segments. contains s x" using sm s(2) contains_trans by blast
  ultimately show ?case using ih(1) by simp
qed

lemma contrastive_terms_nonempty: "[] \<notin> set CONTRASTIVE_TERMS" "CONTRASTIVE_TERMS \<noteq> []"
  by (simp_all add: CONTRASTIVE_TERMS_def)

text \<open>Every meaning segment of a text is a non-empty substring of it in which no contrastive
  conjunction occurs any more.\<close>

theorem segments_between_contrasts:
  assumes "s \<in> set (meaning_segments t)"
  shows "s \<noteq> [] \<and> contains t s \<and> \<not> has_any s CONTRASTIVE_TERMS"
  using fold_split_segments [OF assms [unfolded meaning_segments_def] contrastive_terms_nonempty(1)]
    contrastive_terms_nonempty(2)
  by (auto simp: has_any_def list_ex_iff)

text \<open>An illegality claim, then a contrastive conjunction, then a disclaimer of certainty.\<close>

definition claim_then_hedge :: pystr where
  "claim_then_hedge = [48520, 48277, 51077, 45768, 45796] @ [32] @ [54616, 51648, 47564] @ [32] @
     [45804, 46972, 51656, 32, 49688, 32, 51080, 49845, 45768, 45796]"

lemma claim_then_hedge_segments:
  "meaning_segments claim_then_hedge =
     [[48520, 48277, 51077, 45768, 45796],
      [45804, 46972, 51656, 32, 49688, 32, 51080, 49845, 45768, 45796]]"
  by code_simp

theorem segments_between_contrasts_witness:
  "[48520, 48277, 51077, 45768, 45796] \<in> set (meaning_segments claim_then_hedge) \<and>
   \<not> has_any [48520, 48277, 51077, 45768, 45796] CONTRASTIVE_TERMS"
proof -
  have "[48520, 48277, 51077, 45768, 45796] \<in> set (meaning_segments claim_then_hedge)"
    by (simp add: claim_then_hedge_segments)
  from segments_between_contrasts [OF this] this show ?thesis by blast
qed

subsection \<open>The contract of a segment rule\<close>

locale segment_rule =
  fixes rule :: "pystr \<Rightarrow> bool"
  assumes negation_silences: "has_negated_expression s \<Longrightarrow> \<not> rule s"
begin

lemma fires_iff:
  "any_segment rule t \<longleftrightarrow> (\<exists>s\<in>set (meaning_segments t). \<not> has_negated_expression s \<and> rule s)"
  using negation_silences by (auto simp: any_segment_def list_ex_iff)

lemma silent_when_negated:
  "\<forall>s\<in>set (meaning_segments t). has_negated_expression s \<Longrightarrow> \<not> any_segment rule t"
  by (auto simp: fires_iff)

end

interpretation illegality: segment_rule has_illegality_determination_segment
  by unfold_locales (simp add: has_illegality_determination_segment_def)

interpretation invalidity: segment_rule has_invalidity_determination_segment
  by unfold_locales (simp add: has_invalidity_determination_segment_def)

interpretation legal_effect: segment_rule has_legal_effect_certainty_segment
  by unfold_locales (simp add: has_legal_effect_certainty_segment_def)

interpretation legal_safety: segment_rule has_legal_safety_guarantee_segment
  by unfold_locales (simp add: has_legal_safety_guarantee_segment_def)

interpretation litigation: segment_rule has_litigation_outcome_guarantee_segment
  by unfold_locales (simp add: has_litigation_outcome_guarantee_segment_def)

interpretation refund: segment_rule has_refund_guarantee_segment
  by unfold_locales (simp add: has_refund_guarantee_segment_def)

interpretation outcome: segment_rule has_outcome_guarantee_segment
  by unfold_locales (simp add: has_outcome_guarantee_segment_def)

interpretation decision: segment_rule has_contract_decision_certainty_segment
  by unfold_locales (simp add: has_contract_decision_certainty_segment_def)

text \<open>A categorical judgement inside one segment.\<close>

definition prohibited_segment :: "pystr \<Rightarrow> bool" where
  "prohibited_segment s \<longleftrightarrow>
     has_illegality_determination_segment s \<or> has_invalidity_determination_segment s \<or>
     has_legal_effect_certainty_segment s \<or> has_legal_safety_guarantee_segment s \<or>
     has_litigation_outcome_guarantee_segment s \<or> has_refund_guarantee_segment s \<or>
     has_outcome_guarantee_segment s"

lemmas text_predicates =
  has_illegality_determination_def has_invalidity_determination_def has_legal_effect_certainty_def
  has_legal_safety_guarantee_def has_litigation_outcome_guarantee_def has_refund_guarantee_def
  has_outcome_guarantee_def

subsection \<open>One cut at every contrast\<close>

text \<open>
  What the rounds of splitting and stripping are meant to do: one scan of the text from left to right that cuts it
  at every contrastive term.
\<close>

function cut_at :: "pystr list \<Rightarrow> pystr \<Rightarrow> pystr list" where
  "cut_at terms [] = [[]]"
| "cut_at terms (c # s) =
     (case List.find (\<lambda>v. v \<noteq> [] \<and> startswith (c # s) v) terms of
        Some v \<Rightarrow> [] # cut_at terms (drop (length v) (c # s))
      | None \<Rightarrow> (c # hd (cut_at terms s)) # tl (cut_at terms s))"
  by pat_completeness auto
termination
  by (relation "measure (length \<circ> snd)") (auto simp: find_Some_iff neq_Nil_conv)

definition contrast_pieces :: "pystr \<Rightarrow> pystr list" where
  "contrast_pieces text = cut_at CONTRASTIVE_TERMS text"

lemma cut_at_nonempty [simp]: "cut_at terms s \<noteq> []"
  by (cases s) (auto split: option.splits)

text \<open>A term matches inside a piece only where it matches in the text.\<close>

lemma cut_at_hd: "\<exists>r. s = hd (cut_at terms s) @ r"
proof (induction terms s rule: cut_at.induct)
  case (2 terms c s)
  then show ?case by (cases "List.find (\<lambda>v. v \<noteq> [] \<and> startswith (c # s) v) terms") auto
qed simp

text \<open>Characters that begin no term pass through to the first piece.\<close>

lemma cut_at_pass:
  assumes "\<forall>v\<in>set terms. v \<noteq> [] \<longrightarrow> hd v \<notin> set x"
  shows "cut_at terms (x @ s) = (x @ hd (cut_at terms s)) # tl (cut_at terms s)"
  using assms
proof (induction x)
  case (Cons c x)
  have "List.find (\<lambda>v. v \<noteq> [] \<and> startswith (c # x @ s) v) terms = None"
    using Cons.prems by (auto simp: find_None_iff startswith_iff neq_Nil_conv)
  with Cons show ?case by simp
qed simp

lemma startswith_Cons_hd: "startswith (c # s) (d # v) \<Longrightarrow> c = d"
  by (auto simp: startswith_iff)

text \<open>Cutting the pieces at one more term is cutting the text at the terms together, when no term begins inside
  the new one.\<close>

lemma cut_at_more:
  assumes "v \<noteq> []" and "\<forall>u\<in>set terms. u \<noteq> [] \<longrightarrow> hd u \<notin> set (tl v)"
  shows "concat (map (cut_at [v]) (cut_at terms s)) = cut_at (terms @ [v]) s"
proof (induction "length s" arbitrary: s rule: less_induct)
  case less
  show ?case
  proof (cases s)
    case (Cons c s1)
    let ?find = "\<lambda>ts. List.find (\<lambda>v. v \<noteq> [] \<and> startswith s v) ts"
    have app: "?find (terms @ [v]) = (case ?find terms of Some u \<Rightarrow> Some u | None \<Rightarrow> if startswith s v then Some v else None)"
      using assms(1) by (induction terms) auto
    show ?thesis
    proof (cases "?find terms")
      case (Some u)
      then have "u \<noteq> []" by (auto simp: find_Some_iff)
      then have "length (drop (length u) s) < length s" by (simp add: Cons)
      from less [OF this] Some app show ?thesis by (simp add: Cons)
    next
      case None
      show ?thesis
      proof (cases "startswith s v")
        case True
        then obtain s' where s': "s = v @ s'" by (auto simp: startswith_iff)
        obtain d v' where v: "v = d # v'" using assms(1) by (cases v) auto
        have "cut_at terms s = (v @ hd (cut_at terms s')) # tl (cut_at terms s')"
          using None cut_at_pass [of terms v' s'] assms(2) by (simp add: s' v)
        moreover have "cut_at [v] (v @ p) = [] # cut_at [v] p" for p
          by (simp add: v startswith_iff)
        moreover have "concat (map (cut_at [v]) (cut_at terms s')) = cut_at (terms @ [v]) s'"
          using less [of s'] by (simp add: s' v)
        ultimately have "concat (map (cut_at [v]) (cut_at terms s)) = [] # cut_at (terms @ [v]) s'"
          by (cases "cut_at terms s'") simp_all
        moreover have "cut_at (terms @ [v]) s = [] # cut_at (terms @ [v]) (drop (length v) s)"
          using app None True by (simp add: Cons)
        ultimately show ?thesis by (simp add: s')
      next
        case False
        obtain r where r: "s1 = hd (cut_at terms s1) @ r" using cut_at_hd by blast
        have "\<not> startswith (c # hd (cut_at terms s1)) v"
          using False r startswith_append [of "c # hd (cut_at terms s1)" v r] by (auto simp: Cons)
        moreover have "cut_at (terms @ [v]) s1 = concat (map (cut_at [v]) (cut_at terms s1))"
          using less [of s1] by (simp add: Cons)
        ultimately show ?thesis
          using app None False by (cases "cut_at terms s1") (simp_all add: Cons)
      qed
    qed
  qed simp
qed

text \<open>Blanks around a text change nothing but the blanks around its pieces, when the term has none.\<close>

definition stripped :: "pystr list \<Rightarrow> pystr list" where
  "stripped ps = filter (\<lambda>s. s \<noteq> []) (map strip ps)"

lemma stripped_Nil [simp]: "stripped [] = []"
  by (simp add: stripped_def)

lemma stripped_append [simp]: "stripped (xs @ ys) = stripped xs @ stripped ys"
  by (simp add: stripped_def)

lemma stripped_Cons: "stripped (x # xs) = (if strip x = [] then [] else [strip x]) @ stripped xs"
  by (simp add: stripped_def)

lemma strip_blank_front: "\<forall>c\<in>set a. is_space c \<Longrightarrow> strip (a @ x) = strip x"
  by (simp add: strip_def lstrip_def dropWhile_append1 dropWhile_append2)

lemma strip_blank_back: "\<forall>c\<in>set b. is_space c \<Longrightarrow> strip (x @ b) = strip x"
proof (induction x)
  case Nil
  then show ?case using strip_eq_Nil_iff [of b] by simp
next
  case (Cons c x)
  have "dropWhile is_space (rev b @ y) = dropWhile is_space y" for y
    using Cons.prems by (intro dropWhile_append2) simp
  with Cons show ?case
    by (cases "is_space c") (auto simp: strip_def lstrip_def rstrip_def)
qed

lemma startswith_blank_back:
  assumes "\<forall>c\<in>set b. is_space c" and "\<forall>c\<in>set v. \<not> is_space c"
  shows "startswith (x @ b) v \<longleftrightarrow> startswith x v"
proof
  assume "startswith (x @ b) v"
  then obtain r where r: "x @ b = v @ r" by (auto simp: startswith_iff)
  then obtain us where us: "x = v @ us \<and> us @ b = r \<or> x @ us = v \<and> b = us @ r"
    by (auto simp: append_eq_append_conv2)
  have "us = []" if "x @ us = v" "b = us @ r"
    using that assms by (cases us) auto
  with us show "startswith x v" by (auto simp: startswith_iff)
qed (rule startswith_append)

lemma cut_at_back:
  assumes "\<forall>c\<in>set b. is_space c" and "v \<noteq> []" and "\<forall>c\<in>set v. \<not> is_space c"
  shows "cut_at [v] (x @ b) = butlast (cut_at [v] x) @ [last (cut_at [v] x) @ b]"
proof (induction "length x" arbitrary: x rule: less_induct)
  case less
  show ?case
  proof (cases x)
    case Nil
    have "hd v \<notin> set b" using assms by (metis hd_in_set)
    then show ?thesis using cut_at_pass [of "[v]" b "[]"] by (simp add: Nil)
  next
    case (Cons c y)
    show ?thesis
    proof (cases "startswith x v")
      case True
      then obtain r where r: "x = v @ r" by (auto simp: startswith_iff)
      obtain d v' where v: "v = d # v'" using assms(2) by (cases v) auto
      have "cut_at [v] (v @ z) = [] # cut_at [v] z" for z
        by (simp add: v startswith_iff)
      with less [of r] show ?thesis by (simp add: r v)
    next
      case False
      then have "\<not> startswith (x @ b) v" using startswith_blank_back [OF assms(1,3)] by blast
      with False less [of y] show ?thesis
        by (cases "cut_at [v] y") (simp_all add: Cons)
    qed
  qed
qed

lemma stripped_cut_strip:
  assumes "v \<noteq> []" and "\<forall>c\<in>set v. \<not> is_space c"
  shows "stripped (cut_at [v] (strip p)) = stripped (cut_at [v] p)"
proof -
  obtain a b where p: "p = a @ strip p @ b" "\<forall>c\<in>set a. is_space c" "\<forall>c\<in>set b. is_space c"
    using strip_decomp by blast
  let ?x = "cut_at [v] (strip p)"
  have "hd v \<notin> set a" using assms p(2) by (metis hd_in_set)
  then have "cut_at [v] p = (a @ hd (cut_at [v] (strip p @ b))) # tl (cut_at [v] (strip p @ b))"
    using cut_at_pass [of "[v]" a "strip p @ b"] p(1) by simp
  then have "stripped (cut_at [v] p) = stripped (cut_at [v] (strip p @ b))"
    using strip_blank_front [OF p(2)] by (cases "cut_at [v] (strip p @ b)") (simp_all add: stripped_Cons)
  also have "\<dots> = stripped (butlast ?x @ [last ?x @ b])"
    using cut_at_back [OF p(3) assms] by simp
  also have "\<dots> = stripped (butlast ?x @ [last ?x])"
    using strip_blank_back [OF p(3)] by (simp only: stripped_append stripped_Cons)
  finally show ?thesis by (simp del: stripped_append)
qed

lemma split_on_cut: "v \<noteq> [] \<Longrightarrow> split_on v acc s = (rev acc @ hd (cut_at [v] s)) # tl (cut_at [v] s)"
proof (induction v acc s rule: split_on.induct)
  case (2 v acc c s)
  then show ?case by (cases "startswith (c # s) v") simp_all
qed simp

lemma str_split_cut: "v \<noteq> [] \<Longrightarrow> str_split s v = cut_at [v] s"
  by (simp add: str_split_def split_on_cut)

lemma split_segments_cut:
  "v \<noteq> [] \<Longrightarrow> split_segments v segments = stripped (concat (map (cut_at [v]) segments))"
  by (induction segments) (simp_all add: split_segments_def stripped_def str_split_cut)

lemma split_segments_stripped:
  assumes "v \<noteq> []" and "\<forall>c\<in>set v. \<not> is_space c"
  shows "split_segments v (stripped ps) = stripped (concat (map (cut_at [v]) ps))"
  unfolding split_segments_cut [OF assms(1)]
proof (induction ps)
  case (Cons p ps)
  have "stripped (cut_at [v] p) = []" if "strip p = []"
    using stripped_cut_strip [OF assms, of p] that by (simp add: stripped_def)
  with Cons stripped_cut_strip [OF assms, of p] show ?case by (simp add: stripped_Cons)
qed (simp add: stripped_def)

lemma fold_split_cut:
  assumes "\<forall>v\<in>set vs. v \<noteq> [] \<and> (\<forall>c\<in>set v. \<not> is_space c) \<and> (\<forall>u\<in>set (terms @ vs). hd u \<notin> set (tl v))"
  shows "fold split_segments vs (stripped (cut_at terms t)) = stripped (cut_at (terms @ vs) t)"
  using assms
proof (induction vs arbitrary: terms)
  case (Cons v vs)
  have "split_segments v (stripped (cut_at terms t)) = stripped (cut_at (terms @ [v]) t)"
    using Cons.prems cut_at_more [of v terms t] by (simp add: split_segments_stripped)
  with Cons.IH [of "terms @ [v]"] Cons.prems show ?case by simp
qed simp

text \<open>No contrastive term begins inside another or has a blank, so the rounds cut the text as one scan does.\<close>

lemma meaning_segments_cut: "meaning_segments t = stripped (contrast_pieces t)"
proof -
  have ok: "\<forall>v\<in>set CONTRASTIVE_TERMS. v \<noteq> [] \<and> (\<forall>c\<in>set v. \<not> is_space c) \<and>
      (\<forall>u\<in>set CONTRASTIVE_TERMS. hd u \<notin> set (tl v))"
    by code_simp
  obtain v vs where T: "CONTRASTIVE_TERMS = v # vs" by (simp add: CONTRASTIVE_TERMS_def)
  have "split_segments v [t] = stripped (cut_at [v] t)" using ok by (simp add: T split_segments_cut)
  moreover have "fold split_segments vs (stripped (cut_at [v] t)) = stripped (cut_at ([v] @ vs) t)"
    by (rule fold_split_cut) (use ok in \<open>auto simp: T\<close>)
  ultimately show ?thesis by (simp add: meaning_segments_def contrast_pieces_def T)
qed

lemma prohibited_segment_Nil: "\<not> prohibited_segment []"
  by code_simp

lemma nonblank_pieces:
  "\<not> Q [] \<Longrightarrow> (\<exists>s\<in>set (filter (\<lambda>s. s \<noteq> []) (map strip ps)). Q s) \<longleftrightarrow> (\<exists>p\<in>set ps. Q (strip p))"
  by (auto, metis)

text \<open>C38: A text counts as prohibited exactly when, cut in one scan from left to right at every contrastive
  conjunction, one of its pieces makes a categorical judgement and is not itself negated: a hedge before or after
  a conjunction never excuses the judgement on its other side, in whatever order the conjunctions come, and what the
  checker works on, splitting and stripping once for each conjunction, are these pieces, stripped, without the blank ones.\<close>

theorem negation_stays_in_its_segment:
  "meaning_segments t = filter (\<lambda>s. s \<noteq> []) (map strip (contrast_pieces t)) \<and>
   (has_prohibited_source_language t \<longleftrightarrow>
     (\<exists>p\<in>set (contrast_pieces t). \<not> has_negated_expression (strip p) \<and> prohibited_segment (strip p)))"
proof
  show m: "meaning_segments t = filter (\<lambda>s. s \<noteq> []) (map strip (contrast_pieces t))"
    by (simp add: meaning_segments_cut stripped_def)
  have "has_prohibited_source_language t \<longleftrightarrow>
     (\<exists>s\<in>set (meaning_segments t). \<not> has_negated_expression s \<and> prohibited_segment s)"
    unfolding has_prohibited_source_language_def text_predicates prohibited_segment_def
      illegality.fires_iff invalidity.fires_iff legal_effect.fires_iff legal_safety.fires_iff
      litigation.fires_iff refund.fires_iff outcome.fires_iff
    by blast
  also have "\<dots> \<longleftrightarrow>
     (\<exists>p\<in>set (contrast_pieces t). \<not> has_negated_expression (strip p) \<and> prohibited_segment (strip p))"
    unfolding m by (rule nonblank_pieces) (simp add: prohibited_segment_Nil)
  finally show "has_prohibited_source_language t \<longleftrightarrow>
     (\<exists>p\<in>set (contrast_pieces t). \<not> has_negated_expression (strip p) \<and> prohibited_segment (strip p))" .
qed

text \<open>The claim is prohibited although a hedge follows.\<close>

theorem negation_stays_in_its_segment_witness:
  "has_negated_expression claim_then_hedge \<and> has_prohibited_source_language claim_then_hedge"
proof
  show "has_negated_expression claim_then_hedge" by code_simp
  have "[48520, 48277, 51077, 45768, 45796] \<in> set (meaning_segments claim_then_hedge)"
    by (simp add: claim_then_hedge_segments)
  then have "[48520, 48277, 51077, 45768, 45796] \<in> strip ` set (contrast_pieces claim_then_hedge)"
    using conjunct1 [OF negation_stays_in_its_segment [of claim_then_hedge]] by auto
  moreover have "\<not> has_negated_expression [48520, 48277, 51077, 45768, 45796]"
    "prohibited_segment [48520, 48277, 51077, 45768, 45796]"
    by code_simp+
  ultimately show "has_prohibited_source_language claim_then_hedge"
    using conjunct2 [OF negation_stays_in_its_segment [of claim_then_hedge]] by auto
qed

subsection \<open>Classification by role\<close>

lemma classes_distinct [simp]:
  "BLOCK \<noteq> ALLOW" "ALLOW \<noteq> BLOCK" "BLOCK \<noteq> REVIEW" "REVIEW \<noteq> BLOCK" "ALLOW \<noteq> REVIEW" "REVIEW \<noteq> ALLOW"
  by (simp_all add: BLOCK_def ALLOW_def REVIEW_def)

lemma classification_result_of [simp]: "classification (safety_result_of c cats act rules reason) = c"
  by (simp add: safety_result_of_def)

lemma classification_default [simp]: "classification (default_result cs) = ALLOW"
  by (simp add: default_result_def)

lemma blocking_iff: "classify_blocking_expression t role = None \<longleftrightarrow> \<not> has_prohibited_source_language t"
  by (auto simp: classify_blocking_expression_def has_prohibited_source_language_def Let_def)

lemma blocking_blocks: "classify_blocking_expression t role = Some r \<Longrightarrow> classification r = BLOCK"
  by (auto simp: classify_blocking_expression_def Let_def split: if_splits)

lemma generated_class:
  "classification (classify_generated_text t role cs) =
     (if has_prohibited_source_language t then BLOCK
      else if has_mixed_context t \<and> role = lit ''summary'' then REVIEW else ALLOW)"
proof (cases "classify_blocking_expression t role")
  case None
  then have "\<not> has_prohibited_source_language t" by (simp add: blocking_iff)
  with None show ?thesis by (simp add: classify_generated_text_def)
next
  case (Some r)
  then have "has_prohibited_source_language t" using blocking_iff [of t role] by simp
  with Some blocking_blocks [OF Some] show ?thesis by (simp add: classify_generated_text_def)
qed

lemma disclaimer_class:
  "classification (classify_disclaimer t) =
     (if has_prohibited_source_language t \<or> has_contract_decision_certainty t then BLOCK else ALLOW)"
proof (cases "classify_blocking_expression t (lit ''disclaimer'')")
  case None
  then have "\<not> has_prohibited_source_language t" by (simp add: blocking_iff)
  with None show ?thesis by (simp add: classify_disclaimer_def)
next
  case (Some r)
  then have "has_prohibited_source_language t" using blocking_iff [of t "lit ''disclaimer''"] by simp
  with Some blocking_blocks [OF Some] show ?thesis by (simp add: classify_disclaimer_def)
qed

text \<open>The classification a field gets, or the exception.\<close>

definition class_of_field :: "pystr \<Rightarrow> pystr \<Rightarrow> pystr result" where
  "class_of_field role t = bind (classify_field role t) (\<lambda>r. Inr (classification r))"

text \<open>The classification by role: generated text is blocked exactly when it is prohibited (and a
  summary of mixed context goes to review), the same language in a quotation is only reviewed, a
  recommended action is blocked when it instructs a legal action or dismisses expert review, a
  disclaimer also when it is certain about the contract; any other role raises.\<close>

theorem field_classes:
  "class_of_field (lit ''summary'') t = Inr (if has_prohibited_source_language t then BLOCK
      else if has_mixed_context t then REVIEW else ALLOW) \<and>
   class_of_field (lit ''analysis'') t = Inr (if has_prohibited_source_language t then BLOCK else ALLOW) \<and>
   class_of_field (lit ''reason'') t = Inr (if has_prohibited_source_language t then BLOCK else ALLOW) \<and>
   class_of_field (lit ''source_quote'') t = Inr (if has_prohibited_source_language t then REVIEW else ALLOW) \<and>
   class_of_field (lit ''recommended_action'') t =
     Inr (if has_direct_legal_action t \<or> has_expert_review_dismissal t then BLOCK else ALLOW) \<and>
   class_of_field (lit ''disclaimer'') t =
     Inr (if has_prohibited_source_language t \<or> has_contract_decision_certainty t then BLOCK else ALLOW) \<and>
   ((\<exists>e. class_of_field role t = Inl e) \<longleftrightarrow> role \<notin> {lit ''summary'', lit ''analysis'', lit ''reason'',
      lit ''source_quote'', lit ''recommended_action'', lit ''disclaimer''})"
  by (auto simp: class_of_field_def classify_field_def generated_class disclaimer_class
      classify_source_quote_def classify_recommended_action_def)

subsection \<open>Reports\<close>

lemma classify_field_class:
  assumes "classify_field role t = Inr r"
  shows "classification r \<in> {BLOCK, REVIEW, ALLOW}"
  using assms
  by (auto simp: classify_field_def generated_class disclaimer_class classify_source_quote_def
      classify_recommended_action_def split: if_splits)

lemma counts_partition:
  "\<forall>r\<in>set rs. classification (fr_result r) \<in> {BLOCK, REVIEW, ALLOW} \<Longrightarrow>
     count_class ALLOW rs + count_class BLOCK rs + count_class REVIEW rs = length rs"
  by (induction rs) (auto simp: count_class_def)

lemma count_class_pos: "0 < count_class c rs \<longleftrightarrow> (\<exists>r\<in>set rs. classification (fr_result r) = c)"
  by (auto simp: count_class_def filter_empty_conv)

lemma count_class_zero: "count_class c rs = 0 \<longleftrightarrow> \<not> (\<exists>r\<in>set rs. classification (fr_result r) = c)"
  by (auto simp: count_class_def filter_empty_conv)

lemma check_output_cases:
  assumes "check_output data = Inr r"
  obtains fds where "iter_user_visible_text_fields data = Inr fds"
    "map_result classify_text_field fds = Inr (rp_field_results r)"
    "rp_summary r = summarize (rp_field_results r)"
  using assms by (auto simp: check_output_def bind_Inr_iff split: option.splits)

lemma item_fields_length: "item_fields i item = Inr fs \<Longrightarrow> length fs = 4"
  by (auto simp: item_fields_def Let_def simp del: map_result.simps dest!: map_result_length
      split: option.splits)

lemma iter_fields_length:
  assumes "iter_user_visible_text_fields data = Inr fds"
  shows "\<exists>res items. as_dict (get0 data ''result'') = Some res \<and> as_list (get0 res ''items'') = Some items \<and>
    length fds = 2 + 4 * length items"
proof -
  from assms obtain res items s fs d where r: "as_dict (get0 data ''result'') = Some res"
    "as_list (get0 res ''items'') = Some items"
    "map_result (\<lambda>(i, item). item_fields i item) (List.enumerate 0 items) = Inr fs"
    "fds = [s] @ concat fs @ [d]"
    by (auto simp: iter_user_visible_text_fields_def bind_Inr_iff split: option.splits)
  have "length f = 4" if "f \<in> set fs" for f
    using map_result_mem [OF r(3) that] item_fields_length by auto
  then have "length (concat fs) = 4 * length fs" by (induction fs) auto
  moreover have "length fs = length items" using map_result_length [OF r(3)] by simp
  ultimately show ?thesis using r by auto
qed

text \<open>A report covers every text field once (the summary, four per item, the disclaimer), its three
  counts add up to the fields evaluated, and its overall status is BLOCK exactly when some field is
  blocked, otherwise REVIEW exactly when some field needs review.\<close>

theorem report_consistent:
  assumes "check_output data = Inr r"
  shows "\<exists>res items. as_dict (get0 data ''result'') = Some res \<and> as_list (get0 res ''items'') = Some items \<and>
      evaluated_field_count (rp_summary r) = 2 + 4 * length items \<and>
      length (rp_field_results r) = 2 + 4 * length items \<and>
      allowed_count (rp_summary r) + violation_count (rp_summary r) + review_count (rp_summary r) =
        evaluated_field_count (rp_summary r) \<and>
      overall_status (rp_summary r) =
        (if \<exists>f\<in>set (rp_field_results r). classification (fr_result f) = BLOCK then BLOCK
         else if \<exists>f\<in>set (rp_field_results r). classification (fr_result f) = REVIEW then REVIEW else ALLOW) \<and>
      manual_review_required (rp_summary r) =
        (\<exists>f\<in>set (rp_field_results r). classification (fr_result f) = REVIEW)"
proof -
  from assms obtain fds where f: "iter_user_visible_text_fields data = Inr fds"
    "map_result classify_text_field fds = Inr (rp_field_results r)"
    "rp_summary r = summarize (rp_field_results r)"
    by (rule check_output_cases)
  have "classification (fr_result x) \<in> {BLOCK, REVIEW, ALLOW}" if "x \<in> set (rp_field_results r)" for x
  proof -
    from map_result_mem [OF f(2) that] obtain fd :: text_field
      where "classify_field (text_role fd) (field_text fd) = Inr (fr_result x)"
      by (auto simp: classify_text_field_def bind_Inr_iff)
    then show ?thesis by (rule classify_field_class)
  qed
  then have counts: "count_class ALLOW (rp_field_results r) + count_class BLOCK (rp_field_results r) +
      count_class REVIEW (rp_field_results r) = length (rp_field_results r)"
    by (intro counts_partition) blast
  have len: "length (rp_field_results r) = length fds" using f(2) by (rule map_result_length)
  obtain res items where items: "as_dict (get0 data ''result'') = Some res"
    "as_list (get0 res ''items'') = Some items" "length fds = 2 + 4 * length items"
    using iter_fields_length [OF f(1)] by blast
  show ?thesis
    by (rule exI [of _ res], rule exI [of _ items])
       (simp add: items counts len f(3) summarize_def Let_def count_class_pos count_class_zero)
qed

definition blocked_report_input :: pydict where
  "blocked_report_input =
     [(lit ''test_case_id'', PStr (lit ''t'')),
      (lit ''result'', PDict [(lit ''summary'', PStr claim_then_hedge), (lit ''items'', PList []),
         (lit ''disclaimer'', PStr (lit ''general information''))])]"

theorem report_consistent_witness:
  "\<exists>r. check_output blocked_report_input = Inr r \<and> overall_status (rp_summary r) = BLOCK \<and>
     evaluated_field_count (rp_summary r) = 2"
proof -
  obtain r where r: "check_output blocked_report_input = Inr r" "overall_status (rp_summary r) = BLOCK"
  proof -
    have "(case check_output blocked_report_input of
        Inr r \<Rightarrow> overall_status (rp_summary r) = BLOCK | Inl e \<Rightarrow> False)"
      by code_simp
    then show ?thesis using that by (auto split: sum.splits)
  qed
  have "as_dict (get0 blocked_report_input ''result'') =
      Some [(lit ''summary'', PStr claim_then_hedge), (lit ''items'', PList []),
         (lit ''disclaimer'', PStr (lit ''general information''))]"
    by (simp add: blocked_report_input_def get0_def get_def)
  then have "evaluated_field_count (rp_summary r) = 2"
    using report_consistent [OF r(1)] by (auto simp: get0_def get_def)
  with r show ?thesis by blast
qed

end
