(* ===== verification/Provider_Contract.thy ===== *)
theory Provider_Contract
  imports Py_Values
begin

text \<open>
  Model of \<^verbatim>\<open>src/backend/app/services/analysis_provider_contract.py\<close>: requests and responses
  of an analysis provider, their validation and their JSON encodings.  A field the code compares
  with \<open>None\<close> is an option; a field whose dynamic type it tests is a value.
\<close>

definition ANALYSIS_PROVIDER_REQUEST_SCHEMA_VERSION :: pystr where
  "ANALYSIS_PROVIDER_REQUEST_SCHEMA_VERSION = lit ''analysis-provider-request.v1''"

definition ANALYSIS_PROVIDER_RESPONSE_SCHEMA_VERSION :: pystr where
  "ANALYSIS_PROVIDER_RESPONSE_SCHEMA_VERSION = lit ''analysis-provider-response.v1''"

definition ANALYSIS_PROVIDER_MAX_REQUEST_BYTES :: nat where
  "ANALYSIS_PROVIDER_MAX_REQUEST_BYTES = 512 * 1024"

definition ANALYSIS_PROVIDER_MAX_RESPONSE_BYTES :: nat where
  "ANALYSIS_PROVIDER_MAX_RESPONSE_BYTES = 256 * 1024"

definition MAX_CLAUSES_PER_REQUEST :: nat where "MAX_CLAUSES_PER_REQUEST = 4"
definition MAX_CANDIDATES_PER_REQUEST :: nat where "MAX_CANDIDATES_PER_REQUEST = 40"
definition MAX_SOURCE_TEXT_LENGTH :: nat where "MAX_SOURCE_TEXT_LENGTH = 1800"
definition MAX_FINDINGS_PER_RESPONSE :: nat where "MAX_FINDINGS_PER_RESPONSE = 8"
definition MAX_QUESTIONS_PER_FINDING :: nat where "MAX_QUESTIONS_PER_FINDING = 3"
definition MAX_SUGGESTIONS_PER_FINDING :: nat where "MAX_SUGGESTIONS_PER_FINDING = 3"
definition MAX_STR_LEN :: nat where "MAX_STR_LEN = 800"

subsection \<open>Requests\<close>

record evidence_candidate_input =
  ec_candidate_id :: pystr
  ec_clause_id :: pystr
  ec_page_number :: int
  ec_block_ids :: "pystr list"
  ec_source_text :: pystr
  ec_start_offset :: int
  ec_end_offset :: int
  ec_confidence :: pyfloat

definition validate_candidate :: "evidence_candidate_input \<Rightarrow> unit result" where
  "validate_candidate c = checks
    [(ec_candidate_id c = [], ValueError (lit ''candidate_id is required.'')),
     (ec_clause_id c = [], ValueError (lit ''clause_id is required.'')),
     (ec_page_number c < 1, ValueError (lit ''page_number must be positive.'')),
     (ec_start_offset c < 0 \<or> ec_end_offset c < 0, ValueError (lit ''offsets must not be negative.'')),
     (ec_end_offset c < ec_start_offset c, ValueError (lit ''offset range is invalid.'')),
     (MAX_SOURCE_TEXT_LENGTH < length (ec_source_text c), ValueError (lit ''source_text too long.'')),
     (\<not> (float_le fzero (ec_confidence c) \<and> float_le (ec_confidence c) fone),
        ValueError (lit ''confidence must be between 0 and 1.''))]"

record analysis_clause_input =
  ci_clause_id :: pystr
  ci_clause_label :: pystr
  ci_clause_level :: pystr
  ci_text :: pystr
  ci_page_start :: "int option"
  ci_page_end :: "int option"
  ci_evidence_candidates :: "evidence_candidate_input list"

definition validate_clause_input :: "analysis_clause_input \<Rightarrow> unit result" where
  "validate_clause_input c =
     bind (checks
       [(ci_clause_id c = [], ValueError (lit ''clause_id is required.'')),
        (ci_clause_label c = [], ValueError (lit ''clause_label is required.'')),
        (ci_text c = [], ValueError (lit ''text is required.'')),
        (4000 < length (ci_text c), ValueError (lit ''text too long.'')),
        (case ci_page_start c of None \<Rightarrow> False | Some n \<Rightarrow> n < 1,
           ValueError (lit ''page_start must be positive.'')),
        (case ci_page_end c of None \<Rightarrow> False | Some n \<Rightarrow> n < 1,
           ValueError (lit ''page_end must be positive.'')),
        (case (ci_page_start c, ci_page_end c) of (Some a, Some b) \<Rightarrow> b < a | _ \<Rightarrow> False,
           ValueError (lit ''page_end must be greater or equal than page_start.''))])
     (\<lambda>_. for_each validate_candidate (ci_evidence_candidates c))"

record analysis_provider_request =
  rq_request_id :: "pystr option"
  rq_document_id :: pystr
  rq_snapshot_version :: pyval
  rq_clauses :: "analysis_clause_input list"
  rq_document_type :: pystr
  rq_language :: pystr
  rq_page_ranges :: "(int \<times> int) list"
  rq_limits :: "(pystr \<times> int) list"
  rq_schema_version :: "pystr option"
  rq_safety_context :: pystr

definition blank_opt :: "pystr option \<Rightarrow> bool" where
  "blank_opt v = (case v of None \<Rightarrow> True | Some s \<Rightarrow> strip s = [])"

definition validate_request :: "analysis_provider_request \<Rightarrow> unit result" where
  "validate_request r =
     bind (checks
       [(blank_opt (rq_request_id r), ValueError (lit ''provider_request_id_missing'')),
        (blank_opt (rq_schema_version r), ValueError (lit ''provider_schema_version_missing'')),
        (rq_schema_version r \<noteq> Some ANALYSIS_PROVIDER_REQUEST_SCHEMA_VERSION,
           ValueError (lit ''provider_schema_version_unsupported'')),
        (rq_document_id r = [], ValueError (lit ''document_id_missing'')),
        (as_int (rq_snapshot_version r) = None, ValueError (lit ''snapshot_version_invalid'')),
        (rq_clauses r = [], ValueError (lit ''provider_request_invalid'')),
        (MAX_CLAUSES_PER_REQUEST < length (rq_clauses r), ValueError (lit ''provider_clause_limit_exceeded'')),
        (MAX_CANDIDATES_PER_REQUEST < sum_list (map (\<lambda>c. length (ci_evidence_candidates c)) (rq_clauses r)),
           ValueError (lit ''provider_evidence_limit_exceeded''))])
     (\<lambda>_. for_each (\<lambda>c.
        bind (checks [(MAX_CANDIDATES_PER_REQUEST < length (ci_evidence_candidates c),
                       ValueError (lit ''provider_evidence_limit_exceeded''))])
        (\<lambda>_. validate_clause_input c)) (rq_clauses r))"

subsection \<open>Responses\<close>

record analysis_provider_question =
  pq_question_id :: pystr
  pq_question :: pystr
  pq_purpose :: pystr
  pq_related_evidence_candidate_ids :: "pystr list"
  pq_priority :: pystr

record analysis_provider_suggestion =
  ps_suggestion_id :: pystr
  ps_objective :: pystr
  ps_suggested_change :: pystr
  ps_fallback_option :: pystr
  ps_related_evidence_candidate_ids :: "pystr list"
  ps_priority :: pystr

record analysis_provider_finding =
  pf_finding_id :: pystr
  pf_category :: pystr
  pf_risk_type :: pystr
  pf_severity :: pystr
  pf_title :: pystr
  pf_summary :: pystr
  pf_risk_reason :: pystr
  pf_practical_impact :: pystr
  pf_action_priority :: pystr
  pf_selected_evidence_candidate_ids :: "pystr list"
  pf_questions_to_ask :: "analysis_provider_question list"
  pf_negotiation_suggestions :: "analysis_provider_suggestion list"
  pf_recommendation :: pystr
  pf_expert_review_recommended :: pyval
  pf_expert_review_reason_codes :: "pyval list"
  pf_expert_review_summary :: pystr
  pf_confidence_score :: pyfloat
  pf_extracted_fact_candidates :: "pyval list"

record analysis_provider_usage =
  us_input_units :: "int option"
  us_output_units :: "int option"
  us_total_units :: "int option"
  us_estimated_cost_minor :: "int option"
  us_currency :: "pystr option"
  us_provider_reported :: pydict

definition negative_opt :: "int option \<Rightarrow> bool" where
  "negative_opt v = (case v of None \<Rightarrow> False | Some n \<Rightarrow> n < 0)"

definition validate_usage :: "analysis_provider_usage \<Rightarrow> unit result" where
  "validate_usage u = checks
    [(list_ex negative_opt [us_input_units u, us_output_units u, us_total_units u],
        ValueError (lit ''provider_usage_negative'')),
     (negative_opt (us_estimated_cost_minor u), ValueError (lit ''provider_usage_negative''))]"

definition empty_usage :: analysis_provider_usage where
  "empty_usage = \<lparr>us_input_units = None, us_output_units = None, us_total_units = None,
     us_estimated_cost_minor = None, us_currency = None, us_provider_reported = []\<rparr>"

record analysis_provider_response =
  rs_schema_version :: pystr
  rs_provider_request_id :: "pystr option"
  rs_findings :: "analysis_provider_finding list"
  rs_usage :: analysis_provider_usage
  rs_finish_reason :: pystr
  rs_provider_metadata :: pydict

text \<open>The candidate ids a response may cite: those of the request, or \<open>default\<close>.\<close>

definition allowed_candidates :: "analysis_provider_request \<Rightarrow> pystr list" where
  "allowed_candidates r =
     (let ids = concat (map (\<lambda>c. map ec_candidate_id (ci_evidence_candidates c)) (rq_clauses r))
      in if ids = [] then [lit ''default''] else ids)"

definition check_candidate_ids :: "pystr list \<Rightarrow> pystr list \<Rightarrow> unit result" where
  "check_candidate_ids allowed ids =
     for_each (\<lambda>i. checks [(\<not> list_ex ((=) i) allowed, ValueError (lit ''provider_candidate_mismatch''))]) ids"

definition validate_question :: "pystr list \<Rightarrow> analysis_provider_question \<Rightarrow> unit result" where
  "validate_question allowed q =
     bind (checks
       [(pq_question_id q = [], ValueError (lit ''provider_response_invalid'')),
        (pq_related_evidence_candidate_ids q = [], ValueError (lit ''provider_evidence_missing''))])
     (\<lambda>_. check_candidate_ids allowed (pq_related_evidence_candidate_ids q))"

definition validate_suggestion :: "pystr list \<Rightarrow> analysis_provider_suggestion \<Rightarrow> unit result" where
  "validate_suggestion allowed s =
     bind (checks
       [(ps_suggestion_id s = [], ValueError (lit ''provider_response_invalid'')),
        (ps_related_evidence_candidate_ids s = [], ValueError (lit ''provider_evidence_missing''))])
     (\<lambda>_. check_candidate_ids allowed (ps_related_evidence_candidate_ids s))"

text \<open>The body of the loop over the findings; \<open>seen\<close> is the set \<open>finding_ids\<close>.\<close>

definition validate_finding :: "pystr list \<Rightarrow> pystr list \<Rightarrow> analysis_provider_finding \<Rightarrow> unit result" where
  "validate_finding allowed seen f =
     bind (checks
       [(list_ex ((=) (pf_finding_id f)) seen, ValueError (lit ''provider_response_invalid'')),
        (pf_finding_id f = [], ValueError (lit ''provider_finding_id_missing'')),
        (pf_selected_evidence_candidate_ids f = [], ValueError (lit ''provider_evidence_missing''))])
     (\<lambda>_. bind (check_candidate_ids allowed (pf_selected_evidence_candidate_ids f))
     (\<lambda>_. bind (checks
       [(pf_title f = [] \<or> pf_summary f = [], ValueError (lit ''provider_response_invalid'')),
        (MAX_STR_LEN < length (pf_title f), ValueError (lit ''provider_response_invalid'')),
        (MAX_STR_LEN * 2 < length (pf_summary f), ValueError (lit ''provider_response_invalid'')),
        (MAX_QUESTIONS_PER_FINDING < length (pf_questions_to_ask f),
           ValueError (lit ''provider_response_invalid'')),
        (MAX_SUGGESTIONS_PER_FINDING < length (pf_negotiation_suggestions f),
           ValueError (lit ''provider_response_invalid''))])
     (\<lambda>_. bind (for_each (validate_question allowed) (pf_questions_to_ask f))
     (\<lambda>_. bind (for_each (validate_suggestion allowed) (pf_negotiation_suggestions f))
     (\<lambda>_. checks
       [(is_truthy (pf_expert_review_recommended f) \<and> pf_expert_review_reason_codes f = [],
           ValueError (lit ''provider_response_invalid''))])))))"

fun validate_findings ::
  "pystr list \<Rightarrow> pystr list \<Rightarrow> analysis_provider_finding list \<Rightarrow> unit result" where
  "validate_findings allowed seen [] = Inr ()"
| "validate_findings allowed seen (f # fs) =
     bind (validate_finding allowed seen f) (\<lambda>_. validate_findings allowed (pf_finding_id f # seen) fs)"

definition validate_response ::
  "analysis_provider_response \<Rightarrow> analysis_provider_request \<Rightarrow> unit result" where
  "validate_response r request =
     bind (checks
       [(rs_schema_version r \<noteq> ANALYSIS_PROVIDER_RESPONSE_SCHEMA_VERSION,
           ValueError (lit ''provider_schema_version_unsupported'')),
        (rs_provider_request_id r \<noteq> rq_request_id request,
           ValueError (lit ''provider_request_id_mismatch'')),
        (MAX_FINDINGS_PER_RESPONSE < length (rs_findings r),
           ValueError (lit ''provider_finding_limit_exceeded''))])
     (\<lambda>_. if rs_findings r = [] then Inr ()
          else validate_findings (allowed_candidates request) [] (rs_findings r))"

subsection \<open>JSON payloads\<close>

definition strs :: "pystr list \<Rightarrow> pyval" where
  "strs xs = PList (map PStr xs)"

definition opt_int :: "int option \<Rightarrow> pyval" where
  "opt_int v = (case v of None \<Rightarrow> PNone | Some n \<Rightarrow> PInt n)"

definition opt_str :: "pystr option \<Rightarrow> pyval" where
  "opt_str v = (case v of None \<Rightarrow> PNone | Some s \<Rightarrow> PStr s)"

definition candidate_payload :: "evidence_candidate_input \<Rightarrow> pyval" where
  "candidate_payload c = PDict
    [(lit ''candidate_id'', PStr (ec_candidate_id c)), (lit ''clause_id'', PStr (ec_clause_id c)),
     (lit ''page_number'', PInt (ec_page_number c)), (lit ''block_ids'', strs (ec_block_ids c)),
     (lit ''source_text'', PStr (ec_source_text c)), (lit ''start_offset'', PInt (ec_start_offset c)),
     (lit ''end_offset'', PInt (ec_end_offset c)), (lit ''confidence'', PFloat (ec_confidence c))]"

definition clause_payload :: "analysis_clause_input \<Rightarrow> pyval" where
  "clause_payload c = PDict
    [(lit ''clause_id'', PStr (ci_clause_id c)), (lit ''clause_label'', PStr (ci_clause_label c)),
     (lit ''clause_level'', PStr (ci_clause_level c)), (lit ''text'', PStr (ci_text c)),
     (lit ''page_start'', opt_int (ci_page_start c)), (lit ''page_end'', opt_int (ci_page_end c)),
     (lit ''evidence_candidates'', PList (map candidate_payload (ci_evidence_candidates c)))]"

definition request_to_json_bytes :: "analysis_provider_request \<Rightarrow> bytes" where
  "request_to_json_bytes r = utf8_encode (json_dumps (PDict
    [(lit ''request_id'', opt_str (rq_request_id r)), (lit ''document_id'', PStr (rq_document_id r)),
     (lit ''snapshot_version'', rq_snapshot_version r), (lit ''schema_version'', opt_str (rq_schema_version r)),
     (lit ''clauses'', PList (map clause_payload (rq_clauses r)))]))"

definition question_payload :: "analysis_provider_question \<Rightarrow> pyval" where
  "question_payload q = PDict
    [(lit ''question_id'', PStr (pq_question_id q)), (lit ''question'', PStr (pq_question q)),
     (lit ''purpose'', PStr (pq_purpose q)),
     (lit ''related_evidence_candidate_ids'', strs (pq_related_evidence_candidate_ids q)),
     (lit ''priority'', PStr (pq_priority q))]"

definition suggestion_payload :: "analysis_provider_suggestion \<Rightarrow> pyval" where
  "suggestion_payload s = PDict
    [(lit ''suggestion_id'', PStr (ps_suggestion_id s)), (lit ''objective'', PStr (ps_objective s)),
     (lit ''suggested_change'', PStr (ps_suggested_change s)),
     (lit ''fallback_option'', PStr (ps_fallback_option s)),
     (lit ''related_evidence_candidate_ids'', strs (ps_related_evidence_candidate_ids s)),
     (lit ''priority'', PStr (ps_priority s))]"

definition finding_payload :: "analysis_provider_finding \<Rightarrow> pyval" where
  "finding_payload f = PDict
    [(lit ''finding_id'', PStr (pf_finding_id f)), (lit ''category'', PStr (pf_category f)),
     (lit ''risk_type'', PStr (pf_risk_type f)), (lit ''severity'', PStr (pf_severity f)),
     (lit ''title'', PStr (pf_title f)), (lit ''summary'', PStr (pf_summary f)),
     (lit ''selected_evidence_candidate_ids'', strs (pf_selected_evidence_candidate_ids f)),
     (lit ''questions_to_ask'', PList (map question_payload (pf_questions_to_ask f))),
     (lit ''negotiation_suggestions'', PList (map suggestion_payload (pf_negotiation_suggestions f)))]"

definition response_to_json_bytes :: "analysis_provider_response \<Rightarrow> bytes" where
  "response_to_json_bytes r = utf8_encode (json_dumps (PDict
    [(lit ''provider_request_id'', opt_str (rs_provider_request_id r)),
     (lit ''schema_version'', PStr (rs_schema_version r)),
     (lit ''findings'', PList (map finding_payload (rs_findings r)))]))"

end
