(* ===== verification/Result_Schema.thy ===== *)
theory Result_Schema
  imports Py_Values
begin

text \<open>
  Model of \<^verbatim>\<open>src/backend/app/services/analysis_result_schema.py\<close>: the analysis result record and
  its validation.  Fields whose dynamic type the code tests (the expert-review flag, the reason
  codes, the items of the lists) are values; the other fields have the declared type.
\<close>

definition ALLOWED_DISPLAY_LABELS :: "pystr list" where
  "ALLOWED_DISPLAY_LABELS = [[50504, 51204], [51452, 51032], [50948, 54744], [52628, 44032, 32, 54869, 51064]]"

definition ALLOWED_SEVERITIES :: "pystr list" where
  "ALLOWED_SEVERITIES = map lit [''critical'', ''high'', ''medium'', ''low'', ''info'']"

definition ALLOWED_ACTION_PRIORITIES :: "pystr list" where
  "ALLOWED_ACTION_PRIORITIES = map lit
    [''before_signing'', ''clarify'', ''negotiate'', ''monitor'', ''expert_review'', ''informational'']"

definition ALLOWED_FACT_TYPES :: "pystr list" where
  "ALLOWED_FACT_TYPES = map lit
    [''contract_start_date'', ''contract_end_date'', ''payment_date'', ''notice_deadline'',
     ''termination_notice_period'', ''payment_amount'', ''deposit'', ''penalty'', ''late_fee'',
     ''interest_rate'', ''contract_duration'', ''auto_renewal'', ''obligation'',
     ''inspection_period'', ''warranty_period'', ''liability_limit'', ''governing_law'',
     ''dispute_resolution'', ''party_name_placeholder'']"

definition ALLOWED_EXPERT_REVIEW_CODES :: "pystr list" where
  "ALLOWED_EXPERT_REVIEW_CODES = map lit
    [''critical_severity'', ''unlimited_liability_suspected'', ''high_penalty'',
     ''rights_waiver_suspected'', ''intellectual_property_transfer'', ''privacy_responsibility'',
     ''non_compete_restriction'', ''complex_governing_law'', ''low_ocr_confidence_on_key_clause'',
     ''multiple_high_findings'', ''key_fact_conflict'']"

definition ALLOWED_RISK_TYPES :: "pystr list" where
  "ALLOWED_RISK_TYPES = map lit
    [''financial'', ''term'', ''obligation'', ''termination'', ''clarification'', ''governance'',
     ''operational'']"

definition MAX_TEXT_LENGTH :: nat where "MAX_TEXT_LENGTH = 500"
definition MAX_LIST_SIZE :: nat where "MAX_LIST_SIZE = 3"
definition MAX_FACTS_SIZE :: nat where "MAX_FACTS_SIZE = 10"
definition DEFAULT_CONFIDENCE_SCORE :: pyfloat where "DEFAULT_CONFIDENCE_SCORE = Dec 8 (- 1)"

record analysis_result_data =
  rd_reference_id :: pystr
  rd_display_label :: pystr
  rd_summary :: pystr
  rd_expert_review_recommended :: pyval
  rd_finding_id :: pystr
  rd_category :: pystr
  rd_risk_type :: pystr
  rd_severity :: pystr
  rd_title :: pystr
  rd_risk_reason :: pystr
  rd_practical_impact :: pystr
  rd_action_priority :: pystr
  rd_questions_to_ask :: "pyval list"
  rd_negotiation_suggestions :: "pyval list"
  rd_recommendation :: pystr
  rd_expert_review_reason_codes :: "pyval list"
  rd_expert_review_summary :: pystr
  rd_confidence_score :: pyfloat
  rd_evidence :: "pyval list"
  rd_extracted_facts :: "pyval list"
  rd_validation_status :: pystr
  rd_is_stale :: bool

text \<open>\<open>isinstance(v, bool)\<close>.\<close>

fun is_bool :: "pyval \<Rightarrow> bool" where
  "is_bool (PBool b) = True"
| "is_bool v = False"

definition member :: "pystr \<Rightarrow> pystr list \<Rightarrow> bool" where
  "member x xs = list_ex ((=) x) xs"

lemma member_iff [simp]: "member x xs \<longleftrightarrow> x \<in> set xs"
  by (auto simp: member_def list_ex_iff)

definition blank_code :: "pyval \<Rightarrow> bool" where
  "blank_code code = (case as_str code of None \<Rightarrow> True | Some s \<Rightarrow> strip s = [])"

definition unsupported_code :: "pyval \<Rightarrow> bool" where
  "unsupported_code code =
     (case as_str code of None \<Rightarrow> True | Some s \<Rightarrow> \<not> member s ALLOWED_EXPERT_REVIEW_CODES)"

definition unsupported_fact :: "pyval \<Rightarrow> bool" where
  "unsupported_fact f =
     (case as_dict f of
        None \<Rightarrow> False
      | Some d \<Rightarrow> let fact_type = get_str d ''fact_type'' ''''
                  in fact_type \<noteq> [] \<and> \<not> member fact_type ALLOWED_FACT_TYPES)"

definition too_long :: "pystr \<Rightarrow> nat \<Rightarrow> bool" where
  "too_long s n \<longleftrightarrow> s \<noteq> [] \<and> n < length s"

text \<open>\<open>AnalysisResultData.validate\<close>.  The confidence test is \<open>score < 0 or score > 1\<close>, which is
  false for a score that is not a number.\<close>

definition validate_result :: "analysis_result_data \<Rightarrow> unit result" where
  "validate_result d = checks
    [(strip (rd_reference_id d) = [], ValueError (lit ''reference_id must not be empty.'')),
     (\<not> member (rd_display_label d) ALLOWED_DISPLAY_LABELS,
        ValueError (lit ''display_label must be one of the allowed labels.'')),
     (strip (rd_summary d) = [], ValueError (lit ''summary must not be empty.'')),
     (\<not> is_bool (rd_expert_review_recommended d),
        ValueError (lit ''expert_review_recommended must be a boolean.'')),
     (rd_severity d \<noteq> [] \<and> \<not> member (rd_severity d) ALLOWED_SEVERITIES,
        ValueError (lit ''severity must be one of critical, high, medium, low, info.'')),
     (rd_action_priority d \<noteq> [] \<and> \<not> member (rd_action_priority d) ALLOWED_ACTION_PRIORITIES,
        ValueError (lit ''action_priority must be one of before_signing, clarify, negotiate, monitor, expert_review, informational.'')),
     (rd_risk_type d \<noteq> [] \<and> \<not> member (rd_risk_type d) ALLOWED_RISK_TYPES,
        ValueError (lit ''risk_type is not supported.'')),
     (float_lt (rd_confidence_score d) fzero \<or> float_lt fone (rd_confidence_score d),
        ValueError (lit ''confidence_score must be between 0 and 1.'')),
     (too_long (rd_title d) MAX_TEXT_LENGTH, ValueError (lit ''title exceeds max length.'')),
     (too_long (rd_summary d) (MAX_TEXT_LENGTH * 2), ValueError (lit ''summary exceeds max length.'')),
     (too_long (rd_risk_reason d) MAX_TEXT_LENGTH, ValueError (lit ''risk_reason exceeds max length.'')),
     (too_long (rd_practical_impact d) MAX_TEXT_LENGTH,
        ValueError (lit ''practical_impact exceeds max length.'')),
     (too_long (rd_recommendation d) MAX_TEXT_LENGTH,
        ValueError (lit ''recommendation exceeds max length.'')),
     (list_ex blank_code (rd_expert_review_reason_codes d),
        ValueError (lit ''expert_review_reason_codes contains invalid value.'')),
     (list_ex unsupported_code (rd_expert_review_reason_codes d),
        ValueError (lit ''unsupported expert_review_reason_code.'')),
     (rd_expert_review_reason_codes d \<noteq> [] \<and> strip (rd_expert_review_summary d) = [],
        ValueError (lit ''expert_review_summary is required when reason codes exist.'')),
     (rd_expert_review_reason_codes d = [] \<and> is_truthy (rd_expert_review_recommended d),
        ValueError (lit ''expert_review_reason_codes required when expert_review_recommended is true.'')),
     (too_long (rd_expert_review_summary d) MAX_TEXT_LENGTH,
        ValueError (lit ''expert_review_summary exceeds max length.'')),
     (\<not> member (rd_validation_status d) (map lit [''verified'', ''review_required'', ''stale'']),
        ValueError (lit ''validation_status is not supported.'')),
     (MAX_LIST_SIZE < length (rd_questions_to_ask d),
        ValueError (lit ''questions_to_ask exceeds max list size.'')),
     (MAX_LIST_SIZE < length (rd_negotiation_suggestions d),
        ValueError (lit ''negotiation_suggestions exceeds max list size.'')),
     (MAX_FACTS_SIZE < length (rd_extracted_facts d),
        ValueError (lit ''extracted_facts exceeds max list size.'')),
     (list_ex unsupported_fact (rd_extracted_facts d), ValueError (lit ''unsupported fact_type.''))]"

lemma validate_result_errors: "validate_result d = Inl e \<Longrightarrow> is_value_error e"
  unfolding validate_result_def by (drule checks_raises) auto

lemma validate_result_bounds:
  assumes "validate_result d = Inr ()"
  shows "length (rd_title d) \<le> 500" "length (rd_summary d) \<le> 1000" "length (rd_questions_to_ask d) \<le> 3"
    "length (rd_negotiation_suggestions d) \<le> 3" "length (rd_extracted_facts d) \<le> 10"
    "strip (rd_summary d) \<noteq> []" "strip (rd_reference_id d) \<noteq> []"
proof -
  have *: "\<not> too_long (rd_title d) MAX_TEXT_LENGTH \<and> \<not> too_long (rd_summary d) (MAX_TEXT_LENGTH * 2) \<and>
    \<not> MAX_LIST_SIZE < length (rd_questions_to_ask d) \<and>
    \<not> MAX_LIST_SIZE < length (rd_negotiation_suggestions d) \<and>
    \<not> MAX_FACTS_SIZE < length (rd_extracted_facts d) \<and>
    strip (rd_summary d) \<noteq> [] \<and> strip (rd_reference_id d) \<noteq> []"
    using assms unfolding validate_result_def checks.simps
    by (simp only: sum.distinct if_False if_True simp_thms split: if_split_asm)
  then show "length (rd_title d) \<le> 500" "length (rd_summary d) \<le> 1000" "length (rd_questions_to_ask d) \<le> 3"
    "length (rd_negotiation_suggestions d) \<le> 3" "length (rd_extracted_facts d) \<le> 10"
    "strip (rd_summary d) \<noteq> []" "strip (rd_reference_id d) \<noteq> []"
    by (auto simp: too_long_def MAX_TEXT_LENGTH_def MAX_LIST_SIZE_def MAX_FACTS_SIZE_def)
qed

end
