(* ===== verification/Analysis_Provider.thy ===== *)
theory Analysis_Provider
  imports Provider_Contract Result_Schema
begin

text \<open>
  Model of \<^verbatim>\<open>src/backend/app/services/analysis_provider.py\<close>: the provider input, the two
  built-in providers and the conversions between provider responses and analysis results.
  \<open>uuid\<close> is the text of a fresh \<open>uuid.uuid4()\<close>.
\<close>

record analysis_provider_input =
  pi_reference_id :: pystr
  pi_masked_text :: pystr

text \<open>What a provider call hands back: a response, a legacy result, or anything else.\<close>

datatype raw_result =
    RawResponse analysis_provider_response
  | RawResult analysis_result_data
  | RawOther pyval

subsection \<open>Values\<close>

text \<open>The elements a \<open>for\<close> loop takes from a value.\<close>

fun iter_values :: "pyval \<Rightarrow> pyval list result" where
  "iter_values (PList xs) = Inr xs"
| "iter_values (PStr s) = Inr (map (\<lambda>c. PStr [c]) s)"
| "iter_values (PDict d) = Inr (map (\<lambda>(k, v). PStr k) d)"
| "iter_values v = Inl (TypeError (lit ''object is not iterable''))"

text \<open>The strings of a list that are not blank.\<close>

definition nonblank_strs :: "pyval list \<Rightarrow> pystr list" where
  "nonblank_strs xs = filter (\<lambda>s. strip s \<noteq> []) (List.map_filter as_str xs)"

text \<open>\<open>float(v)\<close> for a number; integers are exact below \<open>2 ^ 53\<close>.\<close>

fun as_number :: "pyval \<Rightarrow> pyfloat option" where
  "as_number (PInt i) = Some (Dec i 0)"
| "as_number (PBool b) = Some (Dec (if b then 1 else 0) 0)"
| "as_number (PFloat f) = Some f"
| "as_number v = None"

definition or_value :: "pyval \<Rightarrow> pyval \<Rightarrow> pyval" where
  "or_value v w = (if is_truthy v then v else w)"

subsection \<open>Legacy results\<close>

definition related_ids :: "pydict \<Rightarrow> pyval \<Rightarrow> pystr list result" where
  "related_ids item dflt =
     bind (iter_values (get item ''related_evidence_ids'' dflt)) (\<lambda>xs. Inr (nonblank_strs xs))"

definition question_of_item :: "pydict \<Rightarrow> analysis_provider_question result" where
  "question_of_item item =
     bind (related_ids item (strs [lit ''default''])) (\<lambda>ids.
       Inr \<lparr>pq_question_id = get_str item ''question_id'' '''', pq_question = get_str item ''question'' '''',
            pq_purpose = get_str item ''purpose'' '''', pq_related_evidence_candidate_ids = ids,
            pq_priority = get_str item ''priority'' ''normal''\<rparr>)"

definition suggestion_of_item :: "pydict \<Rightarrow> analysis_provider_suggestion result" where
  "suggestion_of_item item =
     bind (related_ids item (strs [lit ''default''])) (\<lambda>ids.
       Inr \<lparr>ps_suggestion_id = get_str item ''suggestion_id'' '''',
            ps_objective = get_str item ''objective'' '''',
            ps_suggested_change = get_str item ''suggested_change'' '''',
            ps_fallback_option = get_str item ''fallback_option'' '''',
            ps_related_evidence_candidate_ids = ids,
            ps_priority = get_str item ''priority'' ''normal''\<rparr>)"

definition clause_candidate_ids :: "analysis_provider_request \<Rightarrow> pystr list" where
  "clause_candidate_ids request =
     concat (map (\<lambda>c. map ec_candidate_id (ci_evidence_candidates c)) (rq_clauses request))"

definition response_from_legacy_result ::
  "analysis_provider_request \<Rightarrow> analysis_provider_input \<Rightarrow> analysis_result_data \<Rightarrow>
   analysis_provider_response result" where
  "response_from_legacy_result request provider_input d =
     bind (map_result question_of_item (dicts_of (rd_questions_to_ask d))) (\<lambda>questions.
     bind (map_result suggestion_of_item (dicts_of (rd_negotiation_suggestions d))) (\<lambda>suggestions.
       let ids = clause_candidate_ids request;
           finding =
             \<lparr>pf_finding_id = (if rd_finding_id d \<noteq> [] then rd_finding_id d
                               else pi_reference_id provider_input @ lit ''-finding''),
              pf_category = rd_category d, pf_risk_type = rd_risk_type d, pf_severity = rd_severity d,
              pf_title = rd_title d, pf_summary = rd_summary d, pf_risk_reason = rd_risk_reason d,
              pf_practical_impact = rd_practical_impact d, pf_action_priority = rd_action_priority d,
              pf_selected_evidence_candidate_ids = (if ids \<noteq> [] then take 1 ids else [lit ''default'']),
              pf_questions_to_ask = questions, pf_negotiation_suggestions = suggestions,
              pf_recommendation = rd_recommendation d,
              pf_expert_review_recommended = PBool (is_truthy (rd_expert_review_recommended d)),
              pf_expert_review_reason_codes = rd_expert_review_reason_codes d,
              pf_expert_review_summary = rd_expert_review_summary d,
              pf_confidence_score = rd_confidence_score d,
              pf_extracted_fact_candidates = rd_extracted_facts d\<rparr>
       in Inr \<lparr>rs_schema_version = ANALYSIS_PROVIDER_RESPONSE_SCHEMA_VERSION,
               rs_provider_request_id = rq_request_id request, rs_findings = [finding],
               rs_usage = empty_usage, rs_finish_reason = lit ''stop'',
               rs_provider_metadata = [(lit ''legacy_source'', PStr (lit ''analysis_result_data''))]\<rparr>))"

subsection \<open>Requests from legacy input\<close>

definition ensure_non_empty_request_id :: "pystr \<Rightarrow> pystr \<Rightarrow> pystr" where
  "ensure_non_empty_request_id uuid value = (if strip value \<noteq> [] then strip value else uuid)"

definition candidate_of_evidence ::
  "analysis_provider_input \<Rightarrow> pydict \<Rightarrow> evidence_candidate_input result" where
  "candidate_of_evidence provider_input evidence =
     bind (py_int (or_value (get evidence ''page_number'' (PInt 1)) (PInt 1))) (\<lambda>page.
     bind (iter_values (get evidence ''block_ids'' (PList []))) (\<lambda>blocks.
     bind (py_int (or_value (get evidence ''start_offset'' (PInt 0)) (PInt 0))) (\<lambda>start.
     bind (py_int (or_value (get evidence ''end_offset'' (PInt 0)) (PInt 0))) (\<lambda>fin.
       Inr \<lparr>ec_candidate_id = get_str evidence ''evidence_id'' ''default'',
            ec_clause_id = pi_reference_id provider_input, ec_page_number = page,
            ec_block_ids = nonblank_strs blocks,
            ec_source_text = take 1800 (get_str evidence ''source_text'' ''''),
            ec_start_offset = start, ec_end_offset = fin,
            ec_confidence = (case as_number (get0 evidence ''confidence'') of Some f \<Rightarrow> f | None \<Rightarrow> fone)\<rparr>))))"

definition request_from_legacy_input ::
  "pystr \<Rightarrow> pystr \<Rightarrow> pyval \<Rightarrow> analysis_provider_input \<Rightarrow> pydict list \<Rightarrow> analysis_provider_request result" where
  "request_from_legacy_input uuid document_id snapshot_version provider_input evidence_candidates =
     bind (map_result (candidate_of_evidence provider_input) evidence_candidates) (\<lambda>candidates.
       Inr \<lparr>rq_request_id = Some (ensure_non_empty_request_id uuid
                (document_id @ [58] @ pi_reference_id provider_input)),
            rq_document_id = document_id, rq_snapshot_version = snapshot_version,
            rq_clauses = [\<lparr>ci_clause_id = pi_reference_id provider_input, ci_clause_label = lit ''clause'',
               ci_clause_level = lit ''normal'', ci_text = take 4000 (pi_masked_text provider_input),
               ci_page_start = None, ci_page_end = None, ci_evidence_candidates = candidates\<rparr>],
            rq_document_type = lit ''contract'', rq_language = lit ''ko'', rq_page_ranges = [],
            rq_limits = [], rq_schema_version = Some ANALYSIS_PROVIDER_REQUEST_SCHEMA_VERSION,
            rq_safety_context = lit ''masked''\<rparr>)"

subsection \<open>The built-in providers\<close>

definition unavailable_analyze :: "analysis_provider_request \<Rightarrow> analysis_provider_response result" where
  "unavailable_analyze request = Inl (RuntimeError (lit ''analysis provider unavailable''))"

text \<open>Category, risk type, severity and action priority of a clause text.\<close>

definition synthetic_kind :: "pystr \<Rightarrow> pystr \<times> pystr \<times> pystr \<times> pystr" where
  "synthetic_kind text =
     (if contains text (lit ''termination'') then
        (lit ''termination'', lit ''termination'', lit ''medium'', lit ''negotiate'')
      else if contains text (lit ''payment'') then
        (lit ''payment'', lit ''financial'', lit ''high'', lit ''before_signing'')
      else (lit ''contract_clarity'', lit ''governance'', lit ''low'', lit ''informational''))"

definition synthetic_finding :: "analysis_clause_input \<Rightarrow> analysis_provider_finding" where
  "synthetic_finding clause =
     (let (category, risk_type, severity, action_priority) = synthetic_kind (ci_text clause);
          ids = map ec_candidate_id (ci_evidence_candidates clause);
          candidate_ids = (if ids \<noteq> [] then ids else [lit ''default''])
      in \<lparr>pf_finding_id = ci_clause_id clause @ lit ''-finding-001'', pf_category = category,
          pf_risk_type = risk_type, pf_severity = severity, pf_title = lit ''Clause review candidate'',
          pf_summary = [54633, 49457, 32, 48516, 49437, 32, 44208, 44284, 51077, 45768, 45796, 46],
          pf_risk_reason = lit ''Potential risk needs validation.'',
          pf_practical_impact = lit ''Review this clause before signature.'',
          pf_action_priority = action_priority, pf_selected_evidence_candidate_ids = candidate_ids,
          pf_questions_to_ask =
            [\<lparr>pq_question_id = lit ''q1'', pq_question = lit ''Any hidden obligations exist?'',
              pq_purpose = lit ''Check ambiguous wording.'',
              pq_related_evidence_candidate_ids = [hd candidate_ids], pq_priority = lit ''normal''\<rparr>],
          pf_negotiation_suggestions =
            [\<lparr>ps_suggestion_id = lit ''s1'', ps_objective = lit ''Adjust clarity'',
              ps_suggested_change = lit ''Insert explicit exception.'',
              ps_fallback_option = lit ''Keep as-is and confirm with other section.'',
              ps_related_evidence_candidate_ids = [hd candidate_ids], ps_priority = lit ''normal''\<rparr>],
          pf_recommendation = lit ''Please confirm with other section.'',
          pf_expert_review_recommended = PBool False, pf_expert_review_reason_codes = [],
          pf_expert_review_summary = [], pf_confidence_score = Dec 72 (- 2),
          pf_extracted_fact_candidates = []\<rparr>)"

definition synthetic_analyze :: "analysis_provider_request \<Rightarrow> analysis_provider_response result" where
  "synthetic_analyze request =
     (case rq_clauses request of
        [] \<Rightarrow> Inl (IndexError (lit ''list index out of range''))
      | first_clause # _ \<Rightarrow>
          Inr \<lparr>rs_schema_version = ANALYSIS_PROVIDER_RESPONSE_SCHEMA_VERSION,
               rs_provider_request_id = rq_request_id request,
               rs_findings = [synthetic_finding first_clause],
               rs_usage = \<lparr>us_input_units = Some 10, us_output_units = Some 15, us_total_units = Some 25,
                 us_estimated_cost_minor = Some 0, us_currency = Some (lit ''KRW''),
                 us_provider_reported = [(lit ''adapter'', PStr (lit ''synthetic''))]\<rparr>,
               rs_finish_reason = lit ''stop'',
               rs_provider_metadata = [(lit ''provider'', PStr (lit ''synthetic''))]\<rparr>)"

subsection \<open>Results from responses\<close>

definition question_dict :: "analysis_provider_question \<Rightarrow> pyval" where
  "question_dict q = PDict
    [(lit ''question_id'', PStr (pq_question_id q)), (lit ''question'', PStr (pq_question q)),
     (lit ''purpose'', PStr (pq_purpose q)),
     (lit ''related_evidence_ids'', strs (pq_related_evidence_candidate_ids q)),
     (lit ''priority'', PStr (pq_priority q))]"

definition suggestion_dict :: "analysis_provider_suggestion \<Rightarrow> pyval" where
  "suggestion_dict s = PDict
    [(lit ''suggestion_id'', PStr (ps_suggestion_id s)), (lit ''objective'', PStr (ps_objective s)),
     (lit ''suggested_change'', PStr (ps_suggested_change s)),
     (lit ''fallback_option'', PStr (ps_fallback_option s)),
     (lit ''related_evidence_ids'', strs (ps_related_evidence_candidate_ids s)),
     (lit ''priority'', PStr (ps_priority s))]"

definition result_of_finding ::
  "pystr \<Rightarrow> pystr \<Rightarrow> analysis_provider_finding \<Rightarrow> analysis_result_data" where
  "result_of_finding reference_id summary f =
     \<lparr>rd_reference_id = reference_id, rd_display_label = [52628, 44032, 32, 54869, 51064], rd_summary = summary,
      rd_expert_review_recommended = pf_expert_review_recommended f, rd_finding_id = pf_finding_id f,
      rd_category = pf_category f, rd_risk_type = pf_risk_type f, rd_severity = pf_severity f,
      rd_title = pf_title f, rd_risk_reason = pf_risk_reason f,
      rd_practical_impact = pf_practical_impact f, rd_action_priority = pf_action_priority f,
      rd_questions_to_ask = map question_dict (pf_questions_to_ask f),
      rd_negotiation_suggestions = map suggestion_dict (pf_negotiation_suggestions f),
      rd_recommendation = pf_recommendation f,
      rd_expert_review_reason_codes = pf_expert_review_reason_codes f,
      rd_expert_review_summary = pf_expert_review_summary f,
      rd_confidence_score = pf_confidence_score f, rd_evidence = [],
      rd_extracted_facts = pf_extracted_fact_candidates f,
      rd_validation_status = lit ''verified'', rd_is_stale = False\<rparr>"

definition analysis_result_data_from_provider_response ::
  "analysis_provider_input \<Rightarrow> analysis_provider_response \<Rightarrow> analysis_result_data result" where
  "analysis_result_data_from_provider_response provider_input response =
     (case rs_findings response of
        [] \<Rightarrow> Inl (ValueError (lit ''Provider returned no finding.''))
      | f # _ \<Rightarrow> Inr (result_of_finding (pi_reference_id provider_input) (pf_summary f) f))"

definition legacy_request :: "analysis_provider_input \<Rightarrow> analysis_provider_request" where
  "legacy_request provider_input =
     \<lparr>rq_request_id = Some (lit ''legacy:'' @ pi_reference_id provider_input),
      rq_document_id = lit ''legacy-doc'', rq_snapshot_version = PInt 1,
      rq_clauses = [\<lparr>ci_clause_id = pi_reference_id provider_input, ci_clause_label = lit ''clause'',
        ci_clause_level = lit ''normal'', ci_text = pi_masked_text provider_input,
        ci_page_start = None, ci_page_end = None,
        ci_evidence_candidates = [\<lparr>ec_candidate_id = lit ''default'',
          ec_clause_id = pi_reference_id provider_input, ec_page_number = 1, ec_block_ids = [],
          ec_source_text = pi_masked_text provider_input, ec_start_offset = 0, ec_end_offset = 0,
          ec_confidence = fone\<rparr>]\<rparr>],
      rq_document_type = lit ''contract'', rq_language = lit ''ko'', rq_page_ranges = [],
      rq_limits = [], rq_schema_version = Some ANALYSIS_PROVIDER_REQUEST_SCHEMA_VERSION,
      rq_safety_context = lit ''masked''\<rparr>"

definition synthetic_analyze_clause :: "analysis_provider_input \<Rightarrow> analysis_result_data result" where
  "synthetic_analyze_clause provider_input =
     bind (synthetic_analyze (legacy_request provider_input)) (\<lambda>response.
       case rs_findings response of
         [] \<Rightarrow> Inl (IndexError (lit ''list index out of range''))
       | f # _ \<Rightarrow> Inr (result_of_finding (pi_reference_id provider_input)
                   (lit ''Synthetic provider result.'') f))"

definition normalize_provider_result ::
  "analysis_provider_request \<Rightarrow> analysis_provider_input \<Rightarrow> raw_result \<Rightarrow>
   analysis_provider_response result" where
  "normalize_provider_result request provider_input r =
     (case r of
        RawResponse rs \<Rightarrow> Inr rs
      | RawResult d \<Rightarrow> response_from_legacy_result request provider_input d
      | RawOther v \<Rightarrow> Inl (TypeError (lit ''Provider result type is unsupported.'')))"

text \<open>\<open>_env_mode\<close>; \<open>env\<close> is the value of \<open>APP_ENV\<close>, when it is set.\<close>

definition env_mode :: "pystr option \<Rightarrow> pystr" where
  "env_mode env =
     (let mode = lower (strip (case env of None \<Rightarrow> lit ''test'' | Some v \<Rightarrow> v))
      in if mode = [] then lit ''test'' else mode)"

end
