(* ===== verification/Analysis_Provider_Correct.thy ===== *)
theory Analysis_Provider_Correct
  imports Analysis_Provider Output_Safety
begin

text \<open>
  The provider contract: validation of a response against its declarative meaning, the interface
  of a sound provider with the built-in synthetic provider as its instance, and the round trip
  between responses and legacy results.
\<close>

subsection \<open>What validation accepts\<close>

definition cites :: "pystr list \<Rightarrow> pystr list \<Rightarrow> bool" where
  "cites allowed ids \<longleftrightarrow> ids \<noteq> [] \<and> set ids \<subseteq> set allowed"

definition valid_finding :: "pystr list \<Rightarrow> analysis_provider_finding \<Rightarrow> bool" where
  "valid_finding allowed f \<longleftrightarrow>
     pf_finding_id f \<noteq> [] \<and> cites allowed (pf_selected_evidence_candidate_ids f) \<and>
     pf_title f \<noteq> [] \<and> length (pf_title f) \<le> 800 \<and> pf_summary f \<noteq> [] \<and> length (pf_summary f) \<le> 1600 \<and>
     length (pf_questions_to_ask f) \<le> 3 \<and> length (pf_negotiation_suggestions f) \<le> 3 \<and>
     (\<forall>q\<in>set (pf_questions_to_ask f).
        pq_question_id q \<noteq> [] \<and> cites allowed (pq_related_evidence_candidate_ids q)) \<and>
     (\<forall>s\<in>set (pf_negotiation_suggestions f).
        ps_suggestion_id s \<noteq> [] \<and> cites allowed (ps_related_evidence_candidate_ids s)) \<and>
     (is_truthy (pf_expert_review_recommended f) \<longrightarrow> pf_expert_review_reason_codes f \<noteq> [])"

definition valid_response :: "analysis_provider_response \<Rightarrow> analysis_provider_request \<Rightarrow> bool" where
  "valid_response rs rq \<longleftrightarrow>
     rs_schema_version rs = ANALYSIS_PROVIDER_RESPONSE_SCHEMA_VERSION \<and>
     rs_provider_request_id rs = rq_request_id rq \<and> length (rs_findings rs) \<le> 8 \<and>
     distinct (map pf_finding_id (rs_findings rs)) \<and>
     list_all (valid_finding (allowed_candidates rq)) (rs_findings rs)"

lemma bind_ok_iff: "bind m f = Inr y \<longleftrightarrow> (\<exists>x. m = Inr x \<and> f x = Inr y)"
  by (rule bind_Inr_iff)

lemma check_candidate_ids_ok: "check_candidate_ids allowed ids = Inr () \<longleftrightarrow> set ids \<subseteq> set allowed"
  by (auto simp: check_candidate_ids_def for_each_ok_iff list_ex_iff)

lemma validate_question_ok:
  "validate_question allowed q = Inr () \<longleftrightarrow>
     pq_question_id q \<noteq> [] \<and> cites allowed (pq_related_evidence_candidate_ids q)"
  by (auto simp: validate_question_def bind_ok_iff check_candidate_ids_ok cites_def)

lemma validate_suggestion_ok:
  "validate_suggestion allowed s = Inr () \<longleftrightarrow>
     ps_suggestion_id s \<noteq> [] \<and> cites allowed (ps_related_evidence_candidate_ids s)"
  by (auto simp: validate_suggestion_def bind_ok_iff check_candidate_ids_ok cites_def)

lemma validate_finding_ok:
  "validate_finding allowed seen f = Inr () \<longleftrightarrow> pf_finding_id f \<notin> set seen \<and> valid_finding allowed f"
  by (auto simp: validate_finding_def valid_finding_def bind_ok_iff check_candidate_ids_ok cites_def
      for_each_ok_iff validate_question_ok validate_suggestion_ok list_ex_iff MAX_STR_LEN_def
      MAX_QUESTIONS_PER_FINDING_def MAX_SUGGESTIONS_PER_FINDING_def)

lemma validate_findings_ok:
  "validate_findings allowed seen fs = Inr () \<longleftrightarrow>
     set (map pf_finding_id fs) \<inter> set seen = {} \<and> distinct (map pf_finding_id fs) \<and>
     list_all (valid_finding allowed) fs"
  by (induction allowed seen fs rule: validate_findings.induct)
     (auto simp: bind_ok_iff validate_finding_ok)

lemma validate_response_ok: "validate_response rs rq = Inr () \<longleftrightarrow> valid_response rs rq"
  by (auto simp: validate_response_def valid_response_def bind_ok_iff validate_findings_ok
      MAX_FINDINGS_PER_RESPONSE_def)

text \<open>C19: A response passes validation exactly when all of this holds.  It has the schema version of responses and
  the id of the request, and at most eight findings, with distinct ids.  Each finding has an id, a title of 1 to 800 and
  a summary of 1 to 1600 characters, at most three questions and at most three suggestions, each of these with an id,
  and at least one reason code when it recommends an expert; and each finding, question and suggestion cites at least
  one candidate and only candidates of the request (the default one, if the request has none at all).\<close>

theorem response_validation_exact: "validate_response rs rq = Inr () \<longleftrightarrow> valid_response rs rq"
  by (rule validate_response_ok)

lemma validate_request_clauses:
  assumes "validate_request rq = Inr ()"
  shows "rq_clauses rq \<noteq> []" "\<forall>c\<in>set (rq_clauses rq). ci_clause_id c \<noteq> []"
  using assms
  by (auto simp: validate_request_def validate_clause_input_def bind_ok_iff for_each_ok_iff)

subsection \<open>Sound providers\<close>

text \<open>
  The interface of a provider, for the requests the pipeline builds (one clause each): every valid
  request is answered by a valid response with a finding.
\<close>

locale sound_provider =
  fixes analyze :: "analysis_provider_request \<Rightarrow> analysis_provider_response result"
  assumes answers: "validate_request rq = Inr () \<Longrightarrow> length (rq_clauses rq) = 1 \<Longrightarrow>
    \<exists>rs. analyze rq = Inr rs \<and> rs_findings rs \<noteq> [] \<and> validate_response rs rq = Inr ()"
begin

lemma cites_request:
  assumes "validate_request rq = Inr ()" "length (rq_clauses rq) = 1" "analyze rq = Inr rs"
    "f \<in> set (rs_findings rs)"
  shows "cites (allowed_candidates rq) (pf_selected_evidence_candidate_ids f)"
  using answers [OF assms(1,2)] assms(3,4)
  by (auto simp: validate_response_ok valid_response_def list_all_iff valid_finding_def)

lemma yields_result:
  assumes "validate_request rq = Inr ()" "length (rq_clauses rq) = 1"
  shows "\<exists>rs d. analyze rq = Inr rs \<and> validate_response rs rq = Inr () \<and>
    analysis_result_data_from_provider_response inp rs = Inr d \<and> rd_reference_id d = pi_reference_id inp"
proof -
  from answers [OF assms] obtain rs where "analyze rq = Inr rs" "rs_findings rs \<noteq> []"
    "validate_response rs rq = Inr ()" by blast
  then show ?thesis
    by (cases "rs_findings rs")
       (auto simp: analysis_result_data_from_provider_response_def result_of_finding_def)
qed

end

lemma synthetic_finding_valid:
  assumes "if ci_evidence_candidates c = [] then lit ''default'' \<in> set allowed
           else ec_candidate_id ` set (ci_evidence_candidates c) \<subseteq> set allowed"
  shows "valid_finding allowed (synthetic_finding c)"
  using assms
  by (cases "ci_evidence_candidates c")
     (auto simp: valid_finding_def synthetic_finding_def cites_def Let_def split: prod.splits)

lemma synthetic_response_valid:
  assumes "rq_clauses rq = [c]"
  shows "\<exists>rs. synthetic_analyze rq = Inr rs \<and> rs_findings rs = [synthetic_finding c] \<and>
    validate_response rs rq = Inr ()"
proof -
  have "valid_finding (allowed_candidates rq) (synthetic_finding c)"
    by (rule synthetic_finding_valid) (auto simp: allowed_candidates_def Let_def assms)
  with assms show ?thesis
    by (auto simp: synthetic_analyze_def validate_response_ok valid_response_def)
qed

interpretation synthetic: sound_provider synthetic_analyze
proof
  fix rq :: analysis_provider_request
  assume "length (rq_clauses rq) = 1"
  then obtain c where "rq_clauses rq = [c]" by (auto simp: length_Suc_conv)
  from synthetic_response_valid [OF this]
  show "\<exists>rs. synthetic_analyze rq = Inr rs \<and> rs_findings rs \<noteq> [] \<and> validate_response rs rq = Inr ()"
    by auto
qed

lemma synthetic_kinds:
  "synthetic_kind t \<in> {(lit ''termination'', lit ''termination'', lit ''medium'', lit ''negotiate''),
     (lit ''payment'', lit ''financial'', lit ''high'', lit ''before_signing''),
     (lit ''contract_clarity'', lit ''governance'', lit ''low'', lit ''informational'')}"
  by (auto simp: synthetic_kind_def)

text \<open>The fixed texts and the kind of a synthetic finding.\<close>

definition synthetic_summary :: pystr where
  "synthetic_summary = [54633, 49457, 32, 48516, 49437, 32, 44208, 44284, 51077, 45768, 45796, 46]"

lemma synthetic_finding_texts:
  "pf_summary (synthetic_finding c) = synthetic_summary"
  "pf_expert_review_recommended (synthetic_finding c) = PBool False"
  "pf_expert_review_reason_codes (synthetic_finding c) = []"
  "pf_expert_review_summary (synthetic_finding c) = []"
  "pf_extracted_fact_candidates (synthetic_finding c) = []"
  "pf_confidence_score (synthetic_finding c) = Dec 72 (- 2)"
  "pf_title (synthetic_finding c) = lit ''Clause review candidate''"
  "pf_risk_reason (synthetic_finding c) = lit ''Potential risk needs validation.''"
  "pf_practical_impact (synthetic_finding c) = lit ''Review this clause before signature.''"
  "pf_recommendation (synthetic_finding c) = lit ''Please confirm with other section.''"
  "length (pf_questions_to_ask (synthetic_finding c)) = 1"
  "length (pf_negotiation_suggestions (synthetic_finding c)) = 1"
  by (simp_all add: synthetic_finding_def synthetic_summary_def Let_def split: prod.splits)

lemma synthetic_finding_kind:
  "pf_risk_type (synthetic_finding c) \<in> set ALLOWED_RISK_TYPES"
  "pf_severity (synthetic_finding c) \<in> set ALLOWED_SEVERITIES"
  "pf_action_priority (synthetic_finding c) \<in> set ALLOWED_ACTION_PRIORITIES"
  using synthetic_kinds [of "ci_text c"]
  by (auto simp: synthetic_finding_def Let_def ALLOWED_SEVERITIES_def ALLOWED_ACTION_PRIORITIES_def
      ALLOWED_RISK_TYPES_def split: prod.splits)

lemma lit_not_too_long: "length s \<le> n \<Longrightarrow> \<not> too_long (lit s) n"
  by (simp add: too_long_def)

lemma synthetic_result_valid:
  assumes "strip ref \<noteq> []"
  shows "validate_result (result_of_finding ref (pf_summary (synthetic_finding c)) (synthetic_finding c)) = Inr ()"
proof -
  have "strip synthetic_summary \<noteq> []" "\<not> too_long synthetic_summary (MAX_TEXT_LENGTH * 2)"
    "[52628, 44032, 32, 54869, 51064] \<in> set ALLOWED_DISPLAY_LABELS"
    "\<not> float_lt (Dec 72 (- 2)) fzero" "\<not> float_lt fone (Dec 72 (- 2))"
    "\<not> too_long [] MAX_TEXT_LENGTH" "\<not> too_long (lit ''Clause review candidate'') MAX_TEXT_LENGTH"
    "\<not> too_long (lit ''Potential risk needs validation.'') MAX_TEXT_LENGTH"
    "\<not> too_long (lit ''Review this clause before signature.'') MAX_TEXT_LENGTH"
    "\<not> too_long (lit ''Please confirm with other section.'') MAX_TEXT_LENGTH"
    "lit ''verified'' \<in> set (map lit [''verified'', ''review_required'', ''stale''])"
    by code_simp+
  then show ?thesis
    unfolding validate_result_def checks_ok_iff
    using assms synthetic_finding_kind [of c]
    by (simp add: result_of_finding_def synthetic_finding_texts MAX_LIST_SIZE_def MAX_FACTS_SIZE_def)
qed

lemma synthetic_summary_allowed:
  "class_of_summary = ALLOW"
  if "class_of_summary = (case check_summary_output (pf_summary (synthetic_finding c)) of
        Inr r \<Rightarrow> classification r | Inl e \<Rightarrow> [])"
proof -
  have s: "pf_summary (synthetic_finding c) = [54633, 49457, 32, 48516, 49437, 32, 44208, 44284, 51077, 45768, 45796, 46]"
    by (simp add: synthetic_finding_def Let_def split: prod.splits)
  show ?thesis unfolding that s by code_simp
qed

text \<open>C40: The synthetic provider answers every valid one-clause request with a response that passes
  response validation, and the result built from it passes result validation, names the clause it was
  asked about and has a summary the output checker allows.\<close>

theorem synthetic_provider_conforms:
  assumes "validate_request rq = Inr ()" and "length (rq_clauses rq) = 1"
    and "strip (pi_reference_id inp) \<noteq> []"
  shows "\<exists>rs d safety. synthetic_analyze rq = Inr rs \<and> validate_response rs rq = Inr () \<and>
    analysis_result_data_from_provider_response inp rs = Inr d \<and> validate_result d = Inr () \<and>
    rd_reference_id d = pi_reference_id inp \<and>
    check_summary_output (rd_summary d) = Inr safety \<and> classification safety = ALLOW"
proof -
  from synthetic.yields_result [OF assms(1,2)] obtain rs d where r: "synthetic_analyze rq = Inr rs"
    "validate_response rs rq = Inr ()" "analysis_result_data_from_provider_response inp rs = Inr d"
    "rd_reference_id d = pi_reference_id inp" by blast
  then obtain c where d: "d = result_of_finding (pi_reference_id inp) (pf_summary (synthetic_finding c))
      (synthetic_finding c)"
    by (auto simp: synthetic_analyze_def analysis_result_data_from_provider_response_def split: list.splits)
  obtain safety where "check_summary_output (rd_summary d) = Inr safety" "classification safety = ALLOW"
    using synthetic_summary_allowed [of _ c]
    by (cases "check_summary_output (rd_summary d)")
       (auto simp: d result_of_finding_def check_summary_output_def classify_field_def)
  with r synthetic_result_valid [OF assms(3)] show ?thesis unfolding d by blast
qed

definition sample_request :: analysis_provider_request where
  "sample_request = legacy_request \<lparr>pi_reference_id = lit ''d:clause:1'', pi_masked_text = lit ''payment terms''\<rparr>"

theorem synthetic_provider_conforms_witness:
  "\<exists>rs d. synthetic_analyze sample_request = Inr rs \<and> validate_response rs sample_request = Inr () \<and>
    analysis_result_data_from_provider_response
      \<lparr>pi_reference_id = lit ''d:clause:1'', pi_masked_text = []\<rparr> rs = Inr d \<and> validate_result d = Inr ()"
proof -
  have "validate_request sample_request = Inr ()" "length (rq_clauses sample_request) = 1"
    "strip (pi_reference_id \<lparr>pi_reference_id = lit ''d:clause:1'', pi_masked_text = []\<rparr>) \<noteq> []"
    by code_simp+
  from synthetic_provider_conforms [OF this] show ?thesis by blast
qed

subsection \<open>Responses and legacy results\<close>

lemma get_hit: "get ((lit k, v) # d) k w = v"
  by (simp add: get_def)

lemma get_miss: "k \<noteq> k' \<Longrightarrow> get ((lit k', v) # d) k w = get d k w"
  by (simp add: get_def)

lemma nonblank_strs_map:
  "list_all (\<lambda>s. strip s \<noteq> []) ids \<Longrightarrow> nonblank_strs (map PStr ids) = ids"
  by (induction ids) (auto simp: nonblank_strs_def List.map_filter_def)

lemma question_roundtrip:
  assumes "list_all (\<lambda>s. strip s \<noteq> []) (pq_related_evidence_candidate_ids q)"
  shows "\<exists>d. question_dict q = PDict d \<and> question_of_item d = Inr q"
  using nonblank_strs_map [OF assms]
  by (simp add: question_dict_def question_of_item_def related_ids_def get_str_def get_hit get_miss strs_def)

lemma suggestion_roundtrip:
  assumes "list_all (\<lambda>s. strip s \<noteq> []) (ps_related_evidence_candidate_ids q)"
  shows "\<exists>d. suggestion_dict q = PDict d \<and> suggestion_of_item d = Inr q"
  using nonblank_strs_map [OF assms]
  by (simp add: suggestion_dict_def suggestion_of_item_def related_ids_def get_str_def get_hit get_miss strs_def)

lemma map_result_roundtrip:
  assumes "\<forall>x\<in>set xs. \<exists>d. f x = PDict d \<and> g d = Inr x"
  shows "map_result g (dicts_of (map f xs)) = Inr xs"
  using assms by (induction xs) (auto simp: dicts_of_def List.map_filter_def)

definition cites_nonblank :: "analysis_provider_finding \<Rightarrow> bool" where
  "cites_nonblank f \<longleftrightarrow>
     list_all (\<lambda>q. list_all (\<lambda>s. strip s \<noteq> []) (pq_related_evidence_candidate_ids q)) (pf_questions_to_ask f) \<and>
     list_all (\<lambda>q. list_all (\<lambda>s. strip s \<noteq> []) (ps_related_evidence_candidate_ids q))
       (pf_negotiation_suggestions f)"

text \<open>Converting a response to a result and back loses nothing of its first finding except the
  selected evidence, which becomes the first candidate of the request: every question, suggestion,
  text and code survives.\<close>

theorem legacy_roundtrip:
  assumes "rs_findings rs = f # fs" and "pf_finding_id f \<noteq> []" and "cites_nonblank f"
    and "pf_expert_review_recommended f = PBool b"
    and "analysis_result_data_from_provider_response inp rs = Inr d"
  shows "\<exists>rs'. response_from_legacy_result rq inp d = Inr rs' \<and>
    rs_provider_request_id rs' = rq_request_id rq \<and>
    rs_findings rs' = [f\<lparr>pf_selected_evidence_candidate_ids := take 1 (allowed_candidates rq)\<rparr>]"
proof -
  have d: "d = result_of_finding (pi_reference_id inp) (pf_summary f) f"
    using assms(1,5) by (simp add: analysis_result_data_from_provider_response_def)
  have "map_result question_of_item (dicts_of (map question_dict (pf_questions_to_ask f))) =
      Inr (pf_questions_to_ask f)"
    using assms(3) question_roundtrip by (intro map_result_roundtrip) (simp add: cites_nonblank_def list_all_iff)
  moreover have "map_result suggestion_of_item (dicts_of (map suggestion_dict (pf_negotiation_suggestions f))) =
      Inr (pf_negotiation_suggestions f)"
    using assms(3) suggestion_roundtrip by (intro map_result_roundtrip) (simp add: cites_nonblank_def list_all_iff)
  ultimately show ?thesis
    using assms(2,4)
    by (simp add: response_from_legacy_result_def d result_of_finding_def Let_def allowed_candidates_def
        clause_candidate_ids_def)
qed

theorem legacy_roundtrip_witness:
  "\<exists>rs d rs'. synthetic_analyze sample_request = Inr rs \<and>
     analysis_result_data_from_provider_response
       \<lparr>pi_reference_id = lit ''d:clause:1'', pi_masked_text = []\<rparr> rs = Inr d \<and>
     response_from_legacy_result sample_request
       \<lparr>pi_reference_id = lit ''d:clause:1'', pi_masked_text = []\<rparr> d = Inr rs' \<and>
     map pf_summary (rs_findings rs') = [synthetic_summary]"
proof -
  let ?inp = "\<lparr>pi_reference_id = lit ''d:clause:1'', pi_masked_text = []\<rparr>"
  let ?f = "synthetic_finding (hd (rq_clauses sample_request))"
  obtain rs where rs: "synthetic_analyze sample_request = Inr rs" "rs_findings rs = ?f # []"
    by (simp add: synthetic_analyze_def sample_request_def legacy_request_def)
  obtain d where d: "analysis_result_data_from_provider_response ?inp rs = Inr d"
    using rs(2) by (simp add: analysis_result_data_from_provider_response_def)
  have "pf_finding_id ?f \<noteq> []" "cites_nonblank ?f" "pf_expert_review_recommended ?f = PBool False"
    by code_simp+
  from legacy_roundtrip [OF rs(2) this d, of sample_request] rs(1) d synthetic_finding_texts(1) show ?thesis
    by auto
qed

end
