(* ===== verification/Provider_Execution.thy ===== *)
theory Provider_Execution
  imports Analysis_Provider
begin

text \<open>
  Model of \<^verbatim>\<open>src/backend/app/services/provider_execution.py\<close>: the call of a provider with
  validation, nbytes limits, retries and backoff.  A provider is what its two methods answer on each
  attempt, so its answers may change from one attempt to the next; \<open>execute_provider\<close> returns
  the delays it slept and its outcome.
\<close>

subsection \<open>Errors\<close>

definition provider_execution_error :: "pystr \<Rightarrow> bool \<Rightarrow> pystr \<Rightarrow> provider_error" where
  "provider_execution_error reason can_retry message =
     \<lparr>reason_code = reason, retryable = can_retry, error_message = message, attempt_number = None,
      error_request_id = None, payload_byte_length = None\<rparr>"

definition execution_failed :: pystr where
  "execution_failed = lit ''Provider execution failed.''"

definition ProviderTimeoutError :: provider_error where
  "ProviderTimeoutError = provider_execution_error (lit ''PROVIDER_TIMEOUT'') True execution_failed"

definition ProviderRateLimitError :: provider_error where
  "ProviderRateLimitError = provider_execution_error (lit ''PROVIDER_RATE_LIMITED'') True execution_failed"

definition ProviderAuthenticationError :: provider_error where
  "ProviderAuthenticationError =
     provider_execution_error (lit ''AUTHENTICATION_ERROR'') False (lit ''Provider authentication failed.'')"

definition ProviderInvalidResponseError :: provider_error where
  "ProviderInvalidResponseError =
     provider_execution_error (lit ''provider_response_invalid'') False execution_failed"

definition unknown_error :: "pystr \<Rightarrow> provider_error" where
  "unknown_error message = provider_execution_error (lit ''PROVIDER_UNKNOWN_ERROR'') False message"

text \<open>\<open>_build_retry_exhausted_error\<close>; the number of attempts and the last reason it also records are
  read nowhere.\<close>

definition build_retry_exhausted_error :: "analysis_provider_request option \<Rightarrow> provider_error" where
  "build_retry_exhausted_error request =
     (provider_execution_error (lit ''provider_retry_exhausted'') False
        (lit ''Provider retry attempts exhausted.''))
       \<lparr>error_request_id := (case request of None \<Rightarrow> None | Some rq \<Rightarrow> rq_request_id rq)\<rparr>"

text \<open>\<open>str(exc)\<close>.\<close>

fun exn_text :: "exn \<Rightarrow> pystr" where
  "exn_text (ValueError m) = m"
| "exn_text (EvidenceValidationError c d) = d"
| "exn_text (RuntimeError m) = m"
| "exn_text (ProviderExecutionError p) = error_message p"
| "exn_text (IndexError m) = m"
| "exn_text (KeyError m) = m"
| "exn_text (TypeError m) = m"
| "exn_text (AttributeError m) = m"
| "exn_text (OtherError n m) = m"

definition coerce_provider_error :: "exn \<Rightarrow> provider_error" where
  "coerce_provider_error e =
     (case e of
        ProviderExecutionError p \<Rightarrow> p
      | _ \<Rightarrow>
          let reason = lower (exn_text e)
          in if contains reason (lit ''authentication'') \<or> contains reason (lit ''unauthorized'')
             then ProviderAuthenticationError
             else if contains reason (lit ''timeout'') then ProviderTimeoutError
             else if contains reason (lit ''ratelimit'') \<or> contains reason (lit ''rate limit'')
             then ProviderRateLimitError
             else unknown_error execution_failed)"

subsection \<open>Policies\<close>

record provider_execution_policy =
  max_attempts :: int
  backoff_seconds :: "pyfloat list"

definition DEFAULT_PROVIDER_EXECUTION_POLICY :: provider_execution_policy where
  "DEFAULT_PROVIDER_EXECUTION_POLICY = \<lparr>max_attempts = 1, backoff_seconds = []\<rparr>"

definition validate_policy :: "provider_execution_policy \<Rightarrow> unit result" where
  "validate_policy p = checks
    [(max_attempts p < 1, ValueError (lit ''max_attempts must be at least 1.'')),
     (list_ex (\<lambda>d. float_lt d fzero) (backoff_seconds p),
        ValueError (lit ''backoff_seconds must not be negative.''))]"

definition delay_before_attempt :: "provider_execution_policy \<Rightarrow> nat \<Rightarrow> pyfloat" where
  "delay_before_attempt p n =
     (if n < 2 then fzero
      else if length (backoff_seconds p) \<le> n - 2 then fzero
      else backoff_seconds p ! (n - 2))"

subsection \<open>Legacy results\<close>

definition strs_of :: "pyval list \<Rightarrow> pystr list" where
  "strs_of xs = List.map_filter as_str xs"

definition legacy_question :: "pydict \<Rightarrow> analysis_provider_question result" where
  "legacy_question item =
     bind (iter_values (get item ''related_evidence_ids'' (PList []))) (\<lambda>ids.
       Inr \<lparr>pq_question_id = get_str item ''question_id'' '''', pq_question = get_str item ''question'' '''',
            pq_purpose = get_str item ''purpose'' '''', pq_related_evidence_candidate_ids = strs_of ids,
            pq_priority = get_str item ''priority'' ''normal''\<rparr>)"

definition legacy_suggestion :: "pydict \<Rightarrow> analysis_provider_suggestion result" where
  "legacy_suggestion item =
     bind (iter_values (get item ''related_evidence_ids'' (PList []))) (\<lambda>ids.
       Inr \<lparr>ps_suggestion_id = get_str item ''suggestion_id'' '''',
            ps_objective = get_str item ''objective'' '''',
            ps_suggested_change = get_str item ''suggested_change'' '''',
            ps_fallback_option = get_str item ''fallback_option'' '''',
            ps_related_evidence_candidate_ids = strs_of ids,
            ps_priority = get_str item ''priority'' ''normal''\<rparr>)"

definition first_candidate_id :: "analysis_provider_request \<Rightarrow> pystr" where
  "first_candidate_id request =
     (case rq_clauses request of
        [] \<Rightarrow> lit ''default''
      | c # _ \<Rightarrow> (case ci_evidence_candidates c of [] \<Rightarrow> lit ''default'' | e # _ \<Rightarrow> ec_candidate_id e))"

definition legacy_result_to_provider_response ::
  "analysis_provider_request \<Rightarrow> analysis_result_data \<Rightarrow> analysis_provider_response result" where
  "legacy_result_to_provider_response request d =
     bind (map_result legacy_question (dicts_of (rd_questions_to_ask d))) (\<lambda>questions.
     bind (map_result legacy_suggestion (dicts_of (rd_negotiation_suggestions d))) (\<lambda>suggestions.
       Inr \<lparr>rs_schema_version = lit ''analysis-provider-response.v1'',
            rs_provider_request_id = rq_request_id request,
            rs_findings =
             [\<lparr>pf_finding_id = (if rd_finding_id d \<noteq> [] then rd_finding_id d
                               else rd_reference_id d @ lit ''-finding''),
               pf_category = rd_category d, pf_risk_type = rd_risk_type d, pf_severity = rd_severity d,
               pf_title = rd_title d, pf_summary = rd_summary d, pf_risk_reason = rd_risk_reason d,
               pf_practical_impact = rd_practical_impact d, pf_action_priority = rd_action_priority d,
               pf_selected_evidence_candidate_ids = [first_candidate_id request],
               pf_questions_to_ask = questions, pf_negotiation_suggestions = suggestions,
               pf_recommendation = rd_recommendation d,
               pf_expert_review_recommended = PBool (is_truthy (rd_expert_review_recommended d)),
               pf_expert_review_reason_codes = rd_expert_review_reason_codes d,
               pf_expert_review_summary = rd_expert_review_summary d,
               pf_confidence_score = rd_confidence_score d,
               pf_extracted_fact_candidates = rd_extracted_facts d\<rparr>],
            rs_usage = empty_usage, rs_finish_reason = lit ''stop'', rs_provider_metadata = []\<rparr>))"

subsection \<open>One attempt\<close>

record provider =
  pv_analyze :: "(nat \<Rightarrow> analysis_provider_request \<Rightarrow> raw_result result) option"
  pv_analyze_clause :: "(nat \<Rightarrow> analysis_provider_input \<Rightarrow> raw_result result) option"

definition too_large_error ::
  "string \<Rightarrow> string \<Rightarrow> nat \<Rightarrow> analysis_provider_request \<Rightarrow> nat \<Rightarrow> provider_error" where
  "too_large_error reason message n request nbytes =
     \<lparr>reason_code = lit reason, retryable = False, error_message = lit message, attempt_number = Some n,
      error_request_id = rq_request_id request, payload_byte_length = Some nbytes\<rparr>"

definition check_request :: "nat \<Rightarrow> analysis_provider_request \<Rightarrow> unit result" where
  "check_request n request =
     bind (validate_request request) (\<lambda>_.
       let nbytes = length (request_to_json_bytes request)
       in checks [(ANALYSIS_PROVIDER_MAX_REQUEST_BYTES < nbytes,
            ProviderExecutionError (too_large_error ''provider_request_too_large''
              ''Provider request payload exceeded limit.'' n request nbytes))])"

definition check_response ::
  "nat \<Rightarrow> analysis_provider_request \<Rightarrow> analysis_provider_response \<Rightarrow> unit result" where
  "check_response n request response =
     bind (validate_response response request) (\<lambda>_.
       let nbytes = length (response_to_json_bytes response)
       in checks [(ANALYSIS_PROVIDER_MAX_RESPONSE_BYTES < nbytes,
            ProviderExecutionError (too_large_error ''provider_response_too_large''
              ''Provider response payload exceeded limit.'' n request nbytes))])"

definition attempt_analyze ::
  "(nat \<Rightarrow> analysis_provider_request \<Rightarrow> raw_result result) \<Rightarrow> analysis_provider_request \<Rightarrow> nat \<Rightarrow>
   raw_result result" where
  "attempt_analyze analyze request n =
     bind (check_request n request) (\<lambda>_.
     bind (analyze n request) (\<lambda>raw.
       case raw of
         RawResponse rs \<Rightarrow> bind (check_response n request rs) (\<lambda>_. Inr (RawResponse rs))
       | RawResult d \<Rightarrow>
           bind (validate_result d) (\<lambda>_.
           bind (legacy_result_to_provider_response request d) (\<lambda>rs. Inr (RawResponse rs)))
       | RawOther v \<Rightarrow> Inl (ProviderExecutionError ProviderInvalidResponseError)))"

definition attempt_analyze_clause ::
  "(nat \<Rightarrow> analysis_provider_input \<Rightarrow> raw_result result) \<Rightarrow> analysis_provider_input \<Rightarrow> nat \<Rightarrow>
   raw_result result" where
  "attempt_analyze_clause analyze_clause provider_input n =
     bind (analyze_clause n provider_input) (\<lambda>raw.
       case raw of
         RawResult d \<Rightarrow> bind (validate_result d) (\<lambda>_. Inr (RawResult d))
       | _ \<Rightarrow> Inl (ProviderExecutionError ProviderInvalidResponseError))"

definition attempt ::
  "provider \<Rightarrow> analysis_provider_input \<Rightarrow> analysis_provider_request option \<Rightarrow> nat \<Rightarrow> raw_result result" where
  "attempt provider provider_input request n =
     (case (request, pv_analyze provider) of
        (Some rq, Some analyze) \<Rightarrow> attempt_analyze analyze rq n
      | _ \<Rightarrow>
          (case pv_analyze_clause provider of
             Some analyze_clause \<Rightarrow> attempt_analyze_clause analyze_clause provider_input n
           | None \<Rightarrow>
               Inl (ProviderExecutionError
                 (unknown_error (lit ''Provider execution failed: missing provider interface.'')
                    \<lparr>attempt_number := Some n,
                     error_request_id := (case request of None \<Rightarrow> None | Some rq \<Rightarrow> rq_request_id rq)\<rparr>))))"

subsection \<open>The retry loop\<close>

text \<open>The error an exception becomes, or no value when it is re-raised as it is.\<close>

definition execution_error ::
  "analysis_provider_request option \<Rightarrow> nat \<Rightarrow> exn \<Rightarrow> provider_error option" where
  "execution_error request n e =
     map_option (\<lambda>p. p\<lparr>attempt_number := Some n,
         error_request_id := (case (request, error_request_id p) of
             (Some rq, None) \<Rightarrow> rq_request_id rq | (_, i) \<Rightarrow> i)\<rparr>)
       (case e of
          ProviderExecutionError p \<Rightarrow> Some p
        | _ \<Rightarrow> if is_value_error e \<or> is_runtime_error e then None else Some (coerce_provider_error e))"

fun attempts_loop ::
  "provider \<Rightarrow> analysis_provider_input \<Rightarrow> analysis_provider_request option \<Rightarrow> provider_execution_policy \<Rightarrow>
   nat list \<Rightarrow> pyfloat list \<times> raw_result result" where
  "attempts_loop provider provider_input request policy [] =
     ([], Inl (ProviderExecutionError (build_retry_exhausted_error request)))"
| "attempts_loop provider provider_input request policy (n # ns) =
     (let slept = (if 1 < n then [delay_before_attempt policy n] else [])
      in case attempt provider provider_input request n of
           Inr r \<Rightarrow> (slept, Inr r)
         | Inl e \<Rightarrow>
             (case execution_error request n e of
                None \<Rightarrow> (slept, Inl e)
              | Some p \<Rightarrow>
                  if \<not> retryable p \<or> int n = max_attempts policy then (slept, Inl (ProviderExecutionError p))
                  else (case attempts_loop provider provider_input request policy ns of
                          (delays, r) \<Rightarrow> (slept @ delays, r))))"

definition execute_provider ::
  "provider \<Rightarrow> analysis_provider_input \<Rightarrow> analysis_provider_request option \<Rightarrow> provider_execution_policy \<Rightarrow>
   pyfloat list \<times> raw_result result" where
  "execute_provider provider provider_input request policy =
     (case validate_policy policy of
        Inl e \<Rightarrow> ([], Inl e)
      | Inr _ \<Rightarrow> attempts_loop provider provider_input request policy [1..<Suc (nat (max_attempts policy))])"

end
