(* ===== verification/Provider_Execution_Correct.thy ===== *)
theory Provider_Execution_Correct
  imports Provider_Execution Analysis_Provider_Correct
begin

text \<open>
  The retry loop against its specification (where it stops, what it slept, what it reports), the
  safety of what it returns, and the run of a sound provider.
\<close>

subsection \<open>Where the loop stops\<close>

text \<open>The attempt fails in a way the loop may retry.\<close>

definition retryable_failure ::
  "provider \<Rightarrow> analysis_provider_input \<Rightarrow> analysis_provider_request option \<Rightarrow> nat \<Rightarrow> bool" where
  "retryable_failure pr inp rq n \<longleftrightarrow>
     (case attempt pr inp rq n of
        Inr r \<Rightarrow> False
      | Inl e \<Rightarrow> (case execution_error rq n e of None \<Rightarrow> False | Some p \<Rightarrow> retryable p))"

text \<open>What the caller sees of an attempt that ends the loop.\<close>

definition reported ::
  "provider \<Rightarrow> analysis_provider_input \<Rightarrow> analysis_provider_request option \<Rightarrow> nat \<Rightarrow> raw_result result" where
  "reported pr inp rq n =
     (case attempt pr inp rq n of
        Inr r \<Rightarrow> Inr r
      | Inl e \<Rightarrow> (case execution_error rq n e of None \<Rightarrow> Inl e | Some p \<Rightarrow> Inl (ProviderExecutionError p)))"

definition slept_before :: "provider_execution_policy \<Rightarrow> nat \<Rightarrow> pyfloat list" where
  "slept_before po n = (if 1 < n then [delay_before_attempt po n] else [])"

lemma attempts_loop_Cons:
  "attempts_loop pr inp rq po (n # ns) =
     (if retryable_failure pr inp rq n \<and> int n \<noteq> max_attempts po
      then (let (ds, r) = attempts_loop pr inp rq po ns in (slept_before po n @ ds, r))
      else (slept_before po n, reported pr inp rq n))"
  by (auto simp: retryable_failure_def reported_def slept_before_def Let_def split: sum.splits option.splits)

lemma attempts_loop_stops:
  assumes "m \<le> N" "1 \<le> m" "max_attempts po = int N"
  shows "\<exists>k. m \<le> k \<and> k \<le> N \<and> (\<forall>j. m \<le> j \<and> j < k \<longrightarrow> retryable_failure pr inp rq j) \<and>
    (\<not> retryable_failure pr inp rq k \<or> k = N) \<and>
    attempts_loop pr inp rq po [m..<Suc N] =
      (concat (map (slept_before po) [m..<Suc k]), reported pr inp rq k)"
  using assms
proof (induction "N - m" arbitrary: m)
  case 0
  then have "m = N" by simp
  then have "\<forall>j. m \<le> j \<and> j < N \<longrightarrow> retryable_failure pr inp rq j" by auto
  moreover from \<open>m = N\<close> 0 have "attempts_loop pr inp rq po [m..<Suc N] =
      (concat (map (slept_before po) [m..<Suc N]), reported pr inp rq N)"
    by (simp add: attempts_loop_Cons del: attempts_loop.simps)
  ultimately show ?case using \<open>m = N\<close> by (intro exI [of _ N]) simp
next
  case (Suc d)
  then have u: "[m..<Suc N] = m # [Suc m..<Suc N]" by (simp add: upt_conv_Cons del: upt_Suc)
  show ?case
  proof (cases "retryable_failure pr inp rq m")
    case False
    have "\<forall>j. m \<le> j \<and> j < m \<longrightarrow> retryable_failure pr inp rq j" by auto
    moreover from False have "attempts_loop pr inp rq po [m..<Suc N] =
        (concat (map (slept_before po) [m..<Suc m]), reported pr inp rq m)"
      using Suc.prems(2) by (simp add: u attempts_loop_Cons upt_conv_Cons del: attempts_loop.simps upt_Suc)
    ultimately show ?thesis using False Suc.prems(1) by (intro exI [of _ m]) blast
  next
    case True
    have "d = N - Suc m" "Suc m \<le> N" "1 \<le> Suc m" using Suc by auto
    from Suc.hyps(1) [OF this Suc.prems(3)] obtain k where k: "Suc m \<le> k" "k \<le> N"
      "\<forall>j. Suc m \<le> j \<and> j < k \<longrightarrow> retryable_failure pr inp rq j"
      "\<not> retryable_failure pr inp rq k \<or> k = N"
      "attempts_loop pr inp rq po [Suc m..<Suc N] =
        (concat (map (slept_before po) [Suc m..<Suc k]), reported pr inp rq k)" by blast
    have "int m \<noteq> max_attempts po" using Suc by auto
    then have "attempts_loop pr inp rq po [m..<Suc N] =
        (slept_before po m @ concat (map (slept_before po) [Suc m..<Suc k]), reported pr inp rq k)"
      by (simp add: u attempts_loop_Cons True k(5) del: attempts_loop.simps upt_Suc)
    also have "slept_before po m @ concat (map (slept_before po) [Suc m..<Suc k]) =
        concat (map (slept_before po) [m..<Suc k])"
      using k(1) by (simp add: upt_conv_Cons del: upt_Suc)
    finally have "attempts_loop pr inp rq po [m..<Suc N] =
        (concat (map (slept_before po) [m..<Suc k]), reported pr inp rq k)" .
    moreover have "\<forall>j. m \<le> j \<and> j < k \<longrightarrow> retryable_failure pr inp rq j"
      using k(3) True by (metis Suc_leI le_neq_implies_less)
    ultimately show ?thesis using k by (intro exI [of _ k]) simp
  qed
qed

lemma slept_upto:
  "1 \<le> k \<Longrightarrow> concat (map (slept_before po) [1..<Suc k]) = map (delay_before_attempt po) [2..<Suc k]"
proof (induction k rule: dec_induct)
  case base
  then show ?case by (simp add: slept_before_def)
next
  case (step k)
  then show ?case by (simp add: slept_before_def)
qed

lemma execute_provider_trace:
  assumes "validate_policy po = Inr ()"
  shows "\<exists>k. 1 \<le> k \<and> int k \<le> max_attempts po \<and>
    (\<forall>j. 1 \<le> j \<and> j < k \<longrightarrow> retryable_failure pr inp rq j) \<and>
    (\<not> retryable_failure pr inp rq k \<or> int k = max_attempts po) \<and>
    execute_provider pr inp rq po = (map (delay_before_attempt po) [2..<Suc k], reported pr inp rq k)"
proof -
  from assms have m: "1 \<le> max_attempts po" by (simp add: validate_policy_def)
  let ?N = "nat (max_attempts po)"
  from m have "1 \<le> ?N" "max_attempts po = int ?N" by auto
  from attempts_loop_stops [OF this(1) _ this(2), of pr inp rq] obtain k where k: "1 \<le> k" "k \<le> ?N"
    "\<forall>j. 1 \<le> j \<and> j < k \<longrightarrow> retryable_failure pr inp rq j" "\<not> retryable_failure pr inp rq k \<or> k = ?N"
    "attempts_loop pr inp rq po [1..<Suc ?N] =
      (concat (map (slept_before po) [1..<Suc k]), reported pr inp rq k)" by auto
  then show ?thesis
    using m assms slept_upto [OF k(1), of po]
    by (intro exI [of _ k]) (auto simp: execute_provider_def simp del: upt_Suc)
qed

text \<open>C18: With a valid policy the loop makes attempts 1 to k for some k within the limit: all before the
  k-th fail retryably, the k-th does not (or is the last allowed); the caller has slept exactly the
  backoff delays of attempts 2 to k and sees the outcome of the k-th, so the exhausted-retries error
  after the loop is never raised.\<close>

theorem execution_trace:
  assumes "validate_policy po = Inr ()"
  shows "\<exists>k. 1 \<le> k \<and> int k \<le> max_attempts po \<and>
    (\<forall>j. 1 \<le> j \<and> j < k \<longrightarrow> retryable_failure pr inp rq j) \<and>
    (\<not> retryable_failure pr inp rq k \<or> int k = max_attempts po) \<and>
    execute_provider pr inp rq po = (map (delay_before_attempt po) [2..<Suc k], reported pr inp rq k)"
  by (rule execute_provider_trace [OF assms])

text \<open>A provider that times out once and then answers.\<close>

definition flaky_provider :: provider where
  "flaky_provider =
     \<lparr>pv_analyze = None,
      pv_analyze_clause = Some (\<lambda>n inp. if n = 1 then Inl (OtherError (lit ''Exception'') (lit ''Timeout''))
        else map_sum id RawResult (synthetic_analyze_clause inp))\<rparr>"

definition retry_policy :: provider_execution_policy where
  "retry_policy = \<lparr>max_attempts = 3, backoff_seconds = [Dec 5 (- 1), Dec 1 0]\<rparr>"

definition sample_input :: analysis_provider_input where
  "sample_input = \<lparr>pi_reference_id = lit ''d:clause:1'', pi_masked_text = lit ''payment terms''\<rparr>"

lemma flaky_run:
  "retryable_failure flaky_provider sample_input None 1"
  "\<not> retryable_failure flaky_provider sample_input None 2"
  "delay_before_attempt retry_policy 2 = Dec 5 (- 1)"
  "validate_policy retry_policy = Inr ()"
  subgoal by code_simp
  subgoal by code_simp
  subgoal by code_simp
  subgoal by code_simp
  done

lemma flaky_reports: "(case reported flaky_provider sample_input None 2 of Inr r \<Rightarrow> True | Inl e \<Rightarrow> False)"
  by code_simp

theorem execution_trace_witness:
  "\<exists>r. execute_provider flaky_provider sample_input None retry_policy = ([Dec 5 (- 1)], Inr r)"
proof -
  have m: "max_attempts retry_policy = 3" by (simp add: retry_policy_def)
  from flaky_reports obtain r where r: "reported flaky_provider sample_input None 2 = Inr r"
    by (auto split: sum.splits)
  from execution_trace [OF flaky_run(4), of flaky_provider sample_input None] obtain k where k: "1 \<le> k" "int k \<le> 3"
    "\<forall>j. 1 \<le> j \<and> j < k \<longrightarrow> retryable_failure flaky_provider sample_input None j"
    "\<not> retryable_failure flaky_provider sample_input None k \<or> int k = 3"
    "execute_provider flaky_provider sample_input None retry_policy =
      (map (delay_before_attempt retry_policy) [2..<Suc k], reported flaky_provider sample_input None k)"
    unfolding m by blast
  have "k \<noteq> 1" using k(4) flaky_run(1) by auto
  moreover have "\<not> 2 < k" using k(3) flaky_run(2) by auto
  ultimately have "k = 2" using k(1) by simp
  with k(5) r flaky_run(3) show ?thesis by auto
qed

subsection \<open>What is returned\<close>

lemma attempt_analyze_ok:
  assumes "attempt_analyze analyze rq n = Inr raw"
  shows "validate_request rq = Inr () \<and> length (request_to_json_bytes rq) \<le> 524288 \<and>
    ((\<exists>rs. raw = RawResponse rs \<and> analyze n rq = Inr (RawResponse rs) \<and> validate_response rs rq = Inr () \<and>
        length (response_to_json_bytes rs) \<le> 262144) \<or>
     (\<exists>d rs. raw = RawResponse rs \<and> analyze n rq = Inr (RawResult d) \<and> validate_result d = Inr () \<and>
        legacy_result_to_provider_response rq d = Inr rs))"
proof -
  from assms obtain r where r: "check_request n rq = Inr ()" "analyze n rq = Inr r"
    by (auto simp: attempt_analyze_def bind_Inr_iff)
  then have rq: "validate_request rq = Inr ()" "length (request_to_json_bytes rq) \<le> 524288"
    by (auto simp: check_request_def bind_Inr_iff Let_def ANALYSIS_PROVIDER_MAX_REQUEST_BYTES_def)
  show ?thesis
  proof (cases r)
    case (RawResponse rs)
    with assms r have "check_response n rq rs = Inr ()" "raw = RawResponse rs"
      by (auto simp: attempt_analyze_def bind_Inr_iff)
    with rq r RawResponse show ?thesis
      by (auto simp: check_response_def bind_Inr_iff Let_def ANALYSIS_PROVIDER_MAX_RESPONSE_BYTES_def)
  next
    case (RawResult d)
    with assms r have "validate_result d = Inr ()"
      "\<exists>rs. legacy_result_to_provider_response rq d = Inr rs \<and> raw = RawResponse rs"
      by (auto simp: attempt_analyze_def bind_Inr_iff)
    with rq r RawResult show ?thesis by auto
  next
    case (RawOther v)
    with assms r show ?thesis by (auto simp: attempt_analyze_def)
  qed
qed

lemma reported_Inr: "reported pr inp rq k = Inr r \<longleftrightarrow> attempt pr inp rq k = Inr r"
  by (auto simp: reported_def split: sum.splits option.splits)

text \<open>C4: Whatever the provider does, an answer that \<open>execute_provider\<close> hands to the pipeline for a
  request is safe: the request was valid and within 512 KiB, and the answer is either the provider's own
  response, valid for this request and within 256 KiB, or built from a legacy result that passed its
  validation.\<close>

theorem executed_answers_validated:
  assumes "snd (execute_provider pr inp (Some rq) po) = Inr raw" and "pv_analyze pr = Some analyze"
  shows "validate_request rq = Inr () \<and> length (request_to_json_bytes rq) \<le> 524288 \<and>
    (\<exists>n. 1 \<le> n \<and> int n \<le> max_attempts po \<and>
      ((\<exists>rs. raw = RawResponse rs \<and> analyze n rq = Inr (RawResponse rs) \<and> validate_response rs rq = Inr () \<and>
          length (response_to_json_bytes rs) \<le> 262144) \<or>
       (\<exists>d rs. raw = RawResponse rs \<and> analyze n rq = Inr (RawResult d) \<and> validate_result d = Inr () \<and>
          legacy_result_to_provider_response rq d = Inr rs)))"
proof -
  from assms(1) have "validate_policy po = Inr ()"
    by (auto simp: execute_provider_def split: sum.splits)
  from execute_provider_trace [OF this, of pr inp "Some rq"] assms(1) obtain k where
    k: "1 \<le> k" "int k \<le> max_attempts po" "reported pr inp (Some rq) k = Inr raw" by auto
  then have "attempt_analyze analyze rq k = Inr raw"
    using assms(2) by (simp add: reported_Inr attempt_def)
  from attempt_analyze_ok [OF this] k(1,2) show ?thesis by blast
qed

definition synthetic_provider :: provider where
  "synthetic_provider =
     \<lparr>pv_analyze = Some (\<lambda>n rq. map_sum id RawResponse (synthetic_analyze rq)),
      pv_analyze_clause = Some (\<lambda>n inp. map_sum id RawResult (synthetic_analyze_clause inp))\<rparr>"

text \<open>A sound provider is asked once.\<close>

lemma first_attempt_returns:
  assumes "validate_policy po = Inr ()" "attempt pr inp rq 1 = Inr raw"
  shows "execute_provider pr inp rq po = ([], Inr raw)"
proof -
  from execute_provider_trace [OF assms(1), of pr inp rq] obtain k where k: "1 \<le> k"
    "\<forall>j. 1 \<le> j \<and> j < k \<longrightarrow> retryable_failure pr inp rq j"
    "execute_provider pr inp rq po = (map (delay_before_attempt po) [2..<Suc k], reported pr inp rq k)"
    by blast
  have "\<not> retryable_failure pr inp rq 1" using assms(2) by (simp add: retryable_failure_def)
  with k(1,2) have "k = 1" by (metis le_neq_implies_less order_refl)
  with k(3) assms(2) show ?thesis by (simp add: reported_def)
qed

context sound_provider
begin

lemma executes_at_once:
  assumes "validate_request rq = Inr ()" "length (rq_clauses rq) = 1"
    and "length (request_to_json_bytes rq) \<le> 524288"
    and "\<And>rs. analyze rq = Inr rs \<Longrightarrow> length (response_to_json_bytes rs) \<le> 262144"
    and "pv_analyze pr = Some (\<lambda>n rq. map_sum id RawResponse (analyze rq))"
    and "validate_policy po = Inr ()"
  shows "\<exists>rs. analyze rq = Inr rs \<and> execute_provider pr inp (Some rq) po = ([], Inr (RawResponse rs))"
proof -
  from answers [OF assms(1,2)] obtain rs where rs: "analyze rq = Inr rs"
    "validate_response rs rq = Inr ()" by blast
  then have "attempt pr inp (Some rq) 1 = Inr (RawResponse rs)"
    using assms(1,3,5) assms(4) [OF rs(1)]
    by (simp add: attempt_def attempt_analyze_def check_request_def check_response_def Let_def checks.simps
        ANALYSIS_PROVIDER_MAX_REQUEST_BYTES_def ANALYSIS_PROVIDER_MAX_RESPONSE_BYTES_def)
  from first_attempt_returns [OF assms(6) this] rs(1) show ?thesis by blast
qed

end

lemma synthetic_provider_analyzes:
  "pv_analyze synthetic_provider = Some (\<lambda>n rq. map_sum id RawResponse (synthetic_analyze rq))"
  by (simp add: synthetic_provider_def)

text \<open>The synthetic provider is executed with one attempt and no delay: for a valid one-clause
  request within the size limits, \<open>execute_provider\<close> returns its response unchanged.\<close>

theorem synthetic_executes_at_once:
  assumes "validate_request rq = Inr ()" and "length (rq_clauses rq) = 1"
    and "length (request_to_json_bytes rq) \<le> 524288"
    and "\<And>rs. synthetic_analyze rq = Inr rs \<Longrightarrow> length (response_to_json_bytes rs) \<le> 262144"
    and "validate_policy po = Inr ()"
  shows "\<exists>rs. synthetic_analyze rq = Inr rs \<and>
    execute_provider synthetic_provider inp (Some rq) po = ([], Inr (RawResponse rs))"
  by (rule synthetic.executes_at_once [OF assms(1-4) synthetic_provider_analyzes assms(5)])

lemma sample_request_valid: "validate_request sample_request = Inr ()" "length (rq_clauses sample_request) = 1"
  by code_simp+

lemma encoded_small: "json_weight v \<le> n \<Longrightarrow> length (utf8_encode (json_dumps v)) \<le> n"
  using utf8_len_json [of v] by (simp add: length_utf8_encode)

lemma small_numbers:
  "utf8_len (str_int 0) = 1" "utf8_len (str_int 1) = 1" "utf8_len (json_float fone) = 3"
  by code_simp+

lemma sample_request_small: "length (request_to_json_bytes sample_request) \<le> 524288"
  unfolding request_to_json_bytes_def
  by (rule encoded_small)
     (simp add: sample_request_def legacy_request_def clause_payload_def candidate_payload_def opt_str_def
       opt_int_def strs_def small_numbers ANALYSIS_PROVIDER_REQUEST_SCHEMA_VERSION_def del: json_float.simps)

lemma sample_kind:
  "synthetic_kind (lit ''payment terms'') = (lit ''payment'', lit ''financial'', lit ''high'', lit ''before_signing'')"
  by code_simp

lemma sample_response_small:
  assumes "synthetic_analyze sample_request = Inr rs"
  shows "length (response_to_json_bytes rs) \<le> 262144"
proof -
  have "rs_provider_request_id rs = Some (lit ''legacy:d:clause:1'')"
    "rs_schema_version rs = lit ''analysis-provider-response.v1''"
    "rs_findings rs = [synthetic_finding (hd (rq_clauses sample_request))]"
    using assms by (auto simp: synthetic_analyze_def sample_request_def legacy_request_def
        ANALYSIS_PROVIDER_RESPONSE_SCHEMA_VERSION_def lit_append [symmetric])
  then show ?thesis unfolding response_to_json_bytes_def
    by (intro encoded_small)
       (simp add: sample_request_def legacy_request_def synthetic_finding_def sample_kind
         finding_payload_def question_payload_def suggestion_payload_def opt_str_def strs_def Let_def)
qed

theorem synthetic_executes_at_once_witness:
  "\<exists>rs. synthetic_analyze sample_request = Inr rs \<and>
     execute_provider synthetic_provider sample_input (Some sample_request)
       DEFAULT_PROVIDER_EXECUTION_POLICY = ([], Inr (RawResponse rs))"
proof -
  have "validate_policy DEFAULT_PROVIDER_EXECUTION_POLICY = Inr ()" by code_simp
  from synthetic_executes_at_once [OF sample_request_valid sample_request_small sample_response_small this]
  show ?thesis by blast
qed

theorem executed_answers_validated_witness:
  "\<exists>raw. snd (execute_provider synthetic_provider sample_input (Some sample_request)
       DEFAULT_PROVIDER_EXECUTION_POLICY) = Inr raw \<and> validate_request sample_request = Inr ()"
proof -
  have "validate_policy DEFAULT_PROVIDER_EXECUTION_POLICY = Inr ()" by code_simp
  from synthetic.executes_at_once [OF sample_request_valid sample_request_small sample_response_small
      synthetic_provider_analyzes this]
  obtain rs where "execute_provider synthetic_provider sample_input (Some sample_request)
       DEFAULT_PROVIDER_EXECUTION_POLICY = ([], Inr (RawResponse rs))"
    by blast
  then have r: "snd (execute_provider synthetic_provider sample_input (Some sample_request)
       DEFAULT_PROVIDER_EXECUTION_POLICY) = Inr (RawResponse rs)" by simp
  have "\<exists>f. pv_analyze synthetic_provider = Some f" by (simp add: synthetic_provider_def)
  with executed_answers_validated [OF r] r show ?thesis by blast
qed

end
