(* ===== verification/Evidence_Linking.thy ===== *)
theory Evidence_Linking
  imports Py_Regex Py_Values
begin

text \<open>
  Model of \<^verbatim>\<open>src/backend/app/services/evidence_linking.py\<close>: quotes of a clause located in the
  confirmed snapshot pages, and the validation of an evidence reference.  \<open>nfc\<close> stands for
  \<open>unicodedata.normalize("NFC", s)\<close> and \<open>sha\<close> for the hexadecimal SHA-256 digest, native
  routines about which nothing is assumed.  Pages, blocks and evidence are dictionaries, as in the
  code; offsets count code points.
\<close>

definition MAX_EVIDENCE_SOURCE_TEXT_LENGTH :: nat where "MAX_EVIDENCE_SOURCE_TEXT_LENGTH = 1200"
definition MAX_FINDING_EVIDENCE_COUNT :: nat where "MAX_FINDING_EVIDENCE_COUNT = 10"
definition MAX_CANDIDATE_COUNT :: nat where "MAX_CANDIDATE_COUNT = 50"
definition MAX_SNAPSHOT_TEXT_LENGTH :: int where "MAX_SNAPSHOT_TEXT_LENGTH = 2000000"

definition evidence_error :: "string \<Rightarrow> string \<Rightarrow> exn" where
  "evidence_error code detail = EvidenceValidationError (lit code) (lit detail)"

subsection \<open>Normalisation and the snapshot hash\<close>

definition normalize_snapshot_text :: "(pystr \<Rightarrow> pystr) \<Rightarrow> pystr \<Rightarrow> pystr" where
  "normalize_snapshot_text nfc v =
     re_sub (Many1 (\<lambda>c. c = 32 \<or> c = 9)) [32] (replace (replace (nfc v) [13, 10] [10]) [13] [10])"

definition list_value :: "pyval \<Rightarrow> pyval list" where
  "list_value v = (case as_list v of None \<Rightarrow> [] | Some xs \<Rightarrow> xs)"

definition canonical_block :: "(pystr \<Rightarrow> pystr) \<Rightarrow> pydict \<Rightarrow> nat \<Rightarrow> pydict \<Rightarrow> pyval result" where
  "canonical_block nfc page index block =
     (let number = nat_digits (index + 1);
          dflt = lit ''p'' @ py_str (get page ''page_number'' (PInt (int (index + 1)))) @ lit ''-b'' @ number;
          block_text = get_str block ''text'' ''''
      in bind (py_int (get block ''start_in_page_offset'' (PInt 0))) (\<lambda>start.
         bind (py_int (get block ''end_in_page_offset'' (PInt (int (length block_text))))) (\<lambda>fin.
           Inr (PDict
             [(lit ''block_id'', PStr (py_str (get block ''block_id'' (PStr dflt)))),
              (lit ''text'', PStr (normalize_snapshot_text nfc block_text)),
              (lit ''start_in_page_offset'', PInt start), (lit ''end_in_page_offset'', PInt fin)]))))"

fun canonical_blocks :: "(pystr \<Rightarrow> pystr) \<Rightarrow> pydict \<Rightarrow> nat \<Rightarrow> pyval list \<Rightarrow> pyval list result" where
  "canonical_blocks nfc page index [] = Inr []"
| "canonical_blocks nfc page index (b # bs) =
     (case as_dict b of
        None \<Rightarrow> canonical_blocks nfc page (Suc index) bs
      | Some block \<Rightarrow> bind (canonical_block nfc page index block) (\<lambda>v.
          bind (canonical_blocks nfc page (Suc index) bs) (\<lambda>vs. Inr (v # vs))))"

definition canonical_page :: "(pystr \<Rightarrow> pystr) \<Rightarrow> pydict \<Rightarrow> pyval result" where
  "canonical_page nfc page =
     bind (canonical_blocks nfc page 0 (list_value (get0 page ''blocks''))) (\<lambda>blocks.
     bind (py_int (get page ''page_number'' (PInt (- 1)))) (\<lambda>number.
       Inr (PDict
         [(lit ''page_number'', PInt number),
          (lit ''final_text'', PStr (normalize_snapshot_text nfc (get_str page ''final_text'' ''''))),
          (lit ''blocks'', PList blocks)])))"

definition calculate_snapshot_hash ::
  "(pystr \<Rightarrow> pystr) \<Rightarrow> (pystr \<Rightarrow> pystr) \<Rightarrow> pyval list \<Rightarrow> pystr result" where
  "calculate_snapshot_hash nfc sha snapshot =
     bind (map_result (canonical_page nfc) (dicts_of snapshot)) (\<lambda>pages.
       Inr (sha (json_dumps (PList pages))))"

definition extract_normalized_snapshot_text :: "(pystr \<Rightarrow> pystr) \<Rightarrow> pyval list \<Rightarrow> pystr" where
  "extract_normalized_snapshot_text nfc pages =
     str_join [10]
       (map (\<lambda>p. normalize_snapshot_text nfc (get_str p ''final_text'' '''')) (dicts_of pages))"

subsection \<open>Quotes\<close>

datatype match_status = Invalid | ExactMatch | NormalizedUniqueMatch | AmbiguousMatch | NoMatch

fun status_text :: "match_status \<Rightarrow> pystr" where
  "status_text Invalid = lit ''invalid''"
| "status_text ExactMatch = lit ''exact_match''"
| "status_text NormalizedUniqueMatch = lit ''normalized_unique_match''"
| "status_text AmbiguousMatch = lit ''ambiguous_match''"
| "status_text NoMatch = lit ''no_match''"

definition quote_offsets :: "(pystr \<Rightarrow> pystr) \<Rightarrow> pystr \<Rightarrow> pystr \<Rightarrow> match_status \<times> int \<times> int" where
  "quote_offsets nfc page_text source_text =
     (if source_text = [] then (Invalid, - 1, - 1)
      else
        let canonical_page = normalize_snapshot_text nfc page_text;
            canonical_source = normalize_snapshot_text nfc source_text
        in case finditer (Lit source_text) page_text of
             [(a, b, g)] \<Rightarrow> (ExactMatch, int a, int b)
           | m # ms \<Rightarrow> (AmbiguousMatch, - 1, - 1)
           | [] \<Rightarrow>
               (case finditer (Lit canonical_source) canonical_page of
                  [(a, b, g)] \<Rightarrow> (NormalizedUniqueMatch, int a, int b)
                | m # ms \<Rightarrow> (AmbiguousMatch, - 1, - 1)
                | [] \<Rightarrow> (NoMatch, - 1, - 1)))"

record quote_match =
  qm_status :: match_status
  qm_code :: "pystr option"
  qm_start_offset :: int
  qm_end_offset :: int

definition resolve_quote_match :: "(pystr \<Rightarrow> pystr) \<Rightarrow> pystr \<Rightarrow> pystr \<Rightarrow> quote_match" where
  "resolve_quote_match nfc page_text source_text =
     (case quote_offsets nfc page_text source_text of (status, start, fin) \<Rightarrow>
        if status = ExactMatch \<or> status = NormalizedUniqueMatch then
          \<lparr>qm_status = status, qm_code = None, qm_start_offset = start, qm_end_offset = fin\<rparr>
        else
          \<lparr>qm_status = (if status = NoMatch then NoMatch else AmbiguousMatch),
           qm_code = Some (if status = AmbiguousMatch then lit ''evidence_ambiguous''
                           else lit ''evidence_text_mismatch''),
           qm_start_offset = start, qm_end_offset = fin\<rparr>)"

subsection \<open>Candidates\<close>

text \<open>\<open>_iter_block_ranges\<close>.\<close>

fun iter_block_ranges :: "pyval list \<Rightarrow> (int \<times> int \<times> pystr) list result" where
  "iter_block_ranges [] = Inr []"
| "iter_block_ranges (b # bs) =
     (case as_dict b of
        None \<Rightarrow> iter_block_ranges bs
      | Some block \<Rightarrow>
          (let bid = get_str block ''block_id'' ''''; block_text = get_str block ''text'' ''''
           in if bid = [] then iter_block_ranges bs
              else bind (py_int (get block ''start_in_page_offset'' (PInt 0))) (\<lambda>start.
                   bind (py_int (get block ''end_in_page_offset'' (PInt (start + int (length block_text))))) (\<lambda>fin.
                   bind (iter_block_ranges bs) (\<lambda>rest. Inr ((start, fin, bid) # rest))))))"

text \<open>A clause as this module sees it: the optional attributes may be missing.\<close>

record evidence_clause =
  evc_reference_id :: pystr
  evc_start_offset :: "int option"
  evc_end_offset :: "int option"
  evc_block_ids :: "pystr list option"

record evidence_context =
  ctx_document_id :: pystr
  ctx_extraction_id :: pystr
  ctx_clause_id :: pystr
  ctx_snapshot_hash :: "pystr option"
  ctx_clause_start_offset :: "int option"
  ctx_clause_end_offset :: "int option"

definition opt_pystr :: "pystr option \<Rightarrow> pyval" where
  "opt_pystr v = (case v of None \<Rightarrow> PNone | Some s \<Rightarrow> PStr s)"

definition opt_pyint :: "int option \<Rightarrow> pyval" where
  "opt_pyint v = (case v of None \<Rightarrow> PNone | Some n \<Rightarrow> PInt n)"

definition evidence_id_of :: "pystr \<Rightarrow> nat \<Rightarrow> pystr" where
  "evidence_id_of clause_id suffix = clause_id @ lit ''-e'' @ pad0 3 (nat_digits suffix)"

definition evidence_dict ::
  "evidence_context \<Rightarrow> pystr \<Rightarrow> nat \<Rightarrow> pyval \<Rightarrow> int \<Rightarrow> int \<Rightarrow> pystr list \<Rightarrow> pystr \<Rightarrow> pyfloat \<Rightarrow> pydict" where
  "evidence_dict ctx source_text suffix page_number start fin block_ids status conf =
     [(lit ''evidence_id'', PStr (evidence_id_of (ctx_clause_id ctx) suffix)),
      (lit ''document_id'', PStr (ctx_document_id ctx)),
      (lit ''extraction_id'', PStr (ctx_extraction_id ctx)),
      (lit ''page_number'', page_number),
      (lit ''clause_id'', PStr (ctx_clause_id ctx)),
      (lit ''source_text'', PStr source_text),
      (lit ''start_offset'', PInt start),
      (lit ''end_offset'', PInt fin),
      (lit ''block_ids'', PList (map PStr block_ids)),
      (lit ''evidence_type'', PStr (lit ''source_quote'')),
      (lit ''validation_status'', PStr status),
      (lit ''confidence'', PFloat conf),
      (lit ''evidence_snapshot_hash'', opt_pystr (ctx_snapshot_hash ctx)),
      (lit ''clause_start_offset'', opt_pyint (ctx_clause_start_offset ctx)),
      (lit ''clause_end_offset'', opt_pyint (ctx_clause_end_offset ctx))]"

text \<open>
  The blocks a match overlaps; when there is none, the clause's own block ids that occur on the
  page (the code iterates over a set there, whose order is open; here the order of first mention).
\<close>

definition blocks_of_match ::
  "pystr list \<Rightarrow> (int \<times> int \<times> pystr) list \<Rightarrow> int \<Rightarrow> int \<Rightarrow> pystr list" where
  "blocks_of_match target_block_ids ranges start fin =
     (let overlapping = map (\<lambda>(a, b, i). i) (filter (\<lambda>(a, b, i). \<not> (fin \<le> a \<or> b \<le> start)) ranges)
      in if overlapping = [] \<and> target_block_ids \<noteq> []
         then filter (\<lambda>b. list_ex ((=) b) (map (\<lambda>(a, b, i). i) ranges)) (remdups target_block_ids)
         else overlapping)"

text \<open>
  One round of the loop over the pages: the candidate the page adds, if any, and whether the round
  goes on to the test of the number of candidates (an ambiguous page continues before it).  \<open>n\<close> is
  \<open>next_suffix\<close>, one more than the number of candidates already found.
\<close>

definition page_candidate ::
  "(pystr \<Rightarrow> pystr) \<Rightarrow> evidence_context \<Rightarrow> pystr \<Rightarrow> int option \<Rightarrow> pystr list \<Rightarrow> nat \<Rightarrow> pyval \<Rightarrow>
   (pydict \<times> bool) option result" where
  "page_candidate nfc ctx source_text page_number targets n p =
     (case as_dict p of
        None \<Rightarrow> Inr None
      | Some page \<Rightarrow>
          (case as_int (get0 page ''page_number'') of
             None \<Rightarrow> Inr None
           | Some current \<Rightarrow>
               if page_number \<noteq> None \<and> page_number \<noteq> Some current then Inr None
               else
                 let page_text = get_str page ''final_text'' ''''
                 in if MAX_SNAPSHOT_TEXT_LENGTH < int (length page_text)
                    then Inl (evidence_error ''evidence_page_not_found'' ''snapshot page text is too large.'')
                    else
                      (case quote_offsets nfc page_text source_text of (status, start, fin) \<Rightarrow>
                         if status = NoMatch then Inr None
                         else if status = AmbiguousMatch then
                           Inr (Some (evidence_dict ctx source_text n (get0 page ''page_number'') 0 0 []
                                  (lit ''evidence_ambiguous'') fzero, False))
                         else
                           bind (iter_block_ranges (list_value (get0 page ''blocks''))) (\<lambda>ranges.
                             Inr (Some (evidence_dict ctx source_text n (get0 page ''page_number'') start fin
                                   (blocks_of_match targets ranges start fin) (status_text status) fone,
                                   True))))))"

fun candidates_loop ::
  "(pystr \<Rightarrow> pystr) \<Rightarrow> evidence_context \<Rightarrow> pystr \<Rightarrow> int option \<Rightarrow> pystr list \<Rightarrow> nat \<Rightarrow> pyval list \<Rightarrow>
   pydict list result" where
  "candidates_loop nfc ctx source_text page_number targets n [] = Inr []"
| "candidates_loop nfc ctx source_text page_number targets n (p # ps) =
     bind (page_candidate nfc ctx source_text page_number targets n p) (\<lambda>c.
       case c of
         None \<Rightarrow> candidates_loop nfc ctx source_text page_number targets n ps
       | Some (candidate, tested) \<Rightarrow>
           if tested \<and> MAX_CANDIDATE_COUNT \<le> n then Inr [candidate]
           else bind (candidates_loop nfc ctx source_text page_number targets (Suc n) ps)
                  (\<lambda>rest. Inr (candidate # rest)))"

definition build_evidence_candidates ::
  "(pystr \<Rightarrow> pystr) \<Rightarrow> evidence_context \<Rightarrow> pystr \<Rightarrow> pyval list \<Rightarrow> int option \<Rightarrow> pystr list option \<Rightarrow>
   pydict list result" where
  "build_evidence_candidates nfc ctx source_text snapshot page_number block_ids =
     bind (checks
       [(strip source_text = [], evidence_error ''evidence_reference_invalid'' ''source_text is required.''),
        (MAX_EVIDENCE_SOURCE_TEXT_LENGTH < length source_text,
           evidence_error ''evidence_reference_invalid'' ''source_text is too long.'')])
     (\<lambda>_. if snapshot = [] then Inr []
          else candidates_loop nfc ctx source_text page_number
                 (case block_ids of None \<Rightarrow> [] | Some ids \<Rightarrow> ids) 1 snapshot)"

subsection \<open>Validation\<close>

definition page_block_ids :: "pydict \<Rightarrow> pyval list \<Rightarrow> pystr list" where
  "page_block_ids page blocks = map (\<lambda>b. get_str b ''block_id'' '''') (dicts_of blocks)"

text \<open>The values a \<open>for\<close> loop takes from \<open>page.get("blocks", [])\<close>.\<close>

fun block_values :: "pyval \<Rightarrow> pyval list result" where
  "block_values (PList xs) = Inr xs"
| "block_values (PStr s) = Inr (map (\<lambda>c. PStr [c]) s)"
| "block_values (PDict d) = Inr (map (\<lambda>(k, v). PStr k) d)"
| "block_values v = Inl (TypeError (lit ''object is not iterable''))"

definition text_check :: "(pystr \<Rightarrow> pystr) \<Rightarrow> pystr \<Rightarrow> pystr \<Rightarrow> int \<Rightarrow> int \<Rightarrow> unit result" where
  "text_check nfc page_text source_text start fin =
     (if slice page_text (nat start) (nat fin) = source_text then Inr ()
      else
        let status = qm_status (resolve_quote_match nfc page_text source_text)
        in checks
          [(status = AmbiguousMatch, evidence_error ''evidence_ambiguous'' ''ambiguous quote.''),
           (status \<noteq> ExactMatch \<and> status \<noteq> NormalizedUniqueMatch,
              evidence_error ''evidence_text_mismatch'' ''text mismatch.'')])"

definition clause_range_check :: "evidence_context \<Rightarrow> int \<Rightarrow> int \<Rightarrow> unit result" where
  "clause_range_check ctx start fin =
     (case (ctx_clause_start_offset ctx, ctx_clause_end_offset ctx) of
        (Some a, Some b) \<Rightarrow> checks
          [(\<not> (a \<le> start \<and> start \<le> b),
              evidence_error ''evidence_clause_not_found'' ''evidence range out of clause range.''),
           (b < fin, evidence_error ''evidence_clause_not_found'' ''evidence range out of clause range.'')]
      | _ \<Rightarrow> Inr ())"

text \<open>The checks on the page a reference names.\<close>

definition validate_on_page ::
  "(pystr \<Rightarrow> pystr) \<Rightarrow> evidence_context \<Rightarrow> pydict \<Rightarrow> pystr \<Rightarrow> pydict \<Rightarrow> unit result" where
  "validate_on_page nfc ctx evidence source_text page =
     (let page_text = get_str page ''final_text'' ''''
      in case (as_int (get0 evidence ''start_offset''), as_int (get0 evidence ''end_offset'')) of
           (Some start, Some fin) \<Rightarrow>
             bind (checks
               [(start < 0 \<or> fin \<le> start, evidence_error ''evidence_offset_invalid'' ''offset range error.''),
                (int (length page_text) < fin,
                   evidence_error ''evidence_offset_invalid'' ''offset out of range.'')]) (\<lambda>_.
             bind (text_check nfc page_text source_text start fin) (\<lambda>_.
             bind (checks
               [(case as_list (get0 evidence ''block_ids'') of None \<Rightarrow> True | Some ids \<Rightarrow> ids = [],
                   evidence_error ''evidence_block_not_found'' ''block_ids required.'')]) (\<lambda>_.
             bind (block_values (get page ''blocks'' (PList []))) (\<lambda>blocks.
             bind (for_each (\<lambda>b. checks
               [(\<not> list_ex ((=) (py_str b)) (page_block_ids page blocks),
                   evidence_error ''evidence_block_not_found'' ''unknown block id.'')])
               (list_value (get0 evidence ''block_ids''))) (\<lambda>_.
             clause_range_check ctx start fin)))))
         | _ \<Rightarrow> Inl (evidence_error ''evidence_offset_invalid'' ''offset type error.''))"

definition validate_evidence_reference ::
  "(pystr \<Rightarrow> pystr) \<Rightarrow> evidence_context \<Rightarrow> (int \<times> pydict) list \<Rightarrow> pydict \<Rightarrow> pydict result" where
  "validate_evidence_reference nfc ctx snapshot_pages evidence =
     (let source_text = get_str evidence ''source_text'' ''''
      in bind (checks
        [(strip source_text = [], evidence_error ''evidence_reference_invalid'' ''source_text is required.''),
         (MAX_EVIDENCE_SOURCE_TEXT_LENGTH < length source_text,
            evidence_error ''evidence_reference_invalid'' ''source_text is too long.''),
         (get0 evidence ''document_id'' \<noteq> PStr (ctx_document_id ctx),
            evidence_error ''evidence_reference_invalid'' ''document_id mismatch.''),
         (get0 evidence ''extraction_id'' \<noteq> PStr (ctx_extraction_id ctx),
            evidence_error ''evidence_reference_invalid'' ''extraction_id mismatch.''),
         (get0 evidence ''evidence_snapshot_hash'' \<noteq> opt_pystr (ctx_snapshot_hash ctx),
            evidence_error ''evidence_snapshot_mismatch'' ''snapshot hash mismatch.''),
         (get0 evidence ''clause_id'' \<noteq> PStr (ctx_clause_id ctx),
            evidence_error ''evidence_clause_not_found'' ''clause_id mismatch.'')]) (\<lambda>_.
        case as_int (get0 evidence ''page_number'') of
          None \<Rightarrow> Inl (evidence_error ''evidence_page_not_found'' ''page_number is required.'')
        | Some number \<Rightarrow>
            (case map_of snapshot_pages number of
               None \<Rightarrow> Inl (evidence_error ''evidence_page_not_found'' ''invalid page_number.'')
             | Some page \<Rightarrow>
                 bind (validate_on_page nfc ctx evidence source_text page) (\<lambda>_. Inr evidence))))"

text \<open>The dictionary of pages by number: a later page replaces an earlier one with its number.\<close>

definition pages_by_number :: "pyval list \<Rightarrow> (int \<times> pydict) list" where
  "pages_by_number snapshot =
     rev (List.map_filter (\<lambda>p. map_option (\<lambda>n. (n, p)) (as_int (get0 p ''page_number'')))
       (dicts_of snapshot))"

definition evidence_key :: "pydict \<Rightarrow> (int \<times> int \<times> int) result" where
  "evidence_key e =
     bind (py_int (get0 e ''page_number'')) (\<lambda>n.
     bind (py_int (get0 e ''start_offset'')) (\<lambda>a.
     bind (py_int (get0 e ''end_offset'')) (\<lambda>b. Inr (n, a, b))))"

fun validate_loop ::
  "(pystr \<Rightarrow> pystr) \<Rightarrow> evidence_context \<Rightarrow> (int \<times> pydict) list \<Rightarrow> (int \<times> int \<times> int) list \<Rightarrow> pydict list \<Rightarrow>
   pydict list result" where
  "validate_loop nfc ctx pages seen [] = Inr []"
| "validate_loop nfc ctx pages seen (e # es) =
     bind (validate_evidence_reference nfc ctx pages e) (\<lambda>v.
     bind (evidence_key v) (\<lambda>key.
       if list_ex ((=) key) seen then validate_loop nfc ctx pages seen es
       else bind (validate_loop nfc ctx pages (key # seen) es) (\<lambda>vs. Inr (v # vs))))"

definition validate_finding_evidence ::
  "(pystr \<Rightarrow> pystr) \<Rightarrow> evidence_context \<Rightarrow> pydict list \<Rightarrow> pyval list \<Rightarrow> pydict list result" where
  "validate_finding_evidence nfc ctx evidence_list snapshot =
     (if evidence_list = [] then Inl (evidence_error ''evidence_missing'' ''No evidence.'')
      else
        bind (validate_loop nfc ctx (pages_by_number snapshot) []
               (take MAX_FINDING_EVIDENCE_COUNT evidence_list)) (\<lambda>validated.
          if validated = [] then Inl (evidence_error ''evidence_missing'' ''No unique evidence remains.'')
          else Inr validated))"

subsection \<open>Binding\<close>

definition unavailable_evidence :: "pystr \<Rightarrow> pystr \<Rightarrow> pystr \<Rightarrow> pystr \<Rightarrow> pydict" where
  "unavailable_evidence document_id extraction_id clause_id source_text =
     [(lit ''evidence_id'', PStr (clause_id @ lit ''-e001'')),
      (lit ''document_id'', PStr document_id), (lit ''extraction_id'', PStr extraction_id),
      (lit ''page_number'', PInt 1), (lit ''clause_id'', PStr clause_id),
      (lit ''source_text'', PStr (take MAX_EVIDENCE_SOURCE_TEXT_LENGTH source_text)),
      (lit ''start_offset'', PInt 0), (lit ''end_offset'', PInt 0), (lit ''block_ids'', PList []),
      (lit ''evidence_type'', PStr (lit ''source_quote'')),
      (lit ''validation_status'', PStr (lit ''not_available'')), (lit ''confidence'', PFloat fzero)]"

definition clause_context ::
  "pystr \<Rightarrow> pystr \<Rightarrow> evidence_clause \<Rightarrow> pystr option \<Rightarrow> evidence_context" where
  "clause_context document_id extraction_id clause snapshot_hash =
     \<lparr>ctx_document_id = document_id, ctx_extraction_id = extraction_id,
      ctx_clause_id = evc_reference_id clause, ctx_snapshot_hash = snapshot_hash,
      ctx_clause_start_offset = evc_start_offset clause, ctx_clause_end_offset = evc_end_offset clause\<rparr>"

definition bind_evidence_to_finding ::
  "(pystr \<Rightarrow> pystr) \<Rightarrow> pystr \<Rightarrow> pystr \<Rightarrow> evidence_clause \<Rightarrow> pystr \<Rightarrow> pyval list \<Rightarrow> pystr option \<Rightarrow>
   pydict list result" where
  "bind_evidence_to_finding nfc document_id extraction_id clause source_text snapshot snapshot_hash =
     (if snapshot = [] then
        Inr [unavailable_evidence document_id extraction_id (evc_reference_id clause) source_text]
      else
        let ctx = clause_context document_id extraction_id clause snapshot_hash
        in bind (build_evidence_candidates nfc ctx (take MAX_EVIDENCE_SOURCE_TEXT_LENGTH source_text)
                  snapshot None (evc_block_ids clause)) (\<lambda>candidates.
             if candidates = [] then
               Inl (evidence_error ''evidence_missing'' ''No matching quote candidates found.'')
             else validate_finding_evidence nfc ctx candidates snapshot))"

end
