(* ===== verification/Evidence_Linking_Correct.thy ===== *)
theory Evidence_Linking_Correct
  imports Evidence_Linking
begin

text \<open>
  Correctness of evidence linking: what a validated reference guarantees, the identifiers of the
  candidates, the success of a unique quotation, and the error of an ambiguous one.
\<close>

subsection \<open>Quotes\<close>

lemma quote_exact:
  assumes "quote_offsets nfc page src = (ExactMatch, a, b)"
  shows "0 \<le> a" "a < b" "b \<le> int (length page)" "slice page (nat a) (nat b) = src"
proof -
  from assms obtain i j g where m: "finditer (Lit src) page = [(i, j, g)]" "a = int i" "b = int j" "src \<noteq> []"
    by (auto simp: quote_offsets_def Let_def split: list.splits prod.splits if_splits)
  then have "(i, j, g) \<in> set (finditer (Lit src) page)" by simp
  from finditer_Lit [OF this] have j: "j = i + length src" "j \<le> length page" "slice page i j = src" .
  with m show "0 \<le> a" "a < b" "b \<le> int (length page)"
    "slice page (nat a) (nat b) = src" by (simp_all add: m(2,3) nat_int_add)
qed

subsection \<open>What validation guarantees\<close>

text \<open>A sound reference: it names the document, extraction, snapshot and clause at hand and a page of
  the snapshot, lies inside that page, quotes text that is there (or occurs there once up to
  normalisation), names blocks of the page and stays inside the clause.\<close>

definition in_clause_range :: "evidence_context \<Rightarrow> int \<Rightarrow> int \<Rightarrow> bool" where
  "in_clause_range ctx start fin \<longleftrightarrow>
     (case (ctx_clause_start_offset ctx, ctx_clause_end_offset ctx) of
        (Some a, Some b) \<Rightarrow> a \<le> start \<and> start \<le> b \<and> fin \<le> b | _ \<Rightarrow> True)"

definition quotes_page :: "(pystr \<Rightarrow> pystr) \<Rightarrow> pystr \<Rightarrow> pystr \<Rightarrow> int \<Rightarrow> int \<Rightarrow> bool" where
  "quotes_page nfc page_text src start fin \<longleftrightarrow>
     slice page_text (nat start) (nat fin) = src \<or>
     qm_status (resolve_quote_match nfc page_text src) \<in> {ExactMatch, NormalizedUniqueMatch}"

definition sound_on_page ::
  "(pystr \<Rightarrow> pystr) \<Rightarrow> evidence_context \<Rightarrow> pydict \<Rightarrow> pystr \<Rightarrow> pydict \<Rightarrow> bool" where
  "sound_on_page nfc ctx e src page \<longleftrightarrow>
     (\<exists>start fin ids blocks. as_int (get0 e ''start_offset'') = Some start \<and>
        as_int (get0 e ''end_offset'') = Some fin \<and>
        0 \<le> start \<and> start < fin \<and> fin \<le> int (length (get_str page ''final_text'' '''')) \<and>
        quotes_page nfc (get_str page ''final_text'' '''') src start fin \<and>
        as_list (get0 e ''block_ids'') = Some ids \<and> ids \<noteq> [] \<and>
        block_values (get page ''blocks'' (PList [])) = Inr blocks \<and>
        py_str ` set ids \<subseteq> set (page_block_ids page blocks) \<and> in_clause_range ctx start fin)"

definition sound_evidence ::
  "(pystr \<Rightarrow> pystr) \<Rightarrow> evidence_context \<Rightarrow> (int \<times> pydict) list \<Rightarrow> pydict \<Rightarrow> bool" where
  "sound_evidence nfc ctx pages e \<longleftrightarrow>
     get0 e ''document_id'' = PStr (ctx_document_id ctx) \<and>
     get0 e ''extraction_id'' = PStr (ctx_extraction_id ctx) \<and>
     get0 e ''evidence_snapshot_hash'' = opt_pystr (ctx_snapshot_hash ctx) \<and>
     get0 e ''clause_id'' = PStr (ctx_clause_id ctx) \<and>
     strip (get_str e ''source_text'' '''') \<noteq> [] \<and>
     (\<exists>n page. as_int (get0 e ''page_number'') = Some n \<and> map_of pages n = Some page \<and>
        sound_on_page nfc ctx e (get_str e ''source_text'' '''') page)"

lemma clause_range_ok: "clause_range_check ctx start fin = Inr () \<longleftrightarrow> in_clause_range ctx start fin"
  by (auto simp: clause_range_check_def in_clause_range_def split: option.splits)

lemma text_ok: "text_check nfc page_text src start fin = Inr () \<longleftrightarrow> quotes_page nfc page_text src start fin"
  by (auto simp: text_check_def quotes_page_def Let_def)

lemma validate_on_page_ok:
  "validate_on_page nfc ctx e src page = Inr () \<longleftrightarrow> sound_on_page nfc ctx e src page"
proof (cases "as_int (get0 e ''start_offset'')")
  case s: (Some start)
  show ?thesis
  proof (cases "as_int (get0 e ''end_offset'')")
    case (Some fin)
    with s show ?thesis
      by (auto simp: validate_on_page_def sound_on_page_def bind_Inr_iff text_ok clause_range_ok
          for_each_ok_iff list_ex_iff list_value_def not_less not_le Let_def split: option.splits)
  qed (simp add: s validate_on_page_def sound_on_page_def)
qed (simp add: validate_on_page_def sound_on_page_def)

lemma validate_reference_ok:
  assumes "validate_evidence_reference nfc ctx pages e = Inr v"
  shows "v = e" "sound_evidence nfc ctx pages e"
  using assms
  by (auto simp: validate_evidence_reference_def sound_evidence_def bind_Inr_iff validate_on_page_ok Let_def
      split: option.splits)

lemma validate_reference_ok_iff:
  assumes "length (get_str e ''source_text'' '''') \<le> 1200" "sound_evidence nfc ctx pages e"
  shows "validate_evidence_reference nfc ctx pages e = Inr e"
  using assms
  by (auto simp: validate_evidence_reference_def sound_evidence_def bind_Inr_iff validate_on_page_ok Let_def
      MAX_EVIDENCE_SOURCE_TEXT_LENGTH_def checks.simps)

lemma validate_loop_sound:
  assumes "validate_loop nfc ctx pages seen es = Inr vs"
  shows "set vs \<subseteq> set es \<and> length vs \<le> length es \<and> (\<forall>v\<in>set vs. sound_evidence nfc ctx pages v) \<and>
    distinct (map evidence_key vs) \<and> (\<forall>v\<in>set vs. evidence_key v \<notin> Inr ` set seen) \<and>
    (\<forall>e es'. es = e # es' \<and> seen = [] \<longrightarrow> (\<exists>vs'. vs = e # vs'))"
  using assms
proof (induction es arbitrary: seen vs)
  case (Cons e es)
  from Cons.prems obtain v key where v: "validate_evidence_reference nfc ctx pages e = Inr v"
    "evidence_key v = Inr key" by (auto simp: bind_Inr_iff simp del: bind_simps)
  note ok = validate_reference_ok [OF v(1)]
  show ?case
  proof (cases "key \<in> set seen")
    case True
    with Cons.prems v have l: "validate_loop nfc ctx pages seen es = Inr vs" by (auto simp: list_ex_iff)
    from Cons.IH [OF this] True show ?thesis by auto
  next
    case False
    with Cons.prems v obtain vs' where l: "validate_loop nfc ctx pages (key # seen) es = Inr vs'" "vs = v # vs'"
      by (auto simp: bind_Inr_iff list_ex_iff)
    from Cons.IH [OF l(1)] l(2) ok v(2) False show ?thesis by auto
  qed
qed simp

lemma finding_evidence_sound:
  assumes "validate_finding_evidence nfc ctx es snapshot = Inr vs"
  shows "vs \<noteq> [] \<and> hd vs = hd es \<and> set vs \<subseteq> set es \<and> length vs \<le> 10 \<and>
    (\<forall>v\<in>set vs. sound_evidence nfc ctx (pages_by_number snapshot) v) \<and> distinct (map evidence_key vs)"
proof -
  from assms obtain v where es: "es \<noteq> []" and l: "validate_loop nfc ctx (pages_by_number snapshot) []
      (take 10 es) = Inr vs" "vs \<noteq> []"
    by (auto simp: validate_finding_evidence_def bind_Inr_iff MAX_FINDING_EVIDENCE_COUNT_def split: if_splits)
  then obtain e es' where e: "es = e # es'" by (cases es) auto
  then have t: "take 10 es = e # take 9 es'" by simp
  note s = validate_loop_sound [OF l(1)]
  then have "\<exists>vs'. vs = e # vs'" using t by blast
  then have "hd vs = hd es" using e by auto
  moreover have "set vs \<subseteq> set es" using conjunct1 [OF s] set_take_subset [of 10 es] by blast
  moreover have "length (take 10 es) \<le> 10" by simp
  then have "length vs \<le> 10" using s by (meson le_trans)
  ultimately show ?thesis using s l(2) by blast
qed

subsection \<open>Candidates\<close>

lemma get_evidence_dict [simp]:
  "get0 (evidence_dict ctx src n p a b ids st cf) ''evidence_id'' = PStr (evidence_id_of (ctx_clause_id ctx) n)"
  "get0 (evidence_dict ctx src n p a b ids st cf) ''document_id'' = PStr (ctx_document_id ctx)"
  "get0 (evidence_dict ctx src n p a b ids st cf) ''extraction_id'' = PStr (ctx_extraction_id ctx)"
  "get0 (evidence_dict ctx src n p a b ids st cf) ''evidence_snapshot_hash'' = opt_pystr (ctx_snapshot_hash ctx)"
  "get0 (evidence_dict ctx src n p a b ids st cf) ''clause_id'' = PStr (ctx_clause_id ctx)"
  "get0 (evidence_dict ctx src n p a b ids st cf) ''page_number'' = p"
  "get0 (evidence_dict ctx src n p a b ids st cf) ''start_offset'' = PInt a"
  "get0 (evidence_dict ctx src n p a b ids st cf) ''end_offset'' = PInt b"
  "get0 (evidence_dict ctx src n p a b ids st cf) ''block_ids'' = PList (map PStr ids)"
  "get0 (evidence_dict ctx src n p a b ids st cf) ''validation_status'' = PStr st"
  "get_str (evidence_dict ctx src n p a b ids st cf) ''source_text'' '''' = src"
  by (simp_all add: evidence_dict_def get0_def get_def get_str_def)

lemma page_candidate_id:
  assumes "page_candidate nfc ctx src pn targets n p = Inr (Some (e, t))"
  shows "\<exists>v a b ids st cf. e = evidence_dict ctx src n v a b ids st cf"
  using assms
  by (simp add: page_candidate_def bind_Inr_iff Let_def split: option.splits if_splits prod.splits) blast+

lemma candidates_loop_ids:
  assumes "candidates_loop nfc ctx src pn targets n ps = Inr es"
  shows "map (\<lambda>e. get0 e ''evidence_id'') es =
    map (\<lambda>i. PStr (evidence_id_of (ctx_clause_id ctx) i)) [n..<n + length es]"
  using assms
proof (induction ps arbitrary: n es)
  case (Cons p ps)
  then obtain c where c: "page_candidate nfc ctx src pn targets n p = Inr c" by (auto simp: bind_Inr_iff)
  show ?case
  proof (cases c)
    case None
    with c Cons show ?thesis by simp
  next
    case (Some et)
    then obtain e t where et: "c = Some (e, t)" by (cases et) auto
    with c page_candidate_id have id: "get0 e ''evidence_id'' = PStr (evidence_id_of (ctx_clause_id ctx) n)"
      by fastforce
    show ?thesis
    proof (cases "t \<and> MAX_CANDIDATE_COUNT \<le> n")
      case True
      with c et Cons.prems have "es = [e]" by simp
      with id show ?thesis by simp
    next
      case False
      with c et Cons.prems obtain rest where
        "candidates_loop nfc ctx src pn targets (Suc n) ps = Inr rest" "es = e # rest"
        by (auto simp: bind_Inr_iff)
      with Cons.IH [OF this(1)] id show ?thesis by (simp add: upt_conv_Cons del: upt_Suc)
    qed
  qed
qed simp

subsection \<open>Binding evidence to a finding\<close>

lemma bind_evidence_cases:
  assumes "bind_evidence_to_finding nfc doc ext cl src snapshot h = Inr vs" "snapshot \<noteq> []"
  obtains es where "candidates_loop nfc (clause_context doc ext cl h) (take 1200 src) None
      (case evc_block_ids cl of None \<Rightarrow> [] | Some ids \<Rightarrow> ids) 1 snapshot = Inr es" "es \<noteq> []"
    "validate_finding_evidence nfc (clause_context doc ext cl h) es snapshot = Inr vs"
  using assms
  by (auto simp: bind_evidence_to_finding_def build_evidence_candidates_def bind_Inr_iff Let_def
      MAX_EVIDENCE_SOURCE_TEXT_LENGTH_def split: if_splits)

text \<open>C17: Evidence bound to a finding is sound: with a snapshot, the result holds one to ten references,
  each naming this document, extraction, clause and snapshot hash, lying inside a page of the snapshot
  whose text it quotes, naming blocks of that page, and no two at the same place.\<close>

theorem bound_evidence_sound:
  assumes "bind_evidence_to_finding nfc doc ext cl src snapshot h = Inr vs" and "snapshot \<noteq> []"
  shows "vs \<noteq> [] \<and> length vs \<le> 10 \<and> distinct (map evidence_key vs) \<and>
    (\<forall>v\<in>set vs. sound_evidence nfc (clause_context doc ext cl h) (pages_by_number snapshot) v)"
proof -
  obtain es where "validate_finding_evidence nfc (clause_context doc ext cl h) es snapshot = Inr vs"
    using bind_evidence_cases [OF assms] by blast
  from finding_evidence_sound [OF this] show ?thesis by blast
qed

lemma first_evidence_id:
  assumes "bind_evidence_to_finding nfc doc ext cl src snapshot h = Inr vs"
  shows "\<exists>v vs'. vs = v # vs' \<and> get0 v ''evidence_id'' = PStr (evc_reference_id cl @ lit ''-e001'')"
proof (cases "snapshot = []")
  case True
  with assms show ?thesis
    by (auto simp: bind_evidence_to_finding_def unavailable_evidence_def get0_def get_def)
next
  case False
  from bind_evidence_cases [OF assms False] obtain es where es:
    "candidates_loop nfc (clause_context doc ext cl h) (take 1200 src) None
      (case evc_block_ids cl of None \<Rightarrow> [] | Some ids \<Rightarrow> ids) 1 snapshot = Inr es" "es \<noteq> []"
    "validate_finding_evidence nfc (clause_context doc ext cl h) es snapshot = Inr vs" by blast
  from candidates_loop_ids [OF es(1)] es(2) have
    "get0 (hd es) ''evidence_id'' = PStr (evidence_id_of (evc_reference_id cl) 1)"
    by (cases es) (auto simp: clause_context_def upt_conv_Cons simp del: upt_Suc)
  moreover have "evidence_id_of (evc_reference_id cl) 1 = evc_reference_id cl @ lit ''-e001''"
  proof -
    have "pad0 3 (nat_digits 1) = lit ''001''" by code_simp
    then show ?thesis unfolding evidence_id_of_def lit_append [of "''-e''" "''001''", simplified] by simp
  qed
  moreover have "vs \<noteq> [] \<and> hd vs = hd es" using finding_evidence_sound [OF es(3)] by blast
  ultimately show ?thesis by (cases vs) auto
qed

text \<open>A page with one block, and a clause quoted on it.\<close>

definition quote_page :: "pystr \<Rightarrow> pydict" where
  "quote_page t =
     [(lit ''page_number'', PInt 1), (lit ''final_text'', PStr t),
      (lit ''blocks'', PList [PDict [(lit ''block_id'', PStr (lit ''p1-b1'')), (lit ''text'', PStr t)]])]"

definition plain_clause :: evidence_clause where
  "plain_clause = \<lparr>evc_reference_id = lit ''d:clause:1'', evc_start_offset = None, evc_end_offset = None,
     evc_block_ids = None\<rparr>"

lemma quote_page_bound:
  obtains v where "bind_evidence_to_finding id (lit ''d'') (lit ''d'') plain_clause (lit ''pay'')
      [PDict (quote_page (lit ''we pay now''))] None = Inr [v]"
    "get0 v ''start_offset'' = PInt 3" "get0 v ''end_offset'' = PInt 6"
proof -
  have "(case bind_evidence_to_finding id (lit ''d'') (lit ''d'') plain_clause (lit ''pay'')
      [PDict (quote_page (lit ''we pay now''))] None of
      Inr vs \<Rightarrow> map (\<lambda>v. (get0 v ''start_offset'', get0 v ''end_offset'')) vs = [(PInt 3, PInt 6)]
    | Inl e \<Rightarrow> False)"
    by code_simp
  then show ?thesis using that by (auto split: sum.splits)
qed

theorem bound_evidence_sound_witness:
  "\<exists>v. bind_evidence_to_finding id (lit ''d'') (lit ''d'') plain_clause (lit ''pay'')
      [PDict (quote_page (lit ''we pay now''))] None = Inr [v] \<and>
     sound_evidence id (clause_context (lit ''d'') (lit ''d'') plain_clause None)
       (pages_by_number [PDict (quote_page (lit ''we pay now''))]) v"
proof -
  obtain v where v: "bind_evidence_to_finding id (lit ''d'') (lit ''d'') plain_clause (lit ''pay'')
      [PDict (quote_page (lit ''we pay now''))] None = Inr [v]"
    by (rule quote_page_bound)
  from bound_evidence_sound [OF v] v show ?thesis by simp
qed

lemma iter_block_ranges_ids:
  "iter_block_ranges bs = Inr rs \<Longrightarrow> (a, b, i) \<in> set rs \<Longrightarrow> \<exists>d\<in>set (dicts_of bs). get_str d ''block_id'' '''' = i"
proof (induction bs arbitrary: rs)
  case (Cons x bs)
  show ?case
  proof (cases "as_dict x")
    case None
    with Cons have "\<exists>d\<in>set (dicts_of bs). get_str d ''block_id'' '''' = i" by simp
    then show ?thesis by (auto simp: dicts_of_def List.map_filter_def)
  next
    case (Some d)
    have d: "dicts_of (x # bs) = d # dicts_of bs" using Some by (simp add: dicts_of_def List.map_filter_def)
    show ?thesis
    proof (cases "get_str d ''block_id'' '''' = []")
      case True
      with Some Cons show ?thesis by (auto simp: d Let_def)
    next
      case False
      with Some Cons.prems(1) obtain s f rs' where r: "iter_block_ranges bs = Inr rs'"
        "rs = (s, f, get_str d ''block_id'' '''') # rs'"
        by (auto simp: bind_Inr_iff Let_def)
      with Cons.prems(2) Cons.IH [OF r(1)] show ?thesis by (auto simp: d)
    qed
  qed
qed simp

lemma blocks_of_match_overlap:
  assumes "(a, b, i) \<in> set rs" "\<not> (fin \<le> a \<or> b \<le> start)"
  shows "blocks_of_match targets rs start fin \<noteq> []"
    "z \<in> set (blocks_of_match targets rs start fin) \<Longrightarrow> \<exists>x y. (x, y, z) \<in> set rs"
  using assms by (auto simp: blocks_of_match_def Let_def filter_empty_conv split: if_splits)

text \<open>A quotation that occurs exactly once on the only page of a snapshot, inside a block, is linked:
  the one reference returned carries the offsets of the occurrence, so the page text between them is
  the quotation itself.\<close>

theorem unique_quote_linked:
  assumes "snapshot = [PDict page]" and "get0 page ''page_number'' = PInt n"
    and "get_str page ''final_text'' '''' = t" and "length t \<le> 2000000"
    and "strip src \<noteq> []" and "length src \<le> 1200"
    and "quote_offsets nfc t src = (ExactMatch, a, b)"
    and "get0 page ''blocks'' = PList bs" and "iter_block_ranges bs = Inr ranges"
    and "(x, y, i) \<in> set ranges" and "\<not> (b \<le> x \<or> y \<le> a)"
    and "evc_start_offset cl = None"
  shows "\<exists>v. bind_evidence_to_finding nfc doc ext cl src snapshot h = Inr [v] \<and>
    get0 v ''start_offset'' = PInt a \<and> get0 v ''end_offset'' = PInt b \<and>
    get0 v ''validation_status'' = PStr (lit ''exact_match'') \<and> slice t (nat a) (nat b) = src"
proof -
  let ?ctx = "clause_context doc ext cl h"
  let ?targets = "case evc_block_ids cl of None \<Rightarrow> [] | Some ids \<Rightarrow> ids"
  let ?blocks = "blocks_of_match ?targets ranges a b"
  let ?v = "evidence_dict ?ctx src 1 (PInt n) a b ?blocks (lit ''exact_match'') fone"
  note q = quote_exact [OF assms(7)]
  note bl = blocks_of_match_overlap [OF assms(10,11)]
  have cand: "page_candidate nfc ?ctx src None ?targets 1 (PDict page) = Inr (Some (?v, True))"
    using assms(2-4,7-9) by (simp add: page_candidate_def MAX_SNAPSHOT_TEXT_LENGTH_def list_value_def Let_def)
  have loop: "candidates_loop nfc ?ctx src None ?targets 1 snapshot = Inr [?v]"
    unfolding assms(1) candidates_loop.simps cand by (simp add: MAX_CANDIDATE_COUNT_def)
  have "py_str ` set (map PStr ?blocks) \<subseteq> set (page_block_ids page bs)"
  proof
    fix z assume "z \<in> py_str ` set (map PStr ?blocks)"
    then obtain x' y' where "(x', y', z) \<in> set ranges" using bl(2) [of z ?targets] by auto
    from iter_block_ranges_ids [OF assms(9) this] show "z \<in> set (page_block_ids page bs)"
      by (auto simp: page_block_ids_def)
  qed
  moreover have "get page ''blocks'' (PList []) = PList bs"
    using assms(8) by (simp add: get0_def get_def split: option.splits)
  moreover have "in_clause_range ?ctx a b"
    using assms(12) by (simp add: in_clause_range_def clause_context_def)
  ultimately have "sound_on_page nfc ?ctx ?v src page"
    unfolding sound_on_page_def quotes_page_def assms(3) using q bl(1)
    by (intro exI [of _ a] exI [of _ b] exI [of _ "map PStr ?blocks"] exI [of _ bs]) simp
  then have "sound_evidence nfc ?ctx (pages_by_number snapshot) ?v"
    using assms(1,2,5)
    by (simp add: sound_evidence_def pages_by_number_def dicts_of_def List.map_filter_def)
  then have "validate_evidence_reference nfc ?ctx (pages_by_number snapshot) ?v = Inr ?v"
    using assms(6) by (intro validate_reference_ok_iff) simp_all
  then have "validate_finding_evidence nfc ?ctx [?v] snapshot = Inr [?v]"
    by (simp add: validate_finding_evidence_def evidence_key_def MAX_FINDING_EVIDENCE_COUNT_def)
  with loop have "bind_evidence_to_finding nfc doc ext cl src snapshot h = Inr [?v]"
    using assms(1,5,6)
    by (simp add: bind_evidence_to_finding_def build_evidence_candidates_def
        MAX_EVIDENCE_SOURCE_TEXT_LENGTH_def checks.simps Let_def)
  then show ?thesis using q(4) by (intro exI [of _ ?v]) simp
qed

theorem unique_quote_linked_witness:
  "\<exists>v. bind_evidence_to_finding id (lit ''d'') (lit ''d'') plain_clause (lit ''pay'')
      [PDict (quote_page (lit ''we pay now''))] None = Inr [v] \<and>
     get0 v ''start_offset'' = PInt 3 \<and> slice (lit ''we pay now'') 3 6 = lit ''pay''"
proof -
  let ?page = "quote_page (lit ''we pay now'')"
  have p: "get0 ?page ''page_number'' = PInt 1" "get_str ?page ''final_text'' '''' = lit ''we pay now''"
    "get0 ?page ''blocks'' = PList [PDict [(lit ''block_id'', PStr (lit ''p1-b1'')),
       (lit ''text'', PStr (lit ''we pay now''))]]"
    by (simp_all add: quote_page_def get0_def get_def get_str_def)
  have q: "quote_offsets id (lit ''we pay now'') (lit ''pay'') = (ExactMatch, 3, 6)"
    "iter_block_ranges [PDict [(lit ''block_id'', PStr (lit ''p1-b1'')), (lit ''text'', PStr (lit ''we pay now''))]] =
      Inr [(0, 10, lit ''p1-b1'')]" "strip (lit ''pay'') \<noteq> []"
    subgoal by code_simp
    subgoal by code_simp
    subgoal by code_simp
    done
  have "evc_start_offset plain_clause = None" by (simp add: plain_clause_def)
  from unique_quote_linked [OF refl p(1,2) _ q(3) _ q(1) p(3) q(2) _ _ this, of 0 10 "lit ''p1-b1''"]
  show ?thesis by simp blast
qed

lemma ambiguous_reference_rejected:
  assumes "validate_evidence_reference nfc ctx pages e = Inr v" "get0 e ''start_offset'' = PInt 0"
  shows "get0 e ''end_offset'' \<noteq> PInt 0"
  using validate_reference_ok(2) [OF assms(1)] assms(2) by (auto simp: sound_evidence_def sound_on_page_def)

text \<open>A quotation that occurs more than once on the only page of a snapshot is reported as an invalid
  offset range, not as ambiguous: the candidate is built with both offsets zero and the range test
  comes before the ambiguity test.\<close>

theorem ambiguous_quote_reported_as_offset_error:
  assumes "snapshot = [PDict page]" and "get0 page ''page_number'' = PInt n"
    and "get_str page ''final_text'' '''' = t" and "length t \<le> 2000000"
    and "strip src \<noteq> []" and "length src \<le> 1200"
    and "quote_offsets nfc t src = (AmbiguousMatch, a, b)"
  shows "bind_evidence_to_finding nfc doc ext cl src snapshot h =
    Inl (EvidenceValidationError (lit ''evidence_offset_invalid'') (lit ''offset range error.''))"
proof -
  let ?ctx = "clause_context doc ext cl h"
  let ?targets = "case evc_block_ids cl of None \<Rightarrow> [] | Some ids \<Rightarrow> ids"
  let ?v = "evidence_dict ?ctx src 1 (PInt n) 0 0 [] (lit ''evidence_ambiguous'') fzero"
  have cand: "page_candidate nfc ?ctx src None ?targets 1 (PDict page) = Inr (Some (?v, False))"
    using assms(2-4,7) by (simp add: page_candidate_def MAX_SNAPSHOT_TEXT_LENGTH_def Let_def)
  have loop: "candidates_loop nfc ?ctx src None ?targets 1 snapshot = Inr [?v]"
    unfolding assms(1) candidates_loop.simps cand by simp
  have "validate_on_page nfc ?ctx ?v src page = Inl (evidence_error ''evidence_offset_invalid'' ''offset range error.'')"
    by (simp add: validate_on_page_def checks.simps Let_def)
  then have "validate_evidence_reference nfc ?ctx (pages_by_number snapshot) ?v =
      Inl (evidence_error ''evidence_offset_invalid'' ''offset range error.'')"
    using assms(1,2,5,6)
    by (simp add: validate_evidence_reference_def checks.simps Let_def pages_by_number_def dicts_of_def
        List.map_filter_def MAX_EVIDENCE_SOURCE_TEXT_LENGTH_def)
  with loop show ?thesis
    using assms(1,5,6)
    by (simp add: bind_evidence_to_finding_def build_evidence_candidates_def validate_finding_evidence_def
        MAX_EVIDENCE_SOURCE_TEXT_LENGTH_def MAX_FINDING_EVIDENCE_COUNT_def checks.simps Let_def evidence_error_def)
qed

theorem ambiguous_quote_reported_as_offset_error_witness:
  "bind_evidence_to_finding id (lit ''d'') (lit ''d'') plain_clause (lit ''pay'')
     [PDict (quote_page (lit ''pay or pay''))] None =
   Inl (EvidenceValidationError (lit ''evidence_offset_invalid'') (lit ''offset range error.''))"
proof -
  let ?page = "quote_page (lit ''pay or pay'')"
  have p: "get0 ?page ''page_number'' = PInt 1" "get_str ?page ''final_text'' '''' = lit ''pay or pay''"
    by (simp_all add: quote_page_def get0_def get_def get_str_def)
  have "strip (lit ''pay'') \<noteq> []" by code_simp
  moreover have "quote_offsets id (lit ''pay or pay'') (lit ''pay'') = (AmbiguousMatch, - 1, - 1)" by code_simp
  ultimately show ?thesis
    by (intro ambiguous_quote_reported_as_offset_error [OF refl p(1,2)]) simp_all
qed

text \<open>
  A quotation found only after normalisation keeps the offsets of the normalised page: here the page
  breaks its line with a carriage return and a line feed, and the stored range ends one character short.
\<close>

lemma normalized_offsets_are_not_page_offsets:
  "quote_offsets id [97, 13, 10, 98] [97, 10, 98] = (NormalizedUniqueMatch, 0, 3)"
  "slice [97, 13, 10, 98] 0 3 = [97, 13, 10 :: int]"
  subgoal by code_simp
  subgoal by code_simp
  done

end
