(* ===== verification/Job_Queue.thy ===== *)
theory Job_Queue
  imports Provider_Execution "HOL-Library.Product_Lexorder"
begin

text \<open>
  Model of \<^verbatim>\<open>src/backend/app/services/analysis_job_queue.py\<close>, of the row type \<open>AnalysisJob\<close> of
  \<^verbatim>\<open>src/backend/app/db/models.py\<close> and of the enqueue operation of
  \<^verbatim>\<open>src/backend/app/api/analysis_jobs.py\<close>.  The table is the list of its rows; a conditional
  \<open>UPDATE\<close> is atomic and reports how many rows it changed.  Times and durations are integers in
  microseconds, the resolution of \<open>datetime\<close> and \<open>timedelta\<close>; \<open>jitter\<close> is the random function
  the code takes as an argument.
\<close>

subsection \<open>Rows\<close>

record analysis_job =
  aj_id :: pystr
  aj_document_id :: pystr
  aj_status :: pystr
  aj_attempt_count :: int
  aj_max_attempts :: int
  aj_available_at :: int
  aj_started_at :: "int option"
  aj_heartbeat_at :: "int option"
  aj_lease_expires_at :: "int option"
  aj_finished_at :: "int option"
  aj_worker_id :: "pystr option"
  aj_last_error_code :: "pystr option"
  aj_last_error_message_safe :: "pystr option"
  aj_request_fingerprint :: pystr
  aj_active_dedupe_key :: "pystr option"
  aj_created_at :: int

type_synonym jobs = "analysis_job list"

definition st_pending :: pystr where "st_pending = lit ''pending''"
definition st_running :: pystr where "st_running = lit ''running''"
definition st_completed :: pystr where "st_completed = lit ''completed''"
definition st_failed :: pystr where "st_failed = lit ''failed''"

definition SAFE_RETRY_MESSAGE :: pystr where
  "SAFE_RETRY_MESSAGE = lit ''Analysis is temporarily unavailable and will be retried.''"

definition SAFE_FAILED_MESSAGE :: pystr where
  "SAFE_FAILED_MESSAGE = lit ''Analysis could not be completed.''"

definition get_job :: "jobs \<Rightarrow> pystr \<Rightarrow> analysis_job option" where
  "get_job db i = List.find (\<lambda>j. aj_id j = i) db"

definition update_where ::
  "(analysis_job \<Rightarrow> bool) \<Rightarrow> (analysis_job \<Rightarrow> analysis_job) \<Rightarrow> jobs \<Rightarrow> jobs \<times> nat" where
  "update_where p f db = (map (\<lambda>j. if p j then f j else j) db, length (filter p db))"

subsection \<open>Claiming\<close>

definition claimable :: "int \<Rightarrow> analysis_job \<Rightarrow> bool" where
  "claimable now j \<longleftrightarrow>
     aj_status j = st_pending \<and> aj_available_at j \<le> now \<and> aj_attempt_count j < aj_max_attempts j"

definition claimed :: "pystr \<Rightarrow> int \<Rightarrow> int option \<Rightarrow> int \<Rightarrow> analysis_job \<Rightarrow> analysis_job" where
  "claimed worker_id lease limit now j =
     j\<lparr>aj_status := st_running, aj_worker_id := Some worker_id,
       aj_attempt_count := aj_attempt_count j + 1,
       aj_max_attempts := (case limit of None \<Rightarrow> aj_max_attempts j | Some m \<Rightarrow> m),
       aj_started_at := (case aj_started_at j of None \<Rightarrow> Some now | Some t \<Rightarrow> Some t),
       aj_heartbeat_at := Some now, aj_lease_expires_at := Some (now + lease),
       aj_last_error_code := None, aj_last_error_message_safe := None\<rparr>"

definition claim_update ::
  "pystr \<Rightarrow> int \<Rightarrow> int option \<Rightarrow> int \<Rightarrow> pystr \<Rightarrow> jobs \<Rightarrow> jobs \<times> nat" where
  "claim_update worker_id lease limit now i =
     update_where (\<lambda>j. aj_id j = i \<and> claimable now j) (claimed worker_id lease limit now)"

definition claim_candidates :: "int \<Rightarrow> jobs \<Rightarrow> pystr list" where
  "claim_candidates now db =
     take 20 (map aj_id
       (sort_key (\<lambda>j. (aj_available_at j, aj_created_at j)) (filter (claimable now) db)))"

fun claim_loop ::
  "pystr \<Rightarrow> int \<Rightarrow> int option \<Rightarrow> int \<Rightarrow> pystr list \<Rightarrow> jobs \<Rightarrow> jobs \<times> analysis_job option" where
  "claim_loop worker_id lease limit now [] db = (db, None)"
| "claim_loop worker_id lease limit now (i # is) db =
     (case claim_update worker_id lease limit now i db of (db', n) \<Rightarrow>
        if n = 1 then (db', get_job db' i)
        else claim_loop worker_id lease limit now is db)"

definition claim_next_job ::
  "pystr \<Rightarrow> int \<Rightarrow> int option \<Rightarrow> int \<Rightarrow> jobs \<Rightarrow> jobs \<times> analysis_job option" where
  "claim_next_job worker_id lease limit now db =
     claim_loop worker_id lease limit now (claim_candidates now db) db"

subsection \<open>Leases\<close>

definition renew_job_lease :: "pystr \<Rightarrow> pystr \<Rightarrow> int \<Rightarrow> int \<Rightarrow> jobs \<Rightarrow> jobs \<times> bool" where
  "renew_job_lease i worker_id lease now db =
     (case update_where
        (\<lambda>j. aj_id j = i \<and> aj_status j = st_running \<and> aj_worker_id j = Some worker_id)
        (\<lambda>j. j\<lparr>aj_heartbeat_at := Some now, aj_lease_expires_at := Some (now + lease)\<rparr>) db of
      (db', n) \<Rightarrow> (db', n = 1))"

definition lease_expired :: "int \<Rightarrow> analysis_job \<Rightarrow> bool" where
  "lease_expired now j \<longleftrightarrow>
     aj_status j = st_running \<and> (case aj_lease_expires_at j of None \<Rightarrow> False | Some t \<Rightarrow> t < now)"

definition recovered_row :: "int \<Rightarrow> bool \<Rightarrow> analysis_job \<Rightarrow> analysis_job" where
  "recovered_row now exhausted j =
     (let freed = j\<lparr>aj_worker_id := None, aj_heartbeat_at := None, aj_lease_expires_at := None\<rparr>
      in if exhausted then
           freed\<lparr>aj_status := st_failed, aj_finished_at := Some now, aj_active_dedupe_key := None,
                 aj_last_error_code := Some (lit ''max_attempts_exceeded''),
                 aj_last_error_message_safe := Some SAFE_FAILED_MESSAGE\<rparr>
         else
           freed\<lparr>aj_status := st_pending, aj_available_at := now,
                 aj_last_error_code := Some (lit ''worker_lease_expired''),
                 aj_last_error_message_safe := Some SAFE_RETRY_MESSAGE\<rparr>)"

record recovery_result =
  recovered_count :: nat
  retried_count :: nat
  failed_count :: nat

definition recover_one :: "int \<Rightarrow> pystr \<Rightarrow> jobs \<times> recovery_result \<Rightarrow> jobs \<times> recovery_result" where
  "recover_one now i s =
     (case s of (db, r) \<Rightarrow>
        case get_job db i of
          None \<Rightarrow> s
        | Some j \<Rightarrow>
            if \<not> lease_expired now j then s
            else
              let exhausted = aj_max_attempts j \<le> aj_attempt_count j
              in case update_where
                   (\<lambda>k. aj_id k = i \<and> aj_status k = st_running \<and>
                        aj_lease_expires_at k = aj_lease_expires_at j)
                   (recovered_row now exhausted) db of
                 (db', n) \<Rightarrow>
                   (db', if n = 1 then
                           r\<lparr>recovered_count := recovered_count r + 1,
                             failed_count := (if exhausted then failed_count r + 1 else failed_count r),
                             retried_count := (if exhausted then retried_count r else retried_count r + 1)\<rparr>
                         else r))"

definition recover_stale_jobs_result :: "int \<Rightarrow> jobs \<Rightarrow> jobs \<times> recovery_result" where
  "recover_stale_jobs_result now db =
     fold (recover_one now) (map aj_id (filter (lease_expired now) db))
       (db, \<lparr>recovered_count = 0, retried_count = 0, failed_count = 0\<rparr>)"

definition recover_stale_jobs :: "int \<Rightarrow> jobs \<Rightarrow> jobs \<times> nat" where
  "recover_stale_jobs now db =
     (case recover_stale_jobs_result now db of (db', r) \<Rightarrow> (db', recovered_count r))"

subsection \<open>Finishing\<close>

text \<open>Delays in microseconds.\<close>

definition RETRY_DELAYS :: "int list" where
  "RETRY_DELAYS = [5000000, 30000000, 120000000]"

definition retry_delay :: "(int \<Rightarrow> int \<Rightarrow> int) \<Rightarrow> int \<Rightarrow> int" where
  "retry_delay jitter attempts =
     (let index = nat (min (max (attempts - 1) 0) (int (length RETRY_DELAYS) - 1));
          base = RETRY_DELAYS ! index
      in min 120000000 (base + jitter 0 (min (base div 5) 5000000)))"

text \<open>
  \<open>finish_job_success\<close> works on the object \<open>job\<close> its session loaded earlier: it tests the loaded
  attributes, assigns new ones and commits.  The commit writes the attributes that changed, to the
  row with the object's id, and fails when that row is gone.
\<close>

definition write_if_changed :: "'a \<Rightarrow> 'a \<Rightarrow> 'a \<Rightarrow> 'a" where
  "write_if_changed loaded new current = (if new = loaded then current else new)"

definition completed_row :: "analysis_job \<Rightarrow> int \<Rightarrow> analysis_job \<Rightarrow> analysis_job" where
  "completed_row job now j =
     j\<lparr>aj_status := write_if_changed (aj_status job) st_completed (aj_status j),
       aj_finished_at := write_if_changed (aj_finished_at job) (Some now) (aj_finished_at j),
       aj_worker_id := write_if_changed (aj_worker_id job) None (aj_worker_id j),
       aj_heartbeat_at := write_if_changed (aj_heartbeat_at job) None (aj_heartbeat_at j),
       aj_lease_expires_at := write_if_changed (aj_lease_expires_at job) None (aj_lease_expires_at j),
       aj_active_dedupe_key := write_if_changed (aj_active_dedupe_key job) None (aj_active_dedupe_key j),
       aj_last_error_code := write_if_changed (aj_last_error_code job) None (aj_last_error_code j),
       aj_last_error_message_safe :=
         write_if_changed (aj_last_error_message_safe job) None (aj_last_error_message_safe j)\<rparr>"

definition finish_job_success :: "analysis_job \<Rightarrow> pystr \<Rightarrow> int \<Rightarrow> jobs \<Rightarrow> jobs result" where
  "finish_job_success job worker_id now db =
     (if aj_status job \<noteq> st_running \<or> aj_worker_id job \<noteq> Some worker_id then
        Inl (RuntimeError (lit ''analysis_job_claim_lost''))
      else
        case update_where (\<lambda>j. aj_id j = aj_id job) (completed_row job now) db of (db', n) \<Rightarrow>
          if n = 0 then Inl (OtherError (lit ''StaleDataError'') (lit ''0 rows were matched''))
          else Inr db')"

text \<open>\<open>isinstance(error, ProviderExecutionError) and error.retryable\<close>, and the code kept with the job.\<close>

fun provider_failure :: "exn \<Rightarrow> provider_error option" where
  "provider_failure (ProviderExecutionError p) = Some p"
| "provider_failure e = None"

definition error_retryable :: "exn \<Rightarrow> bool" where
  "error_retryable e = (case provider_failure e of None \<Rightarrow> False | Some p \<Rightarrow> retryable p)"

definition safe_error_code :: "exn \<Rightarrow> pystr" where
  "safe_error_code e =
     (case provider_failure e of None \<Rightarrow> lit ''analysis_execution_failed'' | Some p \<Rightarrow> reason_code p)"

definition failed_row ::
  "(int \<Rightarrow> int \<Rightarrow> int) \<Rightarrow> exn \<Rightarrow> int \<Rightarrow> analysis_job \<Rightarrow> analysis_job" where
  "failed_row jitter e now j =
     (let freed = j\<lparr>aj_worker_id := None, aj_heartbeat_at := None, aj_lease_expires_at := None,
                    aj_last_error_code := Some (safe_error_code e)\<rparr>
      in if error_retryable e \<and> aj_attempt_count j < aj_max_attempts j then
           freed\<lparr>aj_status := st_pending,
                 aj_available_at := now + retry_delay jitter (aj_attempt_count j),
                 aj_last_error_message_safe := Some SAFE_RETRY_MESSAGE\<rparr>
         else
           freed\<lparr>aj_status := st_failed, aj_finished_at := Some now, aj_active_dedupe_key := None,
                 aj_last_error_message_safe := Some SAFE_FAILED_MESSAGE,
                 aj_last_error_code := Some (if error_retryable e then lit ''max_attempts_exceeded''
                                             else safe_error_code e)\<rparr>)"

definition finish_job_failure ::
  "(int \<Rightarrow> int \<Rightarrow> int) \<Rightarrow> pystr \<Rightarrow> pystr \<Rightarrow> exn \<Rightarrow> int \<Rightarrow> jobs \<Rightarrow> jobs \<times> pystr" where
  "finish_job_failure jitter i worker_id e now db =
     (case get_job db i of
        None \<Rightarrow> (db, lit ''claim_lost'')
      | Some j \<Rightarrow>
          if aj_status j \<noteq> st_running \<or> aj_worker_id j \<noteq> Some worker_id then (db, lit ''claim_lost'')
          else
            (fst (update_where (\<lambda>k. aj_id k = i) (failed_row jitter e now) db),
             if error_retryable e \<and> aj_attempt_count j < aj_max_attempts j then lit ''pending''
             else lit ''failed''))"

subsection \<open>Enqueueing\<close>

text \<open>
  \<open>_enqueue_analysis_job\<close>: \<open>i\<close> is the fresh id and \<open>now\<close> the time of the new row.  The unique
  constraint on \<open>active_dedupe_key\<close> refuses a second row with the key.
\<close>

definition active_job :: "pystr \<Rightarrow> analysis_job \<Rightarrow> bool" where
  "active_job key j \<longleftrightarrow>
     aj_active_dedupe_key j = Some key \<and> (aj_status j = st_pending \<or> aj_status j = st_running)"

definition new_job :: "pystr \<Rightarrow> pystr \<Rightarrow> pystr \<Rightarrow> int \<Rightarrow> analysis_job" where
  "new_job i document_id key now =
     \<lparr>aj_id = i, aj_document_id = document_id, aj_status = st_pending, aj_attempt_count = 0,
      aj_max_attempts = 3, aj_available_at = now, aj_started_at = None, aj_heartbeat_at = None,
      aj_lease_expires_at = None, aj_finished_at = None, aj_worker_id = None,
      aj_last_error_code = None, aj_last_error_message_safe = None, aj_request_fingerprint = key,
      aj_active_dedupe_key = Some key, aj_created_at = now\<rparr>"

definition enqueue_analysis_job ::
  "pystr \<Rightarrow> pystr \<Rightarrow> pystr \<Rightarrow> int \<Rightarrow> jobs \<Rightarrow> jobs \<times> analysis_job result" where
  "enqueue_analysis_job i document_id key now db =
     (case List.find (active_job key) db of
        Some j \<Rightarrow> (db, Inr j)
      | None \<Rightarrow>
          if list_ex (\<lambda>j. aj_active_dedupe_key j = Some key) db then
            (db, Inl (OtherError (lit ''IntegrityError'') (lit ''UNIQUE constraint failed'')))
          else (db @ [new_job i document_id key now], Inr (new_job i document_id key now)))"

end
