(* ===== verification/Job_Queue_Rows.thy ===== *)
theory Job_Queue_Rows
  imports Job_Queue
begin

text \<open>
  The contract of the queue operations: the life cycle of a job as an abstract state machine, the
  well-formedness of a row, the interface every operation on the table obeys, and its instances for
  the operations of the queue.
\<close>

subsection \<open>The life cycle\<close>

datatype phase = Pending | Running | Completed | Failed | Unknown

inductive phase_step :: "phase \<Rightarrow> phase \<Rightarrow> bool" where
  claim: "phase_step Pending Running"
| renew: "phase_step Running Running"
| requeue: "phase_step Running Pending"
| finish: "phase_step Running Completed"
| give_up: "phase_step Running Failed"

inductive_cases pending_stepE: "phase_step Pending p"
inductive_cases running_stepE: "phase_step Running p"
inductive_simps phase_step_simps [simp]:
  "phase_step Pending p" "phase_step Running p" "phase_step Completed p" "phase_step Failed p" "phase_step Unknown p"

definition phase_of :: "analysis_job \<Rightarrow> phase" where
  "phase_of j =
     (if aj_status j = st_pending then Pending else if aj_status j = st_running then Running
      else if aj_status j = st_completed then Completed else if aj_status j = st_failed then Failed
      else Unknown)"

definition terminal :: "analysis_job \<Rightarrow> bool" where
  "terminal j \<longleftrightarrow> aj_status j = st_completed \<or> aj_status j = st_failed"

lemma statuses [simp]:
  "st_pending \<noteq> st_running" "st_running \<noteq> st_pending" "st_pending \<noteq> st_completed" "st_completed \<noteq> st_pending"
  "st_pending \<noteq> st_failed" "st_failed \<noteq> st_pending" "st_running \<noteq> st_completed" "st_completed \<noteq> st_running"
  "st_running \<noteq> st_failed" "st_failed \<noteq> st_running" "st_completed \<noteq> st_failed" "st_failed \<noteq> st_completed"
  by (simp_all add: st_pending_def st_running_def st_completed_def st_failed_def)

text \<open>
  A well-formed row: a running job has an owner, a lease and a heartbeat, any other job has none; a
  pending job has attempts left; a finished job has a finishing time and holds no active key.
\<close>

definition wf_job :: "analysis_job \<Rightarrow> bool" where
  "wf_job j \<longleftrightarrow>
     phase_of j \<noteq> Unknown \<and> 0 \<le> aj_attempt_count j \<and>
     (if phase_of j = Running
      then aj_worker_id j \<noteq> None \<and> aj_lease_expires_at j \<noteq> None \<and> aj_heartbeat_at j \<noteq> None \<and>
           aj_started_at j \<noteq> None
      else aj_worker_id j = None \<and> aj_lease_expires_at j = None \<and> aj_heartbeat_at j = None) \<and>
     (phase_of j = Pending \<longrightarrow> aj_attempt_count j < aj_max_attempts j) \<and>
     (terminal j \<longrightarrow> aj_finished_at j \<noteq> None \<and> aj_active_dedupe_key j = None)"

text \<open>What may happen to one row: its identity stays, it moves along the life cycle, a finished row does
  not change, attempts never decrease, an active key is kept or given up.\<close>

definition row_refines :: "analysis_job \<Rightarrow> analysis_job \<Rightarrow> bool" where
  "row_refines j k \<longleftrightarrow>
     aj_id k = aj_id j \<and> aj_document_id k = aj_document_id j \<and>
     aj_request_fingerprint k = aj_request_fingerprint j \<and>
     phase_step\<^sup>*\<^sup>* (phase_of j) (phase_of k) \<and> (terminal j \<longrightarrow> k = j) \<and> (wf_job j \<longrightarrow> wf_job k) \<and>
     aj_attempt_count j \<le> aj_attempt_count k \<and>
     (aj_active_dedupe_key k = aj_active_dedupe_key j \<or> aj_active_dedupe_key k = None)"

lemma row_refines_refl [simp, intro]: "row_refines j j"
  by (simp add: row_refines_def)

lemma row_refines_trans: "row_refines j k \<Longrightarrow> row_refines k l \<Longrightarrow> row_refines j l"
  unfolding row_refines_def by (auto intro: rtranclp_trans)

lemma row_refines_step:
  assumes "aj_id k = aj_id j" "aj_document_id k = aj_document_id j"
    "aj_request_fingerprint k = aj_request_fingerprint j" "phase_step (phase_of j) (phase_of k)"
    "\<not> terminal j" "wf_job j \<Longrightarrow> wf_job k" "aj_attempt_count j \<le> aj_attempt_count k"
    "aj_active_dedupe_key k = aj_active_dedupe_key j \<or> aj_active_dedupe_key k = None"
  shows "row_refines j k"
  using assms by (auto simp: row_refines_def)

subsection \<open>The interface of an operation\<close>

definition jobs_inv :: "jobs \<Rightarrow> bool" where
  "jobs_inv db \<longleftrightarrow>
     distinct (map aj_id db) \<and> (\<forall>j\<in>set db. wf_job j) \<and>
     distinct (List.map_filter aj_active_dedupe_key db)"

lemma rows_wf: "list_all2 row_refines db db' \<Longrightarrow> \<forall>j\<in>set db. wf_job j \<Longrightarrow> \<forall>j\<in>set db'. wf_job j"
  by (induction rule: list_all2_induct) (auto simp: row_refines_def)

lemma rows_terminal: "list_all2 row_refines db db' \<Longrightarrow> j \<in> set db \<Longrightarrow> terminal j \<Longrightarrow> j \<in> set db'"
  by (induction rule: list_all2_induct) (auto simp: row_refines_def)

locale queue_operation =
  fixes op :: "jobs \<Rightarrow> jobs"
  assumes rowwise: "distinct (map aj_id db) \<Longrightarrow> list_all2 row_refines db (op db)"
begin

lemma keeps_ids: "distinct (map aj_id db) \<Longrightarrow> map aj_id (op db) = map aj_id db"
  using rowwise [of db] by (auto simp: list_all2_conv_all_nth row_refines_def intro!: nth_equalityI)

lemma keeps_wf: "distinct (map aj_id db) \<Longrightarrow> \<forall>j\<in>set db. wf_job j \<Longrightarrow> \<forall>j\<in>set (op db). wf_job j"
  using rows_wf [OF rowwise] by blast

lemma keeps_terminal: "distinct (map aj_id db) \<Longrightarrow> j \<in> set db \<Longrightarrow> terminal j \<Longrightarrow> j \<in> set (op db)"
  using rows_terminal [OF rowwise] by blast

end

text \<open>Keys stay unique when every row keeps its key or gives it up.\<close>

definition keys_kept :: "analysis_job \<Rightarrow> analysis_job \<Rightarrow> bool" where
  "keys_kept j k \<longleftrightarrow> aj_active_dedupe_key k = aj_active_dedupe_key j \<or> aj_active_dedupe_key k = None"

lemma keys_shrink:
  assumes "list_all2 keys_kept db db'"
  shows "set (List.map_filter aj_active_dedupe_key db') \<subseteq> set (List.map_filter aj_active_dedupe_key db)"
    "distinct (List.map_filter aj_active_dedupe_key db) \<Longrightarrow> distinct (List.map_filter aj_active_dedupe_key db')"
  using assms
proof (induction db db' rule: list_all2_induct)
  case (Cons j db k db')
  {
    case 1
    show ?case using Cons by (auto simp: keys_kept_def map_filter_simps split: option.splits)
  next
    case 2
    have "distinct (List.map_filter aj_active_dedupe_key db)"
      using 2 by (simp add: map_filter_simps split: option.splits)
    with Cons have d: "distinct (List.map_filter aj_active_dedupe_key db')" by blast
    show ?case
    proof (cases "aj_active_dedupe_key k")
      case None
      with d show ?thesis by (simp add: map_filter_simps)
    next
      case (Some key)
      then have "aj_active_dedupe_key j = Some key" using Cons(1) by (auto simp: keys_kept_def)
      with 2 have "key \<notin> set (List.map_filter aj_active_dedupe_key db)" by (simp add: map_filter_simps)
      with Cons(3) d Some show ?thesis by (auto simp: map_filter_simps)
    qed
  }
qed (simp_all add: map_filter_simps)

lemma rows_keep_keys: "list_all2 row_refines db db' \<Longrightarrow> list_all2 keys_kept db db'"
  by (erule list_all2_mono) (simp add: row_refines_def keys_kept_def)

context queue_operation
begin

lemma keeps_inv: "jobs_inv db \<Longrightarrow> jobs_inv (op db)"
  using keeps_ids [of db] keeps_wf [of db] keys_shrink(2) [OF rows_keep_keys [OF rowwise], of db] by (simp add: jobs_inv_def)

end

subsection \<open>Conditional updates\<close>

lemma update_where_rows:
  assumes "\<And>j. p j \<Longrightarrow> row_refines j (f j)"
  shows "list_all2 row_refines db (fst (update_where p f db))"
  using assms by (simp add: update_where_def list_all2_conv_all_nth)

lemma refines_trans: "list_all2 row_refines a b \<Longrightarrow> list_all2 row_refines b c \<Longrightarrow> list_all2 row_refines a c"
  by (rule list_all2_trans [OF row_refines_trans])

lemma refines_refl: "list_all2 row_refines db db"
  by (simp add: list_all2_conv_all_nth)

lemma refines_ids: "list_all2 row_refines db db' \<Longrightarrow> map aj_id db' = map aj_id db"
  by (auto simp: list_all2_conv_all_nth row_refines_def intro!: nth_equalityI)

lemma get_job_Some: "get_job db i = Some j \<Longrightarrow> j \<in> set db \<and> aj_id j = i"
  unfolding get_job_def by (auto simp: find_Some_iff in_set_conv_nth)

lemma get_job_mem: "distinct (map aj_id db) \<Longrightarrow> j \<in> set db \<Longrightarrow> get_job db (aj_id j) = Some j"
  unfolding get_job_def
proof (induction db)
  case (Cons k db)
  then show ?case by auto
qed simp

lemma one_row: "distinct (map aj_id db) \<Longrightarrow> j \<in> set db \<Longrightarrow> p j \<Longrightarrow>
    length (filter (\<lambda>k. aj_id k = aj_id j \<and> p k) db) = 1"
proof (induction db)
  case (Cons k db)
  show ?case
  proof (cases "k = j")
    case True
    with Cons.prems have "filter (\<lambda>k. aj_id k = aj_id j \<and> p k) db = []"
      by (auto simp: filter_empty_conv) (metis image_eqI)
    with True Cons.prems show ?thesis by simp
  next
    case False
    with Cons.prems have "aj_id k \<noteq> aj_id j" by auto
    with Cons False show ?thesis by simp
  qed
qed simp

subsection \<open>The operations\<close>

lemma claimed_refines: "claimable now j \<Longrightarrow> row_refines j (claimed w l m now j)"
  by (rule row_refines_step)
     (auto simp: claimable_def claimed_def phase_of_def terminal_def wf_job_def split: option.splits)

lemma claim_update_rows: "list_all2 row_refines db (fst (claim_update w l m now i db))"
  unfolding claim_update_def by (rule update_where_rows) (auto intro: claimed_refines)

lemma claim_loop_rows: "list_all2 row_refines db (fst (claim_loop w l m now is db))"
proof (induction "is")
  case (Cons i "is")
  then show ?case using claim_update_rows [of db w l m now i] by (auto split: prod.splits)
qed (simp add: refines_refl)

lemma renewed_refines:
  "aj_status j = st_running \<Longrightarrow>
     row_refines j (j\<lparr>aj_heartbeat_at := Some now, aj_lease_expires_at := Some t\<rparr>)"
  by (rule row_refines_step) (auto simp: phase_of_def terminal_def wf_job_def)

lemma recovered_refines:
  assumes "aj_status j = st_running" "exhausted \<or> aj_attempt_count j < aj_max_attempts j"
  shows "row_refines j (recovered_row now exhausted j)"
  using assms
  by (intro row_refines_step) (auto simp: recovered_row_def Let_def phase_of_def terminal_def wf_job_def)

lemma recover_one_rows:
  assumes "distinct (map aj_id (fst s))"
  shows "list_all2 row_refines (fst s) (fst (recover_one now i s))"
proof -
  obtain db r where s: "s = (db, r)" by (cases s)
  show ?thesis
  proof (cases "get_job db i")
    case (Some j)
    let ?ex = "aj_max_attempts j \<le> aj_attempt_count j"
    have rows: "list_all2 row_refines db
        (fst (update_where (\<lambda>k. aj_id k = i \<and> aj_status k = st_running \<and>
            aj_lease_expires_at k = aj_lease_expires_at j) (recovered_row now ?ex) db))"
    proof -
      have "row_refines k (recovered_row now ?ex k)"
        if "k \<in> set db" "aj_id k = i" "aj_status k = st_running" for k
      proof -
        have "k = j"
          using get_job_mem [of db k] assms s that(1,2) Some by simp
        with that show ?thesis by (intro recovered_refines) auto
      qed
      then show ?thesis by (auto simp: update_where_def list_all2_conv_all_nth)
    qed
    then show ?thesis
      by (auto simp: s Some recover_one_def Let_def refines_refl split: prod.splits)
  qed (simp add: s recover_one_def refines_refl)
qed

lemma recover_fold_rows:
  "distinct (map aj_id (fst s)) \<Longrightarrow> list_all2 row_refines (fst s) (fst (fold (recover_one now) is s))"
proof (induction "is" arbitrary: s)
  case (Cons i "is")
  note r = recover_one_rows [OF Cons.prems, of now i]
  have "distinct (map aj_id (fst (recover_one now i s)))"
    using refines_ids [OF r] Cons.prems by simp
  from refines_trans [OF r Cons.IH [OF this]] show ?case by simp
qed (simp add: refines_refl)

lemma failed_refines:
  assumes "aj_status j = st_running"
  shows "row_refines j (failed_row jitter e now j)"
  using assms
  by (intro row_refines_step) (auto simp: failed_row_def Let_def phase_of_def terminal_def wf_job_def)

lemma finish_failure_rows:
  assumes "distinct (map aj_id db)"
  shows "list_all2 row_refines db (fst (finish_job_failure jitter i w e now db))"
proof (cases "get_job db i")
  case (Some j)
  have "row_refines k (failed_row jitter e now k)"
    if "k \<in> set db" "aj_id k = i" "aj_status j = st_running" for k
    using get_job_mem [OF assms that(1)] that Some by (intro failed_refines) auto
  with Some show ?thesis
    by (auto simp: finish_job_failure_def update_where_def list_all2_conv_all_nth)
qed (simp add: finish_job_failure_def refines_refl)

interpretation claim: queue_operation "\<lambda>db. fst (claim_next_job w l m now db)" for w l m now
  by unfold_locales (simp add: claim_next_job_def claim_loop_rows)

interpretation claim_one: queue_operation "\<lambda>db. fst (claim_update w l m now i db)" for w l m now i
  by unfold_locales (rule claim_update_rows)

interpretation lease: queue_operation "\<lambda>db. fst (renew_job_lease i w l now db)" for i w l now
proof
  fix db
  show "list_all2 row_refines db (fst (renew_job_lease i w l now db))"
    unfolding renew_job_lease_def split_beta fst_conv
    by (rule update_where_rows) (auto intro: renewed_refines)
qed

interpretation recovery: queue_operation "\<lambda>db. fst (recover_stale_jobs_result now db)" for now
proof
  fix db :: jobs
  assume "distinct (map aj_id db)"
  then show "list_all2 row_refines db (fst (recover_stale_jobs_result now db))"
    unfolding recover_stale_jobs_result_def using recover_fold_rows [of "(db, _)"] by simp
qed

interpretation failure: queue_operation "\<lambda>db. fst (finish_job_failure jitter i w e now db)" for jitter i w e now
  by unfold_locales (rule finish_failure_rows)

end
