(* ===== verification/Job_Queue_Correct.thy ===== *)
theory Job_Queue_Correct
  imports Job_Queue_Rows
begin

text \<open>
  Functional correctness of the queue: every operation keeps the invariant of the table, claiming
  takes the earliest due job, recovery frees exactly the expired leases, failures are requeued
  exactly when attempts are left, delays are bounded, and enqueueing is idempotent per key.
\<close>

subsection \<open>The invariant\<close>

lemma wf_new_job: "wf_job (new_job i doc key now)"
  by (simp add: new_job_def wf_job_def phase_of_def terminal_def)

lemma enqueue_inv:
  assumes "jobs_inv db" "i \<notin> aj_id ` set db"
  shows "jobs_inv (fst (enqueue_analysis_job i doc key now db))"
proof (cases "List.find (active_job key) db = None \<and> \<not> list_ex (\<lambda>j. aj_active_dedupe_key j = Some key) db")
  case True
  then have k: "\<forall>j\<in>set db. aj_active_dedupe_key j \<noteq> Some key" by (auto simp: list_ex_iff)
  have "distinct (List.map_filter aj_active_dedupe_key (db @ [new_job i doc key now]))"
  proof -
    have "List.map_filter aj_active_dedupe_key (db @ [new_job i doc key now]) =
        List.map_filter aj_active_dedupe_key db @ [key]"
      by (simp add: List.map_filter_def new_job_def)
    moreover have "key \<notin> set (List.map_filter aj_active_dedupe_key db)"
      using k by (auto simp: List.map_filter_def)
    ultimately show ?thesis using assms(1) by (simp add: jobs_inv_def)
  qed
  with assms True wf_new_job show ?thesis
    by (auto simp: jobs_inv_def enqueue_analysis_job_def new_job_def)
next
  case False
  with assms show ?thesis by (auto simp: enqueue_analysis_job_def split: option.splits)
qed

text \<open>A success is written over whatever the row has become.\<close>

lemma completed_row_ok:
  assumes "aj_status job = st_running" "aj_worker_id job \<noteq> None" "aj_finished_at job = None"
    "aj_lease_expires_at job \<noteq> None" "aj_heartbeat_at job \<noteq> None" "keys_kept job j" "wf_job j"
  shows "wf_job (completed_row job now j)" "keys_kept j (completed_row job now j)"
    "terminal (completed_row job now j)"
proof -
  have "aj_status (completed_row job now j) = st_completed" "aj_finished_at (completed_row job now j) = Some now"
    "aj_worker_id (completed_row job now j) = None" "aj_lease_expires_at (completed_row job now j) = None"
    "aj_heartbeat_at (completed_row job now j) = None" "aj_active_dedupe_key (completed_row job now j) = None"
    "aj_attempt_count (completed_row job now j) = aj_attempt_count j" "aj_id (completed_row job now j) = aj_id j"
    using assms(1-6) by (auto simp: completed_row_def write_if_changed_def keys_kept_def)
  then show "wf_job (completed_row job now j)" "keys_kept j (completed_row job now j)"
    "terminal (completed_row job now j)"
    using assms(7) by (simp_all add: wf_job_def keys_kept_def terminal_def phase_of_def)
qed

lemma success_inv:
  assumes "jobs_inv db" "finish_job_success job w now db = Inr db'"
    "wf_job job" "aj_finished_at job = None" "\<forall>j\<in>set db. aj_id j = aj_id job \<longrightarrow> keys_kept job j"
  shows "jobs_inv db'"
proof -
  define f where "f = (\<lambda>j. if aj_id j = aj_id job then completed_row job now j else j)"
  from assms(2) have job: "aj_status job = st_running" and db': "db' = map f db"
    by (auto simp: f_def finish_job_success_def update_where_def split: if_splits)
  then have run: "aj_worker_id job \<noteq> None" "aj_lease_expires_at job \<noteq> None" "aj_heartbeat_at job \<noteq> None"
    using assms(3) by (auto simp: wf_job_def phase_of_def)
  have row: "wf_job (f j) \<and> keys_kept j (f j)" if "j \<in> set db" for j
    using completed_row_ok [OF job run(1) assms(4) run(2,3), of j now] assms(1,5) that
    by (auto simp: f_def jobs_inv_def) (simp add: keys_kept_def)
  have k: "list_all2 keys_kept db db'" unfolding db' using row by (simp add: list_all2_conv_all_nth)
  have "map aj_id db' = map aj_id db" unfolding db' by (simp add: f_def completed_row_def)
  moreover have "\<forall>j\<in>set db'. wf_job j" unfolding db' using row by simp
  ultimately show ?thesis using assms(1) keys_shrink(2) [OF k] unfolding jobs_inv_def by simp
qed

text \<open>C11: Every queue operation keeps the table well formed: ids stay distinct, a running job has an owner and a lease
  and no other job has, a pending job has attempts left, a finished job holds no active key, and active keys stay unique.
  This holds of claiming, renewing, recovering and failing, of enqueueing under a fresh id, and of the success, which
  is written from the row as its session loaded it while it was running: whatever has become of the row since, as
  long as it is the same job with its key kept or given up.\<close>

theorem queue_operations_keep_invariant:
  assumes "jobs_inv db"
  shows "jobs_inv (fst (claim_next_job w l m now db)) \<and>
    jobs_inv (fst (renew_job_lease i w l now db)) \<and>
    jobs_inv (fst (recover_stale_jobs_result now db)) \<and>
    jobs_inv (fst (finish_job_failure jitter i w e now db)) \<and>
    (i \<notin> aj_id ` set db \<longrightarrow> jobs_inv (fst (enqueue_analysis_job i doc key now db))) \<and>
    (\<forall>db'. finish_job_success job w now db = Inr db' \<and> wf_job job \<and> aj_finished_at job = None \<and>
       (\<forall>j\<in>set db. aj_id j = aj_id job \<longrightarrow> keys_kept job j) \<longrightarrow> jobs_inv db')"
  by (intro conjI allI impI claim.keeps_inv [OF assms] lease.keeps_inv [OF assms] recovery.keeps_inv [OF assms]
      failure.keeps_inv [OF assms] enqueue_inv [OF assms])
    (assumption, elim conjE, rule success_inv [OF assms])

definition one_job :: jobs where
  "one_job = [new_job (lit ''j1'') (lit ''d'') (lit ''key'') 0]"

lemma one_job_inv: "jobs_inv one_job"
  using wf_new_job by (simp add: jobs_inv_def one_job_def new_job_def map_filter_simps)

definition running_job :: analysis_job where
  "running_job = (new_job (lit ''j1'') (lit ''d'') (lit ''key'') 0)
     \<lparr>aj_status := st_running, aj_worker_id := Some (lit ''w''), aj_started_at := Some 1, aj_heartbeat_at := Some 1,
      aj_lease_expires_at := Some 9, aj_attempt_count := 1\<rparr>"

theorem queue_operations_keep_invariant_witness:
  "jobs_inv (fst (claim_next_job (lit ''w'') 10 None 5 one_job)) \<and>
   finish_job_success running_job (lit ''w'') 5 one_job =
     Inr [completed_row running_job 5 (new_job (lit ''j1'') (lit ''d'') (lit ''key'') 0)] \<and>
   jobs_inv [completed_row running_job 5 (new_job (lit ''j1'') (lit ''d'') (lit ''key'') 0)]"
proof -
  have f: "finish_job_success running_job (lit ''w'') 5 one_job =
     Inr [completed_row running_job 5 (new_job (lit ''j1'') (lit ''d'') (lit ''key'') 0)]"
    by (simp add: finish_job_success_def update_where_def running_job_def one_job_def new_job_def)
  have "wf_job running_job" "aj_finished_at running_job = None"
    by (simp_all add: running_job_def new_job_def wf_job_def phase_of_def terminal_def st_running_def st_pending_def
        st_completed_def st_failed_def)
  moreover have "\<forall>j\<in>set one_job. aj_id j = aj_id running_job \<longrightarrow> keys_kept running_job j"
    by (simp add: one_job_def running_job_def new_job_def keys_kept_def)
  ultimately show ?thesis
    using queue_operations_keep_invariant [OF one_job_inv, where job = running_job and w = "lit ''w''" and now = 5] f by blast
qed

text \<open>Each operation is an admissible step of every row (its life cycle, identity and key), so a
  completed or failed job is never changed by claiming, renewing, recovering or failing.\<close>

theorem finished_jobs_untouched:
  assumes "distinct (map aj_id db)" and "j \<in> set db" and "terminal j"
  shows "j \<in> set (fst (claim_next_job w l m now db)) \<and>
    j \<in> set (fst (renew_job_lease i w l now db)) \<and>
    j \<in> set (fst (recover_stale_jobs_result now db)) \<and>
    j \<in> set (fst (finish_job_failure jitter i w e now db))"
  using claim.keeps_terminal [OF assms] lease.keeps_terminal [OF assms] recovery.keeps_terminal [OF assms]
    failure.keeps_terminal [OF assms] by blast

definition done_job :: analysis_job where
  "done_job = (new_job (lit ''j1'') (lit ''d'') (lit ''key'') 0)
     \<lparr>aj_status := st_completed, aj_finished_at := Some 3, aj_active_dedupe_key := None\<rparr>"

theorem finished_jobs_untouched_witness:
  "done_job \<in> set (fst (recover_stale_jobs_result 9 [done_job]))"
proof -
  have "terminal done_job" by (simp add: done_job_def terminal_def)
  then show ?thesis using finished_jobs_untouched [of "[done_job]" done_job] by simp
qed

subsection \<open>Claiming\<close>

lemma claim_none:
  assumes "\<forall>j\<in>set db. \<not> claimable now j"
  shows "claim_next_job w l m now db = (db, None)"
proof -
  have "filter (claimable now) db = []" using assms by (simp add: filter_empty_conv)
  then show ?thesis by (simp add: claim_next_job_def claim_candidates_def)
qed

lemma claim_first:
  assumes "distinct (map aj_id db)" "filter (claimable now) db \<noteq> []"
  shows "\<exists>j\<in>set db. claimable now j \<and>
    (\<forall>k\<in>set db. claimable now k \<longrightarrow>
       (aj_available_at j, aj_created_at j) \<le> (aj_available_at k, aj_created_at k)) \<and>
    claim_next_job w l m now db =
      (map (\<lambda>k. if aj_id k = aj_id j then claimed w l m now k else k) db, Some (claimed w l m now j))"
proof -
  let ?key = "\<lambda>j. (aj_available_at j, aj_created_at j)"
  let ?s = "sort_key ?key (filter (claimable now) db)"
  have "?s \<noteq> []" using assms(2) by (metis set_empty set_sort)
  then obtain j rest where s: "?s = j # rest" by (cases ?s) auto
  then have "j \<in> set (filter (claimable now) db)" by (metis list.set_intros(1) set_sort)
  then have j: "j \<in> set db" "claimable now j" by auto
  have "sorted (map ?key (j # rest))" unfolding s [symmetric] by simp
  then have first: "?key j \<le> ?key k" if "k \<in> set db" "claimable now k" for k
  proof -
    have "k \<in> set (j # rest)" unfolding s [symmetric] using that by simp
    with \<open>sorted (map ?key (j # rest))\<close> show ?thesis by auto
  qed
  have "claim_candidates now db = aj_id j # take 19 (map aj_id rest)"
    by (simp add: claim_candidates_def s)
  moreover have "claim_update w l m now (aj_id j) db =
      (map (\<lambda>k. if aj_id k = aj_id j then claimed w l m now k else k) db, 1)"
  proof -
    have "(\<lambda>k. aj_id k = aj_id j \<and> claimable now k) k = (aj_id k = aj_id j)" if "k \<in> set db" for k
      using assms(1) j that by (auto simp: distinct_map inj_on_def)
    then have "map (\<lambda>k. if aj_id k = aj_id j \<and> claimable now k then claimed w l m now k else k) db =
        map (\<lambda>k. if aj_id k = aj_id j then claimed w l m now k else k) db" by auto
    with one_row [of db j "claimable now"] assms(1) j show ?thesis
      by (simp add: claim_update_def update_where_def)
  qed
  moreover have "get_job (map (\<lambda>k. if aj_id k = aj_id j then claimed w l m now k else k) db) (aj_id j) =
      Some (claimed w l m now j)"
  proof -
    let ?f = "\<lambda>k. if aj_id k = aj_id j then claimed w l m now k else k"
    have "map aj_id (map ?f db) = map aj_id db" by (simp add: claimed_def)
    with assms(1) have d: "distinct (map aj_id (map ?f db))" by metis
    have "claimed w l m now j \<in> set (map ?f db)" using j(1) by (auto intro!: image_eqI [of _ _ j])
    from get_job_mem [OF d this] show ?thesis by (simp add: claimed_def)
  qed
  ultimately have "claim_next_job w l m now db =
      (map (\<lambda>k. if aj_id k = aj_id j then claimed w l m now k else k) db, Some (claimed w l m now j))"
    by (simp add: claim_next_job_def)
  with j first show ?thesis by blast
qed

text \<open>C12: A worker that polls when no job is due gets none and changes nothing; otherwise it gets the due
  pending job with the earliest availability (then creation), which becomes running under its name with
  one attempt more and a lease from now, while every other row stays as it was.\<close>

theorem claim_takes_earliest_due_job:
  assumes "distinct (map aj_id db)"
  shows "if \<exists>j\<in>set db. claimable now j
    then \<exists>j\<in>set db. claimable now j \<and>
      (\<forall>k\<in>set db. claimable now k \<longrightarrow>
         (aj_available_at j, aj_created_at j) \<le> (aj_available_at k, aj_created_at k)) \<and>
      claim_next_job w l m now db =
        (map (\<lambda>k. if aj_id k = aj_id j then claimed w l m now k else k) db, Some (claimed w l m now j))
    else claim_next_job w l m now db = (db, None)"
proof (cases "filter (claimable now) db = []")
  case True
  then have "\<forall>j\<in>set db. \<not> claimable now j" by (simp add: filter_empty_conv)
  with claim_none [OF this] show ?thesis by simp
next
  case False
  then have "\<exists>j\<in>set db. claimable now j" by (auto simp: filter_empty_conv)
  with claim_first [OF assms False] show ?thesis by simp
qed

theorem claim_takes_earliest_due_job_witness:
  "\<exists>j. snd (claim_next_job (lit ''w'') 10 None 5 one_job) = Some j \<and> aj_id j = lit ''j1'' \<and>
     aj_attempt_count j = 1"
proof -
  have "distinct (map aj_id one_job)" by (simp add: one_job_def)
  moreover have "\<exists>j\<in>set one_job. claimable 5 j"
    by (simp add: one_job_def new_job_def claimable_def)
  ultimately show ?thesis
    using claim_takes_earliest_due_job [of one_job 5 "lit ''w''" 10 None]
    by (auto simp: one_job_def new_job_def claimed_def)
qed

subsection \<open>Recovery\<close>

definition recovered :: "int \<Rightarrow> analysis_job \<Rightarrow> analysis_job" where
  "recovered now j = recovered_row now (aj_max_attempts j \<le> aj_attempt_count j) j"

lemma recover_one_eq:
  assumes "distinct (map aj_id db)" "j \<in> set db" "lease_expired now j"
  shows "recover_one now (aj_id j) (db, r) =
    (map (\<lambda>k. if aj_id k = aj_id j then recovered now k else k) db,
     r\<lparr>recovered_count := recovered_count r + 1,
       failed_count := (if aj_max_attempts j \<le> aj_attempt_count j then failed_count r + 1 else failed_count r),
       retried_count := (if aj_max_attempts j \<le> aj_attempt_count j then retried_count r else retried_count r + 1)\<rparr>)"
proof -
  let ?p = "\<lambda>k. aj_status k = st_running \<and> aj_lease_expires_at k = aj_lease_expires_at j"
  have same: "k = j" if "k \<in> set db" "aj_id k = aj_id j" for k
    using assms(1,2) that by (auto simp: distinct_map inj_on_def)
  have "?p j" using assms(3) by (simp add: lease_expired_def)
  then have "length (filter (\<lambda>k. aj_id k = aj_id j \<and> ?p k) db) = 1"
    by (intro one_row assms)
  moreover have "map (\<lambda>k. if aj_id k = aj_id j \<and> ?p k
        then recovered_row now (aj_max_attempts j \<le> aj_attempt_count j) k else k) db =
      map (\<lambda>k. if aj_id k = aj_id j then recovered now k else k) db"
    using same \<open>?p j\<close> by (intro map_cong refl) (auto simp: recovered_def)
  ultimately show ?thesis
    using assms(3) get_job_mem [OF assms(1,2)]
    by (simp add: recover_one_def update_where_def Let_def)
qed

lemma recover_fold_eq:
  assumes "distinct (map aj_id db)" "distinct is" "\<forall>i\<in>set is. \<exists>j\<in>set db. aj_id j = i \<and> lease_expired now j"
  shows "\<exists>q. fold (recover_one now) is (db, r) =
      (map (\<lambda>k. if aj_id k \<in> set is then recovered now k else k) db, q) \<and>
    recovered_count q = recovered_count r + length is \<and>
    retried_count q + failed_count q = retried_count r + failed_count r + length is"
  using assms
proof (induction "is" arbitrary: db r)
  case Nil
  then show ?case by simp
next
  case (Cons i "is")
  then obtain j where j: "j \<in> set db" "aj_id j = i" "lease_expired now j" by auto
  let ?f = "\<lambda>k. if aj_id k = i then recovered now k else k"
  have id: "aj_id (?f k) = aj_id k" for k by (simp add: recovered_def recovered_row_def Let_def)
  then have ids: "map aj_id (map ?f db) = map aj_id db" by simp
  then have d: "distinct (map aj_id (map ?f db))" using Cons.prems(1) by metis
  have "\<forall>i'\<in>set is. \<exists>j\<in>set (map ?f db). aj_id j = i' \<and> lease_expired now j"
  proof
    fix i' assume i': "i' \<in> set is"
    with Cons.prems(3) obtain k where k: "k \<in> set db" "aj_id k = i'" "lease_expired now k" by auto
    from i' Cons.prems(2) have "i' \<noteq> i" by auto
    with k have "k \<in> set (map ?f db)" by (auto intro!: image_eqI [of _ _ k])
    with k show "\<exists>j\<in>set (map ?f db). aj_id j = i' \<and> lease_expired now j" by blast
  qed
  from Cons.IH [OF d _ this] Cons.prems(2) obtain q where q:
    "fold (recover_one now) is (map ?f db, snd (recover_one now i (db, r))) =
      (map (\<lambda>k. if aj_id k \<in> set is then recovered now k else k) (map ?f db), q)"
    "recovered_count q = recovered_count (snd (recover_one now i (db, r))) + length is"
    "retried_count q + failed_count q =
      retried_count (snd (recover_one now i (db, r))) + failed_count (snd (recover_one now i (db, r))) + length is"
    by fastforce
  note one = recover_one_eq [OF Cons.prems(1) j(1,3), of r, unfolded j(2)]
  have "map (\<lambda>k. if aj_id k \<in> set is then recovered now k else k) (map ?f db) =
      map (\<lambda>k. if aj_id k \<in> set (i # is) then recovered now k else k) db"
  proof -
    have "i \<notin> set is" using Cons.prems(2) by simp
    then show ?thesis using id by (auto split: if_splits)
  qed
  with q one show ?case by (auto split: if_splits)
qed

text \<open>C36: Recovery is exact: it frees precisely the running jobs whose lease has expired (to pending while
  attempts are left, else to failed), leaves every other row alone, counts each of them once as retried
  or failed, and leaves no expired lease behind.\<close>

theorem recovery_is_exact:
  assumes "distinct (map aj_id db)"
  shows "\<exists>q. recover_stale_jobs_result now db =
      (map (\<lambda>k. if lease_expired now k then recovered now k else k) db, q) \<and>
    recovered_count q = length (filter (lease_expired now) db) \<and>
    retried_count q + failed_count q = recovered_count q \<and>
    (\<forall>k\<in>set (fst (recover_stale_jobs_result now db)). \<not> lease_expired now k)"
proof -
  let ?is = "map aj_id (filter (lease_expired now) db)"
  have "distinct ?is" using assms by (simp add: distinct_map_filter)
  moreover have "\<forall>i\<in>set ?is. \<exists>j\<in>set db. aj_id j = i \<and> lease_expired now j" by auto
  ultimately obtain q where q: "recover_stale_jobs_result now db =
      (map (\<lambda>k. if aj_id k \<in> set ?is then recovered now k else k) db, q)"
    "recovered_count q = length ?is" "retried_count q + failed_count q = length ?is"
    using recover_fold_eq [OF assms, of ?is now "\<lparr>recovered_count = 0, retried_count = 0, failed_count = 0\<rparr>"]
    by (auto simp: recover_stale_jobs_result_def)
  have eq: "(aj_id k \<in> set ?is) = lease_expired now k" if "k \<in> set db" for k
    using that assms by (auto simp: distinct_map inj_on_def)
  have m: "map (\<lambda>k. if aj_id k \<in> set ?is then recovered now k else k) db =
      map (\<lambda>k. if lease_expired now k then recovered now k else k) db"
    by (intro map_cong refl) (simp only: eq)
  have "\<not> lease_expired now (recovered now k)" for k
    by (simp add: recovered_def recovered_row_def lease_expired_def Let_def)
  with q m show ?thesis by (auto split: if_splits)
qed

definition stale_job :: analysis_job where
  "stale_job = claimed (lit ''w'') 10 None 5 (new_job (lit ''j1'') (lit ''d'') (lit ''key'') 0)"

theorem recovery_is_exact_witness:
  "\<exists>q. recover_stale_jobs_result 20 [stale_job] = ([recovered 20 stale_job], q) \<and> recovered_count q = 1 \<and>
     aj_status (recovered 20 stale_job) = st_pending"
proof -
  have e: "lease_expired 20 stale_job" "aj_status (recovered 20 stale_job) = st_pending"
    by (simp_all add: stale_job_def claimed_def new_job_def lease_expired_def recovered_def recovered_row_def)
  from recovery_is_exact [of "[stale_job]" 20] e show ?thesis by auto
qed

subsection \<open>Failures and delays\<close>

lemma retry_delay_range:
  assumes "\<forall>b\<ge>0. 0 \<le> jitter 0 b \<and> jitter 0 b \<le> b"
  shows "5000000 \<le> retry_delay jitter n \<and> retry_delay jitter n \<le> 120000000"
proof -
  have j: "0 \<le> jitter 0 1000000" "0 \<le> jitter 0 5000000" using assms by simp_all
  consider "n \<le> 1" | "n = 2" | "3 \<le> n" by linarith
  then show ?thesis
  proof cases
    case 1
    then have "max (n - 1) 0 = 0" by simp
    with j show ?thesis by (simp add: retry_delay_def RETRY_DELAYS_def)
  next
    case 2
    with j show ?thesis by (simp add: retry_delay_def RETRY_DELAYS_def)
  next
    case 3
    then have "min (max (n - 1) 0) 2 = 2" by simp
    with j show ?thesis by (simp add: retry_delay_def RETRY_DELAYS_def)
  qed
qed

text \<open>C37: A failure reported by the owner of a running job requeues it exactly when the error is retryable
  and attempts are left, to become available between 5 and 120 seconds later; otherwise the job is
  failed for good and gives up its key.  A worker that is not the owner changes nothing.\<close>

theorem failure_requeues_while_attempts_left:
  assumes "distinct (map aj_id db)" and "j \<in> set db"
    and "\<forall>b\<ge>0. 0 \<le> jitter 0 b \<and> jitter 0 b \<le> b"
  shows "if aj_status j = st_running \<and> aj_worker_id j = Some w
    then \<exists>k. finish_job_failure jitter (aj_id j) w e now db =
        (map (\<lambda>r. if aj_id r = aj_id j then k else r) db,
         if error_retryable e \<and> aj_attempt_count j < aj_max_attempts j then lit ''pending'' else lit ''failed'') \<and>
      aj_worker_id k = None \<and> aj_attempt_count k = aj_attempt_count j \<and>
      (if error_retryable e \<and> aj_attempt_count j < aj_max_attempts j
       then aj_status k = st_pending \<and> now + 5000000 \<le> aj_available_at k \<and>
         aj_available_at k \<le> now + 120000000 \<and> aj_active_dedupe_key k = aj_active_dedupe_key j
       else aj_status k = st_failed \<and> aj_finished_at k = Some now \<and> aj_active_dedupe_key k = None)
    else finish_job_failure jitter (aj_id j) w e now db = (db, lit ''claim_lost'')"
proof (cases "aj_status j = st_running \<and> aj_worker_id j = Some w")
  case True
  have g: "get_job db (aj_id j) = Some j" by (rule get_job_mem [OF assms(1,2)])
  have "map (\<lambda>r. if aj_id r = aj_id j then failed_row jitter e now r else r) db =
      map (\<lambda>r. if aj_id r = aj_id j then failed_row jitter e now j else r) db"
    using assms(1,2) by (intro map_cong refl) (auto simp: distinct_map inj_on_def)
  with True g have "finish_job_failure jitter (aj_id j) w e now db =
      (map (\<lambda>r. if aj_id r = aj_id j then failed_row jitter e now j else r) db,
       if error_retryable e \<and> aj_attempt_count j < aj_max_attempts j then lit ''pending'' else lit ''failed'')"
    by (simp add: finish_job_failure_def update_where_def)
  moreover have "5000000 \<le> retry_delay jitter (aj_attempt_count j)"
    "retry_delay jitter (aj_attempt_count j) \<le> 120000000"
    using retry_delay_range [of jitter "aj_attempt_count j", OF assms(3)] by blast+
  ultimately show ?thesis using True
    by (intro iffD2 [OF if_P]) (auto simp: failed_row_def Let_def)
next
  case False
  with get_job_mem [OF assms(1,2)] show ?thesis by (auto simp: finish_job_failure_def)
qed

theorem failure_requeues_while_attempts_left_witness:
  "snd (finish_job_failure (\<lambda>a b. b) (lit ''j1'') (lit ''w'') (ProviderExecutionError ProviderTimeoutError) 20
     [stale_job]) = lit ''pending''"
proof -
  have s: "aj_id stale_job = lit ''j1''" "aj_status stale_job = st_running" "aj_worker_id stale_job = Some (lit ''w'')"
    "aj_attempt_count stale_job < aj_max_attempts stale_job"
    by (simp_all add: stale_job_def claimed_def new_job_def)
  have "error_retryable (ProviderExecutionError ProviderTimeoutError)"
    by (simp add: error_retryable_def ProviderTimeoutError_def provider_execution_error_def)
  with failure_requeues_while_attempts_left [of "[stale_job]" stale_job "\<lambda>a b. b" "lit ''w''"
      "ProviderExecutionError ProviderTimeoutError" 20] s
  show ?thesis by auto
qed

subsection \<open>Enqueueing\<close>

lemma key_mem: "k \<in> set db \<Longrightarrow> aj_active_dedupe_key k = Some key \<Longrightarrow>
    key \<in> set (List.map_filter aj_active_dedupe_key db)"
  by (induction db) (auto simp: map_filter_simps split: option.splits)

lemma unique_key:
  "distinct (List.map_filter aj_active_dedupe_key db) \<Longrightarrow> k \<in> set db \<Longrightarrow> j \<in> set db \<Longrightarrow>
     aj_active_dedupe_key k = Some key \<Longrightarrow> aj_active_dedupe_key j = Some key \<Longrightarrow> k = j"
proof (induction db)
  case (Cons x xs)
  then have d: "distinct (List.map_filter aj_active_dedupe_key xs)"
    "aj_active_dedupe_key x = Some key \<Longrightarrow> key \<notin> set (List.map_filter aj_active_dedupe_key xs)"
    by (simp_all add: map_filter_simps split: option.splits)
  from Cons.prems(2,3) consider "k = x" "j = x" | "k = x" "j \<in> set xs" | "k \<in> set xs" "j = x"
    | "k \<in> set xs" "j \<in> set xs" by auto
  then show ?case
  proof cases
    case 2
    then show ?thesis using d(2) key_mem Cons.prems(4,5) by blast
  next
    case 3
    then show ?thesis using d(2) key_mem Cons.prems(4,5) by blast
  next
    case 4
    then show ?thesis using Cons.IH d(1) Cons.prems(4,5) by blast
  qed simp
qed simp

lemma wf_with_key_active:
  assumes "wf_job j" "aj_active_dedupe_key j = Some key"
  shows "active_job key j"
proof -
  have "\<not> terminal j" and "phase_of j \<noteq> Unknown" using assms unfolding wf_job_def by fastforce+
  then have "aj_status j = st_pending \<or> aj_status j = st_running"
    unfolding phase_of_def terminal_def by presburger
  with assms(2) show ?thesis by (simp add: active_job_def)
qed

lemma find_unique:
  assumes "x \<in> set xs" "P x" "\<And>y. y \<in> set xs \<Longrightarrow> P y \<Longrightarrow> y = x"
  shows "List.find P xs = Some x"
proof (cases "List.find P xs")
  case None
  then show ?thesis using assms(1,2) unfolding find_None_iff by blast
next
  case (Some y)
  then have "y \<in> set xs" "P y" unfolding find_Some_iff by auto
  with Some assms(3) show ?thesis by blast
qed

lemma find_active:
  assumes "jobs_inv db" "j \<in> set db" "aj_active_dedupe_key j = Some key"
  shows "List.find (active_job key) db = Some j"
proof (rule find_unique [OF assms(2)])
  have "wf_job j" using assms(1,2) unfolding jobs_inv_def by blast
  then show "active_job key j" using assms(3) by (rule wf_with_key_active)
next
  have d: "distinct (List.map_filter aj_active_dedupe_key db)" using assms(1) unfolding jobs_inv_def by blast
  fix k assume k: "k \<in> set db" "active_job key k"
  from k(2) have "aj_active_dedupe_key k = Some key" by (simp add: active_job_def)
  then show "k = j" by (rule unique_key [OF d k(1) assms(2) _ assms(3)])
qed

text \<open>Enqueueing is idempotent per request fingerprint: in a well-formed table it never violates the
  unique constraint; an active job with the key is returned unchanged, otherwise a fresh pending job is
  added, and enqueueing the same request again returns that job without adding a row.\<close>

theorem enqueue_deduplicates:
  assumes "jobs_inv db" and "i \<notin> aj_id ` set db"
  shows "\<exists>j. snd (enqueue_analysis_job i doc key now db) = Inr j \<and>
    j \<in> set (fst (enqueue_analysis_job i doc key now db)) \<and> active_job key j \<and>
    enqueue_analysis_job i' doc key now' (fst (enqueue_analysis_job i doc key now db)) =
      (fst (enqueue_analysis_job i doc key now db), Inr j)"
proof (cases "\<exists>j\<in>set db. aj_active_dedupe_key j = Some key")
  case True
  then obtain j where j: "j \<in> set db" "aj_active_dedupe_key j = Some key" by blast
  note f = find_active [OF assms(1) j]
  moreover have "active_job key j" using f by (auto simp: find_Some_iff)
  ultimately show ?thesis using j(1) by (simp add: enqueue_analysis_job_def)
next
  case False
  then have "List.find (active_job key) db = None" by (auto simp: find_None_iff active_job_def)
  with False have e: "enqueue_analysis_job i doc key now db =
      (db @ [new_job i doc key now], Inr (new_job i doc key now))"
    by (auto simp: enqueue_analysis_job_def list_ex_iff)
  have "jobs_inv (db @ [new_job i doc key now])"
    using enqueue_inv [OF assms, of doc key now] e by simp
  from find_active [OF this, of "new_job i doc key now" key] have
    "List.find (active_job key) (db @ [new_job i doc key now]) = Some (new_job i doc key now)"
    by (simp add: new_job_def)
  with e show ?thesis by (simp add: enqueue_analysis_job_def active_job_def new_job_def)
qed

theorem enqueue_deduplicates_witness:
  "\<exists>j. enqueue_analysis_job (lit ''j2'') (lit ''d'') (lit ''key'') 9
      (fst (enqueue_analysis_job (lit ''j1'') (lit ''d'') (lit ''key'') 0 [])) =
    (fst (enqueue_analysis_job (lit ''j1'') (lit ''d'') (lit ''key'') 0 []), Inr j)"
proof -
  have "jobs_inv []" by (simp add: jobs_inv_def map_filter_simps)
  from enqueue_deduplicates [OF this, of "lit ''j1''" "lit ''d''" "lit ''key''" 0 "lit ''j2''" 9]
  show ?thesis by auto
qed

end
