(* ===== verification/Py_Codec.thy ===== *)
theory Py_Codec
  imports Py_Values
begin

text \<open>
  The byte encodings of the standard library: strict UTF-8 (\<open>str.encode\<close>, \<open>bytes.decode\<close>)
  and base64 (\<open>b64encode\<close>, \<open>b64decode(validate=True)\<close> as Python 3.11 implements it), with
  the interface every encoder/decoder pair obeys.
\<close>

text \<open>When a computation that can raise succeeds, by the shape of its last step.\<close>

named_theorems ok_iff

lemma option_ok_iff [ok_iff]:
  "(case x of None \<Rightarrow> Inl e | Some y \<Rightarrow> f y) = Inr z \<longleftrightarrow> (\<exists>y. x = Some y \<and> f y = Inr z)"
  by (cases x) auto

lemma if_ok_iff [ok_iff]: "(if b then Inl e else r) = Inr z \<longleftrightarrow> \<not> b \<and> r = Inr z"
  by simp

lemma sum_ok_iff [ok_iff]: "(case x of Inl e \<Rightarrow> Inl (g e) | Inr y \<Rightarrow> f y) = Inr z \<longleftrightarrow> (\<exists>y. x = Inr y \<and> f y = Inr z)"
  by (cases x) auto

declare bind_Inr_iff [ok_iff]

subsection \<open>The interface\<close>

locale codec =
  fixes enc :: "'a \<Rightarrow> 'b" and dec :: "'b \<Rightarrow> 'a option" and ok :: "'a \<Rightarrow> bool"
  assumes dec_enc: "ok x \<Longrightarrow> dec (enc x) = Some x"
begin

lemma enc_inject: "ok x \<Longrightarrow> ok y \<Longrightarrow> enc x = enc y \<longleftrightarrow> x = y"
  using dec_enc by (metis option.inject)

lemma enc_inj_on: "inj_on enc (Collect ok)"
  by (rule inj_onI) (simp add: enc_inject)

end

subsection \<open>UTF-8\<close>

text \<open>A text that can be encoded holds Unicode scalar values only; a surrogate makes \<open>encode\<close> raise.\<close>

definition is_scalar_value :: "int \<Rightarrow> bool" where
  "is_scalar_value c \<longleftrightarrow> 0 \<le> c \<and> c < 1114112 \<and> \<not> (55296 \<le> c \<and> c < 57344)"

definition is_encodable :: "pystr \<Rightarrow> bool" where
  "is_encodable s = list_all is_scalar_value s"

definition encode_utf8 :: "pystr \<Rightarrow> bytes result" where
  "encode_utf8 s =
     (if is_encodable s then Inr (utf8_encode s)
      else Inl (OtherError (lit ''UnicodeEncodeError'') (lit ''surrogates not allowed'')))"

definition is_cont :: "int \<Rightarrow> bool" where
  "is_cont b \<longleftrightarrow> 128 \<le> b \<and> b < 192"

text \<open>The decoder on byte values; the second byte of a sequence excludes overlong forms and surrogates.\<close>

fun utf8_decode_ints :: "int list \<Rightarrow> pystr option" where
  "utf8_decode_ints [] = Some []"
| "utf8_decode_ints (a # bs) =
     (if a < 128 then map_option ((#) a) (utf8_decode_ints bs)
      else if a < 194 then None
      else if a < 224 then
        (case bs of
           b # r \<Rightarrow>
             if is_cont b then map_option ((#) ((a - 192) * 64 + (b - 128))) (utf8_decode_ints r)
             else None
         | _ \<Rightarrow> None)
      else if a < 240 then
        (case bs of
           b # c # r \<Rightarrow>
             if is_cont b \<and> is_cont c \<and> (a = 224 \<longrightarrow> 160 \<le> b) \<and> (a = 237 \<longrightarrow> b < 160) then
               map_option ((#) ((a - 224) * 4096 + (b - 128) * 64 + (c - 128))) (utf8_decode_ints r)
             else None
         | _ \<Rightarrow> None)
      else if a < 245 then
        (case bs of
           b # c # d # r \<Rightarrow>
             if is_cont b \<and> is_cont c \<and> is_cont d \<and> (a = 240 \<longrightarrow> 144 \<le> b) \<and> (a = 244 \<longrightarrow> b < 144) then
               map_option
                 ((#) ((a - 240) * 262144 + (b - 128) * 4096 + (c - 128) * 64 + (d - 128)))
                 (utf8_decode_ints r)
             else None
         | _ \<Rightarrow> None)
      else None)"

definition utf8_decode :: "bytes \<Rightarrow> pystr option" where
  "utf8_decode bs = utf8_decode_ints (map uint bs)"

lemma byte_range: "0 \<le> uint (b :: 8 word)" "uint (b :: 8 word) < 256"
  using uint_lt2p [of b] by simp_all

definition utf8_ints :: "int \<Rightarrow> int list" where
  "utf8_ints c =
     (if c < 128 then [c]
      else if c < 2048 then [192 + c div 64, 128 + c mod 64]
      else if c < 65536 then [224 + c div 4096, 128 + c div 64 mod 64, 128 + c mod 64]
      else [240 + c div 262144, 128 + c div 4096 mod 64, 128 + c div 64 mod 64, 128 + c mod 64])"

lemma uint_byte: "0 \<le> k \<Longrightarrow> k < 256 \<Longrightarrow> uint (word_of_int k :: 8 word) = k"
  by (simp add: uint_word_of_int_eq take_bit_eq_mod)

lemma cont_byte: "0 \<le> 128 + x mod 64" "128 + x mod 64 < (256 :: int)"
  using pos_mod_sign [of 64 x] pos_mod_bound [of 64 x] by linarith+

lemma is_cont_byte: "is_cont (128 + x mod 64)"
  using pos_mod_sign [of 64 x] pos_mod_bound [of 64 x] by (simp add: is_cont_def)

lemma scalar_value_cases:
  assumes "is_scalar_value c"
  obtains "0 \<le> c" "c < 128" "utf8_ints c = [c]"
  | "128 \<le> c" "2 \<le> c div 64" "c div 64 < 32" "utf8_ints c = [192 + c div 64, 128 + c mod 64]"
  | "2048 \<le> c" "c < 65536" "0 \<le> c div 4096" "c div 4096 < 16"
    "utf8_ints c = [224 + c div 4096, 128 + c div 64 mod 64, 128 + c mod 64]"
  | "65536 \<le> c" "c < 1114112" "0 \<le> c div 262144" "c div 262144 < 5"
    "utf8_ints c = [240 + c div 262144, 128 + c div 4096 mod 64, 128 + c div 64 mod 64, 128 + c mod 64]"
proof -
  have c: "0 \<le> c" "c < 1114112" using assms by (auto simp: is_scalar_value_def)
  consider "c < 128" | "128 \<le> c" "c < 2048" | "2048 \<le> c" "c < 65536" | "65536 \<le> c" by linarith
  then show thesis
  proof cases
    case 1
    then show thesis using c by (intro that(1)) (simp_all add: utf8_ints_def)
  next
    case 2
    have "2 \<le> c div 64" "c div 64 < 32" using 2 by linarith+
    then show thesis using 2 by (intro that(2)) (simp_all add: utf8_ints_def)
  next
    case 3
    have "0 \<le> c div 4096" "c div 4096 < 16" using 3 by linarith+
    then show thesis using 3 by (intro that(3)) (simp_all add: utf8_ints_def)
  next
    case 4
    have "0 \<le> c div 262144" "c div 262144 < 5" using 4 c by linarith+
    then show thesis using 4 c by (intro that(4)) (simp_all add: utf8_ints_def)
  qed
qed

lemma utf8_ints_range:
  assumes "is_scalar_value c" "b \<in> set (utf8_ints c)"
  shows "0 \<le> b \<and> b < 256"
  using assms(1)
proof (cases rule: scalar_value_cases)
  case 1
  then show ?thesis using assms(2) by simp
next
  case 2
  then have "b = 192 + c div 64 \<or> b = 128 + c mod 64" using assms(2) by simp
  then show ?thesis using 2 cont_byte by (elim disjE) simp_all
next
  case 3
  then have "b = 224 + c div 4096 \<or> b = 128 + c div 64 mod 64 \<or> b = 128 + c mod 64" using assms(2) by simp
  then show ?thesis using 3 cont_byte by (elim disjE) simp_all
next
  case 4
  then have "b = 240 + c div 262144 \<or> b = 128 + c div 4096 mod 64 \<or> b = 128 + c div 64 mod 64 \<or>
    b = 128 + c mod 64" using assms(2) by simp
  then show ?thesis using 4 cont_byte by (elim disjE) simp_all
qed

lemma map_uint_utf8_char: "is_scalar_value c \<Longrightarrow> map uint (utf8_char c) = utf8_ints c"
  unfolding utf8_char_def utf8_ints_def [symmetric] map_map
  by (rule map_idI) (use utf8_ints_range [of c] uint_byte in \<open>simp del: uint_word_of_int\<close>)

lemma utf8_digits:
  "c div 64 * 64 + c mod 64 = (c :: int)"
  "c div 4096 * 64 + c div 64 mod 64 = c div 64"
  "c div 262144 * 64 + c div 4096 mod 64 = c div 4096"
proof -
  have n: "(64 * 64 :: int) = 4096" "(4096 * 64 :: int) = 262144" by simp_all
  have "c div (64 * 64) = c div 64 div 64" "c div (4096 * 64) = c div 4096 div 64"
    by (rule zdiv_zmult2_eq, simp)+
  then have "c div 4096 = c div 64 div 64" "c div 262144 = c div 4096 div 64" unfolding n by this
  moreover note div_mult_mod_eq [of c 64] div_mult_mod_eq [of "c div 64" 64] div_mult_mod_eq [of "c div 4096" 64]
  ultimately show "c div 64 * 64 + c mod 64 = c" "c div 4096 * 64 + c div 64 mod 64 = c div 64"
    "c div 262144 * 64 + c div 4096 mod 64 = c div 4096"
    by (simp_all only:)
qed

lemma utf8_decode_char:
  assumes "is_scalar_value c"
  shows "utf8_decode_ints (utf8_ints c @ bs) = map_option ((#) c) (utf8_decode_ints bs)"
  using assms
proof (cases rule: scalar_value_cases)
  case 1
  then show ?thesis by simp
next
  case 2
  define h l where "h = c div 64" and "l = 128 + c mod 64"
  have "h * 64 + (l - 128) = c" "is_cont l" "2 \<le> h" "h < 32"
    using 2 utf8_digits(1) [of c] is_cont_byte [of c] by (simp_all add: h_def l_def)
  then show ?thesis using 2 by (simp add: h_def [symmetric] l_def [symmetric])
next
  case 3
  define h m l where "h = c div 4096" and "m = 128 + c div 64 mod 64" and "l = 128 + c mod 64"
  have e: "m - 128 = c div 64 mod 64" "l - 128 = c mod 64" by (simp_all add: m_def l_def)
  obtain d where d: "d * 64 + (l - 128) = c" "h * 64 + (m - 128) = d"
    unfolding e h_def using utf8_digits(1,2) [of c] by blast
  then have v: "h * 4096 + (m - 128) * 64 + (l - 128) = c" by (simp add: algebra_simps)
  have k: "is_cont m" "is_cont l" "0 \<le> h" "h < 16"
    using 3 is_cont_byte by (simp_all add: h_def m_def l_def)
  then have "128 \<le> m" "m < 192" "128 \<le> l" "l < 192" by (simp_all add: is_cont_def)
  then have "h = 0 \<longrightarrow> 160 \<le> m" "h = 13 \<longrightarrow> m < 160"
    using v 3(1) assms by (auto simp: is_scalar_value_def)
  then show ?thesis using 3(5) k v by (simp add: h_def [symmetric] m_def [symmetric] l_def [symmetric])
next
  case 4
  define h n m l where "h = c div 262144" and "n = 128 + c div 4096 mod 64"
    and "m = 128 + c div 64 mod 64" and "l = 128 + c mod 64"
  have e: "n - 128 = c div 4096 mod 64" "m - 128 = c div 64 mod 64" "l - 128 = c mod 64"
    by (simp_all add: n_def m_def l_def)
  obtain d k where d: "d * 64 + (l - 128) = c" "k * 64 + (m - 128) = d" "h * 64 + (n - 128) = k"
    unfolding e h_def using utf8_digits [of c] by blast
  then have v: "h * 262144 + (n - 128) * 4096 + (m - 128) * 64 + (l - 128) = c" by (simp add: algebra_simps)
  have k: "is_cont n" "is_cont m" "is_cont l" "0 \<le> h" "h < 5"
    using 4 is_cont_byte by (simp_all add: h_def n_def m_def l_def)
  then have "128 \<le> n" "n < 192" "128 \<le> m" "m < 192" "128 \<le> l" "l < 192" by (simp_all add: is_cont_def)
  then have "h = 0 \<longrightarrow> 144 \<le> n" "h = 4 \<longrightarrow> n < 144" using v 4(1,2) by auto
  then show ?thesis using 4(5) k v
    by (simp add: h_def [symmetric] n_def [symmetric] m_def [symmetric] l_def [symmetric])
qed

lemma utf8_roundtrip: "is_encodable s \<Longrightarrow> utf8_decode (utf8_encode s) = Some s"
  unfolding utf8_decode_def utf8_encode_def is_encodable_def
  by (induction s) (auto simp: map_uint_utf8_char utf8_decode_char)

interpretation utf8: codec utf8_encode utf8_decode is_encodable
  by unfold_locales (rule utf8_roundtrip)

subsection \<open>Base64\<close>

definition b64_char :: "int \<Rightarrow> int" where
  "b64_char v =
     (if v < 26 then 65 + v else if v < 52 then 71 + v else if v < 62 then v - 4
      else if v = 62 then 43 else 47)"

definition b64_value :: "int \<Rightarrow> int option" where
  "b64_value c =
     (if 65 \<le> c \<and> c \<le> 90 then Some (c - 65) else if 97 \<le> c \<and> c \<le> 122 then Some (c - 71)
      else if 48 \<le> c \<and> c \<le> 57 then Some (c + 4) else if c = 43 then Some 62
      else if c = 47 then Some 63 else None)"

fun b64_encode_ints :: "int list \<Rightarrow> pystr" where
  "b64_encode_ints [] = []"
| "b64_encode_ints [a] = [b64_char (a div 4), b64_char (a mod 4 * 16), 61, 61]"
| "b64_encode_ints [a, b] =
     [b64_char (a div 4), b64_char (a mod 4 * 16 + b div 16), b64_char (b mod 16 * 4), 61]"
| "b64_encode_ints (a # b # c # r) =
     b64_char (a div 4) # b64_char (a mod 4 * 16 + b div 16) #
     b64_char (b mod 16 * 4 + c div 64) # b64_char (c mod 64) # b64_encode_ints r"

definition b64encode :: "bytes \<Rightarrow> pystr" where
  "b64encode bs = b64_encode_ints (map uint bs)"

text \<open>
  The loop of \<open>binascii.a2b_base64(strict_mode=True)\<close>: position in the group of four, bits left
  over, padding seen in this group, whether any padding was seen.
\<close>

fun b64_loop :: "nat \<Rightarrow> int \<Rightarrow> nat \<Rightarrow> bool \<Rightarrow> pystr \<Rightarrow> int list option" where
  "b64_loop pos left pads started [] = (if pos = 0 then Some [] else None)"
| "b64_loop pos left pads started (c # s) =
     (if c = 61 then
        (if 2 \<le> pos \<and> 4 \<le> pos + pads + 1 then (if s = [] then Some [] else None)
         else b64_loop pos left (if 2 \<le> pos then pads + 1 else pads) True s)
      else
        (case b64_value c of
           None \<Rightarrow> None
         | Some v \<Rightarrow>
             if started then None
             else if pos = 0 then b64_loop 1 v 0 False s
             else if pos = 1 then
               map_option ((#) (left * 4 + v div 16)) (b64_loop 2 (v mod 16) 0 False s)
             else if pos = 2 then
               map_option ((#) (left * 16 + v div 4)) (b64_loop 3 (v mod 4) 0 False s)
             else map_option ((#) (left * 64 + v)) (b64_loop 0 0 0 False s)))"

definition b64decode :: "pystr \<Rightarrow> bytes option" where
  "b64decode s =
     (if startswith s [61] then None
      else map_option (map word_of_int) (b64_loop 0 0 0 False s))"

lemma b64_value_char: "0 \<le> v \<Longrightarrow> v < 64 \<Longrightarrow> b64_value (b64_char v) = Some v"
  by (auto simp: b64_value_def b64_char_def)

lemma b64_char_not_pad: "0 \<le> v \<Longrightarrow> v < 64 \<Longrightarrow> b64_char v \<noteq> 61"
  by (auto simp: b64_char_def)

lemma b64_loop_char:
  assumes "0 \<le> v" "v < 64"
  shows "b64_loop 0 left 0 False (b64_char v # s) = b64_loop 1 v 0 False s"
    "b64_loop (Suc 0) left 0 False (b64_char v # s) =
       map_option ((#) (left * 4 + v div 16)) (b64_loop 2 (v mod 16) 0 False s)"
    "b64_loop 2 left 0 False (b64_char v # s) =
       map_option ((#) (left * 16 + v div 4)) (b64_loop 3 (v mod 4) 0 False s)"
    "b64_loop 3 left 0 False (b64_char v # s) = map_option ((#) (left * 64 + v)) (b64_loop 0 0 0 False s)"
  using assms by (simp_all add: b64_value_char b64_char_not_pad)

lemma b64_pads: "b64_loop 3 left 0 False [61] = Some []" "b64_loop 2 left 0 False [61, 61] = Some []"
  by simp_all

lemma digit_pair:
  assumes "0 \<le> u" "u < (n :: int)"
  shows "(y * n + u) div n = y" "(y * n + u) mod n = u"
  using assms by simp_all

lemma div_byte:
  assumes "0 \<le> a" "a < (256 :: int)"
  shows "0 \<le> a div 4 \<and> a div 4 < 64" "0 \<le> a div 16 \<and> a div 16 < 16" "0 \<le> a div 64 \<and> a div 64 < 4"
  using assms by linarith+

lemma mod_byte: "0 \<le> a mod 4 \<and> a mod 4 < 4" "0 \<le> a mod 16 \<and> a mod 16 < 16" "0 \<le> a mod 64 \<and> a mod 64 < (64 :: int)"
  by simp_all

lemma b64_first:
  assumes "0 \<le> a" "a < 256" "0 \<le> b" "b < (256 :: int)"
  shows "0 \<le> a div 4" "a div 4 < 64" "0 \<le> a mod 4 * 16 + b div 16" "a mod 4 * 16 + b div 16 < 64"
    "a div 4 * 4 + (a mod 4 * 16 + b div 16) div 16 = a"
    "(a mod 4 * 16 + b div 16) mod 16 = b div 16"
proof -
  define y u where "y = a mod 4" and "u = b div 16"
  have "0 \<le> y" "y < 4" "0 \<le> u" "u < 16" using mod_byte(1) div_byte(2) assms by (simp_all add: y_def u_def)
  then show "0 \<le> a div 4" "a div 4 < 64" "0 \<le> a mod 4 * 16 + b div 16" "a mod 4 * 16 + b div 16 < 64"
    "a div 4 * 4 + (a mod 4 * 16 + b div 16) div 16 = a"
    "(a mod 4 * 16 + b div 16) mod 16 = b div 16"
    using div_byte(1) [OF assms(1,2)] digit_pair [of u 16 y] div_mult_mod_eq [of a 4]
    unfolding y_def [symmetric] u_def [symmetric] by simp_all
qed

lemma b64_second:
  assumes "0 \<le> b" "b < 256" "0 \<le> c" "c < (256 :: int)"
  shows "0 \<le> b mod 16 * 4 + c div 64" "b mod 16 * 4 + c div 64 < 64"
    "b div 16 * 16 + (b mod 16 * 4 + c div 64) div 4 = b"
    "(b mod 16 * 4 + c div 64) mod 4 = c div 64"
proof -
  define y u where "y = b mod 16" and "u = c div 64"
  have "0 \<le> y" "y < 16" "0 \<le> u" "u < 4" using mod_byte(2) div_byte(3) assms by (simp_all add: y_def u_def)
  then show "0 \<le> b mod 16 * 4 + c div 64" "b mod 16 * 4 + c div 64 < 64"
    "b div 16 * 16 + (b mod 16 * 4 + c div 64) div 4 = b"
    "(b mod 16 * 4 + c div 64) mod 4 = c div 64"
    using digit_pair [of u 4 y] div_mult_mod_eq [of b 16]
    unfolding y_def [symmetric] u_def [symmetric] by simp_all
qed

lemma b64_third: "0 \<le> c mod 64" "c mod 64 < 64" "c div 64 * 64 + c mod 64 = (c :: int)"
  by simp_all

lemma zero_byte: "0 \<le> (0 :: int)" "0 < (256 :: int)"
  by simp_all

lemma b64_loop_encode:
  "list_all (\<lambda>b. 0 \<le> b \<and> b < 256) bs \<Longrightarrow> b64_loop 0 left 0 False (b64_encode_ints bs) = Some bs"
proof (induction bs arbitrary: left rule: b64_encode_ints.induct)
  case 1
  show ?case by simp
next
  case (2 a)
  then have a: "0 \<le> a" "a < 256" by simp_all
  note b64_first [OF a zero_byte, unfolded div_0 add_0_right]
  then show ?case by (simp only: b64_encode_ints.simps b64_loop_char b64_pads option.map One_nat_def)
next
  case (3 a b)
  then have a: "0 \<le> a" "a < 256" "0 \<le> b" "b < 256" by simp_all
  note b64_first [OF a] b64_second [OF a(3,4) zero_byte, unfolded div_0 add_0_right]
  then show ?case by (simp only: b64_encode_ints.simps b64_loop_char b64_pads option.map One_nat_def)
next
  case (4 a b c r)
  then have a: "0 \<le> a" "a < 256" "0 \<le> b" "b < 256" "0 \<le> c" "c < 256" by simp_all
  have i: "b64_loop 0 0 0 False (b64_encode_ints r) = Some r" using 4 by simp
  note b64_first [OF a(1-4)] b64_second [OF a(3-6)] b64_third [of c]
  with i show ?case by (simp only: b64_encode_ints.simps b64_loop_char option.map One_nat_def)
qed

lemma b64_roundtrip: "b64decode (b64encode bs) = Some bs"
proof -
  have "b64_loop 0 0 0 False (b64_encode_ints (map uint bs)) = Some (map uint bs)"
    by (rule b64_loop_encode) (simp add: list_all_iff byte_range)
  moreover have "\<not> startswith (b64_encode_ints (map uint bs)) [61]"
  proof (cases bs)
    case (Cons b r)
    obtain t where "b64_encode_ints (map uint bs) = b64_char (uint b div 4) # t"
      unfolding Cons by (cases r; cases "tl r") simp_all
    then show ?thesis using b64_char_not_pad [of "uint b div 4"] div_byte(1) [OF byte_range [of b]] by simp
  qed simp
  ultimately show ?thesis
    by (simp add: b64decode_def b64encode_def comp_def)
qed

interpretation base64: codec b64encode b64decode "\<lambda>_. True"
  by unfold_locales (rule b64_roundtrip)

end
