(* ===== verification/Py_Json.thy ===== *)
theory Py_Json
  imports Py_Codec
begin

text \<open>
  \<open>json.dumps(v, sort_keys=True, ensure_ascii=False, separators=(",", ":"))\<close> and
  \<open>json.loads\<close> of a text.  The parser keeps the members of an object in the order of the text,
  duplicates included, as an \<open>object_pairs_hook\<close> sees them; \<open>json_loads\<close> then builds
  the dictionary.  A number with a fraction or an exponent is kept as the decimal it denotes; no
  caller here reads one.  The fuel of the parser is the length of the text plus one, and each nested
  call consumes a character.
\<close>

subsection \<open>Printing\<close>

fun json_compact :: "pyval \<Rightarrow> pystr" where
  "json_compact PNone = lit ''null''"
| "json_compact (PBool b) = (if b then lit ''true'' else lit ''false'')"
| "json_compact (PInt i) = str_int i"
| "json_compact (PFloat f) = json_float f"
| "json_compact (PStr s) = json_string s"
| "json_compact (PList xs) = [91] @ str_join [44] (map json_compact xs) @ [93]"
| "json_compact (PDict d) =
     [123] @ str_join [44]
       (map snd (sort_key fst (map (\<lambda>(k, v). (k, json_string k @ [58] @ json_compact v)) d)))
     @ [125]"

subsection \<open>Reading\<close>

definition is_json_space :: "int \<Rightarrow> bool" where
  "is_json_space c \<longleftrightarrow> c = 32 \<or> c = 9 \<or> c = 10 \<or> c = 13"

definition skip_space :: "pystr \<Rightarrow> pystr" where
  "skip_space s = dropWhile is_json_space s"

definition hex_value :: "int \<Rightarrow> int option" where
  "hex_value c =
     (if 48 \<le> c \<and> c \<le> 57 then Some (c - 48) else if 97 \<le> c \<and> c \<le> 102 then Some (c - 87)
      else if 65 \<le> c \<and> c \<le> 70 then Some (c - 55) else None)"

fun hex4 :: "pystr \<Rightarrow> int option" where
  "hex4 (a # b # c # d # r) =
     (case (hex_value a, hex_value b, hex_value c, hex_value d) of
        (Some w, Some x, Some y, Some z) \<Rightarrow> Some (w * 4096 + x * 256 + y * 16 + z)
      | _ \<Rightarrow> None)"
| "hex4 r = None"

definition simple_escape :: "int \<Rightarrow> int option" where
  "simple_escape c =
     map_of [(34, 34), (92, 92), (47, 47), (98, 8), (102, 12), (110, 10), (114, 13), (116, 9)] c"

text \<open>The low half of a surrogate pair that follows an escaped high half.\<close>

definition low_surrogate :: "pystr \<Rightarrow> int option" where
  "low_surrogate s =
     (if startswith s [92, 117] then
        (case hex4 (drop 2 s) of
           Some l \<Rightarrow> if 56320 \<le> l \<and> l \<le> 57343 then Some l else None
         | None \<Rightarrow> None)
      else None)"

function json_str :: "pystr \<Rightarrow> (pystr \<times> pystr) option" where
  "json_str [] = None"
| "json_str (c # s) =
     (if c = 34 then Some ([], s)
      else if c = 92 then
        (case s of
           [] \<Rightarrow> None
         | e # r \<Rightarrow>
             if e = 117 then
               (case hex4 r of
                  None \<Rightarrow> None
                | Some u \<Rightarrow>
                    (case (if 55296 \<le> u \<and> u \<le> 56319 then low_surrogate (drop 4 r) else None) of
                       Some l \<Rightarrow>
                         map_option (apfst ((#) (65536 + (u - 55296) * 1024 + (l - 56320))))
                           (json_str (drop 10 r))
                     | None \<Rightarrow> map_option (apfst ((#) u)) (json_str (drop 4 r))))
             else
               (case simple_escape e of
                  None \<Rightarrow> None
                | Some x \<Rightarrow> map_option (apfst ((#) x)) (json_str r)))
      else if c < 32 then None
      else map_option (apfst ((#) c)) (json_str s))"
  by pat_completeness auto
termination by (relation "measure length") auto

definition exponent_part :: "pystr \<Rightarrow> (int \<times> pystr) option" where
  "exponent_part s =
     (case s of
        [] \<Rightarrow> None
      | e # r \<Rightarrow>
          if e = 101 \<or> e = 69 then
            (let neg = startswith r [45];
                 r1 = (if startswith r [45] \<or> startswith r [43] then drop 1 r else r);
                 ds = takeWhile is_ascii_digit r1
             in if ds = [] then None
                else Some ((if neg then - 1 else 1) * int (value_of_digits ds), dropWhile is_ascii_digit r1))
          else None)"

definition json_number :: "pystr \<Rightarrow> (pyval \<times> pystr) option" where
  "json_number s =
     (let neg = startswith s [45];
          s1 = (if neg then drop 1 s else s);
          ds = (if startswith s1 [48] then [48] else takeWhile is_ascii_digit s1);
          r = drop (length ds) s1;
          fs = (if startswith r [46] then takeWhile is_ascii_digit (drop 1 r) else []);
          r2 = (if fs = [] then r else drop (Suc (length fs)) r);
          sign = (if neg then - 1 else 1 :: int)
      in if ds = [] then None
         else
           case exponent_part r2 of
             None \<Rightarrow>
               if fs = [] then Some (PInt (sign * int (value_of_digits ds)), r2)
               else Some (PFloat (Dec (sign * int (value_of_digits (ds @ fs))) (- int (length fs))), r2)
           | Some (e, r3) \<Rightarrow>
               Some (PFloat (Dec (sign * int (value_of_digits (ds @ fs))) (e - int (length fs))), r3))"

definition json_word :: "pystr \<Rightarrow> (pyval \<times> pystr) option" where
  "json_word s =
     (if startswith s (lit ''null'') then Some (PNone, drop 4 s)
      else if startswith s (lit ''true'') then Some (PBool True, drop 4 s)
      else if startswith s (lit ''false'') then Some (PBool False, drop 5 s)
      else if startswith s (lit ''NaN'') then Some (PFloat NaN, drop 3 s)
      else if startswith s (lit ''Infinity'') then Some (PFloat PosInf, drop 8 s)
      else if startswith s (lit ''-Infinity'') then Some (PFloat NegInf, drop 9 s)
      else json_number s)"

fun json_value :: "nat \<Rightarrow> pystr \<Rightarrow> (pyval \<times> pystr) option"
and json_elements :: "nat \<Rightarrow> pystr \<Rightarrow> (pyval list \<times> pystr) option"
and json_members :: "nat \<Rightarrow> pystr \<Rightarrow> ((pystr \<times> pyval) list \<times> pystr) option" where
  "json_value 0 s = None"
| "json_value (Suc n) s =
     (case s of
        [] \<Rightarrow> None
      | c # r \<Rightarrow>
          if c = 34 then map_option (apfst PStr) (json_str r)
          else if c = 123 then
            (if startswith (skip_space r) [125] then Some (PDict [], drop 1 (skip_space r))
             else map_option (apfst PDict) (json_members n (skip_space r)))
          else if c = 91 then
            (if startswith (skip_space r) [93] then Some (PList [], drop 1 (skip_space r))
             else map_option (apfst PList) (json_elements n (skip_space r)))
          else json_word s)"
| "json_elements 0 s = None"
| "json_elements (Suc n) s =
     (case json_value n s of
        None \<Rightarrow> None
      | Some (v, r) \<Rightarrow>
          (case skip_space r of
             [] \<Rightarrow> None
           | c # r1 \<Rightarrow>
               if c = 44 then map_option (apfst ((#) v)) (json_elements n (skip_space r1))
               else if c = 93 then Some ([v], r1) else None))"
| "json_members 0 s = None"
| "json_members (Suc n) s =
     (if \<not> startswith s [34] then None
      else
        (case json_str (drop 1 s) of
           None \<Rightarrow> None
         | Some (k, r) \<Rightarrow>
             (case skip_space r of
                [] \<Rightarrow> None
              | c # r1 \<Rightarrow>
                  if c \<noteq> 58 then None
                  else
                    (case json_value n (skip_space r1) of
                       None \<Rightarrow> None
                     | Some (v, r2) \<Rightarrow>
                         (case skip_space r2 of
                            [] \<Rightarrow> None
                          | d # r3 \<Rightarrow>
                              if d = 44 then
                                map_option (apfst ((#) (k, v))) (json_members n (skip_space r3))
                              else if d = 125 then Some ([(k, v)], r3) else None)))))"

definition json_parse :: "pystr \<Rightarrow> pyval option" where
  "json_parse s =
     (if startswith s [65279] then None
      else
        (case json_value (length s + 1) (skip_space s) of
           Some (v, r) \<Rightarrow> if skip_space r = [] then Some v else None
         | None \<Rightarrow> None))"

text \<open>\<open>dict(pairs)\<close> at every level.\<close>

fun build_dicts :: "pyval \<Rightarrow> pyval" where
  "build_dicts (PList xs) = PList (map build_dicts xs)"
| "build_dicts (PDict d) = PDict (fold (\<lambda>(k, v). put k v) (map (\<lambda>(k, v). (k, build_dicts v)) d) [])"
| "build_dicts v = v"

definition json_loads :: "pystr \<Rightarrow> pyval option" where
  "json_loads s = map_option build_dicts (json_parse s)"

fun has_duplicate_key :: "pyval \<Rightarrow> bool" where
  "has_duplicate_key (PList xs) = list_ex has_duplicate_key xs"
| "has_duplicate_key (PDict d) =
     (\<not> distinct (map fst d) \<or> list_ex (\<lambda>(k, v). has_duplicate_key v) d)"
| "has_duplicate_key v = False"

subsection \<open>Printing and reading again\<close>

text \<open>Values without floats, their dictionaries sorted by key, their texts of code points.\<close>

definition is_json_text :: "pystr \<Rightarrow> bool" where
  "is_json_text s = list_all (\<lambda>c. 0 \<le> c) s"

fun json_plain :: "pyval \<Rightarrow> bool" where
  "json_plain (PFloat f) = False"
| "json_plain (PStr s) = is_json_text s"
| "json_plain (PList xs) = list_all json_plain xs"
| "json_plain (PDict d) =
     (sorted_wrt (<) (map fst d) \<and> list_all (\<lambda>(k, v). is_json_text k \<and> json_plain v) d)"
| "json_plain v = True"

fun json_cost :: "pyval \<Rightarrow> nat" where
  "json_cost (PList xs) = 1 + sum_list (map (\<lambda>v. Suc (json_cost v)) xs)"
| "json_cost (PDict d) = 1 + sum_list (map (\<lambda>(k, v). Suc (json_cost v)) d)"
| "json_cost v = 1"

definition delimited :: "pystr \<Rightarrow> bool" where
  "delimited r \<longleftrightarrow> (case r of [] \<Rightarrow> True | c # s \<Rightarrow> c = 44 \<or> c = 93 \<or> c = 125)"

lemma delimited_simps [simp]: "delimited []" "delimited (c # s) \<longleftrightarrow> c = 44 \<or> c = 93 \<or> c = 125"
  by (simp_all add: delimited_def)

lemma hex_value_digit: "n < 16 \<Longrightarrow> hex_value (hex_digit n) = Some (int n)"
  by (auto simp: hex_value_def hex_digit_def)

lemma hex_fixed_4:
  "hex_fixed 4 n =
     [hex_digit (n div 16 div 16 div 16 mod 16), hex_digit (n div 16 div 16 mod 16),
      hex_digit (n div 16 mod 16), hex_digit (n mod 16)]"
proof -
  have "hex_fixed (Suc (Suc (Suc (Suc 0)))) n =
     [hex_digit (n div 16 div 16 div 16 mod 16), hex_digit (n div 16 div 16 mod 16),
      hex_digit (n div 16 mod 16), hex_digit (n mod 16)]" by (simp only: hex_fixed.simps append.simps)
  moreover have "Suc (Suc (Suc (Suc 0))) = 4" by simp
  ultimately show ?thesis by (simp only:)
qed

lemma hex4_fixed:
  assumes "n < 65536"
  shows "hex4 (hex_fixed 4 n @ s) = Some (int n)"
proof -
  define a b c d where "a = n div 16 div 16 div 16 mod 16" and "b = n div 16 div 16 mod 16"
    and "c = n div 16 mod 16" and "d = n mod 16"
  have "n div 16 div 16 div 16 < 16" using assms by (simp flip: div_mult2_eq)
  then have "n = ((a * 16 + b) * 16 + c) * 16 + d" by (simp add: a_def b_def c_def d_def)
  moreover have "a < 16" "b < 16" "c < 16" "d < 16" by (simp_all add: a_def b_def c_def d_def)
  ultimately show ?thesis
    unfolding hex_fixed_4 a_def [symmetric] b_def [symmetric] c_def [symmetric] d_def [symmetric]
    by (simp add: hex_value_digit)
qed

lemma json_str_control:
  assumes "0 \<le> c" "c < 32"
  shows "json_str ([92, 117] @ hex_fixed 4 (nat c) @ s) = map_option (apfst ((#) c)) (json_str s)"
proof -
  have "hex4 (hex_fixed 4 (nat c) @ s) = Some c" using assms by (simp add: hex4_fixed)
  moreover have "drop 4 (hex_fixed 4 (nat c) @ s) = s" by (simp add: hex_fixed_4)
  ultimately show ?thesis using assms by simp
qed

lemma json_str_char:
  assumes "0 \<le> c"
  shows "json_str (json_char c @ s) = map_option (apfst ((#) c)) (json_str s)"
proof -
  consider "c \<in> {34, 92, 10, 13, 9, 8, 12}" | "c < 32" "c \<notin> {34, 92, 10, 13, 9, 8, 12}"
    | "32 \<le> c" "c \<noteq> 34" "c \<noteq> 92" by force
  then show ?thesis
  proof cases
    case 1
    then show ?thesis by (auto simp: json_char_def simple_escape_def)
  next
    case 2
    then have "json_char c = [92, 117] @ hex_fixed 4 (nat c)" by (simp add: json_char_def)
    then show ?thesis using json_str_control [OF assms 2(1)] by (simp del: json_str.simps)
  next
    case 3
    then show ?thesis by (simp add: json_char_def)
  qed
qed

lemma json_str_chars: "is_json_text s \<Longrightarrow> json_str (concat (map json_char s) @ 34 # r) = Some (s, r)"
  by (induction s) (simp_all add: is_json_text_def json_str_char del: json_str.simps(2), simp)

lemma nat_digits_head:
  obtains d ds where "nat_digits n = d # ds" "48 \<le> d" "d \<le> 57" "n \<noteq> 0 \<Longrightarrow> d \<noteq> 48"
proof -
  have *: "\<exists>d ds. nat_digits n = d # ds \<and> 48 \<le> d \<and> d \<le> 57 \<and> (n \<noteq> 0 \<longrightarrow> d \<noteq> 48)" for n
  proof (induction n rule: nat_digits.induct)
    case (1 n)
    show ?case
    proof (cases "n < 10")
      case True
      then show ?thesis by (subst nat_digits.simps) auto
    next
      case False
      then have "n div 10 \<noteq> 0" by (simp add: div_eq_0_iff)
      then obtain d ds where "nat_digits (n div 10) = d # ds" "48 \<le> d" "d \<le> 57" "d \<noteq> 48"
        using 1 False by blast
      then show ?thesis using False by (subst nat_digits.simps) simp
    qed
  qed
  show thesis using * [of n] that by blast
qed

lemma nat_digits_0: "nat_digits 0 = [48]"
  by (subst nat_digits.simps) simp

lemma digits_run:
  assumes "delimited r"
  shows "takeWhile is_ascii_digit (nat_digits n @ r) = nat_digits n"
proof -
  have "takeWhile is_ascii_digit r = []" using assms by (cases r) (auto simp: is_ascii_digit_def)
  then show ?thesis using nat_digits_ascii by (simp add: takeWhile_append2)
qed

lemma json_number_digits:
  assumes "delimited r"
  shows "json_number (nat_digits n @ r) = Some (PInt (int n), r)"
    "n \<noteq> 0 \<Longrightarrow> json_number (45 # nat_digits n @ r) = Some (PInt (- int n), r)"
proof -
  obtain d ds where d: "nat_digits n = d # ds" "48 \<le> d" "d \<le> 57" "n \<noteq> 0 \<Longrightarrow> d \<noteq> 48"
    using nat_digits_head [of n] by blast
  have r: "\<not> startswith r [46]" "exponent_part r = None"
    using assms by (cases r; auto simp: exponent_part_def)+
  have t: "takeWhile is_ascii_digit (d # ds @ r) = d # ds" using digits_run [OF assms, of n] by (simp add: d(1))
  have v: "value_of_digits (d # ds) = n" using value_nat_digits [of n] by (simp only: d(1))
  show "n \<noteq> 0 \<Longrightarrow> json_number (45 # nat_digits n @ r) = Some (PInt (- int n), r)"
    using d r t v by (simp add: json_number_def Let_def del: value_of_digits.simps takeWhile.simps)
  show "json_number (nat_digits n @ r) = Some (PInt (int n), r)"
  proof (cases "n = 0")
    case True
    then show ?thesis using r by (simp add: json_number_def nat_digits_0)
  next
    case False
    then show ?thesis using d r t v
      by (simp add: json_number_def Let_def del: value_of_digits.simps takeWhile.simps)
  qed
qed

lemma json_word_int:
  assumes "delimited r"
  shows "json_word (str_int i @ r) = Some (PInt i, r)"
proof (cases "i < 0")
  case True
  obtain d ds where d: "nat_digits (nat (- i)) = d # ds" "48 \<le> d" "d \<le> 57"
    by (rule nat_digits_head)
  then show ?thesis using json_number_digits(2) [OF assms, of "nat (- i)"] True
    by (simp add: json_word_def str_int_def lit_def)
next
  case False
  obtain d ds where d: "nat_digits (nat i) = d # ds" "48 \<le> d" "d \<le> 57"
    by (rule nat_digits_head)
  then show ?thesis using json_number_digits(1) [OF assms, of "nat i"] False
    by (simp add: json_word_def str_int_def lit_def)
qed

lemma skip_space_simps [simp]:
  "skip_space [] = []" "is_json_space c \<Longrightarrow> skip_space (c # s) = skip_space s"
  "\<not> is_json_space c \<Longrightarrow> skip_space (c # s) = c # s"
  by (simp_all add: skip_space_def)

lemma json_compact_head:
  assumes "json_plain v"
  shows "\<exists>c s. json_compact v = c # s \<and> \<not> is_json_space c \<and> c \<noteq> 93 \<and> c \<noteq> 125 \<and> c \<noteq> 65279"
proof (cases v)
  case (PInt i)
  obtain d ds where "nat_digits (nat \<bar>i\<bar>) = d # ds" "48 \<le> d" "d \<le> 57" by (rule nat_digits_head)
  then show ?thesis by (auto simp: PInt str_int_def is_json_space_def split: if_splits)
qed (use assms in \<open>auto simp: lit_def is_json_space_def json_string_def split: if_splits\<close>)

lemma skip_space_compact: "json_plain v \<Longrightarrow> skip_space (json_compact v @ r) = json_compact v @ r"
  using json_compact_head [of v] by auto

lemma str_join_Cons2: "str_join sep (p # q # ps) = p @ sep @ str_join sep (q # ps)"
  by (simp add: str_join_def)

lemma json_elements_compact:
  assumes "xs \<noteq> []" "list_all json_plain xs"
    and "\<And>x n r. x \<in> set xs \<Longrightarrow> json_cost x \<le> n \<Longrightarrow> delimited r \<Longrightarrow>
      json_value n (json_compact x @ r) = Some (x, r)"
    and "sum_list (map (\<lambda>v. Suc (json_cost v)) xs) \<le> n"
  shows "json_elements n (str_join [44] (map json_compact xs) @ 93 # r) = Some (xs, r)"
  using assms
proof (induction xs arbitrary: n)
  case (Cons x xs)
  then obtain m where n: "n = Suc m" by (cases n) auto
  have x: "json_value m (json_compact x @ r') = Some (x, r')" if "delimited r'" for r'
    using Cons.prems(3) [of x m r'] Cons.prems(4) that by (simp add: n)
  show ?case
  proof (cases xs)
    case Nil
    then show ?thesis using x [of "93 # r"] by (simp add: n str_join_def is_json_space_def)
  next
    case (Cons y ys)
    then obtain c s where h: "str_join [44] (map json_compact xs) @ 93 # r = c # s" "\<not> is_json_space c"
      using Cons.prems(2) json_compact_head [of y] that by (force simp: str_join_def)
    have "json_elements m (str_join [44] (map json_compact xs) @ 93 # r) = Some (xs, r)"
      using Cons.IH [of m] Cons.prems \<open>xs = y # ys\<close> by (simp add: n)
    then show ?thesis using x [of "44 # str_join [44] (map json_compact xs) @ 93 # r"] h
      by (simp add: n \<open>xs = y # ys\<close> str_join_Cons2 is_json_space_def)
  qed
qed simp

definition json_member :: "pystr \<times> pyval \<Rightarrow> pystr" where
  "json_member m = json_string (fst m) @ [58] @ json_compact (snd m)"

lemma json_member_head: "\<exists>s. json_member m = 34 # s"
  by (simp add: json_member_def json_string_def)

lemma json_string_read: "is_json_text k \<Longrightarrow> json_str (drop 1 (json_string k @ r)) = Some (k, r)"
  by (simp add: json_string_def json_str_chars del: json_str.simps)

lemma json_members_compact:
  assumes "d \<noteq> []" "list_all (\<lambda>(k, v). is_json_text k \<and> json_plain v) d"
    and "\<And>k v n r. (k, v) \<in> set d \<Longrightarrow> json_cost v \<le> n \<Longrightarrow> delimited r \<Longrightarrow>
      json_value n (json_compact v @ r) = Some (v, r)"
    and "sum_list (map (\<lambda>(k, v). Suc (json_cost v)) d) \<le> n"
  shows "json_members n (str_join [44] (map json_member d) @ 125 # r) = Some (d, r)"
  using assms
proof (induction d arbitrary: n)
  case (Cons m d)
  note prems = Cons.prems and IH = Cons.IH
  obtain k v where m: "m = (k, v)" by (cases m)
  from Cons.prems(4) m obtain p where n: "n = Suc p" by (cases n) auto
  have k: "is_json_text k" "json_plain v" using Cons.prems(2) m by simp_all
  have x: "json_value p (json_compact v @ r') = Some (v, r')" if "delimited r'" for r'
    using Cons.prems(3) [of k v p r'] Cons.prems(4) that by (simp add: n m)
  have w: "json_str (drop 1 (json_member m @ r')) = Some (k, 58 # json_compact v @ r')" for r'
    using json_string_read [OF k(1), of "58 # json_compact v @ r'"] by (simp add: json_member_def m)
  have q: "startswith (json_member m @ r') [34]" for r' using json_member_head [of m] by auto
  show ?case
  proof (cases d)
    case Nil
    then show ?thesis using x [of "125 # r"] w [of "125 # r"] q [of "125 # r"] skip_space_compact [OF k(2)]
      by (simp add: n m str_join_def is_json_space_def)
  next
    case (Cons m' d')
    define t where "t = str_join [44] (map json_member d) @ 125 # r"
    then obtain s where h: "t = 34 # s"
      using json_member_head [of m'] Cons by (auto simp: str_join_def)
    have i: "json_members p t = Some (d, r)"
      unfolding t_def
    proof (rule IH)
      show "d \<noteq> []" using Cons by simp
      show "list_all (\<lambda>(k, v). is_json_text k \<and> json_plain v) d" using prems(2) by simp
      show "json_value n (json_compact v @ r) = Some (v, r)"
        if "(k, v) \<in> set d" "json_cost v \<le> n" "delimited r" for k v n r
        by (rule prems(3) [OF list.set_intros(2)]) (rule that)+
      show "sum_list (map (\<lambda>(k, v). Suc (json_cost v)) d) \<le> p" using prems(4) by (simp add: n m)
    qed
    have e: "str_join [44] (map json_member (m # d)) @ 125 # r = json_member m @ 44 # t"
      by (simp add: Cons str_join_Cons2 t_def)
    show ?thesis unfolding e using x [of "44 # t"] w [of "44 # t"] q [of "44 # t"] i h skip_space_compact [OF k(2)]
      by (simp add: n m is_json_space_def)
  qed
qed simp

lemma json_compact_dict:
  assumes "sorted_wrt (<) (map fst d)"
  shows "json_compact (PDict d) = [123] @ str_join [44] (map json_member d) @ [125]"
proof -
  have "sorted (map fst d)" using assms by (auto intro: sorted_wrt_mono_rel [of _ "(<)"])
  then have "sorted (map fst (map (\<lambda>m. (fst m, json_member m)) d))" by (simp add: comp_def)
  then have "sort_key fst (map (\<lambda>m. (fst m, json_member m)) d) = map (\<lambda>m. (fst m, json_member m)) d"
    by (rule sort_key_id_if_sorted)
  moreover have "(\<lambda>(k, v). (k, json_string k @ [58] @ json_compact v)) = (\<lambda>m. (fst m, json_member m))"
    by (auto simp: json_member_def fun_eq_iff)
  ultimately have "map snd (sort_key fst (map (\<lambda>(k, v). (k, json_string k @ [58] @ json_compact v)) d)) =
      map json_member d" by (simp only: map_map comp_def snd_conv)
  then show ?thesis by (simp only: json_compact.simps)
qed

theorem json_value_compact:
  "json_plain v \<Longrightarrow> json_cost v \<le> n \<Longrightarrow> delimited r \<Longrightarrow>
     json_value n (json_compact v @ r) = Some (v, r)"
proof (induction v arbitrary: n r)
  case (PList xs)
  then obtain m where n: "n = Suc m" by (cases n) auto
  show ?case
  proof (cases xs)
    case Nil
    then show ?thesis by (simp add: n str_join_def is_json_space_def)
  next
    case (Cons y ys)
    then obtain c s where h: "str_join [44] (map json_compact xs) @ 93 # r = c # s" "\<not> is_json_space c" "c \<noteq> 93"
      using PList.prems(1) json_compact_head [of y] that by (force simp: str_join_def)
    have "json_elements m (str_join [44] (map json_compact xs) @ 93 # r) = Some (xs, r)"
      using PList Cons by (intro json_elements_compact) (auto simp: n list_all_iff)
    then show ?thesis using h by (simp add: n)
  qed
next
  case (PDict d)
  then obtain m where n: "n = Suc m" by (cases n) auto
  have c: "json_compact (PDict d) @ r = 123 # str_join [44] (map json_member d) @ 125 # r"
    using PDict.prems(1) by (simp add: json_compact_dict del: json_compact.simps)
  show ?case
  proof (cases d)
    case Nil
    then show ?thesis unfolding c by (simp add: n str_join_def is_json_space_def)
  next
    case (Cons m' d')
    then obtain s where h: "str_join [44] (map json_member d) @ 125 # r = 34 # s"
      using json_member_head [of m'] by (auto simp: str_join_def)
    have "json_members m (str_join [44] (map json_member d) @ 125 # r) = Some (d, r)"
      using PDict Cons by (intro json_members_compact) (fastforce simp: n list_all_iff)+
    then show ?thesis unfolding c using h by (simp add: n is_json_space_def)
  qed
next
  case (PStr s)
  then obtain m where n: "n = Suc m" by (cases n) auto
  with PStr show ?case by (simp add: json_string_def json_str_chars del: json_str.simps)
next
  case (PInt i)
  then obtain m where n: "n = Suc m" by (cases n) auto
  obtain c s where h: "json_compact (PInt i) = c # s" "c = 45 \<or> 48 \<le> c \<and> c \<le> 57"
  proof -
    obtain d ds where "nat_digits (nat i) = d # ds" "48 \<le> d" "d \<le> 57" by (rule nat_digits_head)
    then show ?thesis using that by (cases "i < 0") (simp_all add: str_int_def)
  qed
  then show ?case using json_word_int [OF PInt(3), of i] by (auto simp: n)
next
  case (PBool b)
  then obtain m where n: "n = Suc m" by (cases n) auto
  show ?case by (simp add: n json_word_def lit_def)
next
  case PNone
  then obtain m where n: "n = Suc m" by (cases n) auto
  show ?case by (simp add: n json_word_def lit_def)
qed simp

lemma str_join_length:
  "xs \<noteq> [] \<Longrightarrow> length (str_join [c] xs) + 1 = sum_list (map (\<lambda>x. Suc (length x)) xs)"
  by (induction xs rule: induct_list012) (simp_all add: str_join_def)

lemma sum_list_le:
  "(\<And>x. x \<in> set xs \<Longrightarrow> f x \<le> (g x :: nat)) \<Longrightarrow> sum_list (map f xs) \<le> sum_list (map g xs)"
  by (induction xs) (simp_all add: add_mono)

lemma json_cost_length: "json_plain v \<Longrightarrow> json_cost v \<le> length (json_compact v)"
proof (induction v)
  case (PList xs)
  then have "sum_list (map (\<lambda>v. Suc (json_cost v)) xs) \<le> sum_list (map (\<lambda>v. Suc (length (json_compact v))) xs)"
    by (intro sum_list_le) (simp add: list_all_iff)
  then show ?case using str_join_length [of "map json_compact xs" 44]
    by (cases "xs = []") (simp_all add: comp_def)
next
  case (PDict d)
  have "sum_list (map (\<lambda>(k, v). Suc (json_cost v)) d) \<le> sum_list (map (\<lambda>m. Suc (length (json_member m))) d)"
    using PDict by (intro sum_list_le) (fastforce simp: list_all_iff json_member_def)
  then show ?case using str_join_length [of "map json_member d" 44] PDict.prems
    by (cases "d = []") (simp_all add: comp_def json_compact_dict del: json_compact.simps)
next
  case (PInt i)
  show ?case by (simp add: str_int_def Suc_le_eq)
qed (simp_all add: json_string_def lit_def)

theorem json_roundtrip: "json_plain v \<Longrightarrow> json_parse (json_compact v) = Some v"
proof -
  assume v: "json_plain v"
  have "\<not> startswith (json_compact v) [65279]" using json_compact_head [OF v] by auto
  moreover have "json_value (length (json_compact v) + 1) (json_compact v @ []) = Some (v, [])"
    by (rule json_value_compact) (use v json_cost_length [OF v] in simp_all)
  ultimately show ?thesis using skip_space_compact [OF v, of "[]"] by (simp add: json_parse_def)
qed

interpretation json: codec json_compact json_parse json_plain
  by unfold_locales (rule json_roundtrip)

text \<open>Printing sorts the members, so a dictionary prints like its sorted self.\<close>

lemma insort_key_map_pair:
  "insort_key fst (fst m, g m) (map (\<lambda>m. (fst m, g m)) xs) = map (\<lambda>m. (fst m, g m)) (insort_key fst m xs)"
  by (induction xs) auto

lemma sort_key_map_pair: "sort_key fst (map (\<lambda>m. (fst m, g m)) xs) = map (\<lambda>m. (fst m, g m)) (sort_key fst xs)"
  by (induction xs) (simp_all add: insort_key_map_pair)

lemma json_compact_sort: "json_compact (PDict d) = json_compact (PDict (sort_key fst d))"
proof -
  have "(\<lambda>(k, v). (k, json_string k @ [58] @ json_compact v)) = (\<lambda>m. (fst m, json_member m))"
    by (auto simp: json_member_def fun_eq_iff)
  then show ?thesis by (simp only: json_compact.simps sort_key_map_pair sort_key_id_if_sorted [OF sorted_sort_key])
qed

lemma sort_key_strict: "distinct (map fst d) \<Longrightarrow> sorted_wrt (<) (map fst (sort_key fst d))"
proof -
  assume d: "distinct (map fst d)"
  have "distinct (map fst (sort_key fst d))"
    using d by (simp add: distinct_map)
  moreover have "sorted (map fst (sort_key fst d))" by simp
  ultimately show ?thesis by (simp add: strict_sorted_iff)
qed

lemma json_parse_dict:
  assumes "distinct (map fst d)" "list_all (\<lambda>(k, v). is_json_text k \<and> json_plain v) d"
  shows "json_parse (json_compact (PDict d)) = Some (PDict (sort_key fst d))"
proof -
  have "json_plain (PDict (sort_key fst d))"
    using assms sort_key_strict by (auto simp: list_all_iff)
  then show ?thesis by (subst json_compact_sort) (rule json_roundtrip)
qed

end
