(* ===== verification/Crypto.thy ===== *)
theory Crypto
  imports Py_Json Py_Regex
begin

text \<open>
  Model of \<^verbatim>\<open>src/backend/app/core/crypto.py\<close> and
  \<^verbatim>\<open>src/backend/app/core/encryption_config.py\<close>: the key ring and its configuration, the
  encryption envelope in its mapping and JSON forms, the canonical associated data, and encryption and
  decryption.  AES-GCM comes from the library \<open>cryptography\<close> and is the parameter of type
  \<open>aead\<close>: what \<open>AESGCM(key).encrypt\<close> and \<open>.decrypt\<close> return, no value where they raise.
  The nonce \<open>os.urandom(12)\<close> is an argument of every encryption.
\<close>

record aead =
  seal :: "bytes \<Rightarrow> bytes \<Rightarrow> bytes \<Rightarrow> bytes \<Rightarrow> bytes option"
  unseal :: "bytes \<Rightarrow> bytes \<Rightarrow> bytes \<Rightarrow> bytes \<Rightarrow> bytes option"

subsection \<open>Errors\<close>

definition EncryptionConfigurationError :: "string \<Rightarrow> exn" where
  "EncryptionConfigurationError m = OtherError (lit ''EncryptionConfigurationError'') (lit m)"

definition EnvelopeValidationError :: exn where
  "EnvelopeValidationError =
     OtherError (lit ''EnvelopeValidationError'') (lit ''Invalid encryption envelope.'')"

definition EncryptionFailedError :: exn where
  "EncryptionFailedError = OtherError (lit ''EncryptionFailedError'') (lit ''Unable to encrypt value.'')"

definition DecryptionFailedError :: exn where
  "DecryptionFailedError = OtherError (lit ''DecryptionFailedError'') (lit ''Unable to decrypt value.'')"

definition AadValidationError :: exn where
  "AadValidationError = OtherError (lit ''AadValidationError'') (lit ''Invalid AAD value.'')"

definition KeyLookupError :: exn where
  "KeyLookupError = OtherError (lit ''KeyLookupError'') (lit ''Unable to use encryption key.'')"

definition config_error :: exn where
  "config_error = EncryptionConfigurationError ''Invalid encryption configuration.''"

subsection \<open>The key ring\<close>

record encryption_key =
  ek_key_id :: pystr
  ek_key :: bytes
  ek_status :: pystr

record encryption_keyring =
  kr_keys :: "encryption_key list"
  kr_active_key_id :: pystr

fun require_key :: "encryption_key list \<Rightarrow> pystr \<Rightarrow> bool \<Rightarrow> bool \<Rightarrow> encryption_key result" where
  "require_key [] key_id allow_decrypt_only runtime =
     Inl (if runtime then KeyLookupError else EncryptionConfigurationError ''Unknown encryption key.'')"
| "require_key (k # ks) key_id allow_decrypt_only runtime =
     (if ek_key_id k = key_id then
        (if ek_status k = lit ''active'' then Inr k
         else if ek_status k = lit ''decrypt_only'' \<and> allow_decrypt_only then Inr k
         else Inl (if runtime then KeyLookupError
                   else EncryptionConfigurationError ''Invalid encryption key state.''))
      else require_key ks key_id allow_decrypt_only runtime)"

text \<open>The constructor with its \<open>__post_init__\<close>.\<close>

definition make_keyring :: "encryption_key list \<Rightarrow> pystr \<Rightarrow> encryption_keyring result" where
  "make_keyring ks active =
     (if ks = [] then Inl config_error
      else bind (require_key ks active False False)
             (\<lambda>_. Inr \<lparr>kr_keys = ks, kr_active_key_id = active\<rparr>))"

definition get_active_key :: "encryption_keyring \<Rightarrow> encryption_key result" where
  "get_active_key kr = require_key (kr_keys kr) (kr_active_key_id kr) False True"

definition get_key :: "encryption_keyring \<Rightarrow> pystr \<Rightarrow> encryption_key result" where
  "get_key kr key_id = require_key (kr_keys kr) key_id True True"

definition is_key_start :: "int \<Rightarrow> bool" where
  "is_key_start c \<longleftrightarrow> (97 \<le> c \<and> c \<le> 122) \<or> (48 \<le> c \<and> c \<le> 57)"

definition KEY_ID_PATTERN :: rx where
  "KEY_ID_PATTERN = Seq (Cls is_key_start) (Seq (Chars (\<lambda>c. is_key_start c \<or> c = 45) 0 (Some 63)) AtEnd)"

definition decode_key_value :: "pystr \<Rightarrow> bytes result" where
  "decode_key_value raw =
     (case b64decode raw of
        None \<Rightarrow> Inl config_error
      | Some k \<Rightarrow> if length k \<noteq> 32 then Inl config_error else Inr k)"

definition validate_key_id :: "pyval \<Rightarrow> pystr result" where
  "validate_key_id v =
     (case as_str v of
        None \<Rightarrow> Inl config_error
      | Some s \<Rightarrow> if re_fullmatch KEY_ID_PATTERN s = None then Inl config_error else Inr s)"

definition validate_key_status :: "pyval \<Rightarrow> pystr result" where
  "validate_key_status v =
     (case as_str v of
        None \<Rightarrow> Inl config_error
      | Some s \<Rightarrow> if s \<notin> {lit ''active'', lit ''decrypt_only''} then Inl config_error else Inr s)"

definition has_exact_keys :: "pydict \<Rightarrow> string list \<Rightarrow> bool" where
  "has_exact_keys d ks \<longleftrightarrow> set (map fst d) = set (map lit ks)"

definition validate_key_item :: "pydict \<Rightarrow> encryption_key result" where
  "validate_key_item item =
     (if \<not> has_exact_keys item [''key_id'', ''key'', ''status''] then Inl config_error
      else
        bind (validate_key_id (get0 item ''key_id'')) (\<lambda>key_id.
        bind (validate_key_status (get0 item ''status'')) (\<lambda>status.
        case as_str (get0 item ''key'') of
          None \<Rightarrow> Inl config_error
        | Some raw \<Rightarrow>
            bind (decode_key_value raw) (\<lambda>k.
            Inr \<lparr>ek_key_id = key_id, ek_key = k, ek_status = status\<rparr>))))"

fun parse_keys :: "encryption_key list \<Rightarrow> pyval list \<Rightarrow> encryption_key list result" where
  "parse_keys acc [] = Inr acc"
| "parse_keys acc (item # items) =
     (case as_dict item of
        None \<Rightarrow> Inl config_error
      | Some d \<Rightarrow>
          bind (validate_key_item d) (\<lambda>k.
          if ek_key_id k \<in> ek_key_id ` set acc then Inl config_error
          else if 0 \<in> set (ek_key_id k) \<or> strip (ek_key_id k) \<noteq> ek_key_id k then Inl config_error
          else if ek_key_id k = [] then Inl config_error
          else parse_keys (acc @ [k]) items))"

text \<open>The two environment variables are the arguments.\<close>

definition get_encryption_keyring :: "pystr option \<Rightarrow> pystr option \<Rightarrow> encryption_keyring result" where
  "get_encryption_keyring keys_json active_key_id =
     (case (keys_json, active_key_id) of
        (Some ks, Some active) \<Rightarrow>
          if ks = [] \<or> active = [] then Inl config_error
          else
            (case json_loads ks of
               Some (PList items) \<Rightarrow>
                 if items = [] then Inl config_error
                 else
                   bind (parse_keys [] items) (\<lambda>parsed.
                   if length (filter (\<lambda>k. ek_status k = lit ''active'') parsed) \<noteq> 1 then Inl config_error
                   else if active \<notin> ek_key_id ` set parsed then Inl config_error
                   else
                     bind (validate_key_id (PStr active)) (\<lambda>checked.
                     if \<not> list_ex (\<lambda>k. ek_key_id k = checked \<and> ek_status k = lit ''active'') parsed then
                       Inl config_error
                     else make_keyring parsed checked))
             | _ \<Rightarrow> Inl config_error)
      | _ \<Rightarrow> Inl config_error)"

subsection \<open>Envelopes\<close>

record encryption_envelope =
  enc_version :: int
  env_key_id :: pystr
  env_algorithm :: pystr
  env_nonce :: pystr
  env_ciphertext :: pystr

definition decode_strict_b64 :: "pystr \<Rightarrow> bytes result" where
  "decode_strict_b64 s = (case b64decode s of None \<Rightarrow> Inl EnvelopeValidationError | Some b \<Rightarrow> Inr b)"

text \<open>The constructor with its \<open>__post_init__\<close>; \<open>type(x) is not int\<close> excludes booleans.\<close>

definition make_envelope :: "pyval \<Rightarrow> pyval \<Rightarrow> pyval \<Rightarrow> pyval \<Rightarrow> pyval \<Rightarrow> encryption_envelope result" where
  "make_envelope version key_id algorithm nonce ciphertext =
     (if version \<noteq> PInt 1 then Inl EnvelopeValidationError
      else
        (case as_str key_id of
           None \<Rightarrow> Inl EnvelopeValidationError
         | Some kid \<Rightarrow>
             if re_fullmatch KEY_ID_PATTERN kid = None then Inl EnvelopeValidationError
             else if algorithm \<noteq> PStr (lit ''AES-256-GCM'') then Inl EnvelopeValidationError
             else
               (case (as_str nonce, as_str ciphertext) of
                  (Some n, Some c) \<Rightarrow>
                    bind (decode_strict_b64 n) (\<lambda>nb.
                    if length nb \<noteq> 12 then Inl EnvelopeValidationError
                    else
                      bind (decode_strict_b64 c) (\<lambda>cb.
                      if length cb < 16 then Inl EnvelopeValidationError
                      else Inr \<lparr>enc_version = 1, env_key_id = kid, env_algorithm = lit ''AES-256-GCM'',
                                env_nonce = n, env_ciphertext = c\<rparr>))
                | _ \<Rightarrow> Inl EnvelopeValidationError)))"

definition envelope_of_mapping :: "pyval \<Rightarrow> encryption_envelope result" where
  "envelope_of_mapping v =
     (case as_dict v of
        None \<Rightarrow> Inl EnvelopeValidationError
      | Some d \<Rightarrow>
          if \<not> has_exact_keys d [''enc_version'', ''key_id'', ''algorithm'', ''nonce'', ''ciphertext''] then
            Inl EnvelopeValidationError
          else make_envelope (get0 d ''enc_version'') (get0 d ''key_id'') (get0 d ''algorithm'')
                 (get0 d ''nonce'') (get0 d ''ciphertext''))"

text \<open>
  \<open>from_json\<close>: the hook refuses a repeated key at any level, so the pairs of an accepted object are
  its dictionary.
\<close>

definition envelope_of_json :: "pystr \<Rightarrow> encryption_envelope result" where
  "envelope_of_json s =
     (if s = [] \<or> strip s \<noteq> s then Inl EnvelopeValidationError
      else
        (case json_parse s of
           None \<Rightarrow> Inl EnvelopeValidationError
         | Some v \<Rightarrow> if has_duplicate_key v then Inl EnvelopeValidationError else envelope_of_mapping v))"

definition envelope_to_mapping :: "encryption_envelope \<Rightarrow> pydict" where
  "envelope_to_mapping e =
     [(lit ''enc_version'', PInt (enc_version e)), (lit ''key_id'', PStr (env_key_id e)),
      (lit ''algorithm'', PStr (env_algorithm e)), (lit ''nonce'', PStr (env_nonce e)),
      (lit ''ciphertext'', PStr (env_ciphertext e))]"

definition envelope_to_json :: "encryption_envelope \<Rightarrow> pystr" where
  "envelope_to_json e = json_compact (PDict (envelope_to_mapping e))"

subsection \<open>Associated data\<close>

definition build_canonical_record_id :: "pydict \<Rightarrow> pystr" where
  "build_canonical_record_id payload = json_compact (PDict payload)"

definition invalid_aad_value :: "pystr \<Rightarrow> bool" where
  "invalid_aad_value s \<longleftrightarrow> s = [] \<or> strip s \<noteq> s \<or> 0 \<in> set s"

definition aad_payload :: "pystr \<Rightarrow> pystr \<Rightarrow> pystr \<Rightarrow> pystr \<Rightarrow> pystr \<Rightarrow> pydict" where
  "aad_payload resource_type record_id field_name owner_id schema_version =
     [(lit ''resource_type'', PStr resource_type), (lit ''record_id'', PStr record_id),
      (lit ''field_name'', PStr field_name), (lit ''owner_id'', PStr owner_id),
      (lit ''schema_version'', PStr schema_version)]"

definition build_canonical_aad ::
  "pystr \<Rightarrow> pystr \<Rightarrow> pystr \<Rightarrow> pystr \<Rightarrow> pystr \<Rightarrow> bytes result" where
  "build_canonical_aad resource_type record_id field_name owner_id schema_version =
     (if list_ex invalid_aad_value [resource_type, record_id, field_name, owner_id, schema_version] then
        Inl AadValidationError
      else
        encode_utf8 (json_compact (PDict
          (aad_payload resource_type record_id field_name owner_id schema_version))))"

subsection \<open>Encryption and decryption\<close>

definition encrypt ::
  "aead \<Rightarrow> bytes \<Rightarrow> encryption_keyring \<Rightarrow> bytes \<Rightarrow> bytes \<Rightarrow> encryption_envelope result" where
  "encrypt A nonce kr aad plaintext =
     bind (get_active_key kr) (\<lambda>k.
     case seal A (ek_key k) nonce plaintext aad of
       None \<Rightarrow> Inl EncryptionFailedError
     | Some c \<Rightarrow>
         make_envelope (PInt 1) (PStr (ek_key_id k)) (PStr (lit ''AES-256-GCM''))
           (PStr (b64encode nonce)) (PStr (b64encode c)))"

definition decrypt :: "aead \<Rightarrow> encryption_keyring \<Rightarrow> bytes \<Rightarrow> encryption_envelope \<Rightarrow> bytes result" where
  "decrypt A kr aad e =
     (if env_algorithm e \<noteq> lit ''AES-256-GCM'' then Inl EnvelopeValidationError
      else if env_key_id e = [] then Inl DecryptionFailedError
      else
        bind (decode_strict_b64 (env_nonce e)) (\<lambda>nonce.
        bind (decode_strict_b64 (env_ciphertext e)) (\<lambda>ciphertext.
        if length ciphertext < 16 then Inl DecryptionFailedError
        else
          (case get_key kr (env_key_id e) of
             Inl x \<Rightarrow> Inl DecryptionFailedError
           | Inr k \<Rightarrow>
               (case unseal A (ek_key k) nonce ciphertext aad of
                  None \<Rightarrow> Inl DecryptionFailedError
                | Some p \<Rightarrow> Inr p)))))"

definition decrypt_mapping :: "aead \<Rightarrow> encryption_keyring \<Rightarrow> bytes \<Rightarrow> pyval \<Rightarrow> bytes result" where
  "decrypt_mapping A kr aad v = bind (envelope_of_mapping v) (decrypt A kr aad)"

end
