(* ===== verification/Crypto_Correct.thy ===== *)
theory Crypto_Correct
  imports Crypto
begin

text \<open>
  What encryption promises: a configured key ring is well formed, an envelope survives both of its
  stored forms, decryption undoes encryption under every ring that still holds the key, and the
  associated data determine the record they bind.
\<close>

subsection \<open>Helper facts\<close>

lemma chars_match_mem:
  "(cur', g) \<in> set (rx_match (Chars p lo hi) cur) \<longleftrightarrow>
     (\<exists>j. lo \<le> j \<and> j \<le> max_run p hi (snd (snd cur)) \<and> cur' = advance j cur) \<and> g = []"
  by (auto simp: less_Suc_eq_le rx_match.simps)

lemma seq_match_mem:
  "(c, g) \<in> set (rx_match (Seq r1 r2) cur) \<Longrightarrow>
     (\<exists>c1 g1 g2. (c1, g1) \<in> set (rx_match r1 cur) \<and> (c, g2) \<in> set (rx_match r2 c1) \<and> g = g2 @ g1)" (is "_ \<Longrightarrow> ?thesis")
proof -
  have "set (rx_match (Seq r1 r2) cur) =
      (\<Union>x\<in>set (rx_match r1 cur). (\<lambda>y. (fst y, snd y @ snd x)) ` set (rx_match r2 (fst x)))"
    by (simp add: rx_match.simps(2) split_def)
  then show "(c, g) \<in> set (rx_match (Seq r1 r2) cur) \<Longrightarrow> ?thesis" by fastforce
qed

lemma at_end_match: "(c, g) \<in> set (rx_match AtEnd cur) \<Longrightarrow> c = cur"
  by (auto simp: rx_match.simps split: if_splits)

declare rx_match.simps [simp del]

lemma max_run_take: "j \<le> max_run p hi s \<Longrightarrow> list_all p (take j s) \<and> j \<le> length s"
proof -
  assume "j \<le> max_run p hi s"
  then have j: "j \<le> length (takeWhile p s)" by (auto simp: max_run_def Let_def split: option.splits)
  then have "take j s = take j (takeWhile p s)" by (metis takeWhile_eq_take take_take min.absorb1)
  then show ?thesis using j length_takeWhile_le [of p s]
    by (auto simp: list_all_iff dest!: in_set_takeD set_takeWhileD)
qed

lemma filter_eq_Cons_mem: "filter P xs = y # ys \<Longrightarrow> y \<in> set xs \<and> P y"
  by (metis filter_is_subset filter_set list.set_intros(1) mem_Collect_eq set_filter)

definition is_key_char :: "int \<Rightarrow> bool" where
  "is_key_char c \<longleftrightarrow> is_key_start c \<or> c = 45"

lemma key_id_chars:
  assumes "re_fullmatch KEY_ID_PATTERN s \<noteq> None"
  shows "s \<noteq> [] \<and> length s \<le> 64 \<and> list_all is_key_char s"
proof -
  obtain j pv g where m: "((j, pv, []), g) \<in> set (rx_match KEY_ID_PATTERN (0, None, s))"
    using assms filter_eq_Cons_mem by (fastforce simp: re_fullmatch_def split: list.splits)
  then obtain c1 g1 c2 g2 where c: "(c1, g1) \<in> set (rx_match (Cls is_key_start) (0, None, s))"
    "(c2, g2) \<in> set (rx_match (Chars (\<lambda>c. is_key_start c \<or> c = 45) 0 (Some 63)) c1)"
    "snd (snd c2) = []"
    unfolding KEY_ID_PATTERN_def by (fastforce dest!: seq_match_mem at_end_match)
  obtain i where i: "1 \<le> i" "i \<le> max_run is_key_start (Some 1) s" "c1 = advance i (0, None, s)"
    using c(1) unfolding Cls_def chars_match_mem by auto
  then have i1: "i = 1" by (auto simp: max_run_def)
  obtain k where k: "k \<le> max_run (\<lambda>c. is_key_start c \<or> c = 45) (Some 63) (drop 1 s)"
    "c2 = advance k c1"
    using c(2) unfolding chars_match_mem by (auto simp: i i1 advance_def)
  have d: "drop k (drop 1 s) = []" using c(3) k(2) by (simp add: i(3) i1 advance_def split: prod.splits)
  have "list_all is_key_start (take 1 s) \<and> 1 \<le> length s" using max_run_take i(2) i1 by blast
  then obtain a t where s: "s = a # t" "is_key_start a" by (cases s) auto
  have "list_all (\<lambda>c. is_key_start c \<or> c = 45) (take k t)" using max_run_take [OF k(1)] s by simp
  moreover have "take k t = t" using d s by simp
  moreover have "k \<le> 63" using k(1) by (auto simp: max_run_def)
  ultimately show ?thesis using s d by (auto simp: is_key_char_def list_all_iff)
qed

lemma b64_value_bounds: "b64_value c = Some v \<Longrightarrow> 43 \<le> c \<and> c \<le> 122"
  by (auto simp: b64_value_def split: if_splits)

lemma b64_loop_chars:
  "b64_loop pos left pads started s = Some bs \<Longrightarrow> list_all (\<lambda>c. 43 \<le> c \<and> c \<le> 122) s"
  by (induction pos left pads started s arbitrary: bs rule: b64_loop.induct)
    (auto split: if_splits option.splits dest: b64_value_bounds)

lemma b64decode_text: "b64decode s = Some bs \<Longrightarrow> is_json_text s"
  by (force simp: b64decode_def is_json_text_def list_all_iff split: if_splits dest!: b64_loop_chars)

lemma map_of_sort: "distinct (map fst d) \<Longrightarrow> map_of (sort_key fst d) = map_of d"
  by (subst map_of_inject_set) (simp_all add: distinct_map)

lemma get0_sort: "distinct (map fst d) \<Longrightarrow> get0 (sort_key fst d) k = get0 d k"
  by (simp add: get0_def get_def map_of_sort)

lemma strip_id:
  assumes "s = c # t" "\<not> is_space c" "s = u @ [d]" "\<not> is_space d"
  shows "strip s = s"
proof -
  have "lstrip s = s" using assms(1,2) by (simp add: lstrip_def)
  moreover have "rstrip s = s" using assms(3,4) by (simp add: rstrip_def)
  ultimately show ?thesis by (simp add: strip_def)
qed

lemma json_dict_strip: "strip (json_compact (PDict d)) = json_compact (PDict d)"
  by (rule strip_id [of _ 123 _ _ 125]) (auto simp: is_space_def)

subsection \<open>The key ring\<close>

definition wf_keyring :: "encryption_keyring \<Rightarrow> bool" where
  "wf_keyring kr \<longleftrightarrow>
     distinct (map ek_key_id (kr_keys kr)) \<and>
     (\<forall>k\<in>set (kr_keys kr). re_fullmatch KEY_ID_PATTERN (ek_key_id k) \<noteq> None \<and>
        length (ek_key k) = 32 \<and> (ek_status k = lit ''active'' \<or> ek_status k = lit ''decrypt_only'')) \<and>
     (\<exists>k\<in>set (kr_keys kr). ek_key_id k = kr_active_key_id kr \<and> ek_status k = lit ''active'') \<and>
     length (filter (\<lambda>k. ek_status k = lit ''active'') (kr_keys kr)) = 1"

lemma require_key_found:
  "distinct (map ek_key_id ks) \<Longrightarrow> k \<in> set ks \<Longrightarrow>
     ek_status k = lit ''active'' \<or> ek_status k = lit ''decrypt_only'' \<and> allow \<Longrightarrow>
     require_key ks (ek_key_id k) allow runtime = Inr k"
  by (induction ks) auto

lemma require_key_sound:
  "require_key ks i allow runtime = Inr k \<Longrightarrow>
     k \<in> set ks \<and> ek_key_id k = i \<and> (ek_status k = lit ''active'' \<or> ek_status k = lit ''decrypt_only'' \<and> allow)"
  by (induction ks) (auto split: if_splits)

lemma validate_key_item_sound:
  "validate_key_item d = Inr k \<Longrightarrow>
     re_fullmatch KEY_ID_PATTERN (ek_key_id k) \<noteq> None \<and> length (ek_key k) = 32 \<and>
     (ek_status k = lit ''active'' \<or> ek_status k = lit ''decrypt_only'')"
  by (auto simp: validate_key_item_def validate_key_id_def validate_key_status_def decode_key_value_def ok_iff)

lemma parse_keys_sound:
  assumes "parse_keys acc items = Inr ks" "distinct (map ek_key_id acc)"
    "\<forall>k\<in>set acc. re_fullmatch KEY_ID_PATTERN (ek_key_id k) \<noteq> None \<and> length (ek_key k) = 32 \<and>
       (ek_status k = lit ''active'' \<or> ek_status k = lit ''decrypt_only'')"
  shows "distinct (map ek_key_id ks) \<and>
    (\<forall>k\<in>set ks. re_fullmatch KEY_ID_PATTERN (ek_key_id k) \<noteq> None \<and> length (ek_key k) = 32 \<and>
       (ek_status k = lit ''active'' \<or> ek_status k = lit ''decrypt_only''))"
  using assms
proof (induction acc items rule: parse_keys.induct)
  case (2 acc item items)
  then obtain d k where d: "as_dict item = Some d" "validate_key_item d = Inr k"
    "ek_key_id k \<notin> ek_key_id ` set acc" "parse_keys (acc @ [k]) items = Inr ks"
    and n: "\<not> (0 \<in> set (ek_key_id k) \<or> strip (ek_key_id k) \<noteq> ek_key_id k)" "ek_key_id k \<noteq> []"
    by (auto simp: ok_iff)
  show ?case
  proof (rule "2.IH" [OF d(1) d(3) n])
    show "parse_keys (acc @ [k]) items = Inr ks" by (rule d(4))
  qed (use d 2 validate_key_item_sound [OF d(2)] in auto)
qed simp

text \<open>A key ring accepted from the environment is well formed: distinct ids, 32-byte keys, exactly
  one active key, which is the one the environment names; the active key is the one encryption uses, and
  every key of the ring, decrypt-only ones included, is found for decryption.\<close>

theorem configured_keyring:
  assumes "get_encryption_keyring keys_json (Some active) = Inr kr"
  shows "wf_keyring kr \<and>
    (\<exists>k. get_active_key kr = Inr k \<and> ek_key_id k = active \<and> ek_status k = lit ''active'') \<and>
    (\<forall>k\<in>set (kr_keys kr). get_key kr (ek_key_id k) = Inr k)"
proof -
  from assms obtain ks items where p: "parse_keys [] items = Inr ks"
    "length (filter (\<lambda>k. ek_status k = lit ''active'') ks) = 1"
    "list_ex (\<lambda>k. ek_key_id k = active \<and> ek_status k = lit ''active'') ks"
    "make_keyring ks active = Inr kr"
  proof -
    obtain ks where 1: "keys_json = Some ks"
      using assms by (cases keys_json) (auto simp: get_encryption_keyring_def)
    then obtain v where 2: "json_loads ks = Some v"
      using assms by (cases "json_loads ks") (auto simp: get_encryption_keyring_def split: if_splits)
    then obtain items where 3: "v = PList items"
      using assms 1 by (cases v) (auto simp: get_encryption_keyring_def split: if_splits)
    show ?thesis using assms that by (auto simp: get_encryption_keyring_def validate_key_id_def 1 2 3 ok_iff)
  qed
  have kr: "kr_keys kr = ks" "kr_active_key_id kr = active"
    using p(4) by (auto simp: make_keyring_def bind_Inr_iff split: if_splits)
  have s: "distinct (map ek_key_id ks)"
    "\<And>k. k \<in> set ks \<Longrightarrow> re_fullmatch KEY_ID_PATTERN (ek_key_id k) \<noteq> None \<and> length (ek_key k) = 32 \<and>
       (ek_status k = lit ''active'' \<or> ek_status k = lit ''decrypt_only'')"
    using parse_keys_sound [OF p(1)] by auto
  obtain k where k: "k \<in> set ks" "ek_key_id k = active" "ek_status k = lit ''active''"
    using p(3) by (auto simp: list_ex_iff)
  have w: "wf_keyring kr" using s p(2) k by (auto simp: wf_keyring_def kr)
  moreover have "get_active_key kr = Inr k"
    using require_key_found [OF s(1) k(1), of False True] k by (simp add: get_active_key_def kr)
  moreover have "\<forall>k\<in>set (kr_keys kr). get_key kr (ek_key_id k) = Inr k"
    using require_key_found [OF s(1), of _ True True] s(2) by (auto simp: get_key_def kr)
  ultimately show ?thesis using k by blast
qed

text \<open>
  A ring finds a key when it has the key's bytes under its id, whatever has become of its status: after a rotation
  the key that used to be active is there for decryption only.
\<close>

definition finds_key :: "encryption_keyring \<Rightarrow> encryption_key \<Rightarrow> bool" where
  "finds_key kr k \<longleftrightarrow> (\<exists>k'. get_key kr (ek_key_id k) = Inr k' \<and> ek_key k' = ek_key k)"

lemma finds_configured_key:
  assumes "get_encryption_keyring keys_json (Some active) = Inr kr" "k' \<in> set (kr_keys kr)"
    "ek_key_id k' = ek_key_id k" "ek_key k' = ek_key k"
  shows "finds_key kr k"
  using configured_keyring [OF assms(1)] assms(2-4) unfolding finds_key_def by metis

subsection \<open>Envelopes\<close>

lemma make_envelope_ok:
  "make_envelope v i alg n c = Inr e \<longleftrightarrow>
     (\<exists>kid nt ct nb cb. v = PInt 1 \<and> i = PStr kid \<and> re_fullmatch KEY_ID_PATTERN kid \<noteq> None \<and>
        alg = PStr (lit ''AES-256-GCM'') \<and> n = PStr nt \<and> c = PStr ct \<and>
        b64decode nt = Some nb \<and> length nb = 12 \<and> b64decode ct = Some cb \<and> 16 \<le> length cb \<and>
        e = \<lparr>enc_version = 1, env_key_id = kid, env_algorithm = lit ''AES-256-GCM'',
             env_nonce = nt, env_ciphertext = ct\<rparr>)"
  by (cases i; cases n; cases c) (auto simp: make_envelope_def decode_strict_b64_def ok_iff)

definition wf_envelope :: "encryption_envelope \<Rightarrow> bool" where
  "wf_envelope e \<longleftrightarrow>
     make_envelope (PInt (enc_version e)) (PStr (env_key_id e)) (PStr (env_algorithm e))
       (PStr (env_nonce e)) (PStr (env_ciphertext e)) = Inr e"

lemma make_envelope_wf: "make_envelope v i alg n c = Inr e \<Longrightarrow> wf_envelope e"
  by (auto simp: wf_envelope_def make_envelope_ok)

lemma envelope_of_mapping_wf: "envelope_of_mapping v = Inr e \<Longrightarrow> wf_envelope e"
  by (auto simp: envelope_of_mapping_def ok_iff dest: make_envelope_wf)

lemma envelope_of_json_wf: "envelope_of_json s = Inr e \<Longrightarrow> wf_envelope e"
  by (auto simp: envelope_of_json_def ok_iff dest: envelope_of_mapping_wf)

lemma mapping_keys:
  "map fst (envelope_to_mapping e) =
     map lit [''enc_version'', ''key_id'', ''algorithm'', ''nonce'', ''ciphertext'']"
  by (simp add: envelope_to_mapping_def)

lemma mapping_distinct: "distinct (map fst (envelope_to_mapping e))"
  by (simp add: mapping_keys)

lemma mapping_get:
  "get0 (envelope_to_mapping e) ''enc_version'' = PInt (enc_version e)"
  "get0 (envelope_to_mapping e) ''key_id'' = PStr (env_key_id e)"
  "get0 (envelope_to_mapping e) ''algorithm'' = PStr (env_algorithm e)"
  "get0 (envelope_to_mapping e) ''nonce'' = PStr (env_nonce e)"
  "get0 (envelope_to_mapping e) ''ciphertext'' = PStr (env_ciphertext e)"
  by (simp_all add: envelope_to_mapping_def get0_def get_def)

lemma envelope_of_sorted_mapping:
  assumes "wf_envelope e" "set d = set (envelope_to_mapping e)" "\<And>k. get0 d k = get0 (envelope_to_mapping e) k"
  shows "envelope_of_mapping (PDict d) = Inr e"
proof -
  have "has_exact_keys d [''enc_version'', ''key_id'', ''algorithm'', ''nonce'', ''ciphertext'']"
    unfolding has_exact_keys_def mapping_keys [of e, symmetric] using assms(2) by simp
  then show ?thesis using assms(1)
    by (simp add: envelope_of_mapping_def assms(3) mapping_get wf_envelope_def)
qed

lemma envelope_mapping_roundtrip: "wf_envelope e \<Longrightarrow> envelope_of_mapping (PDict (envelope_to_mapping e)) = Inr e"
  by (rule envelope_of_sorted_mapping) simp_all

lemma envelope_mapping_plain:
  assumes "wf_envelope e"
  shows "list_all (\<lambda>(k, v). is_json_text k \<and> json_plain v) (envelope_to_mapping e)"
proof -
  obtain nb cb where e: "re_fullmatch KEY_ID_PATTERN (env_key_id e) \<noteq> None" "b64decode (env_nonce e) = Some nb"
    "b64decode (env_ciphertext e) = Some cb" "env_algorithm e = lit ''AES-256-GCM''"
    using assms unfolding wf_envelope_def make_envelope_ok by auto
  have "is_json_text (env_key_id e)"
    using key_id_chars [OF e(1)] by (auto simp: is_json_text_def list_all_iff is_key_char_def is_key_start_def)
  then show ?thesis using e b64decode_text
    by (auto simp: envelope_to_mapping_def is_json_text_def lit_def)
qed

lemma envelope_values_scalar: "\<forall>m\<in>set (envelope_to_mapping e). \<not> has_duplicate_key (snd m)"
  by (simp add: envelope_to_mapping_def)

lemma envelope_json_roundtrip:
  assumes "wf_envelope e"
  shows "envelope_of_json (envelope_to_json e) = Inr e"
proof -
  let ?d = "sort_key fst (envelope_to_mapping e)"
  have p: "json_parse (envelope_to_json e) = Some (PDict ?d)"
    unfolding envelope_to_json_def by (rule json_parse_dict [OF mapping_distinct envelope_mapping_plain [OF assms]])
  have "distinct (map fst ?d)" using sort_key_strict [OF mapping_distinct] unfolding strict_sorted_iff by blast
  moreover have "\<forall>m\<in>set ?d. \<not> has_duplicate_key (snd m)"
    unfolding set_sort using envelope_values_scalar [of e] .
  ultimately have "\<not> has_duplicate_key (PDict ?d)" by (auto simp: list_all_iff list_ex_iff)
  moreover have "envelope_of_mapping (PDict ?d) = Inr e"
    by (rule envelope_of_sorted_mapping [OF assms]) (simp_all add: get0_sort [OF mapping_distinct])
  ultimately show ?thesis using p json_dict_strip [of "envelope_to_mapping e"]
    by (simp add: envelope_of_json_def envelope_to_json_def)
qed

text \<open>An envelope survives both forms it is stored in: reading back its JSON text, or its mapping,
  gives the same envelope, for every envelope the code can hold.\<close>

theorem envelope_roundtrip:
  assumes "make_envelope version key_id algorithm nonce ciphertext = Inr e"
  shows "envelope_of_json (envelope_to_json e) = Inr e \<and>
    envelope_of_mapping (PDict (envelope_to_mapping e)) = Inr e"
  using make_envelope_wf [OF assms] envelope_json_roundtrip envelope_mapping_roundtrip by blast

subsection \<open>Decryption undoes encryption\<close>

text \<open>What the documentation of AES-GCM promises: decryption returns the plaintext for the associated
  data it was sealed with, and raises for any other.\<close>

definition aead_correct :: "aead \<Rightarrow> bool" where
  "aead_correct A \<longleftrightarrow> (\<forall>k n p a c. seal A k n p a = Some c \<longrightarrow> unseal A k n c a = Some p)"

definition aead_authentic :: "aead \<Rightarrow> bool" where
  "aead_authentic A \<longleftrightarrow> (\<forall>k n p a c a'. seal A k n p a = Some c \<and> a' \<noteq> a \<longrightarrow> unseal A k n c a' = None)"

lemma encrypt_ok:
  "encrypt A nonce kr aad p = Inr e \<longleftrightarrow>
     (\<exists>k c. get_active_key kr = Inr k \<and> seal A (ek_key k) nonce p aad = Some c \<and>
        re_fullmatch KEY_ID_PATTERN (ek_key_id k) \<noteq> None \<and> length nonce = 12 \<and> 16 \<le> length c \<and>
        e = \<lparr>enc_version = 1, env_key_id = ek_key_id k, env_algorithm = lit ''AES-256-GCM'',
             env_nonce = b64encode nonce, env_ciphertext = b64encode c\<rparr>)"
  by (auto simp: encrypt_def ok_iff make_envelope_ok b64_roundtrip split: option.splits)

lemma encrypt_wf: "encrypt A nonce kr aad p = Inr e \<Longrightarrow> wf_envelope e"
  by (auto simp: encrypt_def ok_iff split: option.splits dest: make_envelope_wf)

lemma decrypt_sealed:
  assumes "encrypt A nonce kr aad p = Inr e" "get_active_key kr = Inr k" "finds_key kr' k"
  obtains c where "seal A (ek_key k) nonce p aad = Some c"
    "\<And>aad'. decrypt A kr' aad' e =
       (case unseal A (ek_key k) nonce c aad' of None \<Rightarrow> Inl DecryptionFailedError | Some q \<Rightarrow> Inr q)"
proof -
  obtain c where c: "seal A (ek_key k) nonce p aad = Some c" "re_fullmatch KEY_ID_PATTERN (ek_key_id k) \<noteq> None"
    "16 \<le> length c"
    "e = \<lparr>enc_version = 1, env_key_id = ek_key_id k, env_algorithm = lit ''AES-256-GCM'',
          env_nonce = b64encode nonce, env_ciphertext = b64encode c\<rparr>"
    using assms(1,2) unfolding encrypt_ok by auto
  have "ek_key_id k \<noteq> []" using key_id_chars [OF c(2)] by simp
  then show thesis using c assms(3)
    by (intro that [OF c(1)]) (auto simp: finds_key_def decrypt_def decode_strict_b64_def b64_roundtrip)
qed

lemma encrypted_opens:
  assumes "aead_correct A" "encrypt A nonce kr aad p = Inr e"
    "get_active_key kr = Inr k" "finds_key kr' k"
  shows "decrypt A kr' aad e = Inr p" "envelope_of_json (envelope_to_json e) = Inr e"
    "decrypt_mapping A kr' aad (PDict (envelope_to_mapping e)) = Inr p"
proof -
  obtain c where "seal A (ek_key k) nonce p aad = Some c" "decrypt A kr' aad e =
      (case unseal A (ek_key k) nonce c aad of None \<Rightarrow> Inl DecryptionFailedError | Some q \<Rightarrow> Inr q)"
    using decrypt_sealed [OF assms(2-4)] by metis
  then show d: "decrypt A kr' aad e = Inr p" using assms(1) by (auto simp: aead_correct_def)
  show "envelope_of_json (envelope_to_json e) = Inr e"
    using encrypt_wf [OF assms(2)] by (rule envelope_json_roundtrip)
  show "decrypt_mapping A kr' aad (PDict (envelope_to_mapping e)) = Inr p"
    using d encrypt_wf [OF assms(2)] by (simp add: envelope_mapping_roundtrip decrypt_mapping_def)
qed

text \<open>C34: Decryption undoes encryption, also after a key rotation.  A value sealed under the active key of one ring
  is recovered with the same associated data under every configured ring that still lists the bytes of that key
  under its id, be it active there or for decryption only: from the envelope itself and from both stored forms.\<close>

theorem decrypt_after_rotation:
  assumes "aead_correct A" and "encrypt A nonce kr aad p = Inr e" and "get_active_key kr = Inr k"
    and "get_encryption_keyring keys_json (Some active) = Inr kr'"
    and "k' \<in> set (kr_keys kr')" and "ek_key_id k' = ek_key_id k" and "ek_key k' = ek_key k"
  shows "decrypt A kr' aad e = Inr p \<and>
    bind (envelope_of_json (envelope_to_json e)) (decrypt A kr' aad) = Inr p \<and>
    decrypt_mapping A kr' aad (PDict (envelope_to_mapping e)) = Inr p"
  using encrypted_opens [OF assms(1-3) finds_configured_key [OF assms(4-7)]] by simp

text \<open>Encryption binds the record: read with any other associated data, or under a ring without the key,
  decryption fails with the same error, and never returns another plaintext.\<close>

theorem decrypt_wrong_context:
  assumes "aead_authentic A" and "encrypt A nonce kr aad p = Inr e" and "get_active_key kr = Inr k"
  shows "(aad' \<noteq> aad \<and> finds_key kr' k \<longrightarrow> decrypt A kr' aad' e = Inl DecryptionFailedError) \<and>
    ((\<forall>k'\<in>set (kr_keys kr'). ek_key_id k' \<noteq> ek_key_id k) \<longrightarrow> decrypt A kr' aad' e = Inl DecryptionFailedError)"
proof (intro conjI impI)
  assume a: "aad' \<noteq> aad \<and> finds_key kr' k"
  then obtain c where "seal A (ek_key k) nonce p aad = Some c" "decrypt A kr' aad' e =
      (case unseal A (ek_key k) nonce c aad' of None \<Rightarrow> Inl DecryptionFailedError | Some q \<Rightarrow> Inr q)"
    using decrypt_sealed [OF assms(2,3)] by metis
  moreover have "unseal A (ek_key k) nonce c aad' = None"
    using assms(1) a calculation(1) unfolding aead_authentic_def by blast
  ultimately show "decrypt A kr' aad' e = Inl DecryptionFailedError" by simp
next
  assume n: "\<forall>k'\<in>set (kr_keys kr'). ek_key_id k' \<noteq> ek_key_id k"
  have "\<exists>x. get_key kr' (ek_key_id k) = Inl x"
    using require_key_sound [of "kr_keys kr'" "ek_key_id k" True True] n
    by (cases "get_key kr' (ek_key_id k)") (auto simp: get_key_def)
  then show "decrypt A kr' aad' e = Inl DecryptionFailedError"
    using assms(2,3) unfolding encrypt_ok
    by (auto simp: decrypt_def decode_strict_b64_def b64_roundtrip)
qed


subsection \<open>Associated data\<close>

lemma aad_payload_distinct: "distinct (map fst (aad_payload r i f w v))"
  by (simp add: aad_payload_def lit_def)

lemma canonical_dict_inject:
  assumes "distinct (map fst d)" "list_all (\<lambda>(k, v). is_json_text k \<and> json_plain v) d"
    and "distinct (map fst d')" "list_all (\<lambda>(k, v). is_json_text k \<and> json_plain v) d'"
    and "json_compact (PDict d) = json_compact (PDict d')"
  shows "map_of d = map_of d'"
  using json_parse_dict [OF assms(1,2)] json_parse_dict [OF assms(3,4)] assms(5)
    map_of_sort [OF assms(1)] map_of_sort [OF assms(3)] by simp

lemma aad_ok:
  "build_canonical_aad r i f w v = Inr bs \<longleftrightarrow>
     list_all (\<lambda>s. \<not> invalid_aad_value s) [r, i, f, w, v] \<and>
     is_encodable (json_compact (PDict (aad_payload r i f w v))) \<and>
     bs = utf8_encode (json_compact (PDict (aad_payload r i f w v)))"
  by (auto simp: build_canonical_aad_def encode_utf8_def)

lemma canonical_aad_inject:
  assumes "build_canonical_aad r i f w v = Inr bs" "build_canonical_aad r' i' f' w' v' = Inr bs"
    and "list_all is_json_text [r, i, f, w, v, r', i', f', w', v']"
  shows "r = r' \<and> i = i' \<and> f = f' \<and> w = w' \<and> v = v'"
proof -
  let ?d = "aad_payload r i f w v" and ?d' = "aad_payload r' i' f' w' v'"
  have "json_compact (PDict ?d) = json_compact (PDict ?d')"
    using assms(1,2) utf8.enc_inject unfolding aad_ok by blast
  moreover have "list_all (\<lambda>(k, v). is_json_text k \<and> json_plain v) ?d"
    "list_all (\<lambda>(k, v). is_json_text k \<and> json_plain v) ?d'"
    using assms(3) by (simp_all add: aad_payload_def is_json_text_def lit_def)
  ultimately have "map_of ?d k = map_of ?d' k" for k
    using canonical_dict_inject aad_payload_distinct by metis
  from this [of "lit ''resource_type''"] this [of "lit ''record_id''"] this [of "lit ''field_name''"]
    this [of "lit ''owner_id''"] this [of "lit ''schema_version''"]
  show ?thesis by (simp add: aad_payload_def lit_def)
qed

subsection \<open>A concrete cipher for the witnesses\<close>

text \<open>
  Stands for AES-GCM in examples: a tag of sixteen zero bytes, the associated data in unary framing and
  the plaintext in the clear.  It has both laws asked of the cipher.
\<close>

definition framed :: "bytes \<Rightarrow> bytes" where
  "framed a = replicate 16 0 @ replicate (length a) 1 @ [0] @ a"

definition clear_aead :: aead where
  "clear_aead =
     \<lparr>seal = (\<lambda>k n p a. Some (framed a @ p)),
      unseal = (\<lambda>k n c a. if startswith c (framed a) then Some (drop (length (framed a)) c) else None)\<rparr>"

lemma ones_zero:
  "replicate m (1 :: 8 word) @ 0 # u = replicate n 1 @ 0 # v \<Longrightarrow> m = n \<and> u = v"
proof (induction m arbitrary: n)
  case 0
  then show ?case by (cases n) simp_all
next
  case (Suc m)
  then show ?case by (cases n) simp_all
qed

lemma framed_prefix:
  assumes "startswith (framed a @ p) (framed a')"
  shows "a' = a"
proof -
  obtain q where "framed a @ p = framed a' @ q"
    using assms by (auto simp: startswith_iff)
  then have "replicate (length a) 1 @ 0 # (a @ p) = replicate (length a') 1 @ 0 # (a' @ q)"
    by (simp add: framed_def)
  from ones_zero [OF this] show ?thesis by (metis append_eq_append_conv)
qed

lemma clear_aead_laws: "aead_correct clear_aead" "aead_authentic clear_aead"
  using framed_prefix
  by (auto simp: aead_correct_def aead_authentic_def clear_aead_def startswith_iff)


text \<open>A second cipher, for examples that need the round trip only: it ignores the associated data.\<close>

definition plain_aead :: aead where
  "plain_aead = \<lparr>seal = (\<lambda>k n p a. Some (replicate 16 0 @ p)), unseal = (\<lambda>k n c a. Some (drop 16 c))\<rparr>"

lemma plain_aead_correct: "aead_correct plain_aead"
  by (auto simp: aead_correct_def plain_aead_def)

subsection \<open>Witnesses\<close>

definition example_key :: encryption_key where
  "example_key = \<lparr>ek_key_id = lit ''k1'', ek_key = replicate 32 7, ek_status = lit ''active''\<rparr>"

definition example_keyring :: encryption_keyring where
  "example_keyring = \<lparr>kr_keys = [example_key], kr_active_key_id = lit ''k1''\<rparr>"

text \<open>The key of the first ring as a later configuration lists it, and that configuration with its new active key.\<close>

definition retired_key :: encryption_key where
  "retired_key = example_key\<lparr>ek_status := lit ''decrypt_only''\<rparr>"

definition rotated_keyring :: encryption_keyring where
  "rotated_keyring =
     \<lparr>kr_keys = [\<lparr>ek_key_id = lit ''k2'', ek_key = replicate 32 9, ek_status = lit ''active''\<rparr>, retired_key],
      kr_active_key_id = lit ''k2''\<rparr>"

definition rotated_keys_json :: pystr where
  "rotated_keys_json =
     lit ''[{\"key_id\":\"k2\",\"status\":\"active\",\"key\":\"'' @ b64encode (replicate 32 9) @
     lit ''\"},{\"key_id\":\"k1\",\"status\":\"decrypt_only\",\"key\":\"'' @ b64encode (replicate 32 7) @ lit ''\"}]''"

lemma rotated_configured: "get_encryption_keyring (Some rotated_keys_json) (Some (lit ''k2'')) = Inr rotated_keyring"
  by code_simp

lemma example_active: "get_active_key example_keyring = Inr example_key"
  by code_simp

lemma retired_in_ring:
  "retired_key \<in> set (kr_keys rotated_keyring)" "ek_key_id retired_key = ek_key_id example_key"
  "ek_key retired_key = ek_key example_key"
  by (simp_all add: rotated_keyring_def retired_key_def)

lemma example_finds: "finds_key example_keyring example_key"
proof -
  have "get_key example_keyring (ek_key_id example_key) = Inr example_key" by code_simp
  then show ?thesis by (simp add: finds_key_def)
qed

lemma rotated_finds: "finds_key rotated_keyring example_key"
  by (rule finds_configured_key [OF rotated_configured retired_in_ring])

definition example_envelope :: encryption_envelope where
  "example_envelope =
     \<lparr>enc_version = 1, env_key_id = lit ''k1'', env_algorithm = lit ''AES-256-GCM'',
      env_nonce = b64encode (replicate 12 5), env_ciphertext = b64encode (framed [1] @ [2, 3])\<rparr>"

lemma example_encrypt: "encrypt clear_aead (replicate 12 5) example_keyring [1] [2, 3] = Inr example_envelope"
  by code_simp

lemma decrypt_after_rotation_witness: "decrypt clear_aead rotated_keyring [1] example_envelope = Inr [2, 3]"
proof -
  from decrypt_after_rotation [OF clear_aead_laws(1) example_encrypt example_active rotated_configured retired_in_ring]
  show ?thesis by blast
qed

definition example_keys_json :: pystr where
  "example_keys_json =
     lit ''[{\"key_id\":\"k1\",\"status\":\"active\",\"key\":\"'' @ b64encode (replicate 32 7) @ lit ''\"}]''"

lemma configured_keyring_witness: "get_encryption_keyring (Some example_keys_json) (Some (lit ''k1'')) = Inr example_keyring \<and> wf_keyring example_keyring"
proof -
  have e: "get_encryption_keyring (Some example_keys_json) (Some (lit ''k1'')) = Inr example_keyring"
    by code_simp
  from configured_keyring [OF e] e show ?thesis by blast
qed

end
