(* ===== verification/Scalar_Encryption.thy ===== *)
theory Scalar_Encryption
  imports Crypto
begin

text \<open>
  Model of \<^verbatim>\<open>src/backend/app/services/scalar_encryption.py\<close>,
  \<^verbatim>\<open>scalar_metadata_encryption.py\<close> and \<^verbatim>\<open>document_metadata_encryption.py\<close>: encryption of
  single texts, each bound to its record by the associated data.  Arguments whose type the code tests
  are dynamic values; the nonce of an encryption is an argument, and where several values are
  encrypted the nonces are drawn from a supply \<open>rng\<close> with a counter.
\<close>

definition ScalarEncryptionError :: "string \<Rightarrow> exn" where
  "ScalarEncryptionError m = OtherError (lit ''ScalarEncryptionError'') (lit m)"

definition ScalarDecryptionError :: "string \<Rightarrow> exn" where
  "ScalarDecryptionError m = OtherError (lit ''ScalarDecryptionError'') (lit m)"

text \<open>\<open>except Exception: raise E from None\<close> around a computation.\<close>

definition or_raise :: "exn \<Rightarrow> 'a result \<Rightarrow> 'a result" where
  "or_raise x r = (case r of Inl _ \<Rightarrow> Inl x | Inr v \<Rightarrow> Inr v)"

subsection \<open>Argument checks\<close>

definition require_str :: "(string \<Rightarrow> exn) \<Rightarrow> string \<Rightarrow> pyval \<Rightarrow> pystr result" where
  "require_str err name v =
     (case as_str v of None \<Rightarrow> Inl (err (''Invalid '' @ name @ '' value.'')) | Some s \<Rightarrow> Inr s)"

definition require_identifier :: "(string \<Rightarrow> exn) \<Rightarrow> string \<Rightarrow> pyval \<Rightarrow> pystr result" where
  "require_identifier err name v =
     (case as_str v of
        None \<Rightarrow> Inl (err (''Invalid '' @ name @ '' value.''))
      | Some s \<Rightarrow>
          if s = [] then Inl (err (''Invalid '' @ name @ '' value.''))
          else if strip s \<noteq> s then Inl (err (''Invalid '' @ name @ '' value.''))
          else if 0 \<in> set s then Inl (err (''Invalid '' @ name @ '' value.''))
          else Inr s)"

definition require_int :: "(string \<Rightarrow> exn) \<Rightarrow> string \<Rightarrow> pyval \<Rightarrow> int result" where
  "require_int err name v =
     (case v of PInt i \<Rightarrow> Inr i | _ \<Rightarrow> Inl (err (''Invalid '' @ name @ '' value.'')))"

definition require_positive_int :: "(string \<Rightarrow> exn) \<Rightarrow> string \<Rightarrow> int \<Rightarrow> int result" where
  "require_positive_int err name i =
     (if i \<le> 0 then Inl (err (''Invalid '' @ name @ '' value.'')) else Inr i)"

definition ensure_utf8_text :: "pystr \<Rightarrow> bytes result" where
  "ensure_utf8_text s = or_raise (ScalarEncryptionError ''Unable to encode plaintext.'') (encode_utf8 s)"

definition ensure_utf8_plaintext :: "bytes \<Rightarrow> pystr result" where
  "ensure_utf8_plaintext bs =
     (case utf8_decode bs of
        None \<Rightarrow> Inl (ScalarDecryptionError ''Unable to decode plaintext.'') | Some s \<Rightarrow> Inr s)"

definition reject_double_encryption :: "pystr \<Rightarrow> unit result" where
  "reject_double_encryption s =
     (if \<not> startswith s [123] \<or> \<not> endswith s [125] then Inr ()
      else (case envelope_of_json s of
              Inl _ \<Rightarrow> Inr ()
            | Inr _ \<Rightarrow> Inl (ScalarEncryptionError ''Unable to encrypt value.'')))"

subsection \<open>Associated data\<close>

definition clause_body_aad :: "pystr \<Rightarrow> pystr \<Rightarrow> bytes result" where
  "clause_body_aad clause_id owner_id =
     build_canonical_aad (lit ''clause'') clause_id (lit ''body'') owner_id (lit ''scalar-v1'')"

definition extraction_page_aad :: "pystr \<Rightarrow> int \<Rightarrow> pystr \<Rightarrow> bytes result" where
  "extraction_page_aad extraction_id page_number owner_id =
     build_canonical_aad (lit ''extraction_page'')
       (build_canonical_record_id
         [(lit ''extraction_id'', PStr extraction_id), (lit ''page_number'', PInt page_number)])
       (lit ''text'') owner_id (lit ''scalar-v1'')"

definition analysis_result_summary_aad :: "pystr \<Rightarrow> pystr \<Rightarrow> pystr \<Rightarrow> bytes result" where
  "analysis_result_summary_aad analysis_job_id clause_record_id owner_id =
     build_canonical_aad (lit ''analysis_result_item'')
       (build_canonical_record_id
         [(lit ''analysis_job_id'', PStr analysis_job_id), (lit ''clause_record_id'', PStr clause_record_id)])
       (lit ''summary'') owner_id (lit ''scalar-v1'')"

subsection \<open>The body shared by the encrypting and by the decrypting functions\<close>

text \<open>
  A \<open>ScalarEncryptionError\<close> raised inside the \<open>try\<close>, by the conversion of the plaintext, passes;
  every other exception becomes the error with the function's own message.
\<close>

definition encrypt_text_json ::
  "aead \<Rightarrow> bytes \<Rightarrow> encryption_keyring \<Rightarrow> pystr \<Rightarrow> bytes result \<Rightarrow> string \<Rightarrow> pystr result" where
  "encrypt_text_json A nonce kr plaintext aad msg =
     bind (ensure_utf8_text plaintext) (\<lambda>bs.
     or_raise (ScalarEncryptionError msg)
       (bind aad (\<lambda>a. bind (encrypt A nonce kr a bs) (\<lambda>e. Inr (envelope_to_json e)))))"

definition decrypt_text_json ::
  "aead \<Rightarrow> encryption_keyring \<Rightarrow> pystr \<Rightarrow> bytes result \<Rightarrow> string \<Rightarrow> pystr result" where
  "decrypt_text_json A kr encrypted_value aad msg =
     bind (or_raise (ScalarDecryptionError msg) (envelope_of_json encrypted_value)) (\<lambda>e.
     bind (or_raise (ScalarDecryptionError msg) (bind aad (\<lambda>a. decrypt A kr a e)))
     ensure_utf8_plaintext)"

subsection \<open>Clause bodies, page texts, summaries\<close>

definition encrypt_clause_body ::
  "aead \<Rightarrow> bytes \<Rightarrow> encryption_keyring \<Rightarrow> pyval \<Rightarrow> pyval \<Rightarrow> pyval \<Rightarrow> pystr result" where
  "encrypt_clause_body A nonce kr plaintext clause_id owner_id =
     (case as_str plaintext of
        None \<Rightarrow> Inl (ScalarEncryptionError ''Invalid plaintext.'')
      | Some p \<Rightarrow>
          bind (require_identifier ScalarEncryptionError ''clause_id'' clause_id) (\<lambda>cid.
          bind (require_identifier ScalarEncryptionError ''owner_id'' owner_id) (\<lambda>oid.
          bind (reject_double_encryption p) (\<lambda>_.
          encrypt_text_json A nonce kr p (clause_body_aad cid oid) ''Unable to encrypt clause body.''))))"

definition decrypt_clause_body ::
  "aead \<Rightarrow> encryption_keyring \<Rightarrow> pyval \<Rightarrow> pyval \<Rightarrow> pyval \<Rightarrow> pystr result" where
  "decrypt_clause_body A kr encrypted_value clause_id owner_id =
     bind (require_str ScalarDecryptionError ''encrypted_value'' encrypted_value) (\<lambda>v.
     bind (require_identifier ScalarDecryptionError ''clause_id'' clause_id) (\<lambda>cid.
     bind (require_identifier ScalarDecryptionError ''owner_id'' owner_id) (\<lambda>oid.
     decrypt_text_json A kr v (clause_body_aad cid oid) ''Unable to decrypt clause body.'')))"

definition encrypt_extraction_page_text ::
  "aead \<Rightarrow> bytes \<Rightarrow> encryption_keyring \<Rightarrow> pyval \<Rightarrow> pyval \<Rightarrow> pyval \<Rightarrow> pyval \<Rightarrow> pystr result" where
  "encrypt_extraction_page_text A nonce kr plaintext extraction_id page_number owner_id =
     (case as_str plaintext of
        None \<Rightarrow> Inl (ScalarEncryptionError ''Invalid plaintext.'')
      | Some p \<Rightarrow>
          bind (require_identifier ScalarEncryptionError ''extraction_id'' extraction_id) (\<lambda>eid.
          bind (require_identifier ScalarEncryptionError ''owner_id'' owner_id) (\<lambda>oid.
          bind (bind (require_int ScalarEncryptionError ''page_number'' page_number)
                  (require_positive_int ScalarEncryptionError ''page_number'')) (\<lambda>pn.
          bind (reject_double_encryption p) (\<lambda>_.
          encrypt_text_json A nonce kr p (extraction_page_aad eid pn oid)
            ''Unable to encrypt extraction page text.'')))))"

definition decrypt_extraction_page_text ::
  "aead \<Rightarrow> encryption_keyring \<Rightarrow> pyval \<Rightarrow> pyval \<Rightarrow> pyval \<Rightarrow> pyval \<Rightarrow> pystr result" where
  "decrypt_extraction_page_text A kr encrypted_value extraction_id page_number owner_id =
     bind (require_str ScalarDecryptionError ''encrypted_value'' encrypted_value) (\<lambda>v.
     bind (require_identifier ScalarDecryptionError ''extraction_id'' extraction_id) (\<lambda>eid.
     bind (require_identifier ScalarDecryptionError ''owner_id'' owner_id) (\<lambda>oid.
     bind (bind (require_int ScalarDecryptionError ''page_number'' page_number)
             (require_positive_int ScalarDecryptionError ''page_number'')) (\<lambda>pn.
     decrypt_text_json A kr v (extraction_page_aad eid pn oid)
       ''Unable to decrypt extraction page text.''))))"

definition encrypt_analysis_result_summary ::
  "aead \<Rightarrow> bytes \<Rightarrow> encryption_keyring \<Rightarrow> pyval \<Rightarrow> pyval \<Rightarrow> pyval \<Rightarrow> pyval \<Rightarrow> pystr result" where
  "encrypt_analysis_result_summary A nonce kr plaintext analysis_job_id clause_record_id owner_id =
     (case as_str plaintext of
        None \<Rightarrow> Inl (ScalarEncryptionError ''Invalid plaintext.'')
      | Some p \<Rightarrow>
          bind (require_identifier ScalarEncryptionError ''analysis_job_id'' analysis_job_id) (\<lambda>jid.
          bind (require_identifier ScalarEncryptionError ''clause_record_id'' clause_record_id) (\<lambda>cid.
          bind (require_identifier ScalarEncryptionError ''owner_id'' owner_id) (\<lambda>oid.
          bind (reject_double_encryption p) (\<lambda>_.
          encrypt_text_json A nonce kr p (analysis_result_summary_aad jid cid oid)
            ''Unable to encrypt analysis result summary.'')))))"

definition decrypt_analysis_result_summary ::
  "aead \<Rightarrow> encryption_keyring \<Rightarrow> pyval \<Rightarrow> pyval \<Rightarrow> pyval \<Rightarrow> pyval \<Rightarrow> pystr result" where
  "decrypt_analysis_result_summary A kr encrypted_value analysis_job_id clause_record_id owner_id =
     bind (require_str ScalarDecryptionError ''encrypted_value'' encrypted_value) (\<lambda>v.
     bind (require_identifier ScalarDecryptionError ''analysis_job_id'' analysis_job_id) (\<lambda>jid.
     bind (require_identifier ScalarDecryptionError ''clause_record_id'' clause_record_id) (\<lambda>cid.
     bind (require_identifier ScalarDecryptionError ''owner_id'' owner_id) (\<lambda>oid.
     decrypt_text_json A kr v (analysis_result_summary_aad jid cid oid)
       ''Unable to decrypt analysis result summary.''))))"

subsection \<open>Names, email addresses and titles\<close>

text \<open>The identifier checks of this module are one test with one message.\<close>

definition metadata_identifier :: "(string \<Rightarrow> exn) \<Rightarrow> string \<Rightarrow> pyval \<Rightarrow> pystr result" where
  "metadata_identifier err name v =
     (case as_str v of
        None \<Rightarrow> Inl (err (''Invalid '' @ name @ '' value.''))
      | Some s \<Rightarrow>
          if s = [] \<or> strip s \<noteq> s \<or> 0 \<in> set s then Inl (err (''Invalid '' @ name @ '' value.'')) else Inr s)"

definition metadata_aad ::
  "(string \<Rightarrow> exn) \<Rightarrow> string \<Rightarrow> pyval \<Rightarrow> pyval \<Rightarrow> string \<Rightarrow> bytes result" where
  "metadata_aad err resource_type record_id owner_id field_name =
     bind (metadata_identifier err ''record_id'' record_id) (\<lambda>rid.
     bind (metadata_identifier err ''owner_id'' owner_id) (\<lambda>oid.
     build_canonical_aad (lit resource_type) rid (lit field_name) oid (lit ''scalar-metadata-v1'')))"

definition refuse_envelope :: "pystr \<Rightarrow> unit result" where
  "refuse_envelope s =
     (case envelope_of_json s of
        Inl _ \<Rightarrow> Inr () | Inr _ \<Rightarrow> Inl (ScalarEncryptionError ''Unable to encrypt value.''))"

definition encrypt_required ::
  "aead \<Rightarrow> bytes \<Rightarrow> encryption_keyring \<Rightarrow> pyval \<Rightarrow> bytes \<Rightarrow> pystr result" where
  "encrypt_required A nonce kr plaintext aad =
     (case as_str plaintext of
        None \<Rightarrow> Inl (ScalarEncryptionError ''Invalid plaintext.'')
      | Some p \<Rightarrow>
          if p = [] then Inl (ScalarEncryptionError ''Invalid plaintext.'')
          else
            bind (refuse_envelope p) (\<lambda>_.
            or_raise (ScalarEncryptionError ''Unable to encrypt value.'')
              (bind (encode_utf8 p) (\<lambda>bs.
               bind (encrypt A nonce kr aad bs) (\<lambda>e. Inr (envelope_to_json e))))))"

definition encrypt_optional ::
  "aead \<Rightarrow> bytes \<Rightarrow> encryption_keyring \<Rightarrow> pyval \<Rightarrow> bytes \<Rightarrow> pyval result" where
  "encrypt_optional A nonce kr plaintext aad =
     (if plaintext = PNone then Inr PNone
      else
        (case as_str plaintext of
           None \<Rightarrow> Inl (ScalarEncryptionError ''Invalid plaintext.'')
         | Some p \<Rightarrow>
             bind (refuse_envelope p) (\<lambda>_.
             or_raise (ScalarEncryptionError ''Unable to encrypt value.'')
               (bind (encode_utf8 p) (\<lambda>bs.
                bind (encrypt A nonce kr aad bs) (\<lambda>e. Inr (PStr (envelope_to_json e))))))))"

definition decode_utf8 :: "bytes \<Rightarrow> pystr result" where
  "decode_utf8 bs =
     (case utf8_decode bs of
        None \<Rightarrow> Inl (OtherError (lit ''UnicodeDecodeError'') (lit ''invalid start byte'')) | Some s \<Rightarrow> Inr s)"

definition decrypt_required ::
  "aead \<Rightarrow> encryption_keyring \<Rightarrow> pyval \<Rightarrow> bytes \<Rightarrow> pystr result" where
  "decrypt_required A kr encrypted_value aad =
     (case as_str encrypted_value of
        None \<Rightarrow> Inl (ScalarDecryptionError ''Invalid encrypted value.'')
      | Some v \<Rightarrow>
          or_raise (ScalarDecryptionError ''Unable to decrypt value.'')
            (bind (envelope_of_json v) (\<lambda>e. bind (decrypt A kr aad e) decode_utf8)))"

definition decrypt_optional ::
  "aead \<Rightarrow> encryption_keyring \<Rightarrow> pyval \<Rightarrow> bytes \<Rightarrow> pyval result" where
  "decrypt_optional A kr encrypted_value aad =
     (if encrypted_value = PNone then Inr PNone
      else bind (decrypt_required A kr encrypted_value aad) (\<lambda>s. Inr (PStr s)))"

text \<open>The closures that \<open>_required_helpers\<close> makes, and the names bound to them.\<close>

definition encrypt_value ::
  "string \<Rightarrow> string \<Rightarrow> aead \<Rightarrow> bytes \<Rightarrow> encryption_keyring \<Rightarrow> pyval \<Rightarrow> pyval \<Rightarrow> pyval \<Rightarrow> pystr result" where
  "encrypt_value resource_type field_name A nonce kr plaintext record_id owner_id =
     bind (metadata_aad ScalarEncryptionError resource_type record_id owner_id field_name)
       (encrypt_required A nonce kr plaintext)"

definition decrypt_value ::
  "string \<Rightarrow> string \<Rightarrow> aead \<Rightarrow> encryption_keyring \<Rightarrow> pyval \<Rightarrow> pyval \<Rightarrow> pyval \<Rightarrow> pystr result" where
  "decrypt_value resource_type field_name A kr encrypted record_id owner_id =
     bind (metadata_aad ScalarDecryptionError resource_type record_id owner_id field_name)
       (decrypt_required A kr encrypted)"

definition encrypt_document_filename where
  "encrypt_document_filename = encrypt_value ''document'' ''filename''"

definition decrypt_document_filename where
  "decrypt_document_filename = decrypt_value ''document'' ''filename''"

definition encrypt_extraction_filename_display where
  "encrypt_extraction_filename_display = encrypt_value ''extraction'' ''filename_display''"

definition decrypt_extraction_filename_display where
  "decrypt_extraction_filename_display = decrypt_value ''extraction'' ''filename_display''"

definition encrypt_user_email ::
  "aead \<Rightarrow> bytes \<Rightarrow> encryption_keyring \<Rightarrow> pyval \<Rightarrow> pyval \<Rightarrow> pystr result" where
  "encrypt_user_email A nonce kr plaintext user_id =
     encrypt_value ''user'' ''email'' A nonce kr plaintext user_id user_id"

definition decrypt_user_email ::
  "aead \<Rightarrow> encryption_keyring \<Rightarrow> pyval \<Rightarrow> pyval \<Rightarrow> pystr result" where
  "decrypt_user_email A kr encrypted user_id = decrypt_value ''user'' ''email'' A kr encrypted user_id user_id"

definition encrypt_clause_title ::
  "aead \<Rightarrow> bytes \<Rightarrow> encryption_keyring \<Rightarrow> pyval \<Rightarrow> pyval \<Rightarrow> pyval \<Rightarrow> pyval result" where
  "encrypt_clause_title A nonce kr plaintext clause_id owner_id =
     bind (metadata_aad ScalarEncryptionError ''clause'' clause_id owner_id ''title'')
       (encrypt_optional A nonce kr plaintext)"

definition decrypt_clause_title ::
  "aead \<Rightarrow> encryption_keyring \<Rightarrow> pyval \<Rightarrow> pyval \<Rightarrow> pyval \<Rightarrow> pyval result" where
  "decrypt_clause_title A kr encrypted clause_id owner_id =
     bind (metadata_aad ScalarDecryptionError ''clause'' clause_id owner_id ''title'')
       (decrypt_optional A kr encrypted)"

subsection \<open>Unclassified sections of a document\<close>

definition item_aad :: "pystr \<Rightarrow> pystr \<Rightarrow> nat \<Rightarrow> bytes result" where
  "item_aad document_id owner_id i =
     build_canonical_aad (lit ''document_unclassified_section'')
       (build_canonical_record_id
         [(lit ''document_id'', PStr document_id), (lit ''item_index'', PInt (int i))])
       (lit ''text'') owner_id (lit ''document-metadata-v1'')"

fun encrypt_sections_loop ::
  "aead \<Rightarrow> (nat \<Rightarrow> bytes) \<Rightarrow> encryption_keyring \<Rightarrow> pystr \<Rightarrow> pystr \<Rightarrow> nat \<Rightarrow> nat \<Rightarrow> pyval list \<Rightarrow> pyval list result" where
  "encrypt_sections_loop A rng kr did oid n i [] = Inr []"
| "encrypt_sections_loop A rng kr did oid n i (section # sections) =
     (case as_str section of
        None \<Rightarrow> Inl (ScalarEncryptionError ''Invalid unclassified section entry.'')
      | Some s \<Rightarrow>
          bind (or_raise (ScalarEncryptionError ''Unable to encrypt unclassified section.'')
                  (bind (encode_utf8 s) (\<lambda>bs.
                   bind (item_aad did oid i) (\<lambda>a. encrypt A (rng n) kr a bs)))) (\<lambda>e.
          bind (encrypt_sections_loop A rng kr did oid (Suc n) (Suc i) sections) (\<lambda>rest.
          Inr (PDict [(lit ''item_index'', PInt (int i)), (lit ''text_encrypted'', PDict (envelope_to_mapping e))]
               # rest))))"

definition encrypt_unclassified_sections ::
  "aead \<Rightarrow> (nat \<Rightarrow> bytes) \<Rightarrow> nat \<Rightarrow> encryption_keyring \<Rightarrow> pyval \<Rightarrow> pyval \<Rightarrow> pyval \<Rightarrow> pyval list result" where
  "encrypt_unclassified_sections A rng n kr sections document_id owner_id =
     bind (metadata_identifier ScalarEncryptionError ''document_id'' document_id) (\<lambda>did.
     bind (metadata_identifier ScalarEncryptionError ''owner_id'' owner_id) (\<lambda>oid.
     case as_list sections of
       None \<Rightarrow> Inl (ScalarEncryptionError ''Invalid unclassified_sections value.'')
     | Some xs \<Rightarrow> encrypt_sections_loop A rng kr did oid n 0 xs))"

fun decrypt_sections_loop ::
  "aead \<Rightarrow> encryption_keyring \<Rightarrow> pystr \<Rightarrow> pystr \<Rightarrow> nat \<Rightarrow> pyval list \<Rightarrow> pystr list result" where
  "decrypt_sections_loop A kr did oid i [] = Inr []"
| "decrypt_sections_loop A kr did oid i (item # items) =
     (case as_dict item of
        None \<Rightarrow> Inl (ScalarDecryptionError ''Invalid unclassified section entry.'')
      | Some d \<Rightarrow>
          if \<not> has_exact_keys d [''item_index'', ''text_encrypted''] then
            Inl (ScalarDecryptionError ''Invalid unclassified section entry.'')
          else
            (case get0 d ''item_index'' of
               PInt j \<Rightarrow>
                 if j \<noteq> int i then Inl (ScalarDecryptionError ''Invalid unclassified section order.'')
                 else
                   bind (or_raise (ScalarDecryptionError ''Unable to decrypt unclassified section.'')
                           (bind (item_aad did oid i) (\<lambda>a.
                            bind (decrypt_mapping A kr a (get0 d ''text_encrypted'')) decode_utf8))) (\<lambda>s.
                   bind (decrypt_sections_loop A kr did oid (Suc i) items) (\<lambda>rest. Inr (s # rest)))
             | _ \<Rightarrow> Inl (ScalarDecryptionError ''Invalid unclassified section entry.'')))"

definition decrypt_unclassified_sections ::
  "aead \<Rightarrow> encryption_keyring \<Rightarrow> pyval \<Rightarrow> pyval \<Rightarrow> pyval \<Rightarrow> pystr list result" where
  "decrypt_unclassified_sections A kr sections document_id owner_id =
     bind (metadata_identifier ScalarDecryptionError ''document_id'' document_id) (\<lambda>did.
     bind (metadata_identifier ScalarDecryptionError ''owner_id'' owner_id) (\<lambda>oid.
     case as_list sections of
       None \<Rightarrow> Inl (ScalarDecryptionError ''Invalid unclassified_sections value.'')
     | Some items \<Rightarrow> decrypt_sections_loop A kr did oid 0 items))"

end
