(* ===== verification/Nested_Encryption.thy ===== *)
theory Nested_Encryption
  imports Scalar_Encryption
begin

text \<open>
  Model of \<^verbatim>\<open>src/backend/app/services/nested_json_encryption.py\<close>: the texts inside JSON columns
  (page blocks, reviewed and final page texts, the confirmation snapshot), encrypted field by field.
  Every \<open>encrypt\<close> call draws the next nonce of the supply \<open>rng\<close>; the counter is threaded through
  in the order of the calls.
\<close>

text \<open>
  The loop all list encryptions have: the key of each entry is checked and must be new, then the entry is
  converted.  The state \<open>'s\<close> is the nonce counter when encrypting and \<open>unit\<close> when decrypting.
\<close>

fun unique_loop ::
  "('x \<Rightarrow> 'k result) \<Rightarrow> exn \<Rightarrow> ('k \<Rightarrow> 'x \<Rightarrow> 's \<Rightarrow> ('y \<times> 's) result) \<Rightarrow> 'k list \<Rightarrow> 's \<Rightarrow> 'x list \<Rightarrow>
     ('y list \<times> 's) result" where
  "unique_loop key_of dup step seen n [] = Inr ([], n)"
| "unique_loop key_of dup step seen n (x # xs) =
     bind (key_of x) (\<lambda>k.
     if k \<in> set seen then Inl dup
     else
       bind (step k x n) (\<lambda>(y, n').
       bind (unique_loop key_of dup step (k # seen) n' xs) (\<lambda>(ys, n''). Inr (y # ys, n''))))"

definition encrypt_next ::
  "aead \<Rightarrow> (nat \<Rightarrow> bytes) \<Rightarrow> encryption_keyring \<Rightarrow> bytes result \<Rightarrow> pystr \<Rightarrow> nat \<Rightarrow> (pyval \<times> nat) result" where
  "encrypt_next A rng kr aad plaintext n =
     bind (ensure_utf8_text plaintext) (\<lambda>bs.
     bind aad (\<lambda>a.
     bind (encrypt A (rng n) kr a bs) (\<lambda>e. Inr (PDict (envelope_to_mapping e), Suc n))))"

definition decrypt_with ::
  "aead \<Rightarrow> encryption_keyring \<Rightarrow> bytes result \<Rightarrow> string \<Rightarrow> pyval \<Rightarrow> bytes result" where
  "decrypt_with A kr aad msg v =
     or_raise (ScalarDecryptionError msg) (bind aad (\<lambda>a. decrypt_mapping A kr a v))"

subsection \<open>Argument checks\<close>

definition require_page_number :: "(string \<Rightarrow> exn) \<Rightarrow> pyval \<Rightarrow> int result" where
  "require_page_number err v =
     (case v of
        PInt i \<Rightarrow> if i < 1 then Inl (err ''Invalid page_number value.'') else Inr i
      | _ \<Rightarrow> Inl (err ''Invalid page_number value.''))"

definition require_block_index :: "(string \<Rightarrow> exn) \<Rightarrow> pyval \<Rightarrow> int result" where
  "require_block_index err v =
     (case v of
        PInt i \<Rightarrow> if i < 0 then Inl (err ''Invalid block_index value.'') else Inr i
      | _ \<Rightarrow> Inl (err ''Invalid block_index value.''))"

definition require_snapshot_version :: "(string \<Rightarrow> exn) \<Rightarrow> pyval \<Rightarrow> int result" where
  "require_snapshot_version err v =
     (case v of
        PInt i \<Rightarrow> if i < 1 then Inl (err ''Invalid snapshot_version value.'') else Inr i
      | _ \<Rightarrow> Inl (err ''Invalid snapshot_version value.''))"

subsection \<open>Associated data\<close>

definition block_aad :: "pystr \<Rightarrow> int \<Rightarrow> int \<Rightarrow> pystr \<Rightarrow> bytes result" where
  "block_aad extraction_id page_number block_index owner_id =
     build_canonical_aad (lit ''extraction_page_block'')
       (build_canonical_record_id
         [(lit ''extraction_id'', PStr extraction_id), (lit ''page_number'', PInt page_number),
          (lit ''block_index'', PInt block_index)])
       (lit ''text'') owner_id (lit ''nested-json-v1'')"

definition snapshot_block_aad :: "pystr \<Rightarrow> int \<Rightarrow> int \<Rightarrow> int \<Rightarrow> pystr \<Rightarrow> bytes result" where
  "snapshot_block_aad extraction_id snapshot_version page_number block_index owner_id =
     build_canonical_aad (lit ''confirmation_snapshot_block'')
       (build_canonical_record_id
         [(lit ''extraction_id'', PStr extraction_id), (lit ''snapshot_version'', PInt snapshot_version),
          (lit ''page_number'', PInt page_number), (lit ''block_index'', PInt block_index)])
       (lit ''text'') owner_id (lit ''nested-json-v1'')"

definition page_text_field_aad :: "pystr \<Rightarrow> int \<Rightarrow> pystr \<Rightarrow> pystr \<Rightarrow> bytes result" where
  "page_text_field_aad extraction_id page_number field_name owner_id =
     build_canonical_aad (lit ''extraction_page_extra'')
       (build_canonical_record_id
         [(lit ''extraction_id'', PStr extraction_id), (lit ''page_number'', PInt page_number)])
       field_name owner_id (lit ''nested-json-v1'')"

definition snapshot_final_text_aad :: "pystr \<Rightarrow> int \<Rightarrow> int \<Rightarrow> pystr \<Rightarrow> bytes result" where
  "snapshot_final_text_aad extraction_id page_number snapshot_version owner_id =
     build_canonical_aad (lit ''confirmation_snapshot_page'')
       (build_canonical_record_id
         [(lit ''extraction_id'', PStr extraction_id), (lit ''page_number'', PInt page_number),
          (lit ''snapshot_version'', PInt snapshot_version)])
       (lit ''final_text'') owner_id (lit ''nested-json-v1'')"

subsection \<open>Block lists\<close>

definition block_key :: "(string \<Rightarrow> exn) \<Rightarrow> string \<Rightarrow> pyval \<Rightarrow> int result" where
  "block_key err text_key v =
     (case as_dict v of
        None \<Rightarrow> Inl (err ''Invalid block entry.'')
      | Some d \<Rightarrow>
          if \<not> has_exact_keys d [''block_index'', text_key, ''confidence'', ''bbox'', ''reading_order''] then
            Inl (err ''Invalid block entry.'')
          else require_block_index err (get0 d ''block_index''))"

definition block_entry :: "pydict \<Rightarrow> int \<Rightarrow> string \<Rightarrow> pyval \<Rightarrow> pyval" where
  "block_entry d block_index text_key text_value =
     PDict [(lit ''block_index'', PInt block_index), (lit text_key, text_value),
            (lit ''confidence'', get0 d ''confidence''), (lit ''bbox'', get0 d ''bbox''),
            (lit ''reading_order'', get0 d ''reading_order'')]"

definition dict_of :: "pyval \<Rightarrow> pydict" where
  "dict_of v = (case as_dict v of None \<Rightarrow> [] | Some d \<Rightarrow> d)"

definition encrypt_block ::
  "aead \<Rightarrow> (nat \<Rightarrow> bytes) \<Rightarrow> encryption_keyring \<Rightarrow> (int \<Rightarrow> bytes result) \<Rightarrow> int \<Rightarrow> pyval \<Rightarrow> nat \<Rightarrow> (pyval \<times> nat) result" where
  "encrypt_block A rng kr aad_for_block block_index v n =
     (let d = dict_of v
      in case as_str (get0 d ''text'') of
           None \<Rightarrow> Inl (ScalarEncryptionError ''Invalid block text value.'')
         | Some t \<Rightarrow>
             bind (encrypt_next A rng kr (aad_for_block block_index) t n) (\<lambda>(m, n').
             Inr (block_entry d block_index ''text_encrypted'' m, n')))"

definition encrypt_block_list ::
  "aead \<Rightarrow> (nat \<Rightarrow> bytes) \<Rightarrow> encryption_keyring \<Rightarrow> (int \<Rightarrow> bytes result) \<Rightarrow> pyval \<Rightarrow> nat \<Rightarrow> (pyval list \<times> nat) result" where
  "encrypt_block_list A rng kr aad_for_block blocks n =
     (case as_list blocks of
        None \<Rightarrow> Inl (ScalarEncryptionError ''Invalid blocks value.'')
      | Some bs \<Rightarrow>
          unique_loop (block_key ScalarEncryptionError ''text'')
            (ScalarEncryptionError ''Duplicate block_index value.'')
            (encrypt_block A rng kr aad_for_block) [] n bs)"

definition decrypt_block ::
  "aead \<Rightarrow> encryption_keyring \<Rightarrow> (int \<Rightarrow> bytes result) \<Rightarrow> int \<Rightarrow> pyval \<Rightarrow> unit \<Rightarrow> (pyval \<times> unit) result" where
  "decrypt_block A kr aad_for_block block_index v u =
     (let d = dict_of v
      in if as_dict (get0 d ''text_encrypted'') = None then
           Inl (ScalarDecryptionError ''Invalid block text_encrypted value.'')
         else
           bind (decrypt_with A kr (aad_for_block block_index) ''Unable to decrypt block text.''
                   (get0 d ''text_encrypted'')) (\<lambda>p.
           bind (ensure_utf8_plaintext p) (\<lambda>t. Inr (block_entry d block_index ''text'' (PStr t), u))))"

definition decrypt_block_list ::
  "aead \<Rightarrow> encryption_keyring \<Rightarrow> (int \<Rightarrow> bytes result) \<Rightarrow> pyval \<Rightarrow> pyval list result" where
  "decrypt_block_list A kr aad_for_block blocks =
     (case as_list blocks of
        None \<Rightarrow> Inl (ScalarDecryptionError ''Invalid blocks value.'')
      | Some bs \<Rightarrow>
          bind (unique_loop (block_key ScalarDecryptionError ''text_encrypted'')
                  (ScalarDecryptionError ''Duplicate block_index value.'')
                  (decrypt_block A kr aad_for_block) [] () bs) (\<lambda>(ys, u). Inr ys))"

definition encrypt_extraction_page_blocks ::
  "aead \<Rightarrow> (nat \<Rightarrow> bytes) \<Rightarrow> encryption_keyring \<Rightarrow> pyval \<Rightarrow> pyval \<Rightarrow> pyval \<Rightarrow> pyval \<Rightarrow> nat \<Rightarrow>
     (pyval list \<times> nat) result" where
  "encrypt_extraction_page_blocks A rng kr blocks extraction_id page_number owner_id n =
     bind (require_identifier ScalarEncryptionError ''extraction_id'' extraction_id) (\<lambda>eid.
     bind (require_identifier ScalarEncryptionError ''owner_id'' owner_id) (\<lambda>oid.
     bind (require_page_number ScalarEncryptionError page_number) (\<lambda>pn.
     encrypt_block_list A rng kr (\<lambda>i. block_aad eid pn i oid) blocks n)))"

definition decrypt_extraction_page_blocks ::
  "aead \<Rightarrow> encryption_keyring \<Rightarrow> pyval \<Rightarrow> pyval \<Rightarrow> pyval \<Rightarrow> pyval \<Rightarrow> pyval list result" where
  "decrypt_extraction_page_blocks A kr blocks extraction_id page_number owner_id =
     bind (require_identifier ScalarDecryptionError ''extraction_id'' extraction_id) (\<lambda>eid.
     bind (require_identifier ScalarDecryptionError ''owner_id'' owner_id) (\<lambda>oid.
     bind (require_page_number ScalarDecryptionError page_number) (\<lambda>pn.
     decrypt_block_list A kr (\<lambda>i. block_aad eid pn i oid) blocks)))"

definition encrypt_confirmation_snapshot_blocks ::
  "aead \<Rightarrow> (nat \<Rightarrow> bytes) \<Rightarrow> encryption_keyring \<Rightarrow> pyval \<Rightarrow> pyval \<Rightarrow> pyval \<Rightarrow> pyval \<Rightarrow> pyval \<Rightarrow> nat \<Rightarrow>
     (pyval list \<times> nat) result" where
  "encrypt_confirmation_snapshot_blocks A rng kr blocks extraction_id snapshot_version page_number owner_id n =
     bind (require_identifier ScalarEncryptionError ''extraction_id'' extraction_id) (\<lambda>eid.
     bind (require_identifier ScalarEncryptionError ''owner_id'' owner_id) (\<lambda>oid.
     bind (require_page_number ScalarEncryptionError page_number) (\<lambda>pn.
     bind (require_snapshot_version ScalarEncryptionError snapshot_version) (\<lambda>sv.
     encrypt_block_list A rng kr (\<lambda>i. snapshot_block_aad eid sv pn i oid) blocks n))))"

definition decrypt_confirmation_snapshot_blocks ::
  "aead \<Rightarrow> encryption_keyring \<Rightarrow> pyval \<Rightarrow> pyval \<Rightarrow> pyval \<Rightarrow> pyval \<Rightarrow> pyval \<Rightarrow> pyval list result" where
  "decrypt_confirmation_snapshot_blocks A kr blocks extraction_id snapshot_version page_number owner_id =
     bind (require_identifier ScalarDecryptionError ''extraction_id'' extraction_id) (\<lambda>eid.
     bind (require_identifier ScalarDecryptionError ''owner_id'' owner_id) (\<lambda>oid.
     bind (require_page_number ScalarDecryptionError page_number) (\<lambda>pn.
     bind (require_snapshot_version ScalarDecryptionError snapshot_version) (\<lambda>sv.
     decrypt_block_list A kr (\<lambda>i. snapshot_block_aad eid sv pn i oid) blocks))))"

subsection \<open>Page text fields\<close>

definition is_page_text_field :: "string \<Rightarrow> bool" where
  "is_page_text_field f \<longleftrightarrow> f \<in> {''reviewed_text'', ''final_text''}"

definition encrypt_extraction_page_text_field ::
  "aead \<Rightarrow> (nat \<Rightarrow> bytes) \<Rightarrow> encryption_keyring \<Rightarrow> pyval \<Rightarrow> string \<Rightarrow> pyval \<Rightarrow> pyval \<Rightarrow> pyval \<Rightarrow> nat \<Rightarrow>
     (pyval \<times> nat) result" where
  "encrypt_extraction_page_text_field A rng kr v field_name extraction_id page_number owner_id n =
     (if \<not> is_page_text_field field_name then Inl (ScalarEncryptionError ''Invalid field_name value.'')
      else if v = PNone then Inr (PNone, n)
      else
        (case as_str v of
           None \<Rightarrow> Inl (ScalarEncryptionError (''Invalid '' @ field_name @ '' value.''))
         | Some t \<Rightarrow>
             bind (require_identifier ScalarEncryptionError ''extraction_id'' extraction_id) (\<lambda>eid.
             bind (require_identifier ScalarEncryptionError ''owner_id'' owner_id) (\<lambda>oid.
             bind (require_page_number ScalarEncryptionError page_number) (\<lambda>pn.
             encrypt_next A rng kr (page_text_field_aad eid pn (lit field_name) oid) t n)))))"

definition decrypt_extraction_page_text_field ::
  "aead \<Rightarrow> encryption_keyring \<Rightarrow> pyval \<Rightarrow> string \<Rightarrow> pyval \<Rightarrow> pyval \<Rightarrow> pyval \<Rightarrow> pyval result" where
  "decrypt_extraction_page_text_field A kr v field_name extraction_id page_number owner_id =
     (if \<not> is_page_text_field field_name then Inl (ScalarDecryptionError ''Invalid field_name value.'')
      else if v = PNone then Inr PNone
      else if as_dict v = None then
        Inl (ScalarDecryptionError (''Invalid '' @ field_name @ ''_encrypted value.''))
      else
        bind (require_identifier ScalarDecryptionError ''extraction_id'' extraction_id) (\<lambda>eid.
        bind (require_identifier ScalarDecryptionError ''owner_id'' owner_id) (\<lambda>oid.
        bind (require_page_number ScalarDecryptionError page_number) (\<lambda>pn.
        bind (decrypt_with A kr (page_text_field_aad eid pn (lit field_name) oid)
                (''Unable to decrypt '' @ field_name @ ''.'') v) (\<lambda>p.
        bind (ensure_utf8_plaintext p) (\<lambda>t. Inr (PStr t)))))))"

text \<open>\<open>dict.pop(key, None)\<close>.\<close>

definition pop_key :: "string \<Rightarrow> pydict \<Rightarrow> pydict" where
  "pop_key k d = filter (\<lambda>m. fst m \<noteq> lit k) d"

definition write_extraction_page_text_field ::
  "aead \<Rightarrow> (nat \<Rightarrow> bytes) \<Rightarrow> encryption_keyring \<Rightarrow> pyval \<Rightarrow> string \<Rightarrow> pyval \<Rightarrow> pyval \<Rightarrow> pyval \<Rightarrow> pyval \<Rightarrow> nat \<Rightarrow>
     (pydict \<times> nat) result" where
  "write_extraction_page_text_field A rng kr page_data field_name v extraction_id page_number owner_id n =
     (if \<not> is_page_text_field field_name then Inl (ScalarEncryptionError ''Invalid field_name value.'')
      else
        (case as_dict page_data of
           None \<Rightarrow> Inl (ScalarEncryptionError ''Invalid page extra_data value.'')
         | Some d \<Rightarrow>
             bind (encrypt_extraction_page_text_field A rng kr v field_name extraction_id page_number owner_id n)
               (\<lambda>(m, n'). Inr (put (lit (field_name @ ''_encrypted'')) m (pop_key field_name d), n'))))"

definition read_extraction_page_text_field ::
  "aead \<Rightarrow> encryption_keyring \<Rightarrow> pyval \<Rightarrow> string \<Rightarrow> pyval \<Rightarrow> pyval \<Rightarrow> pyval \<Rightarrow> pyval result" where
  "read_extraction_page_text_field A kr page_data field_name extraction_id page_number owner_id =
     (if \<not> is_page_text_field field_name then Inl (ScalarDecryptionError ''Invalid field_name value.'')
      else
        (case as_dict page_data of
           None \<Rightarrow> Inl (ScalarDecryptionError ''Invalid page extra_data value.'')
         | Some d \<Rightarrow>
             if get0 d field_name \<noteq> PNone then
               Inl (ScalarDecryptionError
                 (''Legacy or conflicting plaintext '' @ field_name @ '' value is not supported.''))
             else if lit (field_name @ ''_encrypted'') \<notin> fst ` set d then Inr PNone
             else
               decrypt_extraction_page_text_field A kr (get0 d (field_name @ ''_encrypted'')) field_name
                 extraction_id page_number owner_id))"

subsection \<open>The confirmation snapshot\<close>

definition snapshot_page_keys :: "string \<Rightarrow> string list" where
  "snapshot_page_keys text_key =
     [''page_id'', ''page_number'', text_key, ''text_source'', ''text_changed'', ''method'', ''warnings'',
      ''blocks'']"

definition snapshot_page_key :: "(string \<Rightarrow> exn) \<Rightarrow> string \<Rightarrow> pyval \<Rightarrow> int result" where
  "snapshot_page_key err text_key v =
     (case as_dict v of
        None \<Rightarrow> Inl (err ''Invalid confirmation snapshot page.'')
      | Some d \<Rightarrow>
          if \<not> has_exact_keys d (snapshot_page_keys text_key) then
            Inl (err ''Invalid confirmation snapshot page.'')
          else require_page_number err (get0 d ''page_number''))"

definition snapshot_page_entry :: "pydict \<Rightarrow> int \<Rightarrow> string \<Rightarrow> pyval \<Rightarrow> pyval list \<Rightarrow> pyval" where
  "snapshot_page_entry d page_number text_key text_value blocks =
     PDict [(lit ''page_id'', get0 d ''page_id''), (lit ''page_number'', PInt page_number),
            (lit text_key, text_value), (lit ''text_source'', get0 d ''text_source''),
            (lit ''text_changed'', get0 d ''text_changed''), (lit ''method'', get0 d ''method''),
            (lit ''warnings'', get0 d ''warnings''), (lit ''blocks'', PList blocks)]"

text \<open>\<open>blocks if isinstance(blocks, list) else []\<close>.\<close>

definition list_or_empty :: "pyval \<Rightarrow> pyval" where
  "list_or_empty v = (case as_list v of None \<Rightarrow> PList [] | Some xs \<Rightarrow> PList xs)"

definition encrypt_snapshot_page ::
  "aead \<Rightarrow> (nat \<Rightarrow> bytes) \<Rightarrow> encryption_keyring \<Rightarrow> pystr \<Rightarrow> pystr \<Rightarrow> int \<Rightarrow> int \<Rightarrow> pyval \<Rightarrow> nat \<Rightarrow> (pyval \<times> nat) result" where
  "encrypt_snapshot_page A rng kr eid oid sv page_number v n =
     (let d = dict_of v
      in case as_str (get0 d ''final_text'') of
           None \<Rightarrow> Inl (ScalarEncryptionError ''Invalid final_text value.'')
         | Some t \<Rightarrow>
             bind (encrypt_confirmation_snapshot_blocks A rng kr (list_or_empty (get0 d ''blocks''))
                     (PStr eid) (PInt sv) (PInt page_number) (PStr oid) n) (\<lambda>(bs, n1).
             bind (encrypt_next A rng kr (snapshot_final_text_aad eid page_number sv oid) t n1) (\<lambda>(m, n2).
             Inr (snapshot_page_entry d page_number ''final_text_encrypted'' m bs, n2))))"

definition encrypt_confirmation_snapshot ::
  "aead \<Rightarrow> (nat \<Rightarrow> bytes) \<Rightarrow> encryption_keyring \<Rightarrow> pyval \<Rightarrow> pyval \<Rightarrow> pyval \<Rightarrow> pyval \<Rightarrow> nat \<Rightarrow>
     (pyval list \<times> nat) result" where
  "encrypt_confirmation_snapshot A rng kr snapshot extraction_id owner_id snapshot_version n =
     bind (require_identifier ScalarEncryptionError ''extraction_id'' extraction_id) (\<lambda>eid.
     bind (require_identifier ScalarEncryptionError ''owner_id'' owner_id) (\<lambda>oid.
     bind (require_snapshot_version ScalarEncryptionError snapshot_version) (\<lambda>sv.
     case as_list snapshot of
       None \<Rightarrow> Inl (ScalarEncryptionError ''Invalid confirmation snapshot value.'')
     | Some pages \<Rightarrow>
         unique_loop (snapshot_page_key ScalarEncryptionError ''final_text'')
           (ScalarEncryptionError ''Duplicate page_number value.'')
           (encrypt_snapshot_page A rng kr eid oid sv) [] n pages)))"

definition decrypt_snapshot_page ::
  "aead \<Rightarrow> encryption_keyring \<Rightarrow> pystr \<Rightarrow> pystr \<Rightarrow> int \<Rightarrow> int \<Rightarrow> pyval \<Rightarrow> unit \<Rightarrow> (pyval \<times> unit) result" where
  "decrypt_snapshot_page A kr eid oid sv page_number v u =
     (let d = dict_of v
      in if as_dict (get0 d ''final_text_encrypted'') = None then
           Inl (ScalarDecryptionError ''Invalid final_text_encrypted value.'')
         else
           bind (decrypt_with A kr (snapshot_final_text_aad eid page_number sv oid)
                   ''Unable to decrypt confirmation snapshot final_text.''
                   (get0 d ''final_text_encrypted'')) (\<lambda>p.
           bind (decrypt_confirmation_snapshot_blocks A kr (list_or_empty (get0 d ''blocks''))
                   (PStr eid) (PInt sv) (PInt page_number) (PStr oid)) (\<lambda>bs.
           bind (ensure_utf8_plaintext p) (\<lambda>t.
           Inr (snapshot_page_entry d page_number ''final_text'' (PStr t) bs, u)))))"

definition decrypt_confirmation_snapshot ::
  "aead \<Rightarrow> encryption_keyring \<Rightarrow> pyval \<Rightarrow> pyval \<Rightarrow> pyval \<Rightarrow> pyval \<Rightarrow> pyval list result" where
  "decrypt_confirmation_snapshot A kr stored_snapshot extraction_id owner_id snapshot_version =
     bind (require_identifier ScalarDecryptionError ''extraction_id'' extraction_id) (\<lambda>eid.
     bind (require_identifier ScalarDecryptionError ''owner_id'' owner_id) (\<lambda>oid.
     bind (require_snapshot_version ScalarDecryptionError snapshot_version) (\<lambda>sv.
     case as_list stored_snapshot of
       None \<Rightarrow> Inl (ScalarDecryptionError ''Invalid confirmation snapshot value.'')
     | Some pages \<Rightarrow>
         bind (unique_loop (snapshot_page_key ScalarDecryptionError ''final_text_encrypted'')
                 (ScalarDecryptionError ''Duplicate page_number value.'')
                 (decrypt_snapshot_page A kr eid oid sv) [] () pages) (\<lambda>(ys, u). Inr ys))))"

end
