(* ===== verification/Result_Encryption.thy ===== *)
theory Result_Encryption
  imports Nested_Encryption
begin

text \<open>
  Model of \<^verbatim>\<open>src/backend/app/services/analysis_result_encryption.py\<close> and
  \<^verbatim>\<open>analysis_evidence_encryption.py\<close>: the texts of an analysis result and of its evidence,
  each sealed under associated data that name the job, the clause, the item and the field.  The code
  iterates a \<open>frozenset\<close> of field names in an order the language leaves open: the order is the
  argument \<open>order\<close>.
\<close>

subsection \<open>Key sets\<close>

definition value_text_fields :: "string list" where
  "value_text_fields =
     [''title'', ''risk_reason'', ''practical_impact'', ''recommendation'', ''expert_review_summary'']"

definition encrypted_name :: "string \<Rightarrow> string" where
  "encrypted_name f = f @ ''_encrypted''"

definition value_other_keys :: "string list" where
  "value_other_keys =
     [''category'', ''risk_type'', ''severity'', ''action_priority'', ''questions_to_ask'',
      ''negotiation_suggestions'', ''confidence_score'', ''evidence'', ''extracted_facts'',
      ''validation_status'', ''expert_review_reason_codes'', ''is_stale'']"

definition analysis_value_plaintext_keys :: "string list" where
  "analysis_value_plaintext_keys = value_other_keys @ value_text_fields"

definition analysis_value_encrypted_keys :: "string list" where
  "analysis_value_encrypted_keys = value_other_keys @ map encrypted_name value_text_fields"

definition question_keys :: "bool \<Rightarrow> string list" where
  "question_keys enc =
     [''question_id'', if enc then ''question_encrypted'' else ''question'',
      if enc then ''purpose_encrypted'' else ''purpose'', ''related_evidence_ids'', ''priority'', ''id'']"

definition suggestion_keys :: "bool \<Rightarrow> string list" where
  "suggestion_keys enc =
     [''suggestion_id'', if enc then ''objective_encrypted'' else ''objective'',
      if enc then ''suggested_change_encrypted'' else ''suggested_change'',
      if enc then ''fallback_option_encrypted'' else ''fallback_option'',
      ''related_evidence_ids'', ''priority'', ''id'']"

definition fact_optional_fields :: "string list" where
  "fact_optional_fields =
     [''normalized_value'', ''date_value'', ''amount_value'', ''duration_value'', ''obligation_party'']"

definition fact_text_fields :: "string list" where
  "fact_text_fields = [''label'', ''value''] @ fact_optional_fields"

definition fact_other_keys :: "string list" where
  "fact_other_keys =
     [''fact_id'', ''fact_type'', ''unit'', ''currency'', ''status'', ''evidence'', ''confidence_score'']"

definition fact_keys :: "bool \<Rightarrow> string list" where
  "fact_keys enc = fact_other_keys @ (if enc then map encrypted_name fact_text_fields else fact_text_fields)"

subsection \<open>Associated data\<close>

definition value_field_aad :: "pystr \<Rightarrow> pystr \<Rightarrow> string \<Rightarrow> pystr \<Rightarrow> bytes result" where
  "value_field_aad analysis_job_id clause_record_id field_name owner_id =
     build_canonical_aad (lit ''analysis_result_item'')
       (build_canonical_record_id
         [(lit ''analysis_job_id'', PStr analysis_job_id), (lit ''clause_record_id'', PStr clause_record_id)])
       (lit field_name) owner_id (lit ''analysis-result-v1'')"

definition question_field_aad :: "pystr \<Rightarrow> pystr \<Rightarrow> pystr \<Rightarrow> string \<Rightarrow> pystr \<Rightarrow> bytes result" where
  "question_field_aad analysis_job_id clause_record_id question_id field_name owner_id =
     build_canonical_aad (lit ''analysis_result_question'')
       (build_canonical_record_id
         [(lit ''analysis_job_id'', PStr analysis_job_id), (lit ''clause_record_id'', PStr clause_record_id),
          (lit ''question_id'', PStr question_id)])
       (lit field_name) owner_id (lit ''analysis-result-v1'')"

definition suggestion_field_aad :: "pystr \<Rightarrow> pystr \<Rightarrow> pystr \<Rightarrow> string \<Rightarrow> pystr \<Rightarrow> bytes result" where
  "suggestion_field_aad analysis_job_id clause_record_id suggestion_id field_name owner_id =
     build_canonical_aad (lit ''analysis_result_suggestion'')
       (build_canonical_record_id
         [(lit ''analysis_job_id'', PStr analysis_job_id), (lit ''clause_record_id'', PStr clause_record_id),
          (lit ''suggestion_id'', PStr suggestion_id)])
       (lit field_name) owner_id (lit ''analysis-result-v1'')"

definition fact_field_aad :: "pystr \<Rightarrow> pystr \<Rightarrow> pystr \<Rightarrow> string \<Rightarrow> pystr \<Rightarrow> bytes result" where
  "fact_field_aad analysis_job_id clause_record_id fact_id field_name owner_id =
     build_canonical_aad (lit ''analysis_result_fact'')
       (build_canonical_record_id
         [(lit ''analysis_job_id'', PStr analysis_job_id), (lit ''clause_record_id'', PStr clause_record_id),
          (lit ''fact_id'', PStr fact_id)])
       (lit field_name) owner_id (lit ''analysis-result-v1'')"

subsection \<open>One text\<close>

definition require_result_item_id :: "(string \<Rightarrow> exn) \<Rightarrow> string \<Rightarrow> pyval \<Rightarrow> pystr result" where
  "require_result_item_id err name v =
     (case as_str v of
        None \<Rightarrow> Inl (err (''Invalid '' @ name @ '' value.''))
      | Some s \<Rightarrow>
          if strip s = [] then Inl (err (''Invalid '' @ name @ '' value.''))
          else if strip s \<noteq> s \<or> 0 \<in> set s then Inl (err (''Invalid '' @ name @ '' value.''))
          else Inr s)"

text \<open>The associated data are an argument of the call, so their errors come first.\<close>

definition encrypt_result_text ::
  "aead \<Rightarrow> (nat \<Rightarrow> bytes) \<Rightarrow> encryption_keyring \<Rightarrow> bytes result \<Rightarrow> pyval \<Rightarrow> nat \<Rightarrow> (pyval \<times> nat) result" where
  "encrypt_result_text A rng kr aad v n =
     bind aad (\<lambda>a.
     case as_str v of
       None \<Rightarrow> Inl (ScalarEncryptionError ''Invalid text value.'')
     | Some t \<Rightarrow>
         bind (ensure_utf8_text t) (\<lambda>bs.
         bind (encrypt A (rng n) kr a bs) (\<lambda>e. Inr (PDict (envelope_to_mapping e), Suc n))))"

definition decrypt_result_text ::
  "aead \<Rightarrow> encryption_keyring \<Rightarrow> bytes result \<Rightarrow> pyval \<Rightarrow> unit \<Rightarrow> (pyval \<times> unit) result" where
  "decrypt_result_text A kr aad v u =
     bind aad (\<lambda>a.
     if as_dict v = None then Inl (ScalarDecryptionError ''Invalid encrypted text value.'')
     else
       bind (or_raise (ScalarDecryptionError ''Unable to decrypt analysis result text.'')
               (decrypt_mapping A kr a v)) (\<lambda>p.
       bind (ensure_utf8_plaintext p) (\<lambda>t. Inr (PStr t, u))))"

text \<open>\<open>d[key(f)] = value(f)\<close> for the field names in turn.\<close>

fun put_fields ::
  "(string \<Rightarrow> 's \<Rightarrow> (pyval \<times> 's) result) \<Rightarrow> (string \<Rightarrow> string) \<Rightarrow> string list \<Rightarrow> pydict \<Rightarrow> 's \<Rightarrow>
     (pydict \<times> 's) result" where
  "put_fields field key [] d n = Inr (d, n)"
| "put_fields field key (f # fs) d n =
     bind (field f n) (\<lambda>(v, n'). put_fields field key fs (put (lit (key f)) v d) n')"

definition drop_keys :: "string list \<Rightarrow> pydict \<Rightarrow> pydict" where
  "drop_keys ks d = filter (\<lambda>m. fst m \<notin> set (map lit ks)) d"

subsection \<open>Questions and suggestions\<close>

definition item_key ::
  "(string \<Rightarrow> exn) \<Rightarrow> string list \<Rightarrow> string \<Rightarrow> string \<Rightarrow> pyval \<Rightarrow> pystr result" where
  "item_key err keys msg id_name v =
     (case as_dict v of
        None \<Rightarrow> Inl (err msg)
      | Some d \<Rightarrow>
          if \<not> has_exact_keys d keys then Inl (err msg)
          else require_result_item_id err id_name (get0 d id_name))"

definition encrypt_question ::
  "aead \<Rightarrow> (nat \<Rightarrow> bytes) \<Rightarrow> encryption_keyring \<Rightarrow> pystr \<Rightarrow> pystr \<Rightarrow> pystr \<Rightarrow> pystr \<Rightarrow> pyval \<Rightarrow> nat \<Rightarrow> (pyval \<times> nat) result" where
  "encrypt_question A rng kr jid cid oid question_id v n =
     (let d = dict_of v;
          field = (\<lambda>f. encrypt_result_text A rng kr (question_field_aad jid cid question_id f oid) (get0 d f))
      in bind (field ''question'' n) (\<lambda>(q, n1).
         bind (field ''purpose'' n1) (\<lambda>(p, n2).
         Inr (PDict [(lit ''question_id'', PStr question_id), (lit ''question_encrypted'', q),
                     (lit ''purpose_encrypted'', p),
                     (lit ''related_evidence_ids'', get0 d ''related_evidence_ids''),
                     (lit ''priority'', get0 d ''priority''), (lit ''id'', get0 d ''id'')], n2))))"

definition decrypt_question ::
  "aead \<Rightarrow> encryption_keyring \<Rightarrow> pystr \<Rightarrow> pystr \<Rightarrow> pystr \<Rightarrow> pystr \<Rightarrow> pyval \<Rightarrow> unit \<Rightarrow> (pyval \<times> unit) result" where
  "decrypt_question A kr jid cid oid question_id v u =
     (let d = dict_of v;
          field = (\<lambda>f. decrypt_result_text A kr (question_field_aad jid cid question_id f oid)
                         (get0 d (encrypted_name f)))
      in bind (field ''question'' u) (\<lambda>(q, u1).
         bind (field ''purpose'' u1) (\<lambda>(p, u2).
         Inr (PDict [(lit ''question_id'', PStr question_id), (lit ''question'', q), (lit ''purpose'', p),
                     (lit ''related_evidence_ids'', get0 d ''related_evidence_ids''),
                     (lit ''priority'', get0 d ''priority''), (lit ''id'', get0 d ''id'')], u2))))"

definition encrypt_question_list ::
  "aead \<Rightarrow> (nat \<Rightarrow> bytes) \<Rightarrow> encryption_keyring \<Rightarrow> pystr \<Rightarrow> pystr \<Rightarrow> pystr \<Rightarrow> pyval \<Rightarrow> nat \<Rightarrow> (pyval list \<times> nat) result" where
  "encrypt_question_list A rng kr jid cid oid questions n =
     (case as_list questions of
        None \<Rightarrow> Inl (ScalarEncryptionError ''Invalid questions_to_ask value.'')
      | Some xs \<Rightarrow>
          unique_loop (item_key ScalarEncryptionError (question_keys False) ''Invalid question entry.'' ''question_id'')
            (ScalarEncryptionError ''Duplicate question_id value.'')
            (encrypt_question A rng kr jid cid oid) [] n xs)"

definition decrypt_question_list ::
  "aead \<Rightarrow> encryption_keyring \<Rightarrow> pystr \<Rightarrow> pystr \<Rightarrow> pystr \<Rightarrow> pyval \<Rightarrow> pyval list result" where
  "decrypt_question_list A kr jid cid oid questions =
     (case as_list questions of
        None \<Rightarrow> Inl (ScalarDecryptionError ''Invalid questions_to_ask value.'')
      | Some xs \<Rightarrow>
          bind (unique_loop
                  (item_key ScalarDecryptionError (question_keys True) ''Invalid question entry.'' ''question_id'')
                  (ScalarDecryptionError ''Duplicate question_id value.'')
                  (decrypt_question A kr jid cid oid) [] () xs) (\<lambda>(ys, u). Inr ys))"

definition encrypt_suggestion ::
  "aead \<Rightarrow> (nat \<Rightarrow> bytes) \<Rightarrow> encryption_keyring \<Rightarrow> pystr \<Rightarrow> pystr \<Rightarrow> pystr \<Rightarrow> pystr \<Rightarrow> pyval \<Rightarrow> nat \<Rightarrow> (pyval \<times> nat) result" where
  "encrypt_suggestion A rng kr jid cid oid suggestion_id v n =
     (let d = dict_of v;
          field = (\<lambda>f. encrypt_result_text A rng kr (suggestion_field_aad jid cid suggestion_id f oid) (get0 d f))
      in bind (field ''objective'' n) (\<lambda>(ob, n1).
         bind (field ''suggested_change'' n1) (\<lambda>(ch, n2).
         bind (field ''fallback_option'' n2) (\<lambda>(fb, n3).
         Inr (PDict [(lit ''suggestion_id'', PStr suggestion_id), (lit ''objective_encrypted'', ob),
                     (lit ''suggested_change_encrypted'', ch), (lit ''fallback_option_encrypted'', fb),
                     (lit ''related_evidence_ids'', get0 d ''related_evidence_ids''),
                     (lit ''priority'', get0 d ''priority''), (lit ''id'', get0 d ''id'')], n3)))))"

definition decrypt_suggestion ::
  "aead \<Rightarrow> encryption_keyring \<Rightarrow> pystr \<Rightarrow> pystr \<Rightarrow> pystr \<Rightarrow> pystr \<Rightarrow> pyval \<Rightarrow> unit \<Rightarrow> (pyval \<times> unit) result" where
  "decrypt_suggestion A kr jid cid oid suggestion_id v u =
     (let d = dict_of v;
          field = (\<lambda>f. decrypt_result_text A kr (suggestion_field_aad jid cid suggestion_id f oid)
                         (get0 d (encrypted_name f)))
      in bind (field ''objective'' u) (\<lambda>(ob, u1).
         bind (field ''suggested_change'' u1) (\<lambda>(ch, u2).
         bind (field ''fallback_option'' u2) (\<lambda>(fb, u3).
         Inr (PDict [(lit ''suggestion_id'', PStr suggestion_id), (lit ''objective'', ob),
                     (lit ''suggested_change'', ch), (lit ''fallback_option'', fb),
                     (lit ''related_evidence_ids'', get0 d ''related_evidence_ids''),
                     (lit ''priority'', get0 d ''priority''), (lit ''id'', get0 d ''id'')], u3)))))"

definition encrypt_suggestion_list ::
  "aead \<Rightarrow> (nat \<Rightarrow> bytes) \<Rightarrow> encryption_keyring \<Rightarrow> pystr \<Rightarrow> pystr \<Rightarrow> pystr \<Rightarrow> pyval \<Rightarrow> nat \<Rightarrow> (pyval list \<times> nat) result" where
  "encrypt_suggestion_list A rng kr jid cid oid suggestions n =
     (case as_list suggestions of
        None \<Rightarrow> Inl (ScalarEncryptionError ''Invalid negotiation_suggestions value.'')
      | Some xs \<Rightarrow>
          unique_loop
            (item_key ScalarEncryptionError (suggestion_keys False) ''Invalid suggestion entry.'' ''suggestion_id'')
            (ScalarEncryptionError ''Duplicate suggestion_id value.'')
            (encrypt_suggestion A rng kr jid cid oid) [] n xs)"

definition decrypt_suggestion_list ::
  "aead \<Rightarrow> encryption_keyring \<Rightarrow> pystr \<Rightarrow> pystr \<Rightarrow> pystr \<Rightarrow> pyval \<Rightarrow> pyval list result" where
  "decrypt_suggestion_list A kr jid cid oid suggestions =
     (case as_list suggestions of
        None \<Rightarrow> Inl (ScalarDecryptionError ''Invalid negotiation_suggestions value.'')
      | Some xs \<Rightarrow>
          bind (unique_loop
                  (item_key ScalarDecryptionError (suggestion_keys True) ''Invalid suggestion entry.'' ''suggestion_id'')
                  (ScalarDecryptionError ''Duplicate suggestion_id value.'')
                  (decrypt_suggestion A kr jid cid oid) [] () xs) (\<lambda>(ys, u). Inr ys))"

subsection \<open>Facts\<close>

definition encrypt_fact_field ::
  "aead \<Rightarrow> (nat \<Rightarrow> bytes) \<Rightarrow> encryption_keyring \<Rightarrow> pystr \<Rightarrow> pystr \<Rightarrow> pystr \<Rightarrow> pystr \<Rightarrow> pydict \<Rightarrow> bool \<Rightarrow> string \<Rightarrow> nat \<Rightarrow>
     (pyval \<times> nat) result" where
  "encrypt_fact_field A rng kr jid cid oid fact_id d optional f n =
     (if optional \<and> get0 d f = PNone then Inr (PNone, n)
      else encrypt_result_text A rng kr (fact_field_aad jid cid fact_id f oid) (get0 d f) n)"

definition encrypt_fact ::
  "aead \<Rightarrow> (nat \<Rightarrow> bytes) \<Rightarrow> encryption_keyring \<Rightarrow> pystr \<Rightarrow> pystr \<Rightarrow> pystr \<Rightarrow> pystr \<Rightarrow> pyval \<Rightarrow> nat \<Rightarrow> (pyval \<times> nat) result" where
  "encrypt_fact A rng kr jid cid oid fact_id v n =
     (let d = dict_of v;
          field = encrypt_fact_field A rng kr jid cid oid fact_id d
      in bind (put_fields (field False) encrypted_name [''label'', ''value'']
                (put (lit ''fact_id'') (PStr fact_id) (drop_keys fact_text_fields d)) n) (\<lambda>(d1, n1).
         bind (put_fields (field True) encrypted_name fact_optional_fields d1 n1) (\<lambda>(d2, n2).
         Inr (PDict d2, n2))))"

definition decrypt_fact_field ::
  "aead \<Rightarrow> encryption_keyring \<Rightarrow> pystr \<Rightarrow> pystr \<Rightarrow> pystr \<Rightarrow> pystr \<Rightarrow> pydict \<Rightarrow> bool \<Rightarrow> string \<Rightarrow> unit \<Rightarrow>
     (pyval \<times> unit) result" where
  "decrypt_fact_field A kr jid cid oid fact_id d optional f u =
     (if optional \<and> get0 d (encrypted_name f) = PNone then Inr (PNone, u)
      else decrypt_result_text A kr (fact_field_aad jid cid fact_id f oid) (get0 d (encrypted_name f)) u)"

definition decrypt_fact ::
  "aead \<Rightarrow> encryption_keyring \<Rightarrow> pystr \<Rightarrow> pystr \<Rightarrow> pystr \<Rightarrow> pystr \<Rightarrow> pyval \<Rightarrow> unit \<Rightarrow> (pyval \<times> unit) result" where
  "decrypt_fact A kr jid cid oid fact_id v u =
     (let d = dict_of v;
          field = decrypt_fact_field A kr jid cid oid fact_id d
      in bind (put_fields (field False) (\<lambda>f. f) [''label'', ''value'']
                (put (lit ''fact_id'') (PStr fact_id) (drop_keys (map encrypted_name fact_text_fields) d)) u)
           (\<lambda>(d1, u1).
         bind (put_fields (field True) (\<lambda>f. f) fact_optional_fields d1 u1) (\<lambda>(d2, u2).
         Inr (PDict d2, u2))))"

definition encrypt_fact_list ::
  "aead \<Rightarrow> (nat \<Rightarrow> bytes) \<Rightarrow> encryption_keyring \<Rightarrow> pystr \<Rightarrow> pystr \<Rightarrow> pystr \<Rightarrow> pyval \<Rightarrow> nat \<Rightarrow> (pyval list \<times> nat) result" where
  "encrypt_fact_list A rng kr jid cid oid facts n =
     (case as_list facts of
        None \<Rightarrow> Inl (ScalarEncryptionError ''Invalid extracted_facts value.'')
      | Some xs \<Rightarrow>
          unique_loop (item_key ScalarEncryptionError (fact_keys False) ''Invalid extracted fact entry.'' ''fact_id'')
            (ScalarEncryptionError ''Duplicate fact_id value.'')
            (encrypt_fact A rng kr jid cid oid) [] n xs)"

definition decrypt_fact_list ::
  "aead \<Rightarrow> encryption_keyring \<Rightarrow> pystr \<Rightarrow> pystr \<Rightarrow> pystr \<Rightarrow> pyval \<Rightarrow> pyval list result" where
  "decrypt_fact_list A kr jid cid oid facts =
     (case as_list facts of
        None \<Rightarrow> Inl (ScalarDecryptionError ''Invalid extracted_facts value.'')
      | Some xs \<Rightarrow>
          bind (unique_loop (item_key ScalarDecryptionError (fact_keys True) ''Invalid extracted fact entry.'' ''fact_id'')
                  (ScalarDecryptionError ''Duplicate fact_id value.'')
                  (decrypt_fact A kr jid cid oid) [] () xs) (\<lambda>(ys, u). Inr ys))"

subsection \<open>The whole result\<close>

definition encrypt_analysis_value ::
  "string list \<Rightarrow> aead \<Rightarrow> (nat \<Rightarrow> bytes) \<Rightarrow> encryption_keyring \<Rightarrow> pyval \<Rightarrow> pyval \<Rightarrow> pyval \<Rightarrow> pyval \<Rightarrow> nat \<Rightarrow>
     (pyval \<times> nat) result" where
  "encrypt_analysis_value order A rng kr v analysis_job_id clause_record_id owner_id n =
     (case as_dict v of
        None \<Rightarrow> Inl (ScalarEncryptionError ''Invalid analysis_value payload.'')
      | Some d \<Rightarrow>
          if \<not> has_exact_keys d analysis_value_plaintext_keys then
            Inl (ScalarEncryptionError ''Invalid analysis_value payload.'')
          else
            bind (require_identifier ScalarEncryptionError ''analysis_job_id'' analysis_job_id) (\<lambda>jid.
            bind (require_identifier ScalarEncryptionError ''clause_record_id'' clause_record_id) (\<lambda>cid.
            bind (require_identifier ScalarEncryptionError ''owner_id'' owner_id) (\<lambda>oid.
            bind (put_fields
                    (\<lambda>f. encrypt_result_text A rng kr (value_field_aad jid cid f oid) (get0 d f))
                    encrypted_name order (drop_keys value_text_fields d) n) (\<lambda>(d1, n1).
            bind (encrypt_question_list A rng kr jid cid oid (get0 d ''questions_to_ask'') n1) (\<lambda>(qs, n2).
            bind (encrypt_suggestion_list A rng kr jid cid oid (get0 d ''negotiation_suggestions'') n2)
              (\<lambda>(ss, n3).
            bind (encrypt_fact_list A rng kr jid cid oid (get0 d ''extracted_facts'') n3) (\<lambda>(fs, n4).
            let d2 = put (lit ''extracted_facts'') (PList fs)
                       (put (lit ''negotiation_suggestions'') (PList ss)
                         (put (lit ''questions_to_ask'') (PList qs) d1))
            in if \<not> has_exact_keys d2 analysis_value_encrypted_keys then
                 Inl (ScalarEncryptionError ''Invalid analysis_value payload.'')
               else Inr (PDict d2, n4)))))))))"

definition decrypt_analysis_value ::
  "string list \<Rightarrow> aead \<Rightarrow> encryption_keyring \<Rightarrow> pyval \<Rightarrow> pyval \<Rightarrow> pyval \<Rightarrow> pyval \<Rightarrow> pyval result" where
  "decrypt_analysis_value order A kr v analysis_job_id clause_record_id owner_id =
     (case as_dict v of
        None \<Rightarrow> Inl (ScalarDecryptionError ''Invalid analysis_value payload.'')
      | Some d \<Rightarrow>
          if \<not> has_exact_keys d analysis_value_encrypted_keys then
            Inl (ScalarDecryptionError ''Invalid analysis_value payload.'')
          else
            bind (require_identifier ScalarDecryptionError ''analysis_job_id'' analysis_job_id) (\<lambda>jid.
            bind (require_identifier ScalarDecryptionError ''clause_record_id'' clause_record_id) (\<lambda>cid.
            bind (require_identifier ScalarDecryptionError ''owner_id'' owner_id) (\<lambda>oid.
            bind (put_fields
                    (\<lambda>f. decrypt_result_text A kr (value_field_aad jid cid f oid) (get0 d (encrypted_name f)))
                    (\<lambda>f. f) order (drop_keys (map encrypted_name value_text_fields) d) ()) (\<lambda>(d1, u).
            bind (decrypt_question_list A kr jid cid oid (get0 d ''questions_to_ask'')) (\<lambda>qs.
            bind (decrypt_suggestion_list A kr jid cid oid (get0 d ''negotiation_suggestions'')) (\<lambda>ss.
            bind (decrypt_fact_list A kr jid cid oid (get0 d ''extracted_facts'')) (\<lambda>fs.
            let d2 = put (lit ''extracted_facts'') (PList fs)
                       (put (lit ''negotiation_suggestions'') (PList ss)
                         (put (lit ''questions_to_ask'') (PList qs) d1))
            in if \<not> has_exact_keys d2 analysis_value_plaintext_keys then
                 Inl (ScalarDecryptionError ''Invalid analysis_value payload.'')
               else Inr (PDict d2)))))))))"

end
