(* ===== verification/Evidence_Encryption.thy ===== *)
theory Evidence_Encryption
  imports Result_Encryption
begin

text \<open>
  Model of \<^verbatim>\<open>src/backend/app/services/analysis_evidence_encryption.py\<close>: the source text of an
  evidence item is sealed under the job, the clause and the evidence id; everything else of the item
  is validated and stored in the clear.
\<close>

definition required_metadata_keys :: "string list" where
  "required_metadata_keys =
     [''evidence_id'', ''document_id'', ''extraction_id'', ''page_number'', ''clause_id'', ''start_offset'',
      ''end_offset'', ''block_ids'', ''evidence_type'', ''validation_status'', ''confidence'']"

definition optional_metadata_keys :: "string list" where
  "optional_metadata_keys = [''evidence_snapshot_hash'', ''clause_start_offset'', ''clause_end_offset'']"

definition source_text_key :: "bool \<Rightarrow> string" where
  "source_text_key enc = (if enc then ''source_text_encrypted'' else ''source_text'')"

definition require_evidence_item_id :: "(string \<Rightarrow> exn) \<Rightarrow> string \<Rightarrow> pyval \<Rightarrow> pystr result" where
  "require_evidence_item_id err name v =
     bind (require_identifier err name v) (\<lambda>s.
     if strip s \<noteq> s \<or> 0 \<in> set s then Inl (err (''Invalid '' @ name @ ''.'')) else Inr s)"

definition has_key :: "pydict \<Rightarrow> string \<Rightarrow> bool" where
  "has_key d k \<longleftrightarrow> lit k \<in> set (map fst d)"

definition validate_evidence_keys :: "bool \<Rightarrow> (string \<Rightarrow> exn) \<Rightarrow> pyval \<Rightarrow> pydict result" where
  "validate_evidence_keys enc err v =
     (case as_dict v of
        None \<Rightarrow> Inl (err ''Invalid evidence item.'')
      | Some d \<Rightarrow>
          let required = source_text_key enc # required_metadata_keys
          in if \<not> list_all (has_key d) required \<or>
                \<not> set (map fst d) \<subseteq> set (map lit (required @ optional_metadata_keys)) then
               Inl (err ''Invalid evidence item.'')
             else if has_key d ''clause_start_offset'' \<noteq> has_key d ''clause_end_offset'' then
               Inl (err ''Invalid evidence offsets.'')
             else Inr d)"

fun check_block_ids :: "(string \<Rightarrow> exn) \<Rightarrow> pystr list \<Rightarrow> pyval list \<Rightarrow> unit result" where
  "check_block_ids err seen [] = Inr ()"
| "check_block_ids err seen (v # vs) =
     bind (require_evidence_item_id err ''block_id'' v) (\<lambda>b.
     if b \<in> set seen then Inl (err ''Duplicate block_id value.'') else check_block_ids err (b # seen) vs)"

text \<open>
  \<open>float(i)\<close> raises for an integer that rounds beyond the largest double; a bool was refused before,
  and a float is finite unless it is an infinity or not a number.
\<close>

definition check_confidence :: "(string \<Rightarrow> exn) \<Rightarrow> pyval \<Rightarrow> unit result" where
  "check_confidence err v =
     (case v of
        PInt i \<Rightarrow>
          if 2 ^ 1024 - 2 ^ 970 \<le> \<bar>i\<bar> then
            Inl (OtherError (lit ''OverflowError'') (lit ''int too large to convert to float''))
          else if 0 \<le> i \<and> i \<le> 1 then Inr () else Inl (err ''Invalid evidence confidence.'')
      | PFloat (Dec m e) \<Rightarrow>
          if float_le fzero (Dec m e) \<and> float_le (Dec m e) fone then Inr ()
          else Inl (err ''Invalid evidence confidence.'')
      | _ \<Rightarrow> Inl (err ''Invalid evidence confidence.''))"

definition check_evidence_offsets :: "(string \<Rightarrow> exn) \<Rightarrow> pystr \<Rightarrow> pyval \<Rightarrow> pyval \<Rightarrow> unit result" where
  "check_evidence_offsets err status start stop =
     (case (start, stop) of
        (PInt s, PInt e) \<Rightarrow>
          if status = lit ''not_available'' then
            (if s \<noteq> 0 \<or> e \<noteq> 0 then Inl (err ''Invalid evidence offsets.'') else Inr ())
          else if s < 0 \<or> e \<le> s then Inl (err ''Invalid evidence offsets.'')
          else Inr ()
      | _ \<Rightarrow> Inl (err ''Invalid evidence offsets.''))"

definition check_clause_offsets :: "(string \<Rightarrow> exn) \<Rightarrow> pydict \<Rightarrow> unit result" where
  "check_clause_offsets err d =
     (if \<not> has_key d ''clause_start_offset'' then Inr ()
      else
        (case (get0 d ''clause_start_offset'', get0 d ''clause_end_offset'') of
           (PInt s, PInt e) \<Rightarrow> if s < 0 \<or> e < s then Inl (err ''Invalid clause offsets.'') else Inr ()
         | _ \<Rightarrow> Inl (err ''Invalid clause offsets.'')))"

definition validate_metadata :: "(string \<Rightarrow> exn) \<Rightarrow> pydict \<Rightarrow> pystr result" where
  "validate_metadata err d =
     bind (require_evidence_item_id err ''evidence_id'' (get0 d ''evidence_id'')) (\<lambda>evidence_id.
     bind (require_evidence_item_id err ''document_id'' (get0 d ''document_id'')) (\<lambda>_.
     bind (require_evidence_item_id err ''extraction_id'' (get0 d ''extraction_id'')) (\<lambda>_.
     bind (require_evidence_item_id err ''clause_id'' (get0 d ''clause_id'')) (\<lambda>_.
     bind (case get0 d ''page_number'' of
             PInt p \<Rightarrow> if p < 1 then Inl (err ''Invalid evidence page number.'') else Inr ()
           | _ \<Rightarrow> Inl (err ''Invalid evidence page number.'')) (\<lambda>_.
     bind (require_evidence_item_id err ''evidence_type'' (get0 d ''evidence_type'')) (\<lambda>_.
     bind (require_evidence_item_id err ''validation_status'' (get0 d ''validation_status'')) (\<lambda>status.
     bind (check_evidence_offsets err status (get0 d ''start_offset'') (get0 d ''end_offset'')) (\<lambda>_.
     bind (check_clause_offsets err d) (\<lambda>_.
     case as_list (get0 d ''block_ids'') of
       None \<Rightarrow> Inl (err ''Invalid block_ids.'')
     | Some ids \<Rightarrow>
         bind (check_block_ids err [] ids) (\<lambda>_.
         if status \<noteq> lit ''not_available'' \<and> ids = [] then Inl (err ''Invalid block_ids.'')
         else
           bind (check_confidence err (get0 d ''confidence'')) (\<lambda>_.
           bind (if has_key d ''evidence_snapshot_hash'' then
                   bind (require_evidence_item_id err ''evidence_snapshot_hash''
                          (get0 d ''evidence_snapshot_hash'')) (\<lambda>_. Inr ())
                 else Inr ()) (\<lambda>_.
           Inr evidence_id))))))))))))"

definition source_text_aad :: "pystr \<Rightarrow> pystr \<Rightarrow> pystr \<Rightarrow> pystr \<Rightarrow> bytes result" where
  "source_text_aad analysis_job_id clause_record_id evidence_id owner_id =
     build_canonical_aad (lit ''analysis_result_evidence'')
       (build_canonical_record_id
         [(lit ''analysis_job_id'', PStr analysis_job_id), (lit ''clause_record_id'', PStr clause_record_id),
          (lit ''evidence_id'', PStr evidence_id)])
       (lit ''source_text'') owner_id (lit ''analysis-evidence-v1'')"

definition validate_context :: "(string \<Rightarrow> exn) \<Rightarrow> pyval \<Rightarrow> pyval \<Rightarrow> pyval \<Rightarrow> (pystr \<times> pystr \<times> pystr) result" where
  "validate_context err analysis_job_id clause_record_id owner_id =
     bind (require_evidence_item_id err ''analysis_job_id'' analysis_job_id) (\<lambda>jid.
     bind (require_evidence_item_id err ''clause_record_id'' clause_record_id) (\<lambda>cid.
     bind (require_evidence_item_id err ''owner_id'' owner_id) (\<lambda>oid. Inr (jid, cid, oid))))"

definition evidence_item_key :: "bool \<Rightarrow> (string \<Rightarrow> exn) \<Rightarrow> pyval \<Rightarrow> pystr result" where
  "evidence_item_key enc err v = bind (validate_evidence_keys enc err v) (validate_metadata err)"

definition bad_source_text :: "pystr \<Rightarrow> bool" where
  "bad_source_text s \<longleftrightarrow> strip s = [] \<or> 1200 < int (length s)"

definition encrypt_evidence_item ::
  "aead \<Rightarrow> (nat \<Rightarrow> bytes) \<Rightarrow> encryption_keyring \<Rightarrow> pystr \<Rightarrow> pystr \<Rightarrow> pystr \<Rightarrow> pystr \<Rightarrow> pyval \<Rightarrow> nat \<Rightarrow>
     (pyval \<times> nat) result" where
  "encrypt_evidence_item A rng kr jid cid oid evidence_id v n =
     (let d = dict_of v
      in case as_str (get0 d ''source_text'') of
           None \<Rightarrow> Inl (ScalarEncryptionError ''Invalid evidence source text.'')
         | Some s \<Rightarrow>
             if bad_source_text s then Inl (ScalarEncryptionError ''Invalid evidence source text.'')
             else
               bind (or_raise (ScalarEncryptionError ''Unable to encrypt evidence.'')
                       (bind (encode_utf8 s) (\<lambda>bs.
                        bind (source_text_aad jid cid evidence_id oid) (\<lambda>a. encrypt A (rng n) kr a bs)))) (\<lambda>e.
               Inr (PDict (put (lit ''source_text_encrypted'') (PDict (envelope_to_mapping e))
                            (pop_key ''source_text'' d)), Suc n)))"

definition encrypt_analysis_evidence_list ::
  "aead \<Rightarrow> (nat \<Rightarrow> bytes) \<Rightarrow> encryption_keyring \<Rightarrow> pyval \<Rightarrow> pyval \<Rightarrow> pyval \<Rightarrow> pyval \<Rightarrow> nat \<Rightarrow>
     (pyval list \<times> nat) result" where
  "encrypt_analysis_evidence_list A rng kr evidence_list analysis_job_id clause_record_id owner_id n =
     (case as_list evidence_list of
        None \<Rightarrow> Inl (ScalarEncryptionError ''Invalid evidence list.'')
      | Some xs \<Rightarrow>
          bind (validate_context ScalarEncryptionError analysis_job_id clause_record_id owner_id)
            (\<lambda>(jid, cid, oid).
          unique_loop (evidence_item_key False ScalarEncryptionError)
            (ScalarEncryptionError ''Duplicate evidence_id value.'')
            (encrypt_evidence_item A rng kr jid cid oid) [] n xs))"

definition decrypt_evidence_item ::
  "aead \<Rightarrow> encryption_keyring \<Rightarrow> pystr \<Rightarrow> pystr \<Rightarrow> pystr \<Rightarrow> pystr \<Rightarrow> pyval \<Rightarrow> unit \<Rightarrow> (pyval \<times> unit) result" where
  "decrypt_evidence_item A kr jid cid oid evidence_id v u =
     (let d = dict_of v
      in bind (or_raise (ScalarDecryptionError ''Unable to decrypt evidence.'')
                (bind (source_text_aad jid cid evidence_id oid) (\<lambda>a.
                 bind (decrypt_mapping A kr a (get0 d ''source_text_encrypted'')) decode_utf8))) (\<lambda>s.
         if bad_source_text s then Inl (ScalarDecryptionError ''Invalid evidence source text.'')
         else
           let r = put (lit ''source_text'') (PStr s) (pop_key ''source_text_encrypted'' d)
           in bind (validate_evidence_keys False ScalarDecryptionError (PDict r)) (\<lambda>_.
              bind (validate_metadata ScalarDecryptionError r) (\<lambda>_. Inr (PDict r, u)))))"

definition decrypt_analysis_evidence_list ::
  "aead \<Rightarrow> encryption_keyring \<Rightarrow> pyval \<Rightarrow> pyval \<Rightarrow> pyval \<Rightarrow> pyval \<Rightarrow> pyval list result" where
  "decrypt_analysis_evidence_list A kr evidence_list analysis_job_id clause_record_id owner_id =
     (case as_list evidence_list of
        None \<Rightarrow> Inl (ScalarDecryptionError ''Invalid evidence list.'')
      | Some xs \<Rightarrow>
          bind (validate_context ScalarDecryptionError analysis_job_id clause_record_id owner_id)
            (\<lambda>(jid, cid, oid).
          bind (unique_loop (evidence_item_key True ScalarDecryptionError)
                  (ScalarDecryptionError ''Duplicate evidence_id value.'')
                  (decrypt_evidence_item A kr jid cid oid) [] () xs) (\<lambda>(ys, u). Inr ys)))"

end
