(* ===== verification/Encryption_Correct.thy ===== *)
theory Encryption_Correct
  imports Crypto_Correct Evidence_Encryption
begin

text \<open>
  Round trips of the encryption services: what a service encrypted, the matching service decrypts to
  the same value, for every nonce supply and under every ring that still finds the key.  The list
  services share the interface \<open>sealed_list\<close>: an entry and its sealed form have the same key, and
  opening the sealed form gives the entry back.
\<close>

subsection \<open>Equality of decoded values\<close>

text \<open>Python compares dictionaries without their order, at every level.\<close>

inductive py_same :: "pyval \<Rightarrow> pyval \<Rightarrow> bool" where
  py_same_refl [intro, simp]: "py_same v v"
| py_same_list [intro]: "list_all2 py_same xs ys \<Longrightarrow> py_same (PList xs) (PList ys)"
| py_same_dict: "(\<And>k. rel_option py_same (map_of d k) (map_of d' k)) \<Longrightarrow> py_same (PDict d) (PDict d')"

lemma exact_keys_map:
  assumes "has_exact_keys d ks"
  shows "map_of d = map_of (map (\<lambda>k. (lit k, get0 d k)) ks)"
proof
  fix x
  have *: "map_of (map (\<lambda>k. (lit k, get0 d k)) ks) x = (if x \<in> set (map lit ks) then Some (case map_of d x of None \<Rightarrow> PNone | Some v \<Rightarrow> v) else None)"
    by (induction ks) (auto simp: get0_def get_def)
  have "x \<in> set (map lit ks) \<longleftrightarrow> map_of d x \<noteq> None"
    using assms unfolding has_exact_keys_def map_of_eq_None_iff by auto
  then show "map_of d x = map_of (map (\<lambda>k. (lit k, get0 d k)) ks) x"
    unfolding * by (cases "map_of d x") auto
qed

lemma py_same_map: "map_of d = map_of d' \<Longrightarrow> py_same (PDict d) (PDict d')"
  by (rule py_same_dict) (simp add: option.rel_refl)

lemma py_same_entries:
  assumes "map_of d = map_of es" "list_all2 (\<lambda>m m'. fst m = fst m' \<and> py_same (snd m) (snd m')) es es'"
  shows "py_same (PDict d) (PDict es')"
proof (rule py_same_dict, unfold assms(1))
  fix k
  show "rel_option py_same (map_of es k) (map_of es' k)"
    using assms(2) by (induction rule: list_all2_induct) auto
qed

subsection \<open>Rings that can read\<close>

text \<open>What one ring sealed, the other can open: it has the bytes of the first one's active key, active or not.\<close>

definition can_read :: "aead \<Rightarrow> encryption_keyring \<Rightarrow> encryption_keyring \<Rightarrow> bool" where
  "can_read A kr kr' \<longleftrightarrow>
     aead_correct A \<and> (\<exists>k. get_active_key kr = Inr k \<and> finds_key kr' k)"

lemma can_read_opens:
  assumes "can_read A kr kr'" "encrypt A nonce kr a p = Inr e"
  shows "decrypt A kr' a e = Inr p" "envelope_of_json (envelope_to_json e) = Inr e"
    "decrypt_mapping A kr' a (PDict (envelope_to_mapping e)) = Inr p"
proof -
  obtain k where "aead_correct A" "get_active_key kr = Inr k" "finds_key kr' k"
    using assms(1) unfolding can_read_def by blast
  then show "decrypt A kr' a e = Inr p" "envelope_of_json (envelope_to_json e) = Inr e"
    "decrypt_mapping A kr' a (PDict (envelope_to_mapping e)) = Inr p"
    using encrypted_opens assms(2) by metis+
qed

lemma ensure_text_ok: "ensure_utf8_text s = Inr bs \<longleftrightarrow> is_encodable s \<and> bs = utf8_encode s"
  by (auto simp: ensure_utf8_text_def or_raise_def encode_utf8_def)

lemma encode_ok: "encode_utf8 s = Inr bs \<longleftrightarrow> is_encodable s \<and> bs = utf8_encode s"
  by (auto simp: encode_utf8_def)

lemma decode_encoded:
  "is_encodable s \<Longrightarrow> ensure_utf8_plaintext (utf8_encode s) = Inr s"
  "is_encodable s \<Longrightarrow> decode_utf8 (utf8_encode s) = Inr s"
  by (simp_all add: ensure_utf8_plaintext_def decode_utf8_def utf8_roundtrip)

lemma or_raise_ok [simp]: "or_raise x r = Inr v \<longleftrightarrow> r = Inr v"
  by (simp add: or_raise_def split: sum.splits)

lemma or_raise_Inr [simp]: "or_raise x (Inr v) = Inr v"
  by simp

subsection \<open>Scalar fields\<close>

lemma text_json_opens:
  assumes "can_read A kr kr'" "encrypt_text_json A nonce kr p aad msg = Inr c"
  shows "decrypt_text_json A kr' c aad msg' = Inr p"
proof -
  obtain a e where "is_encodable p" "aad = Inr a" "encrypt A nonce kr a (utf8_encode p) = Inr e"
    "c = envelope_to_json e"
    using assms(2) by (auto simp: encrypt_text_json_def ensure_text_ok bind_Inr_iff)
  then show ?thesis using can_read_opens [OF assms(1)]
    by (simp add: decrypt_text_json_def decode_encoded)
qed

lemma required_opens:
  assumes "can_read A kr kr'" "encrypt_required A nonce kr p a = Inr c"
  shows "p = PStr q \<Longrightarrow> decrypt_required A kr' (PStr c) a = Inr q"
  using assms can_read_opens [OF assms(1)]
  by (auto simp: encrypt_required_def decrypt_required_def encode_ok bind_Inr_iff decode_encoded split: if_splits)


lemma optional_opens:
  assumes "can_read A kr kr'" "encrypt_optional A nonce kr p a = Inr c"
  shows "decrypt_optional A kr' c a = Inr p"
proof (cases p)
  case PNone
  then show ?thesis using assms(2) by (simp add: encrypt_optional_def decrypt_optional_def)
next
  case (PStr q)
  then show ?thesis using assms can_read_opens [OF assms(1)]
    by (auto simp: encrypt_optional_def decrypt_optional_def decrypt_required_def encode_ok bind_Inr_iff decode_encoded)
qed (use assms(2) in \<open>simp_all add: encrypt_optional_def\<close>)

text \<open>The checks of the two directions differ in the error only.\<close>

lemma require_identifier_transfer:
  "require_identifier err name v = Inr s \<longleftrightarrow> v = PStr s \<and> s \<noteq> [] \<and> strip s = s \<and> 0 \<notin> set s"
  by (cases v) (auto simp: require_identifier_def)

lemma metadata_identifier_transfer:
  "metadata_identifier err name v = Inr s \<longleftrightarrow> v = PStr s \<and> s \<noteq> [] \<and> strip s = s \<and> 0 \<notin> set s"
  by (cases v) (auto simp: metadata_identifier_def)

lemma require_int_transfer:
  "require_int err name v = Inr i \<longleftrightarrow> v = PInt i"
  "require_positive_int err name i = Inr j \<longleftrightarrow> i = j \<and> 0 < j"
  by (cases v) (auto simp: require_int_def require_positive_int_def)

lemma metadata_aad_transfer: "metadata_aad err rt rid oid f = Inr a \<longleftrightarrow> metadata_aad err' rt rid oid f = Inr a"
  by (simp add: metadata_aad_def bind_Inr_iff metadata_identifier_transfer)

lemma value_opens:
  assumes "can_read A kr kr'" "encrypt_value rt f A nonce kr (PStr q) rid oid = Inr c"
  shows "decrypt_value rt f A kr' (PStr c) rid oid = Inr q"
proof -
  obtain a where "metadata_aad ScalarEncryptionError rt rid oid f = Inr a" "encrypt_required A nonce kr (PStr q) a = Inr c"
    using assms(2) by (auto simp: encrypt_value_def bind_Inr_iff)
  then show ?thesis using required_opens [OF assms(1)] metadata_aad_transfer
    by (simp add: decrypt_value_def) (metis bind_simps(2))
qed

lemma clause_body_opens:
  assumes "can_read A kr kr'" "encrypt_clause_body A nonce kr (PStr p) cid oid = Inr c"
  shows "decrypt_clause_body A kr' (PStr c) cid oid = Inr p"
proof -
  obtain i w where "require_identifier ScalarDecryptionError ''clause_id'' cid = Inr i"
    "require_identifier ScalarDecryptionError ''owner_id'' oid = Inr w"
    "encrypt_text_json A nonce kr p (clause_body_aad i w) ''Unable to encrypt clause body.'' = Inr c"
    using assms(2) by (auto simp: encrypt_clause_body_def bind_Inr_iff require_identifier_transfer)
  then show ?thesis using text_json_opens [OF assms(1)]
    by (simp add: decrypt_clause_body_def require_str_def)
qed

lemma page_text_opens:
  assumes "can_read A kr kr'" "encrypt_extraction_page_text A nonce kr (PStr p) eid pn oid = Inr c"
  shows "decrypt_extraction_page_text A kr' (PStr c) eid pn oid = Inr p"
proof -
  obtain i w n where "require_identifier ScalarDecryptionError ''extraction_id'' eid = Inr i"
    "require_identifier ScalarDecryptionError ''owner_id'' oid = Inr w"
    "bind (require_int ScalarDecryptionError ''page_number'' pn)
       (require_positive_int ScalarDecryptionError ''page_number'') = Inr n"
    "encrypt_text_json A nonce kr p (extraction_page_aad i n w) ''Unable to encrypt extraction page text.'' = Inr c"
    using assms(2)
    by (auto simp: encrypt_extraction_page_text_def bind_Inr_iff require_identifier_transfer require_int_transfer)
  then show ?thesis using text_json_opens [OF assms(1)]
    by (simp add: decrypt_extraction_page_text_def require_str_def)
qed

lemma summary_opens:
  assumes "can_read A kr kr'" "encrypt_analysis_result_summary A nonce kr (PStr p) jid cid oid = Inr c"
  shows "decrypt_analysis_result_summary A kr' (PStr c) jid cid oid = Inr p"
proof -
  obtain j i w where "require_identifier ScalarDecryptionError ''analysis_job_id'' jid = Inr j"
    "require_identifier ScalarDecryptionError ''clause_record_id'' cid = Inr i"
    "require_identifier ScalarDecryptionError ''owner_id'' oid = Inr w"
    "encrypt_text_json A nonce kr p (analysis_result_summary_aad j i w)
       ''Unable to encrypt analysis result summary.'' = Inr c"
    using assms(2) by (auto simp: encrypt_analysis_result_summary_def bind_Inr_iff require_identifier_transfer)
  then show ?thesis using text_json_opens [OF assms(1)]
    by (simp add: decrypt_analysis_result_summary_def require_str_def)
qed

lemma clause_title_opens:
  assumes "can_read A kr kr'" "encrypt_clause_title A nonce kr p cid oid = Inr c"
  shows "decrypt_clause_title A kr' c cid oid = Inr p"
proof -
  obtain a where "metadata_aad ScalarEncryptionError ''clause'' cid oid ''title'' = Inr a"
    "encrypt_optional A nonce kr p a = Inr c"
    using assms(2) by (auto simp: encrypt_clause_title_def bind_Inr_iff)
  then show ?thesis using optional_opens [OF assms(1)] metadata_aad_transfer
    by (simp add: decrypt_clause_title_def) (metis bind_simps(2))
qed

end
