(* ===== verification/Sealed_Lists.thy ===== *)
theory Sealed_Lists
  imports Encryption_Correct
begin

text \<open>
  The list encryptions: page blocks, the confirmation snapshot, questions, suggestions, facts and
  evidence.  Each interprets the interface \<open>sealed_list\<close>, whose lemma carries the round trip
  of one entry to the list; the interpretations take the cipher, the nonces and the rings as
  parameters.
\<close>

locale sealed_list =
  fixes readable :: bool
    and key_e key_d :: "'x \<Rightarrow> 'k result"
    and dup_e dup_d :: exn
    and step_e :: "'k \<Rightarrow> 'x \<Rightarrow> nat \<Rightarrow> ('x \<times> nat) result"
    and step_d :: "'k \<Rightarrow> 'x \<Rightarrow> unit \<Rightarrow> ('x \<times> unit) result"
    and same :: "'x \<Rightarrow> 'x \<Rightarrow> bool"
  assumes entry: "readable \<Longrightarrow> key_e x = Inr k \<Longrightarrow> step_e k x n = Inr (y, n') \<Longrightarrow>
    key_d y = Inr k \<and> (\<exists>z. step_d k y () = Inr (z, ()) \<and> same x z)"
begin

lemma opens:
  "readable \<Longrightarrow> unique_loop key_e dup_e step_e seen n xs = Inr (ys, n') \<Longrightarrow>
     \<exists>zs. unique_loop key_d dup_d step_d seen () ys = Inr (zs, ()) \<and> list_all2 same xs zs"
proof (induction xs arbitrary: seen n ys)
  case (Cons x xs)
  then obtain k y n1 ys' where c: "key_e x = Inr k" "k \<notin> set seen" "step_e k x n = Inr (y, n1)"
    "unique_loop key_e dup_e step_e (k # seen) n1 xs = Inr (ys', n')" "ys = y # ys'"
    by (auto simp: bind_Inr_iff split: if_splits)
  obtain z zs where "key_d y = Inr k" "step_d k y () = Inr (z, ())" "same x z"
    "unique_loop key_d dup_d step_d (k # seen) () ys' = Inr (zs, ())" "list_all2 same xs zs"
    using entry [OF Cons.prems(1) c(1,3)] Cons.IH [OF Cons.prems(1) c(4)] by blast
  then show ?case using c(2,5) by simp
qed simp

lemma sealed_length: "unique_loop key_e dup_e step_e seen n xs = Inr (ys, n') \<Longrightarrow> length ys = length xs"
  by (induction xs arbitrary: seen n ys) (auto simp: bind_Inr_iff split: if_splits)

end

text \<open>An accepted list has distinct keys, none of them seen before.\<close>

lemma unique_loop_keys:
  "unique_loop key_of dup step seen n xs = Inr (ys, n') \<Longrightarrow>
     \<exists>ks. list_all2 (\<lambda>x k. key_of x = Inr k) xs ks \<and> distinct ks \<and> set ks \<inter> set seen = {}"
proof (induction xs arbitrary: seen n ys)
  case (Cons x xs)
  then obtain k y n1 ys' where c: "key_of x = Inr k" "k \<notin> set seen"
    "unique_loop key_of dup step (k # seen) n1 xs = Inr (ys', n')"
    by (auto simp: bind_Inr_iff split: if_splits)
  obtain ks where "list_all2 (\<lambda>x k. key_of x = Inr k) xs ks" "distinct ks" "set ks \<inter> set (k # seen) = {}"
    using Cons.IH [OF c(3)] by blast
  then show ?case using c by (intro exI [of _ "k # ks"]) auto
qed simp

subsection \<open>Blocks\<close>

lemma block_key_ok:
  "block_key err tk v = Inr k \<longleftrightarrow>
     (\<exists>d. v = PDict d \<and> has_exact_keys d [''block_index'', tk, ''confidence'', ''bbox'', ''reading_order''] \<and>
        get0 d ''block_index'' = PInt k \<and> 0 \<le> k)"
  by (cases v) (auto simp: block_key_def require_block_index_def split: pyval.splits if_splits)

lemma encrypt_next_ok:
  "encrypt_next A rng kr aad t n = Inr (m, n') \<longleftrightarrow>
     (\<exists>a e. is_encodable t \<and> aad = Inr a \<and> encrypt A (rng n) kr a (utf8_encode t) = Inr e \<and>
        m = PDict (envelope_to_mapping e) \<and> n' = Suc n)"
  by (auto simp: encrypt_next_def bind_Inr_iff ensure_text_ok)

lemma decrypt_with_opens:
  assumes "can_read A kr kr'" "encrypt_next A rng kr aad t n = Inr (m, n')"
  shows "as_dict m \<noteq> None \<and> bind (decrypt_with A kr' aad msg m) ensure_utf8_plaintext = Inr t"
proof -
  obtain a e where "is_encodable t" "aad = Inr a" "encrypt A (rng n) kr a (utf8_encode t) = Inr e"
    "m = PDict (envelope_to_mapping e)"
    using assms(2) unfolding encrypt_next_ok by blast
  then show ?thesis using can_read_opens(3) [OF assms(1)]
    by (simp add: decrypt_with_def decode_encoded)
qed

lemma block_entry_get:
  "get0 (dict_of (block_entry d k ''text_encrypted'' v)) ''text_encrypted'' = v"
  "block_entry (dict_of (block_entry d k ''text_encrypted'' v)) k t w = block_entry d k t w"
  "block_key err ''text_encrypted'' (block_entry d k ''text_encrypted'' v) = require_block_index err (PInt k)"
  by (simp_all add: block_entry_def dict_of_def get0_def get_def block_key_def has_exact_keys_def)

lemma block_opens:
  assumes "can_read A kr kr'" "block_key ScalarEncryptionError ''text'' x = Inr k"
    "encrypt_block A rng kr aad k x n = Inr (y, n')"
  shows "block_key ScalarDecryptionError ''text_encrypted'' y = Inr k \<and>
    (\<exists>z. decrypt_block A kr' aad k y () = Inr (z, ()) \<and> py_same x z)"
proof -
  obtain d where d: "x = PDict d" "has_exact_keys d [''block_index'', ''text'', ''confidence'', ''bbox'', ''reading_order'']"
    "get0 d ''block_index'' = PInt k" "0 \<le> k"
    using assms(2) unfolding block_key_ok by blast
  then obtain t m where t: "get0 d ''text'' = PStr t" "encrypt_next A rng kr (aad k) t n = Inr (m, n')"
    "y = block_entry d k ''text_encrypted'' m"
    using assms(3) by (cases "get0 d ''text''") (auto simp: encrypt_block_def dict_of_def bind_Inr_iff)
  have "decrypt_block A kr' aad k y () = Inr (block_entry d k ''text'' (PStr t), ())"
    using decrypt_with_opens [OF assms(1) t(2), of "''Unable to decrypt block text.''"]
    by (auto simp: decrypt_block_def t(3) block_entry_get bind_Inr_iff)
  moreover have "py_same x (block_entry d k ''text'' (PStr t))"
    unfolding block_entry_def d(1) by (rule py_same_map) (simp add: exact_keys_map [OF d(2)] d(3) t(1))
  ultimately show ?thesis using d(4) by (auto simp: t(3) block_entry_get require_block_index_def)
qed

interpretation blocks: sealed_list "can_read A kr kr'"
  "block_key ScalarEncryptionError ''text''" "block_key ScalarDecryptionError ''text_encrypted''"
  "ScalarEncryptionError ''Duplicate block_index value.''"
  "ScalarDecryptionError ''Duplicate block_index value.''"
  "encrypt_block A rng kr aad" "decrypt_block A kr' aad" py_same
  for A rng kr kr' aad
  by unfold_locales (rule block_opens)

lemma block_list_opens:
  assumes "can_read A kr kr'" "encrypt_block_list A rng kr aad (PList bs) n = Inr (ys, n')"
  shows "\<exists>zs. decrypt_block_list A kr' aad (PList ys) = Inr zs \<and> list_all2 py_same bs zs"
  using blocks.opens [OF assms(1)] assms(2)
  by (fastforce simp: encrypt_block_list_def decrypt_block_list_def)

subsection \<open>The confirmation snapshot\<close>

text \<open>A page whose blocks are no list is stored with an empty one.\<close>

definition with_block_list :: "pyval \<Rightarrow> pyval" where
  "with_block_list v = PDict (put (lit ''blocks'') (list_or_empty (get0 (dict_of v) ''blocks'')) (dict_of v))"

text \<open>A decrypted page: every member but the blocks is the same, and the blocks are equal.\<close>

definition same_page :: "pyval \<Rightarrow> pyval \<Rightarrow> bool" where
  "same_page x z \<longleftrightarrow> py_same (with_block_list x) z \<and>
     (\<forall>k. k \<noteq> ''blocks'' \<longrightarrow> get0 (dict_of z) k = get0 (dict_of x) k)"

lemma require_number_transfer:
  "require_page_number err v = Inr i \<longleftrightarrow> v = PInt i \<and> 1 \<le> i"
  "require_snapshot_version err v = Inr i \<longleftrightarrow> v = PInt i \<and> 1 \<le> i"
  by (cases v; auto simp: require_page_number_def require_snapshot_version_def)+

lemma snapshot_blocks_opens:
  assumes "can_read A kr kr'"
    "encrypt_confirmation_snapshot_blocks A rng kr (PList bs) eid sv pn oid n = Inr (ys, n')"
  shows "\<exists>zs. decrypt_confirmation_snapshot_blocks A kr' (PList ys) eid sv pn oid = Inr zs \<and> list_all2 py_same bs zs"
proof -
  obtain i w p v where "require_identifier ScalarDecryptionError ''extraction_id'' eid = Inr i"
    "require_identifier ScalarDecryptionError ''owner_id'' oid = Inr w"
    "require_page_number ScalarDecryptionError pn = Inr p" "require_snapshot_version ScalarDecryptionError sv = Inr v"
    "encrypt_block_list A rng kr (\<lambda>k. snapshot_block_aad i v p k w) (PList bs) n = Inr (ys, n')"
    using assms(2) by (auto simp: encrypt_confirmation_snapshot_blocks_def bind_Inr_iff
      require_identifier_transfer require_number_transfer)
  then show ?thesis using block_list_opens [OF assms(1)]
    by (simp add: decrypt_confirmation_snapshot_blocks_def)
qed

lemma snapshot_page_entry_get:
  "get0 (dict_of (snapshot_page_entry d k ''final_text_encrypted'' v bs)) ''final_text_encrypted'' = v"
  "get0 (dict_of (snapshot_page_entry d k ''final_text_encrypted'' v bs)) ''blocks'' = PList bs"
  "snapshot_page_entry (dict_of (snapshot_page_entry d k ''final_text_encrypted'' v bs)) k t w cs =
     snapshot_page_entry d k t w cs"
  "snapshot_page_key err ''final_text_encrypted'' (snapshot_page_entry d k ''final_text_encrypted'' v bs) =
     require_page_number err (PInt k)"
  by (simp_all add: snapshot_page_entry_def dict_of_def get0_def get_def snapshot_page_key_def
    has_exact_keys_def snapshot_page_keys_def)

lemma snapshot_page_key_ok:
  "snapshot_page_key err tk v = Inr k \<longleftrightarrow>
     (\<exists>d. v = PDict d \<and> has_exact_keys d (snapshot_page_keys tk) \<and> get0 d ''page_number'' = PInt k \<and> 1 \<le> k)"
  by (cases v) (auto simp: snapshot_page_key_def require_number_transfer)

lemma get0_put: "get0 (put (lit k) v d) k' = (if k = k' then v else get0 d k')"
  by (simp add: get0_def get_def map_of_put)

lemma has_exact_keys_put: "has_exact_keys d ks \<Longrightarrow> k \<in> set ks \<Longrightarrow> has_exact_keys (put (lit k) v d) ks"
proof -
  assume "has_exact_keys d ks" "k \<in> set ks"
  moreover have "set (map fst (put (lit k) v d)) = insert (lit k) (set (map fst d))"
    by (metis dom_map_of_conv_image_fst dom_fun_upd map_of_put option.distinct(1) set_map)
  ultimately show ?thesis by (auto simp: has_exact_keys_def)
qed

lemma snapshot_page_opens:
  assumes r: "can_read A kr kr'" and k: "snapshot_page_key ScalarEncryptionError ''final_text'' x = Inr k"
    and e: "encrypt_snapshot_page A rng kr eid oid sv k x n = Inr (y, n')"
  shows "snapshot_page_key ScalarDecryptionError ''final_text_encrypted'' y = Inr k \<and>
    (\<exists>z. decrypt_snapshot_page A kr' eid oid sv k y () = Inr (z, ()) \<and> same_page x z)"
proof -
  obtain d where d: "x = PDict d" "has_exact_keys d (snapshot_page_keys ''final_text'')"
    "get0 d ''page_number'' = PInt k" "1 \<le> k"
    using k unfolding snapshot_page_key_ok by blast
  obtain bl where bl: "list_or_empty (get0 d ''blocks'') = PList bl"
    by (cases "as_list (get0 d ''blocks'')") (auto simp: list_or_empty_def)
  obtain t bs n1 m where t: "get0 d ''final_text'' = PStr t"
    "encrypt_confirmation_snapshot_blocks A rng kr (PList bl) (PStr eid) (PInt sv) (PInt k) (PStr oid) n = Inr (bs, n1)"
    "encrypt_next A rng kr (snapshot_final_text_aad eid k sv oid) t n1 = Inr (m, n')"
    "y = snapshot_page_entry d k ''final_text_encrypted'' m bs"
    using e d(1) bl by (cases "get0 d ''final_text''") (auto simp: encrypt_snapshot_page_def dict_of_def bind_Inr_iff)
  obtain zs where zs: "decrypt_confirmation_snapshot_blocks A kr' (PList bs) (PStr eid) (PInt sv) (PInt k) (PStr oid) = Inr zs"
    "list_all2 py_same bl zs"
    using snapshot_blocks_opens [OF r t(2)] by blast
  let ?z = "snapshot_page_entry d k ''final_text'' (PStr t) zs"
  have "list_or_empty (PList bs) = PList bs" by (simp add: list_or_empty_def)
  then have "decrypt_snapshot_page A kr' eid oid sv k y () = Inr (?z, ())"
    using decrypt_with_opens [OF r t(3), of "''Unable to decrypt confirmation snapshot final_text.''"] zs(1)
    by (auto simp: decrypt_snapshot_page_def t(4) snapshot_page_entry_get bind_Inr_iff)
  moreover have "py_same (with_block_list x) ?z"
    unfolding snapshot_page_entry_def with_block_list_def d(1) dict_of_def as_dict.simps option.case bl
  proof (rule py_same_entries [OF exact_keys_map])
    show "has_exact_keys (put (lit ''blocks'') (PList bl) d) (snapshot_page_keys ''final_text'')"
      using d(2) by (rule has_exact_keys_put) (simp add: snapshot_page_keys_def)
  qed (use zs(2) in \<open>auto simp: snapshot_page_keys_def get0_put d(3) t(1)\<close>)
  moreover have "get0 (dict_of ?z) k' = get0 (dict_of x) k'" if "k' \<noteq> ''blocks''" for k'
  proof -
    have z: "get0 (dict_of ?z) k' =
        (if k' = ''page_number'' then PInt k else if k' = ''final_text'' then PStr t
         else if k' \<in> {''page_id'', ''text_source'', ''text_changed'', ''method'', ''warnings''} then get0 d k'
         else PNone)"
      using that by (simp add: snapshot_page_entry_def dict_of_def get0_def get_def)
    have "get0 d k' = PNone" if "k' \<notin> set (snapshot_page_keys ''final_text'')"
    proof -
      have "lit k' \<notin> fst ` set d" using that d(2) by (auto simp: has_exact_keys_def)
      then show ?thesis by (simp add: get0_def get_def map_of_eq_None_iff [THEN iffD2])
    qed
    moreover have "dict_of x = d" by (simp add: d(1) dict_of_def)
    ultimately show ?thesis using that d(3) t(1) unfolding z by (auto simp: snapshot_page_keys_def)
  qed
  ultimately show ?thesis using d(4) by (auto simp: same_page_def t(4) snapshot_page_entry_get require_number_transfer)
qed

interpretation snapshot_pages: sealed_list "can_read A kr kr'"
  "snapshot_page_key ScalarEncryptionError ''final_text''"
  "snapshot_page_key ScalarDecryptionError ''final_text_encrypted''"
  "ScalarEncryptionError ''Duplicate page_number value.''"
  "ScalarDecryptionError ''Duplicate page_number value.''"
  "encrypt_snapshot_page A rng kr eid oid sv" "decrypt_snapshot_page A kr' eid oid sv"
  same_page
  for A rng kr kr' eid oid sv
  by unfold_locales (rule snapshot_page_opens)

lemma snapshot_opens:
  assumes "can_read A kr kr'"
    and "encrypt_confirmation_snapshot A rng kr (PList pages) extraction_id owner_id version n = Inr (ys, n')"
  shows "\<exists>zs. decrypt_confirmation_snapshot A kr' (PList ys) extraction_id owner_id version = Inr zs \<and>
      list_all2 same_page pages zs" and "length ys = length pages"
proof -
  obtain i w v where r: "require_identifier ScalarDecryptionError ''extraction_id'' extraction_id = Inr i"
    "require_identifier ScalarDecryptionError ''owner_id'' owner_id = Inr w"
    "require_snapshot_version ScalarDecryptionError version = Inr v"
    and u: "unique_loop (snapshot_page_key ScalarEncryptionError ''final_text'')
       (ScalarEncryptionError ''Duplicate page_number value.'') (encrypt_snapshot_page A rng kr i w v) [] n pages = Inr (ys, n')"
    using assms(2) by (auto simp: encrypt_confirmation_snapshot_def bind_Inr_iff
      require_identifier_transfer require_number_transfer)
  from r snapshot_pages.opens [OF assms(1) u]
  show "\<exists>zs. decrypt_confirmation_snapshot A kr' (PList ys) extraction_id owner_id version = Inr zs \<and>
      list_all2 same_page pages zs"
    by (fastforce simp: decrypt_confirmation_snapshot_def)
  show "length ys = length pages" using snapshot_pages.sealed_length u by blast
qed

text \<open>C22: What is stored of a confirmation snapshot decrypts to the snapshot, page by page and block by
  block, for every supply of nonces and under every ring that still finds the bytes of the key under its id, active
  or for decryption only; a page whose blocks are no list comes back with an empty list of blocks.\<close>

theorem confirmation_snapshot_roundtrip:
  assumes "can_read A kr kr'"
    and "encrypt_confirmation_snapshot A rng kr (PList pages) extraction_id owner_id version n = Inr (ys, n')"
  shows "\<exists>zs. decrypt_confirmation_snapshot A kr' (PList ys) extraction_id owner_id version = Inr zs \<and>
    list_all2 (\<lambda>x z. py_same (with_block_list x) z) pages zs"
proof -
  obtain zs where "decrypt_confirmation_snapshot A kr' (PList ys) extraction_id owner_id version = Inr zs"
    "list_all2 same_page pages zs"
    using snapshot_opens(1) [OF assms] by blast
  moreover from this(2) have "list_all2 (\<lambda>x z. py_same (with_block_list x) z) pages zs"
    by (rule list_all2_mono) (simp add: same_page_def)
  ultimately show ?thesis by blast
qed

definition example_pages :: "pyval list" where
  "example_pages =
     [PDict [(lit ''page_id'', PStr (lit ''p'')), (lit ''page_number'', PInt 1), (lit ''final_text'', PStr (lit ''ab'')),
             (lit ''text_source'', PNone), (lit ''text_changed'', PBool False), (lit ''method'', PNone),
             (lit ''warnings'', PList []),
             (lit ''blocks'', PList
               [PDict [(lit ''block_index'', PInt 0), (lit ''text'', PStr (lit ''ab'')), (lit ''confidence'', PNone),
                       (lit ''bbox'', PNone), (lit ''reading_order'', PInt 0)]])]]"

definition example_rng :: "nat \<Rightarrow> bytes" where
  "example_rng n = replicate 12 (of_nat n)"

lemma example_can_read: "can_read plain_aead example_keyring rotated_keyring"
  using plain_aead_correct example_active rotated_finds unfolding can_read_def by blast

lemma confirmation_snapshot_roundtrip_witness:
  "case encrypt_confirmation_snapshot plain_aead example_rng example_keyring (PList example_pages)
          (PStr (lit ''e'')) (PStr (lit ''o'')) (PInt 1) 0 of
     Inl x \<Rightarrow> False
   | Inr (ys, n') \<Rightarrow>
       \<exists>zs. decrypt_confirmation_snapshot plain_aead rotated_keyring (PList ys)
              (PStr (lit ''e'')) (PStr (lit ''o'')) (PInt 1) = Inr zs \<and>
            list_all2 (\<lambda>x z. py_same (with_block_list x) z) example_pages zs"
proof -
  have "case encrypt_confirmation_snapshot plain_aead example_rng example_keyring (PList example_pages)
          (PStr (lit ''e'')) (PStr (lit ''o'')) (PInt 1) 0 of Inl x \<Rightarrow> False | Inr r \<Rightarrow> True"
    by code_simp
  then obtain ys n' where "encrypt_confirmation_snapshot plain_aead example_rng example_keyring (PList example_pages)
      (PStr (lit ''e'')) (PStr (lit ''o'')) (PInt 1) 0 = Inr (ys, n')"
    by (auto split: sum.splits)
  then show ?thesis using confirmation_snapshot_roundtrip [OF example_can_read] by simp
qed

end
