(* ===== verification/Sealed_Results.thy ===== *)
theory Sealed_Results
  imports Sealed_Lists
begin

text \<open>
  Round trips of the result and evidence encryption, and the associated data of all services taken
  together: two different fields never share associated data.
\<close>

subsection \<open>Writing several fields\<close>

abbreviation fields_map :: "(string \<Rightarrow> string) \<Rightarrow> (string \<Rightarrow> pyval) \<Rightarrow> string list \<Rightarrow> pystr \<Rightarrow> pyval option" where
  "fields_map key w fs \<equiv> map_of (map (\<lambda>f. (lit (key f), w f)) fs)"

lemma fields_map_out: "x \<notin> lit ` key ` set fs \<Longrightarrow> fields_map key w fs x = None"
  by (induction fs) auto

lemma fields_map_in:
  "f \<in> set fs \<Longrightarrow> inj_on key (set fs) \<Longrightarrow> fields_map key w fs (lit (key f)) = Some (w f)"
  by (induction fs) (auto simp: inj_on_def)

lemma fields_map_cong: "(\<And>f. f \<in> set fs \<Longrightarrow> w f = w' f) \<Longrightarrow> fields_map key w fs = fields_map key w' fs"
  by (rule arg_cong [of _ _ map_of]) simp

lemma fields_map_Cons: "fields_map key w (f # fs) = (fields_map key w fs)(lit (key f) \<mapsto> w f)"
  by simp

lemma fields_map_add:
  assumes "f \<notin> set fs" "inj_on key (insert f (set fs))"
  shows "(m(lit (key f) \<mapsto> w f)) ++ fields_map key w fs = m ++ fields_map key w (f # fs)"
proof -
  have "fields_map key w fs (lit (key f)) = None"
    by (rule fields_map_out) (use assms in \<open>auto simp: inj_on_def\<close>)
  then show ?thesis unfolding fields_map_Cons by (auto simp: fun_eq_iff map_add_def split: option.split)
qed

lemma put_fields_written:
  assumes "put_fields field key fs d n = Inr (d', n')" "distinct fs" "inj_on key (set fs)"
  shows "\<exists>w. (\<forall>f\<in>set fs. \<exists>m m'. field f m = Inr (w f, m')) \<and> map_of d' = map_of d ++ fields_map key w fs"
  using assms
proof (induction fs arbitrary: d n)
  case (Cons f fs)
  obtain v n1 where v: "field f n = Inr (v, n1)" "put_fields field key fs (put (lit (key f)) v d) n1 = Inr (d', n')"
    using Cons.prems(1) by (auto simp: bind_Inr_iff)
  have i: "inj_on key (set fs)" using Cons.prems(3) by (simp add: inj_on_def)
  obtain w where w: "\<forall>g\<in>set fs. \<exists>m m'. field g m = Inr (w g, m')"
    "map_of d' = map_of (put (lit (key f)) v d) ++ fields_map key w fs"
    using Cons.IH [OF v(2)] Cons.prems(2) i by auto
  let ?w = "w(f := v)"
  have "fields_map key w fs = fields_map key ?w fs"
    by (rule fields_map_cong) (use Cons.prems(2) in auto)
  then have "map_of d' = ((map_of d)(lit (key f) \<mapsto> ?w f)) ++ fields_map key ?w fs"
    using w(2) by (simp add: map_of_put)
  also have "\<dots> = map_of d ++ fields_map key ?w (f # fs)"
    by (rule fields_map_add) (use Cons.prems in auto)
  finally have "map_of d' = map_of d ++ fields_map key ?w (f # fs)" .
  moreover have "\<forall>g\<in>set (f # fs). \<exists>m m'. field g m = Inr (?w g, m')" using w(1) v(1) by auto
  ultimately show ?case by blast
qed simp

lemma put_fields_writes:
  assumes "\<And>f. f \<in> set fs \<Longrightarrow> field f () = Inr (w f, ())" "distinct fs" "inj_on key (set fs)"
  shows "\<exists>d'. put_fields field key fs d () = Inr (d', ()) \<and> map_of d' = map_of d ++ fields_map key w fs"
  using assms
proof (induction fs arbitrary: d)
  case (Cons f fs)
  have i: "inj_on key (set fs)" using Cons.prems(3) by (simp add: inj_on_def)
  obtain d' where p: "put_fields field key fs (put (lit (key f)) (w f) d) () = Inr (d', ())"
    "map_of d' = map_of (put (lit (key f)) (w f) d) ++ fields_map key w fs"
    using Cons.IH [of "put (lit (key f)) (w f) d"] Cons.prems i by auto
  have "map_of d' = map_of d ++ fields_map key w (f # fs)"
    unfolding p(2) map_of_put by (rule fields_map_add) (use Cons.prems in auto)
  moreover have "put_fields field key (f # fs) d () = Inr (d', ())" using p(1) Cons.prems(1) [of f] by simp
  ultimately show ?case by blast
qed simp

lemma map_of_drop_keys: "map_of (drop_keys ks d) = (map_of d) |` (- (lit ` set ks))"
  unfolding drop_keys_def by (induction d) (auto simp: fun_eq_iff restrict_map_def)

lemma exact_keys_dom: "has_exact_keys d ks \<longleftrightarrow> dom (map_of d) = lit ` set ks"
  by (simp add: has_exact_keys_def dom_map_of_conv_image_fst)

lemma get0_map: "get0 d k = (case map_of d (lit k) of None \<Rightarrow> PNone | Some v \<Rightarrow> v)"
  by (simp add: get0_def get_def)

lemma encrypted_name_inj: "inj_on encrypted_name S"
  by (simp add: inj_on_def encrypted_name_def)

lemma lit_mem: "lit k \<in> lit ` S \<longleftrightarrow> k \<in> S"
  by (auto simp: lit_def inj_on_def)

text \<open>
  A dictionary with the keys \<open>other @ text\<close>, whose text fields were moved to sealed names and are
  moved back.
\<close>

lemma sealed_fields:
  assumes d: "has_exact_keys d (other @ text)"
    and disj: "set other \<inter> set text = {}" "encrypted_name ` set text \<inter> (set other \<union> set text) = {}"
    and fs: "set fs = set text" "set gs = set text"
    and d1: "map_of d1 = map_of (drop_keys text d) ++ fields_map encrypted_name w fs"
  shows "has_exact_keys d1 (other @ map encrypted_name text)"
    and "f \<in> set text \<Longrightarrow> get0 d1 (encrypted_name f) = w f"
    and "k \<in> set other \<Longrightarrow> get0 d1 k = get0 d k"
    and "map_of (drop_keys (map encrypted_name text) d1) ++ fields_map (\<lambda>f. f) (get0 d) gs = map_of d"
proof -
  have E: "x \<in> lit ` (set other \<union> set text) \<longleftrightarrow> map_of d x \<noteq> None" for x
    using d unfolding exact_keys_dom by (auto simp: dom_def set_eq_iff)
  have w: "fields_map encrypted_name w fs (lit (encrypted_name f)) = Some (w f)" if "f \<in> set text" for f
    using fields_map_in [OF _ encrypted_name_inj] that fs by blast
  have o: "fields_map encrypted_name w fs x = None" if "x \<notin> lit ` encrypted_name ` set text" for x
    using fields_map_out that fs by blast
  have D1: "map_of d1 x = (if x \<in> lit ` encrypted_name ` set text then fields_map encrypted_name w fs x
      else if x \<in> lit ` set text then None else map_of d x)" for x
  proof (cases "x \<in> lit ` encrypted_name ` set text")
    case True
    then show ?thesis using w by (auto simp: d1 map_add_def)
  next
    case False
    then show ?thesis using o by (auto simp: d1 map_add_def map_of_drop_keys restrict_map_def)
  qed
  show "has_exact_keys d1 (other @ map encrypted_name text)"
  proof (unfold exact_keys_dom, rule set_eqI)
    fix x
    show "x \<in> dom (map_of d1) \<longleftrightarrow> x \<in> lit ` set (other @ map encrypted_name text)"
    proof (cases "x \<in> lit ` encrypted_name ` set text")
      case True
      then show ?thesis using w D1 [of x] by (auto simp: image_Un)
    next
      case False
      then show ?thesis using D1 [of x] E [of x] disj(1) lit_mem by (auto simp: image_Un dom_def)
    qed
  qed
  show "f \<in> set text \<Longrightarrow> get0 d1 (encrypted_name f) = w f"
    using w D1 by (simp add: get0_map)
  show "k \<in> set other \<Longrightarrow> get0 d1 k = get0 d k"
  proof -
    assume "k \<in> set other"
    then have "lit k \<notin> lit ` encrypted_name ` set text" "lit k \<notin> lit ` set text"
      using disj unfolding lit_mem by auto
    then show "get0 d1 k = get0 d k" using D1 by (simp add: get0_map)
  qed
  show "map_of (drop_keys (map encrypted_name text) d1) ++ fields_map (\<lambda>f. f) (get0 d) gs = map_of d"
  proof
    fix x
    consider f where "x = lit f" "f \<in> set text" | "x \<in> lit ` encrypted_name ` set text" "x \<notin> lit ` set text"
      | "x \<notin> lit ` encrypted_name ` set text" "x \<notin> lit ` set text"
      by auto
    then show "(map_of (drop_keys (map encrypted_name text) d1) ++ fields_map (\<lambda>f. f) (get0 d) gs) x = map_of d x"
    proof cases
      case 1
      then have "fields_map (\<lambda>f. f) (get0 d) gs x = Some (get0 d f)"
        using fields_map_in [of f gs "\<lambda>f. f"] fs(2) by simp
      moreover have "map_of d x \<noteq> None" using E [of x] 1 by auto
      ultimately show ?thesis using 1 by (auto simp: map_add_def get0_map)
    next
      case 2
      then have "fields_map (\<lambda>f. f) (get0 d) gs x = None"
        using fields_map_out [of x "\<lambda>f. f" gs] fs(2) by simp
      moreover have "map_of d x = None" using E [of x] 2(1) disj(2) lit_mem by (auto simp: image_Un)
      ultimately show ?thesis using 2(1) by (auto simp: map_add_def map_of_drop_keys restrict_map_def)
    next
      case 3
      then have "fields_map (\<lambda>f. f) (get0 d) gs x = None"
        using fields_map_out [of x "\<lambda>f. f" gs] fs(2) by simp
      then show ?thesis using 3 D1 [of x] by (auto simp: map_add_def map_of_drop_keys restrict_map_def)
    qed
  qed
qed


subsection \<open>Texts, questions and suggestions\<close>

lemma result_text_opens:
  assumes "can_read A kr kr'" "encrypt_result_text A rng kr aad v n = Inr (m, n')"
  shows "decrypt_result_text A kr' aad m () = Inr (v, ())"
proof -
  obtain a t e where "aad = Inr a" "v = PStr t" "is_encodable t" "encrypt A (rng n) kr a (utf8_encode t) = Inr e"
    "m = PDict (envelope_to_mapping e)"
    using assms(2) by (cases v) (auto simp: encrypt_result_text_def bind_Inr_iff ensure_text_ok)
  then show ?thesis using can_read_opens(3) [OF assms(1)]
    by (simp add: decrypt_result_text_def decode_encoded)
qed

lemma result_item_id_transfer:
  "require_result_item_id err name v = Inr s \<longleftrightarrow> v = PStr s \<and> strip s \<noteq> [] \<and> strip s = s \<and> 0 \<notin> set s"
  by (cases v) (auto simp: require_result_item_id_def)

lemma item_key_ok:
  "item_key err keys msg i v = Inr k \<longleftrightarrow>
     (\<exists>d. v = PDict d \<and> has_exact_keys d keys \<and> get0 d i = PStr k \<and> strip k \<noteq> [] \<and> strip k = k \<and> 0 \<notin> set k)"
  by (cases v) (auto simp: item_key_def result_item_id_transfer)

lemma get0_simps:
  "get0 ((lit k, v) # d) k' = (if k = k' then v else get0 d k')"
  by (simp add: get0_def get_def)

lemma question_opens:
  assumes r: "can_read A kr kr'"
    and k: "item_key ScalarEncryptionError (question_keys False) msg ''question_id'' x = Inr k"
    and e: "encrypt_question A rng kr jid cid oid k x n = Inr (y, n')"
  shows "item_key ScalarDecryptionError (question_keys True) msg ''question_id'' y = Inr k \<and>
    (\<exists>z. decrypt_question A kr' jid cid oid k y () = Inr (z, ()) \<and> py_same x z)"
proof -
  obtain d where d: "x = PDict d" "has_exact_keys d (question_keys False)"
    and i: "get0 d ''question_id'' = PStr k" "strip k \<noteq> []" "strip k = k" "0 \<notin> set k"
    using k unfolding item_key_ok by blast
  obtain q n1 p where t:
    "encrypt_result_text A rng kr (question_field_aad jid cid k ''question'' oid) (get0 d ''question'') n = Inr (q, n1)"
    "encrypt_result_text A rng kr (question_field_aad jid cid k ''purpose'' oid) (get0 d ''purpose'') n1 = Inr (p, n')"
    and y: "y = PDict [(lit ''question_id'', PStr k), (lit ''question_encrypted'', q), (lit ''purpose_encrypted'', p),
       (lit ''related_evidence_ids'', get0 d ''related_evidence_ids''), (lit ''priority'', get0 d ''priority''),
       (lit ''id'', get0 d ''id'')]"
    using e by (auto simp: encrypt_question_def d(1) dict_of_def bind_Inr_iff)
  let ?z = "PDict [(lit ''question_id'', PStr k), (lit ''question'', get0 d ''question''),
    (lit ''purpose'', get0 d ''purpose''), (lit ''related_evidence_ids'', get0 d ''related_evidence_ids''),
    (lit ''priority'', get0 d ''priority''), (lit ''id'', get0 d ''id'')]"
  have "decrypt_question A kr' jid cid oid k y () = Inr (?z, ())"
    using result_text_opens [OF r t(1)] result_text_opens [OF r t(2)]
    by (simp add: decrypt_question_def y dict_of_def encrypted_name_def get0_simps)
  moreover have "py_same x ?z"
    unfolding d(1) by (rule py_same_map) (simp add: exact_keys_map [OF d(2)] question_keys_def i(1))
  moreover have "item_key ScalarDecryptionError (question_keys True) msg ''question_id'' y = Inr k"
    unfolding item_key_ok y using i(2-4) by (simp add: has_exact_keys_def question_keys_def get0_simps)
  ultimately show ?thesis by blast
qed

lemma suggestion_opens:
  assumes r: "can_read A kr kr'"
    and k: "item_key ScalarEncryptionError (suggestion_keys False) msg ''suggestion_id'' x = Inr k"
    and e: "encrypt_suggestion A rng kr jid cid oid k x n = Inr (y, n')"
  shows "item_key ScalarDecryptionError (suggestion_keys True) msg ''suggestion_id'' y = Inr k \<and>
    (\<exists>z. decrypt_suggestion A kr' jid cid oid k y () = Inr (z, ()) \<and> py_same x z)"
proof -
  obtain d where d: "x = PDict d" "has_exact_keys d (suggestion_keys False)"
    and i: "get0 d ''suggestion_id'' = PStr k" "strip k \<noteq> []" "strip k = k" "0 \<notin> set k"
    using k unfolding item_key_ok by blast
  obtain ob n1 ch n2 fb where t:
    "encrypt_result_text A rng kr (suggestion_field_aad jid cid k ''objective'' oid) (get0 d ''objective'') n = Inr (ob, n1)"
    "encrypt_result_text A rng kr (suggestion_field_aad jid cid k ''suggested_change'' oid) (get0 d ''suggested_change'') n1 = Inr (ch, n2)"
    "encrypt_result_text A rng kr (suggestion_field_aad jid cid k ''fallback_option'' oid) (get0 d ''fallback_option'') n2 = Inr (fb, n')"
    and y: "y = PDict [(lit ''suggestion_id'', PStr k), (lit ''objective_encrypted'', ob),
       (lit ''suggested_change_encrypted'', ch), (lit ''fallback_option_encrypted'', fb),
       (lit ''related_evidence_ids'', get0 d ''related_evidence_ids''), (lit ''priority'', get0 d ''priority''),
       (lit ''id'', get0 d ''id'')]"
    using e by (auto simp: encrypt_suggestion_def d(1) dict_of_def bind_Inr_iff)
  let ?z = "PDict [(lit ''suggestion_id'', PStr k), (lit ''objective'', get0 d ''objective''),
    (lit ''suggested_change'', get0 d ''suggested_change''), (lit ''fallback_option'', get0 d ''fallback_option''),
    (lit ''related_evidence_ids'', get0 d ''related_evidence_ids''),
    (lit ''priority'', get0 d ''priority''), (lit ''id'', get0 d ''id'')]"
  have "decrypt_suggestion A kr' jid cid oid k y () = Inr (?z, ())"
    using result_text_opens [OF r t(1)] result_text_opens [OF r t(2)] result_text_opens [OF r t(3)]
    by (simp add: decrypt_suggestion_def y dict_of_def encrypted_name_def get0_simps)
  moreover have "py_same x ?z"
    unfolding d(1) by (rule py_same_map) (simp add: exact_keys_map [OF d(2)] suggestion_keys_def i(1))
  moreover have "item_key ScalarDecryptionError (suggestion_keys True) msg ''suggestion_id'' y = Inr k"
    unfolding item_key_ok y using i(2-4) by (simp add: has_exact_keys_def suggestion_keys_def get0_simps)
  ultimately show ?thesis by blast
qed

interpretation questions: sealed_list "can_read A kr kr'"
  "item_key ScalarEncryptionError (question_keys False) ''Invalid question entry.'' ''question_id''"
  "item_key ScalarDecryptionError (question_keys True) ''Invalid question entry.'' ''question_id''"
  "ScalarEncryptionError ''Duplicate question_id value.''"
  "ScalarDecryptionError ''Duplicate question_id value.''"
  "encrypt_question A rng kr jid cid oid" "decrypt_question A kr' jid cid oid" py_same
  for A rng kr kr' jid cid oid
  by unfold_locales (rule question_opens)

interpretation suggestions: sealed_list "can_read A kr kr'"
  "item_key ScalarEncryptionError (suggestion_keys False) ''Invalid suggestion entry.'' ''suggestion_id''"
  "item_key ScalarDecryptionError (suggestion_keys True) ''Invalid suggestion entry.'' ''suggestion_id''"
  "ScalarEncryptionError ''Duplicate suggestion_id value.''"
  "ScalarDecryptionError ''Duplicate suggestion_id value.''"
  "encrypt_suggestion A rng kr jid cid oid" "decrypt_suggestion A kr' jid cid oid" py_same
  for A rng kr kr' jid cid oid
  by unfold_locales (rule suggestion_opens)


subsection \<open>Facts\<close>

lemma put_fields_append:
  "put_fields field key (fs @ gs) d n =
     bind (put_fields field key fs d n) (\<lambda>(d1, n1). put_fields field key gs d1 n1)"
  by (induction field key fs d n rule: put_fields.induct) (auto simp: bind_def split: sum.splits)

lemma put_fields_cong:
  "(\<And>f n. f \<in> set fs \<Longrightarrow> field f n = field' f n) \<Longrightarrow> put_fields field key fs d n = put_fields field' key fs d n"
  by (induction fs arbitrary: d n) (auto simp: bind_def split: sum.splits)

definition is_optional_fact_field :: "string \<Rightarrow> bool" where
  "is_optional_fact_field f \<longleftrightarrow> f \<in> set fact_optional_fields"

lemma two_phase:
  "bind (put_fields (field False) key [''label'', ''value''] d n)
     (\<lambda>(d1, n1). bind (put_fields (field True) key fact_optional_fields d1 n1) g) =
   bind (put_fields (\<lambda>f. field (is_optional_fact_field f) f) key fact_text_fields d n) g"
proof -
  have 1: "put_fields (field False) key [''label'', ''value''] d n =
      put_fields (\<lambda>f. field (is_optional_fact_field f) f) key [''label'', ''value''] d n" for d n
    by (rule put_fields_cong) (auto simp: is_optional_fact_field_def fact_optional_fields_def)
  have 2: "put_fields (field True) key fact_optional_fields d n =
      put_fields (\<lambda>f. field (is_optional_fact_field f) f) key fact_optional_fields d n" for d n
    by (rule put_fields_cong) (simp add: is_optional_fact_field_def)
  show ?thesis unfolding fact_text_fields_def put_fields_append 1 2
    by (auto simp: bind_def split: sum.splits)
qed

lemma encrypt_fact_eq:
  "encrypt_fact A rng kr jid cid oid k x n =
     bind (put_fields (\<lambda>f. encrypt_fact_field A rng kr jid cid oid k (dict_of x) (is_optional_fact_field f) f)
             encrypted_name fact_text_fields
             (put (lit ''fact_id'') (PStr k) (drop_keys fact_text_fields (dict_of x))) n)
       (\<lambda>(d2, n2). Inr (PDict d2, n2))"
  unfolding encrypt_fact_def Let_def by (rule two_phase)

lemma decrypt_fact_eq:
  "decrypt_fact A kr jid cid oid k x u =
     bind (put_fields (\<lambda>f. decrypt_fact_field A kr jid cid oid k (dict_of x) (is_optional_fact_field f) f)
             (\<lambda>f. f) fact_text_fields
             (put (lit ''fact_id'') (PStr k) (drop_keys (map encrypted_name fact_text_fields) (dict_of x))) u)
       (\<lambda>(d2, u2). Inr (PDict d2, u2))"
  unfolding decrypt_fact_def Let_def by (rule two_phase)

lemma fact_field_opens:
  assumes "can_read A kr kr'" "encrypt_fact_field A rng kr jid cid oid k d opt f m = Inr (c, m')"
    and "get0 d' (encrypted_name f) = c"
  shows "decrypt_fact_field A kr' jid cid oid k d' opt f () = Inr (get0 d f, ())"
proof (cases "opt \<and> get0 d f = PNone")
  case True
  then show ?thesis using assms(2,3) by (simp add: encrypt_fact_field_def decrypt_fact_field_def)
next
  case False
  then have e: "encrypt_result_text A rng kr (fact_field_aad jid cid k f oid) (get0 d f) m = Inr (c, m')"
    using assms(2) by (auto simp: encrypt_fact_field_def split: if_splits)
  then have "c \<noteq> PNone"
    by (cases "get0 d f") (auto simp: encrypt_result_text_def bind_Inr_iff)
  then show ?thesis using result_text_opens [OF assms(1) e] assms(3) by (simp add: decrypt_fact_field_def)
qed

lemma map_of_put_same: "map_of d (lit k) = Some v \<Longrightarrow> map_of (put (lit k) v d) = map_of d"
  by (auto simp: map_of_put)

lemma exact_key_present: "has_exact_keys d ks \<Longrightarrow> k \<in> set ks \<Longrightarrow> map_of d (lit k) = Some (get0 d k)"
proof -
  assume "has_exact_keys d ks" "k \<in> set ks"
  then have "lit k \<in> dom (map_of d)" unfolding exact_keys_dom by simp
  then show ?thesis by (auto simp: get0_map)
qed

lemma fact_names:
  "set fact_other_keys \<inter> set fact_text_fields = {}"
  "encrypted_name ` set fact_text_fields \<inter> (set fact_other_keys \<union> set fact_text_fields) = {}"
  "distinct fact_text_fields" "''fact_id'' \<in> set fact_other_keys" "''fact_id'' \<notin> set fact_text_fields"
  "''fact_id'' \<notin> encrypted_name ` set fact_text_fields"
  by (simp_all add: fact_other_keys_def fact_text_fields_def fact_optional_fields_def encrypted_name_def)

lemma fact_opens:
  assumes r: "can_read A kr kr'"
    and k: "item_key ScalarEncryptionError (fact_keys False) msg ''fact_id'' x = Inr k"
    and e: "encrypt_fact A rng kr jid cid oid k x n = Inr (y, n')"
  shows "item_key ScalarDecryptionError (fact_keys True) msg ''fact_id'' y = Inr k \<and>
    (\<exists>z. decrypt_fact A kr' jid cid oid k y () = Inr (z, ()) \<and> py_same x z)"
proof -
  obtain d where d: "x = PDict d" "has_exact_keys d (fact_other_keys @ fact_text_fields)"
    and i: "get0 d ''fact_id'' = PStr k" "strip k \<noteq> []" "strip k = k" "0 \<notin> set k"
    using k unfolding item_key_ok fact_keys_def by auto
  let ?d0 = "put (lit ''fact_id'') (PStr k) (drop_keys fact_text_fields d)"
  let ?ef = "\<lambda>f. encrypt_fact_field A rng kr jid cid oid k d (is_optional_fact_field f) f"
  obtain d1 where y: "put_fields ?ef encrypted_name fact_text_fields ?d0 n = Inr (d1, n')" "y = PDict d1"
    using e by (auto simp: encrypt_fact_eq d(1) dict_of_def bind_Inr_iff)
  have "map_of d (lit ''fact_id'') = Some (PStr k)"
    using exact_key_present [OF d(2), of "''fact_id''"] fact_names(4) i(1) by simp
  then have "map_of ?d0 = map_of (drop_keys fact_text_fields d)"
    using fact_names(5) by (intro map_of_put_same) (simp add: map_of_drop_keys lit_mem restrict_map_def)
  then obtain w where w: "\<forall>f\<in>set fact_text_fields. \<exists>m m'. ?ef f m = Inr (w f, m')"
    "map_of d1 = map_of (drop_keys fact_text_fields d) ++ fields_map encrypted_name w fact_text_fields"
    using put_fields_written [OF y(1) fact_names(3) encrypted_name_inj] by auto
  note s = sealed_fields [OF d(2) fact_names(1,2) refl refl w(2)]
  let ?e0 = "put (lit ''fact_id'') (PStr k) (drop_keys (map encrypted_name fact_text_fields) d1)"
  let ?df = "\<lambda>f. decrypt_fact_field A kr' jid cid oid k d1 (is_optional_fact_field f) f"
  have i1: "get0 d1 ''fact_id'' = PStr k" using s(3) [OF fact_names(4)] i(1) by simp
  have "?df f () = Inr (get0 d f, ())" if f: "f \<in> set fact_text_fields" for f
  proof -
    obtain m m' where "?ef f m = Inr (w f, m')" using w(1) f by blast
    then show ?thesis using fact_field_opens [OF r] s(2) [OF f] by blast
  qed
  then obtain d2 where d2: "put_fields ?df (\<lambda>f. f) fact_text_fields ?e0 () = Inr (d2, ())"
    "map_of d2 = map_of ?e0 ++ fields_map (\<lambda>f. f) (get0 d) fact_text_fields"
    using put_fields_writes [of fact_text_fields ?df "get0 d" "\<lambda>f. f" ?e0] fact_names(3) by auto
  have "map_of d1 (lit ''fact_id'') = Some (PStr k)"
    using exact_key_present [OF s(1), of "''fact_id''"] fact_names(4) i1 by simp
  then have "map_of ?e0 = map_of (drop_keys (map encrypted_name fact_text_fields) d1)"
    using fact_names(6) by (intro map_of_put_same) (auto simp: map_of_drop_keys lit_mem restrict_map_def)
  then have "map_of d2 = map_of d" using d2(2) s(4) by simp
  then have "py_same x (PDict d2)" unfolding d(1) by (intro py_same_map) simp
  moreover have "decrypt_fact A kr' jid cid oid k y () = Inr (PDict d2, ())"
    by (simp add: decrypt_fact_eq y(2) dict_of_def d2(1))
  moreover have "item_key ScalarDecryptionError (fact_keys True) msg ''fact_id'' y = Inr k"
    unfolding item_key_ok using s(1) i1 i(2-4) by (simp add: y(2) fact_keys_def)
  ultimately show ?thesis by blast
qed

interpretation facts: sealed_list "can_read A kr kr'"
  "item_key ScalarEncryptionError (fact_keys False) ''Invalid extracted fact entry.'' ''fact_id''"
  "item_key ScalarDecryptionError (fact_keys True) ''Invalid extracted fact entry.'' ''fact_id''"
  "ScalarEncryptionError ''Duplicate fact_id value.''"
  "ScalarDecryptionError ''Duplicate fact_id value.''"
  "encrypt_fact A rng kr jid cid oid" "decrypt_fact A kr' jid cid oid" py_same
  for A rng kr kr' jid cid oid
  by unfold_locales (rule fact_opens)


subsection \<open>The whole result\<close>

lemma value_names:
  "set value_other_keys \<inter> set value_text_fields = {}"
  "encrypted_name ` set value_text_fields \<inter> (set value_other_keys \<union> set value_text_fields) = {}"
  "''questions_to_ask'' \<in> set value_other_keys" "''negotiation_suggestions'' \<in> set value_other_keys"
  "''extracted_facts'' \<in> set value_other_keys"
  by (simp_all add: value_other_keys_def value_text_fields_def encrypted_name_def)

lemma question_list_opens:
  assumes "can_read A kr kr'" "encrypt_question_list A rng kr jid cid oid v n = Inr (ys, n')"
  shows "\<exists>xs zs. v = PList xs \<and> decrypt_question_list A kr' jid cid oid (PList ys) = Inr zs \<and> list_all2 py_same xs zs"
proof -
  obtain xs where "v = PList xs" "unique_loop
      (item_key ScalarEncryptionError (question_keys False) ''Invalid question entry.'' ''question_id'')
      (ScalarEncryptionError ''Duplicate question_id value.'') (encrypt_question A rng kr jid cid oid) [] n xs = Inr (ys, n')"
    using assms(2) by (cases v) (auto simp: encrypt_question_list_def)
  then show ?thesis using questions.opens [OF assms(1)] by (fastforce simp: decrypt_question_list_def)
qed

lemma suggestion_list_opens:
  assumes "can_read A kr kr'" "encrypt_suggestion_list A rng kr jid cid oid v n = Inr (ys, n')"
  shows "\<exists>xs zs. v = PList xs \<and> decrypt_suggestion_list A kr' jid cid oid (PList ys) = Inr zs \<and> list_all2 py_same xs zs"
proof -
  obtain xs where "v = PList xs" "unique_loop
      (item_key ScalarEncryptionError (suggestion_keys False) ''Invalid suggestion entry.'' ''suggestion_id'')
      (ScalarEncryptionError ''Duplicate suggestion_id value.'') (encrypt_suggestion A rng kr jid cid oid) [] n xs = Inr (ys, n')"
    using assms(2) by (cases v) (auto simp: encrypt_suggestion_list_def)
  then show ?thesis using suggestions.opens [OF assms(1)] by (fastforce simp: decrypt_suggestion_list_def)
qed

lemma fact_list_opens:
  assumes "can_read A kr kr'" "encrypt_fact_list A rng kr jid cid oid v n = Inr (ys, n')"
  shows "\<exists>xs zs. v = PList xs \<and> decrypt_fact_list A kr' jid cid oid (PList ys) = Inr zs \<and> list_all2 py_same xs zs"
proof -
  obtain xs where "v = PList xs" "unique_loop
      (item_key ScalarEncryptionError (fact_keys False) ''Invalid extracted fact entry.'' ''fact_id'')
      (ScalarEncryptionError ''Duplicate fact_id value.'') (encrypt_fact A rng kr jid cid oid) [] n xs = Inr (ys, n')"
    using assms(2) by (cases v) (auto simp: encrypt_fact_list_def)
  then show ?thesis using facts.opens [OF assms(1)] by (fastforce simp: decrypt_fact_list_def)
qed

text \<open>The three list fields, written last in both directions.\<close>

definition put_lists :: "pyval list \<Rightarrow> pyval list \<Rightarrow> pyval list \<Rightarrow> pydict \<Rightarrow> pydict" where
  "put_lists qs ss fs d =
     put (lit ''extracted_facts'') (PList fs)
       (put (lit ''negotiation_suggestions'') (PList ss) (put (lit ''questions_to_ask'') (PList qs) d))"

lemma map_of_put_lists:
  "map_of (put_lists qs ss fs d) = (map_of d)(lit ''questions_to_ask'' \<mapsto> PList qs,
     lit ''negotiation_suggestions'' \<mapsto> PList ss, lit ''extracted_facts'' \<mapsto> PList fs)"
  by (simp add: put_lists_def map_of_put)

lemma put_lists_keys:
  assumes "has_exact_keys d (value_other_keys @ ks)"
  shows "has_exact_keys (put_lists qs ss fs d) (value_other_keys @ ks)"
  unfolding put_lists_def by (intro has_exact_keys_put assms) (simp_all add: value_names)

lemma put_lists_text:
  assumes "set fs' \<inter> set value_other_keys = {}"
    and e: "map_of e = map_of (drop_keys ks (put_lists qs ss fs d)) ++ fields_map (\<lambda>f. f) w fs'"
  shows "map_of (put_lists qs' ss' fs1 e) =
    (map_of (drop_keys ks d) ++ fields_map (\<lambda>f. f) w fs')
      (lit ''questions_to_ask'' \<mapsto> PList qs', lit ''negotiation_suggestions'' \<mapsto> PList ss',
       lit ''extracted_facts'' \<mapsto> PList fs1)"
proof -
  have k: "lit ''questions_to_ask'' \<notin> lit ` set fs'" "lit ''negotiation_suggestions'' \<notin> lit ` set fs'"
    "lit ''extracted_facts'' \<notin> lit ` set fs'"
    using assms(1) value_names(3-5) unfolding lit_mem by blast+
  have "fields_map (\<lambda>f. f) w fs' x = None" if "x \<notin> lit ` set fs'" for x
    using fields_map_out [of x "\<lambda>f. f" fs' w] that by simp
  then show ?thesis
    using k by (auto simp: e map_of_drop_keys map_of_put_lists fun_eq_iff restrict_map_def map_add_def
      split: option.split)
qed

lemma get0_put_lists:
  "get0 (put_lists qs ss fs d) k =
     (if k = ''extracted_facts'' then PList fs else if k = ''negotiation_suggestions'' then PList ss
      else if k = ''questions_to_ask'' then PList qs else get0 d k)"
  by (simp add: put_lists_def get0_put)

lemma analysis_value_opens:
  assumes r: "can_read A kr kr'"
    and o: "distinct order" "set order = set value_text_fields" "distinct order'" "set order' = set value_text_fields"
    and e: "encrypt_analysis_value order A rng kr (PDict d) jid cid oid n = Inr (y, n')"
  shows "\<exists>z. decrypt_analysis_value order' A kr' y jid cid oid = Inr z \<and> py_same (PDict d) z"
proof -
  obtain j c u where ids: "require_identifier ScalarDecryptionError ''analysis_job_id'' jid = Inr j"
    "require_identifier ScalarDecryptionError ''clause_record_id'' cid = Inr c"
    "require_identifier ScalarDecryptionError ''owner_id'' oid = Inr u"
    using e by (auto simp: encrypt_analysis_value_def bind_Inr_iff require_identifier_transfer split: if_splits)
  obtain d1 n1 qs n2 ss n3 fs where k: "has_exact_keys d (value_other_keys @ value_text_fields)"
    and t: "put_fields (\<lambda>f. encrypt_result_text A rng kr (value_field_aad j c f u) (get0 d f))
       encrypted_name order (drop_keys value_text_fields d) n = Inr (d1, n1)"
    and l: "encrypt_question_list A rng kr j c u (get0 d ''questions_to_ask'') n1 = Inr (qs, n2)"
      "encrypt_suggestion_list A rng kr j c u (get0 d ''negotiation_suggestions'') n2 = Inr (ss, n3)"
      "encrypt_fact_list A rng kr j c u (get0 d ''extracted_facts'') n3 = Inr (fs, n')"
    and y: "y = PDict (put_lists qs ss fs d1)"
    using e ids by (auto simp: encrypt_analysis_value_def bind_Inr_iff require_identifier_transfer
      analysis_value_plaintext_keys_def Let_def put_lists_def split: if_splits)
  obtain w where w: "\<forall>f\<in>set order. \<exists>m m'. encrypt_result_text A rng kr (value_field_aad j c f u) (get0 d f) m = Inr (w f, m')"
    "map_of d1 = map_of (drop_keys value_text_fields d) ++ fields_map encrypted_name w order"
    using put_fields_written [OF t o(1) encrypted_name_inj] by blast
  note s = sealed_fields [OF k value_names(1,2) o(2,4) w(2)]
  let ?d' = "put_lists qs ss fs d1"
  let ?df = "\<lambda>f. decrypt_result_text A kr' (value_field_aad j c f u) (get0 ?d' (encrypted_name f))"
  have "?df f () = Inr (get0 d f, ())" if f: "f \<in> set order'" for f
  proof -
    obtain m m' where m: "encrypt_result_text A rng kr (value_field_aad j c f u) (get0 d f) m = Inr (w f, m')"
      using w(1) f o by blast
    have "encrypted_name f \<notin> set value_other_keys" using value_names(2) f o(4) by blast
    then have "get0 ?d' (encrypted_name f) = w f"
      using s(2) [of f] f o(4) value_names(3-5) by (auto simp: get0_put_lists)
    then show ?thesis using result_text_opens [OF r m] by simp
  qed
  then obtain e1 where e1: "put_fields ?df (\<lambda>f. f) order' (drop_keys (map encrypted_name value_text_fields) ?d') () = Inr (e1, ())"
    "map_of e1 = map_of (drop_keys (map encrypted_name value_text_fields) ?d') ++ fields_map (\<lambda>f. f) (get0 d) order'"
    using put_fields_writes [of order' ?df "get0 d" "\<lambda>f. f"] o(3) by auto
  obtain qx qz sx sz fx fz where
    q: "get0 d ''questions_to_ask'' = PList qx" "decrypt_question_list A kr' j c u (PList qs) = Inr qz" "list_all2 py_same qx qz" and
    g: "get0 d ''negotiation_suggestions'' = PList sx" "decrypt_suggestion_list A kr' j c u (PList ss) = Inr sz" "list_all2 py_same sx sz" and
    h: "get0 d ''extracted_facts'' = PList fx" "decrypt_fact_list A kr' j c u (PList fs) = Inr fz" "list_all2 py_same fx fz"
    using question_list_opens [OF r l(1)] suggestion_list_opens [OF r l(2)] fact_list_opens [OF r l(3)] by blast
  let ?z = "put_lists qz sz fz e1"
  have z: "map_of ?z = (map_of d)(lit ''questions_to_ask'' \<mapsto> PList qz,
      lit ''negotiation_suggestions'' \<mapsto> PList sz, lit ''extracted_facts'' \<mapsto> PList fz)"
    using put_lists_text [OF _ e1(2), of qz sz fz] value_names(1,2) o(4) by (simp add: s(4) Int_commute Int_Un_distrib)
  have present: "map_of d (lit k) = Some (get0 d k)" if "k \<in> set value_other_keys" for k
    using exact_key_present [OF k] that by simp
  have "dom (map_of ?z) = dom (map_of d)"
    unfolding z using present value_names(3-5) by auto
  then have "has_exact_keys ?z analysis_value_plaintext_keys"
    using k unfolding exact_keys_dom analysis_value_plaintext_keys_def by simp
  then have "decrypt_analysis_value order' A kr' y jid cid oid = Inr (PDict ?z)"
    using ids e1(1) q(2) g(2) h(2) put_lists_keys [OF s(1)]
    by (simp add: decrypt_analysis_value_def y analysis_value_encrypted_keys_def get0_put_lists Let_def put_lists_def [symmetric])
  moreover have "py_same (PDict d) (PDict ?z)"
  proof (rule py_same_dict)
    fix x
    show "rel_option py_same (map_of d x) (map_of ?z x)"
      unfolding z using present [OF value_names(3)] present [OF value_names(4)] present [OF value_names(5)] q g h
      by (auto simp: option.rel_refl)
  qed
  ultimately show ?thesis by blast
qed


text \<open>C21: A stored analysis result decrypts to the result that was encrypted, texts, questions, suggestions
  and facts alike, whatever orders the set of field names is iterated in by the two processes, for every
  supply of nonces and under every ring that still finds the bytes of the key under its id, active or for decryption
  only.\<close>

theorem analysis_value_roundtrip:
  assumes "can_read A kr kr'"
    and "mset order = mset value_text_fields" and "mset order' = mset value_text_fields"
    and "encrypt_analysis_value order A rng kr (PDict d) job clause owner n = Inr (y, n')"
  shows "\<exists>z. decrypt_analysis_value order' A kr' y job clause owner = Inr z \<and> py_same (PDict d) z"
proof -
  have v: "distinct value_text_fields" by (simp add: value_text_fields_def)
  have "distinct order" "set order = set value_text_fields" "distinct order'" "set order' = set value_text_fields"
    using v assms(2,3) mset_eq_imp_distinct_iff mset_eq_setD by blast+
  then show ?thesis using analysis_value_opens [OF assms(1)] assms(4) by blast
qed

definition example_value :: pydict where
  "example_value =
     map (\<lambda>k. (lit k,
            if k \<in> set value_text_fields then PStr (lit ''t'')
            else if k = ''questions_to_ask'' then PList [PDict
              [(lit ''question_id'', PStr (lit ''q'')), (lit ''question'', PStr (lit ''q'')), (lit ''purpose'', PStr []),
               (lit ''related_evidence_ids'', PList []), (lit ''priority'', PNone), (lit ''id'', PNone)]]
            else if k \<in> {''negotiation_suggestions'', ''extracted_facts''} then PList [] else PNone))
       analysis_value_plaintext_keys"

lemma analysis_value_roundtrip_witness:
  "case encrypt_analysis_value value_text_fields plain_aead example_rng example_keyring (PDict example_value)
          (PStr (lit ''j'')) (PStr (lit ''c'')) (PStr (lit ''o'')) 0 of
     Inl x \<Rightarrow> False
   | Inr (y, n') \<Rightarrow>
       \<exists>z. decrypt_analysis_value (rev value_text_fields) plain_aead rotated_keyring y
              (PStr (lit ''j'')) (PStr (lit ''c'')) (PStr (lit ''o'')) = Inr z \<and> py_same (PDict example_value) z"
proof -
  have "case encrypt_analysis_value value_text_fields plain_aead example_rng example_keyring (PDict example_value)
          (PStr (lit ''j'')) (PStr (lit ''c'')) (PStr (lit ''o'')) 0 of Inl x \<Rightarrow> False | Inr r \<Rightarrow> True"
    by code_simp
  then obtain y n' where "encrypt_analysis_value value_text_fields plain_aead example_rng example_keyring
      (PDict example_value) (PStr (lit ''j'')) (PStr (lit ''c'')) (PStr (lit ''o'')) 0 = Inr (y, n')"
    by (auto split: sum.splits)
  then show ?thesis using analysis_value_roundtrip [OF example_can_read] by simp
qed

subsection \<open>Evidence\<close>

lemma evidence_item_id_transfer:
  "require_evidence_item_id err name v = Inr s \<longleftrightarrow> v = PStr s \<and> s \<noteq> [] \<and> strip s = s \<and> 0 \<notin> set s"
  by (auto simp: require_evidence_item_id_def bind_Inr_iff require_identifier_transfer)

text \<open>Two computations that differ in the errors they raise only.\<close>

definition ok_le :: "'a result \<Rightarrow> 'a result \<Rightarrow> bool" where
  "ok_le r r' \<longleftrightarrow> (\<forall>v. r = Inr v \<longrightarrow> r' = Inr v)"

lemma ok_leI: "ok_le (Inl e) r" "ok_le r r"
  by (simp_all add: ok_le_def)

lemma ok_le_bind: "ok_le r r' \<Longrightarrow> (\<And>v. ok_le (f v) (f' v)) \<Longrightarrow> ok_le (bind r f) (bind r' f')"
  by (auto simp: ok_le_def bind_Inr_iff)

lemma ok_le_if: "ok_le a a' \<Longrightarrow> ok_le b b' \<Longrightarrow> ok_le (if c then a else b) (if c then a' else b')"
  by simp

lemma ok_le_option:
  "ok_le a a' \<Longrightarrow> (\<And>v. ok_le (f v) (f' v)) \<Longrightarrow>
     ok_le (case x of None \<Rightarrow> a | Some v \<Rightarrow> f v) (case x of None \<Rightarrow> a' | Some v \<Rightarrow> f' v)"
  by (cases x) simp_all

lemma ok_le_int:
  "ok_le a a' \<Longrightarrow> (\<And>i. ok_le (f i) (f' i)) \<Longrightarrow>
     ok_le (case v of PInt i \<Rightarrow> f i | _ \<Rightarrow> a) (case v of PInt i \<Rightarrow> f' i | _ \<Rightarrow> a')"
  by (cases v) simp_all

lemmas ok_le_intros = ok_le_bind ok_le_if ok_le_option ok_le_int ok_leI

lemma evidence_item_id_le: "ok_le (require_evidence_item_id err name v) (require_evidence_item_id err' name v)"
  by (simp add: ok_le_def evidence_item_id_transfer)

lemma check_block_ids_le: "ok_le (check_block_ids err seen vs) (check_block_ids err' seen vs)"
  by (induction vs arbitrary: seen) (auto intro!: ok_le_intros evidence_item_id_le)

lemma check_confidence_le: "ok_le (check_confidence err v) (check_confidence err' v)"
proof (cases v)
  case (PFloat f)
  then show ?thesis by (cases f) (simp_all add: check_confidence_def ok_le_def)
qed (simp_all add: check_confidence_def ok_le_def)

lemma check_evidence_offsets_le:
  "ok_le (check_evidence_offsets err status s e) (check_evidence_offsets err' status s e)"
  by (cases s; cases e) (simp_all add: check_evidence_offsets_def ok_le_def)

lemma check_clause_offsets_le: "ok_le (check_clause_offsets err d) (check_clause_offsets err' d)"
  by (cases "get0 d ''clause_start_offset''"; cases "get0 d ''clause_end_offset''")
    (simp_all add: check_clause_offsets_def ok_le_def)

lemma validate_metadata_le: "ok_le (validate_metadata err d) (validate_metadata err' d)"
  unfolding validate_metadata_def
  by (intro ok_le_intros evidence_item_id_le check_block_ids_le check_confidence_le check_evidence_offsets_le
    check_clause_offsets_le)

lemma validate_metadata_err: "validate_metadata err d = Inr k \<Longrightarrow> validate_metadata err' d = Inr k"
  using validate_metadata_le [of err d err'] by (simp add: ok_le_def)

lemma has_key_map: "has_key d k \<longleftrightarrow> map_of d (lit k) \<noteq> None"
  by (simp add: has_key_def map_of_eq_None_iff)



lemma validate_metadata_cong:
  assumes "\<And>k. k \<in> set (required_metadata_keys @ optional_metadata_keys) \<Longrightarrow> map_of d (lit k) = map_of d' (lit k)"
  shows "validate_metadata err d = validate_metadata err d'"
proof -
  have g: "get0 d k = get0 d' k" "has_key d k = has_key d' k"
    if "k \<in> set (required_metadata_keys @ optional_metadata_keys)" for k
    using assms [OF that] by (simp_all add: get0_map has_key_map)
  have m: "''evidence_id'' \<in> set (required_metadata_keys @ optional_metadata_keys)"
    "''document_id'' \<in> set (required_metadata_keys @ optional_metadata_keys)"
    "''extraction_id'' \<in> set (required_metadata_keys @ optional_metadata_keys)"
    "''page_number'' \<in> set (required_metadata_keys @ optional_metadata_keys)"
    "''clause_id'' \<in> set (required_metadata_keys @ optional_metadata_keys)"
    "''start_offset'' \<in> set (required_metadata_keys @ optional_metadata_keys)"
    "''end_offset'' \<in> set (required_metadata_keys @ optional_metadata_keys)"
    "''block_ids'' \<in> set (required_metadata_keys @ optional_metadata_keys)"
    "''evidence_type'' \<in> set (required_metadata_keys @ optional_metadata_keys)"
    "''validation_status'' \<in> set (required_metadata_keys @ optional_metadata_keys)"
    "''confidence'' \<in> set (required_metadata_keys @ optional_metadata_keys)"
    "''evidence_snapshot_hash'' \<in> set (required_metadata_keys @ optional_metadata_keys)"
    "''clause_start_offset'' \<in> set (required_metadata_keys @ optional_metadata_keys)"
    "''clause_end_offset'' \<in> set (required_metadata_keys @ optional_metadata_keys)"
    by (simp_all add: required_metadata_keys_def optional_metadata_keys_def)
  show ?thesis unfolding validate_metadata_def check_clause_offsets_def
    by (simp only: m [THEN g(1)] m [THEN g(2)])
qed

text \<open>An evidence item with its text moved to another key.\<close>

lemma map_of_pop_key: "map_of (pop_key k d) = (map_of d)(lit k := None)"
  unfolding pop_key_def by (induction d) (auto simp: fun_eq_iff)

lemma validate_evidence_keys_ok:
  "validate_evidence_keys enc err v = Inr d \<longleftrightarrow>
     v = PDict d \<and> (\<forall>k\<in>set (source_text_key enc # required_metadata_keys). map_of d (lit k) \<noteq> None) \<and>
     dom (map_of d) \<subseteq> lit ` set ((source_text_key enc # required_metadata_keys) @ optional_metadata_keys) \<and>
     (map_of d (lit ''clause_start_offset'') = None \<longleftrightarrow> map_of d (lit ''clause_end_offset'') = None)"
  by (cases v) (auto simp: validate_evidence_keys_def Let_def list_all_iff has_key_map dom_map_of_conv_image_fst)

lemma evidence_names:
  "source_text_key enc \<notin> set (required_metadata_keys @ optional_metadata_keys)"
  "''clause_start_offset'' \<in> set (required_metadata_keys @ optional_metadata_keys)"
  "''clause_end_offset'' \<in> set (required_metadata_keys @ optional_metadata_keys)"
  by (simp_all add: source_text_key_def required_metadata_keys_def optional_metadata_keys_def)

lemma moved_keys:
  assumes v: "validate_evidence_keys enc err (PDict d) = Inr d" and n: "enc' \<noteq> enc"
    and m: "map_of d' = (map_of d)(lit (source_text_key enc) := None, lit (source_text_key enc') \<mapsto> w)"
  shows "validate_evidence_keys enc' err' (PDict d') = Inr d'"
    and "k \<in> set (required_metadata_keys @ optional_metadata_keys) \<Longrightarrow> map_of d' (lit k) = map_of d (lit k)"
proof -
  have k: "map_of d' (lit k) = map_of d (lit k)" if "k \<in> set (required_metadata_keys @ optional_metadata_keys)" for k
  proof -
    have "k \<noteq> source_text_key enc" "k \<noteq> source_text_key enc'" using that evidence_names(1) by metis+
    then show ?thesis using lit_mem [of k "{source_text_key enc}"] lit_mem [of k "{source_text_key enc'}"] by (simp add: m)
  qed
  then show "k \<in> set (required_metadata_keys @ optional_metadata_keys) \<Longrightarrow> map_of d' (lit k) = map_of d (lit k)" .
  have "map_of d (lit x) \<noteq> None" if "x \<in> set required_metadata_keys" for x
    using v that unfolding validate_evidence_keys_ok by simp
  then have q: "map_of d' (lit x) \<noteq> None" if "x \<in> set required_metadata_keys" for x
    using that k [of x] by simp
  have "map_of d' (lit x) \<noteq> None" if "x \<in> set (source_text_key enc' # required_metadata_keys)" for x
  proof (cases "x = source_text_key enc'")
    case True
    then show ?thesis by (simp add: m)
  next
    case False
    then show ?thesis using that q [of x] by simp
  qed
  moreover have "dom (map_of d') \<subseteq> lit ` set ((source_text_key enc' # required_metadata_keys) @ optional_metadata_keys)"
  proof
    fix x
    assume "x \<in> dom (map_of d')"
    then have "x = lit (source_text_key enc') \<or> x \<noteq> lit (source_text_key enc) \<and> x \<in> dom (map_of d)"
      by (auto simp: m dom_def split: if_splits)
    moreover have "dom (map_of d) \<subseteq> lit ` set ((source_text_key enc # required_metadata_keys) @ optional_metadata_keys)"
      using v unfolding validate_evidence_keys_ok by simp
    ultimately show "x \<in> lit ` set ((source_text_key enc' # required_metadata_keys) @ optional_metadata_keys)" by auto
  qed
  moreover have "map_of d' (lit ''clause_start_offset'') = None \<longleftrightarrow> map_of d' (lit ''clause_end_offset'') = None"
    using v k [OF evidence_names(2)] k [OF evidence_names(3)] unfolding validate_evidence_keys_ok by simp
  ultimately show "validate_evidence_keys enc' err' (PDict d') = Inr d'"
    unfolding validate_evidence_keys_ok by blast
qed

lemma evidence_opens:
  assumes r: "can_read A kr kr'" and k: "evidence_item_key False ScalarEncryptionError x = Inr k"
    and e: "encrypt_evidence_item A rng kr jid cid oid k x n = Inr (y, n')"
  shows "evidence_item_key True ScalarDecryptionError y = Inr k \<and>
    (\<exists>z. decrypt_evidence_item A kr' jid cid oid k y () = Inr (z, ()) \<and> py_same x z)"
proof -
  obtain d where d: "validate_evidence_keys False ScalarEncryptionError x = Inr d" "validate_metadata ScalarEncryptionError d = Inr k"
    using k by (auto simp: evidence_item_key_def bind_Inr_iff)
  then have x: "x = PDict d" unfolding validate_evidence_keys_ok by simp
  note v = d(1) [unfolded x]
  obtain s a m where s: "get0 d ''source_text'' = PStr s" "\<not> bad_source_text s" "is_encodable s"
    "source_text_aad jid cid k oid = Inr a" "encrypt A (rng n) kr a (utf8_encode s) = Inr m"
    "y = PDict (put (lit ''source_text_encrypted'') (PDict (envelope_to_mapping m)) (pop_key ''source_text'' d))"
    using e by (cases "get0 d ''source_text''")
      (auto simp: encrypt_evidence_item_def x dict_of_def bind_Inr_iff encode_ok split: if_splits)
  let ?E = "put (lit ''source_text_encrypted'') (PDict (envelope_to_mapping m)) (pop_key ''source_text'' d)"
  have E: "map_of ?E = (map_of d)(lit (source_text_key False) := None,
      lit (source_text_key True) \<mapsto> PDict (envelope_to_mapping m))"
    by (simp add: map_of_put map_of_pop_key source_text_key_def)
  note mE = moved_keys [OF v _ E]
  have md: "validate_metadata err ?E = Inr k" for err
    using validate_metadata_err [OF d(2)] validate_metadata_cong [of ?E d err] mE(2) by simp
  let ?D = "put (lit ''source_text'') (PStr s) (pop_key ''source_text_encrypted'' ?E)"
  have D: "map_of ?D = (map_of ?E)(lit (source_text_key True) := None, lit (source_text_key False) \<mapsto> PStr s)"
    by (simp add: map_of_put map_of_pop_key source_text_key_def)
  have eE: "validate_evidence_keys True err (PDict ?E) = Inr ?E" for err by (rule mE(1)) simp
  note mD = moved_keys [OF eE _ D]
  have mdD: "validate_metadata err ?D = Inr k" for err
    using md validate_metadata_cong [of ?D ?E err] mD(2) by simp
  have eD: "validate_evidence_keys False ScalarDecryptionError (PDict ?D) = Inr ?D" by (rule mD(1)) simp
  have "map_of d (lit ''source_text'') = Some (PStr s)" "map_of d (lit ''source_text_encrypted'') = None"
  proof -
    have "map_of d (lit ''source_text'') \<noteq> None" using v unfolding validate_evidence_keys_ok by (simp add: source_text_key_def)
    then show "map_of d (lit ''source_text'') = Some (PStr s)" using s(1) by (auto simp: get0_map)
    have "lit ''source_text_encrypted'' \<notin> lit ` set ((source_text_key False # required_metadata_keys) @ optional_metadata_keys)"
      unfolding lit_mem by (simp add: source_text_key_def required_metadata_keys_def optional_metadata_keys_def)
    then show "map_of d (lit ''source_text_encrypted'') = None"
      using v unfolding validate_evidence_keys_ok by blast
  qed
  then have "map_of d = map_of ?D"
    unfolding D E by (auto simp: fun_eq_iff source_text_key_def)
  then have "py_same x (PDict ?D)" unfolding x by (rule py_same_map)
  moreover have "decrypt_evidence_item A kr' jid cid oid k y () = Inr (PDict ?D, ())"
    using can_read_opens(3) [OF r s(5)] s(2-4) eD mdD
    by (simp add: decrypt_evidence_item_def s(6) dict_of_def get0_put decode_encoded)
  moreover have "evidence_item_key True ScalarDecryptionError y = Inr k"
    using eE md by (simp add: evidence_item_key_def s(6))
  ultimately show ?thesis by blast
qed

interpretation evidence: sealed_list "can_read A kr kr'"
  "evidence_item_key False ScalarEncryptionError" "evidence_item_key True ScalarDecryptionError"
  "ScalarEncryptionError ''Duplicate evidence_id value.''"
  "ScalarDecryptionError ''Duplicate evidence_id value.''"
  "encrypt_evidence_item A rng kr jid cid oid" "decrypt_evidence_item A kr' jid cid oid" py_same
  for A rng kr kr' jid cid oid
  by unfold_locales (rule evidence_opens)

text \<open>C23: A stored evidence list decrypts to the evidence that was encrypted, every item still passing the
  checks of its identifiers, offsets, blocks and confidence.\<close>

theorem evidence_list_roundtrip:
  assumes "can_read A kr kr'"
    and "encrypt_analysis_evidence_list A rng kr (PList items) job clause owner n = Inr (ys, n')"
  shows "\<exists>zs. decrypt_analysis_evidence_list A kr' (PList ys) job clause owner = Inr zs \<and> list_all2 py_same items zs"
proof -
  obtain j c w where "require_evidence_item_id ScalarDecryptionError ''analysis_job_id'' job = Inr j"
    "require_evidence_item_id ScalarDecryptionError ''clause_record_id'' clause = Inr c"
    "require_evidence_item_id ScalarDecryptionError ''owner_id'' owner = Inr w"
    and u: "unique_loop (evidence_item_key False ScalarEncryptionError) (ScalarEncryptionError ''Duplicate evidence_id value.'')
       (encrypt_evidence_item A rng kr j c w) [] n items = Inr (ys, n')"
    using assms(2) by (auto simp: encrypt_analysis_evidence_list_def validate_context_def bind_Inr_iff
      evidence_item_id_transfer)
  then show ?thesis using evidence.opens [OF assms(1) u]
    by (fastforce simp: decrypt_analysis_evidence_list_def validate_context_def)
qed


definition example_evidence :: pyval where
  "example_evidence = PDict
     [(lit ''evidence_id'', PStr (lit ''e'')), (lit ''document_id'', PStr (lit ''d'')),
      (lit ''extraction_id'', PStr (lit ''x'')), (lit ''page_number'', PInt 1), (lit ''clause_id'', PStr (lit ''c'')),
      (lit ''start_offset'', PInt 0), (lit ''end_offset'', PInt 2), (lit ''block_ids'', PList [PStr (lit ''b'')]),
      (lit ''evidence_type'', PStr (lit ''quote'')), (lit ''validation_status'', PStr (lit ''valid'')),
      (lit ''confidence'', PFloat fone), (lit ''source_text'', PStr (lit ''ab''))]"

lemma evidence_list_roundtrip_witness:
  "case encrypt_analysis_evidence_list plain_aead example_rng example_keyring (PList [example_evidence])
          (PStr (lit ''j'')) (PStr (lit ''c'')) (PStr (lit ''o'')) 0 of
     Inl x \<Rightarrow> False
   | Inr (ys, n') \<Rightarrow>
       \<exists>zs. decrypt_analysis_evidence_list plain_aead rotated_keyring (PList ys)
              (PStr (lit ''j'')) (PStr (lit ''c'')) (PStr (lit ''o'')) = Inr zs \<and>
            list_all2 py_same [example_evidence] zs"
proof -
  have "case encrypt_analysis_evidence_list plain_aead example_rng example_keyring (PList [example_evidence])
          (PStr (lit ''j'')) (PStr (lit ''c'')) (PStr (lit ''o'')) 0 of Inl x \<Rightarrow> False | Inr r \<Rightarrow> True"
    by code_simp
  then obtain ys n' where "encrypt_analysis_evidence_list plain_aead example_rng example_keyring (PList [example_evidence])
      (PStr (lit ''j'')) (PStr (lit ''c'')) (PStr (lit ''o'')) 0 = Inr (ys, n')"
    by (auto split: sum.splits)
  then show ?thesis using evidence_list_roundtrip [OF example_can_read] by simp
qed

end
