(* ===== verification/Encryption_Domains.thy ===== *)
theory Encryption_Domains
  imports Sealed_Results
begin

text \<open>
  Domain separation: every field the services encrypt, as one datatype with the associated data its
  service builds.  Two different fields never have the same associated data, so by authenticity of the
  cipher no ciphertext can be moved to another field, record, owner or schema version.
\<close>

datatype field_context =
    ClauseBody pystr pystr
  | ExtractionPageText pystr int pystr
  | ResultSummary pystr pystr pystr
  | Metadata string pystr pystr string
  | UnclassifiedSection pystr pystr nat
  | PageBlock pystr int int pystr
  | SnapshotBlock pystr int int int pystr
  | PageTextField pystr int pystr pystr
  | SnapshotFinalText pystr int int pystr
  | ResultField pystr pystr string pystr
  | QuestionField pystr pystr pystr string pystr
  | SuggestionField pystr pystr pystr string pystr
  | FactField pystr pystr pystr string pystr
  | EvidenceText pystr pystr pystr pystr

fun context_aad :: "field_context \<Rightarrow> bytes result" where
  "context_aad (ClauseBody c w) = clause_body_aad c w"
| "context_aad (ExtractionPageText e p w) = extraction_page_aad e p w"
| "context_aad (ResultSummary j c w) = analysis_result_summary_aad j c w"
| "context_aad (Metadata t i w f) = metadata_aad ScalarEncryptionError t (PStr i) (PStr w) f"
| "context_aad (UnclassifiedSection d w i) = item_aad d w i"
| "context_aad (PageBlock e p b w) = block_aad e p b w"
| "context_aad (SnapshotBlock e v p b w) = snapshot_block_aad e v p b w"
| "context_aad (PageTextField e p f w) = page_text_field_aad e p f w"
| "context_aad (SnapshotFinalText e p v w) = snapshot_final_text_aad e p v w"
| "context_aad (ResultField j c f w) = value_field_aad j c f w"
| "context_aad (QuestionField j c q f w) = question_field_aad j c q f w"
| "context_aad (SuggestionField j c s f w) = suggestion_field_aad j c s f w"
| "context_aad (FactField j c i f w) = fact_field_aad j c i f w"
| "context_aad (EvidenceText j c e w) = source_text_aad j c e w"

text \<open>The five values the associated data are built from.\<close>

definition rid :: "(string \<times> pyval) list \<Rightarrow> pystr" where
  "rid d = build_canonical_record_id (map (\<lambda>(k, v). (lit k, v)) d)"

fun aad_parts :: "field_context \<Rightarrow> pystr \<times> pystr \<times> pystr \<times> pystr \<times> pystr" where
  "aad_parts (ClauseBody c w) = (lit ''clause'', c, lit ''body'', w, lit ''scalar-v1'')"
| "aad_parts (ExtractionPageText e p w) =
     (lit ''extraction_page'', rid [(''extraction_id'', PStr e), (''page_number'', PInt p)], lit ''text'', w,
      lit ''scalar-v1'')"
| "aad_parts (ResultSummary j c w) =
     (lit ''analysis_result_item'', rid [(''analysis_job_id'', PStr j), (''clause_record_id'', PStr c)],
      lit ''summary'', w, lit ''scalar-v1'')"
| "aad_parts (Metadata t i w f) = (lit t, i, lit f, w, lit ''scalar-metadata-v1'')"
| "aad_parts (UnclassifiedSection d w i) =
     (lit ''document_unclassified_section'', rid [(''document_id'', PStr d), (''item_index'', PInt (int i))],
      lit ''text'', w, lit ''document-metadata-v1'')"
| "aad_parts (PageBlock e p b w) =
     (lit ''extraction_page_block'',
      rid [(''extraction_id'', PStr e), (''page_number'', PInt p), (''block_index'', PInt b)], lit ''text'', w,
      lit ''nested-json-v1'')"
| "aad_parts (SnapshotBlock e v p b w) =
     (lit ''confirmation_snapshot_block'',
      rid [(''extraction_id'', PStr e), (''snapshot_version'', PInt v), (''page_number'', PInt p),
           (''block_index'', PInt b)], lit ''text'', w, lit ''nested-json-v1'')"
| "aad_parts (PageTextField e p f w) =
     (lit ''extraction_page_extra'', rid [(''extraction_id'', PStr e), (''page_number'', PInt p)], f, w,
      lit ''nested-json-v1'')"
| "aad_parts (SnapshotFinalText e p v w) =
     (lit ''confirmation_snapshot_page'',
      rid [(''extraction_id'', PStr e), (''page_number'', PInt p), (''snapshot_version'', PInt v)],
      lit ''final_text'', w, lit ''nested-json-v1'')"
| "aad_parts (ResultField j c f w) =
     (lit ''analysis_result_item'', rid [(''analysis_job_id'', PStr j), (''clause_record_id'', PStr c)], lit f, w,
      lit ''analysis-result-v1'')"
| "aad_parts (QuestionField j c q f w) =
     (lit ''analysis_result_question'',
      rid [(''analysis_job_id'', PStr j), (''clause_record_id'', PStr c), (''question_id'', PStr q)], lit f, w,
      lit ''analysis-result-v1'')"
| "aad_parts (SuggestionField j c s f w) =
     (lit ''analysis_result_suggestion'',
      rid [(''analysis_job_id'', PStr j), (''clause_record_id'', PStr c), (''suggestion_id'', PStr s)], lit f, w,
      lit ''analysis-result-v1'')"
| "aad_parts (FactField j c i f w) =
     (lit ''analysis_result_fact'',
      rid [(''analysis_job_id'', PStr j), (''clause_record_id'', PStr c), (''fact_id'', PStr i)], lit f, w,
      lit ''analysis-result-v1'')"
| "aad_parts (EvidenceText j c e w) =
     (lit ''analysis_result_evidence'',
      rid [(''analysis_job_id'', PStr j), (''clause_record_id'', PStr c), (''evidence_id'', PStr e)],
      lit ''source_text'', w, lit ''analysis-evidence-v1'')"

text \<open>The strings of a context are strings of the language: code points are not negative.\<close>

fun context_text :: "field_context \<Rightarrow> bool" where
  "context_text (ClauseBody c w) = (is_json_text c \<and> is_json_text w)"
| "context_text (ExtractionPageText e p w) = (is_json_text e \<and> is_json_text w)"
| "context_text (ResultSummary j c w) = (is_json_text j \<and> is_json_text c \<and> is_json_text w)"
| "context_text (Metadata t i w f) = (is_json_text i \<and> is_json_text w)"
| "context_text (UnclassifiedSection d w i) = (is_json_text d \<and> is_json_text w)"
| "context_text (PageBlock e p b w) = (is_json_text e \<and> is_json_text w)"
| "context_text (SnapshotBlock e v p b w) = (is_json_text e \<and> is_json_text w)"
| "context_text (PageTextField e p f w) = (is_json_text e \<and> is_json_text f \<and> is_json_text w)"
| "context_text (SnapshotFinalText e p v w) = (is_json_text e \<and> is_json_text w)"
| "context_text (ResultField j c f w) = (is_json_text j \<and> is_json_text c \<and> is_json_text w)"
| "context_text (QuestionField j c q f w) = (is_json_text j \<and> is_json_text c \<and> is_json_text q \<and> is_json_text w)"
| "context_text (SuggestionField j c s f w) = (is_json_text j \<and> is_json_text c \<and> is_json_text s \<and> is_json_text w)"
| "context_text (FactField j c i f w) = (is_json_text j \<and> is_json_text c \<and> is_json_text i \<and> is_json_text w)"
| "context_text (EvidenceText j c e w) = (is_json_text j \<and> is_json_text c \<and> is_json_text e \<and> is_json_text w)"

lemma metadata_aad_sound:
  "metadata_aad err t (PStr i) (PStr w) f = Inr a \<Longrightarrow>
     build_canonical_aad (lit t) i (lit f) w (lit ''scalar-metadata-v1'') = Inr a"
  by (auto simp: metadata_aad_def bind_Inr_iff metadata_identifier_transfer)

lemma context_aad_parts:
  "context_aad c = Inr a \<Longrightarrow>
     (case aad_parts c of (r, i, f, w, v) \<Rightarrow> build_canonical_aad r i f w v = Inr a)"
  by (cases c) (auto simp: clause_body_aad_def extraction_page_aad_def analysis_result_summary_aad_def item_aad_def
    block_aad_def snapshot_block_aad_def page_text_field_aad_def snapshot_final_text_aad_def value_field_aad_def
    question_field_aad_def suggestion_field_aad_def fact_field_aad_def source_text_aad_def rid_def
    dest: metadata_aad_sound)

text \<open>A record id is text, and determines the values it was made of.\<close>

lemma is_json_text_simps [simp]:
  "is_json_text []" "is_json_text (s @ t) \<longleftrightarrow> is_json_text s \<and> is_json_text t"
  "is_json_text (c # s) \<longleftrightarrow> 0 \<le> c \<and> is_json_text s"
  by (simp_all add: is_json_text_def)

lemma is_json_text_lit [simp]: "is_json_text (lit s)"
proof -
  have "0 \<le> (of_char c :: int)" for c by (metis of_nat_of_char of_nat_0_le_iff)
  then show ?thesis by (simp add: is_json_text_def lit_def list_all_iff)
qed

lemma is_json_text_hex: "is_json_text (hex_fixed w n)"
  by (induction w n rule: hex_fixed.induct) (simp_all add: hex_digit_def)

lemma is_json_text_digits: "is_json_text (nat_digits n)"
  by (induction n rule: nat_digits.induct) (subst nat_digits.simps, simp)

lemma is_json_text_string: "is_json_text s \<Longrightarrow> is_json_text (json_string s)"
  by (induction s) (auto simp: json_string_def json_char_def is_json_text_hex)

lemma is_json_text_join: "is_json_text sep \<Longrightarrow> list_all is_json_text ps \<Longrightarrow> is_json_text (str_join sep ps)"
proof (induction ps)
  case (Cons p ps)
  then show ?case by (cases "ps = []") (simp add: str_join_def, simp add: str_join_Cons)
qed (simp add: str_join_def)

lemma is_json_text_compact: "json_plain v \<Longrightarrow> is_json_text (json_compact v)"
proof (induction v)
  case (PInt i)
  show ?case by (simp add: str_int_def is_json_text_digits)
next
  case (PStr s)
  then show ?case by (simp add: is_json_text_string)
next
  case (PList xs)
  then show ?case by (simp add: list_all_iff) (rule is_json_text_join, auto simp: list_all_iff)
next
  case (PDict d)
  then show ?case unfolding json_compact_dict
    by (simp, intro is_json_text_join) (auto simp: list_all_iff json_member_def is_json_text_string)
qed simp_all

lemma map_of_keys: "distinct (map fst e) \<Longrightarrow> map (map_of e) (map fst e) = map (\<lambda>m. Some (snd m)) e"
  by (auto simp: map_of_eq_Some_iff)

lemma rid_plain:
  "list_all (\<lambda>m. json_plain (snd m)) d \<Longrightarrow>
     list_all (\<lambda>(k, v). is_json_text k \<and> json_plain v) (map (\<lambda>(k, v). (lit k, v)) d)"
  by (auto simp: list_all_iff)

lemma rid_inject:
  assumes "map fst d = map fst d'" "distinct (map fst d)" "list_all (\<lambda>m. json_plain (snd m)) (d @ d')"
    and "rid d = rid d'"
  shows "map snd d = map snd d'"
proof -
  let ?e = "map (\<lambda>(k, v). (lit k, v)) d" and ?e' = "map (\<lambda>(k, v). (lit k, v)) d'"
  have f: "map fst ?e = map lit (map fst d)" "map fst ?e' = map lit (map fst d)"
    by (simp add: split_def) (simp add: assms(1) split_def)
  have "inj lit" by (auto simp: inj_def)
  then have dist: "distinct (map fst ?e)" "distinct (map fst ?e')"
    unfolding f distinct_map using assms(2) by (auto simp: distinct_map inj_on_def)
  have "map_of ?e = map_of ?e'"
    by (rule canonical_dict_inject [OF dist(1) rid_plain dist(2) rid_plain])
      (use assms(3,4) in \<open>simp_all add: rid_def build_canonical_record_id_def\<close>)
  then have "map (\<lambda>m. Some (snd m)) ?e = map (\<lambda>m. Some (snd m)) ?e'"
    using map_of_keys [OF dist(1)] map_of_keys [OF dist(2)] unfolding f by (simp only:)
  then have "map Some (map snd d) = map Some (map snd d')" by (simp add: split_def comp_def)
  then show ?thesis by (simp add: inj_map_eq_map del: map_map)
qed

lemma rid_eqs [simp]:
  "a \<noteq> b \<Longrightarrow> list_all json_plain [x, y, x', y'] \<Longrightarrow>
     rid [(a, x), (b, y)] = rid [(a, x'), (b, y')] \<longleftrightarrow> x = x' \<and> y = y'"
  "distinct [a, b, c] \<Longrightarrow> list_all json_plain [x, y, z, x', y', z'] \<Longrightarrow>
     rid [(a, x), (b, y), (c, z)] = rid [(a, x'), (b, y'), (c, z')] \<longleftrightarrow> x = x' \<and> y = y' \<and> z = z'"
  "distinct [a, b, c, d] \<Longrightarrow> list_all json_plain [x, y, z, u, x', y', z', u'] \<Longrightarrow>
     rid [(a, x), (b, y), (c, z), (d, u)] = rid [(a, x'), (b, y'), (c, z'), (d, u')] \<longleftrightarrow>
       x = x' \<and> y = y' \<and> z = z' \<and> u = u'"
  using rid_inject [of "[(a, x), (b, y)]" "[(a, x'), (b, y')]"]
    rid_inject [of "[(a, x), (b, y), (c, z)]" "[(a, x'), (b, y'), (c, z')]"]
    rid_inject [of "[(a, x), (b, y), (c, z), (d, u)]" "[(a, x'), (b, y'), (c, z'), (d, u')]"]
  by (auto simp del: json_plain.simps)

lemma rid_text: "distinct (map fst d) \<Longrightarrow> list_all (\<lambda>m. json_plain (snd m)) d \<Longrightarrow> is_json_text (rid d)"
proof -
  assume a: "distinct (map fst d)" "list_all (\<lambda>m. json_plain (snd m)) d"
  let ?e = "sort_key fst (map (\<lambda>(k, v). (lit k, v)) d)"
  have "distinct (map fst (map (\<lambda>(k, v). (lit k, v)) d))"
    using a(1) by (auto simp: distinct_map inj_on_def split_def)
  then have "sorted_wrt (<) (map fst ?e)" by (rule sort_key_strict)
  then have "json_plain (PDict ?e)"
    using rid_plain [OF a(2)] unfolding json_plain.simps list_all_iff set_sort by blast
  then show ?thesis unfolding rid_def build_canonical_record_id_def
    by (subst json_compact_sort) (rule is_json_text_compact)
qed

lemma aad_parts_text:
  "context_text c \<Longrightarrow> (case aad_parts c of (r, i, f, w, v) \<Rightarrow> list_all is_json_text [r, i, f, w, v])"
  by (cases c) (auto intro!: rid_text)

lemma context_aad_inject:
  assumes "context_aad c = Inr a" "context_aad c' = Inr a" "context_text c" "context_text c'"
  shows "c = c'"
proof -
  have "aad_parts c = aad_parts c'"
    using context_aad_parts [OF assms(1)] context_aad_parts [OF assms(2)] aad_parts_text [OF assms(3)]
      aad_parts_text [OF assms(4)] canonical_aad_inject by (auto split: prod.splits)
  then show ?thesis using assms(3,4) by (cases c; cases c') auto
qed


text \<open>C20: No ciphertext can be moved: the associated data of two different fields (another column, record,
  item, owner, page, snapshot version or schema version) are different, and what was sealed for one field
  fails to decrypt for every other, even with the right key.\<close>

theorem fields_never_interchange:
  assumes "aead_authentic A" and "context_aad c = Inr a" and "context_aad c' = Inr a'"
    and "context_text c" and "context_text c'" and "c \<noteq> c'"
    and "encrypt A nonce kr a p = Inr e" and "get_active_key kr = Inr k" and "finds_key kr' k"
  shows "a \<noteq> a' \<and> decrypt A kr' a' e = Inl DecryptionFailedError"
proof -
  have n: "a \<noteq> a'"
  proof
    assume "a = a'"
    then have "context_aad c' = Inr a" using assms(3) by simp
    from context_aad_inject [OF assms(2) this assms(4,5)] assms(6) show False by simp
  qed
  then have "a' \<noteq> a \<and> finds_key kr' k" using assms(9) by simp
  from decrypt_wrong_context(1) [OF assms(1,7,8), THEN conjunct1, THEN mp, OF this] n
  show ?thesis by blast
qed

lemma example_encrypts: "\<exists>e. encrypt clear_aead (replicate 12 5) example_keyring a p = Inr e"
proof -
  have "get_active_key example_keyring = Inr example_key" "re_fullmatch KEY_ID_PATTERN (ek_key_id example_key) \<noteq> None"
    by code_simp+
  moreover have "seal clear_aead (ek_key example_key) (replicate 12 5) p a = Some (framed a @ p)"
    "16 \<le> length (framed a @ p)"
    by (simp_all add: clear_aead_def framed_def)
  ultimately show ?thesis unfolding encrypt_ok by (metis length_replicate)
qed

lemma fields_never_interchange_witness:
  "case (context_aad (ClauseBody (lit ''c'') (lit ''w'')), context_aad (ClauseBody (lit ''d'') (lit ''w''))) of
     (Inr a, Inr a') \<Rightarrow>
       (case encrypt clear_aead (replicate 12 5) example_keyring a [1] of
          Inr e \<Rightarrow> a \<noteq> a' \<and> decrypt clear_aead rotated_keyring a' e = Inl DecryptionFailedError
        | Inl x \<Rightarrow> False)
   | _ \<Rightarrow> False"
proof -
  let ?c = "ClauseBody (lit ''c'') (lit ''w'')" and ?c' = "ClauseBody (lit ''d'') (lit ''w'')"
  note k = example_active rotated_finds
  have "case (context_aad ?c, context_aad ?c') of (Inr a, Inr a') \<Rightarrow> True | _ \<Rightarrow> False"
    by code_simp
  then obtain a a' where r: "context_aad ?c = Inr a" "context_aad ?c' = Inr a'"
    by (auto split: sum.splits)
  obtain e where e: "encrypt clear_aead (replicate 12 5) example_keyring a [1] = Inr e"
    using example_encrypts by blast
  have "?c \<noteq> ?c'" by simp
  then show ?thesis
    using fields_never_interchange [OF clear_aead_laws(2) r(1,2) _ _ _ e k] r e by simp
qed

end
