(* ===== verification/Pipeline_Values.thy ===== *)
theory Pipeline_Values
  imports Analysis_Provider Py_Regex
begin

text \<open>
  The first part of \<^verbatim>\<open>src/backend/app/services/analysis_pipeline.py\<close>: normalisation of the
  facts, questions and suggestions of a result, the checks that they cite the evidence of the finding,
  and the payload stored for the customer.
\<close>

subsection \<open>Dates and amounts\<close>

definition date_gap :: "int \<Rightarrow> int \<Rightarrow> bool" where
  "date_gap unit_char c \<longleftrightarrow> c = 46 \<or> c = 45 \<or> c = 47 \<or> is_space c \<or> c = unit_char"

text \<open>The units are the characters for year (45380), month (50900) and day (51068).\<close>

definition DATE_RE :: rx where
  "DATE_RE = SeqL [Many is_space, Grp 1 (Times 4 is_decimal), Many (date_gap 45380),
     Grp 2 (Chars is_decimal 1 (Some 2)), Many (date_gap 50900), Grp 3 (Chars is_decimal 1 (Some 2)),
     Opt (Chr 51068), Many is_space, AtEnd]"

definition ISO_DATE_RE :: rx where
  "ISO_DATE_RE = SeqL [Times 4 is_decimal, Chr 45, Times 2 is_decimal, Chr 45, Times 2 is_decimal, AtEnd]"

text \<open>\<open>int(s)\<close> for a group of decimal digits, printed with at least \<open>w\<close> digits.\<close>

definition padded :: "nat \<Rightarrow> pystr option \<Rightarrow> pystr" where
  "padded w s =
     pad0 w (nat_digits (case s of None \<Rightarrow> 0 | Some t \<Rightarrow> (case int_of_digits 0 t of None \<Rightarrow> 0 | Some n \<Rightarrow> nat n)))"

definition days_in_month :: "int \<Rightarrow> int \<Rightarrow> int" where
  "days_in_month y m =
     (if m = 2 then (if y mod 4 = 0 \<and> (y mod 100 \<noteq> 0 \<or> y mod 400 = 0) then 29 else 28)
      else if m \<in> {4, 6, 9, 11} then 30 else 31)"

text \<open>\<open>datetime.strptime(raw, "%Y-%m-%d")\<close> returns, for a text of the form of \<open>ISO_DATE_RE\<close>.\<close>

definition strptime_ok :: "pystr \<Rightarrow> bool" where
  "strptime_ok raw =
     (case (int_of_digits 0 (take 4 raw), int_of_digits 0 (slice raw 5 7), int_of_digits 0 (slice raw 8 10)) of
        (Some y, Some m, Some d) \<Rightarrow> 1 \<le> y \<and> 1 \<le> m \<and> m \<le> 12 \<and> 1 \<le> d \<and> d \<le> days_in_month y m
      | _ \<Rightarrow> False)"

definition normalize_date_value :: "pystr \<Rightarrow> pystr" where
  "normalize_date_value v =
     (let raw = strip v
      in if raw = [] then []
         else
           (case re_match DATE_RE raw of
              Some m \<Rightarrow> padded 4 (group m 1) @ [45] @ padded 2 (group m 2) @ [45] @ padded 2 (group m 3)
            | None \<Rightarrow>
                if re_match ISO_DATE_RE raw \<noteq> None then (if strptime_ok raw then raw else []) else []))"

text \<open>
  \<open>^(\d{1,3}(?:,\d{3})+)(?:\<close>won\<open>)?$\<close> (won is 50896) on a text without trailing whitespace, and
  the commas removed from its group.
\<close>

definition comma_number :: "pystr \<Rightarrow> pystr option" where
  "comma_number source =
     (let body = (if endswith source [50896] then take (length source - 1) source else source)
      in case str_split body [44] of
           h # t # ts \<Rightarrow>
             if list_all is_decimal h \<and> h \<noteq> [] \<and> length h \<le> 3 \<and>
                list_all (\<lambda>p. length p = 3 \<and> list_all is_decimal p) (t # ts)
             then Some (concat (h # t # ts)) else None
         | _ \<Rightarrow> None)"

definition or_text :: "pystr \<Rightarrow> pystr \<Rightarrow> pystr" where
  "or_text a b = (if a \<noteq> [] then a else b)"

definition normalize_amount_value :: "pystr \<Rightarrow> pystr \<Rightarrow> pystr \<Rightarrow> pystr \<Rightarrow> pystr result" where
  "normalize_amount_value amount_value v normalized_value unit_text =
     (let source = replace (strip (or_text amount_value (or_text normalized_value v))) [32] []
      in if source = [] then Inr []
         else if contains source [37] then Inr []
         else
           (case comma_number source of
              Some n \<Rightarrow> Inr n
            | None \<Rightarrow>
                if endswith source [47564, 50896] then
                  (let number = take (length source - 2) source
                   in if isdigit number then bind (py_int (PStr number)) (\<lambda>n. Inr (str_int (n * 10000)))
                      else Inr [])
                else if endswith source [50896] \<and> isdigit (take (length source - 1) source) then
                  Inr (take (length source - 1) source)
                else if unit_text = lit ''KRW'' \<and> isdigit source then Inr source
                else if amount_value \<noteq> [] \<and> isdigit (strip amount_value) then Inr (strip amount_value)
                else if isdigit source then Inr source
                else Inr []))"

subsection \<open>Facts\<close>

definition get_text :: "pydict \<Rightarrow> string \<Rightarrow> pystr" where
  "get_text d k = get_str d k ''''"

text \<open>\<open>d.get(k, "") or default\<close>.\<close>

definition get_or :: "pydict \<Rightarrow> string \<Rightarrow> string \<Rightarrow> pyval" where
  "get_or d k dflt = or_value (get d k (PStr [])) (PStr (lit dflt))"

definition is_date_fact :: "pystr \<Rightarrow> bool" where
  "is_date_fact t \<longleftrightarrow>
     member t (map lit [''contract_start_date'', ''contract_end_date'', ''payment_date'', ''notice_deadline''])"

definition date_fields :: "pydict \<Rightarrow> pydict" where
  "date_fields f0 =
     (if is_date_fact (get_text f0 ''fact_type'') then
        (let d1 = normalize_date_value (get_text f0 ''date_value'');
             date_value = (if d1 = [] then normalize_date_value (get_text f0 ''normalized_value'') else d1)
         in if date_value = [] then f0
            else
              (let f1 = put (lit ''normalized_value'') (PStr date_value)
                          (put (lit ''date_value'') (PStr date_value) f0)
               in put (lit ''status'') (get_or f1 ''status'' ''verified'') f1))
      else f0)"

definition obligation_fields :: "pydict \<Rightarrow> pydict" where
  "obligation_fields f0 =
     (if get_text f0 ''fact_type'' = lit ''obligation'' \<and> strip (get_text f0 ''obligation_party'') = [] then
        put (lit ''status'') (PStr (lit ''ambiguous''))
          (put (lit ''obligation_party'') (PStr (lit ''unspecified'')) f0)
      else f0)"

definition normalize_fact_fields :: "pydict \<Rightarrow> pydict result" where
  "normalize_fact_fields f0 =
     (let f1 = date_fields f0
      in bind (normalize_amount_value (get_text f1 ''amount_value'') (get_text f1 ''value'')
                 (get_text f1 ''normalized_value'') (get_text f1 ''unit'')) (\<lambda>amount_value.
         Inr (obligation_fields
           (if amount_value = [] then f1
            else
              (let f2 = put (lit ''amount_value'') (PStr amount_value) f1
               in put (lit ''currency'') (get_or f2 ''currency'' ''KRW'') f2)))))"

definition text_entry :: "pydict \<Rightarrow> string \<Rightarrow> pystr \<times> pyval" where
  "text_entry d k = (lit k, PStr (get_text d k))"

definition normalized_fact :: "pydict \<Rightarrow> pydict" where
  "normalized_fact d =
     map (text_entry d)
       [''fact_id'', ''fact_type'', ''label'', ''value'', ''normalized_value'', ''unit'', ''date_value'',
        ''amount_value'', ''currency'', ''duration_value'', ''obligation_party'', ''status''] @
     [(lit ''evidence'', PList (case as_list (get0 d ''evidence'') of None \<Rightarrow> [] | Some xs \<Rightarrow> xs)),
      (lit ''confidence_score'',
         PFloat (case as_number (get0 d ''confidence_score'') of None \<Rightarrow> fzero | Some f \<Rightarrow> f))]"

definition normalize_fact_list :: "pyval list \<Rightarrow> pydict list result" where
  "normalize_fact_list values = map_result (\<lambda>d. normalize_fact_fields (normalized_fact d)) (dicts_of values)"

subsection \<open>References to evidence\<close>

definition extract_evidence_ids :: "pydict list \<Rightarrow> pystr list" where
  "extract_evidence_ids evidence = nonblank_strs (map (\<lambda>d. get0 d ''evidence_id'') evidence)"

fun ensure_reference_ids :: "string \<Rightarrow> pystr list \<Rightarrow> pydict list \<Rightarrow> unit result" where
  "ensure_reference_ids code evidence_ids [] = Inr ()"
| "ensure_reference_ids code evidence_ids (entry # entries) =
     bind (iter_values (or_value (get entry ''related_evidence_ids'' (PList [])) (PList []))) (\<lambda>ids.
     let related_ids = nonblank_strs ids;
         missing = filter (\<lambda>v. \<not> member v evidence_ids) related_ids
     in if related_ids = [] then
          Inl (ValueError (lit (code @ '': related_evidence_ids must be explicitly set.'')))
        else if missing \<noteq> [] then
          Inl (ValueError (lit (code @ '': evidence id not in finding evidence: '') @
                 str_join (lit '', '') missing @ lit ''.''))
        else ensure_reference_ids code evidence_ids entries)"

fun ensure_fact_evidence :: "pystr list \<Rightarrow> pydict list \<Rightarrow> unit result" where
  "ensure_fact_evidence evidence_ids [] = Inr ()"
| "ensure_fact_evidence evidence_ids (f0 # facts) =
     (case as_list (get0 f0 ''evidence'') of
        Some (r # refs) \<Rightarrow>
          let normalized_refs = nonblank_strs (map (\<lambda>d. get0 d ''evidence_id'') (dicts_of (r # refs)))
          in if normalized_refs = [] then
               Inl (ValueError (lit ''fact_evidence_missing: extracted fact evidence id is required.''))
             else if \<not> list_all (\<lambda>v. member v evidence_ids) normalized_refs then
               Inl (ValueError (lit ''fact_evidence_missing: extracted fact evidence id is invalid.''))
             else ensure_fact_evidence evidence_ids facts
      | _ \<Rightarrow> Inl (ValueError (lit ''fact_evidence_missing: extracted fact evidence is required.'')))"

text \<open>The ids an item of the result relates to: a value that is no list counts as none.\<close>

definition item_related_ids :: "pydict \<Rightarrow> pyval" where
  "item_related_ids d =
     strs (nonblank_strs (case as_list (get0 d ''related_evidence_ids'') of None \<Rightarrow> [] | Some xs \<Rightarrow> xs))"

definition normalized_question :: "pydict \<Rightarrow> pydict" where
  "normalized_question d =
     map (text_entry d) [''question_id'', ''question'', ''purpose''] @
     [(lit ''related_evidence_ids'', item_related_ids d),
      (lit ''priority'', PStr (get_str d ''priority'' ''normal'')), (lit ''id'', PStr (get_text d ''question_id''))]"

definition normalize_question_list :: "pyval list \<Rightarrow> pydict list \<Rightarrow> pydict list result" where
  "normalize_question_list values evidence =
     (let normalized = map normalized_question (dicts_of values)
      in bind (ensure_reference_ids ''question_evidence_missing'' (extract_evidence_ids evidence) normalized)
           (\<lambda>_. Inr normalized))"

definition normalized_suggestion :: "pydict \<Rightarrow> pydict" where
  "normalized_suggestion d =
     map (text_entry d) [''suggestion_id'', ''objective'', ''suggested_change'', ''fallback_option''] @
     [(lit ''related_evidence_ids'', item_related_ids d),
      (lit ''priority'', PStr (get_str d ''priority'' ''normal'')), (lit ''id'', PStr (get_text d ''suggestion_id''))]"

definition normalize_suggestion_list :: "pyval list \<Rightarrow> pydict list \<Rightarrow> pydict list result" where
  "normalize_suggestion_list values evidence =
     (let normalized = map normalized_suggestion (dicts_of values)
      in bind (ensure_reference_ids ''suggestion_evidence_missing'' (extract_evidence_ids evidence) normalized)
           (\<lambda>_. Inr normalized))"

subsection \<open>The payload\<close>

definition dict_list :: "pydict list \<Rightarrow> pyval" where
  "dict_list ds = PList (map PDict ds)"

definition to_customer_value_payload :: "analysis_result_data \<Rightarrow> pydict list \<Rightarrow> pydict result" where
  "to_customer_value_payload r evidence =
     bind (normalize_fact_list (rd_extracted_facts r)) (\<lambda>facts.
     bind (ensure_fact_evidence (extract_evidence_ids evidence) facts) (\<lambda>_.
     bind (normalize_question_list (rd_questions_to_ask r) evidence) (\<lambda>questions.
     bind (normalize_suggestion_list (rd_negotiation_suggestions r) evidence) (\<lambda>suggestions.
     Inr [(lit ''category'', PStr (rd_category r)), (lit ''risk_type'', PStr (rd_risk_type r)),
          (lit ''severity'', PStr (rd_severity r)), (lit ''title'', PStr (rd_title r)),
          (lit ''risk_reason'', PStr (rd_risk_reason r)), (lit ''practical_impact'', PStr (rd_practical_impact r)),
          (lit ''action_priority'', PStr (rd_action_priority r)), (lit ''questions_to_ask'', dict_list questions),
          (lit ''negotiation_suggestions'', dict_list suggestions),
          (lit ''recommendation'',
             PStr (if strip (rd_recommendation r) \<noteq> [] then rd_recommendation r else rd_summary r)),
          (lit ''confidence_score'', PFloat (rd_confidence_score r)), (lit ''evidence'', dict_list evidence),
          (lit ''extracted_facts'', dict_list facts), (lit ''validation_status'', PStr (rd_validation_status r)),
          (lit ''expert_review_reason_codes'', PList (rd_expert_review_reason_codes r)),
          (lit ''expert_review_summary'', PStr (rd_expert_review_summary r)),
          (lit ''is_stale'', PBool (rd_is_stale r))]))))"

definition ensure_derived_fields_have_evidence :: "analysis_result_data \<Rightarrow> pydict list \<Rightarrow> unit result" where
  "ensure_derived_fields_have_evidence r evidence =
     (if (rd_risk_reason r \<noteq> [] \<or> rd_practical_impact r \<noteq> [] \<or> rd_questions_to_ask r \<noteq> [] \<or>
          rd_negotiation_suggestions r \<noteq> [] \<or> rd_extracted_facts r \<noteq> []) \<and> evidence = [] then
        Inl (ValueError (lit ''analysis result requires evidence for customer value fields.''))
      else Inr ())"

subsection \<open>The texts a result shows\<close>

definition item_texts :: "string \<Rightarrow> string list \<Rightarrow> pyval list \<Rightarrow> (string \<times> pystr) list" where
  "item_texts prefix ks values =
     concat (map (\<lambda>d. map (\<lambda>k. (prefix @ ''.'' @ k, get_text d k)) ks) (dicts_of values))"

definition iter_output_text_fields :: "analysis_result_data \<Rightarrow> (string \<times> pystr) list" where
  "iter_output_text_fields r =
     [(''title'', rd_title r), (''summary'', rd_summary r), (''risk_reason'', rd_risk_reason r),
      (''practical_impact'', rd_practical_impact r), (''recommendation'', rd_recommendation r),
      (''expert_review_summary'', rd_expert_review_summary r)] @
     item_texts ''question'' [''question'', ''purpose''] (rd_questions_to_ask r) @
     item_texts ''suggestion'' [''objective'', ''suggested_change'', ''fallback_option'']
       (rd_negotiation_suggestions r) @
     item_texts ''fact'' [''label'', ''value'', ''normalized_value'', ''amount_value'', ''unit'',
       ''obligation_party'', ''status''] (rd_extracted_facts r)"

end
