(* ===== verification/Pipeline_Values_Correct.thy ===== *)
theory Pipeline_Values_Correct
  imports Pipeline_Values
begin

text \<open>What the stored payload says about its evidence.\<close>

definition cites :: "pystr list \<Rightarrow> pydict \<Rightarrow> bool" where
  "cites evidence_ids item \<longleftrightarrow>
     (\<exists>ids. get0 item ''related_evidence_ids'' = strs ids \<and> ids \<noteq> [] \<and> set ids \<subseteq> set evidence_ids)"

definition fact_cites :: "pystr list \<Rightarrow> pydict \<Rightarrow> bool" where
  "fact_cites evidence_ids f \<longleftrightarrow>
     (\<exists>refs. get0 f ''evidence'' = PList refs \<and> extract_evidence_ids (dicts_of refs) \<noteq> [] \<and>
        set (extract_evidence_ids (dicts_of refs)) \<subseteq> set evidence_ids)"

lemma nonblank_strs_of_strs: "nonblank_strs (map PStr ids) = filter (\<lambda>s. strip s \<noteq> []) ids"
  by (induction ids) (auto simp: nonblank_strs_def List.map_filter_simps)

lemma ensure_reference_ids_ok:
  assumes "ensure_reference_ids code ids entries = Inr ()"
    and "\<forall>e\<in>set entries. get0 e ''related_evidence_ids'' \<in> range item_related_ids"
  shows "\<forall>e\<in>set entries. cites ids e"
  using assms
proof (induction entries)
  case (Cons e es)
  from Cons.prems(2) obtain d where d: "get0 e ''related_evidence_ids'' = item_related_ids d" by auto
  obtain rs where rs: "item_related_ids d = strs rs" "\<forall>s\<in>set rs. strip s \<noteq> []"
    by (auto simp: item_related_ids_def nonblank_strs_def)
  have g: "get e ''related_evidence_ids'' v = strs rs" for v
    using d rs(1) by (auto simp: get0_def get_def strs_def split: option.splits)
  have n: "nonblank_strs (map PStr rs) = rs"
    using rs(2) by (simp add: nonblank_strs_of_strs)
  from Cons.prems(1) have "rs \<noteq> []" "set rs \<subseteq> set ids" "ensure_reference_ids code ids es = Inr ()"
    by (auto simp: g strs_def or_value_def n Let_def filter_empty_conv nonblank_strs_def [of "[]"] split: if_splits)
  with Cons.IH Cons.prems(2) d rs(1) show ?case by (auto simp: cites_def)
qed simp

lemma ensure_fact_evidence_ok:
  "ensure_fact_evidence ids facts = Inr () \<Longrightarrow> \<forall>f\<in>set facts. fact_cites ids f"
proof (induction facts)
  case (Cons f fs)
  then obtain r refs where r: "get0 f ''evidence'' = PList (r # refs)"
    by (cases "get0 f ''evidence''") (auto split: list.splits)
  with Cons show ?case
    by (auto simp: fact_cites_def extract_evidence_ids_def Let_def list_all_iff split: if_splits)
qed simp

lemma normalized_items_related:
  "get0 (normalized_question d) ''related_evidence_ids'' = item_related_ids d"
  "get0 (normalized_suggestion d) ''related_evidence_ids'' = item_related_ids d"
  by (simp_all add: normalized_question_def normalized_suggestion_def text_entry_def get0_def get_def)

text \<open>Every claim of the stored payload rests on evidence of the finding: each question, each suggestion
  and each extracted fact names at least one evidence id, and only ids of the evidence it is stored with.\<close>

theorem payload_cites_its_evidence:
  assumes "to_customer_value_payload r evidence = Inr v"
  shows "\<exists>facts questions suggestions.
    get0 v ''extracted_facts'' = dict_list facts \<and> get0 v ''questions_to_ask'' = dict_list questions \<and>
    get0 v ''negotiation_suggestions'' = dict_list suggestions \<and> get0 v ''evidence'' = dict_list evidence \<and>
    (\<forall>f\<in>set facts. fact_cites (extract_evidence_ids evidence) f) \<and>
    (\<forall>q\<in>set (questions @ suggestions). cites (extract_evidence_ids evidence) q)"
proof -
  from assms obtain facts questions suggestions where
    f: "ensure_fact_evidence (extract_evidence_ids evidence) facts = Inr ()" and
    q: "normalize_question_list (rd_questions_to_ask r) evidence = Inr questions" and
    s: "normalize_suggestion_list (rd_negotiation_suggestions r) evidence = Inr suggestions" and
    v: "get0 v ''extracted_facts'' = dict_list facts" "get0 v ''questions_to_ask'' = dict_list questions"
       "get0 v ''negotiation_suggestions'' = dict_list suggestions" "get0 v ''evidence'' = dict_list evidence"
    by (auto simp: to_customer_value_payload_def bind_Inr_iff get0_def get_def)
  from q have "\<forall>e\<in>set questions. cites (extract_evidence_ids evidence) e"
    by (intro ensure_reference_ids_ok [of "''question_evidence_missing''"])
       (auto simp: normalize_question_list_def Let_def bind_Inr_iff normalized_items_related)
  moreover from s have "\<forall>e\<in>set suggestions. cites (extract_evidence_ids evidence) e"
    by (intro ensure_reference_ids_ok [of "''suggestion_evidence_missing''"])
       (auto simp: normalize_suggestion_list_def Let_def bind_Inr_iff normalized_items_related)
  ultimately show ?thesis using v ensure_fact_evidence_ok [OF f]
    by (intro exI [of _ facts] exI [of _ questions] exI [of _ suggestions]) auto
qed

definition cited_result :: "pydict list" where
  "cited_result = [[(lit ''evidence_id'', PStr (lit ''e1''))]]"

definition asking_result :: analysis_result_data where
  "asking_result =
     \<lparr>rd_reference_id = [], rd_display_label = [], rd_summary = [], rd_expert_review_recommended = PBool False,
      rd_finding_id = [], rd_category = [], rd_risk_type = [], rd_severity = [], rd_title = [],
      rd_risk_reason = [], rd_practical_impact = [], rd_action_priority = [],
      rd_questions_to_ask = [PDict [(lit ''question'', PStr (lit ''why'')),
        (lit ''related_evidence_ids'', PList [PStr (lit ''e1'')])]],
      rd_negotiation_suggestions = [], rd_recommendation = [], rd_expert_review_reason_codes = [],
      rd_expert_review_summary = [], rd_confidence_score = fone, rd_evidence = [], rd_extracted_facts = [],
      rd_validation_status = [], rd_is_stale = False\<rparr>"

lemma asking_payload:
  "\<not> isl (to_customer_value_payload asking_result cited_result)"
  by code_simp

theorem payload_cites_its_evidence_witness:
  "\<exists>v questions. to_customer_value_payload asking_result cited_result = Inr v \<and>
     get0 v ''questions_to_ask'' = dict_list questions \<and> (\<forall>q\<in>set questions. cites [lit ''e1''] q)"
proof -
  have e: "extract_evidence_ids cited_result = [lit ''e1'']" by code_simp
  obtain v where v: "to_customer_value_payload asking_result cited_result = Inr v"
    using asking_payload by (cases "to_customer_value_payload asking_result cited_result") auto
  from payload_cites_its_evidence [OF v] v show ?thesis unfolding e by fastforce
qed

text \<open>Dates are reordered, not checked.\<close>

lemma impossible_date_accepted:
  "normalize_date_value (lit ''2024-13-45'') = lit ''2024-13-45''"
  by code_simp

end
