(* ===== verification/Database.thy ===== *)
theory Database
  imports Job_Queue Py_Values
begin

text \<open>
  The rows of \<^verbatim>\<open>src/backend/app/db/models.py\<close> the services read and write, and the session
  the code works in.  A session holds the committed tables and the tables as its own transaction sees
  them; \<open>commit\<close> publishes the latter after the unique constraint on result items, \<open>rollback\<close>
  forgets them.  Ids the database numbers itself are left out.
\<close>

subsection \<open>Rows\<close>

record document_row =
  doc_id :: pystr
  doc_filename_encrypted :: pystr
  doc_content_type :: "pystr option"
  doc_size_bytes :: int
  doc_character_count :: int
  doc_status :: pystr
  doc_unclassified_sections :: "pyval list"
  doc_document_warnings :: "pyval list"
  doc_owner_id :: pystr
  doc_created_at :: int

record clause_row =
  cl_id :: pystr
  cl_clause_id :: pystr
  cl_document_id :: pystr
  cl_reference_id :: pystr
  cl_source_hash :: pystr
  cl_ordinal :: int
  cl_marker :: pystr
  cl_clause_type :: pystr
  cl_title_encrypted :: "pystr option"
  cl_body_encrypted :: pystr
  cl_warnings :: "pyval list"

record result_item =
  ri_analysis_job_id :: pystr
  ri_clause_record_id :: pystr
  ri_reference_id :: pystr
  ri_display_label :: pystr
  ri_summary_encrypted :: pystr
  ri_expert_review_recommended :: pyval
  ri_extra_data :: pydict

record extraction_row =
  ex_id :: pystr
  ex_filename_display_encrypted :: pystr
  ex_source_type :: pystr
  ex_size_bytes :: int
  ex_page_count :: int
  ex_status :: pystr
  ex_method :: pystr
  ex_warnings :: "pyval list"
  ex_requires_user_review :: bool
  ex_extra_data :: pydict
  ex_owner_id :: pystr
  ex_created_at :: int

record extraction_page_row =
  xp_extraction_id :: pystr
  xp_page_number :: int
  xp_method :: pystr
  xp_text_encrypted :: pystr
  xp_warnings :: "pyval list"
  xp_requires_user_review :: bool
  xp_extra_data :: pydict

subsection \<open>Tables and sessions\<close>

record tables =
  t_documents :: "document_row list"
  t_clauses :: "clause_row list"
  t_jobs :: jobs
  t_results :: "result_item list"
  t_extractions :: "extraction_row list"
  t_pages :: "extraction_page_row list"

record session =
  committed :: tables
  current :: tables

definition open_session :: "tables \<Rightarrow> session" where
  "open_session t = \<lparr>committed = t, current = t\<rparr>"

definition rollback :: "session \<Rightarrow> session" where
  "rollback s = s\<lparr>current := committed s\<rparr>"

definition unique_results :: "result_item list \<Rightarrow> bool" where
  "unique_results rs \<longleftrightarrow> distinct (map (\<lambda>r. (ri_analysis_job_id r, ri_clause_record_id r)) rs)"

definition commit :: "session \<Rightarrow> session result" where
  "commit s =
     (if unique_results (t_results (current s)) then Inr (s\<lparr>committed := current s\<rparr>)
      else Inl (OtherError (lit ''IntegrityError'') (lit ''UNIQUE constraint failed'')))"

definition find_document :: "tables \<Rightarrow> pystr \<Rightarrow> document_row option" where
  "find_document t i = List.find (\<lambda>d. doc_id d = i) (t_documents t)"

definition find_extraction :: "tables \<Rightarrow> pystr \<Rightarrow> extraction_row option" where
  "find_extraction t i = List.find (\<lambda>x. ex_id x = i) (t_extractions t)"

text \<open>\<open>job.status = v\<close> on the loaded job with this id.\<close>

definition set_job_status :: "pystr \<Rightarrow> pystr \<Rightarrow> tables \<Rightarrow> tables" where
  "set_job_status i v t = t\<lparr>t_jobs := fst (update_where (\<lambda>j. aj_id j = i) (\<lambda>j. j\<lparr>aj_status := v\<rparr>) (t_jobs t))\<rparr>"

lemma rollback_simps [simp]:
  "committed (rollback s) = committed s" "current (rollback s) = committed s"
  by (simp_all add: rollback_def)

lemma open_session_simps [simp]:
  "committed (open_session t) = t" "current (open_session t) = t"
  by (simp_all add: open_session_def)

lemma set_job_status_tables [simp]:
  "t_documents (set_job_status i v t) = t_documents t" "t_clauses (set_job_status i v t) = t_clauses t"
  "t_results (set_job_status i v t) = t_results t" "t_extractions (set_job_status i v t) = t_extractions t"
  "t_pages (set_job_status i v t) = t_pages t"
  by (simp_all add: set_job_status_def)

end
