(* ===== verification/Pipeline_Request.thy ===== *)
theory Pipeline_Request
  imports Pipeline_Values Provider_Execution Pii_Masking Database
begin

text \<open>
  The part of \<^verbatim>\<open>src/backend/app/services/analysis_pipeline.py\<close> between a clause and the provider:
  the masked input, the request and the checks that no personal data is left in what is sent and in what
  comes back.  \<open>sha\<close> is the hexadecimal SHA-256 digest of a text.
\<close>

definition PII_RESIDUAL_REQUEST_ERROR :: pystr where
  "PII_RESIDUAL_REQUEST_ERROR = lit ''provider_residual_pii_detected''"

definition DATA_MINIMIZATION_ERROR :: pystr where
  "DATA_MINIMIZATION_ERROR = lit ''provider_data_minimization_failed''"

definition TOKEN_COLLISION_ERROR :: pystr where
  "TOKEN_COLLISION_ERROR = lit ''provider_redaction_token_collision''"

definition to_provider_document_id :: "(pystr \<Rightarrow> pystr) \<Rightarrow> pystr \<Rightarrow> pystr" where
  "to_provider_document_id sha document_id = lit ''doc-'' @ take 12 (sha document_id)"

subsection \<open>Paths\<close>

text \<open>
  The three path patterns as they are written: in a raw string \<open>\\\\\<close> is one literal backslash of the
  text, so the classes exclude the backslash and the letters n and s, and the dots stand for any
  character.  \<open>(?i)[a-z]\<close> also matches four letters outside ASCII, and the class without s excludes the
  long s.  A group that repeats is written once: a search finds the shorter match in the same text.
\<close>

definition ascii_letter_i :: "int \<Rightarrow> bool" where
  "ascii_letter_i c \<longleftrightarrow>
     65 \<le> c \<and> c \<le> 90 \<or> 97 \<le> c \<and> c \<le> 122 \<or> c = 304 \<or> c = 305 \<or> c = 383 \<or> c = 8490"

definition backslash :: int where "backslash = 92"

definition not_newline :: "int \<Rightarrow> bool" where "not_newline c \<longleftrightarrow> c \<noteq> 10"

definition path_char :: "int \<Rightarrow> bool" where
  "path_char c \<longleftrightarrow> c \<noteq> backslash \<and> c \<noteq> 115 \<and> c \<noteq> 83 \<and> c \<noteq> 383 \<and> c \<noteq> 47"

definition share_char :: "int \<Rightarrow> bool" where
  "share_char c \<longleftrightarrow> c \<noteq> backslash \<and> c \<noteq> 110 \<and> c \<noteq> 78 \<and> c \<noteq> 115 \<and> c \<noteq> 83 \<and> c \<noteq> 383"

definition DRIVE_PATH_RE :: rx where
  "DRIVE_PATH_RE =
     Alt (SeqL [Cls ascii_letter_i, Chr 58, Cls (\<lambda>c. c = backslash \<or> c = 47)])
         (SeqL [Chr backslash, Chr backslash, Many1 share_char])"

definition FILE_PATH_RE :: rx where
  "FILE_PATH_RE =
     SeqL [Chr 47, Many1 path_char, Chr 47, Many1 path_char, Chr backslash, Cls not_newline,
       Chars ascii_letter_i 2 (Some 5)]"

definition DOT_PATH_RE :: rx where
  "DOT_PATH_RE =
     SeqL [WordB, Chr backslash, Cls not_newline,
       Alt (SeqL [Chr backslash, Cls not_newline]) (Chr 47)]"

definition path_patterns :: "rx list" where
  "path_patterns = [DRIVE_PATH_RE, FILE_PATH_RE, DOT_PATH_RE]"

subsection \<open>Residual personal data\<close>

definition request_texts :: "analysis_provider_request \<Rightarrow> pystr list" where
  "request_texts request =
     concat (map (\<lambda>c. ci_text c # map ec_source_text (ci_evidence_candidates c)) (rq_clauses request))"

text \<open>Raises the given error when a detector finds something in the text.\<close>

definition assert_no_entities :: "(pystr \<Rightarrow> pystr) \<Rightarrow> exn \<Rightarrow> pystr \<Rightarrow> unit result" where
  "assert_no_entities sha e t =
     bind (detect_entities sha t True) (\<lambda>entities. if entities = [] then Inr () else Inl e)"

definition assert_no_provider_request_residual_pii ::
  "(pystr \<Rightarrow> pystr) \<Rightarrow> analysis_provider_request \<Rightarrow> unit result" where
  "assert_no_provider_request_residual_pii sha request =
     (let texts = request_texts request
      in bind (checks
           [(list_ex (\<lambda>p. list_ex (\<lambda>t. re_search p t \<noteq> None) texts) path_patterns,
               ValueError DATA_MINIMIZATION_ERROR)]) (\<lambda>_.
         bind (for_each (assert_no_entities sha (ValueError DATA_MINIMIZATION_ERROR)) texts) (\<lambda>_.
         assert_no_entities sha (ValueError PII_RESIDUAL_REQUEST_ERROR) (rq_document_id request))))"

definition assert_no_output_pii :: "(pystr \<Rightarrow> pystr) \<Rightarrow> analysis_result_data \<Rightarrow> unit result" where
  "assert_no_output_pii sha r =
     for_each (assert_no_entities sha
         (ValueError (lit ''provider_output_pii_detected: output includes personal data.'')))
       (map snd (iter_output_text_fields r))"

subsection \<open>References\<close>

definition validate_reference_id :: "pystr \<Rightarrow> clause_row \<Rightarrow> unit result" where
  "validate_reference_id document_id clause = checks
    [(cl_reference_id clause \<noteq> document_id @ lit '':clause:'' @ str_int (cl_ordinal clause),
        ValueError (lit ''Clause reference_id does not match its document and ordinal.''))]"

definition validate_result_reference_id :: "clause_row \<Rightarrow> pystr \<Rightarrow> unit result" where
  "validate_result_reference_id clause result_reference_id = checks
    [(result_reference_id \<noteq> cl_reference_id clause,
        ValueError (lit ''Provider result reference_id does not match the current clause.''))]"

subsection \<open>The provider input and the request\<close>

definition build_provider_input ::
  "(pystr \<Rightarrow> pystr) \<Rightarrow> clause_row \<Rightarrow> pystr \<Rightarrow> (analysis_provider_input \<times> masking_result) result" where
  "build_provider_input sha clause body =
     bind (detect_and_mask sha body True) (\<lambda>m.
     bind (checks
       [(\<not> token_collision_avoided m,
          ValueError (TOKEN_COLLISION_ERROR @ lit '': token collision detected in masking result.''))]) (\<lambda>_.
     bind (assert_no_entities sha
        (ValueError (DATA_MINIMIZATION_ERROR @ lit '': residual personal data remains after masking.''))
        (masked_text m)) (\<lambda>_.
     Inr (\<lparr>pi_reference_id = cl_reference_id clause, pi_masked_text = masked_text m\<rparr>, m))))"

text \<open>
  The request for one clause.  A clause row has no \<open>block_ids\<close>, \<open>page_start\<close>, \<open>page_end\<close>
  or \<open>clause_level\<close>, so \<open>getattr\<close> yields the defaults.
\<close>

definition clause_request ::
  "(pystr \<Rightarrow> pystr) \<Rightarrow> pystr \<Rightarrow> pystr \<Rightarrow> int \<Rightarrow> clause_row \<Rightarrow> pystr \<Rightarrow> pyval \<Rightarrow> analysis_provider_request" where
  "clause_request sha request_id document_id snapshot_version clause masked clause_title =
     \<lparr>rq_request_id = Some request_id, rq_document_id = to_provider_document_id sha document_id,
      rq_snapshot_version = PInt snapshot_version,
      rq_clauses =
       [\<lparr>ci_clause_id = cl_clause_id clause,
         ci_clause_label = (case as_str clause_title of
            None \<Rightarrow> cl_clause_id clause | Some t \<Rightarrow> if t = [] then cl_clause_id clause else t),
         ci_clause_level = lit ''normal'', ci_text = take 4000 masked, ci_page_start = None,
         ci_page_end = None,
         ci_evidence_candidates =
          [\<lparr>ec_candidate_id = cl_reference_id clause @ lit ''-e001'', ec_clause_id = cl_reference_id clause,
            ec_page_number = 1, ec_block_ids = [], ec_source_text = take 1800 masked,
            ec_start_offset = 0, ec_end_offset = 0, ec_confidence = fone\<rparr>]\<rparr>],
      rq_document_type = lit ''contract'', rq_language = lit ''ko'', rq_page_ranges = [],
      rq_limits = [(lit ''max_chars_per_request'', int (length masked))],
      rq_schema_version = Some ANALYSIS_PROVIDER_REQUEST_SCHEMA_VERSION,
      rq_safety_context = lit ''masked''\<rparr>"

definition build_provider_request ::
  "(pystr \<Rightarrow> pystr) \<Rightarrow> pystr \<Rightarrow> pystr \<Rightarrow> int \<Rightarrow> clause_row \<Rightarrow> pystr \<Rightarrow> pyval \<Rightarrow>
     analysis_provider_request result" where
  "build_provider_request sha request_id document_id snapshot_version clause masked clause_title =
     (let request = clause_request sha request_id document_id snapshot_version clause masked clause_title
      in bind (validate_request request) (\<lambda>_.
         bind (checks
           [(512 * 1024 < int (length (request_to_json_bytes request)),
               ValueError (lit ''provider_request_too_large''))]) (\<lambda>_.
         bind (assert_no_provider_request_residual_pii sha request) (\<lambda>_. Inr request))))"

end
