(* ===== verification/Analysis_Pipeline.thy ===== *)
theory Analysis_Pipeline
  imports Pipeline_Request Evidence_Linking Output_Safety Scalar_Encryption Nested_Encryption
    Result_Encryption Evidence_Encryption
begin

text \<open>
  The rest of \<^verbatim>\<open>src/backend/app/services/analysis_pipeline.py\<close>: the confirmed snapshot of a
  document and \<open>run_analysis_pipeline\<close>.  What lies outside the repository's Python code is one record:
  the hash, Unicode normalisation, the cipher with its random nonces, the iteration order of a set of field
  names, the provider with its policy, and whether the extraction table can be read.
\<close>

record environment =
  en_sha :: "pystr \<Rightarrow> pystr"
  en_nfc :: "pystr \<Rightarrow> pystr"
  en_aead :: aead
  en_nonce :: "nat \<Rightarrow> bytes"
  en_field_order :: "string list"
  en_provider :: provider
  en_policy :: provider_execution_policy
  en_extractions_readable :: bool

definition VALID_JOB_STATUSES :: "pystr list" where
  "VALID_JOB_STATUSES = map lit [''queued'', ''processing'', ''completed'', ''failed'']"

subsection \<open>The confirmed snapshot\<close>

type_synonym snapshot_info = "pyval list \<times> pystr option \<times> int option"

definition no_snapshot :: snapshot_info where
  "no_snapshot = ([], None, None)"

definition snapshot_of_row ::
  "environment \<Rightarrow> encryption_keyring \<Rightarrow> pystr \<Rightarrow> extraction_row \<Rightarrow> snapshot_info result" where
  "snapshot_of_row en kr owner_id x =
     (let extra = ex_extra_data x;
          stored = get0 extra ''confirmation_snapshot'';
          version = as_int (get0 extra ''snapshot_version'');
          checksum = get0 extra ''confirmation_checksum''
      in case as_list stored of
           None \<Rightarrow> Inr no_snapshot
         | Some _ \<Rightarrow>
             bind (decrypt_confirmation_snapshot (en_aead en) kr stored (PStr (ex_id x)) (PStr owner_id)
                     (opt_pyint version)) (\<lambda>pages.
             bind (if is_truthy checksum then Inr (py_str checksum)
                   else calculate_snapshot_hash (en_nfc en) (en_sha en) pages) (\<lambda>h.
             Inr (pages, Some h, version))))"

text \<open>An unreadable table rolls the session back and counts as no snapshot.\<close>

definition load_confirmation_snapshot ::
  "environment \<Rightarrow> encryption_keyring \<Rightarrow> pystr \<Rightarrow> pystr \<Rightarrow> session \<Rightarrow> session \<times> snapshot_info result" where
  "load_confirmation_snapshot en kr document_id owner_id s =
     (if \<not> en_extractions_readable en then (rollback s, Inr no_snapshot)
      else
        (s, case find_extraction (current s) document_id of
              None \<Rightarrow> Inr no_snapshot
            | Some x \<Rightarrow>
                if ex_owner_id x \<noteq> owner_id then Inr no_snapshot else snapshot_of_row en kr owner_id x))"

subsection \<open>One clause\<close>

definition clause_evidence_view :: "clause_row \<Rightarrow> evidence_clause" where
  "clause_evidence_view clause =
     \<lparr>evc_reference_id = cl_reference_id clause, evc_start_offset = None, evc_end_offset = None,
      evc_block_ids = None\<rparr>"

text \<open>The request for a clause with the provider input it belongs to.\<close>

definition prepare_clause ::
  "environment \<Rightarrow> encryption_keyring \<Rightarrow> analysis_job \<Rightarrow> pystr \<Rightarrow> int option \<Rightarrow> nat \<Rightarrow> clause_row \<Rightarrow>
     (pystr \<times> analysis_provider_input \<times> analysis_provider_request) result" where
  "prepare_clause en kr job owner_id version index clause =
     bind (validate_reference_id (aj_document_id job) clause) (\<lambda>_.
     bind (decrypt_clause_body (en_aead en) kr (PStr (cl_body_encrypted clause)) (PStr (cl_id clause))
             (PStr owner_id)) (\<lambda>body.
     bind (build_provider_input (en_sha en) clause body) (\<lambda>(provider_input, m).
     bind (decrypt_clause_title (en_aead en) kr (opt_pystr (cl_title_encrypted clause)) (PStr (cl_id clause))
             (PStr owner_id)) (\<lambda>title.
     bind (build_provider_request (en_sha en) (aj_id job @ [58] @ nat_digits index) (aj_document_id job)
             (case version of None \<Rightarrow> 1 | Some v \<Rightarrow> if v = 0 then 1 else v) clause
             (pi_masked_text provider_input) title) (\<lambda>request.
     Inr (body, provider_input, request))))))"

definition result_of_raw :: "analysis_provider_input \<Rightarrow> raw_result \<Rightarrow> analysis_result_data result" where
  "result_of_raw provider_input raw =
     (case raw of
        RawResult d \<Rightarrow> Inr d
      | RawResponse response \<Rightarrow> analysis_result_data_from_provider_response provider_input response
      | RawOther v \<Rightarrow> Inl (AttributeError (lit ''object has no attribute findings'')))"

text \<open>The answer of the provider with the checks it must pass.\<close>

definition obtain_result ::
  "environment \<Rightarrow> clause_row \<Rightarrow> analysis_provider_input \<Rightarrow> analysis_provider_request \<Rightarrow>
     analysis_result_data result" where
  "obtain_result en clause provider_input request =
     bind (snd (execute_provider (en_provider en) provider_input (Some request) (en_policy en))) (\<lambda>raw.
     bind (result_of_raw provider_input raw) (\<lambda>r.
     bind (validate_result r) (\<lambda>_.
     bind (validate_result_reference_id clause (rd_reference_id r)) (\<lambda>_.
     bind (assert_no_output_pii (en_sha en) r) (\<lambda>_.
     bind (check_summary_output (rd_summary r)) (\<lambda>safety.
     if classification safety \<noteq> ALLOW then
       Inl (ValueError (lit ''Provider result summary failed output safety validation.''))
     else Inr r))))))"

definition bind_evidence ::
  "environment \<Rightarrow> analysis_job \<Rightarrow> clause_row \<Rightarrow> pystr \<Rightarrow> snapshot_info \<Rightarrow> pydict list result" where
  "bind_evidence en job clause body info =
     (case info of (snapshot, h, version) \<Rightarrow>
        case bind_evidence_to_finding (en_nfc en) (aj_document_id job) (aj_document_id job)
               (clause_evidence_view clause) body snapshot h of
          Inl (EvidenceValidationError code detail) \<Rightarrow> Inl (ValueError (code @ lit '': '' @ detail))
        | r \<Rightarrow> r)"

text \<open>The stored row; the second component counts the nonces drawn.\<close>

definition store_result ::
  "environment \<Rightarrow> encryption_keyring \<Rightarrow> analysis_job \<Rightarrow> pystr \<Rightarrow> snapshot_info \<Rightarrow> clause_row \<Rightarrow>
     analysis_result_data \<Rightarrow> pydict list \<Rightarrow> nat \<Rightarrow> (result_item \<times> nat) result" where
  "store_result en kr job owner_id info clause r evidence n =
     (let A = en_aead en; jid = PStr (aj_id job); cid = PStr (cl_id clause); oid = PStr owner_id
      in bind (ensure_derived_fields_have_evidence r evidence) (\<lambda>_.
         bind (encrypt_analysis_evidence_list A (en_nonce en) kr (dict_list evidence) jid cid oid n)
           (\<lambda>(encrypted_evidence, n1).
         bind (to_customer_value_payload r evidence) (\<lambda>v.
         bind (encrypt_analysis_result_summary A (en_nonce en n1) kr (PStr (rd_summary r)) jid cid oid) (\<lambda>summary.
         bind (encrypt_analysis_value (en_field_order en) A (en_nonce en) kr
                 (PDict (put (lit ''evidence'') (PList encrypted_evidence) v)) jid cid oid (Suc n1))
           (\<lambda>(encrypted_value, n2).
         Inr (\<lparr>ri_analysis_job_id = aj_id job, ri_clause_record_id = cl_id clause,
                ri_reference_id = rd_reference_id r, ri_display_label = rd_display_label r,
                ri_summary_encrypted = summary,
                ri_expert_review_recommended = rd_expert_review_recommended r,
                ri_extra_data =
                 [(lit ''analysis_value'', encrypted_value),
                  (lit ''evidence_snapshot_hash'', opt_pystr (fst (snd info))),
                  (lit ''snapshot_version'', opt_pyint (snd (snd info)))]\<rparr>, n2)))))))"

definition analyze_clause ::
  "environment \<Rightarrow> encryption_keyring \<Rightarrow> analysis_job \<Rightarrow> pystr \<Rightarrow> snapshot_info \<Rightarrow> nat \<Rightarrow> nat \<Rightarrow> clause_row \<Rightarrow>
     (result_item \<times> nat) result" where
  "analyze_clause en kr job owner_id info index n clause =
     bind (prepare_clause en kr job owner_id (snd (snd info)) index clause) (\<lambda>(body, provider_input, request).
     bind (obtain_result en clause provider_input request) (\<lambda>r.
     bind (bind_evidence en job clause body info) (\<lambda>evidence.
     store_result en kr job owner_id info clause r evidence n)))"

fun analyze_clauses ::
  "environment \<Rightarrow> encryption_keyring \<Rightarrow> analysis_job \<Rightarrow> pystr \<Rightarrow> snapshot_info \<Rightarrow> nat \<Rightarrow> nat \<Rightarrow>
     clause_row list \<Rightarrow> result_item list result" where
  "analyze_clauses en kr job owner_id info index n [] = Inr []"
| "analyze_clauses en kr job owner_id info index n (c # cs) =
     bind (analyze_clause en kr job owner_id info index n c) (\<lambda>(item, n1).
     bind (analyze_clauses en kr job owner_id info (Suc index) n1 cs) (\<lambda>items. Inr (item # items)))"

subsection \<open>The pipeline\<close>

text \<open>\<open>db.scalar(select(Document.owner_id))\<close> with the test of the value.\<close>

definition document_owner :: "pystr \<Rightarrow> tables \<Rightarrow> pystr result" where
  "document_owner document_id t =
     (case find_document t document_id of
        Some d \<Rightarrow> if strip (doc_owner_id d) \<noteq> [] then Inr (doc_owner_id d)
                  else Inl (ValueError (lit ''analysis_pipeline_owner_context_missing: unable to resolve document owner.''))
      | None \<Rightarrow> Inl (ValueError (lit ''analysis_pipeline_owner_context_missing: unable to resolve document owner.'')))"

text \<open>The \<open>try\<close> block up to the end of the loop: new result items join the session's table.\<close>

definition pipeline_body ::
  "environment \<Rightarrow> encryption_keyring \<Rightarrow> analysis_job \<Rightarrow> clause_row list \<Rightarrow> session \<Rightarrow> session \<times> unit result" where
  "pipeline_body en kr job clauses s =
     (case document_owner (aj_document_id job) (current s) of
        Inl e \<Rightarrow> (s, Inl e)
      | Inr owner_id \<Rightarrow>
          (case load_confirmation_snapshot en kr (aj_document_id job) owner_id s of
             (s1, Inl e) \<Rightarrow> (s1, Inl e)
           | (s1, Inr info) \<Rightarrow>
               (case analyze_clauses en kr job owner_id info 0 0 clauses of
                  Inl e \<Rightarrow> (s1, Inl e)
                | Inr items \<Rightarrow>
                    (s1\<lparr>current := (current s1)\<lparr>t_results := t_results (current s1) @ items\<rparr>\<rparr>, Inr ()))))"

definition update_current :: "(tables \<Rightarrow> tables) \<Rightarrow> session \<Rightarrow> session" where
  "update_current f s = s\<lparr>current := f (current s)\<rparr>"

text \<open>The handler: roll back; an unmanaged job that still exists is marked as failed.\<close>

definition pipeline_failed :: "analysis_job \<Rightarrow> bool \<Rightarrow> exn \<Rightarrow> session \<Rightarrow> session \<times> unit result" where
  "pipeline_failed job worker_managed e s =
     (let s1 = rollback s
      in if worker_managed then (s1, Inl e)
         else
           (case get_job (t_jobs (current s1)) (aj_id job) of
              None \<Rightarrow> (s1, Inr ())
            | Some _ \<Rightarrow>
                (case commit (update_current (set_job_status (aj_id job) (lit ''failed'')) s1) of
                   Inl e2 \<Rightarrow> (s1, Inl e2)
                 | Inr s2 \<Rightarrow> (s2, Inl e))))"

definition run_analysis_pipeline ::
  "environment \<Rightarrow> encryption_keyring result \<Rightarrow> bool \<Rightarrow> analysis_job \<Rightarrow> clause_row list \<Rightarrow> session \<Rightarrow>
     session \<times> unit result" where
  "run_analysis_pipeline en keyring worker_managed job clauses s =
     (case keyring of
        Inl e \<Rightarrow> (s, Inl e)
      | Inr kr \<Rightarrow>
          (let s0 = (if worker_managed then s else update_current (set_job_status (aj_id job) (lit ''running'')) s)
           in case pipeline_body en kr job clauses s0 of
                (s1, Inl e) \<Rightarrow> pipeline_failed job worker_managed e s1
              | (s1, Inr _) \<Rightarrow>
                  if worker_managed then (s1, Inr ())
                  else
                    (let s2 = update_current (set_job_status (aj_id job) (lit ''completed'')) s1
                     in case commit s2 of
                          Inl e \<Rightarrow> pipeline_failed job worker_managed e s2
                        | Inr s3 \<Rightarrow> (s3, Inr ()))))"

end
