(* ===== verification/Pipeline_Example.thy ===== *)
theory Pipeline_Example
  imports Analysis_Pipeline Crypto_Correct
begin

text \<open>
  One small document, its job and a provider with short answers, on which the pipeline and the worker are
  evaluated in the witnesses of their theorems.
\<close>

definition terse_result :: "analysis_provider_input \<Rightarrow> analysis_result_data" where
  "terse_result provider_input =
     \<lparr>rd_reference_id = pi_reference_id provider_input, rd_display_label = [50504, 51204], rd_summary = lit ''ok'',
      rd_expert_review_recommended = PBool False, rd_finding_id = [], rd_category = [], rd_risk_type = [],
      rd_severity = [], rd_title = [], rd_risk_reason = [], rd_practical_impact = [], rd_action_priority = [],
      rd_questions_to_ask = [], rd_negotiation_suggestions = [], rd_recommendation = [],
      rd_expert_review_reason_codes = [], rd_expert_review_summary = [],
      rd_confidence_score = DEFAULT_CONFIDENCE_SCORE, rd_evidence = [], rd_extracted_facts = [],
      rd_validation_status = lit ''verified'', rd_is_stale = False\<rparr>"

definition terse_provider :: provider where
  "terse_provider =
     \<lparr>pv_analyze = None, pv_analyze_clause = Some (\<lambda>n inp. Inr (RawResult (terse_result inp)))\<rparr>"

definition example_environment :: environment where
  "example_environment =
     \<lparr>en_sha = (\<lambda>s. replicate 64 97), en_nfc = (\<lambda>s. s), en_aead = plain_aead,
      en_nonce = (\<lambda>n. replicate 12 0), en_field_order = value_text_fields, en_provider = terse_provider,
      en_policy = DEFAULT_PROVIDER_EXECUTION_POLICY, en_extractions_readable = True\<rparr>"

definition example_clause :: clause_row where
  "example_clause =
     \<lparr>cl_id = lit ''c'', cl_clause_id = lit ''k'', cl_document_id = lit ''d'',
      cl_reference_id = lit ''d:clause:1'', cl_source_hash = [], cl_ordinal = 1, cl_marker = [],
      cl_clause_type = [], cl_title_encrypted = None,
      cl_body_encrypted = lit ''{\"algorithm\":\"AES-256-GCM\",\"ciphertext\":\"AAAAAAAAAAAAAAAAAAAAAHBheQ==\",\"enc_version\":1,\"key_id\":\"k1\",\"nonce\":\"AAAAAAAAAAAAAAAA\"}'',
      cl_warnings = []\<rparr>"

definition example_document :: document_row where
  "example_document =
     \<lparr>doc_id = lit ''d'', doc_filename_encrypted = [], doc_content_type = None, doc_size_bytes = 3,
      doc_character_count = 3, doc_status = [], doc_unclassified_sections = [], doc_document_warnings = [],
      doc_owner_id = lit ''o'', doc_created_at = 0\<rparr>"

definition example_job :: analysis_job where
  "example_job =
     (new_job (lit ''j'') (lit ''d'') (lit ''key'') 0)
       \<lparr>aj_status := st_running, aj_worker_id := Some (lit ''w''), aj_attempt_count := 1\<rparr>"

definition example_tables :: tables where
  "example_tables =
     \<lparr>t_documents = [example_document], t_clauses = [example_clause], t_jobs = [example_job], t_results = [],
      t_extractions = [], t_pages = []\<rparr>"

text \<open>The steps of the analysis of the clause, each evaluated on its own.\<close>

definition example_input :: analysis_provider_input where
  "example_input = \<lparr>pi_reference_id = lit ''d:clause:1'', pi_masked_text = lit ''pay''\<rparr>"

definition example_request :: analysis_provider_request where
  "example_request =
     clause_request (en_sha example_environment) (lit ''j:0'') (lit ''d'') 1 example_clause (lit ''pay'') PNone"

definition example_evidence :: "pydict list" where
  "example_evidence = [unavailable_evidence (lit ''d'') (lit ''d'') (lit ''d:clause:1'') (lit ''pay'')]"

lemma example_decrypted:
  "decrypt_clause_body (en_aead example_environment) example_keyring (PStr (cl_body_encrypted example_clause))
     (PStr (cl_id example_clause)) (PStr (lit ''o'')) = Inr (lit ''pay'')"
  by code_simp

lemma example_masked:
  "map_sum id (\<lambda>m. (masked_text m, token_collision_avoided m))
     (detect_and_mask (en_sha example_environment) (lit ''pay'') True) = Inr (lit ''pay'', True)"
  by code_simp

lemma example_no_entities: "detect_entities (en_sha example_environment) (lit ''pay'') True = Inr []"
  by code_simp

lemma example_request_valid: "validate_request example_request = Inr ()"
  by code_simp

lemma example_request_small: "int (length (request_to_json_bytes example_request)) \<le> 512 * 1024"
  by code_simp

lemma example_request_clean:
  "assert_no_provider_request_residual_pii (en_sha example_environment) example_request = Inr ()"
  by code_simp

lemma example_untitled:
  "decrypt_clause_title (en_aead example_environment) example_keyring (opt_pystr (cl_title_encrypted example_clause))
     (PStr (cl_id example_clause)) (PStr (lit ''o'')) = Inr PNone"
  by code_simp

lemma example_reference: "validate_reference_id (lit ''d'') example_clause = Inr ()"
  "aj_id example_job @ [58] @ nat_digits 0 = lit ''j:0''" "aj_document_id example_job = lit ''d''"
  by code_simp+

lemma example_prepared:
  "prepare_clause example_environment example_keyring example_job (lit ''o'') None 0 example_clause =
     Inr (lit ''pay'', example_input, example_request)"
proof -
  from example_masked obtain m where m: "detect_and_mask (en_sha example_environment) (lit ''pay'') True = Inr m"
    "masked_text m = lit ''pay''" "token_collision_avoided m"
    by (cases "detect_and_mask (en_sha example_environment) (lit ''pay'') True") auto
  then have "build_provider_input (en_sha example_environment) example_clause (lit ''pay'') = Inr (example_input, m)"
    by (simp add: build_provider_input_def assert_no_entities_def example_no_entities checks.simps example_input_def
        example_clause_def)
  moreover have "pi_masked_text example_input = lit ''pay''" by (simp add: example_input_def)
  moreover have "build_provider_request (en_sha example_environment) (lit ''j:0'') (lit ''d'') 1 example_clause
      (lit ''pay'') PNone = Inr example_request"
    unfolding build_provider_request_def example_request_def [symmetric] Let_def
    using example_request_small
    by (simp add: example_request_valid example_request_clean checks.simps)
  ultimately show ?thesis
    unfolding prepare_clause_def example_decrypted example_untitled example_reference by simp
qed

lemma example_answered:
  "snd (execute_provider (en_provider example_environment) example_input (Some example_request)
     (en_policy example_environment)) = Inr (RawResult (terse_result example_input))"
  by code_simp

lemma example_valid: "validate_result (terse_result example_input) = Inr ()"
  by code_simp

lemma example_clean: "assert_no_output_pii (en_sha example_environment) (terse_result example_input) = Inr ()"
  by code_simp

lemma example_allowed: "map_sum id classification (check_summary_output (lit ''ok'')) = Inr ALLOW"
  by code_simp

lemma example_obtained:
  "obtain_result example_environment example_clause example_input example_request =
     Inr (terse_result example_input)"
proof -
  from example_allowed obtain safety where "check_summary_output (lit ''ok'') = Inr safety"
    "classification safety = ALLOW"
    by (cases "check_summary_output (lit ''ok'')") auto
  moreover have "rd_summary (terse_result example_input) = lit ''ok''"
    "rd_reference_id (terse_result example_input) = cl_reference_id example_clause"
    by (simp_all add: terse_result_def example_input_def example_clause_def)
  ultimately show ?thesis
    by (simp add: obtain_result_def example_answered result_of_raw_def example_valid example_clean
        validate_result_reference_id_def checks.simps)
qed

lemma example_bound:
  "bind_evidence example_environment example_job example_clause (lit ''pay'') no_snapshot = Inr example_evidence"
  by code_simp

text \<open>The sealed evidence is carried along and not looked at again.\<close>

lemma example_evidence_sealed:
  "map_sum id snd (encrypt_analysis_evidence_list plain_aead (en_nonce example_environment) example_keyring
     (dict_list example_evidence) (PStr (lit ''j'')) (PStr (lit ''c'')) (PStr (lit ''o'')) 0) = Inr 1"
  by code_simp

lemma example_summary_sealed:
  "\<not> isl (encrypt_analysis_result_summary plain_aead (en_nonce example_environment 1) example_keyring
     (PStr (lit ''ok'')) (PStr (lit ''j'')) (PStr (lit ''c'')) (PStr (lit ''o'')))"
  by code_simp

definition example_payload :: pydict where
  "example_payload =
     (case to_customer_value_payload (terse_result example_input) example_evidence of Inl e \<Rightarrow> [] | Inr v \<Rightarrow> v)"

lemma example_payload_ok:
  "to_customer_value_payload (terse_result example_input) example_evidence = Inr example_payload"
  by code_simp

lemma example_value_sealed:
  "\<not> isl (encrypt_analysis_value value_text_fields plain_aead (en_nonce example_environment) example_keyring
     (PDict (put (lit ''evidence'') (PList X) example_payload)) (PStr (lit ''j'')) (PStr (lit ''c''))
     (PStr (lit ''o'')) 2)"
  by code_simp

lemma not_isl: "\<not> isl x \<Longrightarrow> \<exists>v. x = Inr v"
  by (cases x) auto

lemma example_stored:
  "\<exists>item n. store_result example_environment example_keyring example_job (lit ''o'') no_snapshot example_clause
     (terse_result example_input) example_evidence 0 = Inr (item, n)"
proof -
  from example_evidence_sealed obtain X where x: "encrypt_analysis_evidence_list plain_aead
      (en_nonce example_environment) example_keyring (dict_list example_evidence) (PStr (lit ''j''))
      (PStr (lit ''c'')) (PStr (lit ''o'')) 0 = Inr (X, 1)"
    by (cases "encrypt_analysis_evidence_list plain_aead (en_nonce example_environment) example_keyring
      (dict_list example_evidence) (PStr (lit ''j'')) (PStr (lit ''c'')) (PStr (lit ''o'')) 0") auto
  obtain sealed where y: "encrypt_analysis_result_summary plain_aead (en_nonce example_environment 1)
      example_keyring (PStr (lit ''ok'')) (PStr (lit ''j'')) (PStr (lit ''c'')) (PStr (lit ''o'')) = Inr sealed"
    using not_isl [OF example_summary_sealed] by blast
  obtain v where z: "encrypt_analysis_value value_text_fields plain_aead (en_nonce example_environment)
      example_keyring (PDict (put (lit ''evidence'') (PList X) example_payload)) (PStr (lit ''j''))
      (PStr (lit ''c'')) (PStr (lit ''o'')) 2 = Inr v"
    using not_isl [OF example_value_sealed] by blast
  have e: "en_aead example_environment = plain_aead" "en_field_order example_environment = value_text_fields"
    "aj_id example_job = lit ''j''" "cl_id example_clause = lit ''c''"
    "rd_summary (terse_result example_input) = lit ''ok''"
    "ensure_derived_fields_have_evidence (terse_result example_input) example_evidence = Inr ()"
    by (simp_all add: example_environment_def example_job_def new_job_def example_clause_def terse_result_def
        ensure_derived_fields_have_evidence_def)
  have two: "Suc 1 = (2 :: nat)" by simp
  show ?thesis
    unfolding store_result_def Let_def e bind_simps x prod.case example_payload_ok y two z
    by (cases v) simp
qed

lemma example_analyzed:
  "\<exists>item. analyze_clauses example_environment example_keyring example_job (lit ''o'') no_snapshot 0 0
     [example_clause] = Inr [item]"
proof -
  obtain item n where "store_result example_environment example_keyring example_job (lit ''o'') no_snapshot
      example_clause (terse_result example_input) example_evidence 0 = Inr (item, n)"
    using example_stored by blast
  moreover have "snd (snd no_snapshot) = None" by (simp add: no_snapshot_def)
  ultimately show ?thesis
    by (simp add: analyze_clause_def example_prepared example_obtained example_bound)
qed

lemma example_run:
  "\<exists>item s. run_analysis_pipeline example_environment (Inr example_keyring) True example_job [example_clause]
     (open_session example_tables) = (s, Inr ()) \<and> t_results (current s) = [item]"
proof -
  obtain item where i: "analyze_clauses example_environment example_keyring example_job (lit ''o'') no_snapshot 0 0
     [example_clause] = Inr [item]"
    using example_analyzed by blast
  have o: "document_owner (aj_document_id example_job) example_tables = Inr (lit ''o'')"
    "find_extraction example_tables (aj_document_id example_job) = None"
    "en_extractions_readable example_environment" "t_results example_tables = []"
    by code_simp+
  show ?thesis
    by (simp add: run_analysis_pipeline_def pipeline_body_def load_confirmation_snapshot_def Let_def o i
        del: analyze_clauses.simps)
qed

end
