(* ===== verification/Analysis_Pipeline_Correct.thy ===== *)
theory Analysis_Pipeline_Correct
  imports Pipeline_Example Encryption_Correct Sealed_Lists Evidence_Linking_Correct
    Provider_Execution_Correct
begin

text \<open>
  Theorems about the analysis pipeline: what reaches the provider, what a run leaves in the database,
  and what becomes of a document with a confirmed snapshot.
\<close>

subsection \<open>What is sent\<close>

text \<open>A request the pipeline may send: valid, of bounded size, and without a finding of the PII detector.\<close>

definition screened :: "(pystr \<Rightarrow> pystr) \<Rightarrow> analysis_provider_request \<Rightarrow> bool" where
  "screened sha rq \<longleftrightarrow>
     validate_request rq = Inr () \<and> int (length (request_to_json_bytes rq)) \<le> 512 * 1024 \<and>
     (\<forall>t\<in>insert (rq_document_id rq) (set (request_texts rq)). detect_entities sha t True = Inr []) \<and>
     (\<forall>t\<in>set (request_texts rq). \<forall>p\<in>set path_patterns. re_search p t = None)"

lemma assert_no_entities_ok [simp]:
  "assert_no_entities sha e t = Inr () \<longleftrightarrow> detect_entities sha t True = Inr []"
  by (auto simp: assert_no_entities_def bind_Inr_iff)

lemma residual_ok:
  "assert_no_provider_request_residual_pii sha rq = Inr () \<longleftrightarrow>
     (\<forall>t\<in>insert (rq_document_id rq) (set (request_texts rq)). detect_entities sha t True = Inr []) \<and>
     (\<forall>t\<in>set (request_texts rq). \<forall>p\<in>set path_patterns. re_search p t = None)"
  by (auto simp: assert_no_provider_request_residual_pii_def Let_def bind_Inr_iff for_each_ok_iff
      list_ex_iff simp del: not_None_eq)

lemma build_provider_request_ok:
  "build_provider_request sha rid did sv c t ti = Inr rq \<longleftrightarrow>
     rq = clause_request sha rid did sv c t ti \<and> screened sha rq"
proof -
  let ?rq = "clause_request sha rid did sv c t ti"
  have "build_provider_request sha rid did sv c t ti = Inr rq \<longleftrightarrow>
      validate_request ?rq = Inr () \<and> int (length (request_to_json_bytes ?rq)) \<le> 512 * 1024 \<and>
      assert_no_provider_request_residual_pii sha ?rq = Inr () \<and> ?rq = rq"
    unfolding build_provider_request_def Let_def by (auto simp: bind_Inr_iff)
  then show ?thesis unfolding screened_def residual_ok by blast
qed

lemma prepare_clause_ok:
  assumes "prepare_clause en kr job owner v i c = Inr (body, inp, rq)"
  shows "screened (en_sha en) rq"
    and "cl_reference_id c = aj_document_id job @ lit '':clause:'' @ str_int (cl_ordinal c)"
    and "decrypt_clause_body (en_aead en) kr (PStr (cl_body_encrypted c)) (PStr (cl_id c)) (PStr owner) = Inr body"
    and "\<exists>m. detect_and_mask (en_sha en) body True = Inr m \<and> pi_masked_text inp = masked_text m \<and>
           pi_reference_id inp = cl_reference_id c \<and>
           request_texts rq = [take 4000 (masked_text m), take 1800 (masked_text m)] \<and>
           detect_entities (en_sha en) (masked_text m) True = Inr []"
    and "rq_document_id rq = lit ''doc-'' @ take 12 (en_sha en (aj_document_id job))"
proof -
  from assms obtain m ti where p:
    "validate_reference_id (aj_document_id job) c = Inr ()"
    "decrypt_clause_body (en_aead en) kr (PStr (cl_body_encrypted c)) (PStr (cl_id c)) (PStr owner) = Inr body"
    "build_provider_input (en_sha en) c body = Inr (inp, m)"
    "build_provider_request (en_sha en) (aj_id job @ [58] @ nat_digits i) (aj_document_id job)
      (case v of None \<Rightarrow> 1 | Some v \<Rightarrow> if v = 0 then 1 else v) c (pi_masked_text inp) ti = Inr rq"
    unfolding prepare_clause_def by (auto simp: bind_Inr_iff)
  from p(3) have m: "detect_and_mask (en_sha en) body True = Inr m"
    "inp = \<lparr>pi_reference_id = cl_reference_id c, pi_masked_text = masked_text m\<rparr>"
    "detect_entities (en_sha en) (masked_text m) True = Inr []"
    by (auto simp: build_provider_input_def bind_Inr_iff)
  from p(4) show "screened (en_sha en) rq"
    unfolding build_provider_request_ok by (rule conjunct2)
  from p(4) m show "\<exists>m. detect_and_mask (en_sha en) body True = Inr m \<and> pi_masked_text inp = masked_text m \<and>
      pi_reference_id inp = cl_reference_id c \<and>
      request_texts rq = [take 4000 (masked_text m), take 1800 (masked_text m)] \<and>
      detect_entities (en_sha en) (masked_text m) True = Inr []"
    by (intro exI [of _ m]) (auto simp: build_provider_request_ok clause_request_def request_texts_def)
  from p(4) show "rq_document_id rq = lit ''doc-'' @ take 12 (en_sha en (aj_document_id job))"
    by (auto simp: build_provider_request_ok clause_request_def to_provider_document_id_def)
  from p(1) show "cl_reference_id c = aj_document_id job @ lit '':clause:'' @ str_int (cl_ordinal c)"
    by (simp add: validate_reference_id_def)
  from p(2) show "decrypt_clause_body (en_aead en) kr (PStr (cl_body_encrypted c)) (PStr (cl_id c)) (PStr owner) = Inr body" .
qed

lemma attempts_loop_cong:
  assumes "\<And>n. attempt pr inp rq n = attempt pr' inp rq n"
  shows "attempts_loop pr inp rq po ns = attempts_loop pr' inp rq po ns"
proof (induction ns)
  case (Cons n ns)
  show ?case by (simp only: attempts_loop.simps assms Cons)
qed (simp only: attempts_loop.simps)

lemma obtain_result_cong:
  assumes "\<And>n. analyze n rq = analyze' n rq"
    and "en_provider en = \<lparr>pv_analyze = Some analyze, pv_analyze_clause = f\<rparr>"
  shows "obtain_result en c inp rq =
    obtain_result (en\<lparr>en_provider := \<lparr>pv_analyze = Some analyze', pv_analyze_clause = g\<rparr>\<rparr>) c inp rq"
proof -
  have "attempt (en_provider en) inp (Some rq) n =
      attempt \<lparr>pv_analyze = Some analyze', pv_analyze_clause = g\<rparr> inp (Some rq) n" for n
    by (simp add: assms attempt_def attempt_analyze_def)
  from attempts_loop_cong [OF this] have "execute_provider (en_provider en) inp (Some rq) po =
      execute_provider \<lparr>pv_analyze = Some analyze', pv_analyze_clause = g\<rparr> inp (Some rq) po" for po
    unfolding execute_provider_def by (simp only:)
  then show ?thesis by (simp add: obtain_result_def)
qed

lemma analyze_clause_cong:
  assumes "\<And>n rq. screened (en_sha en) rq \<Longrightarrow> analyze n rq = analyze' n rq"
    and "en_provider en = \<lparr>pv_analyze = Some analyze, pv_analyze_clause = f\<rparr>"
  shows "analyze_clause en kr job owner info i n c =
    analyze_clause (en\<lparr>en_provider := \<lparr>pv_analyze = Some analyze', pv_analyze_clause = g\<rparr>\<rparr>) kr job owner info i n c"
proof -
  let ?en = "en\<lparr>en_provider := \<lparr>pv_analyze = Some analyze', pv_analyze_clause = g\<rparr>\<rparr>"
  have p: "prepare_clause ?en kr job owner v i c = prepare_clause en kr job owner v i c" for v
    by (simp add: prepare_clause_def)
  have s: "bind_evidence ?en job c body info = bind_evidence en job c body info"
    "store_result ?en kr job owner info c r ev n = store_result en kr job owner info c r ev n" for body r ev n
    by (simp_all add: bind_evidence_def store_result_def)
  show ?thesis
  proof (cases "prepare_clause en kr job owner (snd (snd info)) i c")
    case (Inr t)
    obtain body inp rq where t: "t = (body, inp, rq)" by (cases t)
    have "obtain_result en c inp rq = obtain_result ?en c inp rq"
      using obtain_result_cong [OF _ assms(2)] assms(1) prepare_clause_ok(1) [OF Inr [unfolded t]] by blast
    with Inr t p s show ?thesis by (simp add: analyze_clause_def)
  qed (simp add: analyze_clause_def p)
qed

lemma analyze_clauses_cong:
  assumes "\<And>n rq. screened (en_sha en) rq \<Longrightarrow> analyze n rq = analyze' n rq"
    and "en_provider en = \<lparr>pv_analyze = Some analyze, pv_analyze_clause = f\<rparr>"
  shows "analyze_clauses en kr job owner info i n cs =
    analyze_clauses (en\<lparr>en_provider := \<lparr>pv_analyze = Some analyze', pv_analyze_clause = g\<rparr>\<rparr>) kr job owner info i n cs"
proof (induction cs arbitrary: i n)
  case (Cons c cs)
  have "analyze_clause en kr job owner info i n c =
    analyze_clause (en\<lparr>en_provider := \<lparr>pv_analyze = Some analyze', pv_analyze_clause = g\<rparr>\<rparr>) kr job owner info i n c"
    by (rule analyze_clause_cong) (use assms in auto)
  with Cons.IH show ?case by simp
qed simp

text \<open>C5: Only screened requests reach the provider: two providers that answer alike on every request that
  is valid, at most 512 KiB and free of personal data and path-like text as far as the detectors see it lead
  to the same session and the same outcome, whatever they would do with any other request.\<close>

theorem provider_sees_screened_requests_only:
  assumes "\<And>n rq. screened (en_sha en) rq \<Longrightarrow> analyze n rq = analyze' n rq"
    and "en_provider en = \<lparr>pv_analyze = Some analyze, pv_analyze_clause = f\<rparr>"
  shows "run_analysis_pipeline en keyring managed job clauses s =
    run_analysis_pipeline (en\<lparr>en_provider := \<lparr>pv_analyze = Some analyze', pv_analyze_clause = g\<rparr>\<rparr>)
      keyring managed job clauses s"
proof -
  let ?en = "en\<lparr>en_provider := \<lparr>pv_analyze = Some analyze', pv_analyze_clause = g\<rparr>\<rparr>"
  have same: "en_aead ?en = en_aead en" "en_nfc ?en = en_nfc en" "en_sha ?en = en_sha en" by simp_all
  have "snapshot_of_row ?en = snapshot_of_row en"
    unfolding snapshot_of_row_def same ..
  then have load: "load_confirmation_snapshot ?en kr d ow s = load_confirmation_snapshot en kr d ow s" for kr d ow s
    by (simp add: load_confirmation_snapshot_def split: option.splits)
  have loop: "analyze_clauses en kr job ow info 0 0 clauses = analyze_clauses ?en kr job ow info 0 0 clauses"
    for kr ow info
    by (rule analyze_clauses_cong) (use assms in auto)
  have body: "pipeline_body ?en kr job clauses s = pipeline_body en kr job clauses s" for kr s
    unfolding pipeline_body_def load loop ..
  show ?thesis unfolding run_analysis_pipeline_def body ..
qed

definition picky_analyze :: "(pystr \<Rightarrow> pystr) \<Rightarrow> nat \<Rightarrow> analysis_provider_request \<Rightarrow> raw_result result" where
  "picky_analyze sha n rq =
     (if screened sha rq then map_sum id RawResponse (synthetic_analyze rq)
      else Inl (RuntimeError (lit ''unscreened request'')))"

theorem provider_sees_screened_requests_only_witness:
  "run_analysis_pipeline (example_environment\<lparr>en_provider := synthetic_provider\<rparr>) (Inr example_keyring) True
     example_job [example_clause] (open_session example_tables) =
   run_analysis_pipeline
     (example_environment\<lparr>en_provider :=
        \<lparr>pv_analyze = Some (picky_analyze (en_sha example_environment)), pv_analyze_clause = None\<rparr>\<rparr>)
     (Inr example_keyring) True example_job [example_clause] (open_session example_tables)"
proof -
  let ?en = "example_environment\<lparr>en_provider := synthetic_provider\<rparr>"
  have "map_sum id RawResponse (synthetic_analyze rq) = picky_analyze (en_sha example_environment) n rq"
    if "screened (en_sha ?en) rq" for n rq
    using that by (simp add: picky_analyze_def)
  moreover have "en_provider ?en =
      \<lparr>pv_analyze = Some (\<lambda>n rq. map_sum id RawResponse (synthetic_analyze rq)),
       pv_analyze_clause = Some (\<lambda>n inp. map_sum id RawResult (synthetic_analyze_clause inp))\<rparr>"
    by (simp add: synthetic_provider_def)
  ultimately have "run_analysis_pipeline ?en (Inr example_keyring) True example_job [example_clause]
      (open_session example_tables) =
    run_analysis_pipeline (?en\<lparr>en_provider :=
        \<lparr>pv_analyze = Some (picky_analyze (en_sha example_environment)), pv_analyze_clause = None\<rparr>\<rparr>)
      (Inr example_keyring) True example_job [example_clause] (open_session example_tables)"
    by (rule provider_sees_screened_requests_only)
  then show ?thesis by simp
qed

subsection \<open>What a run leaves behind\<close>

lemma analyze_clause_item:
  assumes "analyze_clause en kr job owner info i n c = Inr (item, n1)"
  shows "ri_analysis_job_id item = aj_id job" "ri_clause_record_id item = cl_id c"
    "ri_reference_id item = cl_reference_id c"
proof -
  from assms obtain body inp rq r ev where p:
    "obtain_result en c inp rq = Inr r" "store_result en kr job owner info c r ev n = Inr (item, n1)"
    by (auto simp: analyze_clause_def bind_Inr_iff)
  from p(1) have "rd_reference_id r = cl_reference_id c"
    by (auto simp: obtain_result_def validate_result_reference_id_def bind_Inr_iff split: if_splits)
  with p(2) show "ri_analysis_job_id item = aj_id job" "ri_clause_record_id item = cl_id c"
    "ri_reference_id item = cl_reference_id c"
    by (auto simp: store_result_def Let_def bind_Inr_iff)
qed

text \<open>The items a run adds: one for each clause, in order.\<close>

definition items_for :: "analysis_job \<Rightarrow> clause_row list \<Rightarrow> result_item list \<Rightarrow> bool" where
  "items_for job clauses items \<longleftrightarrow>
     list_all2 (\<lambda>c item. ri_analysis_job_id item = aj_id job \<and> ri_clause_record_id item = cl_id c \<and>
       ri_reference_id item = cl_reference_id c) clauses items"

lemma analyze_clauses_items:
  "analyze_clauses en kr job owner info i n cs = Inr items \<Longrightarrow> items_for job cs items"
  by (induction cs arbitrary: i n items)
    (auto simp: items_for_def bind_Inr_iff dest: analyze_clause_item)

definition add_results :: "result_item list \<Rightarrow> tables \<Rightarrow> tables" where
  "add_results items t = t\<lparr>t_results := t_results t @ items\<rparr>"

lemma load_confirmation_session:
  "fst (load_confirmation_snapshot en kr d ow s) = s \<or> fst (load_confirmation_snapshot en kr d ow s) = rollback s"
  by (simp add: load_confirmation_snapshot_def)

lemma pipeline_body_session:
  assumes "pipeline_body en kr job clauses s = (s1, r)"
  shows "committed s1 = committed s"
    and "r = Inr () \<Longrightarrow> \<exists>items t. (t = current s \<or> t = committed s) \<and> items_for job clauses items \<and>
           current s1 = add_results items t"
proof -
  obtain ow where ow: "document_owner (aj_document_id job) (current s) = Inr ow \<or>
      (\<exists>e. document_owner (aj_document_id job) (current s) = Inl e)"
    by (cases "document_owner (aj_document_id job) (current s)") auto
  obtain s0 info where l: "load_confirmation_snapshot en kr (aj_document_id job) ow s = (s0, info)" by fastforce
  with load_confirmation_session [of en kr "aj_document_id job" ow s] have s0: "s0 = s \<or> s0 = rollback s" by simp
  from assms ow l s0 show "committed s1 = committed s"
    by (auto simp: pipeline_body_def split: sum.splits)
  assume r: "r = Inr ()"
  with assms ow l obtain i items where i: "info = Inr i" "analyze_clauses en kr job ow i 0 0 clauses = Inr items"
    "s1 = s0\<lparr>current := (current s0)\<lparr>t_results := t_results (current s0) @ items\<rparr>\<rparr>"
    by (auto simp: pipeline_body_def split: sum.splits)
  have "current s0 = current s \<or> current s0 = committed s" using s0 by auto
  with analyze_clauses_items [OF i(2)] i(3)
  show "\<exists>items t. (t = current s \<or> t = committed s) \<and> items_for job clauses items \<and>
           current s1 = add_results items t" by (auto simp: add_results_def)
qed

text \<open>C6: A run inside a worker changes nothing that is committed.  When it succeeds, the session holds
  what it held before (or what was committed, when the extraction table could not be read) and one result
  item for each clause, in the order of the clauses, with the clause's reference; when it raises, the session
  is back at the committed tables.\<close>

theorem managed_run_is_atomic:
  assumes "run_analysis_pipeline en (Inr kr) True job clauses s = (s1, r)"
  shows "committed s1 = committed s \<and>
    (case r of
       Inl e \<Rightarrow> current s1 = committed s
     | Inr _ \<Rightarrow> \<exists>items t. (t = current s \<or> t = committed s) \<and> items_for job clauses items \<and>
         current s1 = add_results items t)"
proof -
  obtain s2 q where b: "pipeline_body en kr job clauses s = (s2, q)" by fastforce
  note c = pipeline_body_session [OF b]
  show ?thesis
  proof (cases q)
    case (Inl e)
    with assms b c(1) show ?thesis by (auto simp: run_analysis_pipeline_def pipeline_failed_def Let_def)
  next
    case (Inr u)
    with assms b have "s1 = s2" "r = Inr ()" by (auto simp: run_analysis_pipeline_def)
    with c Inr show ?thesis by simp
  qed
qed

theorem managed_run_is_atomic_witness:
  "\<exists>s1 items. run_analysis_pipeline example_environment (Inr example_keyring) True example_job [example_clause]
      (open_session example_tables) = (s1, Inr ()) \<and> committed s1 = example_tables \<and>
     items_for example_job [example_clause] items \<and> current s1 = add_results items example_tables"
proof -
  obtain s1 where r: "run_analysis_pipeline example_environment (Inr example_keyring) True example_job
      [example_clause] (open_session example_tables) = (s1, Inr ())"
    using example_run by blast
  from managed_run_is_atomic [OF r] r show ?thesis by auto
qed

lemma pipeline_failed_unmanaged:
  assumes "unique_results (t_results (committed s))" and "pipeline_failed job False e s = (s1, r)"
  shows "current s1 = committed s1 \<and>
    ((get_job (t_jobs (committed s)) (aj_id job) \<noteq> None \<and> r = Inl e \<and>
       committed s1 = set_job_status (aj_id job) (lit ''failed'') (committed s)) \<or>
     (get_job (t_jobs (committed s)) (aj_id job) = None \<and> r = Inr () \<and> committed s1 = committed s))"
proof (cases "get_job (t_jobs (committed s)) (aj_id job)")
  case None
  with assms(2) show ?thesis by (auto simp: pipeline_failed_def Let_def)
next
  case (Some j)
  with assms show ?thesis by (auto simp: pipeline_failed_def Let_def commit_def update_current_def)
qed

text \<open>C24: A run outside a worker commits its own outcome.  Either the job is completed with one result item
  for each clause, or it is failed, with nothing else changed and the exception raised again, or the job's row
  is gone after the rollback: then nothing is changed and the exception is lost.\<close>

theorem unmanaged_run_outcome:
  assumes "unique_results (t_results (committed s))"
    and "run_analysis_pipeline en (Inr kr) False job clauses s = (s1, r)"
  shows "current s1 = committed s1 \<and>
    ((r = Inr () \<and>
       (\<exists>items t. (t = set_job_status (aj_id job) (lit ''running'') (current s) \<or> t = committed s) \<and>
          items_for job clauses items \<and>
          committed s1 = set_job_status (aj_id job) (lit ''completed'') (add_results items t))) \<or>
     (get_job (t_jobs (committed s)) (aj_id job) \<noteq> None \<and> (\<exists>e. r = Inl e) \<and>
       committed s1 = set_job_status (aj_id job) (lit ''failed'') (committed s)) \<or>
     (get_job (t_jobs (committed s)) (aj_id job) = None \<and> r = Inr () \<and> committed s1 = committed s))"
    (is "?outcome s1 r")
proof -
  let ?s0 = "update_current (set_job_status (aj_id job) (lit ''running'')) s"
  obtain s2 q where b: "pipeline_body en kr job clauses ?s0 = (s2, q)" by fastforce
  have s0: "committed ?s0 = committed s"
    "current ?s0 = set_job_status (aj_id job) (lit ''running'') (current s)"
    by (simp_all add: update_current_def)
  note c = pipeline_body_session [OF b, unfolded s0]
  have failed: "?outcome s1 r" if "committed s3 = committed s" "pipeline_failed job False e s3 = (s1, r)" for e s3
    using pipeline_failed_unmanaged [OF _ that(2)] that(1) assms(1) by auto
  show ?thesis
  proof (cases q)
    case (Inl e)
    with assms(2) b have "pipeline_failed job False e s2 = (s1, r)"
      by (simp add: run_analysis_pipeline_def)
    with failed [OF c(1)] show ?thesis by blast
  next
    case (Inr u)
    let ?s3 = "update_current (set_job_status (aj_id job) (lit ''completed'')) s2"
    from c(2) Inr obtain items t where
      i: "t = set_job_status (aj_id job) (lit ''running'') (current s) \<or> t = committed s"
      "items_for job clauses items" "current s2 = add_results items t" by auto
    show ?thesis
    proof (cases "commit ?s3")
      case (Inl e)
      with assms(2) b Inr have "pipeline_failed job False e ?s3 = (s1, r)"
        by (simp add: run_analysis_pipeline_def Let_def)
      moreover have "committed ?s3 = committed s" using c(1) by (simp add: update_current_def)
      ultimately show ?thesis by (intro failed)
    next
      case (Inr s4)
      with assms(2) b \<open>q = Inr u\<close> have "s1 = s4" "r = Inr ()"
        by (simp_all add: run_analysis_pipeline_def Let_def)
      moreover from Inr have "s4 = ?s3\<lparr>committed := current ?s3\<rparr>" by (auto simp: commit_def split: if_splits)
      ultimately show ?thesis using i by (auto simp: update_current_def)
    qed
  qed
qed

definition empty_tables :: tables where
  "empty_tables =
     \<lparr>t_documents = [], t_clauses = [], t_jobs = [], t_results = [], t_extractions = [], t_pages = []\<rparr>"

theorem unmanaged_run_outcome_witness:
  "\<exists>s1. run_analysis_pipeline example_environment (Inr example_keyring) False example_job [example_clause]
      (open_session empty_tables) = (s1, Inr ()) \<and> current s1 = committed s1"
proof -
  obtain s1 r where x: "run_analysis_pipeline example_environment (Inr example_keyring) False example_job
      [example_clause] (open_session empty_tables) = (s1, r)" by fastforce
  have "unique_results (t_results (committed (open_session empty_tables)))"
    "get_job (t_jobs (committed (open_session empty_tables))) (aj_id example_job) = None"
    by (simp_all add: empty_tables_def unique_results_def get_job_def)
  with unmanaged_run_outcome [OF this(1) x] x show ?thesis by auto
qed

subsection \<open>Documents with a confirmed snapshot\<close>

text \<open>A page without block ids, as decryption returns it.\<close>

definition no_block_ids :: "pyval \<Rightarrow> bool" where
  "no_block_ids p \<longleftrightarrow>
     (\<forall>d. p = PDict d \<longrightarrow> (\<forall>b\<in>set (dicts_of (list_value (get0 d ''blocks''))). get_str b ''block_id'' '''' = []))"

lemma iter_block_ranges_none:
  "\<forall>b\<in>set (dicts_of bs). get_str b ''block_id'' '''' = [] \<Longrightarrow> iter_block_ranges bs = Inr []"
proof (induction bs)
  case (Cons b bs)
  then show ?case by (cases "as_dict b") (auto simp: dicts_of_def map_filter_simps)
qed simp

lemma page_candidate_no_blocks:
  assumes "page_candidate nfc ctx t pn [] n p = Inr (Some (c, b))" and "no_block_ids p"
  shows "get0 c ''block_ids'' = PList []"
proof -
  from assms(1) obtain d where d: "p = PDict d"
    by (cases p) (auto simp: page_candidate_def)
  have "iter_block_ranges (list_value (get0 d ''blocks'')) = Inr []"
    using assms(2) d by (intro iter_block_ranges_none) (simp add: no_block_ids_def)
  then show ?thesis
    using assms(1) d
    by (auto simp: page_candidate_def Let_def bind_Inr_iff blocks_of_match_def get_evidence_dict
        split: option.splits if_splits prod.splits)
qed

lemma candidates_no_blocks:
  "candidates_loop nfc ctx t pn [] n ps = Inr cs \<Longrightarrow> \<forall>p\<in>set ps. no_block_ids p \<Longrightarrow>
     \<forall>c\<in>set cs. get0 c ''block_ids'' = PList []"
proof (induction ps arbitrary: n cs)
  case (Cons p ps)
  then obtain c where c: "page_candidate nfc ctx t pn [] n p = Inr c" by (auto simp: bind_Inr_iff)
  show ?case
  proof (cases c)
    case None
    with Cons c show ?thesis by simp
  next
    case (Some cb)
    obtain x b where cb: "cb = (x, b)" by fastforce
    have x: "get0 x ''block_ids'' = PList []"
      using page_candidate_no_blocks c Some cb Cons.prems(2) by fastforce
    show ?thesis
    proof (cases "b \<and> MAX_CANDIDATE_COUNT \<le> n")
      case True
      with Cons.prems c Some cb have "cs = [x]" by simp
      with x show ?thesis by simp
    next
      case False
      with Cons.prems c Some cb obtain cs' where
        "candidates_loop nfc ctx t pn [] (Suc n) ps = Inr cs'" "cs = x # cs'"
        by (auto simp: bind_Inr_iff)
      with Cons.IH [of "Suc n" cs'] Cons.prems(2) x show ?thesis by simp
    qed
  qed
qed simp

lemma validate_reference_needs_blocks:
  assumes "get0 e ''block_ids'' = PList []"
  shows "\<exists>x. validate_evidence_reference nfc ctx pages e = Inl x"
proof (cases "validate_evidence_reference nfc ctx pages e")
  case (Inr v)
  then obtain t page where "validate_on_page nfc ctx e t page = Inr ()"
    by (auto simp: validate_evidence_reference_def Let_def bind_Inr_iff split: option.splits)
  with assms show ?thesis
    by (auto simp: validate_on_page_def Let_def bind_Inr_iff split: option.splits)
qed simp

lemma bind_evidence_needs_blocks:
  assumes "snapshot \<noteq> []" "\<forall>p\<in>set snapshot. no_block_ids p" "evc_block_ids c = None"
  shows "\<exists>x. bind_evidence_to_finding nfc d ex c t snapshot h = Inl x"
proof -
  let ?ctx = "clause_context d ex c h" and ?t = "take MAX_EVIDENCE_SOURCE_TEXT_LENGTH t"
  consider (raised) x where "build_evidence_candidates nfc ?ctx ?t snapshot None None = Inl x"
    | (empty) "build_evidence_candidates nfc ?ctx ?t snapshot None None = Inr []"
    | (found) e es where "build_evidence_candidates nfc ?ctx ?t snapshot None None = Inr (e # es)"
    by (metis list.exhaust sumE)
  then show ?thesis
  proof cases
    case raised
    with assms show ?thesis by (simp add: bind_evidence_to_finding_def)
  next
    case empty
    with assms show ?thesis by (simp add: bind_evidence_to_finding_def)
  next
    case found
    then have "candidates_loop nfc ?ctx ?t None [] 1 snapshot = Inr (e # es)"
      using assms(1) by (auto simp: build_evidence_candidates_def bind_Inr_iff)
    from candidates_no_blocks [OF this assms(2)] have "get0 e ''block_ids'' = PList []" by simp
    from validate_reference_needs_blocks [OF this] obtain x where
      "validate_evidence_reference nfc ?ctx (pages_by_number snapshot) e = Inl x" by blast
    with found assms show ?thesis
      by (simp add: bind_evidence_to_finding_def validate_finding_evidence_def
          MAX_FINDING_EVIDENCE_COUNT_def)
  qed
qed

lemma unique_loop_made:
  "unique_loop key_of dup step seen n xs = Inr (ys, n') \<Longrightarrow> y \<in> set ys \<Longrightarrow>
     \<exists>k x m m'. step k x m = Inr (y, m')"
  by (induction xs arbitrary: seen n ys) (auto simp: bind_Inr_iff split: if_splits, blast)

lemma unique_loop_length:
  "unique_loop key_of dup step seen n xs = Inr (ys, n') \<Longrightarrow> length ys = length xs"
  by (induction xs arbitrary: seen n ys) (auto simp: bind_Inr_iff split: if_splits)

lemma decrypted_blocks_no_ids:
  assumes "decrypt_confirmation_snapshot_blocks A kr v eid sv pn oid = Inr bs" and "b \<in> set bs"
  shows "\<exists>d k t. b = block_entry d k ''text'' t"
proof -
  from assms(1) obtain aad xs u where
    "unique_loop (block_key ScalarDecryptionError ''text_encrypted'')
       (ScalarDecryptionError ''Duplicate block_index value.'') (decrypt_block A kr aad) [] () xs = Inr (bs, u)"
    by (auto simp: decrypt_confirmation_snapshot_blocks_def decrypt_block_list_def bind_Inr_iff
        split: option.splits)
  from unique_loop_made [OF this assms(2)] show ?thesis
    by (auto simp: decrypt_block_def Let_def bind_Inr_iff split: if_splits)
qed

lemma decrypted_pages_no_ids:
  assumes "decrypt_confirmation_snapshot A kr stored eid oid sv = Inr pages"
  shows "\<forall>p\<in>set pages. no_block_ids p" and "\<exists>xs. stored = PList xs \<and> length pages = length xs"
proof -
  from assms obtain e o' v xs where
    x: "stored = PList xs" and
    l: "unique_loop (snapshot_page_key ScalarDecryptionError ''final_text_encrypted'')
         (ScalarDecryptionError ''Duplicate page_number value.'') (decrypt_snapshot_page A kr e o' v) [] () xs
           = Inr (pages, ())"
    by (cases stored) (auto simp: decrypt_confirmation_snapshot_def bind_Inr_iff)
  from x unique_loop_length [OF l] show "\<exists>xs. stored = PList xs \<and> length pages = length xs" by simp
  show "\<forall>p\<in>set pages. no_block_ids p"
  proof
    fix p assume "p \<in> set pages"
    from unique_loop_made [OF l this] obtain n x where "\<exists>u u'. decrypt_snapshot_page A kr e o' v n x u = Inr (p, u')"
      by blast
    then obtain t bs w where
      p: "p = snapshot_page_entry (dict_of x) n ''final_text'' (PStr t) bs"
      "decrypt_confirmation_snapshot_blocks A kr w (PStr e) (PInt v) (PInt n) (PStr o') = Inr bs"
      by (auto simp: decrypt_snapshot_page_def Let_def bind_Inr_iff split: if_splits)
    have "get_str c ''block_id'' '''' = []" if "c \<in> set (dicts_of bs)" for c
    proof -
      from that have "PDict c \<in> set bs"
        by (auto simp: dicts_of_def List.map_filter_def elim!: as_dict.elims)
      with p(2) decrypted_blocks_no_ids obtain d' k t' where "PDict c = block_entry d' k ''text'' t'" by blast
      then show ?thesis by (simp add: block_entry_def get_str_def get_def)
    qed
    with p(1) show "no_block_ids p"
      by (simp add: no_block_ids_def snapshot_page_entry_def get0_def get_def list_value_def)
  qed
qed

lemma bind_evidence_raises:
  assumes "fst info \<noteq> []" "\<forall>p\<in>set (fst info). no_block_ids p"
  shows "\<exists>e. bind_evidence en job c body info = Inl e"
proof -
  have "evc_block_ids (clause_evidence_view c) = None" by (simp add: clause_evidence_view_def)
  then obtain y where "bind_evidence_to_finding (en_nfc en) (aj_document_id job) (aj_document_id job)
      (clause_evidence_view c) body (fst info) (fst (snd info)) = Inl y"
    using bind_evidence_needs_blocks [OF assms] by blast
  then show ?thesis by (cases y) (auto simp: bind_evidence_def split: prod.splits)
qed

text \<open>C25: A worker's run over a document cannot succeed when the extraction of the same id and the same owner, in
  a table that can be read, holds a confirmed snapshot with at least one page: whatever the provider answers and
  whatever the pages say, the run over the document's clauses (one at least) raises.  When the snapshot decrypts, what
  raises at the latest is the binding of evidence, for every clause and every body: the decrypted blocks carry no
  block id, and evidence without block ids is refused.\<close>

theorem confirmed_snapshot_blocks_analysis:
  assumes "find_document (current s) (aj_document_id job) = Some d"
    and "find_extraction (current s) (aj_document_id job) = Some x"
    and "ex_owner_id x = doc_owner_id d" and "en_extractions_readable en"
    and "get0 (ex_extra_data x) ''confirmation_snapshot'' = PList (page # pages)"
    and "clauses \<noteq> []"
  shows "(\<exists>e. snd (run_analysis_pipeline en (Inr kr) True job clauses s) = Inl e) \<and>
    (\<forall>info c body. snapshot_of_row en kr (doc_owner_id d) x = Inr info \<longrightarrow>
       (\<exists>e. bind_evidence en job c body info = Inl e))"
proof (intro conjI allI impI)
  show bind: "\<exists>e. bind_evidence en job c body info = Inl e" if "snapshot_of_row en kr (doc_owner_id d) x = Inr info"
    for info c body
  proof -
    from that assms(5) obtain ps h v where
      i: "info = (ps, h, v)"
      "decrypt_confirmation_snapshot (en_aead en) kr (PList (page # pages)) (PStr (ex_id x)) (PStr (doc_owner_id d))
         (opt_pyint v) = Inr ps"
      by (auto simp: snapshot_of_row_def Let_def bind_Inr_iff)
    note ids = decrypted_pages_no_ids [OF i(2)]
    show ?thesis by (rule bind_evidence_raises) (use ids i(1) in auto)
  qed
  have "\<exists>e. snd (pipeline_body en kr job clauses s) = Inl e"
  proof (cases "document_owner (aj_document_id job) (current s)")
    case (Inr ow)
    with assms(1) have ow: "ow = doc_owner_id d" by (auto simp: document_owner_def split: if_splits)
    show ?thesis
    proof (cases "snapshot_of_row en kr ow x")
      case (Inr info)
      obtain c cs where "clauses = c # cs" using assms(6) by (cases clauses) auto
      moreover have "\<exists>e. analyze_clause en kr job ow info 0 0 c = Inl e"
      proof (cases "analyze_clause en kr job ow info 0 0 c")
        case (Inr r)
        then obtain body ev where "bind_evidence en job c body info = Inr ev"
          by (auto simp: analyze_clause_def bind_Inr_iff)
        with bind [of info c body] \<open>snapshot_of_row en kr ow x = Inr info\<close> ow show ?thesis by simp
      qed simp
      ultimately have "\<exists>e. analyze_clauses en kr job ow info 0 0 clauses = Inl e" by auto
      with \<open>document_owner _ _ = _\<close> Inr assms ow show ?thesis
        by (auto simp: pipeline_body_def load_confirmation_snapshot_def)
    qed (use Inr assms ow in \<open>auto simp: pipeline_body_def load_confirmation_snapshot_def\<close>)
  qed (simp add: pipeline_body_def)
  then show "\<exists>e. snd (run_analysis_pipeline en (Inr kr) True job clauses s) = Inl e"
    by (auto simp: run_analysis_pipeline_def pipeline_failed_def Let_def split: prod.splits sum.splits)
qed

text \<open>The snapshot of one confirmed page with the text of the clause, as a confirmation seals it.\<close>

definition sealed_pages :: "pyval list" where
  "sealed_pages =
     (case encrypt_confirmation_snapshot plain_aead example_rng example_keyring
             (PList [PDict [(lit ''page_id'', PStr (lit ''p'')), (lit ''page_number'', PInt 1),
                (lit ''final_text'', PStr (lit ''pay'')), (lit ''text_source'', PNone), (lit ''text_changed'', PBool False),
                (lit ''method'', PNone), (lit ''warnings'', PList []),
                (lit ''blocks'', PList
                  [PDict [(lit ''block_index'', PInt 0), (lit ''text'', PStr (lit ''pay'')), (lit ''confidence'', PNone),
                          (lit ''bbox'', PNone), (lit ''reading_order'', PInt 0)]])]])
             (PStr (lit ''d'')) (PStr (lit ''o'')) (PInt 1) 0 of
        Inl e \<Rightarrow> []
      | Inr (pages, n) \<Rightarrow> pages)"

definition confirmed_extraction :: extraction_row where
  "confirmed_extraction =
     \<lparr>ex_id = lit ''d'', ex_filename_display_encrypted = [], ex_source_type = [], ex_size_bytes = 3,
      ex_page_count = 1, ex_status = lit ''confirmed'', ex_method = [], ex_warnings = [], ex_requires_user_review = False,
      ex_extra_data = [(lit ''confirmation_snapshot'', PList sealed_pages), (lit ''snapshot_version'', PInt 1),
        (lit ''confirmation_checksum'', PStr (lit ''h''))],
      ex_owner_id = lit ''o'', ex_created_at = 0\<rparr>"

lemma sealed_pages_open:
  "\<exists>d. sealed_pages = [d]"
  "\<exists>d. snapshot_of_row example_environment example_keyring (lit ''o'') confirmed_extraction =
     Inr ([PDict d], Some (lit ''h''), Some 1) \<and> get_str d ''final_text'' '''' = lit ''pay''"
proof -
  have "case sealed_pages of [d] \<Rightarrow> True | _ \<Rightarrow> False" by code_simp
  then show "\<exists>d. sealed_pages = [d]" by (auto split: list.splits)
  have "case snapshot_of_row example_environment example_keyring (lit ''o'') confirmed_extraction of
      Inr ([PDict d], Some h, Some v) \<Rightarrow> get_str d ''final_text'' '''' = lit ''pay'' \<and> h = lit ''h'' \<and> v = 1
    | _ \<Rightarrow> False" by code_simp
  then show "\<exists>d. snapshot_of_row example_environment example_keyring (lit ''o'') confirmed_extraction =
     Inr ([PDict d], Some (lit ''h''), Some 1) \<and> get_str d ''final_text'' '''' = lit ''pay''"
    by (auto split: sum.splits prod.splits list.splits pyval.splits option.splits)
qed

text \<open>Without the extraction this run succeeds (\<open>example_run\<close>); the snapshot decrypts, and yet the run raises.\<close>

theorem confirmed_snapshot_blocks_analysis_witness:
  "\<exists>info. snapshot_of_row example_environment example_keyring (lit ''o'') confirmed_extraction = Inr info \<and>
     length (fst info) = 1 \<and>
     (\<exists>e. bind_evidence example_environment example_job example_clause (lit ''pay'') info = Inl e) \<and>
     (\<exists>e. snd (run_analysis_pipeline example_environment (Inr example_keyring) True example_job [example_clause]
        (open_session (example_tables\<lparr>t_extractions := [confirmed_extraction]\<rparr>))) = Inl e)"
proof -
  let ?s = "open_session (example_tables\<lparr>t_extractions := [confirmed_extraction]\<rparr>)"
  obtain page where "sealed_pages = [page]" using sealed_pages_open(1) by blast
  then have "find_document (current ?s) (aj_document_id example_job) = Some example_document"
    "find_extraction (current ?s) (aj_document_id example_job) = Some confirmed_extraction"
    "ex_owner_id confirmed_extraction = doc_owner_id example_document"
    "en_extractions_readable example_environment"
    "get0 (ex_extra_data confirmed_extraction) ''confirmation_snapshot'' = PList (page # [])"
    by (simp_all add: example_tables_def example_job_def new_job_def example_document_def
        confirmed_extraction_def find_document_def find_extraction_def example_environment_def get0_def get_def)
  note blocked = confirmed_snapshot_blocks_analysis [OF this, of "[example_clause]" example_keyring]
  obtain d where "snapshot_of_row example_environment example_keyring (lit ''o'') confirmed_extraction =
      Inr ([PDict d], Some (lit ''h''), Some 1)"
    using sealed_pages_open(2) by blast
  with blocked show ?thesis by (auto simp: example_document_def)
qed

end
