(* ===== verification/Py_Env.thy ===== *)
theory Py_Env
  imports Py_Values
begin

text \<open>
  Environment variables, \<open>float\<close> of a text and durations.  A number that is too large for a double
  becomes infinite; digits beyond the precision of a double are kept.
\<close>

type_synonym environ = "string \<Rightarrow> pystr option"

text \<open>\<open>os.getenv(name, default)\<close>.\<close>

definition getenv :: "environ \<Rightarrow> string \<Rightarrow> string \<Rightarrow> pystr" where
  "getenv env name dflt = (case env name of None \<Rightarrow> lit dflt | Some v \<Rightarrow> v)"

text \<open>A run of decimal digits in which single underscores may separate digits: value, count, rest.\<close>

fun digit_part :: "int \<Rightarrow> nat \<Rightarrow> pystr \<Rightarrow> int \<times> nat \<times> pystr" where
  "digit_part acc n [] = (acc, n, [])"
| "digit_part acc n (c # s) =
     (case digit_value c of
        Some d \<Rightarrow> digit_part (10 * acc + d) (Suc n) s
      | None \<Rightarrow>
          if c = 95 \<and> 0 < n \<and> (case s of [] \<Rightarrow> False | d # _ \<Rightarrow> digit_value d \<noteq> None)
          then digit_part acc n s else (acc, n, c # s))"

definition split_sign :: "pystr \<Rightarrow> int \<times> pystr" where
  "split_sign s =
     (case s of [] \<Rightarrow> (1, []) | c # r \<Rightarrow> if c = 45 then (- 1, r) else if c = 43 then (1, r) else (1, s))"

definition exponent_part :: "pystr \<Rightarrow> int option" where
  "exponent_part s =
     (case s of
        [] \<Rightarrow> Some 0
      | c # r \<Rightarrow>
          if c = 101 \<or> c = 69 then
            (case split_sign r of (sg, t) \<Rightarrow>
               case digit_part 0 0 t of (e, n, rest) \<Rightarrow> if n = 0 \<or> rest \<noteq> [] then None else Some (sg * e))
          else None)"

definition double_limit :: int where "double_limit = 2 ^ 1024 - 2 ^ 970"

definition make_float :: "int \<Rightarrow> int \<Rightarrow> pyfloat" where
  "make_float m e =
     (if m = 0 then fzero
      else if dec_le double_limit 0 \<bar>m\<bar> e then (if 0 < m then PosInf else NegInf) else Dec m e)"

definition float_of_str :: "pystr \<Rightarrow> pyfloat option" where
  "float_of_str s =
     (case split_sign (strip s) of (sg, r) \<Rightarrow>
        let word = lower r
        in if word = lit ''inf'' \<or> word = lit ''infinity'' then Some (if sg < 0 then NegInf else PosInf)
           else if word = lit ''nan'' then Some NaN
           else
             (case digit_part 0 0 r of (m1, n1, r1) \<Rightarrow>
                case (case r1 of [] \<Rightarrow> (m1, 0, []) | c # r' \<Rightarrow> if c = 46 then digit_part m1 0 r' else (m1, 0, r1)) of
                  (m2, n2, r2) \<Rightarrow>
                    if n1 + n2 = 0 then None
                    else map_option (\<lambda>e. make_float (sg * m2) (e - int n2)) (exponent_part r2)))"

definition parse_float :: "pystr \<Rightarrow> pyfloat result" where
  "parse_float s =
     (case float_of_str s of
        Some f \<Rightarrow> Inr f | None \<Rightarrow> Inl (ValueError (lit ''could not convert string to float'')))"

definition parse_int :: "pystr \<Rightarrow> int result" where
  "parse_int s = py_int (PStr s)"

subsection \<open>Durations\<close>

text \<open>\<open>round\<close> to the nearest integer, ties to the even one.\<close>

definition round_half_even :: "int \<Rightarrow> int \<Rightarrow> int" where
  "round_half_even p q =
     (let d = p div q; r = 2 * (p mod q)
      in if r < q then d else if q < r then d + 1 else if even d then d else d + 1)"

definition scaled_round :: "int \<Rightarrow> int \<Rightarrow> int" where
  "scaled_round m e = (if 0 \<le> e then m * 10 ^ nat e else round_half_even m (10 ^ nat (- e)))"

definition max_timedelta :: int where "max_timedelta = 86400000000 * 1000000000 - 1"

text \<open>\<open>timedelta(seconds=f)\<close> in microseconds.\<close>

definition timedelta_seconds :: "pyfloat \<Rightarrow> int result" where
  "timedelta_seconds f =
     (case f of
        Dec m e \<Rightarrow>
          let us = scaled_round m (e + 6)
          in if max_timedelta < us \<or> us < - 86400000000 * 999999999
             then Inl (OtherError (lit ''OverflowError'') (lit ''days out of range'')) else Inr us
      | NaN \<Rightarrow> Inl (ValueError (lit ''cannot convert float NaN to integer''))
      | _ \<Rightarrow> Inl (OtherError (lit ''OverflowError'') (lit ''cannot convert float infinity to integer'')))"

lemma float_examples:
  "float_of_str (lit '' 1_0.50e-1 '') = Some (Dec 1050 (- 3))" "float_of_str (lit ''-.5'') = Some (Dec (- 5) (- 1))"
  "float_of_str (lit ''1e400'') = Some PosInf" "float_of_str (lit ''nan'') = Some NaN"
  "float_of_str (lit ''1__0'') = None" "float_of_str (lit ''.'') = None" "float_of_str (lit ''5.'') = Some (Dec 50 (- 1)) \<longleftrightarrow> False"
  by code_simp+

end
