(* ===== verification/Analysis_Worker.thy ===== *)
theory Analysis_Worker
  imports Analysis_Pipeline Py_Env
begin

text \<open>
  Model of \<^verbatim>\<open>src/backend/app/workers/analysis_worker.py\<close>: the configuration, one job, and the polling
  loop.  A worker works in a session of its own while other sessions (its heartbeat thread, other workers,
  requests) commit to the same tables: what they commit while a job is processed is a function on the tables.
  Log records are not modelled.
\<close>

subsection \<open>Configuration\<close>

record worker_config =
  wc_worker_id :: pystr
  wc_poll_seconds :: pyfloat
  wc_lease_seconds :: pyfloat
  wc_heartbeat_seconds :: pyfloat
  wc_max_attempts :: int

definition validate_worker_config :: "worker_config \<Rightarrow> unit result" where
  "validate_worker_config c = checks
    [(float_le (wc_poll_seconds c) fzero,
        ValueError (lit ''ANALYSIS_WORKER_POLL_SECONDS must be greater than zero.'')),
     (float_le (wc_heartbeat_seconds c) fzero,
        ValueError (lit ''ANALYSIS_JOB_HEARTBEAT_SECONDS must be greater than zero.'')),
     (float_le (wc_lease_seconds c) (wc_heartbeat_seconds c),
        ValueError (lit ''ANALYSIS_JOB_LEASE_SECONDS must exceed heartbeat seconds.'')),
     (wc_max_attempts c < 1, ValueError (lit ''ANALYSIS_JOB_MAX_ATTEMPTS must be at least one.'')),
     (strip (wc_worker_id c) = [], ValueError (lit ''ANALYSIS_WORKER_ID must not be blank.''))]"

text \<open>\<open>host\<close> is the host name and \<open>fresh\<close> twelve random hexadecimal digits.\<close>

definition load_worker_config :: "environ \<Rightarrow> pystr \<Rightarrow> pystr \<Rightarrow> worker_config result" where
  "load_worker_config env host fresh =
     (let given = strip (getenv env ''ANALYSIS_WORKER_ID'' '''')
      in bind (parse_float (getenv env ''ANALYSIS_WORKER_POLL_SECONDS'' ''1'')) (\<lambda>poll.
         bind (parse_float (getenv env ''ANALYSIS_JOB_LEASE_SECONDS'' ''120'')) (\<lambda>lease.
         bind (parse_float (getenv env ''ANALYSIS_JOB_HEARTBEAT_SECONDS'' ''30'')) (\<lambda>beat.
         bind (parse_int (getenv env ''ANALYSIS_JOB_MAX_ATTEMPTS'' ''3'')) (\<lambda>attempts.
         let c = \<lparr>wc_worker_id = (if given \<noteq> [] then given else host @ [45] @ fresh), wc_poll_seconds = poll,
                  wc_lease_seconds = lease, wc_heartbeat_seconds = beat, wc_max_attempts = attempts\<rparr>
         in bind (validate_worker_config c) (\<lambda>_. Inr c))))))"

subsection \<open>Heartbeats\<close>

text \<open>The heartbeat thread: it renews at each of the given times until a renewal fails.\<close>

fun heartbeat_loop :: "pystr \<Rightarrow> pystr \<Rightarrow> int \<Rightarrow> int list \<Rightarrow> jobs \<Rightarrow> jobs" where
  "heartbeat_loop job_id worker_id lease [] db = db"
| "heartbeat_loop job_id worker_id lease (now # ts) db =
     (case renew_job_lease job_id worker_id lease now db of
        (db', renewed) \<Rightarrow> if renewed then heartbeat_loop job_id worker_id lease ts db' else db')"

subsection \<open>One job\<close>

definition outcome_completed :: pystr where "outcome_completed = lit ''completed''"
definition outcome_claim_lost :: pystr where "outcome_claim_lost = lit ''claim_lost''"

text \<open>\<open>delete(AnalysisResultItem)\<close> in the session, and the clauses of the job's document by ordinal.\<close>

definition without_results :: "pystr \<Rightarrow> tables \<Rightarrow> tables" where
  "without_results job_id t = t\<lparr>t_results := filter (\<lambda>r. ri_analysis_job_id r \<noteq> job_id) (t_results t)\<rparr>"

definition job_clauses :: "analysis_job \<Rightarrow> tables \<Rightarrow> clause_row list result" where
  "job_clauses job t =
     (case find_document t (aj_document_id job) of
        None \<Rightarrow> Inl (AttributeError (lit ''NoneType object has no attribute clauses''))
      | Some d \<Rightarrow>
          Inr (sort_key cl_ordinal (filter (\<lambda>c. cl_document_id c = doc_id d) (t_clauses t))))"

text \<open>
  The session's commit on top of \<open>t\<close>, what the others committed.  The rows that are gone are those the session
  deleted when it began, the items the job had in \<open>t0\<close>; the new rows are those its table \<open>results\<close> has at its end.  Items
  that others committed for the job since then stay.  A rollback of the pipeline undid the deletion (\<open>deleted\<close> is
  false then).  Rows are told apart by their members: one written later has ciphertexts of its own.
\<close>

definition deleted_results :: "bool \<Rightarrow> pystr \<Rightarrow> tables \<Rightarrow> result_item set" where
  "deleted_results deleted job_id t0 =
     (if deleted then set (filter (\<lambda>r. ri_analysis_job_id r = job_id) (t_results t0)) else {})"

definition publish_results :: "bool \<Rightarrow> pystr \<Rightarrow> tables \<Rightarrow> result_item list \<Rightarrow> tables \<Rightarrow> tables" where
  "publish_results deleted job_id t0 results t =
     (let kept = filter (\<lambda>r. r \<notin> deleted_results deleted job_id t0)
      in t\<lparr>t_results := kept (t_results t) @ drop (length (kept (t_results t0))) results\<rparr>)"

text \<open>
  The attributes the session knows of the job when it finishes: those it loaded, unless the pipeline had to
  roll back, which makes it read the row again.
\<close>

definition known_job :: "environment \<Rightarrow> analysis_job \<Rightarrow> tables \<Rightarrow> analysis_job result" where
  "known_job en job t =
     (if en_extractions_readable en then Inr job
      else
        (case get_job (t_jobs t) (aj_id job) of
           None \<Rightarrow> Inl (OtherError (lit ''ObjectDeletedError'') (lit ''Instance has been deleted.''))
         | Some j \<Rightarrow> Inr j))"

text \<open>
  The commit of the success.  The unique constraint on the items of a job refuses it when another session has
  published an item for one of the clauses meanwhile.
\<close>

definition finish_success ::
  "environment \<Rightarrow> analysis_job \<Rightarrow> pystr \<Rightarrow> int \<Rightarrow> tables \<Rightarrow> result_item list \<Rightarrow> tables \<Rightarrow> tables result" where
  "finish_success en job worker_id now t0 results t =
     bind (known_job en job t) (\<lambda>j.
     bind (finish_job_success j worker_id now (t_jobs t)) (\<lambda>jobs'.
     let t' = (publish_results (en_extractions_readable en) (aj_id job) t0 results t)\<lparr>t_jobs := jobs'\<rparr>
     in if unique_results (t_results t') then Inr t'
        else Inl (OtherError (lit ''IntegrityError'') (lit ''UNIQUE constraint failed''))))"

text \<open>
  What one call of \<open>process_job\<close> meets: the provider it creates (or the error), the key ring, the
  commits of other sessions while it runs, the time it finishes and the jitter.
\<close>

record job_run =
  jr_environment :: "environment result"
  jr_keyring :: "encryption_keyring result"
  jr_others :: "tables \<Rightarrow> tables"
  jr_finished :: int
  jr_jitter :: "int \<Rightarrow> int \<Rightarrow> int"

text \<open>The \<open>try\<close> block inside the session; \<open>t\<close> is what is committed when it finishes.\<close>

definition attempt_job :: "job_run \<Rightarrow> pystr \<Rightarrow> analysis_job \<Rightarrow> tables \<Rightarrow> tables \<Rightarrow> tables result" where
  "attempt_job jr worker_id job t0 t =
     bind (job_clauses job t0) (\<lambda>clauses.
     bind (jr_environment jr) (\<lambda>en.
     case run_analysis_pipeline en (jr_keyring jr) True job clauses
            \<lparr>committed = t0, current = without_results (aj_id job) t0\<rparr> of
       (s, Inl e) \<Rightarrow> Inl e
     | (s, Inr _) \<Rightarrow> finish_success en job worker_id (jr_finished jr) t0 (t_results (current s)) t))"

definition process_job :: "job_run \<Rightarrow> pystr \<Rightarrow> pystr \<Rightarrow> tables \<Rightarrow> tables \<times> pystr" where
  "process_job jr job_id worker_id t0 =
     (let t = jr_others jr t0
      in case get_job (t_jobs t0) job_id of
           None \<Rightarrow> (t, outcome_claim_lost)
         | Some job \<Rightarrow>
             if aj_status job \<noteq> st_running \<or> aj_worker_id job \<noteq> Some worker_id then (t, outcome_claim_lost)
             else
               (case attempt_job jr worker_id job t0 t of
                  Inr t' \<Rightarrow> (t', outcome_completed)
                | Inl e \<Rightarrow>
                    (case finish_job_failure (jr_jitter jr) job_id worker_id e (jr_finished jr) (t_jobs t) of
                       (jobs', outcome) \<Rightarrow> (t\<lparr>t_jobs := jobs'\<rparr>, outcome))))"

subsection \<open>The polling loop\<close>

text \<open>What one round of the loop meets: the time it starts and the run of a job it may claim.\<close>

record worker_round =
  wr_now :: int
  wr_run :: job_run

text \<open>The lease is computed for the first candidate, so a bad duration raises only when there is one.\<close>

definition run_round ::
  "worker_config \<Rightarrow> worker_round \<Rightarrow> tables \<Rightarrow> tables \<times> (pystr \<times> pystr) option result" where
  "run_round c w t =
     (let t1 = t\<lparr>t_jobs := fst (recover_stale_jobs_result (wr_now w) (t_jobs t))\<rparr>
      in if claim_candidates (wr_now w) (t_jobs t1) = [] then (t1, Inr None)
         else
           (case timedelta_seconds (wc_lease_seconds c) of
              Inl e \<Rightarrow> (t1, Inl e)
            | Inr lease \<Rightarrow>
                (case claim_next_job (wc_worker_id c) lease (Some (wc_max_attempts c)) (wr_now w) (t_jobs t1) of
                   (jobs', None) \<Rightarrow> (t1\<lparr>t_jobs := jobs'\<rparr>, Inr None)
                 | (jobs', Some job) \<Rightarrow>
                     (case process_job (wr_run w) (aj_id job) (wc_worker_id c) (t1\<lparr>t_jobs := jobs'\<rparr>) of
                        (t2, outcome) \<Rightarrow> (t2, Inr (Some (aj_id job, outcome)))))))"

text \<open>
  The loop until the stop event: the list holds the rounds that start before it is set.  An exception that
  reaches the loop ends it.  The result lists the jobs processed with their outcomes.
\<close>

fun worker_loop ::
  "worker_config \<Rightarrow> worker_round list \<Rightarrow> tables \<Rightarrow> tables \<times> (pystr \<times> pystr) list \<times> unit result" where
  "worker_loop c [] t = (t, [], Inr ())"
| "worker_loop c (w # ws) t =
     (case run_round c w t of
        (t1, Inl e) \<Rightarrow> (t1, [], Inl e)
      | (t1, Inr done) \<Rightarrow>
          (case worker_loop c ws t1 of
             (t2, outs, r) \<Rightarrow> (t2, (case done of None \<Rightarrow> outs | Some d \<Rightarrow> d # outs), r)))"

definition run_worker ::
  "worker_config \<Rightarrow> worker_round list \<Rightarrow> tables \<Rightarrow> tables \<times> (pystr \<times> pystr) list \<times> unit result" where
  "run_worker c ws t =
     (case validate_worker_config c of Inl e \<Rightarrow> (t, [], Inl e) | Inr _ \<Rightarrow> worker_loop c ws t)"

end
