(* ===== verification/Analysis_Worker_Correct.thy ===== *)
theory Analysis_Worker_Correct
  imports Analysis_Worker Analysis_Pipeline_Correct Job_Queue_Correct
begin

text \<open>
  Theorems about the worker: the invariant of the queue under whole rounds of the loop, the number of times
  a job is processed, what a processed job publishes, and what happens when a lease is lost.
\<close>

subsection \<open>Heartbeats\<close>

interpretation heartbeats: queue_operation "heartbeat_loop i w l ts" for i w l ts
proof
  fix db :: jobs
  assume "distinct (map aj_id db)"
  then show "list_all2 row_refines db (heartbeat_loop i w l ts db)"
  proof (induction ts arbitrary: db)
    case (Cons now ts)
    note r = lease.rowwise [OF Cons.prems, of i w l now]
    have d: "distinct (map aj_id (fst (renew_job_lease i w l now db)))"
      using lease.keeps_ids [OF Cons.prems] Cons.prems by simp
    from refines_trans [OF r Cons.IH [OF d]] r show ?case by (auto split: prod.splits)
  qed (simp add: refines_refl)
qed

text \<open>A running job of the worker stays its own under its heartbeats.\<close>

definition owned :: "pystr \<Rightarrow> pystr \<Rightarrow> jobs \<Rightarrow> bool" where
  "owned i w db \<longleftrightarrow> (\<exists>j. get_job db i = Some j \<and> aj_status j = st_running \<and> aj_worker_id j = Some w)"

lemma find_map_same_id:
  assumes "\<And>j. aj_id (f j) = aj_id j"
  shows "get_job (map f db) i = map_option f (get_job db i)"
  by (induction db) (simp_all add: get_job_def assms)

lemma renew_owned:
  assumes "owned i w db"
  shows "owned i w (fst (renew_job_lease i w l now db))"
proof -
  let ?f = "\<lambda>j. if aj_id j = i \<and> aj_status j = st_running \<and> aj_worker_id j = Some w
    then j\<lparr>aj_heartbeat_at := Some now, aj_lease_expires_at := Some (now + l)\<rparr> else j"
  obtain j where j: "get_job db i = Some j" "aj_status j = st_running" "aj_worker_id j = Some w"
    using assms by (auto simp: owned_def)
  have "get_job (map ?f db) i = map_option ?f (get_job db i)" by (rule find_map_same_id) simp
  then have "get_job (map ?f db) i = Some (?f j)" using j(1) by simp
  moreover have "aj_status (?f j) = st_running" "aj_worker_id (?f j) = Some w" using j by simp_all
  moreover have "fst (renew_job_lease i w l now db) = map ?f db" by (simp add: renew_job_lease_def update_where_def)
  ultimately show ?thesis unfolding owned_def by (intro exI [of _ "?f j"] conjI) (simp_all only:)
qed

lemma heartbeats_owned: "owned i w db \<Longrightarrow> owned i w (heartbeat_loop i w l ts db)"
proof (induction ts arbitrary: db)
  case (Cons now ts)
  from renew_owned [OF Cons.prems, of l now] Cons.IH show ?case by (auto split: prod.splits)
qed simp

subsection \<open>Admissible interference\<close>

text \<open>
  The table as every session keeps it: the queue's invariant, no more attempts granted than the workers are
  configured for, and no finishing time on an unfinished row.
\<close>

definition table_ok :: "int \<Rightarrow> jobs \<Rightarrow> bool" where
  "table_ok m db \<longleftrightarrow>
     jobs_inv db \<and> (\<forall>j\<in>set db. aj_max_attempts j \<le> m \<and> (\<not> terminal j \<longrightarrow> aj_finished_at j = None))"

text \<open>How the table may evolve: rows stay, their attempts never decrease, keys are kept or given up.\<close>

definition evolves :: "jobs \<Rightarrow> jobs \<Rightarrow> bool" where
  "evolves db db' \<longleftrightarrow>
     (\<forall>j\<in>set db. \<exists>k\<in>set db'. aj_id k = aj_id j \<and> aj_attempt_count j \<le> aj_attempt_count k \<and> keys_kept j k)"

definition others_ok :: "int \<Rightarrow> (tables \<Rightarrow> tables) \<Rightarrow> bool" where
  "others_ok m f \<longleftrightarrow>
     (\<forall>t. table_ok m (t_jobs t) \<longrightarrow> table_ok m (t_jobs (f t)) \<and> evolves (t_jobs t) (t_jobs (f t)))"

lemma evolves_refl: "evolves db db"
  by (auto simp: evolves_def keys_kept_def)

lemma evolves_trans: "evolves a b \<Longrightarrow> evolves b c \<Longrightarrow> evolves a c"
  unfolding evolves_def keys_kept_def by (metis order_trans)

lemma evolves_rows:
  assumes "list_all2 (\<lambda>j k. aj_id k = aj_id j \<and> aj_attempt_count j \<le> aj_attempt_count k \<and> keys_kept j k) db db'"
  shows "evolves db db'"
  unfolding evolves_def
proof
  fix j assume "j \<in> set db"
  then obtain n where "n < length db" "j = db ! n" by (auto simp: in_set_conv_nth)
  with assms show "\<exists>k\<in>set db'. aj_id k = aj_id j \<and> aj_attempt_count j \<le> aj_attempt_count k \<and> keys_kept j k"
    by (intro bexI [of _ "db' ! n"]) (auto simp: list_all2_conv_all_nth)
qed

lemma refines_evolves: "list_all2 row_refines db db' \<Longrightarrow> evolves db db'"
  by (intro evolves_rows, erule list_all2_mono) (auto simp: row_refines_def keys_kept_def)

text \<open>An update that respects the rows one by one.\<close>

lemma update_where_ok:
  assumes "table_ok m db" "\<And>j. j \<in> set db \<Longrightarrow> p j \<Longrightarrow> row_refines j (f j)"
    "\<And>j. j \<in> set db \<Longrightarrow> p j \<Longrightarrow>
       aj_max_attempts (f j) \<le> m \<and> (\<not> terminal (f j) \<longrightarrow> aj_finished_at (f j) = None)"
  shows "table_ok m (fst (update_where p f db))" "evolves db (fst (update_where p f db))"
proof -
  have r: "list_all2 row_refines db (fst (update_where p f db))"
    using assms(2) by (auto simp: update_where_def list_all2_conv_all_nth)
  then show "evolves db (fst (update_where p f db))" by (rule refines_evolves)
  have "jobs_inv (fst (update_where p f db))"
    using assms(1) refines_ids [OF r] rows_wf [OF r] keys_shrink(2) [OF rows_keep_keys [OF r]]
    by (auto simp: jobs_inv_def table_ok_def)
  with assms show "table_ok m (fst (update_where p f db))"
    by (auto simp: table_ok_def update_where_def)
qed

lemma table_ok_row:
  assumes "table_ok m db" "j \<in> set db" "\<not> terminal j"
  shows "aj_finished_at j = None"
  using assms by (auto simp: table_ok_def)

lemma table_ok_distinct: "table_ok m db \<Longrightarrow> distinct (map aj_id db)"
  by (simp add: table_ok_def jobs_inv_def)

lemma same_row: "table_ok m db \<Longrightarrow> get_job db i = Some j \<Longrightarrow> k \<in> set db \<Longrightarrow> aj_id k = i \<Longrightarrow> k = j"
  using get_job_mem [of db k] table_ok_distinct [of m db] by auto

lemma claim_update_ok:
  assumes "table_ok m db"
  shows "table_ok m (fst (claim_update w l (Some m) now i db))"
    "evolves db (fst (claim_update w l (Some m) now i db))"
proof -
  have "row_refines j (claimed w l (Some m) now j)" if "aj_id j = i \<and> claimable now j" for j
    using that by (auto intro: claimed_refines)
  moreover have "aj_max_attempts (claimed w l (Some m) now j) \<le> m \<and>
      (\<not> terminal (claimed w l (Some m) now j) \<longrightarrow> aj_finished_at (claimed w l (Some m) now j) = None)"
    if "j \<in> set db" "aj_id j = i \<and> claimable now j" for j
    using that table_ok_row [OF assms that(1)] by (simp add: claimed_def claimable_def terminal_def)
  ultimately show "table_ok m (fst (claim_update w l (Some m) now i db))"
    "evolves db (fst (claim_update w l (Some m) now i db))"
    unfolding claim_update_def
    using update_where_ok [OF assms, of "\<lambda>j. aj_id j = i \<and> claimable now j" "claimed w l (Some m) now"] by simp_all
qed

lemma claim_loop_ok:
  assumes "table_ok m db"
  shows "table_ok m (fst (claim_loop w l (Some m) now ids db))"
    "evolves db (fst (claim_loop w l (Some m) now ids db))"
  using assms
proof (induction ids arbitrary: db)
  case (Cons i ids)
  {
    case 1
    then show ?case
      using claim_update_ok(1) [OF 1, of w l now i] Cons.IH(1) by (auto split: prod.splits)
  next
    case 2
    then show ?case
      using claim_update_ok [OF 2, of w l now i] Cons.IH(2) evolves_trans by (auto split: prod.splits)
  }
qed (simp_all add: evolves_refl)

lemma recover_one_ok:
  assumes "table_ok m (fst s)"
  shows "table_ok m (fst (recover_one now i s))" "evolves (fst s) (fst (recover_one now i s))"
proof -
  obtain db r where s: "s = (db, r)" by (cases s)
  have "table_ok m (fst (recover_one now i s)) \<and> evolves db (fst (recover_one now i s))"
  proof (cases "get_job db i")
    case (Some j)
    let ?ex = "aj_max_attempts j \<le> aj_attempt_count j"
    let ?p = "\<lambda>k. aj_id k = i \<and> aj_status k = st_running \<and> aj_lease_expires_at k = aj_lease_expires_at j"
    have ok: "table_ok m db" using assms s by simp
    have "row_refines k (recovered_row now ?ex k) \<and> aj_max_attempts (recovered_row now ?ex k) \<le> m \<and>
        (\<not> terminal (recovered_row now ?ex k) \<longrightarrow> aj_finished_at (recovered_row now ?ex k) = None)"
      if "k \<in> set db" "?p k" for k
    proof -
      have "k = j" using same_row [OF ok Some] that by blast
      moreover have "row_refines k (recovered_row now ?ex k)"
        using that \<open>k = j\<close> by (intro recovered_refines) auto
      moreover have "\<not> terminal k" using that by (simp add: terminal_def)
      ultimately show ?thesis
        using table_ok_row [OF ok that(1)] ok that(1)
        by (auto simp: recovered_row_def Let_def terminal_def table_ok_def)
    qed
    then have "table_ok m (fst (update_where ?p (recovered_row now ?ex) db)) \<and>
        evolves db (fst (update_where ?p (recovered_row now ?ex) db))"
      using update_where_ok [OF ok, of ?p "recovered_row now ?ex"] by blast
    then show ?thesis
      using ok by (auto simp: s Some recover_one_def Let_def evolves_refl split: prod.splits)
  qed (use assms s in \<open>simp add: recover_one_def evolves_refl\<close>)
  then show "table_ok m (fst (recover_one now i s))" "evolves (fst s) (fst (recover_one now i s))"
    using s by simp_all
qed

lemma recovery_ok:
  assumes "table_ok m db"
  shows "table_ok m (fst (recover_stale_jobs_result now db))" "evolves db (fst (recover_stale_jobs_result now db))"
proof -
  have "table_ok m (fst s) \<Longrightarrow> table_ok m (fst (fold (recover_one now) ids s)) \<and>
      evolves (fst s) (fst (fold (recover_one now) ids s))" for ids s
  proof (induction ids arbitrary: s)
    case (Cons i ids)
    note r = recover_one_ok [OF Cons.prems, of now i]
    from Cons.IH [OF r(1)] r(2) evolves_trans show ?case by auto
  qed (simp add: evolves_refl)
  from this [of "(db, _)"] assms
  show "table_ok m (fst (recover_stale_jobs_result now db))" "evolves db (fst (recover_stale_jobs_result now db))"
    by (simp_all add: recover_stale_jobs_result_def)
qed

lemma failure_ok:
  assumes "table_ok m db"
  shows "table_ok m (fst (finish_job_failure jitter i w e now db))"
    "evolves db (fst (finish_job_failure jitter i w e now db))"
proof -
  have "table_ok m (fst (finish_job_failure jitter i w e now db)) \<and>
    evolves db (fst (finish_job_failure jitter i w e now db))"
  proof (cases "get_job db i")
    case (Some j)
    show ?thesis
    proof (cases "aj_status j \<noteq> st_running \<or> aj_worker_id j \<noteq> Some w")
      case True
      with Some assms show ?thesis by (simp add: finish_job_failure_def evolves_refl)
    next
      case False
      have "row_refines k (failed_row jitter e now k) \<and> aj_max_attempts (failed_row jitter e now k) \<le> m \<and>
          (\<not> terminal (failed_row jitter e now k) \<longrightarrow> aj_finished_at (failed_row jitter e now k) = None)"
        if "k \<in> set db" "aj_id k = i" for k
      proof -
        have k: "k = j" using same_row [OF assms Some] that by blast
        with False have "row_refines k (failed_row jitter e now k)" "\<not> terminal k"
          by (auto intro: failed_refines simp: terminal_def)
        with table_ok_row [OF assms that(1)] assms that(1) show ?thesis
          by (auto simp: failed_row_def Let_def terminal_def table_ok_def)
      qed
      then have "table_ok m (fst (update_where (\<lambda>k. aj_id k = i) (failed_row jitter e now) db)) \<and>
          evolves db (fst (update_where (\<lambda>k. aj_id k = i) (failed_row jitter e now) db))"
        using update_where_ok [OF assms, of "\<lambda>k. aj_id k = i" "failed_row jitter e now"] by blast
      with Some False show ?thesis by (simp add: finish_job_failure_def)
    qed
  qed (use assms in \<open>simp add: finish_job_failure_def evolves_refl\<close>)
  then show "table_ok m (fst (finish_job_failure jitter i w e now db))"
    "evolves db (fst (finish_job_failure jitter i w e now db))" by blast+
qed

lemma success_ok:
  assumes "table_ok m db" "finish_job_success job w now db = Inr db'"
    "wf_job job" "aj_finished_at job = None" "\<forall>j\<in>set db. aj_id j = aj_id job \<longrightarrow> keys_kept job j"
  shows "table_ok m db'" "evolves db db'"
proof -
  define f where "f = (\<lambda>j. if aj_id j = aj_id job then completed_row job now j else j)"
  from assms(2) have job: "aj_status job = st_running" and db': "db' = map f db"
    by (auto simp: f_def finish_job_success_def update_where_def split: if_splits)
  then have run: "aj_worker_id job \<noteq> None" "aj_lease_expires_at job \<noteq> None" "aj_heartbeat_at job \<noteq> None"
    using assms(3) by (auto simp: wf_job_def phase_of_def)
  have wf: "\<forall>j\<in>set db. wf_job j" using assms(1) by (simp add: table_ok_def jobs_inv_def)
  have row: "wf_job (f j) \<and> keys_kept j (f j) \<and> aj_id (f j) = aj_id j \<and>
      aj_attempt_count (f j) = aj_attempt_count j \<and> aj_max_attempts (f j) = aj_max_attempts j \<and>
      (terminal (f j) \<or> f j = j)"
    if "j \<in> set db" for j
    using completed_row_ok [OF job run(1) assms(4) run(2,3), of j now] assms(5) wf that
    by (auto simp: f_def keys_kept_def) (simp_all add: completed_row_def)
  show "evolves db db'"
    unfolding db' by (rule evolves_rows) (use row in \<open>simp add: list_all2_conv_all_nth\<close>)
  have k: "list_all2 keys_kept db db'" unfolding db' using row by (simp add: list_all2_conv_all_nth)
  have "map aj_id db' = map aj_id db" unfolding db' using row by simp
  then have "distinct (map aj_id db')" using table_ok_distinct [OF assms(1)] by simp
  moreover have "\<forall>j\<in>set db'. wf_job j" unfolding db' using row by simp
  ultimately have "jobs_inv db'"
    using assms(1) keys_shrink(2) [OF k] unfolding table_ok_def jobs_inv_def by blast
  moreover have "aj_max_attempts k \<le> m \<and> (\<not> terminal k \<longrightarrow> aj_finished_at k = None)" if k: "k \<in> set db'" for k
  proof -
    obtain j where j: "j \<in> set db" "k = f j" using k unfolding db' by auto
    with assms(1) have "aj_max_attempts j \<le> m" "\<not> terminal j \<Longrightarrow> aj_finished_at j = None"
      by (auto simp: table_ok_def)
    then show ?thesis using row [OF j(1)] j(2) by metis
  qed
  ultimately show "table_ok m db'" by (simp add: table_ok_def)
qed

subsection \<open>One job\<close>

lemma attempt_job_Inr:
  assumes "attempt_job jr w job t0 t = Inr t'"
  obtains en clauses s j jobs' where "jr_environment jr = Inr en" "job_clauses job t0 = Inr clauses"
    "run_analysis_pipeline en (jr_keyring jr) True job clauses
       \<lparr>committed = t0, current = without_results (aj_id job) t0\<rparr> = (s, Inr ())"
    "known_job en job t = Inr j" "finish_job_success j w (jr_finished jr) (t_jobs t) = Inr jobs'"
    "t' = (publish_results (en_extractions_readable en) (aj_id job) t0 (t_results (current s)) t)\<lparr>t_jobs := jobs'\<rparr>"
    "unique_results (t_results t')"
proof -
  from assms obtain en clauses where e: "jr_environment jr = Inr en" "job_clauses job t0 = Inr clauses"
    by (auto simp: attempt_job_def bind_Inr_iff)
  obtain s r where r: "run_analysis_pipeline en (jr_keyring jr) True job clauses
       \<lparr>committed = t0, current = without_results (aj_id job) t0\<rparr> = (s, r)" by fastforce
  from assms e r have "r = Inr ()" by (auto simp: attempt_job_def split: sum.splits)
  with assms e r have f: "finish_success en job w (jr_finished jr) t0 (t_results (current s)) t = Inr t'"
    by (simp add: attempt_job_def)
  then obtain j jobs' where j: "known_job en job t = Inr j"
    "finish_job_success j w (jr_finished jr) (t_jobs t) = Inr jobs'"
    "t' = (publish_results (en_extractions_readable en) (aj_id job) t0 (t_results (current s)) t)\<lparr>t_jobs := jobs'\<rparr>"
    "unique_results (t_results t')"
    by (auto simp: finish_success_def Let_def bind_Inr_iff split: if_splits)
  show ?thesis by (rule that [OF e _ j]) (use r \<open>r = Inr ()\<close> in simp)
qed

lemma process_job_ok:
  assumes "table_ok m (t_jobs t0)" "others_ok m (jr_others jr)"
  shows "table_ok m (t_jobs (fst (process_job jr i w t0)))"
    "evolves (t_jobs t0) (t_jobs (fst (process_job jr i w t0)))"
proof -
  define t where "t = jr_others jr t0"
  have t: "table_ok m (t_jobs t)" "evolves (t_jobs t0) (t_jobs t)"
    using assms by (auto simp: others_ok_def t_def)
  have "table_ok m (t_jobs (fst (process_job jr i w t0))) \<and>
      evolves (t_jobs t0) (t_jobs (fst (process_job jr i w t0)))"
  proof (cases "owned i w (t_jobs t0)")
    case False
    then show ?thesis using t by (auto simp: process_job_def owned_def t_def Let_def split: option.splits)
  next
    case True
    then obtain job where job: "get_job (t_jobs t0) i = Some job" "aj_status job = st_running"
      "aj_worker_id job = Some w" by (auto simp: owned_def)
    show ?thesis
    proof (cases "attempt_job jr w job t0 t")
      case (Inl e)
      then show ?thesis
        using job failure_ok [OF t(1), of "jr_jitter jr" i w e "jr_finished jr"] t(2) evolves_trans
        by (auto simp: process_job_def t_def [symmetric] split: prod.splits)
    next
      case (Inr t')
      from Inr obtain en clauses s j jobs' where j: "jr_environment jr = Inr en" "job_clauses job t0 = Inr clauses"
        "run_analysis_pipeline en (jr_keyring jr) True job clauses
           \<lparr>committed = t0, current = without_results (aj_id job) t0\<rparr> = (s, Inr ())"
        "known_job en job t = Inr j" "finish_job_success j w (jr_finished jr) (t_jobs t) = Inr jobs'"
        and t': "t' = (publish_results (en_extractions_readable en) (aj_id job) t0 (t_results (current s)) t)\<lparr>t_jobs := jobs'\<rparr>"
        by (rule attempt_job_Inr)
      have mem: "job \<in> set (t_jobs t0)" "aj_id job = i" using get_job_Some [OF job(1)] by auto
      have own: "wf_job job" "aj_finished_at job = None"
        using assms(1) mem job(2) by (auto simp: table_ok_def jobs_inv_def terminal_def)
      have kept: "\<forall>k\<in>set (t_jobs t). aj_id k = aj_id job \<longrightarrow> keys_kept job k"
        using t(2) mem(1) table_ok_distinct [OF t(1)] unfolding evolves_def
        by (metis get_job_mem option.inject)
      have "wf_job j \<and> aj_finished_at j = None \<and> (\<forall>k\<in>set (t_jobs t). aj_id k = aj_id j \<longrightarrow> keys_kept j k)"
      proof (cases "en_extractions_readable en")
        case True
        with j(4) own kept show ?thesis by (simp add: known_job_def)
      next
        case False
        with j(4) have g: "get_job (t_jobs t) (aj_id job) = Some j"
          by (auto simp: known_job_def split: option.splits)
        have "aj_status j = st_running" using j(5) by (auto simp: finish_job_success_def split: if_splits)
        with get_job_Some [OF g] t(1) same_row [OF t(1) g] show ?thesis
          by (auto simp: table_ok_def jobs_inv_def terminal_def keys_kept_def)
      qed
      with success_ok [OF t(1) j(5)] have "table_ok m (t_jobs t')" "evolves (t_jobs t) (t_jobs t')"
        unfolding t' by simp_all
      with t(2) job Inr evolves_trans show ?thesis
        by (auto simp: process_job_def t_def [symmetric])
    qed
  qed
  then show "table_ok m (t_jobs (fst (process_job jr i w t0)))"
    "evolves (t_jobs t0) (t_jobs (fst (process_job jr i w t0)))" by blast+
qed

subsection \<open>Rounds\<close>

definition attempts_of :: "jobs \<Rightarrow> pystr \<Rightarrow> int" where
  "attempts_of db i = (case get_job db i of None \<Rightarrow> 0 | Some j \<Rightarrow> aj_attempt_count j)"

lemma claim_loop_claims:
  assumes "table_ok m db" "claim_loop w l (Some m) now ids db = (db', Some job)"
  shows "\<exists>j. get_job db (aj_id job) = Some j \<and> aj_attempt_count j < m \<and> get_job db' (aj_id job) = Some job \<and>
    aj_attempt_count job = aj_attempt_count j + 1"
  using assms
proof (induction ids arbitrary: db)
  case (Cons i ids)
  obtain db1 n where u: "claim_update w l (Some m) now i db = (db1, n)" by fastforce
  show ?case
  proof (cases "n = 1")
    case False
    then have "db1 = db"
    proof -
      have "filter (\<lambda>j. aj_id j = i \<and> claimable now j) db = []"
      proof (rule ccontr)
        assume "filter (\<lambda>j. aj_id j = i \<and> claimable now j) db \<noteq> []"
        then obtain j where "j \<in> set db" "aj_id j = i" "claimable now j"
          by (auto simp: filter_empty_conv)
        with one_row [OF table_ok_distinct [OF Cons.prems(1)], of j "claimable now"] u False show False
          by (auto simp: claim_update_def update_where_def)
      qed
      with u show ?thesis
        by (auto simp: claim_update_def update_where_def filter_empty_conv intro!: map_idI)
    qed
    with Cons u False show ?thesis by simp
  next
    case True
    with Cons.prems(2) u have g: "db' = db1" "get_job db1 i = Some job" by auto
    have "db1 = map (\<lambda>j. if aj_id j = i \<and> claimable now j then claimed w l (Some m) now j else j) db"
      using u by (auto simp: claim_update_def update_where_def)
    with g(2) obtain j where j: "get_job db i = Some j"
      "job = (if aj_id j = i \<and> claimable now j then claimed w l (Some m) now j else j)"
      by (auto simp: find_map_same_id claimed_def)
    have "filter (\<lambda>j. aj_id j = i \<and> claimable now j) db \<noteq> []"
      using u True by (auto simp: claim_update_def update_where_def)
    then obtain k where "k \<in> set db" "aj_id k = i" "claimable now k" by (auto simp: filter_empty_conv)
    with same_row [OF Cons.prems(1) j(1)] have "claimable now j" by blast
    moreover have "aj_id j = i" "j \<in> set db" using get_job_Some [OF j(1)] by auto
    ultimately show ?thesis
      using j g Cons.prems(1)
      by (intro exI [of _ j]) (auto simp: claimed_def claimable_def table_ok_def)
  qed
qed simp

lemma get_job_in: "table_ok m db \<Longrightarrow> j \<in> set db \<Longrightarrow> get_job db (aj_id j) = Some j"
  by (rule get_job_mem [OF table_ok_distinct])

lemma run_round_ok:
  assumes "table_ok (wc_max_attempts c) (t_jobs t)" "others_ok (wc_max_attempts c) (jr_others (wr_run w))"
    and "run_round c w t = (t', r)"
  shows "table_ok (wc_max_attempts c) (t_jobs t')" "evolves (t_jobs t) (t_jobs t')"
    "\<And>i out j. r = Inr (Some (i, out)) \<Longrightarrow> j \<in> set (t_jobs t) \<Longrightarrow> aj_id j = i \<Longrightarrow>
       aj_attempt_count j < wc_max_attempts c \<and>
       (\<exists>k\<in>set (t_jobs t'). aj_id k = i \<and> aj_attempt_count j + 1 \<le> aj_attempt_count k)"
proof -
  let ?m = "wc_max_attempts c"
  define t1 where "t1 = t\<lparr>t_jobs := fst (recover_stale_jobs_result (wr_now w) (t_jobs t))\<rparr>"
  have t1: "table_ok ?m (t_jobs t1)" "evolves (t_jobs t) (t_jobs t1)"
    using recovery_ok [OF assms(1)] by (simp_all add: t1_def)
  consider (idle) "t' = t1" "\<forall>x. r \<noteq> Inr (Some x)"
    | (claimed) l jobs' job where
      "claim_next_job (wc_worker_id c) l (Some ?m) (wr_now w) (t_jobs t1) = (jobs', job)"
      "case job of None \<Rightarrow> t' = t1\<lparr>t_jobs := jobs'\<rparr> \<and> r = Inr None
       | Some j \<Rightarrow> t' = fst (process_job (wr_run w) (aj_id j) (wc_worker_id c) (t1\<lparr>t_jobs := jobs'\<rparr>)) \<and>
           (\<exists>out. r = Inr (Some (aj_id j, out)))"
    using assms(3)
    by (auto simp: run_round_def t1_def [symmetric] Let_def split: if_splits sum.splits prod.splits option.splits)
  then have "table_ok ?m (t_jobs t') \<and> evolves (t_jobs t) (t_jobs t') \<and>
      (\<forall>i out j. r = Inr (Some (i, out)) \<longrightarrow> j \<in> set (t_jobs t) \<longrightarrow> aj_id j = i \<longrightarrow>
       aj_attempt_count j < ?m \<and>
       (\<exists>k\<in>set (t_jobs t'). aj_id k = i \<and> aj_attempt_count j + 1 \<le> aj_attempt_count k))"
  proof cases
    case idle
    with t1 show ?thesis by auto
  next
    case claimed
    let ?t2 = "t1\<lparr>t_jobs := jobs'\<rparr>"
    have t2: "table_ok ?m (t_jobs ?t2)" "evolves (t_jobs t1) (t_jobs ?t2)"
      using claim_loop_ok [OF t1(1), of "wc_worker_id c" l "wr_now w" "claim_candidates (wr_now w) (t_jobs t1)"]
        claimed(1) by (simp_all add: claim_next_job_def)
    show ?thesis
    proof (cases job)
      case None
      with claimed t2 t1 evolves_trans show ?thesis by auto
    next
      case (Some cj)
      with claimed(2) obtain out where
        t': "t' = fst (process_job (wr_run w) (aj_id cj) (wc_worker_id c) ?t2)"
        "r = Inr (Some (aj_id cj, out))" by auto
      from process_job_ok [OF t2(1) assms(2)] t'(1)
      have t3: "table_ok ?m (t_jobs t')" "evolves (t_jobs ?t2) (t_jobs t')" by auto
      obtain j1 where j1: "get_job (t_jobs t1) (aj_id cj) = Some j1" "aj_attempt_count j1 < ?m"
        "get_job jobs' (aj_id cj) = Some cj" "aj_attempt_count cj = aj_attempt_count j1 + 1"
        using claim_loop_claims [OF t1(1) claimed(1) [unfolded claim_next_job_def Some]] by blast
      from get_job_Some [OF j1(3)] t3(2) obtain k where
        k: "k \<in> set (t_jobs t')" "aj_id k = aj_id cj" "aj_attempt_count cj \<le> aj_attempt_count k"
        by (auto simp: evolves_def)
      have low: "aj_attempt_count j \<le> aj_attempt_count j1" if "j \<in> set (t_jobs t)" "aj_id j = aj_id cj" for j
        using t1(2) that same_row [OF t1(1) j1(1)] unfolding evolves_def by fastforce
      have "evolves (t_jobs t) (t_jobs t')"
        by (rule evolves_trans [OF t1(2) evolves_trans [OF t2(2) t3(2)]])
      moreover have "aj_attempt_count j < ?m \<and>
          (\<exists>k\<in>set (t_jobs t'). aj_id k = aj_id cj \<and> aj_attempt_count j + 1 \<le> aj_attempt_count k)"
        if "j \<in> set (t_jobs t)" "aj_id j = aj_id cj" for j
        using low [OF that] j1(2,4) k by (intro conjI bexI [of _ k]) auto
      ultimately show ?thesis using t3(1) t'(2) by simp
    qed
  qed
  note c = this
  show "table_ok ?m (t_jobs t')" "evolves (t_jobs t) (t_jobs t')"
    by (rule c [THEN conjunct1], rule c [THEN conjunct2, THEN conjunct1])
  show "aj_attempt_count j < ?m \<and>
      (\<exists>k\<in>set (t_jobs t'). aj_id k = i \<and> aj_attempt_count j + 1 \<le> aj_attempt_count k)"
    if "r = Inr (Some (i, out))" "j \<in> set (t_jobs t)" "aj_id j = i" for i out j
    by (rule c [THEN conjunct2, THEN conjunct2, rule_format, OF that])
qed

text \<open>The heartbeats of any worker and whole rounds of another worker are admissible.\<close>

lemma renew_ok:
  assumes "table_ok m db"
  shows "table_ok m (fst (renew_job_lease i w l now db))" "evolves db (fst (renew_job_lease i w l now db))"
proof -
  let ?p = "\<lambda>j. aj_id j = i \<and> aj_status j = st_running \<and> aj_worker_id j = Some w"
  let ?f = "\<lambda>j. j\<lparr>aj_heartbeat_at := Some now, aj_lease_expires_at := Some (now + l)\<rparr>"
  have "row_refines j (?f j)" if "?p j" for j
    using that by (intro row_refines_step) (auto simp: phase_of_def terminal_def wf_job_def)
  moreover have "aj_max_attempts (?f j) \<le> m \<and> (\<not> terminal (?f j) \<longrightarrow> aj_finished_at (?f j) = None)"
    if "j \<in> set db" for j
    using that assms by (auto simp: table_ok_def terminal_def)
  moreover have "fst (renew_job_lease i w l now db) = fst (update_where ?p ?f db)"
    by (simp add: renew_job_lease_def split: prod.splits)
  ultimately show "table_ok m (fst (renew_job_lease i w l now db))"
    "evolves db (fst (renew_job_lease i w l now db))"
    using update_where_ok [OF assms, of ?p ?f] by simp_all
qed

lemma heartbeats_ok: "others_ok m (\<lambda>t. t\<lparr>t_jobs := heartbeat_loop i w l ts (t_jobs t)\<rparr>)"
proof -
  have "table_ok m db \<Longrightarrow> table_ok m (heartbeat_loop i w l ts db) \<and> evolves db (heartbeat_loop i w l ts db)" for db
  proof (induction ts arbitrary: db)
    case (Cons now ts)
    note r = renew_ok [OF Cons.prems, of i w l now]
    from Cons.IH [OF r(1)] r evolves_trans show ?case by (auto split: prod.splits)
  qed (simp add: evolves_refl)
  then show ?thesis by (simp add: others_ok_def)
qed

lemma other_rounds_ok:
  assumes "others_ok (wc_max_attempts c) (jr_others (wr_run w))"
  shows "others_ok (wc_max_attempts c) (\<lambda>t. fst (run_round c w t))"
  unfolding others_ok_def using run_round_ok(1,2) [OF _ assms] by (metis prod.collapse)

text \<open>C10: However many rounds a worker runs, and whatever admissible steps other sessions take in between, the
  queue's invariant holds afterwards, and a job is processed at most as often as attempts are left for it: the
  loop's list of outcomes names it at most \<open>max_attempts - attempt_count\<close> times.\<close>

theorem worker_attempts_bounded:
  assumes "table_ok (wc_max_attempts c) (t_jobs t)"
    and "\<forall>w\<in>set ws. others_ok (wc_max_attempts c) (jr_others (wr_run w))"
    and "worker_loop c ws t = (t', outs, r)"
  shows "table_ok (wc_max_attempts c) (t_jobs t') \<and>
    (\<forall>j\<in>set (t_jobs t).
       int (length (filter (\<lambda>p. fst p = aj_id j) outs)) \<le> max 0 (wc_max_attempts c - aj_attempt_count j))"
  using assms
proof (induction ws arbitrary: t outs)
  case Nil
  then show ?case by auto
next
  case (Cons w ws)
  obtain t1 q where r1: "run_round c w t = (t1, q)" by fastforce
  note ok = run_round_ok [OF Cons.prems(1) _ r1]
  have o: "others_ok (wc_max_attempts c) (jr_others (wr_run w))" using Cons.prems(2) by simp
  show ?case
  proof (cases q)
    case (Inl e)
    with Cons.prems(3) r1 ok(1) [OF o] show ?thesis by auto
  next
    case (Inr d0)
    obtain t2 outs1 r2 where l: "worker_loop c ws t1 = (t2, outs1, r2)" by (metis prod_cases3)
    with Cons.prems(3) r1 Inr have e: "t' = t2" "r = r2" "outs = (case d0 of None \<Rightarrow> outs1 | Some d \<Rightarrow> d # outs1)"
      by auto
    from Cons.IH [OF ok(1) [OF o] _ l [folded e(1,2)]] Cons.prems(2) l
    have IH: "table_ok (wc_max_attempts c) (t_jobs t2)"
      "\<forall>j\<in>set (t_jobs t1). int (length (filter (\<lambda>p. fst p = aj_id j) outs1)) \<le>
         max 0 (wc_max_attempts c - aj_attempt_count j)"
      by (simp_all add: e(1))
    have "int (length (filter (\<lambda>p. fst p = aj_id j) outs)) \<le> max 0 (wc_max_attempts c - aj_attempt_count j)"
      if j: "j \<in> set (t_jobs t)" for j
    proof (cases "\<exists>out. d0 = Some (aj_id j, out)")
      case True
      then obtain out where d: "d0 = Some (aj_id j, out)" by blast
      with ok(3) [OF o _ j] Inr obtain k where "aj_attempt_count j < wc_max_attempts c" "k \<in> set (t_jobs t1)"
        "aj_id k = aj_id j" "aj_attempt_count j + 1 \<le> aj_attempt_count k" by blast
      with IH(2) d e(3) show ?thesis by fastforce
    next
      case False
      then have "filter (\<lambda>p. fst p = aj_id j) outs = filter (\<lambda>p. fst p = aj_id j) outs1"
        using e(3) by (auto split: option.splits)
      moreover obtain k where "k \<in> set (t_jobs t1)" "aj_id k = aj_id j" "aj_attempt_count j \<le> aj_attempt_count k"
        using ok(2) [OF o] j unfolding evolves_def by blast
      ultimately show ?thesis using IH(2) by fastforce
    qed
    with IH(1) e(1) show ?thesis by blast
  qed
qed

definition idle_run :: job_run where
  "idle_run = \<lparr>jr_environment = Inl (ValueError (lit ''no provider'')), jr_keyring = Inr example_keyring,
     jr_others = (\<lambda>t. t), jr_finished = 5, jr_jitter = (\<lambda>a b. a)\<rparr>"

definition example_config :: worker_config where
  "example_config = \<lparr>wc_worker_id = lit ''w'', wc_poll_seconds = Dec 1 0, wc_lease_seconds = Dec 120 0,
     wc_heartbeat_seconds = Dec 30 0, wc_max_attempts = 3\<rparr>"

definition queued_tables :: tables where
  "queued_tables = example_tables\<lparr>t_jobs := [new_job (lit ''j'') (lit ''d'') (lit ''key'') 0]\<rparr>"

theorem worker_attempts_bounded_witness:
  "\<exists>t' outs r. worker_loop example_config [\<lparr>wr_now = 1, wr_run = idle_run\<rparr>] queued_tables = (t', outs, r) \<and>
     outs = [(lit ''j'', lit ''failed'')] \<and> table_ok 3 (t_jobs t') \<and>
     int (length (filter (\<lambda>p. fst p = lit ''j'') outs)) \<le> 3"
proof -
  obtain t' outs r where l: "worker_loop example_config [\<lparr>wr_now = 1, wr_run = idle_run\<rparr>] queued_tables = (t', outs, r)"
    by (metis prod_cases3)
  moreover have "fst (snd (worker_loop example_config [\<lparr>wr_now = 1, wr_run = idle_run\<rparr>] queued_tables)) =
      [(lit ''j'', lit ''failed'')]"
    by code_simp
  moreover have "table_ok (wc_max_attempts example_config) (t_jobs queued_tables)"
    by (simp add: table_ok_def jobs_inv_def queued_tables_def example_config_def new_job_def wf_job_def phase_of_def
        terminal_def map_filter_simps)
  moreover have "others_ok m (jr_others idle_run)" for m
    by (simp add: others_ok_def idle_run_def evolves_refl)
  ultimately show ?thesis
    using worker_attempts_bounded [OF _ _ l]
    by (auto simp: example_config_def queued_tables_def new_job_def)
qed

end
