(* ===== verification/Analysis_Worker_Runs.thy ===== *)
theory Analysis_Worker_Runs
  imports Analysis_Worker_Correct
begin

text \<open>
  What one processed job leaves behind: the published result items, and the fate of a job whose lease another
  worker took over while it was processed.
\<close>

lemma managed_success:
  assumes "run_analysis_pipeline en k True job clauses s = (s1, Inr ())" "en_extractions_readable en"
  shows "\<exists>items. items_for job clauses items \<and> current s1 = add_results items (current s)"
proof -
  from assms(1) obtain kr where "k = Inr kr" and b: "pipeline_body en kr job clauses s = (s1, Inr ())"
    by (auto simp: run_analysis_pipeline_def pipeline_failed_def Let_def split: sum.splits prod.splits)
  moreover have "fst (load_confirmation_snapshot en kr d ow s) = s" for d ow
    using assms(2) by (simp add: load_confirmation_snapshot_def)
  ultimately obtain ow info items where i: "analyze_clauses en kr job ow info 0 0 clauses = Inr items"
    "s1 = s\<lparr>current := (current s)\<lparr>t_results := t_results (current s) @ items\<rparr>\<rparr>"
    by (auto simp: pipeline_body_def split: sum.splits prod.splits) (metis fst_conv)+
  from analyze_clauses_items [OF i(1)] i(2) show ?thesis by (auto simp: add_results_def)
qed

text \<open>The outcomes of a failure are not the outcome of a success.\<close>

lemma failure_outcome: "snd (finish_job_failure jitter i w e now db) \<noteq> outcome_completed"
  by (auto simp: finish_job_failure_def outcome_completed_def split: option.splits)

text \<open>Items of the job that other sessions have committed since it was taken up.\<close>

definition published_meanwhile :: "pystr \<Rightarrow> tables \<Rightarrow> tables \<Rightarrow> result_item list" where
  "published_meanwhile i t0 t =
     filter (\<lambda>r. ri_analysis_job_id r = i \<and> r \<notin> set (t_results t0)) (t_results t)"

lemma published_results:
  "t_results (publish_results True i t0 (t_results (add_results items (without_results i t0))) t) =
     filter (\<lambda>r. \<not> (ri_analysis_job_id r = i \<and> r \<in> set (t_results t0))) (t_results t) @ items"
proof -
  have "filter (\<lambda>r. r \<notin> deleted_results True i t0) (t_results t0) = filter (\<lambda>r. ri_analysis_job_id r \<noteq> i) (t_results t0)"
    by (rule filter_cong) (auto simp: deleted_results_def)
  moreover have "filter (\<lambda>r. r \<notin> deleted_results True i t0) (t_results t) =
      filter (\<lambda>r. \<not> (ri_analysis_job_id r = i \<and> r \<in> set (t_results t0))) (t_results t)"
    by (rule filter_cong) (auto simp: deleted_results_def)
  ultimately show ?thesis by (simp add: publish_results_def Let_def add_results_def without_results_def)
qed

lemma items_for_keys:
  assumes "items_for job clauses items"
  shows "map (\<lambda>r. (ri_analysis_job_id r, ri_clause_record_id r)) items = map (\<lambda>c. (aj_id job, cl_id c)) clauses"
  using assms unfolding items_for_def by (induction rule: list_all2_induct) auto

text \<open>When the unique constraint admits the new items.\<close>

lemma unique_published:
  assumes "items_for job clauses items" "aj_id job = i"
  shows "unique_results (filter (\<lambda>r. \<not> (ri_analysis_job_id r = i \<and> r \<in> set (t_results t0))) (t_results t) @ items) \<Longrightarrow>
      \<forall>r\<in>set (published_meanwhile i t0 t). ri_clause_record_id r \<notin> set (map cl_id clauses)"
    and "unique_results (t_results t) \<Longrightarrow> distinct (map cl_id clauses) \<Longrightarrow>
      \<forall>r\<in>set (published_meanwhile i t0 t). ri_clause_record_id r \<notin> set (map cl_id clauses) \<Longrightarrow>
      unique_results (filter (\<lambda>r. \<not> (ri_analysis_job_id r = i \<and> r \<in> set (t_results t0))) (t_results t) @ items)"
proof -
  let ?k = "\<lambda>r. (ri_analysis_job_id r, ri_clause_record_id r)"
  let ?kept = "filter (\<lambda>r. \<not> (ri_analysis_job_id r = i \<and> r \<in> set (t_results t0))) (t_results t)"
  have k: "map ?k items = map (\<lambda>c. (i, cl_id c)) clauses" using items_for_keys [OF assms(1)] assms(2) by simp
  have "?k ` set items = (\<lambda>c. (i, cl_id c)) ` set clauses" using arg_cong [OF k, of set] by simp
  then have u: "unique_results (?kept @ items) \<longleftrightarrow>
      distinct (map ?k ?kept) \<and> distinct (map (\<lambda>c. (i, cl_id c)) clauses) \<and>
      ?k ` set ?kept \<inter> (\<lambda>c. (i, cl_id c)) ` set clauses = {}"
    by (simp add: unique_results_def k)
  show "unique_results (?kept @ items) \<Longrightarrow>
      \<forall>r\<in>set (published_meanwhile i t0 t). ri_clause_record_id r \<notin> set (map cl_id clauses)"
    unfolding u by (fastforce simp: published_meanwhile_def)
  assume "unique_results (t_results t)" and d: "distinct (map cl_id clauses)"
    and n: "\<forall>r\<in>set (published_meanwhile i t0 t). ri_clause_record_id r \<notin> set (map cl_id clauses)"
  then have "distinct (map ?k ?kept)" by (simp add: unique_results_def distinct_map_filter)
  moreover have "distinct (map (\<lambda>c. (i, cl_id c)) clauses)"
    using d by (simp add: distinct_map inj_on_def)
  moreover have "?k ` set ?kept \<inter> (\<lambda>c. (i, cl_id c)) ` set clauses = {}"
    using n by (auto simp: published_meanwhile_def)
  ultimately show "unique_results (?kept @ items)" unfolding u by blast
qed

text \<open>What an attempt that succeeds commits.\<close>

lemma successful_attempt:
  assumes "attempt_job jr w job t0 t = Inr t'" and "jr_environment jr = Inr en" and "en_extractions_readable en"
    and "aj_id job = i"
  obtains clauses items where "job_clauses job t0 = Inr clauses" "items_for job clauses items"
    "t_results t' = filter (\<lambda>r. \<not> (ri_analysis_job_id r = i \<and> r \<in> set (t_results t0))) (t_results t) @ items"
    "\<forall>r\<in>set (t_results t). ri_analysis_job_id r = i \<and> r \<notin> set (t_results t0) \<longrightarrow>
       ri_clause_record_id r \<notin> set (map cl_id clauses)"
    "t_documents t' = t_documents t" "t_clauses t' = t_clauses t" "t_extractions t' = t_extractions t"
    "t_pages t' = t_pages t"
proof -
  from assms(1) obtain en' clauses s j jobs' where p: "jr_environment jr = Inr en'" "job_clauses job t0 = Inr clauses"
    "run_analysis_pipeline en' (jr_keyring jr) True job clauses
       \<lparr>committed = t0, current = without_results (aj_id job) t0\<rparr> = (s, Inr ())"
    and t': "t' = (publish_results (en_extractions_readable en') (aj_id job) t0 (t_results (current s)) t)\<lparr>t_jobs := jobs'\<rparr>"
    and u: "unique_results (t_results t')"
    by (rule attempt_job_Inr)
  have "en' = en" using p(1) assms(2) by simp
  with managed_success [OF p(3)] assms(3) obtain items where i: "items_for job clauses items"
    "current s = add_results items (without_results (aj_id job) t0)" by auto
  have r: "t_results t' = filter (\<lambda>r. \<not> (ri_analysis_job_id r = i \<and> r \<in> set (t_results t0))) (t_results t) @ items"
    using published_results [of i t0 items t] assms(3,4) \<open>en' = en\<close> by (simp add: t' i(2))
  have "\<forall>r\<in>set (published_meanwhile i t0 t). ri_clause_record_id r \<notin> set (map cl_id clauses)"
    using unique_published(1) [OF i(1) assms(4)] u r by simp
  then have n: "\<forall>r\<in>set (t_results t). ri_analysis_job_id r = i \<and> r \<notin> set (t_results t0) \<longrightarrow>
      ri_clause_record_id r \<notin> set (map cl_id clauses)"
    by (simp add: published_meanwhile_def)
  show thesis by (rule that [OF p(2) i(1) r n]) (simp_all add: t' publish_results_def Let_def)
qed

text \<open>C8: Processing a job replaces its result items as a whole or leaves them alone, when the extractions can be
  read.  When the outcome is that the job is completed, the items it had when it was taken up are gone, and one new item
  for each clause of its document, in the order of the clauses, follows what the other sessions left; whatever they
  have committed for the job meanwhile is for none of these clauses.  On any other outcome no item is touched.
  Documents, clauses, extractions and pages stay as the other sessions left them.\<close>

theorem completed_job_publishes_its_results:
  assumes "process_job jr i w t0 = (t', outcome)" and "jr_environment jr = Inr en" and "en_extractions_readable en"
  shows "(outcome = outcome_completed \<longrightarrow>
      (\<exists>job clauses items. get_job (t_jobs t0) i = Some job \<and> job_clauses job t0 = Inr clauses \<and>
         items_for job clauses items \<and>
         t_results t' =
           filter (\<lambda>r. \<not> (ri_analysis_job_id r = i \<and> r \<in> set (t_results t0))) (t_results (jr_others jr t0)) @ items \<and>
         (\<forall>r\<in>set (t_results (jr_others jr t0)). ri_analysis_job_id r = i \<and> r \<notin> set (t_results t0) \<longrightarrow>
            ri_clause_record_id r \<notin> set (map cl_id clauses)))) \<and>
    (outcome \<noteq> outcome_completed \<longrightarrow> t_results t' = t_results (jr_others jr t0)) \<and>
    t_documents t' = t_documents (jr_others jr t0) \<and> t_clauses t' = t_clauses (jr_others jr t0) \<and>
    t_extractions t' = t_extractions (jr_others jr t0) \<and> t_pages t' = t_pages (jr_others jr t0)"
    (is "?result t' outcome")
proof -
  let ?t = "jr_others jr t0"
  have lost: "?result ?t outcome_claim_lost" by (simp add: outcome_claim_lost_def outcome_completed_def)
  show ?thesis
  proof (cases "get_job (t_jobs t0) i")
    case None
    with assms(1) lost show ?thesis by (simp add: process_job_def Let_def)
  next
    case (Some job)
    show ?thesis
    proof (cases "aj_status job \<noteq> st_running \<or> aj_worker_id job \<noteq> Some w")
      case True
      with assms(1) Some lost show ?thesis by (simp add: process_job_def Let_def)
    next
      case False
      show ?thesis
      proof (cases "attempt_job jr w job t0 ?t")
        case (Inl e)
        with assms(1) Some False obtain jobs' where
          "finish_job_failure (jr_jitter jr) i w e (jr_finished jr) (t_jobs ?t) = (jobs', outcome)"
          "t' = ?t\<lparr>t_jobs := jobs'\<rparr>"
          by (auto simp: process_job_def Let_def split: prod.splits)
        moreover from this(1) have "outcome \<noteq> outcome_completed" using failure_outcome by (metis snd_conv)
        ultimately show ?thesis by simp
      next
        case (Inr t1)
        with assms(1) Some False have o: "t1 = t'" "outcome = outcome_completed"
          by (simp_all add: process_job_def Let_def)
        have "aj_id job = i" using get_job_Some [OF Some] by simp
        from Inr [unfolded o] assms(2,3) this show ?thesis by (rule successful_attempt) (use Some o in auto)
      qed
    qed
  qed
qed

subsection \<open>A lost lease\<close>



definition example_job_run :: "(tables \<Rightarrow> tables) \<Rightarrow> job_run" where
  "example_job_run others = \<lparr>jr_environment = Inr example_environment, jr_keyring = Inr example_keyring,
     jr_others = others, jr_finished = 5, jr_jitter = (\<lambda>a b. a)\<rparr>"

lemma example_job_facts:
  "get_job (t_jobs example_tables) (lit ''j'') = Some example_job" "aj_status example_job = st_running"
  "aj_worker_id example_job = Some (lit ''w'')" "job_clauses example_job example_tables = Inr [example_clause]"
  "en_extractions_readable example_environment" "without_results (lit ''j'') example_tables = example_tables"
  by code_simp+




lemma completed_job_publishes_its_results_witness:
  "\<exists>t' items. process_job (example_job_run (\<lambda>t. t)) (lit ''j'') (lit ''w'') example_tables = (t', outcome_completed) \<and>
     items_for example_job [example_clause] items \<and> t_results t' = items"
proof -
  obtain s item where s: "run_analysis_pipeline example_environment (Inr example_keyring) True example_job
      [example_clause] (open_session example_tables) = (s, Inr ())" "t_results (current s) = [item]"
    using example_run by blast
  obtain t' outcome where p: "process_job (example_job_run (\<lambda>t. t)) (lit ''j'') (lit ''w'') example_tables = (t', outcome)"
    by fastforce
  have f: "\<exists>jobs'. finish_job_success example_job (lit ''w'') 5 (t_jobs example_tables) = Inr jobs'"
    by (simp add: finish_job_success_def update_where_def example_job_facts example_tables_def)
  have "unique_results (t_results (publish_results True (lit ''j'') example_tables [item] example_tables))"
    by (simp add: publish_results_def deleted_results_def unique_results_def example_tables_def)
  moreover have "aj_id example_job = lit ''j''" by (simp add: example_job_def new_job_def)
  ultimately have "outcome = outcome_completed"
    using p f s example_job_facts
    by (auto simp: process_job_def attempt_job_def finish_success_def known_job_def example_job_run_def open_session_def Let_def)
  with completed_job_publishes_its_results [OF p, of example_environment] p example_job_facts
  show ?thesis by (auto simp: example_job_run_def example_tables_def)
qed

end
