(* ===== verification/Api_Base.thy ===== *)
theory Api_Base
  imports Database Nested_Encryption
begin

text \<open>
  What the request handlers under \<^verbatim>\<open>src/backend/app/api\<close> share: error answers, the handling of an
  exception class by an error answer, the services a handler calls, and the entity tag of a request header.
\<close>

subsection \<open>Error answers\<close>

text \<open>\<open>HTTPException(status_code, detail=_error_detail(code, message, retryable=...))\<close>.\<close>

definition api_error :: "int \<Rightarrow> string \<Rightarrow> string \<Rightarrow> bool \<Rightarrow> exn" where
  "api_error st code message again =
     HTTPException \<lparr>http_status = st, http_code = Some (lit code), http_message = lit message,
       http_retryable = Some again, http_headers = []\<rparr>"

text \<open>\<open>HTTPException(status_code, detail="...")\<close>.\<close>

definition plain_error :: "int \<Rightarrow> string \<Rightarrow> exn" where
  "plain_error st message =
     HTTPException \<lparr>http_status = st, http_code = None, http_message = lit message,
       http_retryable = None, http_headers = []\<rparr>"

definition is_class :: "string \<Rightarrow> exn \<Rightarrow> bool" where
  "is_class name e = (case e of OtherError n m \<Rightarrow> n = lit name | _ \<Rightarrow> False)"

fun is_type_error :: "exn \<Rightarrow> bool" where
  "is_type_error (TypeError m) = True"
| "is_type_error e = False"

text \<open>\<open>try: ... except name as exc: raise x from exc\<close>.\<close>

definition except_class :: "string \<Rightarrow> exn \<Rightarrow> 'a result \<Rightarrow> 'a result" where
  "except_class name x r = (case r of Inl e \<Rightarrow> Inl (if is_class name e then x else e) | Inr v \<Rightarrow> Inr v)"

abbreviation no_decrypt :: "exn \<Rightarrow> 'a result \<Rightarrow> 'a result" where
  "no_decrypt \<equiv> except_class ''ScalarDecryptionError''"

abbreviation no_encrypt :: "exn \<Rightarrow> 'a result \<Rightarrow> 'a result" where
  "no_encrypt \<equiv> except_class ''ScalarEncryptionError''"

lemma except_class_ok [simp]: "except_class name x r = Inr v \<longleftrightarrow> r = Inr v"
  by (simp add: except_class_def split: sum.splits)

lemma except_class_Inr [simp]: "except_class name x (Inr v) = Inr v"
  by simp

subsection \<open>Services\<close>

text \<open>The cipher with its random nonces, the hash of a text, and the configured key ring (or the error).\<close>

record services =
  sv_aead :: aead
  sv_nonce :: "nat \<Rightarrow> bytes"
  sv_sha :: "pystr \<Rightarrow> pystr"
  sv_keyring :: "encryption_keyring result"

subsection \<open>Values of JSON columns\<close>

text \<open>\<open>v in {...}\<close> for a set of names: a list or a dictionary is not hashable.\<close>

definition in_names :: "pyval \<Rightarrow> string list \<Rightarrow> bool result" where
  "in_names v names =
     (case v of
        PList _ \<Rightarrow> Inl (TypeError (lit ''unhashable type: list''))
      | PDict _ \<Rightarrow> Inl (TypeError (lit ''unhashable type: dict''))
      | _ \<Rightarrow> Inr (v \<in> (\<lambda>n. PStr (lit n)) ` set names))"

lemma in_names_PStr [simp]: "in_names (PStr s) names = Inr (s \<in> lit ` set names)"
  by (auto simp: in_names_def)

lemma in_names_Inr: "in_names v names = Inr b \<Longrightarrow> b \<longleftrightarrow> v \<in> (\<lambda>n. PStr (lit n)) ` set names"
  by (auto simp: in_names_def split: pyval.splits)

definition py_or :: "pyval \<Rightarrow> pyval \<Rightarrow> pyval" where
  "py_or a b = (if is_truthy a then a else b)"

subsection \<open>The \<open>If-Match\<close> header\<close>

definition version_token :: "pystr \<Rightarrow> pystr" where
  "version_token h =
     (let t = strip h;
          t1 = (if startswith t (lit ''W/'') then drop 2 t else t)
      in if startswith t1 [34] \<and> endswith t1 [34] then slice t1 1 (length t1 - 1) else t1)"

lemma version_token_examples:
  "version_token (lit '' W/\"12\" '') = lit ''12''" "version_token (lit ''7'') = lit ''7''"
  "version_token [34] = []"
  by code_simp+

end
