(* ===== verification/Runtime_Config.thy ===== *)
theory Runtime_Config
  imports Py_Env Analysis_Provider Scalar_Encryption
begin

text \<open>
  Model of the configuration read from environment variables:
  \<^verbatim>\<open>src/backend/app/core/runtime_environment.py\<close>, the limits of
  \<^verbatim>\<open>src/backend/app/core/boundary_config.py\<close> and the choice of the provider in
  \<^verbatim>\<open>src/backend/app/services/analysis_provider_factory.py\<close>.
\<close>

subsection \<open>The environment\<close>

definition get_app_env :: "environ \<Rightarrow> pystr" where
  "get_app_env env =
     (let e = lower (strip (getenv env ''APP_ENV'' ''test'')) in if e = [] then lit ''test'' else e)"

definition STRICT_APP_ENVS :: "pystr list" where
  "STRICT_APP_ENVS = map lit [''pilot'', ''production'', ''prod'']"

definition is_strict_environment :: "environ \<Rightarrow> bool" where
  "is_strict_environment env \<longleftrightarrow> get_app_env env \<in> set STRICT_APP_ENVS"

subsection \<open>Limits of requests\<close>

record boundary_config =
  max_upload_bytes :: int
  max_extracted_characters :: int
  max_document_pages :: int
  rate_limit_login :: int
  rate_limit_register :: int
  rate_limit_upload :: int
  rate_limit_extraction :: int
  rate_limit_analysis_job :: int
  rate_limit_window_seconds :: int

definition BoundaryConfigurationError :: exn where
  "BoundaryConfigurationError =
     OtherError (lit ''BoundaryConfigurationError'') (lit ''Invalid boundary configuration.'')"

text \<open>Names with the default and the maximum, in the order of \<open>_DEFAULTS\<close>.\<close>

definition boundary_limits :: "(string \<times> int \<times> int) list" where
  "boundary_limits =
     [(''MAX_UPLOAD_BYTES'', 20971520, 20971520), (''MAX_EXTRACTED_CHARACTERS'', 2000000, 2000000),
      (''MAX_DOCUMENT_PAGES'', 100, 100), (''RATE_LIMIT_LOGIN'', 10, 10000), (''RATE_LIMIT_REGISTER'', 5, 10000),
      (''RATE_LIMIT_UPLOAD'', 10, 10000), (''RATE_LIMIT_EXTRACTION'', 20, 10000),
      (''RATE_LIMIT_ANALYSIS_JOB'', 10, 10000), (''RATE_LIMIT_WINDOW_SECONDS'', 60, 3600)]"

definition read_positive_int :: "environ \<Rightarrow> bool \<Rightarrow> string \<times> int \<times> int \<Rightarrow> int result" where
  "read_positive_int env production entry =
     (case entry of (name, dflt, maximum) \<Rightarrow>
        let raw = getenv env name ''''
        in if strip raw = [] then (if production then Inl BoundaryConfigurationError else Inr dflt)
           else
             bind (or_raise BoundaryConfigurationError (parse_int raw)) (\<lambda>v.
             if v \<le> 0 \<or> maximum < v then Inl BoundaryConfigurationError else Inr v))"

definition boundary_of :: "int list \<Rightarrow> boundary_config" where
  "boundary_of vs =
     \<lparr>max_upload_bytes = vs ! 0, max_extracted_characters = vs ! 1, max_document_pages = vs ! 2,
      rate_limit_login = vs ! 3, rate_limit_register = vs ! 4, rate_limit_upload = vs ! 5,
      rate_limit_extraction = vs ! 6, rate_limit_analysis_job = vs ! 7, rate_limit_window_seconds = vs ! 8\<rparr>"

definition get_boundary_config :: "environ \<Rightarrow> boundary_config result" where
  "get_boundary_config env =
     bind (map_result (read_positive_int env (is_strict_environment env)) boundary_limits) (\<lambda>vs.
     Inr (boundary_of vs))"

subsection \<open>The provider\<close>

definition AnalysisProviderConfigError :: "string \<Rightarrow> pystr \<Rightarrow> exn" where
  "AnalysisProviderConfigError code message = ValueError (lit code @ lit '': '' @ message)"

definition resolve_provider_name :: "environ \<Rightarrow> pystr" where
  "resolve_provider_name env =
     (let configured = lower (strip (getenv env ''ANALYSIS_PROVIDER'' '''')); app_env = get_app_env env
      in if configured \<noteq> [] then configured
         else if app_env = lit ''test'' then lit ''synthetic''
         else if app_env = lit ''development'' then lit ''unavailable''
         else lit ''not_configured'')"

datatype provider_choice = SyntheticProvider | FakeProvider | UnavailableProvider

fun choice_name :: "provider_choice \<Rightarrow> pystr" where
  "choice_name SyntheticProvider = lit ''synthetic''"
| "choice_name FakeProvider = lit ''fake''"
| "choice_name UnavailableProvider = lit ''unavailable''"

definition DEFAULT_ANALYSIS_PROVIDER :: provider_choice where
  "DEFAULT_ANALYSIS_PROVIDER = SyntheticProvider"

definition create_analysis_provider :: "environ \<Rightarrow> pystr option \<Rightarrow> provider_choice result" where
  "create_analysis_provider env provider_name =
     (let selected = (case provider_name of Some n \<Rightarrow> if n \<noteq> [] then n else resolve_provider_name env
                      | None \<Rightarrow> resolve_provider_name env);
          app_env = get_app_env env;
          is_prod = (app_env \<in> {lit ''prod'', lit ''production''});
          is_pilot = (app_env = lit ''pilot'')
      in if is_pilot \<and> selected \<noteq> lit ''synthetic'' then
           Inl (AnalysisProviderConfigError ''analysis_provider_forbidden''
             (lit ''configured provider is forbidden in pilot.''))
         else if selected = lit ''synthetic'' then
           (if is_prod then
              Inl (AnalysisProviderConfigError ''analysis_provider_forbidden''
                (lit ''synthetic provider is forbidden in production.''))
            else Inr SyntheticProvider)
         else if selected = lit ''fake'' then
           (if is_prod \<or> is_pilot then
              Inl (AnalysisProviderConfigError ''analysis_provider_forbidden''
                (lit ''fake provider is forbidden in production.''))
            else Inr FakeProvider)
         else if selected \<in> {lit ''unavailable'', lit ''real_placeholder''} then Inr UnavailableProvider
         else if selected \<in> {[], lit ''default''} then Inr DEFAULT_ANALYSIS_PROVIDER
         else if selected = lit ''not_configured'' then
           Inl (AnalysisProviderConfigError ''analysis_provider_not_configured''
             (lit ''no provider configured for this environment.''))
         else if selected = lit ''real'' then
           Inl (AnalysisProviderConfigError ''analysis_provider_unavailable'' (lit ''real provider is unavailable.''))
         else
           Inl (AnalysisProviderConfigError ''analysis_provider_unknown''
             (lit ''unknown provider '' @ [39] @ selected @ [39])))"

definition is_provider_forbidden_in_env :: "environ \<Rightarrow> pystr \<Rightarrow> bool" where
  "is_provider_forbidden_in_env env provider_name =
     (let app_env = get_app_env env
      in if app_env = lit ''pilot'' then provider_name \<noteq> lit ''synthetic''
         else provider_name \<in> {lit ''fake'', lit ''synthetic''} \<and> app_env \<in> {lit ''production'', lit ''prod''})"

end
