(* ===== verification/Analysis_Job_Api.thy ===== *)
theory Analysis_Job_Api
  imports Api_Base Runtime_Config Clause_Splitter Evidence_Linking
begin

text \<open>
  Model of \<^verbatim>\<open>src/backend/app/api/analysis_jobs.py\<close>: a confirmed extraction becomes a document with
  clauses, and a document gets an analysis job, one per request fingerprint.  A handler works in one session:
  what it adds is committed together with the new job, and lost when it raises or finds an active job.
  \<open>uuid\<close> supplies fresh identifiers; a nonce is reserved for every encryption.  Rate limits and access
  logs are modelled elsewhere or left out, as are the clause attributes that are no columns.
\<close>

subsection \<open>Versions and checksums\<close>

definition parse_if_match_version :: "pystr option \<Rightarrow> int result" where
  "parse_if_match_version if_match =
     (case if_match of
        None \<Rightarrow> Inl (plain_error 400 ''If-Match header is required.'')
      | Some h \<Rightarrow>
          or_raise (plain_error 400 ''The If-Match value is invalid.'') (py_int (PStr (version_token h))))"

definition final_text_of :: "pyval \<Rightarrow> pyval" where
  "final_text_of v = get0 (dict_of v) ''final_text''"

definition snapshot_checksum :: "(pystr \<Rightarrow> pystr) \<Rightarrow> pyval list \<Rightarrow> pystr result" where
  "snapshot_checksum sha items =
     bind (for_each (\<lambda>v. bind (encode_utf8 (py_str (final_text_of v))) (\<lambda>_. Inr ())) items) (\<lambda>_.
     Inr (sha (concat (map (\<lambda>v. py_str (final_text_of v) @ [10]) items))))"

subsection \<open>The fingerprint of a request\<close>

text \<open>\<open>json.dumps(v, ensure_ascii=True, separators=(",", ":"), sort_keys=True)\<close>.\<close>

definition ascii_char :: "int \<Rightarrow> pystr" where
  "ascii_char c =
     (if c < 127 then json_char c
      else if c < 65536 then [92, 117] @ hex_fixed 4 (nat c)
      else [92, 117] @ hex_fixed 4 (nat (55296 + (c - 65536) div 1024)) @
           [92, 117] @ hex_fixed 4 (nat (56320 + (c - 65536) mod 1024)))"

definition ascii_string :: "pystr \<Rightarrow> pystr" where
  "ascii_string s = [34] @ concat (map ascii_char s) @ [34]"

fun json_ascii :: "pyval \<Rightarrow> pystr" where
  "json_ascii PNone = lit ''null''"
| "json_ascii (PBool b) = (if b then lit ''true'' else lit ''false'')"
| "json_ascii (PInt i) = str_int i"
| "json_ascii (PFloat f) = json_float f"
| "json_ascii (PStr s) = ascii_string s"
| "json_ascii (PList xs) = [91] @ str_join [44] (map json_ascii xs) @ [93]"
| "json_ascii (PDict d) =
     [123] @ str_join [44]
       (map snd (sort_key fst (map (\<lambda>(k, v). (k, ascii_string k @ [58] @ json_ascii v)) d)))
     @ [125]"

definition ANALYSIS_CONTRACT_VERSION :: pystr where
  "ANALYSIS_CONTRACT_VERSION = lit ''analysis-provider-request.v1''"

definition fingerprint_payload ::
  "pystr \<Rightarrow> pystr \<Rightarrow> pystr \<Rightarrow> string \<Rightarrow> pystr \<Rightarrow> int option \<Rightarrow> pystr list \<Rightarrow> pyval" where
  "fingerprint_payload provider owner_id document_id source_type source_id source_revision source_hashes =
     PDict [(lit ''analysis_contract_version'', PStr ANALYSIS_CONTRACT_VERSION),
            (lit ''document_id'', PStr document_id), (lit ''owner_id'', PStr owner_id),
            (lit ''provider'', PStr provider), (lit ''source_hashes'', PList (map PStr (sort source_hashes))),
            (lit ''source_id'', PStr source_id), (lit ''source_revision'', opt_pyint source_revision),
            (lit ''source_type'', PStr (lit source_type))]"

definition request_fingerprint ::
  "(pystr \<Rightarrow> pystr) \<Rightarrow> environ \<Rightarrow> pystr \<Rightarrow> pystr \<Rightarrow> string \<Rightarrow> pystr \<Rightarrow> int option \<Rightarrow> pystr list \<Rightarrow> pystr" where
  "request_fingerprint sha env owner_id document_id source_type source_id source_revision source_hashes =
     sha (json_ascii (fingerprint_payload (resolve_provider_name env) owner_id document_id source_type source_id
            source_revision source_hashes))"

subsection \<open>An extraction that may be analysed\<close>

definition confirmation_required :: exn where
  "confirmation_required = plain_error 409 ''confirmation_required''"

text \<open>\<open>(v or "").lower()\<close>.\<close>

definition lower_or_blank :: "pyval \<Rightarrow> pystr result" where
  "lower_or_blank v =
     (case py_or v (PStr []) of
        PStr s \<Rightarrow> Inr (lower s) | _ \<Rightarrow> Inl (AttributeError (lit ''object has no attribute lower'')))"

definition snapshot_revision :: "pydict \<Rightarrow> int result" where
  "snapshot_revision e =
     (case py_int (get e ''snapshot_version'' (PInt 0)) of
        Inl x \<Rightarrow>
          Inl (if is_value_error x \<or> is_type_error x
               then plain_error 409 ''The extraction snapshot revision is unavailable.'' else x)
      | Inr v \<Rightarrow> Inr v)"

definition check_snapshot_item :: "pyval \<Rightarrow> unit result" where
  "check_snapshot_item v =
     (let d = dict_of v
      in checks
        [(case as_int (get0 d ''page_number'') of Some n \<Rightarrow> n < 1 | None \<Rightarrow> True,
            plain_error 409 ''extraction_review_incomplete''),
         (case as_str (get0 d ''page_id'') of Some s \<Rightarrow> strip s = [] | None \<Rightarrow> True,
            plain_error 409 ''extraction_review_incomplete''),
         (case as_str (get0 d ''final_text'') of Some s \<Rightarrow> strip s = [] | None \<Rightarrow> True,
            plain_error 409 ''invalid_confirmation_snapshot'')])"

definition page_number_of :: "pyval \<Rightarrow> int" where
  "page_number_of v = the (as_int (get0 (dict_of v) ''page_number''))"

text \<open>The checks on the extraction; the snapshot is the decrypted one.\<close>

definition check_extraction_ready ::
  "services \<Rightarrow> pystr \<Rightarrow> pystr option \<Rightarrow> extraction_row \<Rightarrow> pyval list result" where
  "check_extraction_ready sv user_id if_match x =
     (let e = ex_extra_data x
      in bind (parse_if_match_version if_match) (\<lambda>request_version.
         bind (if ex_status x \<noteq> lit ''confirmed'' then Inl confirmation_required else Inr ()) (\<lambda>_.
         bind (lower_or_blank (get0 e ''review_status'')) (\<lambda>status.
         bind (if status \<noteq> lit ''confirmed'' then Inl confirmation_required else Inr ()) (\<lambda>_.
         bind (snapshot_revision e) (\<lambda>snapshot_version.
         bind (if request_version \<noteq> snapshot_version then Inl (plain_error 409 ''extraction revision mismatch'')
               else Inr ()) (\<lambda>_.
         bind (case as_list (get0 e ''confirmation_snapshot'') of
                 Some (p # ps) \<Rightarrow> Inr () | _ \<Rightarrow> Inl confirmation_required) (\<lambda>_.
         bind (no_decrypt (plain_error 500 ''The extraction snapshot could not be decrypted.'')
                 (bind (sv_keyring sv) (\<lambda>kr.
                  decrypt_confirmation_snapshot (sv_aead sv) kr (get0 e ''confirmation_snapshot'') (PStr (ex_id x))
                    (PStr user_id) (PInt snapshot_version)))) (\<lambda>snapshot.
         bind (for_each check_snapshot_item snapshot) (\<lambda>_.
         bind (checks
           [(sort (map page_number_of snapshot) \<noteq> [1..int (length snapshot)],
               plain_error 409 ''extraction_review_incomplete''),
            (\<not> distinct (map (\<lambda>v. get0 (dict_of v) ''page_id'') snapshot),
               plain_error 409 ''extraction_review_incomplete'')]) (\<lambda>_.
         bind (snapshot_checksum (sv_sha sv) snapshot) (\<lambda>expected.
         if get0 e ''confirmation_checksum'' \<noteq> PStr expected
         then Inl (plain_error 409 ''stale_extraction_revision'') else Inr snapshot))))))))))))"

definition get_extraction_ready_for_analysis ::
  "services \<Rightarrow> pystr \<Rightarrow> pystr \<Rightarrow> pystr option \<Rightarrow> tables \<Rightarrow> extraction_row result" where
  "get_extraction_ready_for_analysis sv user_id extraction_id if_match t =
     (case find_extraction t extraction_id of
        None \<Rightarrow> Inl (plain_error 404 ''Extraction not found.'')
      | Some x \<Rightarrow>
          if ex_owner_id x \<noteq> user_id then Inl (plain_error 404 ''Extraction not found.'')
          else bind (check_extraction_ready sv user_id if_match x) (\<lambda>_. Inr x))"

subsection \<open>The document of an extraction\<close>

definition document_clauses :: "tables \<Rightarrow> pystr \<Rightarrow> clause_row list" where
  "document_clauses t document_id = filter (\<lambda>c. cl_document_id c = document_id) (t_clauses t)"

definition new_document ::
  "services \<Rightarrow> encryption_keyring \<Rightarrow> pystr \<Rightarrow> int \<Rightarrow> extraction_row \<Rightarrow> snapshot_result \<Rightarrow> document_row result" where
  "new_document sv kr user_id now x split =
     (let A = sv_aead sv; i = PStr (ex_id x); u = PStr user_id
      in bind (no_encrypt (plain_error 500 ''Unable to prepare document content.'')
           (bind (decrypt_extraction_filename_display A kr (PStr (ex_filename_display_encrypted x)) i u) (\<lambda>filename.
            bind (encrypt_document_filename A (sv_nonce sv 0) kr (PStr filename) i u) (\<lambda>filename_encrypted.
            bind (encrypt_unclassified_sections A (sv_nonce sv) 1 kr
                    (PList (map PStr (sn_unclassified_sections split))) i u) (\<lambda>sections.
            Inr (filename_encrypted, sections)))))) (\<lambda>(filename_encrypted, sections).
         bind (py_int (get (ex_extra_data x) ''final_total_text_length'' (PInt 0))) (\<lambda>characters.
         Inr \<lparr>doc_id = ex_id x, doc_filename_encrypted = filename_encrypted,
              doc_content_type = Some (ex_source_type x), doc_size_bytes = ex_size_bytes x,
              doc_character_count = characters, doc_status = lit ''processed'',
              doc_unclassified_sections = sections, doc_document_warnings = ex_warnings x,
              doc_owner_id = user_id, doc_created_at = now\<rparr>)))"

text \<open>The row of a clause: its body is the \<open>text\<close> of the split clause.\<close>

definition new_clause ::
  "services \<Rightarrow> encryption_keyring \<Rightarrow> pystr \<Rightarrow> pystr \<Rightarrow> pystr \<Rightarrow> nat \<Rightarrow> snapshot_clause \<Rightarrow> clause_row result" where
  "new_clause sv kr user_id document_id record_id n c =
     bind (encrypt_clause_body (sv_aead sv) (sv_nonce sv n) kr (PStr (sc_text c)) (PStr record_id) (PStr user_id))
       (\<lambda>body.
     bind (encrypt_clause_title (sv_aead sv) (sv_nonce sv (Suc n)) kr (opt_pystr (sc_title c)) (PStr record_id)
             (PStr user_id)) (\<lambda>title.
     Inr \<lparr>cl_id = record_id, cl_clause_id = sc_clause_id c, cl_document_id = document_id,
          cl_reference_id = sc_reference_id c, cl_source_hash = sc_source_hash c,
          cl_ordinal = int (sc_ordinal c), cl_marker = sc_marker c, cl_clause_type = sc_clause_type c,
          cl_title_encrypted = as_str title, cl_body_encrypted = body,
          cl_warnings = map PStr (sc_warnings c)\<rparr>))"

fun new_clauses ::
  "services \<Rightarrow> encryption_keyring \<Rightarrow> (nat \<Rightarrow> pystr) \<Rightarrow> pystr \<Rightarrow> pystr \<Rightarrow> nat \<Rightarrow> nat \<Rightarrow> snapshot_clause list \<Rightarrow>
     clause_row list result" where
  "new_clauses sv kr uuid user_id document_id i n [] = Inr []"
| "new_clauses sv kr uuid user_id document_id i n (c # cs) =
     bind (new_clause sv kr user_id document_id (uuid i) n c) (\<lambda>row.
     bind (new_clauses sv kr uuid user_id document_id (Suc i) (n + 2) cs) (\<lambda>rows. Inr (row # rows)))"

text \<open>The tables as the session sees them afterwards; the id of the document is the id of the extraction.\<close>

definition load_or_create_analysis_document ::
  "services \<Rightarrow> (nat \<Rightarrow> pystr) \<Rightarrow> pystr \<Rightarrow> int \<Rightarrow> extraction_row \<Rightarrow> tables \<Rightarrow> tables result" where
  "load_or_create_analysis_document sv uuid user_id now x t =
     (let e = ex_extra_data x; document = find_document t (ex_id x)
      in bind (case document of
                 Some d \<Rightarrow> if doc_owner_id d \<noteq> user_id then Inl (plain_error 404 ''Document not found.'') else Inr ()
               | None \<Rightarrow> Inr ()) (\<lambda>_.
         bind (case as_list (get0 e ''confirmation_snapshot'') of
                 Some (p # ps) \<Rightarrow> Inr () | _ \<Rightarrow> Inl (plain_error 409 ''invalid_confirmation_snapshot'')) (\<lambda>_.
         bind (sv_keyring sv) (\<lambda>kr.
         bind (no_decrypt (plain_error 500 ''The extraction snapshot could not be decrypted.'')
                 (decrypt_confirmation_snapshot (sv_aead sv) kr (get0 e ''confirmation_snapshot'') (PStr (ex_id x))
                    (PStr user_id) (get0 e ''snapshot_version''))) (\<lambda>snapshot.
         bind (split_clauses_with_snapshot (sv_sha sv) snapshot (ex_id x)) (\<lambda>split.
         bind (case document of
                 Some d \<Rightarrow> Inr t
               | None \<Rightarrow>
                   bind (new_document sv kr user_id now x split) (\<lambda>d.
                   Inr (t\<lparr>t_documents := t_documents t @ [d]\<rparr>))) (\<lambda>t1.
         if document_clauses t1 (ex_id x) \<noteq> [] then Inr t1
         else
           bind (new_clauses sv kr uuid user_id (ex_id x) 1 (1 + length (sn_unclassified_sections split))
                   (sn_clauses split)) (\<lambda>rows.
           Inr (t1\<lparr>t_clauses := t_clauses t1 @ rows\<rparr>)))))))))"

subsection \<open>The handlers\<close>

record job_response =
  jb_job_id :: pystr
  jb_document_id :: pystr
  jb_status :: pystr

definition job_answer :: "analysis_job \<Rightarrow> job_response" where
  "job_answer j = \<lparr>jb_job_id = aj_id j, jb_document_id = aj_document_id j, jb_status = aj_status j\<rparr>"

text \<open>
  \<open>_enqueue_analysis_job\<close> in a session that sees \<open>t1\<close> on top of the committed \<open>t\<close>: an active
  job is returned without a commit.
\<close>

definition enqueue_in_session ::
  "pystr \<Rightarrow> pystr \<Rightarrow> pystr \<Rightarrow> int \<Rightarrow> tables \<Rightarrow> tables \<Rightarrow> tables \<times> job_response result" where
  "enqueue_in_session job_id document_id key now t t1 =
     (case enqueue_analysis_job job_id document_id key now (t_jobs t1) of
        (jobs', Inl e) \<Rightarrow> (t, Inl e)
      | (jobs', Inr j) \<Rightarrow>
          (if jobs' = t_jobs t1 then t else t1\<lparr>t_jobs := jobs'\<rparr>, Inr (job_answer j)))"

definition create_analysis_job ::
  "services \<Rightarrow> environ \<Rightarrow> pystr \<Rightarrow> pystr \<Rightarrow> int \<Rightarrow> pystr \<Rightarrow> tables \<Rightarrow> tables \<times> job_response result" where
  "create_analysis_job sv env user_id job_id now document_id t =
     (case find_document t document_id of
        None \<Rightarrow> (t, Inl (plain_error 404 ''Document not found.''))
      | Some d \<Rightarrow>
          if doc_owner_id d \<noteq> user_id then (t, Inl (plain_error 404 ''Document not found.''))
          else
            enqueue_in_session job_id document_id
              (request_fingerprint (sv_sha sv) env user_id document_id ''document'' document_id None
                 (map clause_row.cl_source_hash (document_clauses t document_id))) now t t)"

definition create_extraction_analysis_job ::
  "services \<Rightarrow> environ \<Rightarrow> (nat \<Rightarrow> pystr) \<Rightarrow> pystr \<Rightarrow> int \<Rightarrow> pystr \<Rightarrow> pystr option \<Rightarrow> tables \<Rightarrow>
     tables \<times> job_response result" where
  "create_extraction_analysis_job sv env uuid user_id now extraction_id if_match t =
     (case bind (get_extraction_ready_for_analysis sv user_id extraction_id if_match t) (\<lambda>x.
           bind (load_or_create_analysis_document sv uuid user_id now x t) (\<lambda>t1.
           let clauses = sort_key clause_row.cl_ordinal (document_clauses t1 (ex_id x))
           in if clauses = [] then Inl (plain_error 409 ''stale_extraction_revision'')
              else
                bind (py_int (get0 (ex_extra_data x) ''snapshot_version'')) (\<lambda>revision.
                Inr (t1, request_fingerprint (sv_sha sv) env user_id (ex_id x) ''extraction'' (ex_id x)
                       (Some revision) (map clause_row.cl_source_hash clauses))))) of
        Inl e \<Rightarrow> (t, Inl e)
      | Inr (t1, key) \<Rightarrow> enqueue_in_session (uuid 0) extraction_id key now t t1)"

definition get_analysis_job :: "pystr \<Rightarrow> pystr \<Rightarrow> tables \<Rightarrow> job_response result" where
  "get_analysis_job user_id job_id t =
     (case get_job (t_jobs t) job_id of
        None \<Rightarrow> Inl (plain_error 404 ''Analysis job not found.'')
      | Some j \<Rightarrow>
          (case find_document t (aj_document_id j) of
             None \<Rightarrow> Inl (plain_error 404 ''Analysis job not found.'')
           | Some d \<Rightarrow>
               if doc_owner_id d \<noteq> user_id then Inl (plain_error 404 ''Analysis job not found.'')
               else Inr (job_answer j)))"

end
