(* ===== verification/Extraction_Review.thy ===== *)
theory Extraction_Review
  imports Api_Base
begin

text \<open>
  Model of the review of an extraction in \<^verbatim>\<open>src/backend/app/api/extractions.py\<close>: the texts of a page,
  the review summary, the correction of a page under a version, the confirmation with its encrypted snapshot,
  and the review view.  A handler reads the tables its session sees and writes its rows over what is
  committed by then; the nonce counter runs through the calls of \<open>encrypt\<close>.  Schema validation of requests
  and responses and access logs are not modelled.
\<close>

definition MAX_PAGE_REVIEW_TEXT :: int where "MAX_PAGE_REVIEW_TEXT = 200000"
definition MAX_DOCUMENT_REVIEW_TEXT :: int where "MAX_DOCUMENT_REVIEW_TEXT = 1000000"

definition st_confirmed :: pystr where "st_confirmed = lit ''confirmed''"

subsection \<open>Texts of a page\<close>

definition get_extraction_page_text ::
  "aead \<Rightarrow> encryption_keyring \<Rightarrow> pystr \<Rightarrow> extraction_page_row \<Rightarrow> pystr result" where
  "get_extraction_page_text A kr owner_id p =
     (if xp_text_encrypted p = [] then
        Inl (api_error 500 ''encryption_failed'' ''The extraction page text is not available.'' False)
      else
        no_decrypt (api_error 500 ''encryption_failed'' ''The extraction page text could not be decrypted.'' False)
          (decrypt_extraction_page_text A kr (PStr (xp_text_encrypted p)) (PStr (xp_extraction_id p))
             (PInt (xp_page_number p)) (PStr owner_id)))"

definition read_page_text_field ::
  "aead \<Rightarrow> encryption_keyring \<Rightarrow> pystr \<Rightarrow> extraction_page_row \<Rightarrow> string \<Rightarrow> pydict \<Rightarrow> pyval result" where
  "read_page_text_field A kr owner_id p field_name page_data =
     no_decrypt (api_error 500 ''encryption_failed'' (''The '' @ field_name @ '' could not be decrypted.'') False)
       (read_extraction_page_text_field A kr (PDict page_data) field_name (PStr (xp_extraction_id p))
          (PInt (xp_page_number p)) (PStr owner_id))"

definition write_page_text_field ::
  "services \<Rightarrow> encryption_keyring \<Rightarrow> pystr \<Rightarrow> extraction_page_row \<Rightarrow> string \<Rightarrow> pyval \<Rightarrow> pydict \<Rightarrow> nat \<Rightarrow>
     (pydict \<times> nat) result" where
  "write_page_text_field sv kr owner_id p field_name v page_data n =
     no_encrypt (api_error 500 ''encryption_failed'' (''Failed to protect '' @ field_name @ ''.'') False)
       (write_extraction_page_text_field (sv_aead sv) (sv_nonce sv) kr (PDict page_data) field_name v
          (PStr (xp_extraction_id p)) (PInt (xp_page_number p)) (PStr owner_id) n)"

definition decrypt_page_blocks ::
  "aead \<Rightarrow> encryption_keyring \<Rightarrow> pystr \<Rightarrow> extraction_page_row \<Rightarrow> pyval \<Rightarrow> pyval list result" where
  "decrypt_page_blocks A kr owner_id p blocks =
     no_decrypt (api_error 500 ''encryption_failed'' ''The page blocks could not be decrypted.'' False)
       (decrypt_extraction_page_blocks A kr blocks (PStr (xp_extraction_id p)) (PInt (xp_page_number p))
          (PStr owner_id))"

definition encrypt_snapshot ::
  "services \<Rightarrow> encryption_keyring \<Rightarrow> pystr \<Rightarrow> pystr \<Rightarrow> int \<Rightarrow> pyval list \<Rightarrow> nat \<Rightarrow> (pyval list \<times> nat) result" where
  "encrypt_snapshot sv kr owner_id extraction_id version pages n =
     no_encrypt (api_error 500 ''encryption_failed'' ''Failed to protect the confirmation snapshot.'' False)
       (encrypt_confirmation_snapshot (sv_aead sv) (sv_nonce sv) kr (PList pages) (PStr extraction_id)
          (PStr owner_id) (PInt version) n)"

definition decrypt_snapshot ::
  "aead \<Rightarrow> encryption_keyring \<Rightarrow> pystr \<Rightarrow> pystr \<Rightarrow> pyval \<Rightarrow> pyval \<Rightarrow> pyval list result" where
  "decrypt_snapshot A kr owner_id extraction_id version stored =
     no_decrypt (api_error 500 ''encryption_failed'' ''The confirmation snapshot could not be decrypted.'' False)
       (decrypt_confirmation_snapshot A kr stored (PStr extraction_id) (PStr owner_id) version)"

text \<open>SHA-256 over the texts, each followed by a newline.\<close>

definition stable_checksum :: "(pystr \<Rightarrow> pystr) \<Rightarrow> pystr list \<Rightarrow> pystr result" where
  "stable_checksum sha values =
     bind (for_each (\<lambda>v. bind (encode_utf8 v) (\<lambda>_. Inr ())) values) (\<lambda>_.
     Inr (sha (concat (map (\<lambda>v. v @ [10]) values))))"

subsection \<open>The review data of a page\<close>

record page_review =
  pr_review_status :: pyval
  pr_review_version :: pyval
  pr_reviewed_text :: pyval
  pr_text_changed :: bool
  pr_reviewed_at :: pyval
  pr_confirmed_at :: pyval
  pr_final_text :: pyval
  pr_final_text_preview :: pystr

text \<open>\<open>(value or text)[:80]\<close> for a text field of a page.\<close>

definition preview_of :: "pyval \<Rightarrow> pystr \<Rightarrow> pystr" where
  "preview_of v page_text = take 80 (case as_str v of Some (c # s) \<Rightarrow> c # s | _ \<Rightarrow> page_text)"

definition review_status_of :: "pydict \<Rightarrow> pyval" where
  "review_status_of d = get d ''review_status'' (PStr (lit ''pending''))"

definition review_version_of :: "pydict \<Rightarrow> pyval" where
  "review_version_of d = get d ''review_version'' (PInt 1)"

definition extract_page_review_data ::
  "aead \<Rightarrow> encryption_keyring \<Rightarrow> pystr \<Rightarrow> extraction_page_row \<Rightarrow> pystr \<Rightarrow> page_review result" where
  "extract_page_review_data A kr owner_id p page_text =
     (let d = xp_extra_data p
      in bind (read_page_text_field A kr owner_id p ''reviewed_text'' d) (\<lambda>reviewed_text.
         bind (read_page_text_field A kr owner_id p ''final_text'' d) (\<lambda>final_text.
         Inr \<lparr>pr_review_status = review_status_of d, pr_review_version = review_version_of d,
              pr_reviewed_text = reviewed_text,
              pr_text_changed = is_truthy (get d ''text_changed'' (PBool False)),
              pr_reviewed_at = get0 d ''reviewed_at'', pr_confirmed_at = get0 d ''confirmed_at'',
              pr_final_text = final_text, pr_final_text_preview = preview_of final_text page_text\<rparr>)))"

subsection \<open>The summary of an extraction\<close>

record review_summary =
  rs_required_pages :: int
  rs_reviewed_pages :: int
  rs_edited_pages :: int
  rs_failed_pages :: int
  rs_blocked :: bool
  rs_blocking_reasons :: "pyval list"

definition add_reason :: "pyval \<Rightarrow> review_summary \<Rightarrow> review_summary" where
  "add_reason r s =
     (if r \<in> set (rs_blocking_reasons s) then s else s\<lparr>rs_blocking_reasons := rs_blocking_reasons s @ [r]\<rparr>)"

text \<open>The body of the loop over the pages.\<close>

definition summarize_page ::
  "aead \<Rightarrow> encryption_keyring \<Rightarrow> pystr \<Rightarrow> extraction_page_row \<Rightarrow> review_summary \<Rightarrow> review_summary result" where
  "summarize_page A kr owner_id p s =
     bind (get_extraction_page_text A kr owner_id p) (\<lambda>page_text.
     bind (extract_page_review_data A kr owner_id p page_text) (\<lambda>d.
     let status = pr_review_status d;
         failure = get0 (xp_extra_data p) ''failure'';
         s1 = (if get0 (xp_extra_data p) ''analysis_blocked'' = PBool True then
                 (let s0 = s\<lparr>rs_blocked := True\<rparr> in if is_truthy failure then add_reason failure s0 else s0)
               else s)
     in bind (if xp_requires_user_review p then
                bind (in_names status [''reviewed'', ''edited'']) (\<lambda>reviewed.
                let s2 = s1\<lparr>rs_required_pages := rs_required_pages s1 + 1\<rparr>
                in Inr (if reviewed then s2\<lparr>rs_reviewed_pages := rs_reviewed_pages s2 + 1\<rparr> else s2))
              else Inr s1) (\<lambda>s3.
        let s4 = (if status = PStr (lit ''edited'') then s3\<lparr>rs_edited_pages := rs_edited_pages s3 + 1\<rparr> else s3)
        in Inr (if is_truthy failure then s4\<lparr>rs_failed_pages := rs_failed_pages s4 + 1\<rparr> else s4))))"

fun summarize_pages ::
  "aead \<Rightarrow> encryption_keyring \<Rightarrow> pystr \<Rightarrow> extraction_page_row list \<Rightarrow> review_summary \<Rightarrow> review_summary result" where
  "summarize_pages A kr owner_id [] s = Inr s"
| "summarize_pages A kr owner_id (p # ps) s =
     bind (summarize_page A kr owner_id p s) (\<lambda>s'. summarize_pages A kr owner_id ps s')"

definition empty_summary :: review_summary where
  "empty_summary = \<lparr>rs_required_pages = 0, rs_reviewed_pages = 0, rs_edited_pages = 0, rs_failed_pages = 0,
     rs_blocked = False, rs_blocking_reasons = []\<rparr>"

definition summary_status :: "extraction_row \<Rightarrow> review_summary \<Rightarrow> pystr" where
  "summary_status x s =
     (if ex_status x = st_confirmed then st_confirmed
      else if rs_required_pages s = 0 then lit ''not_required''
      else if rs_reviewed_pages s = 0 then lit ''pending''
      else if rs_reviewed_pages s < rs_required_pages s then lit ''partially_reviewed''
      else lit ''ready_to_confirm'')"

definition build_review_summary ::
  "aead \<Rightarrow> encryption_keyring \<Rightarrow> pystr \<Rightarrow> extraction_row \<Rightarrow> extraction_page_row list \<Rightarrow>
     (review_summary \<times> pystr) result" where
  "build_review_summary A kr owner_id x ps =
     bind (summarize_pages A kr owner_id ps empty_summary) (\<lambda>s.
     let s' = (if rs_required_pages s \<noteq> 0 \<and> ex_requires_user_review x \<and> 0 < rs_failed_pages s
               then add_reason (PStr (lit ''extraction_has_failed_pages'')) s else s)
     in Inr (s', summary_status x s'))"

definition extraction_review_stale ::
  "aead \<Rightarrow> encryption_keyring \<Rightarrow> pystr \<Rightarrow> extraction_row \<Rightarrow> extraction_page_row list \<Rightarrow> bool result" where
  "extraction_review_stale A kr owner_id x ps =
     bind (build_review_summary A kr owner_id x ps) (\<lambda>(s, status).
     Inr (status \<in> {lit ''pending'', lit ''partially_reviewed''}))"

definition build_can_confirm ::
  "aead \<Rightarrow> encryption_keyring \<Rightarrow> pystr \<Rightarrow> extraction_row \<Rightarrow> extraction_page_row list \<Rightarrow> review_summary \<Rightarrow>
     bool result" where
  "build_can_confirm A kr owner_id x ps s =
     (if \<not> ex_requires_user_review x \<and> rs_failed_pages s = 0 then Inr True
      else if rs_required_pages s = rs_reviewed_pages s \<and> rs_failed_pages s = 0 then
        bind (extraction_review_stale A kr owner_id x ps) (\<lambda>stale. Inr (\<not> stale))
      else Inr False)"

subsection \<open>Finding an extraction, parsing a version\<close>

definition get_extraction_with_pages :: "tables \<Rightarrow> pystr \<Rightarrow> pystr \<Rightarrow> (extraction_row \<times> extraction_page_row list) result" where
  "get_extraction_with_pages t extraction_id user_id =
     (case find_extraction t extraction_id of
        None \<Rightarrow> Inl (api_error 404 ''extraction_not_found'' ''The extraction was not found.'' False)
      | Some x \<Rightarrow>
          if ex_owner_id x \<noteq> user_id
          then Inl (api_error 404 ''extraction_not_found'' ''The extraction was not found.'' False)
          else Inr (x, filter (\<lambda>p. xp_extraction_id p = extraction_id) (t_pages t)))"

definition parse_version_value :: "pystr option \<Rightarrow> int option \<Rightarrow> string \<Rightarrow> int result" where
  "parse_version_value if_match payload_version fallback =
     (case payload_version of
        Some v \<Rightarrow> Inr v
      | None \<Rightarrow>
          (case if_match of
             None \<Rightarrow> Inl (api_error 400 fallback ''A matching version is required.'' False)
           | Some h \<Rightarrow>
               or_raise (api_error 400 fallback ''The version header could not be parsed.'' False)
                 (py_int (PStr (version_token h)))))"

text \<open>The rows a handler writes: columns of this page, columns of this extraction.\<close>

definition update_page :: "pystr \<Rightarrow> int \<Rightarrow> pydict \<Rightarrow> tables \<Rightarrow> tables" where
  "update_page extraction_id number d t =
     t\<lparr>t_pages := map (\<lambda>p. if xp_extraction_id p = extraction_id \<and> xp_page_number p = number
                           then p\<lparr>xp_extra_data := d\<rparr> else p) (t_pages t)\<rparr>"

definition update_extraction :: "pystr \<Rightarrow> (extraction_row \<Rightarrow> extraction_row) \<Rightarrow> tables \<Rightarrow> tables" where
  "update_extraction extraction_id f t =
     t\<lparr>t_extractions := map (\<lambda>x. if ex_id x = extraction_id then f x else x) (t_extractions t)\<rparr>"

subsection \<open>Correcting a page\<close>

record review_patch =
  pt_version :: "int option"
  pt_unchanged :: "bool option"
  pt_reviewed_text :: "pystr option"

record page_review_response =
  pv_page_id :: pystr
  pv_page_number :: int
  pv_method :: pystr
  pv_classification :: pyval
  pv_original_text :: pystr
  pv_reviewed_text :: pyval
  pv_final_text_preview :: pystr
  pv_text_changed :: bool
  pv_review_status :: pyval
  pv_review_version :: pyval
  pv_reviewed_at :: pyval
  pv_confirmed_at :: pyval
  pv_warnings :: "pyval list"
  pv_blocks :: "pyval list"
  pv_failure :: pyval
  pv_analysis_blocked :: bool

definition validate_review_text :: "pystr \<Rightarrow> unit result" where
  "validate_review_text s = checks
     [(0 \<in> set s, api_error 400 ''invalid_review_text'' ''The reviewed_text must not contain null bytes.'' False),
      (MAX_PAGE_REVIEW_TEXT < int (length s),
         api_error 400 ''invalid_review_text'' ''The reviewed_text exceeds maximum allowed length.'' False),
      (strip s = [], api_error 400 ''invalid_review_text'' ''The review text cannot be empty.'' False)]"

text \<open>The answer for a page: \<open>d\<close> is its JSON column, the texts are given.\<close>

definition page_response ::
  "aead \<Rightarrow> encryption_keyring \<Rightarrow> pystr \<Rightarrow> extraction_page_row \<Rightarrow> pydict \<Rightarrow> pyval \<Rightarrow> pystr \<Rightarrow> pyval \<Rightarrow> pystr \<Rightarrow>
     pyval \<Rightarrow> page_review_response result" where
  "page_response A kr owner_id p d page_id original_text reviewed_text preview version =
     bind (decrypt_page_blocks A kr owner_id p (get d ''blocks'' (PList []))) (\<lambda>blocks.
     Inr \<lparr>pv_page_id = py_str page_id, pv_page_number = xp_page_number p, pv_method = xp_method p,
          pv_classification = get0 d ''classification'', pv_original_text = original_text,
          pv_reviewed_text = reviewed_text, pv_final_text_preview = preview,
          pv_text_changed = is_truthy (get d ''text_changed'' (PBool False)),
          pv_review_status = review_status_of d, pv_review_version = version,
          pv_reviewed_at = get0 d ''reviewed_at'', pv_confirmed_at = get0 d ''confirmed_at'',
          pv_warnings = xp_warnings p, pv_blocks = blocks, pv_failure = get0 d ''failure'',
          pv_analysis_blocked = is_truthy (get d ''analysis_blocked'' (PBool True))\<rparr>)"

definition confirmed_page_response ::
  "aead \<Rightarrow> encryption_keyring \<Rightarrow> pystr \<Rightarrow> extraction_page_row \<Rightarrow> pystr \<Rightarrow> int \<Rightarrow> page_review_response result" where
  "confirmed_page_response A kr owner_id p page_id version =
     (let d = xp_extra_data p
      in bind (get_extraction_page_text A kr owner_id p) (\<lambda>page_text.
         bind (read_page_text_field A kr owner_id p ''reviewed_text'' d) (\<lambda>reviewed.
         bind (read_page_text_field A kr owner_id p ''final_text'' d) (\<lambda>final.
         page_response A kr owner_id p d (get d ''page_id'' (PStr page_id)) page_text reviewed
           (preview_of (py_or final reviewed) page_text) (PInt version)))))"

text \<open>The checks of the handler up to the status of the page.\<close>

definition reviewable_page ::
  "pystr \<Rightarrow> review_patch \<Rightarrow> pystr option \<Rightarrow> extraction_row \<Rightarrow> extraction_page_row list \<Rightarrow>
     (extraction_page_row \<times> int) result" where
  "reviewable_page page_id payload if_match x ps =
     bind (checks
       [(ex_status x = st_confirmed,
           api_error 409 ''extraction_already_confirmed'' ''The extraction has already been confirmed.'' False),
        (\<not> ex_requires_user_review x,
           api_error 409 ''extraction_not_reviewable'' ''The extraction does not require review.'' False)]) (\<lambda>_.
     case filter (\<lambda>p. get0 (xp_extra_data p) ''page_id'' = PStr page_id) ps of
       [] \<Rightarrow> Inl (api_error 404 ''page_not_found'' ''The extraction page was not found.'' False)
     | p # _ \<Rightarrow>
         if \<not> xp_requires_user_review p then
           Inl (api_error 409 ''page_not_reviewable'' ''The page does not require manual review.'' False)
         else
           bind (parse_version_value if_match (pt_version payload) ''page_review_version_mismatch'') (\<lambda>request_version.
           bind (py_int (review_version_of (xp_extra_data p))) (\<lambda>current_version.
           if request_version \<noteq> current_version then
             Inl (api_error 409 ''page_review_conflict'' ''The page review version is stale.'' False)
           else Inr (p, current_version))))"

text \<open>The text the request gives the page.\<close>

definition requested_text ::
  "aead \<Rightarrow> encryption_keyring \<Rightarrow> pystr \<Rightarrow> review_patch \<Rightarrow> extraction_page_row \<Rightarrow> pystr result" where
  "requested_text A kr owner_id payload p =
     bind (if pt_unchanged payload = Some True then get_extraction_page_text A kr owner_id p
           else
             (case pt_reviewed_text payload of
                None \<Rightarrow>
                  Inl (api_error 400 ''invalid_review_text'' ''A review text is required unless unchanged is set.'' False)
              | Some s \<Rightarrow> Inr s)) (\<lambda>s.
     if is_truthy (get0 (xp_extra_data p) ''failure'') then
       Inl (api_error 409 ''page_not_reviewable'' ''The page cannot be edited after failure.'' False)
     else bind (validate_review_text s) (\<lambda>_. Inr s))"

text \<open>The new JSON column of the page.\<close>

definition reviewed_page_data ::
  "services \<Rightarrow> encryption_keyring \<Rightarrow> pystr \<Rightarrow> extraction_page_row \<Rightarrow> pystr \<Rightarrow> bool \<Rightarrow> int \<Rightarrow> pystr \<Rightarrow> nat \<Rightarrow>
     (pydict \<times> nat) result" where
  "reviewed_page_data sv kr owner_id p reviewed_text text_changed new_version stamp n =
     (let d = put (lit ''confirmed_at'') PNone
               (put (lit ''review_status'') (PStr (lit (if text_changed then ''edited'' else ''reviewed'')))
               (put (lit ''review_version'') (PInt new_version)
               (put (lit ''reviewed_at'') (PStr stamp)
               (put (lit ''text_changed'') (PBool text_changed) (xp_extra_data p)))))
      in bind (write_page_text_field sv kr owner_id p ''reviewed_text'' (PStr reviewed_text) d n) (\<lambda>(d1, n1).
         write_page_text_field sv kr owner_id p ''final_text'' (PStr reviewed_text) d1 n1))"

text \<open>The new JSON column of the extraction; \<open>ps\<close> are the pages with the corrected one.\<close>

definition reviewed_extraction_data ::
  "aead \<Rightarrow> encryption_keyring \<Rightarrow> pystr \<Rightarrow> extraction_row \<Rightarrow> extraction_page_row list \<Rightarrow> pydict result" where
  "reviewed_extraction_data A kr owner_id x ps =
     bind (py_int (review_version_of (ex_extra_data x))) (\<lambda>version.
     let d = put (lit ''review_version'') (PInt (version + 1)) (ex_extra_data x)
     in bind (build_review_summary A kr owner_id (x\<lparr>ex_extra_data := d\<rparr>) ps) (\<lambda>(s, status).
        bind (build_can_confirm A kr owner_id (x\<lparr>ex_extra_data := d\<rparr>) ps s) (\<lambda>can.
        Inr (put (lit ''review_status'') (PStr status)
            (put (lit ''blocking_reasons'') (PList (rs_blocking_reasons s))
            (put (lit ''can_confirm'') (PBool can) d))))))"

text \<open>
  The handler.  It reads the tables \<open>t0\<close>; the rows are written on top of \<open>others t0\<close>, what is committed
  when it commits.  \<open>stamp\<close> is the time of the review.
\<close>

definition patch_extraction_page_review ::
  "services \<Rightarrow> (tables \<Rightarrow> tables) \<Rightarrow> pystr \<Rightarrow> pystr \<Rightarrow> pystr \<Rightarrow> pystr \<Rightarrow> review_patch \<Rightarrow> pystr option \<Rightarrow> tables \<Rightarrow>
     tables \<times> page_review_response result" where
  "patch_extraction_page_review sv others user_id stamp extraction_id page_id payload if_match t0 =
     (let A = sv_aead sv; failed = (\<lambda>e. (others t0, Inl e))
      in case bind (get_extraction_with_pages t0 extraction_id user_id) (\<lambda>(x, ps).
              bind (sv_keyring sv) (\<lambda>kr.
              bind (reviewable_page page_id payload if_match x ps) (\<lambda>(p, version).
              Inr (x, ps, kr, p, version)))) of
           Inl e \<Rightarrow> failed e
         | Inr (x, ps, kr, p, version) \<Rightarrow>
             if review_status_of (xp_extra_data p) = PStr st_confirmed then
               (others t0, confirmed_page_response A kr user_id p page_id version)
             else
               (case bind (requested_text A kr user_id payload p) (\<lambda>reviewed.
                     bind (get_extraction_page_text A kr user_id p) (\<lambda>original.
                     bind (reviewed_page_data sv kr user_id p reviewed (reviewed \<noteq> original) (version + 1) stamp 0)
                       (\<lambda>(d, n).
                     let ps' = map (\<lambda>q. if xp_page_number q = xp_page_number p then p\<lparr>xp_extra_data := d\<rparr> else q) ps
                     in bind (reviewed_extraction_data A kr user_id x ps') (\<lambda>e.
                        Inr (original, d, e))))) of
                  Inl e \<Rightarrow> failed e
                | Inr (original, d, e) \<Rightarrow>
                    (let p' = p\<lparr>xp_extra_data := d\<rparr>
                     in (update_extraction extraction_id (\<lambda>x. x\<lparr>ex_extra_data := e\<rparr>)
                           (update_page extraction_id (xp_page_number p) d (others t0)),
                         bind (read_page_text_field A kr user_id p' ''reviewed_text'' d) (\<lambda>reviewed.
                         bind (read_page_text_field A kr user_id p' ''final_text'' d) (\<lambda>final.
                         page_response A kr user_id p' d (get d ''page_id'' (PStr page_id)) original reviewed
                           (preview_of final original) (PInt (version + 1))))))))"

end
