(* ===== verification/Extraction_Confirm.thy ===== *)
theory Extraction_Confirm
  imports Extraction_Review
begin

text \<open>
  The confirmation of an extraction and its review view, the second half of the review handlers of
  \<^verbatim>\<open>src/backend/app/api/extractions.py\<close>.
\<close>

subsection \<open>The snapshot\<close>

definition page_id_of :: "extraction_page_row \<Rightarrow> pystr" where
  "page_id_of p = py_str (get (xp_extra_data p) ''page_id'' (PInt (xp_page_number p)))"

definition incomplete :: "string \<Rightarrow> exn" where
  "incomplete message = api_error 409 ''extraction_review_incomplete'' message False"

definition final_page_text ::
  "aead \<Rightarrow> encryption_keyring \<Rightarrow> pystr \<Rightarrow> extraction_page_row \<Rightarrow> pydict \<Rightarrow> bool \<Rightarrow> pyval result" where
  "final_page_text A kr owner_id p d edited =
     (if edited then read_page_text_field A kr owner_id p ''reviewed_text'' d
      else bind (get_extraction_page_text A kr owner_id p) (\<lambda>t. Inr (PStr t)))"

text \<open>\<open>final_text is None or not str(final_text).strip()\<close>, else the text.\<close>

definition present_text :: "pyval \<Rightarrow> pystr result" where
  "present_text v =
     (if v = PNone \<or> strip (py_str v) = [] then
        Inl (api_error 409 ''invalid_review_text'' ''All final page texts must be non-empty.'' False)
      else Inr (py_str v))"

definition snapshot_page_value :: "extraction_page_row \<Rightarrow> pystr \<Rightarrow> pyval list \<Rightarrow> pyval" where
  "snapshot_page_value p final_text blocks =
     (let changed = is_truthy (get (xp_extra_data p) ''text_changed'' (PBool False))
      in PDict [(lit ''page_id'', PStr (page_id_of p)), (lit ''page_number'', PInt (xp_page_number p)),
                (lit ''final_text'', PStr final_text),
                (lit ''text_source'', PStr (lit (if changed then ''edited'' else ''original''))),
                (lit ''text_changed'', PBool changed), (lit ''method'', PStr (xp_method p)),
                (lit ''warnings'', PList (xp_warnings p)), (lit ''blocks'', PList blocks)])"

text \<open>The body of the loop: the snapshot entry of a page.\<close>

definition snapshot_of_page ::
  "aead \<Rightarrow> encryption_keyring \<Rightarrow> pystr \<Rightarrow> extraction_page_row \<Rightarrow> (pystr \<times> pyval) result" where
  "snapshot_of_page A kr owner_id p =
     (let d = xp_extra_data p; status = review_status_of d
      in if is_truthy (get0 d ''failure'') then
           Inl (api_error 409 ''extraction_has_failed_pages''
             ''Extraction cannot be confirmed because one or more pages failed.'' False)
         else
           bind (if xp_requires_user_review p then in_names status [''reviewed'', ''edited''] else Inr True)
             (\<lambda>reviewed.
           if \<not> reviewed then Inl (incomplete ''Not all required pages have been reviewed.'')
           else
             bind (bind (final_page_text A kr owner_id p d (status = PStr (lit ''edited''))) present_text)
               (\<lambda>final_text.
             if MAX_PAGE_REVIEW_TEXT < int (length final_text) then
               Inl (api_error 400 ''invalid_review_text'' ''Final confirmed text exceeds page limit.'' False)
             else
               bind (decrypt_page_blocks A kr owner_id p (py_or (get0 d ''blocks'') (PList []))) (\<lambda>blocks.
               Inr (final_text, snapshot_page_value p final_text blocks)))))"

definition total_length :: "(pystr \<times> pyval) list \<Rightarrow> int" where
  "total_length snapshot = sum_list (map (\<lambda>s. int (length (fst s))) snapshot)"

text \<open>
  The snapshot with the final texts, and the number of edited pages; the pages that need a review and all
  pages are counted by the caller's tables as well.
\<close>

definition build_confirmation_snapshot ::
  "aead \<Rightarrow> encryption_keyring \<Rightarrow> pystr \<Rightarrow> extraction_page_row list \<Rightarrow> ((pystr \<times> pyval) list \<times> int) result" where
  "build_confirmation_snapshot A kr owner_id pages =
     (let ps = sort_key xp_page_number pages
      in bind (checks
           [(ps = [], incomplete ''No pages are available for confirmation.''),
            (sort (map xp_page_number ps) \<noteq> [1..int (length ps)],
               incomplete ''Page order is invalid for confirmation.''),
            (\<not> distinct (map page_id_of ps), incomplete ''Duplicate page identifiers were found.'')]) (\<lambda>_.
         bind (map_result (snapshot_of_page A kr owner_id) ps) (\<lambda>snapshot.
         bind (checks
           [(\<exists>s\<in>set snapshot. MAX_PAGE_REVIEW_TEXT < int (length (fst s)),
               api_error 400 ''invalid_review_text'' ''The confirmed text exceeds allowed per-page limit.'' False),
            (MAX_DOCUMENT_REVIEW_TEXT < total_length snapshot,
               api_error 400 ''invalid_review_text''
                 ''The confirmed document text exceeds total length limit.'' False)]) (\<lambda>_.
         Inr (snapshot,
              int (length (filter (\<lambda>p. is_truthy (get (xp_extra_data p) ''text_changed'' (PBool False))) ps)))))))"

subsection \<open>Confirming\<close>

record confirmation_response =
  cr_extraction_id :: pystr
  cr_extraction_status :: pystr
  cr_review_version :: int
  cr_snapshot_version :: int
  cr_confirmed_at :: pyval
  cr_total_pages :: int
  cr_confirmed_pages :: int
  cr_changed_pages :: int
  cr_total_text_length :: pyval
  cr_confirmation_checksum :: pyval
  cr_snapshot :: "pydict list"

text \<open>The entries of an answer: a snapshot page without its blocks.\<close>

definition response_keys :: "string list" where
  "response_keys =
     [''page_id'', ''page_number'', ''final_text'', ''text_source'', ''text_changed'', ''method'', ''warnings'']"

definition response_page :: "pyval \<Rightarrow> pydict" where
  "response_page v = map (\<lambda>k. (lit k, get0 (dict_of v) k)) response_keys"

text \<open>The new JSON column of a page, in the order of the loop.\<close>

definition confirmed_page_data ::
  "services \<Rightarrow> encryption_keyring \<Rightarrow> pystr \<Rightarrow> pystr \<Rightarrow> extraction_page_row \<Rightarrow> nat \<Rightarrow> (pydict \<times> nat) result" where
  "confirmed_page_data sv kr owner_id stamp p n =
     (let d0 = xp_extra_data p;
          d = put (lit ''confirmed_at'') (PStr stamp) (put (lit ''review_status'') (PStr st_confirmed) d0)
      in bind (final_page_text (sv_aead sv) kr owner_id p d (get0 d0 ''review_status'' = PStr (lit ''edited''))) (\<lambda>v.
         bind (write_page_text_field sv kr owner_id p ''final_text'' v d n) (\<lambda>(d1, n1).
         bind (py_int (review_version_of d1)) (\<lambda>version.
         Inr (put (lit ''review_version'') (PInt (version + 1)) d1, n1)))))"

fun confirm_pages ::
  "services \<Rightarrow> encryption_keyring \<Rightarrow> pystr \<Rightarrow> pystr \<Rightarrow> extraction_page_row list \<Rightarrow> nat \<Rightarrow>
     ((int \<times> pydict) list \<times> nat) result" where
  "confirm_pages sv kr owner_id stamp [] n = Inr ([], n)"
| "confirm_pages sv kr owner_id stamp (p # ps) n =
     bind (confirmed_page_data sv kr owner_id stamp p n) (\<lambda>(d, n1).
     bind (confirm_pages sv kr owner_id stamp ps n1) (\<lambda>(ds, n2). Inr ((xp_page_number p, d) # ds, n2)))"

definition write_pages :: "pystr \<Rightarrow> (int \<times> pydict) list \<Rightarrow> tables \<Rightarrow> tables" where
  "write_pages extraction_id ds t = fold (\<lambda>(i, d). update_page extraction_id i d) ds t"

text \<open>\<open>int(v) + 1 if isinstance(v, int) else 1\<close>.\<close>

definition next_snapshot_version :: "pydict \<Rightarrow> int" where
  "next_snapshot_version e =
     (case as_int (get e ''snapshot_version'' (PInt 0)) of Some v \<Rightarrow> v + 1 | None \<Rightarrow> 1)"

definition confirmed_extraction_data ::
  "pystr \<Rightarrow> int \<Rightarrow> pyval list \<Rightarrow> int \<Rightarrow> int \<Rightarrow> pystr \<Rightarrow> pydict \<Rightarrow> pydict" where
  "confirmed_extraction_data stamp request_version encrypted snapshot_version len checksum e =
     put (lit ''can_confirm'') (PBool False)
     (put (lit ''confirmation_checksum'') (PStr checksum)
     (put (lit ''final_total_text_length'') (PInt len)
     (put (lit ''snapshot_version'') (PInt snapshot_version)
     (put (lit ''confirmation_snapshot'') (PList encrypted)
     (put (lit ''review_version'') (PInt (request_version + 1))
     (put (lit ''confirmed_at'') (PStr stamp)
     (put (lit ''review_status'') (PStr st_confirmed) e)))))))"

text \<open>The answer to a repeated confirmation, when a snapshot is stored.\<close>

definition stored_confirmation ::
  "aead \<Rightarrow> encryption_keyring \<Rightarrow> pystr \<Rightarrow> extraction_row \<Rightarrow> extraction_page_row list \<Rightarrow> int \<Rightarrow> review_summary \<Rightarrow>
     confirmation_response result" where
  "stored_confirmation A kr owner_id x ps request_version s =
     (let e = ex_extra_data x
      in bind (decrypt_snapshot A kr owner_id (ex_id x) (get0 e ''snapshot_version'')
                (get e ''confirmation_snapshot'' (PList []))) (\<lambda>pages.
         bind (py_int (get e ''snapshot_version'' (PInt 1))) (\<lambda>version.
         bind (case map_of e (lit ''confirmed_at'') of
                 None \<Rightarrow> Inl (KeyError (lit ''confirmed_at'')) | Some v \<Rightarrow> Inr v) (\<lambda>confirmed_at.
         Inr \<lparr>cr_extraction_id = ex_id x, cr_extraction_status = ex_status x,
              cr_review_version = request_version, cr_snapshot_version = version,
              cr_confirmed_at = confirmed_at, cr_total_pages = int (length ps),
              cr_confirmed_pages = rs_required_pages s, cr_changed_pages = rs_edited_pages s,
              cr_total_text_length = get e ''final_total_text_length'' (PInt 0),
              cr_confirmation_checksum = get e ''confirmation_checksum'' (PStr []),
              cr_snapshot = map response_page pages\<rparr>))))"

text \<open>The version checks and the summary.\<close>

definition confirmable ::
  "aead \<Rightarrow> encryption_keyring \<Rightarrow> pystr \<Rightarrow> pystr option \<Rightarrow> extraction_row \<Rightarrow> extraction_page_row list \<Rightarrow>
     (int \<times> review_summary \<times> pystr) result" where
  "confirmable A kr owner_id if_match x ps =
     bind (py_int (review_version_of (ex_extra_data x))) (\<lambda>request_version.
     bind (parse_version_value if_match None ''extraction_confirmation_stale'') (\<lambda>header_version.
     if header_version \<noteq> request_version then
       Inl (api_error 409 ''extraction_confirmation_stale'' ''The extraction review version is stale.'' False)
     else
       bind (build_review_summary A kr owner_id x ps) (\<lambda>(s, status). Inr (request_version, s, status))))"

text \<open>What a first confirmation writes, with its answer.\<close>

definition new_confirmation ::
  "services \<Rightarrow> encryption_keyring \<Rightarrow> pystr \<Rightarrow> pystr \<Rightarrow> extraction_row \<Rightarrow> extraction_page_row list \<Rightarrow> int \<Rightarrow>
     ((int \<times> pydict) list \<times> pydict \<times> confirmation_response) result" where
  "new_confirmation sv kr owner_id stamp x ps request_version =
     bind (build_confirmation_snapshot (sv_aead sv) kr owner_id ps) (\<lambda>(snapshot, changed).
     bind (stable_checksum (sv_sha sv) (map fst snapshot)) (\<lambda>checksum.
     let version = next_snapshot_version (ex_extra_data x); len = total_length snapshot
     in bind (confirm_pages sv kr owner_id stamp (sort_key xp_page_number ps) 0) (\<lambda>(ds, n).
        bind (encrypt_snapshot sv kr owner_id (ex_id x) version (map snd snapshot) n) (\<lambda>(encrypted, n1).
        Inr (ds, confirmed_extraction_data stamp request_version encrypted version len checksum (ex_extra_data x),
             \<lparr>cr_extraction_id = ex_id x, cr_extraction_status = st_confirmed,
              cr_review_version = request_version + 1, cr_snapshot_version = version,
              cr_confirmed_at = PStr stamp, cr_total_pages = int (length ps),
              cr_confirmed_pages = int (length snapshot), cr_changed_pages = changed,
              cr_total_text_length = PInt len, cr_confirmation_checksum = PStr checksum,
              cr_snapshot = map (response_page \<circ> snd) snapshot\<rparr>)))))"

definition confirm_extraction ::
  "services \<Rightarrow> (tables \<Rightarrow> tables) \<Rightarrow> pystr \<Rightarrow> pystr \<Rightarrow> pystr \<Rightarrow> pystr option \<Rightarrow> tables \<Rightarrow>
     tables \<times> confirmation_response result" where
  "confirm_extraction sv others user_id stamp extraction_id if_match t0 =
     (case bind (get_extraction_with_pages t0 extraction_id user_id) (\<lambda>(x, ps).
           bind (sv_keyring sv) (\<lambda>kr.
           bind (confirmable (sv_aead sv) kr user_id if_match x ps) (\<lambda>(v, s, status).
           Inr (x, ps, kr, v, s, status)))) of
        Inl e \<Rightarrow> (others t0, Inl e)
      | Inr (x, ps, kr, v, s, status) \<Rightarrow>
          if status = st_confirmed \<and> is_truthy (get (ex_extra_data x) ''confirmation_snapshot'' (PList [])) then
            (others t0, stored_confirmation (sv_aead sv) kr user_id x ps v s)
          else
            (case new_confirmation sv kr user_id stamp x ps v of
               Inl e \<Rightarrow> (others t0, Inl e)
             | Inr (ds, e, r) \<Rightarrow>
                 (update_extraction extraction_id (\<lambda>y. y\<lparr>ex_extra_data := e, ex_status := st_confirmed\<rparr>)
                    (write_pages extraction_id ds (others t0)), Inr r)))"

subsection \<open>The review view\<close>

record extraction_review_response =
  xv_extraction_id :: pystr
  xv_review_status :: pystr
  xv_review_version :: int
  xv_review_required :: bool
  xv_can_confirm :: bool
  xv_review_completed :: bool
  xv_total_pages :: int
  xv_summary :: review_summary
  xv_pages :: "page_review_response list"

definition review_page_view ::
  "aead \<Rightarrow> encryption_keyring \<Rightarrow> pystr \<Rightarrow> extraction_page_row \<Rightarrow> page_review_response result" where
  "review_page_view A kr owner_id p =
     bind (get_extraction_page_text A kr owner_id p) (\<lambda>page_text.
     bind (extract_page_review_data A kr owner_id p page_text) (\<lambda>d.
     page_response A kr owner_id p (xp_extra_data p) (PStr (page_id_of p)) page_text (pr_reviewed_text d)
       (pr_final_text_preview d) (pr_review_version d)))"

definition get_extraction_review ::
  "services \<Rightarrow> pystr \<Rightarrow> pystr \<Rightarrow> tables \<Rightarrow> extraction_review_response result" where
  "get_extraction_review sv user_id extraction_id t =
     bind (get_extraction_with_pages t extraction_id user_id) (\<lambda>(x, ps).
     bind (sv_keyring sv) (\<lambda>kr.
     bind (build_review_summary (sv_aead sv) kr user_id x ps) (\<lambda>(s, status).
     bind (map_result (review_page_view (sv_aead sv) kr user_id) (sort_key xp_page_number ps)) (\<lambda>views.
     bind (py_int (review_version_of (ex_extra_data x))) (\<lambda>version.
     bind (build_can_confirm (sv_aead sv) kr user_id x ps s) (\<lambda>can.
     Inr \<lparr>xv_extraction_id = ex_id x, xv_review_status = status, xv_review_version = version,
          xv_review_required = ex_requires_user_review x, xv_can_confirm = can,
          xv_review_completed = (status \<in> {lit ''ready_to_confirm'', st_confirmed}),
          xv_total_pages = int (length ps), xv_summary = s, xv_pages = views\<rparr>))))))"

end
