(* ===== verification/Extraction_Review_Correct.thy ===== *)
theory Extraction_Review_Correct
  imports Extraction_Confirm Sealed_Lists
begin

text \<open>
  Theorems about the review of an extraction: what a confirmation requires and what it keeps, the versions of
  a page, and what the version check does not prevent.
\<close>

subsection \<open>Texts\<close>

text \<open>A stored text field is absent or a text.\<close>

lemma read_field_text:
  assumes "read_page_text_field A kr u p f d = Inr v"
  shows "v = PNone \<or> (\<exists>s. v = PStr s)"
  using assms
  by (auto simp: read_page_text_field_def read_extraction_page_text_field_def
      decrypt_extraction_page_text_field_def bind_Inr_iff split: if_splits option.splits)

lemma list_all2_left: "list_all2 (\<lambda>x y. P x \<and> Q x y) xs ys \<Longrightarrow> \<forall>x\<in>set xs. P x"
  by (induction rule: list_all2_induct) auto

text \<open>The text a confirmation publishes for a page: the reviewed text of an edited page, else the original.\<close>

definition confirmed_text :: "aead \<Rightarrow> encryption_keyring \<Rightarrow> pystr \<Rightarrow> extraction_page_row \<Rightarrow> pystr \<Rightarrow> bool" where
  "confirmed_text A kr u p s \<longleftrightarrow>
     (if review_status_of (xp_extra_data p) = PStr (lit ''edited'')
      then read_page_text_field A kr u p ''reviewed_text'' (xp_extra_data p) = Inr (PStr s)
      else get_extraction_page_text A kr u p = Inr s)"

lemma final_text_confirmed:
  assumes "bind (final_page_text A kr u p (xp_extra_data p)
      (review_status_of (xp_extra_data p) = PStr (lit ''edited''))) present_text = Inr s"
  shows "confirmed_text A kr u p s" "strip s \<noteq> []"
proof -
  obtain v where v: "final_page_text A kr u p (xp_extra_data p)
      (review_status_of (xp_extra_data p) = PStr (lit ''edited'')) = Inr v" "present_text v = Inr s"
    using assms by (auto simp: bind_Inr_iff)
  from v(2) have s: "v \<noteq> PNone" "s = py_str v" "strip s \<noteq> []" by (auto simp: present_text_def split: if_splits)
  show "strip s \<noteq> []" by (rule s(3))
  show "confirmed_text A kr u p s"
    using v(1) s read_field_text
    by (fastforce simp: confirmed_text_def final_page_text_def bind_Inr_iff py_str_def split: if_splits)
qed

text \<open>A page that may be confirmed: no failure, and reviewed when it needs a review.\<close>

definition page_settled :: "extraction_page_row \<Rightarrow> bool" where
  "page_settled p \<longleftrightarrow> \<not> is_truthy (get0 (xp_extra_data p) ''failure'') \<and>
     (xp_requires_user_review p \<longrightarrow>
        review_status_of (xp_extra_data p) \<in> {PStr (lit ''reviewed''), PStr (lit ''edited'')})"

lemma snapshot_of_page_ok:
  assumes "snapshot_of_page A kr u p = Inr s"
  shows "page_settled p" "confirmed_text A kr u p (fst s)" "strip (fst s) \<noteq> []"
    "int (length (fst s)) \<le> MAX_PAGE_REVIEW_TEXT" "\<exists>blocks. snd s = snapshot_page_value p (fst s) blocks"
proof -
  let ?d = "xp_extra_data p"
  from assms obtain b t bl where
    f: "\<not> is_truthy (get0 ?d ''failure'')"
    and b: "(if xp_requires_user_review p then in_names (review_status_of ?d) [''reviewed'', ''edited''] else Inr True)
      = Inr b" "b"
    and t: "bind (final_page_text A kr u p ?d (review_status_of ?d = PStr (lit ''edited''))) present_text = Inr t"
    and l: "int (length t) \<le> MAX_PAGE_REVIEW_TEXT" and s: "s = (t, snapshot_page_value p t bl)"
    unfolding snapshot_of_page_def Let_def by (auto simp: bind_Inr_iff split: if_splits)
  show "page_settled p"
    using f b in_names_Inr [of "review_status_of ?d" "[''reviewed'', ''edited'']" b]
    by (auto simp: page_settled_def split: if_splits)
  show "confirmed_text A kr u p (fst s)" "strip (fst s) \<noteq> []" using final_text_confirmed [OF t] s by simp_all
  show "int (length (fst s)) \<le> MAX_PAGE_REVIEW_TEXT" "\<exists>blocks. snd s = snapshot_page_value p (fst s) blocks"
    using l s by auto
qed

lemma snapshot_response_page:
  "response_page (snapshot_page_value p s bs) =
     [(lit ''page_id'', PStr (page_id_of p)), (lit ''page_number'', PInt (xp_page_number p)),
      (lit ''final_text'', PStr s),
      (lit ''text_source'', PStr (lit (if is_truthy (get (xp_extra_data p) ''text_changed'' (PBool False))
         then ''edited'' else ''original''))),
      (lit ''text_changed'', PBool (is_truthy (get (xp_extra_data p) ''text_changed'' (PBool False)))),
      (lit ''method'', PStr (xp_method p)), (lit ''warnings'', PList (xp_warnings p))]"
  by (simp add: response_page_def response_keys_def snapshot_page_value_def dict_of_def get0_def get_def Let_def)

lemma build_snapshot_ok:
  assumes "build_confirmation_snapshot A kr u ps = Inr (snapshot, changed)"
  shows "map xp_page_number (sort_key xp_page_number ps) = [1..int (length ps)]" "ps \<noteq> []"
    "distinct (map page_id_of (sort_key xp_page_number ps))"
    "list_all2 (\<lambda>p s. snapshot_of_page A kr u p = Inr s) (sort_key xp_page_number ps) snapshot"
    "total_length snapshot \<le> MAX_DOCUMENT_REVIEW_TEXT"
proof -
  let ?ps = "sort_key xp_page_number ps"
  from assms have a: "?ps \<noteq> []" "sort (map xp_page_number ?ps) = [1..int (length ?ps)]"
    "distinct (map page_id_of ?ps)" "map_result (snapshot_of_page A kr u) ?ps = Inr snapshot"
    "total_length snapshot \<le> MAX_DOCUMENT_REVIEW_TEXT"
    unfolding build_confirmation_snapshot_def Let_def by (auto simp: bind_Inr_iff not_less)
  have "sort (map xp_page_number ?ps) = map xp_page_number ?ps" by (rule sort_key_id_if_sorted) simp
  with a(2) show "map xp_page_number ?ps = [1..int (length ps)]" by simp
  show "ps \<noteq> []" "distinct (map page_id_of ?ps)" "total_length snapshot \<le> MAX_DOCUMENT_REVIEW_TEXT"
    using a(1,3,5) by auto
  show "list_all2 (\<lambda>p s. snapshot_of_page A kr u p = Inr s) ?ps snapshot"
    using a(4) by (simp add: map_result_Inr)
qed

subsection \<open>A first confirmation\<close>

definition pages_of :: "tables \<Rightarrow> pystr \<Rightarrow> extraction_page_row list" where
  "pages_of t i = filter (\<lambda>p. xp_extraction_id p = i) (t_pages t)"

lemma summary_status_confirmed: "summary_status x s = st_confirmed \<longleftrightarrow> ex_status x = st_confirmed"
  by (auto simp: summary_status_def st_confirmed_def)

lemma confirm_first:
  assumes "confirm_extraction sv others u stamp i h t0 = (t', Inr r)"
    and "find_extraction t0 i = Some x" and "ex_status x \<noteq> st_confirmed"
  obtains kr v s ds e where "ex_owner_id x = u" "sv_keyring sv = Inr kr"
    "confirmable (sv_aead sv) kr u h x (pages_of t0 i) = Inr (v, s, summary_status x s)"
    "new_confirmation sv kr u stamp x (pages_of t0 i) v = Inr (ds, e, r)"
    "t' = update_extraction i (\<lambda>y. y\<lparr>ex_extra_data := e, ex_status := st_confirmed\<rparr>)
            (write_pages i ds (others t0))"
proof -
  let ?m = "bind (get_extraction_with_pages t0 i u) (\<lambda>(x, ps). bind (sv_keyring sv) (\<lambda>kr.
      bind (confirmable (sv_aead sv) kr u h x ps) (\<lambda>(v, s, status). Inr (x, ps, kr, v, s, status))))"
  obtain y ps kr v s status where m: "?m = Inr (y, ps, kr, v, s, status)"
    using assms(1) unfolding confirm_extraction_def by (auto split: sum.splits)
  then have g: "get_extraction_with_pages t0 i u = Inr (y, ps)" "sv_keyring sv = Inr kr"
    "confirmable (sv_aead sv) kr u h y ps = Inr (v, s, status)"
    by (auto simp: bind_Inr_iff)
  from g(1) assms(2) have y: "y = x" "ps = pages_of t0 i" "ex_owner_id x = u"
    by (auto simp: get_extraction_with_pages_def pages_of_def split: if_splits)
  have st: "status = summary_status x s" using g(3) y(1)
    by (auto simp: confirmable_def build_review_summary_def Let_def bind_Inr_iff split: if_splits)
  then have "status \<noteq> st_confirmed" using assms(3) summary_status_confirmed by simp
  with assms(1) m have n: "(case new_confirmation sv kr u stamp x ps v of
       Inl e \<Rightarrow> (others t0, Inl e)
     | Inr (ds, e, r) \<Rightarrow> (update_extraction i (\<lambda>y. y\<lparr>ex_extra_data := e, ex_status := st_confirmed\<rparr>)
          (write_pages i ds (others t0)), Inr r)) = (t', Inr r)"
    unfolding confirm_extraction_def y(1) by simp
  then obtain ds e where "new_confirmation sv kr u stamp x ps v = Inr (ds, e, r)"
    "t' = update_extraction i (\<lambda>y. y\<lparr>ex_extra_data := e, ex_status := st_confirmed\<rparr>) (write_pages i ds (others t0))"
    by (auto split: sum.splits)
  with that y g st show ?thesis by blast
qed

lemma new_confirmation_ok:
  assumes "new_confirmation sv kr u stamp x ps v = Inr (ds, e, r)"
  obtains snapshot changed checksum n encrypted n1 where
    "build_confirmation_snapshot (sv_aead sv) kr u ps = Inr (snapshot, changed)"
    "stable_checksum (sv_sha sv) (map fst snapshot) = Inr checksum"
    "confirm_pages sv kr u stamp (sort_key xp_page_number ps) 0 = Inr (ds, n)"
    "encrypt_snapshot sv kr u (ex_id x) (next_snapshot_version (ex_extra_data x)) (map snd snapshot) n =
       Inr (encrypted, n1)"
    "e = confirmed_extraction_data stamp v encrypted (next_snapshot_version (ex_extra_data x))
       (total_length snapshot) checksum (ex_extra_data x)"
    "cr_review_version r = v + 1" "cr_snapshot_version r = next_snapshot_version (ex_extra_data x)"
    "cr_snapshot r = map (response_page \<circ> snd) snapshot" "cr_total_text_length r = PInt (total_length snapshot)"
    "cr_confirmation_checksum r = PStr checksum"
  using assms by (auto simp: new_confirmation_def Let_def bind_Inr_iff)

text \<open>C7: Nothing is confirmed that was not reviewed.  A first confirmation succeeds only for the owner, when
  the pages are numbered from one without a gap, no page has failed and every page that needs a review is
  reviewed or edited.  The published snapshot then has one entry for each page in the order of the pages; its
  text is the reviewed text of an edited page and the extracted text of any other, it is not blank, and the
  limits per page and per document hold.\<close>

theorem confirmation_needs_every_review:
  assumes "confirm_extraction sv others u stamp i h t0 = (t', Inr r)"
    and "find_extraction t0 i = Some x" and "ex_status x \<noteq> st_confirmed"
  shows "ex_owner_id x = u \<and>
    (\<exists>kr ps texts. sv_keyring sv = Inr kr \<and> ps = sort_key xp_page_number (pages_of t0 i) \<and> ps \<noteq> [] \<and>
      map xp_page_number ps = [1..int (length ps)] \<and> (\<forall>p\<in>set ps. page_settled p) \<and>
      list_all2 (\<lambda>p s. confirmed_text (sv_aead sv) kr u p s \<and> strip s \<noteq> [] \<and> length s \<le> 200000) ps texts \<and>
      sum_list (map length texts) \<le> 1000000 \<and>
      map (\<lambda>d. map_of d (lit ''final_text'')) (cr_snapshot r) = map (Some \<circ> PStr) texts \<and>
      map (\<lambda>d. map_of d (lit ''page_number'')) (cr_snapshot r) = map (Some \<circ> PInt \<circ> xp_page_number) ps)"
proof -
  from assms obtain kr v s ds e where c: "ex_owner_id x = u" "sv_keyring sv = Inr kr"
    "new_confirmation sv kr u stamp x (pages_of t0 i) v = Inr (ds, e, r)"
    by (rule confirm_first)
  from c(3) obtain snapshot changed where n:
    "build_confirmation_snapshot (sv_aead sv) kr u (pages_of t0 i) = Inr (snapshot, changed)"
    "cr_snapshot r = map (response_page \<circ> snd) snapshot"
    by (rule new_confirmation_ok)
  note b = build_snapshot_ok [OF n(1)]
  let ?ps = "sort_key xp_page_number (pages_of t0 i)"
  have each: "list_all2 (\<lambda>p s. page_settled p \<and> confirmed_text (sv_aead sv) kr u p (fst s) \<and> strip (fst s) \<noteq> [] \<and>
      length (fst s) \<le> 200000 \<and> (\<exists>blocks. snd s = snapshot_page_value p (fst s) blocks)) ?ps snapshot"
    using b(4) by (rule list_all2_mono) (use snapshot_of_page_ok in \<open>auto simp: MAX_PAGE_REVIEW_TEXT_def\<close>)
  have "\<forall>p\<in>set ?ps. page_settled p"
    by (rule list_all2_left [OF each])
  moreover have "list_all2 (\<lambda>p s. confirmed_text (sv_aead sv) kr u p s \<and> strip s \<noteq> [] \<and> length s \<le> 200000)
      ?ps (map fst snapshot)"
    using each by (auto simp: list_all2_map2 elim!: list_all2_mono)
  moreover have "sum_list (map length (map fst snapshot)) \<le> 1000000"
  proof -
    have "int (sum_list (map length (map fst snapshot))) = total_length snapshot"
      unfolding total_length_def by (induction snapshot) simp_all
    with b(5) show ?thesis by (simp add: MAX_DOCUMENT_REVIEW_TEXT_def)
  qed
  moreover have "map (\<lambda>d. map_of d (lit ''final_text'')) (cr_snapshot r) = map (Some \<circ> PStr) (map fst snapshot)"
    "map (\<lambda>d. map_of d (lit ''page_number'')) (cr_snapshot r) = map (Some \<circ> PInt \<circ> xp_page_number) ?ps"
    using each unfolding n(2)
    by (induction rule: list_all2_induct) (auto simp: snapshot_response_page)
  moreover have "?ps \<noteq> []" using b(2) by (metis length_0_conv length_sort)
  ultimately show ?thesis using c(1,2) b(1) by auto
qed

subsection \<open>Correcting a page\<close>

text \<open>An accepted correction of a page that is not confirmed.\<close>

definition correction ::
  "services \<Rightarrow> pystr \<Rightarrow> pystr \<Rightarrow> pystr \<Rightarrow> pystr \<Rightarrow> review_patch \<Rightarrow> pystr option \<Rightarrow> tables \<Rightarrow>
     extraction_page_row \<Rightarrow> int \<Rightarrow> pydict \<Rightarrow> pydict \<Rightarrow> bool" where
  "correction sv u stamp i pid payload h t0 p version d e \<longleftrightarrow>
     (\<exists>x kr reviewed original n.
        find_extraction t0 i = Some x \<and> ex_owner_id x = u \<and> sv_keyring sv = Inr kr \<and>
        reviewable_page pid payload h x (pages_of t0 i) = Inr (p, version) \<and>
        review_status_of (xp_extra_data p) \<noteq> PStr st_confirmed \<and>
        requested_text (sv_aead sv) kr u payload p = Inr reviewed \<and>
        get_extraction_page_text (sv_aead sv) kr u p = Inr original \<and>
        reviewed_page_data sv kr u p reviewed (reviewed \<noteq> original) (version + 1) stamp 0 = Inr (d, n) \<and>
        reviewed_extraction_data (sv_aead sv) kr u x
          (map (\<lambda>q. if xp_page_number q = xp_page_number p then p\<lparr>xp_extra_data := d\<rparr> else q) (pages_of t0 i)) =
          Inr e)"

definition write_correction :: "pystr \<Rightarrow> int \<Rightarrow> pydict \<Rightarrow> pydict \<Rightarrow> tables \<Rightarrow> tables" where
  "write_correction i number d e t =
     update_extraction i (\<lambda>x. x\<lparr>ex_extra_data := e\<rparr>) (update_page i number d t)"

lemma reviewable_page_ok:
  assumes "reviewable_page pid payload h x ps = Inr (p, version)"
  shows "p \<in> set ps" "get0 (xp_extra_data p) ''page_id'' = PStr pid" "ex_status x \<noteq> st_confirmed"
    "ex_requires_user_review x" "xp_requires_user_review p"
    "parse_version_value h (pt_version payload) ''page_review_version_mismatch'' = Inr version"
    "py_int (review_version_of (xp_extra_data p)) = Inr version"
proof -
  let ?f = "filter (\<lambda>p. get0 (xp_extra_data p) ''page_id'' = PStr pid) ps"
  obtain qs where f: "?f = p # qs"
    using assms unfolding reviewable_page_def by (cases ?f) (auto simp: bind_Inr_iff split: if_splits)
  then have "p \<in> set ?f" by simp
  then show "p \<in> set ps" "get0 (xp_extra_data p) ''page_id'' = PStr pid" by auto
  show "ex_status x \<noteq> st_confirmed" "ex_requires_user_review x" "xp_requires_user_review p"
    "parse_version_value h (pt_version payload) ''page_review_version_mismatch'' = Inr version"
    "py_int (review_version_of (xp_extra_data p)) = Inr version"
    using assms unfolding reviewable_page_def f by (auto simp: bind_Inr_iff split: if_splits)
qed

lemma patch_cases:
  assumes "patch_extraction_page_review sv others u stamp i pid payload h t0 = (t', r)"
  obtains (kept) "\<And>g. patch_extraction_page_review sv g u stamp i pid payload h t0 = (g t0, r)"
      "(\<exists>err. r = Inl err) \<or> (\<exists>x p version. reviewable_page pid payload h x (pages_of t0 i) = Inr (p, version) \<and>
         review_status_of (xp_extra_data p) = PStr st_confirmed)"
  | (written) p version d e where "correction sv u stamp i pid payload h t0 p version d e"
      "\<And>g. patch_extraction_page_review sv g u stamp i pid payload h t0 =
         (write_correction i (xp_page_number p) d e (g t0), r)"
proof -
  let ?m = "bind (get_extraction_with_pages t0 i u) (\<lambda>(x, ps). bind (sv_keyring sv) (\<lambda>kr.
      bind (reviewable_page pid payload h x ps) (\<lambda>(p, version). Inr (x, ps, kr, p, version))))"
  show ?thesis
  proof (cases ?m)
    case (Inl err)
    with assms show ?thesis by (intro kept) (auto simp: patch_extraction_page_review_def Let_def)
  next
    case (Inr z)
    obtain x ps kr p version where z: "z = (x, ps, kr, p, version)" by (cases z)
    have g: "find_extraction t0 i = Some x" "ex_owner_id x = u" "ps = pages_of t0 i" "sv_keyring sv = Inr kr"
      "reviewable_page pid payload h x ps = Inr (p, version)"
      using Inr unfolding z
      by (auto simp: bind_Inr_iff get_extraction_with_pages_def pages_of_def split: option.splits if_splits)
    show ?thesis
    proof (cases "review_status_of (xp_extra_data p) = PStr st_confirmed")
      case True
      have "reviewable_page pid payload h x (pages_of t0 i) = Inr (p, version)" using g(5) g(3) by simp
      with True assms Inr z show ?thesis
        by (intro kept) (auto simp: patch_extraction_page_review_def Let_def)
    next
      case False
      let ?n = "bind (requested_text (sv_aead sv) kr u payload p) (\<lambda>reviewed.
          bind (get_extraction_page_text (sv_aead sv) kr u p) (\<lambda>original.
          bind (reviewed_page_data sv kr u p reviewed (reviewed \<noteq> original) (version + 1) stamp 0) (\<lambda>(d, n).
          bind (reviewed_extraction_data (sv_aead sv) kr u x
              (map (\<lambda>q. if xp_page_number q = xp_page_number p then p\<lparr>xp_extra_data := d\<rparr> else q) ps)) (\<lambda>e.
          Inr (original, d, e)))))"
      show ?thesis
      proof (cases ?n)
        case (Inl err)
        with assms Inr z False show ?thesis by (intro kept) (auto simp: patch_extraction_page_review_def Let_def)
      next
        case (Inr w)
        obtain original d e where w: "w = (original, d, e)" by (cases w)
        from Inr have "correction sv u stamp i pid payload h t0 p version d e"
          unfolding correction_def w using g False by (auto simp: bind_Inr_iff)
        moreover have "patch_extraction_page_review sv g u stamp i pid payload h t0 =
            (write_correction i (xp_page_number p) d e (g t0), r)" for g
          using assms Inr w z False \<open>?m = Inr z\<close>
          by (auto simp add: patch_extraction_page_review_def write_correction_def Let_def)
        ultimately show ?thesis by (rule written)
      qed
    qed
  qed
qed

lemma get0_pop_key: "get0 (pop_key f d) k = (if k = f then PNone else get0 d k)"
proof -
  have "map_of (pop_key f d) (lit k) = (if k = f then None else map_of d (lit k))"
    by (induction d) (auto simp: pop_key_def)
  then show ?thesis by (simp add: get0_def get_def)
qed

lemma write_field_shape:
  assumes "write_page_text_field sv kr u p f v d n = Inr (d', n')"
  obtains m where "d' = put (lit (f @ ''_encrypted'')) m (pop_key f d)" "is_page_text_field f"
    "encrypt_extraction_page_text_field (sv_aead sv) (sv_nonce sv) kr v f (PStr (xp_extraction_id p))
       (PInt (xp_page_number p)) (PStr u) n = Inr (m, n')"
  using assms
  by (auto simp: write_page_text_field_def write_extraction_page_text_field_def bind_Inr_iff split: if_splits)

lemma write_field_get:
  assumes "write_page_text_field sv kr u p f v d n = Inr (d', n')" "k \<noteq> f" "k \<noteq> f @ ''_encrypted''"
  shows "get0 d' k = get0 d k"
  using assms(2,3) by (rule_tac write_field_shape [OF assms(1)]) (auto simp: get0_put get0_pop_key)

text \<open>What was written reads back, also after another field was written.\<close>

lemma write_field_reads:
  assumes "can_read (sv_aead sv) kr kr'" "write_page_text_field sv kr u p f (PStr s) d n = Inr (d', n')"
    and "get0 d2 f = PNone" "map_of d2 (lit (f @ ''_encrypted'')) = map_of d' (lit (f @ ''_encrypted''))"
  shows "read_page_text_field (sv_aead sv) kr' u p f d2 = Inr (PStr s)"
proof -
  obtain m where m: "d' = put (lit (f @ ''_encrypted'')) m (pop_key f d)" "is_page_text_field f"
    "encrypt_extraction_page_text_field (sv_aead sv) (sv_nonce sv) kr (PStr s) f (PStr (xp_extraction_id p))
       (PInt (xp_page_number p)) (PStr u) n = Inr (m, n')"
    using write_field_shape [OF assms(2)] by blast
  from m(3) obtain i w k where i: "require_identifier ScalarDecryptionError ''extraction_id'' (PStr (xp_extraction_id p)) = Inr i"
    "require_identifier ScalarDecryptionError ''owner_id'' (PStr u) = Inr w"
    "require_page_number ScalarDecryptionError (PInt (xp_page_number p)) = Inr k"
    and e: "encrypt_next (sv_aead sv) (sv_nonce sv) kr (page_text_field_aad i k (lit f) w) s n = Inr (m, n')"
    by (auto simp: encrypt_extraction_page_text_field_def bind_Inr_iff require_identifier_transfer
        require_number_transfer split: if_splits)
  from e have "\<exists>x. m = PDict x" by (auto simp: encrypt_next_def bind_Inr_iff)
  then have "decrypt_extraction_page_text_field (sv_aead sv) kr' m f (PStr (xp_extraction_id p))
      (PInt (xp_page_number p)) (PStr u) = Inr (PStr s)"
    using m(2) i decrypt_with_opens [OF assms(1) e]
    by (auto simp: decrypt_extraction_page_text_field_def bind_Inr_iff)
  moreover have "map_of d2 (lit (f @ ''_encrypted'')) = Some m" using assms(4) m(1) by (simp add: map_of_put)
  then have "get0 d2 (f @ ''_encrypted'') = m" "lit (f @ ''_encrypted'') \<in> fst ` set d2"
    by (simp_all add: get0_def get_def) (metis domI dom_map_of_conv_image_fst)
  ultimately show ?thesis
    using assms(3) m(2) by (simp add: read_page_text_field_def read_extraction_page_text_field_def)
qed

lemma reviewed_page_data_ok:
  assumes "reviewed_page_data sv kr u p s changed version stamp n = Inr (d, n')"
  shows "get0 d ''review_version'' = PInt version"
    "get0 d ''review_status'' = PStr (lit (if changed then ''edited'' else ''reviewed''))"
    "k \<notin> {''reviewed_text'', ''reviewed_text_encrypted'', ''final_text'', ''final_text_encrypted'', ''confirmed_at'',
       ''review_status'', ''review_version'', ''reviewed_at'', ''text_changed''} \<Longrightarrow> get0 d k = get0 (xp_extra_data p) k"
    "can_read (sv_aead sv) kr kr' \<Longrightarrow> read_page_text_field (sv_aead sv) kr' u p ''reviewed_text'' d = Inr (PStr s)"
    "can_read (sv_aead sv) kr kr' \<Longrightarrow> read_page_text_field (sv_aead sv) kr' u p ''final_text'' d = Inr (PStr s)"
proof -
  define d0 where "d0 = put (lit ''confirmed_at'') PNone
               (put (lit ''review_status'') (PStr (lit (if changed then ''edited'' else ''reviewed'')))
               (put (lit ''review_version'') (PInt version)
               (put (lit ''reviewed_at'') (PStr stamp)
               (put (lit ''text_changed'') (PBool changed) (xp_extra_data p)))))"
  from assms obtain d1 n1 where w: "write_page_text_field sv kr u p ''reviewed_text'' (PStr s) d0 n = Inr (d1, n1)"
    "write_page_text_field sv kr u p ''final_text'' (PStr s) d1 n1 = Inr (d, n')"
    by (auto simp: reviewed_page_data_def d0_def bind_Inr_iff)
  have g: "get0 d k = get0 d0 k" if "k \<notin> {''reviewed_text'', ''reviewed_text_encrypted'', ''final_text'', ''final_text_encrypted''}" for k
    using write_field_get [OF w(1), of k] write_field_get [OF w(2), of k] that by simp
  show "get0 d ''review_version'' = PInt version"
    "get0 d ''review_status'' = PStr (lit (if changed then ''edited'' else ''reviewed''))"
    by (simp_all add: g d0_def get0_put)
  show "get0 d k = get0 (xp_extra_data p) k"
    if "k \<notin> {''reviewed_text'', ''reviewed_text_encrypted'', ''final_text'', ''final_text_encrypted'', ''confirmed_at'',
       ''review_status'', ''review_version'', ''reviewed_at'', ''text_changed''}"
    using that by (auto simp: g d0_def get0_put)
  obtain m1 where m1: "d1 = put (lit (''reviewed_text'' @ ''_encrypted'')) m1 (pop_key ''reviewed_text'' d0)"
    using write_field_shape [OF w(1)] by blast
  obtain m2 where m2: "d = put (lit (''final_text'' @ ''_encrypted'')) m2 (pop_key ''final_text'' d1)"
    using write_field_shape [OF w(2)] by blast
  have pop: "map_of (pop_key f c) (lit k) = (if k = f then None else map_of c (lit k))" for f c k
    by (induction c) (auto simp: pop_key_def)
  show "can_read (sv_aead sv) kr kr' \<Longrightarrow> read_page_text_field (sv_aead sv) kr' u p ''reviewed_text'' d = Inr (PStr s)"
    by (rule write_field_reads [OF _ w(1)]) (simp_all add: m2 m1 get0_put get0_pop_key map_of_put pop)
  show "can_read (sv_aead sv) kr kr' \<Longrightarrow> read_page_text_field (sv_aead sv) kr' u p ''final_text'' d = Inr (PStr s)"
    by (rule write_field_reads [OF _ w(2)]) (simp_all add: m2 m1 get0_put get0_pop_key map_of_put pop)
qed

lemma reviewed_extraction_data_ok:
  assumes "reviewed_extraction_data A kr u x ps = Inr e"
  shows "\<exists>v. py_int (review_version_of (ex_extra_data x)) = Inr v \<and> get0 e ''review_version'' = PInt (v + 1)"
    "k \<notin> {''review_version'', ''review_status'', ''blocking_reasons'', ''can_confirm''} \<Longrightarrow> get0 e k = get0 (ex_extra_data x) k"
  using assms by (auto simp: reviewed_extraction_data_def Let_def bind_Inr_iff get0_put)

text \<open>The members a correction may write, of a page and of its extraction.\<close>

definition review_members :: "string set" where
  "review_members =
     {''review_version'', ''review_status'', ''reviewed_at'', ''confirmed_at'', ''text_changed'',
      ''reviewed_text'', ''reviewed_text_encrypted'', ''final_text'', ''final_text_encrypted''}"

definition summary_members :: "string set" where
  "summary_members = {''review_version'', ''review_status'', ''blocking_reasons'', ''can_confirm''}"

text \<open>C13: A correction is accepted only against the version the client saw, and raises it by one.  Whatever
  the request, either the tables stay as they are, or exactly one page of the owner's unconfirmed extraction,
  the one with the requested id, which needs a review and whose version is the requested one, gets the next
  version, becomes reviewed or edited, and reads back with one text as its reviewed and its final text, and the
  version of the extraction rises by one.  Of the page nothing else changes but the moment of the review, the mark of a
  changed text and the cleared confirmation, and of the extraction nothing else but the summary of its reviews.\<close>

theorem review_raises_version:
  assumes "sv_keyring sv = Inr kr" and "can_read (sv_aead sv) kr kr"
    and "patch_extraction_page_review sv (\<lambda>t. t) u stamp i pid payload h t = (t', r)"
  shows "t' = t \<or>
    (\<exists>x p version d e s v. t' = write_correction i (xp_page_number p) d e t \<and>
      find_extraction t i = Some x \<and> ex_owner_id x = u \<and> ex_status x \<noteq> st_confirmed \<and>
      p \<in> set (pages_of t i) \<and> get0 (xp_extra_data p) ''page_id'' = PStr pid \<and> xp_requires_user_review p \<and>
      parse_version_value h (pt_version payload) ''page_review_version_mismatch'' = Inr version \<and>
      py_int (review_version_of (xp_extra_data p)) = Inr version \<and> get0 d ''review_version'' = PInt (version + 1) \<and>
      get0 d ''review_status'' \<in> {PStr (lit ''reviewed''), PStr (lit ''edited'')} \<and>
      read_page_text_field (sv_aead sv) kr u p ''reviewed_text'' d = Inr (PStr s) \<and>
      read_page_text_field (sv_aead sv) kr u p ''final_text'' d = Inr (PStr s) \<and>
      (\<forall>k. k \<notin> review_members \<longrightarrow> get0 d k = get0 (xp_extra_data p) k) \<and>
      py_int (review_version_of (ex_extra_data x)) = Inr v \<and> get0 e ''review_version'' = PInt (v + 1) \<and>
      (\<forall>k. k \<notin> summary_members \<longrightarrow> get0 e k = get0 (ex_extra_data x) k))"
  using assms(3)
proof (cases rule: patch_cases)
  case (written p version d e)
  then obtain x reviewed original n where c: "find_extraction t i = Some x" "ex_owner_id x = u"
    "reviewable_page pid payload h x (pages_of t i) = Inr (p, version)"
    "reviewed_page_data sv kr u p reviewed (reviewed \<noteq> original) (version + 1) stamp 0 = Inr (d, n)"
    "reviewed_extraction_data (sv_aead sv) kr u x
       (map (\<lambda>q. if xp_page_number q = xp_page_number p then p\<lparr>xp_extra_data := d\<rparr> else q) (pages_of t i)) = Inr e"
    using assms(1) unfolding correction_def by auto
  note p = reviewable_page_ok [OF c(3)] and d = reviewed_page_data_ok [OF c(4)]
    and e = reviewed_extraction_data_ok [OF c(5)]
  from e(1) obtain v where "py_int (review_version_of (ex_extra_data x)) = Inr v" "get0 e ''review_version'' = PInt (v + 1)"
    by blast
  moreover have "t' = write_correction i (xp_page_number p) d e t" using assms(3) written(2) by simp
  moreover have "get0 d ''review_status'' \<in> {PStr (lit ''reviewed''), PStr (lit ''edited'')}" using d(2) by simp
  moreover have "\<forall>k. k \<notin> review_members \<longrightarrow> get0 d k = get0 (xp_extra_data p) k"
    using d(3) by (simp add: review_members_def)
  moreover have "\<forall>k. k \<notin> summary_members \<longrightarrow> get0 e k = get0 (ex_extra_data x) k"
    using e(2) by (simp add: summary_members_def)
  ultimately show ?thesis using c(1,2) p d(1) d(4,5) [OF assms(2)] by (intro disjI2) (auto intro!: exI)
next
  case kept
  with assms(3) show ?thesis by simp
qed

lemma reviewable_page_hd:
  "reviewable_page pid payload h x ps = Inr (p, version) \<Longrightarrow>
     p = hd (filter (\<lambda>p. get0 (xp_extra_data p) ''page_id'' = PStr pid) ps)"
  by (auto simp: reviewable_page_def bind_Inr_iff split: list.splits if_splits)

lemma write_correction_twice:
  "write_correction i n d e (write_correction i n d1 e1 t) = write_correction i n d e t"
  by (auto simp: write_correction_def update_extraction_def update_page_def comp_def)

text \<open>C32: The version check does not serialise corrections.  Let one correction of a page be accepted and committed, and
  let a second one of the same page be such that it would be accepted on the tables as they were before.  If the second
  session had read those tables before the commit, its correction is accepted all the same, although the page has got
  the next version meanwhile, and the tables end up as if the first correction, already acknowledged, had never been
  made.\<close>

theorem concurrent_review_is_lost:
  assumes "patch_extraction_page_review sv (\<lambda>t. t) u stamp i pid payload h t = (t1, Inr r1)"
    and "patch_extraction_page_review sv (\<lambda>t. t) u stamp2 i pid payload2 h2 t = (t2, Inr r2)"
  shows "patch_extraction_page_review sv (\<lambda>_. t1) u stamp2 i pid payload2 h2 t = (t2, Inr r2)"
  using assms(2)
proof (cases rule: patch_cases)
  case second: (written p version d e)
  show ?thesis
    using assms(1)
  proof (cases rule: patch_cases)
    case first: (written q version1 d1 e1)
    have "q = p"
      using first(1) second(1) unfolding correction_def by (auto dest!: reviewable_page_hd)
    then have "t1 = write_correction i (xp_page_number p) d1 e1 t"
      using first(2) [of "\<lambda>t. t"] assms(1) by simp
    then have "write_correction i (xp_page_number p) d e t1 = write_correction i (xp_page_number p) d e t"
      by (simp add: write_correction_twice)
    then show ?thesis using second(2) [of "\<lambda>t. t"] second(2) [of "\<lambda>_. t1"] assms(2) by simp
  next
    case kept
    then have "t1 = t" using assms(1) by simp
    then show ?thesis using second(2) [of "\<lambda>t. t"] second(2) [of "\<lambda>_. t1"] assms(2) by simp
  qed
next
  case second: kept
  then obtain x p version where p: "reviewable_page pid payload2 h2 x (pages_of t i) = Inr (p, version)"
    "review_status_of (xp_extra_data p) = PStr st_confirmed" by auto
  have "t1 = t"
    using assms(1)
  proof (cases rule: patch_cases)
    case first: (written q version1 d1 e1)
    then have "q = p" using reviewable_page_hd [OF p(1)] unfolding correction_def by (auto dest!: reviewable_page_hd)
    then show ?thesis using first(1) p(2) unfolding correction_def by blast
  next
    case kept
    then show ?thesis using assms(1) by simp
  qed
  then show ?thesis using second(1) [of "\<lambda>t. t"] second(1) [of "\<lambda>_. t1"] assms(2) by simp
qed

end
