(* ===== verification/Extraction_Example.thy ===== *)
theory Extraction_Example
  imports Extraction_Review_Correct
begin

text \<open>A concrete extraction with one page that needs a review, a correction of it and its confirmation.\<close>

definition example_services :: services where
  "example_services = \<lparr>sv_aead = plain_aead, sv_nonce = example_rng, sv_sha = (\<lambda>s. s),
     sv_keyring = Inr example_keyring\<rparr>"

definition example_page_cipher :: pystr where
  "example_page_cipher =
     (case encrypt_extraction_page_text plain_aead (replicate 12 5) example_keyring (PStr (lit ''ab'')) (PStr (lit ''e''))
        (PInt 1) (PStr (lit ''o'')) of Inr c \<Rightarrow> c | Inl _ \<Rightarrow> [])"

definition example_page :: "string \<Rightarrow> extraction_page_row" where
  "example_page status =
     \<lparr>xp_extraction_id = lit ''e'', xp_page_number = 1, xp_method = lit ''ocr'',
      xp_text_encrypted = example_page_cipher, xp_warnings = [], xp_requires_user_review = True,
      xp_extra_data = [(lit ''page_id'', PStr (lit ''p'')), (lit ''review_status'', PStr (lit status)),
        (lit ''review_version'', PInt 1)]\<rparr>"

definition example_review :: extraction_row where
  "example_review =
     \<lparr>ex_id = lit ''e'', ex_filename_display_encrypted = [], ex_source_type = lit ''pdf'', ex_size_bytes = 1,
      ex_page_count = 1, ex_status = lit ''review_required'', ex_method = lit ''ocr'', ex_warnings = [],
      ex_requires_user_review = True, ex_extra_data = [(lit ''review_version'', PInt 1)],
      ex_owner_id = lit ''o'', ex_created_at = 0\<rparr>"

definition review_tables :: "string \<Rightarrow> tables" where
  "review_tables status =
     \<lparr>t_documents = [], t_clauses = [], t_jobs = [], t_results = [], t_extractions = [example_review],
      t_pages = [example_page status]\<rparr>"

lemma example_page_text: "get_extraction_page_text plain_aead example_keyring (lit ''o'') (example_page s) = Inr (lit ''ab'')"
proof -
  have e: "encrypt_extraction_page_text plain_aead (replicate 12 5) example_keyring (PStr (lit ''ab'')) (PStr (lit ''e''))
      (PInt 1) (PStr (lit ''o'')) = Inr example_page_cipher" "example_page_cipher \<noteq> []"
    by code_simp+
  have "can_read plain_aead example_keyring example_keyring"
    using plain_aead_correct example_active example_finds unfolding can_read_def by blast
  from page_text_opens [OF this e(1)] e(2) show ?thesis
    by (simp add: get_extraction_page_text_def example_page_def)
qed

definition example_patch :: "string \<Rightarrow> review_patch" where
  "example_patch s = \<lparr>pt_version = Some 1, pt_unchanged = None, pt_reviewed_text = Some (lit s)\<rparr>"

definition example_review_of :: "string \<Rightarrow> tables \<times> page_review_response result" where
  "example_review_of s =
     patch_extraction_page_review example_services (\<lambda>t. t) (lit ''o'') (lit ''now'') (lit ''e'') (lit ''p'') (example_patch s) None
       (review_tables ''pending'')"

lemma example_patch_accepted:
  assumes "s \<in> {''cd'', ''ef''}"
  shows "\<exists>t' r. example_review_of s = (t', Inr r) \<and> pv_reviewed_text r = PStr (lit s) \<and>
    map (\<lambda>p. get0 (xp_extra_data p) ''review_version'') (t_pages t') = [PInt 2]"
proof -
  have "case example_review_of s of (t', Inl _) \<Rightarrow> False
    | (t', Inr r) \<Rightarrow> pv_reviewed_text r = PStr (lit s) \<and>
        map (\<lambda>p. get0 (xp_extra_data p) ''review_version'') (t_pages t') = [PInt 2]" if "s = ''cd''"
    unfolding that by code_simp
  moreover have "case example_review_of s of (t', Inl _) \<Rightarrow> False
    | (t', Inr r) \<Rightarrow> pv_reviewed_text r = PStr (lit s) \<and>
        map (\<lambda>p. get0 (xp_extra_data p) ''review_version'') (t_pages t') = [PInt 2]" if "s = ''ef''"
    unfolding that by code_simp
  ultimately show ?thesis using assms by (cases "example_review_of s") (auto split: sum.splits)
qed

lemma example_confirmed:
  "\<exists>t' r. confirm_extraction example_services (\<lambda>t. t) (lit ''o'') (lit ''now'') (lit ''e'') (Some (lit ''1''))
     (review_tables ''reviewed'') = (t', Inr r)"
proof -
  have "case snd (confirm_extraction example_services (\<lambda>t. t) (lit ''o'') (lit ''now'') (lit ''e'') (Some (lit ''1''))
     (review_tables ''reviewed'')) of Inl _ \<Rightarrow> False | Inr _ \<Rightarrow> True"
    by code_simp
  then show ?thesis by (metis (no_types, lifting) prod.collapse sum.case(1) sum.exhaust)
qed

end
