(* ===== verification/Extraction_Ready.thy ===== *)
theory Extraction_Ready
  imports Analysis_Job_Api Extraction_Example
begin

text \<open>
  From a confirmed extraction to an analysis job: the confirmation is accepted for analysis under its snapshot
  version, it is stable, and what becomes of its text.
\<close>

subsection \<open>The rows after a confirmation\<close>

lemma find_updated:
  assumes "\<And>x. ex_id (f x) = ex_id x"
  shows "List.find (\<lambda>x. ex_id x = i) (map (\<lambda>x. if ex_id x = i then f x else x) xs) =
    map_option f (List.find (\<lambda>x. ex_id x = i) xs)"
  by (induction xs) (auto simp: assms)

lemma write_pages_tables [simp]:
  "t_extractions (write_pages i ds t) = t_extractions t" "t_documents (write_pages i ds t) = t_documents t"
  "t_clauses (write_pages i ds t) = t_clauses t" "t_jobs (write_pages i ds t) = t_jobs t"
  "t_results (write_pages i ds t) = t_results t"
  unfolding write_pages_def by (induction ds arbitrary: t) (auto simp: update_page_def)

lemma find_confirmed:
  assumes "find_extraction t i = Some x"
  shows "find_extraction (update_extraction i (\<lambda>y. y\<lparr>ex_extra_data := e, ex_status := st_confirmed\<rparr>) (write_pages i ds t)) i =
    Some (x\<lparr>ex_extra_data := e, ex_status := st_confirmed\<rparr>)"
  using assms find_updated [of "\<lambda>y. y\<lparr>ex_extra_data := e, ex_status := st_confirmed\<rparr>" i "t_extractions t"]
  by (simp add: find_extraction_def update_extraction_def)

lemma confirmed_data_get:
  "get0 (confirmed_extraction_data stamp v enc ver len checksum e) ''review_status'' = PStr st_confirmed"
  "get0 (confirmed_extraction_data stamp v enc ver len checksum e) ''review_version'' = PInt (v + 1)"
  "get (confirmed_extraction_data stamp v enc ver len checksum e) ''snapshot_version'' w = PInt ver"
  "get0 (confirmed_extraction_data stamp v enc ver len checksum e) ''snapshot_version'' = PInt ver"
  "get0 (confirmed_extraction_data stamp v enc ver len checksum e) ''confirmation_snapshot'' = PList enc"
  "get0 (confirmed_extraction_data stamp v enc ver len checksum e) ''confirmation_checksum'' = PStr checksum"
  by (simp_all add: confirmed_extraction_data_def get0_put) (simp add: get_def map_of_put)

subsection \<open>The decrypted snapshot\<close>

text \<open>What the checks of the analysis request see of a snapshot page.\<close>

lemma snapshot_page_members:
  "get0 (dict_of (snapshot_page_value p s bs)) ''page_id'' = PStr (page_id_of p)"
  "get0 (dict_of (snapshot_page_value p s bs)) ''page_number'' = PInt (xp_page_number p)"
  "get0 (dict_of (snapshot_page_value p s bs)) ''final_text'' = PStr s"
  by (simp_all add: snapshot_page_value_def dict_of_def get0_def get_def Let_def)

definition opened_page :: "extraction_page_row \<Rightarrow> pystr \<Rightarrow> pyval \<Rightarrow> bool" where
  "opened_page p s z \<longleftrightarrow> get0 (dict_of z) ''page_id'' = PStr (page_id_of p) \<and>
     get0 (dict_of z) ''page_number'' = PInt (xp_page_number p) \<and> get0 (dict_of z) ''final_text'' = PStr s"

lemma opened_pages:
  assumes "list_all2 (\<lambda>p s. snapshot_of_page A kr u p = Inr s) ps snapshot" "list_all2 same_page (map snd snapshot) zs"
  shows "length zs = length ps"
    "\<forall>n<length ps. opened_page (ps ! n) (fst (snapshot ! n)) (zs ! n) \<and> strip (fst (snapshot ! n)) \<noteq> []"
proof -
  show "length zs = length ps" using assms by (metis length_map list_all2_lengthD)
  show "\<forall>n<length ps. opened_page (ps ! n) (fst (snapshot ! n)) (zs ! n) \<and> strip (fst (snapshot ! n)) \<noteq> []"
  proof (intro allI impI)
    fix n assume n: "n < length ps"
    have l: "length snapshot = length ps" using assms(1) by (metis list_all2_lengthD)
    have s: "snapshot_of_page A kr u (ps ! n) = Inr (snapshot ! n)" using assms(1) n by (rule list_all2_nthD)
    obtain bs where "snd (snapshot ! n) = snapshot_page_value (ps ! n) (fst (snapshot ! n)) bs"
      using snapshot_of_page_ok(5) [OF s] by blast
    moreover have "same_page (snd (snapshot ! n)) (zs ! n)" using assms(2) n l by (simp add: list_all2_conv_all_nth)
    ultimately show "opened_page (ps ! n) (fst (snapshot ! n)) (zs ! n) \<and> strip (fst (snapshot ! n)) \<noteq> []"
      using snapshot_of_page_ok(3) [OF s] by (simp add: opened_page_def same_page_def snapshot_page_members)
  qed
qed

lemma opened_checks:
  assumes "length zs = length ps" "\<forall>n<length ps. opened_page (ps ! n) (texts ! n) (zs ! n) \<and> strip (texts ! n) \<noteq> []"
    and "length texts = length ps" "map xp_page_number ps = [1..int (length ps)]" "distinct (map page_id_of ps)"
    and "\<forall>p\<in>set ps. strip (page_id_of p) \<noteq> []"
  shows "for_each check_snapshot_item zs = Inr ()" "sort (map page_number_of zs) = [1..int (length zs)]"
    "distinct (map (\<lambda>v. get0 (dict_of v) ''page_id'') zs)"
    "map (\<lambda>v. py_str (final_text_of v)) zs = texts"
proof -
  have num: "map page_number_of zs = map xp_page_number ps"
    using assms(1,2) by (auto simp: page_number_of_def opened_page_def intro!: nth_equalityI)
  then show "sort (map page_number_of zs) = [1..int (length zs)]"
    using assms(1,4) by (simp add: sorted_sort_id)
  have "map (\<lambda>v. get0 (dict_of v) ''page_id'') zs = map PStr (map page_id_of ps)"
    using assms(1,2) by (auto simp: opened_page_def intro!: nth_equalityI)
  then show "distinct (map (\<lambda>v. get0 (dict_of v) ''page_id'') zs)"
    using assms(5) by (simp add: distinct_map inj_on_def)
  show "map (\<lambda>v. py_str (final_text_of v)) zs = texts"
    using assms(1-3) by (auto simp: final_text_of_def opened_page_def py_str_def intro!: nth_equalityI)
  show "for_each check_snapshot_item zs = Inr ()"
    unfolding for_each_ok_iff
  proof
    fix z assume "z \<in> set zs"
    then obtain n where n: "n < length ps" "z = zs ! n" using assms(1) by (auto simp: in_set_conv_nth)
    then have z: "opened_page (ps ! n) (texts ! n) z" "strip (texts ! n) \<noteq> []" using assms(2) by auto
    have "ps ! n \<in> set ps" using n(1) by simp
    moreover have "1 \<le> xp_page_number (ps ! n)"
    proof -
      have "xp_page_number (ps ! n) \<in> set (map xp_page_number ps)" using n(1) by simp
      then show ?thesis unfolding assms(4) by simp
    qed
    ultimately show "check_snapshot_item z = Inr ()"
      using z assms(6) by (simp add: check_snapshot_item_def opened_page_def Let_def)
  qed
qed

lemma checksum_agrees:
  assumes "stable_checksum sha texts = Inr c" "map (\<lambda>v. py_str (final_text_of v)) zs = texts"
  shows "snapshot_checksum sha zs = Inr c"
proof -
  have "for_each (\<lambda>v. bind (encode_utf8 (py_str (final_text_of v))) (\<lambda>_. Inr ())) zs =
      for_each (\<lambda>v. bind (encode_utf8 v) (\<lambda>_. Inr ())) texts"
    unfolding assms(2) [symmetric] by (induction zs) auto
  moreover have "concat (map (\<lambda>v. py_str (final_text_of v) @ [10]) zs) = concat (map (\<lambda>v. v @ [10]) texts)"
    unfolding assms(2) [symmetric] by (simp add: comp_def)
  ultimately show ?thesis using assms(1) by (simp add: snapshot_checksum_def stable_checksum_def)
qed

text \<open>C14: A confirmation opens the analysis.  After the first confirmation of an extraction whose pages carry
  identifiers, the extraction is accepted for an analysis job when the request names the version of the snapshot, and
  refused as a revision mismatch when it names any other version; also with another key ring than the one it was
  sealed with, as long as that ring still lists the bytes of the key under its id, active or for decryption only.\<close>

theorem confirmed_extraction_is_ready:
  assumes "confirm_extraction sv (\<lambda>t. t) u stamp i h t = (t', Inr r)"
    and "find_extraction t i = Some x" and "ex_status x \<noteq> st_confirmed"
    and "sv_keyring sv = Inr kr" and "sv_keyring sv' = Inr kr'" and "can_read (sv_aead sv) kr kr'"
    and "sv_aead sv' = sv_aead sv" and "sv_sha sv' = sv_sha sv"
    and "\<forall>p\<in>set (pages_of t i). strip (page_id_of p) \<noteq> []"
    and "parse_if_match_version h' = Inr version"
  shows "\<exists>y. find_extraction t' i = Some y \<and> ex_status y = st_confirmed \<and>
    get_extraction_ready_for_analysis sv' u i h' t' =
      (if version = cr_snapshot_version r then Inr y else Inl (plain_error 409 ''extraction revision mismatch''))"
proof -
  from assms(1-3) obtain kr0 v s ds e where c: "ex_owner_id x = u" "sv_keyring sv = Inr kr0"
    "new_confirmation sv kr0 u stamp x (pages_of t i) v = Inr (ds, e, r)"
    "t' = update_extraction i (\<lambda>y. y\<lparr>ex_extra_data := e, ex_status := st_confirmed\<rparr>) (write_pages i ds t)"
    by (rule confirm_first)
  have kr0: "kr0 = kr" using c(2) assms(4) by simp
  from c(3) obtain snapshot changed checksum n encrypted n1 where n:
    "build_confirmation_snapshot (sv_aead sv) kr0 u (pages_of t i) = Inr (snapshot, changed)"
    "stable_checksum (sv_sha sv) (map fst snapshot) = Inr checksum"
    "encrypt_snapshot sv kr0 u (ex_id x) (next_snapshot_version (ex_extra_data x)) (map snd snapshot) n =
       Inr (encrypted, n1)"
    "e = confirmed_extraction_data stamp v encrypted (next_snapshot_version (ex_extra_data x))
       (total_length snapshot) checksum (ex_extra_data x)"
    "cr_snapshot_version r = next_snapshot_version (ex_extra_data x)"
    by (rule new_confirmation_ok)
  let ?ps = "sort_key xp_page_number (pages_of t i)" and ?v = "next_snapshot_version (ex_extra_data x)"
  let ?y = "x\<lparr>ex_extra_data := e, ex_status := st_confirmed\<rparr>"
  note b = build_snapshot_ok [OF n(1)]
  have enc: "encrypt_confirmation_snapshot (sv_aead sv) (sv_nonce sv) kr (PList (map snd snapshot)) (PStr (ex_id x))
      (PStr u) (PInt ?v) n = Inr (encrypted, n1)"
    using n(3) by (simp add: encrypt_snapshot_def kr0)
  obtain zs where z: "decrypt_confirmation_snapshot (sv_aead sv) kr' (PList encrypted) (PStr (ex_id x)) (PStr u) (PInt ?v) = Inr zs"
    "list_all2 same_page (map snd snapshot) zs"
    using snapshot_opens(1) [OF assms(6) enc] by blast
  note o = opened_pages [OF b(4) z(2)]
  have len: "length snapshot = length ?ps" using b(4) by (metis list_all2_lengthD)
  have checks: "for_each check_snapshot_item zs = Inr ()" "sort (map page_number_of zs) = [1..int (length zs)]"
    "distinct (map (\<lambda>v. get0 (dict_of v) ''page_id'') zs)" "map (\<lambda>v. py_str (final_text_of v)) zs = map fst snapshot"
    using opened_checks [of zs ?ps "map fst snapshot"] o len b(1,3) assms(9) by simp_all
  have sum: "snapshot_checksum (sv_sha sv') zs = Inr checksum"
    using checksum_agrees [OF n(2) checks(4)] assms(8) by simp
  have y: "find_extraction t' i = Some ?y" using find_confirmed [OF assms(2)] c(4) by simp
  have "encrypted \<noteq> []"
    using snapshot_opens(2) [OF assms(6) enc] len b(2) by auto
  then obtain q qs where q: "encrypted = q # qs" by (cases encrypted) auto
  have low: "lower st_confirmed = lit ''confirmed''" "st_confirmed = lit ''confirmed''" "st_confirmed \<noteq> []" by code_simp+
  have "check_extraction_ready sv' u h' ?y =
      (if version = ?v then Inr zs else Inl (plain_error 409 ''extraction revision mismatch''))"
    using z(1) checks sum assms(5,7,10) low
    by (simp add: check_extraction_ready_def checks.simps n(4) confirmed_data_get lower_or_blank_def py_or_def snapshot_revision_def q)
  then show ?thesis
    using y c(1) n(5) by (simp add: get_extraction_ready_for_analysis_def)
qed

end
