(* ===== verification/Extraction_Runs.thy ===== *)
theory Extraction_Runs
  imports Extraction_Ready
begin

text \<open>
  The properties of reviews and confirmations at the concrete extraction of \<open>Extraction_Example\<close>.
\<close>

lemma example_found: "find_extraction (review_tables s) (lit ''e'') = Some example_review"
  by (simp add: find_extraction_def review_tables_def example_review_def)

lemma example_pages: "pages_of (review_tables s) (lit ''e'') = [example_page s]"
  by (simp add: pages_of_def review_tables_def example_page_def)

lemma example_reads: "can_read plain_aead example_keyring example_keyring"
  using plain_aead_correct example_active example_finds unfolding can_read_def by blast

lemma example_services_simps:
  "sv_aead example_services = plain_aead" "sv_keyring example_services = Inr example_keyring"
  by (simp_all add: example_services_def)

lemma example_unconfirmed: "ex_status example_review \<noteq> st_confirmed"
  by (simp add: example_review_def st_confirmed_def)

lemma confirmation_needs_every_review_witness:
  "\<exists>t' r. confirm_extraction example_services (\<lambda>t. t) (lit ''o'') (lit ''now'') (lit ''e'') (Some (lit ''1''))
     (review_tables ''reviewed'') = (t', Inr r) \<and> length (cr_snapshot r) = 1"
proof -
  obtain t' r where c: "confirm_extraction example_services (\<lambda>t. t) (lit ''o'') (lit ''now'') (lit ''e'') (Some (lit ''1''))
     (review_tables ''reviewed'') = (t', Inr r)" using example_confirmed by blast
  obtain ps where ps: "ps = sort_key xp_page_number (pages_of (review_tables ''reviewed'') (lit ''e''))"
    and m: "map (\<lambda>d. map_of d (lit ''page_number'')) (cr_snapshot r) = map (Some \<circ> PInt \<circ> xp_page_number) ps"
    using confirmation_needs_every_review [OF c example_found example_unconfirmed] by blast
  have "length (cr_snapshot r) = length ps" using arg_cong [OF m, of length] by simp
  then have "length (cr_snapshot r) = 1" by (simp add: ps example_pages)
  with c show ?thesis by blast
qed

lemma review_raises_version_witness:
  "\<exists>t' r d e s w. example_review_of ''cd'' = (t', Inr r) \<and>
     t' = write_correction (lit ''e'') 1 d e (review_tables ''pending'') \<and> get0 d ''review_version'' = PInt w \<and>
     read_page_text_field plain_aead example_keyring (lit ''o'') (example_page ''pending'') ''final_text'' d = Inr (PStr s) \<and>
     map (\<lambda>p. get0 (xp_extra_data p) ''review_version'') (t_pages t') = [PInt 2]"
proof -
  obtain t' r where p: "example_review_of ''cd'' = (t', Inr r)"
    and v: "map (\<lambda>p. get0 (xp_extra_data p) ''review_version'') (t_pages t') = [PInt 2]"
    using example_patch_accepted [of "''cd''"] by auto
  have ne: "t' \<noteq> review_tables ''pending''"
    using v by (auto simp: review_tables_def example_page_def get0_def get_def)
  have k: "sv_keyring example_services = Inr example_keyring" "can_read (sv_aead example_services) example_keyring example_keyring"
    by (simp_all add: example_services_simps example_reads)
  obtain q d e s w where t: "t' = write_correction (lit ''e'') (xp_page_number q) d e (review_tables ''pending'')"
      "q \<in> set (pages_of (review_tables ''pending'') (lit ''e''))" "get0 d ''review_version'' = PInt w"
      "read_page_text_field plain_aead example_keyring (lit ''o'') q ''final_text'' d = Inr (PStr s)"
    using review_raises_version [OF k p [unfolded example_review_of_def]] ne
    unfolding example_services_simps by blast
  have "q = example_page ''pending''" using t(2) by (simp add: example_pages)
  have "xp_page_number (example_page ''pending'') = 1" by (simp add: example_page_def)
  with t [unfolded \<open>q = _\<close>] p v show ?thesis by (intro exI conjI) simp_all
qed

lemma concurrent_review_is_lost_witness:
  "\<exists>t1 r1 t2 r2. example_review_of ''cd'' = (t1, Inr r1) \<and> example_review_of ''ef'' = (t2, Inr r2) \<and>
     patch_extraction_page_review example_services (\<lambda>_. t1) (lit ''o'') (lit ''now'') (lit ''e'') (lit ''p'')
       (example_patch ''ef'') None (review_tables ''pending'') = (t2, Inr r2) \<and>
     pv_reviewed_text r1 = PStr (lit ''cd'') \<and> pv_reviewed_text r2 = PStr (lit ''ef'') \<and>
     map (\<lambda>p. get0 (xp_extra_data p) ''review_version'') (t_pages t1) = [PInt 2]"
proof -
  obtain t1 r1 where p: "example_review_of ''cd'' = (t1, Inr r1)" "pv_reviewed_text r1 = PStr (lit ''cd'')"
    "map (\<lambda>p. get0 (xp_extra_data p) ''review_version'') (t_pages t1) = [PInt 2]"
    using example_patch_accepted [of "''cd''"] by auto
  obtain t2 r2 where q: "example_review_of ''ef'' = (t2, Inr r2)" "pv_reviewed_text r2 = PStr (lit ''ef'')"
    using example_patch_accepted [of "''ef''"] by auto
  from concurrent_review_is_lost [OF p(1) [unfolded example_review_of_def] q(1) [unfolded example_review_of_def]] p q
  show ?thesis by (intro exI conjI) assumption+
qed

lemma confirmed_extraction_is_ready_witness:
  "\<exists>t' r y. confirm_extraction example_services (\<lambda>t. t) (lit ''o'') (lit ''now'') (lit ''e'') (Some (lit ''1''))
     (review_tables ''reviewed'') = (t', Inr r) \<and>
     get_extraction_ready_for_analysis (example_services\<lparr>sv_keyring := Inr rotated_keyring\<rparr>) (lit ''o'') (lit ''e'')
       (Some (lit ''\"1\"'')) t' =
       (if 1 = cr_snapshot_version r then Inr y else Inl (plain_error 409 ''extraction revision mismatch''))"
proof -
  obtain t' r where c: "confirm_extraction example_services (\<lambda>t. t) (lit ''o'') (lit ''now'') (lit ''e'') (Some (lit ''1''))
     (review_tables ''reviewed'') = (t', Inr r)" using example_confirmed by blast
  let ?sv = "example_services\<lparr>sv_keyring := Inr rotated_keyring\<rparr>"
  have "\<forall>p\<in>set (pages_of (review_tables ''reviewed'') (lit ''e'')). strip (page_id_of p) \<noteq> []"
    unfolding example_pages by code_simp
  moreover have "parse_if_match_version (Some (lit ''\"1\"'')) = Inr 1" by code_simp
  moreover have "sv_keyring example_services = Inr example_keyring" "sv_keyring ?sv = Inr rotated_keyring"
    "can_read (sv_aead example_services) example_keyring rotated_keyring"
    "sv_aead ?sv = sv_aead example_services" "sv_sha ?sv = sv_sha example_services"
    by (simp_all add: example_services_simps example_can_read)
  ultimately obtain y where "get_extraction_ready_for_analysis ?sv (lit ''o'') (lit ''e'') (Some (lit ''\"1\"'')) t' =
      (if 1 = cr_snapshot_version r then Inr y else Inl (plain_error 409 ''extraction revision mismatch''))"
    using confirmed_extraction_is_ready [OF c example_found example_unconfirmed] by blast
  with c show ?thesis by blast
qed

end
