(* ===== verification/Analysis_Job_Api_Correct.thy ===== *)
theory Analysis_Job_Api_Correct
  imports Extraction_Runs Clause_Splitter_Correct
begin

text \<open>
  What a request for an analysis leaves behind: the text the analysis will read of a confirmed extraction, and
  what a repeated request does.
\<close>

subsection \<open>The text of the clauses\<close>

text \<open>
  The lines of a snapshot: those of its pages, ordered by page number, stripped and without the blank ones.  From
  every line with a marker to the next one runs a section: the line itself, and the inline text of its marker followed
  by the lines below it.
\<close>

definition snapshot_lines :: "pyval list \<Rightarrow> pystr list result" where
  "snapshot_lines snapshot =
     bind (sort_pages (dicts_of snapshot)) (\<lambda>ps.
     Inr (filter (\<lambda>l. l \<noteq> []) (map strip (concat (map (\<lambda>p. splitlines (get_str p ''final_text'' '''')) ps)))))"

definition below :: "pystr list \<Rightarrow> pystr" where
  "below ls = concat (map (\<lambda>l. 10 # l) (takeWhile (\<lambda>l. detect_marker l = Inr None) ls))"

fun marked_sections :: "pystr list \<Rightarrow> (pystr \<times> pystr) list" where
  "marked_sections [] = []"
| "marked_sections (l # ls) =
     (case detect_marker l of
        Inr (Some k) \<Rightarrow> (l, mk_inline_text k @ below ls) # marked_sections ls
      | _ \<Rightarrow> marked_sections ls)"

definition filled_sections :: "pystr list \<Rightarrow> (pystr \<times> pystr) list" where
  "filled_sections ls = filter (\<lambda>(line, text). strip text \<noteq> []) (marked_sections ls)"

definition texts_of :: "snapshot_clause list \<Rightarrow> (pystr \<times> pystr) list" where
  "texts_of cs = map (\<lambda>c. (sc_text c, sc_body c)) cs"

abbreviation line_texts :: "(int \<times> pystr \<times> nat) list \<Rightarrow> pystr list" where
  "line_texts ls \<equiv> map (\<lambda>(n, line, off). line) ls"

lemma page_lines_texts: "line_texts (page_lines n off ls) = filter (\<lambda>l. l \<noteq> []) (map strip ls)"
  by (induction n off ls rule: page_lines.induct) auto

lemma read_pages_texts: "read_pages i ps = Inr pages \<Longrightarrow> map pg_text pages = map (\<lambda>p. get_str p ''final_text'' '''') ps"
  by (induction i ps arbitrary: pages rule: read_pages.induct) (auto simp: bind_Inr_iff)

lemma all_lines_texts:
  "line_texts (all_lines pages) = filter (\<lambda>l. l \<noteq> []) (map strip (concat (map splitlines (map pg_text pages))))"
  by (induction pages) (simp_all add: all_lines_def page_lines_texts)

lemma any_marker_sections: "any_marker ls = Inr False \<Longrightarrow> marked_sections (line_texts ls) = []"
  by (induction ls rule: any_marker.induct) (auto simp: bind_Inr_iff split: if_splits)

text \<open>The loop returns the sections with some text, the open clause first.\<close>

lemma marker_loop_sections:
  assumes "marker_loop sha doc ps n cur ls = Inr (cs, us)"
  shows "texts_of cs =
    (case cur of None \<Rightarrow> []
     | Some c \<Rightarrow> filter (\<lambda>(line, text). strip text \<noteq> []) [(sc_text c, sc_body c @ below (line_texts ls))])
    @ filled_sections (line_texts ls)"
  using assms
proof (induction ls arbitrary: n cur cs us)
  case Nil
  then show ?case by (auto simp: texts_of_def close_current_def below_def filled_sections_def split: option.splits)
next
  case (Cons x ls)
  obtain number line off where x: "x = (number, line, off)" by (cases x)
  from Cons.prems [unfolded x] show ?case
  proof (cases rule: marker_loop_Cons)
    case (1 us')
    then show ?thesis using Cons.IH [OF 1(3)] by (simp add: x filled_sections_def)
  next
    case (2 c)
    then show ?thesis using Cons.IH [OF 2(3)] by (simp add: x filled_sections_def below_def extend_clause_def)
  next
    case (3 k cs')
    then show ?thesis using Cons.IH [OF 3(3)]
      by (auto simp: x filled_sections_def below_def start_clause_def Let_def texts_of_def close_current_def
          split: option.splits)
  qed
qed

lemma snapshot_sections:
  assumes "split_clauses_with_snapshot sha snapshot doc = Inr split" and "snapshot_lines snapshot = Inr lines"
    and "filled_sections lines \<noteq> []"
  shows "texts_of (sn_clauses split) = filled_sections lines"
proof -
  have "snapshot \<noteq> []" using assms(2,3)
    by (auto simp: snapshot_lines_def bind_Inr_iff dicts_of_def sort_pages_def filled_sections_def)
  with assms(1) obtain sp ps hm where s: "sort_pages (dicts_of snapshot) = Inr sp" "read_pages 1 sp = Inr ps"
    "any_marker (all_lines ps) = Inr hm"
    by (auto simp: split_clauses_with_snapshot_def bind_Inr_iff Let_def)
  have lines: "line_texts (all_lines ps) = lines"
    using assms(2) s(1) unfolding all_lines_texts read_pages_texts [OF s(2)]
    by (simp add: snapshot_lines_def comp_def)
  have hm
  proof (rule ccontr)
    assume "\<not> hm"
    with s(3) any_marker_sections [of "all_lines ps"] lines assms(3) show False by (simp add: filled_sections_def)
  qed
  with assms(1) s \<open>snapshot \<noteq> []\<close> obtain cs us where cs: "marker_loop sha doc ps 0 None (all_lines ps) = Inr (cs, us)"
    by (auto simp: split_clauses_with_snapshot_def bind_Inr_iff Let_def)
  have texts: "texts_of cs = filled_sections lines" using marker_loop_sections [OF cs] lines by simp
  with assms(3) obtain c cs' where "cs = c # cs'" by (cases cs) (auto simp: texts_of_def)
  with assms(1) s \<open>snapshot \<noteq> []\<close> \<open>hm\<close> cs have "sn_clauses split = cs"
    by (auto simp: split_clauses_with_snapshot_def Let_def)
  with texts show ?thesis by simp
qed

lemma filled_lines: "l \<in> fst ` set (filled_sections ls) \<Longrightarrow> l \<in> set ls"
proof -
  have "fst ` set (marked_sections ls) \<subseteq> set ls" by (induction ls) (auto split: sum.splits option.splits)
  then show "l \<in> fst ` set (filled_sections ls) \<Longrightarrow> l \<in> set ls" by (auto simp: filled_sections_def)
qed

lemma snapshot_lines_single: "snapshot_lines snapshot = Inr lines \<Longrightarrow> l \<in> set lines \<Longrightarrow> 10 \<notin> set l"
  using set_strip by (fastforce simp: snapshot_lines_def bind_Inr_iff dest: splitlines_no_newline)

lemma new_clauses_open:
  assumes "can_read (sv_aead sv) kr kr'" "new_clauses sv kr uuid u doc i n cs = Inr rows"
  shows "list_all2 (\<lambda>c row. decrypt_clause_body (sv_aead sv) kr' (PStr (cl_body_encrypted row)) (PStr (cl_id row)) (PStr u) =
    Inr (sc_text c)) cs rows"
  using assms(2)
proof (induction cs arbitrary: i n rows)
  case (Cons c cs)
  then obtain row rest where r: "new_clause sv kr u doc (uuid i) n c = Inr row" "rows = row # rest"
    "new_clauses sv kr uuid u doc (Suc i) (n + 2) cs = Inr rest"
    by (auto simp: bind_Inr_iff)
  then have "encrypt_clause_body (sv_aead sv) (sv_nonce sv n) kr (PStr (sc_text c)) (PStr (cl_id row)) (PStr u) =
      Inr (cl_body_encrypted row)"
    by (auto simp: new_clause_def bind_Inr_iff)
  from clause_body_opens [OF assms(1) this] Cons.IH [OF r(3)] r(2) show ?case by simp
qed simp

text \<open>C30: The analysis of an extraction does not see the lines below a marker.  Cut the lines of a confirmed snapshot
  at those with a clause marker and drop the sections without text; if one is left, the split clauses are these
  sections, in order, each with the line of its marker as its \<open>text\<close> and the inline text of the marker with the lines
  below it as its \<open>body\<close>.  The clause rows made of them decrypt, one for one, to the line of the marker, a single
  line; no line below it is stored in any of them.\<close>

theorem analysed_clause_is_one_line:
  assumes "split_clauses_with_snapshot sha snapshot doc = Inr split"
    and "snapshot_lines snapshot = Inr lines" and "filled_sections lines \<noteq> []"
    and "new_clauses sv kr uuid u doc i n (sn_clauses split) = Inr rows"
    and "can_read (sv_aead sv) kr kr'"
  shows "map (\<lambda>c. (sc_text c, sc_body c)) (sn_clauses split) = filled_sections lines \<and>
    map (\<lambda>row. decrypt_clause_body (sv_aead sv) kr' (PStr (cl_body_encrypted row)) (PStr (cl_id row)) (PStr u)) rows =
      map (\<lambda>(line, text). Inr line) (filled_sections lines) \<and>
    (\<forall>(line, text)\<in>set (filled_sections lines). 10 \<notin> set line)"
proof (intro conjI)
  show texts: "map (\<lambda>c. (sc_text c, sc_body c)) (sn_clauses split) = filled_sections lines"
    using snapshot_sections [OF assms(1-3)] by (simp add: texts_of_def)
  have "map (\<lambda>row. decrypt_clause_body (sv_aead sv) kr' (PStr (cl_body_encrypted row)) (PStr (cl_id row)) (PStr u)) rows =
      map (\<lambda>c. Inr (sc_text c)) (sn_clauses split)"
    using new_clauses_open [OF assms(5,4)] by (auto simp: list_all2_conv_all_nth intro!: nth_equalityI)
  then show "map (\<lambda>row. decrypt_clause_body (sv_aead sv) kr' (PStr (cl_body_encrypted row)) (PStr (cl_id row)) (PStr u)) rows =
      map (\<lambda>(line, text). Inr line) (filled_sections lines)"
    unfolding texts [symmetric] by (simp add: comp_def)
  show "\<forall>(line, text)\<in>set (filled_sections lines). 10 \<notin> set line"
    using filled_lines snapshot_lines_single [OF assms(2)] by force
qed

text \<open>One page with a marker line and a continuation line.\<close>

definition two_line_page :: pyval where
  "two_line_page = PDict [(lit ''page_number'', PInt 1), (lit ''final_text'', PStr (lit ''1. Pay now'' @ [10] @ lit ''or lose it''))]"

lemma two_line_split:
  "\<exists>split rows. split_clauses_with_snapshot (\<lambda>s. s) [two_line_page] (lit ''d'') = Inr split \<and>
     new_clauses example_services example_keyring (\<lambda>i. lit ''c'') (lit ''o'') (lit ''d'') 1 1 (sn_clauses split) = Inr rows"
proof -
  have "case split_clauses_with_snapshot (\<lambda>s. s) [two_line_page] (lit ''d'') of
      Inl e \<Rightarrow> False
    | Inr split \<Rightarrow>
       (case new_clauses example_services example_keyring (\<lambda>i. lit ''c'') (lit ''o'') (lit ''d'') 1 1 (sn_clauses split) of
          Inl e \<Rightarrow> False | Inr rows \<Rightarrow> True)"
    by code_simp
  then show ?thesis by (auto split: sum.splits)
qed

lemma two_line_sections:
  "snapshot_lines [two_line_page] = Inr [lit ''1. Pay now'', lit ''or lose it'']"
  "filled_sections [lit ''1. Pay now'', lit ''or lose it''] = [(lit ''1. Pay now'', lit ''1'' @ [10] @ lit ''or lose it'')]"
  by code_simp+

lemma analysed_clause_is_one_line_witness:
  "\<exists>split rows. split_clauses_with_snapshot (\<lambda>s. s) [two_line_page] (lit ''d'') = Inr split \<and>
     new_clauses example_services example_keyring (\<lambda>i. lit ''c'') (lit ''o'') (lit ''d'') 1 1 (sn_clauses split) = Inr rows \<and>
     map (\<lambda>c. (sc_text c, sc_body c)) (sn_clauses split) = [(lit ''1. Pay now'', lit ''1'' @ [10] @ lit ''or lose it'')] \<and>
     map (\<lambda>row. decrypt_clause_body plain_aead rotated_keyring (PStr (cl_body_encrypted row)) (PStr (cl_id row)) (PStr (lit ''o''))) rows =
       [Inr (lit ''1. Pay now'')]"
proof -
  obtain split rows where s: "split_clauses_with_snapshot (\<lambda>s. s) [two_line_page] (lit ''d'') = Inr split"
    "new_clauses example_services example_keyring (\<lambda>i. lit ''c'') (lit ''o'') (lit ''d'') 1 1 (sn_clauses split) = Inr rows"
    using two_line_split by blast
  have f: "filled_sections [lit ''1. Pay now'', lit ''or lose it''] \<noteq> []" by (simp add: two_line_sections)
  have "can_read (sv_aead example_services) example_keyring rotated_keyring"
    by (simp add: example_services_def example_can_read)
  from analysed_clause_is_one_line [OF s(1) two_line_sections(1) f s(2) this] s show ?thesis
    by (intro exI [of _ split] exI [of _ rows]) (simp add: two_line_sections(2) example_services_simps)
qed

subsection \<open>Repeated requests\<close>

lemma ready_reads_extractions:
  "t_extractions t' = t_extractions t \<Longrightarrow>
     get_extraction_ready_for_analysis sv u i h t' = get_extraction_ready_for_analysis sv u i h t"
  by (simp add: get_extraction_ready_for_analysis_def find_extraction_def)

lemma load_extractions: "load_or_create_analysis_document sv uuid u now x t = Inr t1 \<Longrightarrow> t_extractions t1 = t_extractions t"
  by (auto simp: load_or_create_analysis_document_def bind_Inr_iff Let_def split: option.splits if_splits)

lemma find_snoc: "List.find P xs = None \<Longrightarrow> List.find P (xs @ [x]) = (if P x then Some x else None)"
  by (induction xs) (auto split: if_splits)

lemma sort_key_Nil_iff: "sort_key f xs = [] \<longleftrightarrow> xs = []"
  by (metis length_0_conv length_sort)

text \<open>Once the document of an extraction and its clauses are stored, they are used as they are.\<close>

lemma load_again:
  assumes "load_or_create_analysis_document sv uuid u now x t = Inr t1" "document_clauses t1 (ex_id x) \<noteq> []"
  shows "load_or_create_analysis_document sv uuid' u now' x (t1\<lparr>t_jobs := js\<rparr>) = Inr (t1\<lparr>t_jobs := js\<rparr>)"
proof -
  let ?known = "case find_document t (ex_id x) of
      Some d \<Rightarrow> if doc_owner_id d \<noteq> u then Inl (plain_error 404 ''Document not found.'') else Inr ()
    | None \<Rightarrow> Inr ()"
  from assms(1) obtain kr snapshot split t2 where s: "?known = Inr ()" "sv_keyring sv = Inr kr"
    "(case as_list (get0 (ex_extra_data x) ''confirmation_snapshot'') of
        Some (p # ps) \<Rightarrow> Inr () | _ \<Rightarrow> Inl (plain_error 409 ''invalid_confirmation_snapshot'')) = Inr ()"
    "decrypt_confirmation_snapshot (sv_aead sv) kr (get0 (ex_extra_data x) ''confirmation_snapshot'') (PStr (ex_id x))
       (PStr u) (get0 (ex_extra_data x) ''snapshot_version'') = Inr snapshot"
    "split_clauses_with_snapshot (sv_sha sv) snapshot (ex_id x) = Inr split"
    and t2: "(case find_document t (ex_id x) of
         Some d \<Rightarrow> Inr t
       | None \<Rightarrow> bind (new_document sv kr u now x split) (\<lambda>d. Inr (t\<lparr>t_documents := t_documents t @ [d]\<rparr>))) = Inr t2"
    and t1: "t_documents t1 = t_documents t2"
    unfolding load_or_create_analysis_document_def Let_def bind_Inr_iff except_class_ok
    by (elim exE conjE) (rule that, (assumption | simp)+, auto simp: bind_Inr_iff split: if_splits)
  have "\<exists>d. find_document t1 (ex_id x) = Some d \<and> doc_owner_id d = u"
  proof (cases "find_document t (ex_id x)")
    case None
    with t2 obtain d where d: "new_document sv kr u now x split = Inr d" "t2 = t\<lparr>t_documents := t_documents t @ [d]\<rparr>"
      by (auto simp: bind_Inr_iff)
    then have "doc_id d = ex_id x" "doc_owner_id d = u" by (auto simp: new_document_def bind_Inr_iff Let_def)
    with None d(2) t1 show ?thesis by (simp add: find_document_def find_snoc)
  next
    case (Some d)
    with s(1) t2 t1 show ?thesis by (auto simp: find_document_def split: if_splits)
  qed
  moreover have "find_document (t1\<lparr>t_jobs := js\<rparr>) i = find_document t1 i"
    "document_clauses (t1\<lparr>t_jobs := js\<rparr>) i = document_clauses t1 i" for i
    by (simp_all add: find_document_def document_clauses_def)
  ultimately show ?thesis using s assms(2)
    by (auto simp: load_or_create_analysis_document_def Let_def)
qed

lemma enqueue_again:
  assumes "enqueue_in_session i doc key now t t1 = (t', Inr r)" "t' \<noteq> t"
  shows "\<exists>js. t' = t1\<lparr>t_jobs := js\<rparr> \<and> (\<forall>i' now'. enqueue_in_session i' doc key now' t' t' = (t', Inr r))"
proof -
  from assms have e: "t' = t1\<lparr>t_jobs := t_jobs t1 @ [new_job i doc key now]\<rparr>" "r = job_answer (new_job i doc key now)"
    "List.find (active_job key) (t_jobs t1) = None"
    by (auto simp: enqueue_in_session_def enqueue_analysis_job_def split: option.splits if_splits prod.splits sum.splits)
  have "List.find (active_job key) (t_jobs t1 @ [new_job i doc key now]) = Some (new_job i doc key now)"
    using e(3) by (simp add: find_snoc active_job_def new_job_def)
  with e(1,2) show ?thesis by (auto simp: enqueue_in_session_def enqueue_analysis_job_def)
qed

text \<open>C15: Asking again does not start a second analysis.  When a request for the analysis of a confirmed
  extraction queued a job, the same request against the tables it left, with whatever fresh identifiers and
  whenever before a worker takes the job up, is answered with that job and changes nothing: no second
  document, clause or job.\<close>

theorem repeated_request_keeps_job:
  assumes "create_extraction_analysis_job sv env uuid u now i h t = (t', Inr r)" and "t' \<noteq> t"
  shows "create_extraction_analysis_job sv env uuid' u now' i h t' = (t', Inr r)"
proof -
  from assms(1) obtain x t1 revision where c: "get_extraction_ready_for_analysis sv u i h t = Inr x"
    "load_or_create_analysis_document sv uuid u now x t = Inr t1" "document_clauses t1 (ex_id x) \<noteq> []"
    "py_int (get0 (ex_extra_data x) ''snapshot_version'') = Inr revision"
    "enqueue_in_session (uuid 0) i (request_fingerprint (sv_sha sv) env u (ex_id x) ''extraction'' (ex_id x)
       (Some revision) (map clause_row.cl_source_hash (sort_key clause_row.cl_ordinal (document_clauses t1 (ex_id x))))) now t t1 =
       (t', Inr r)"
    unfolding create_extraction_analysis_job_def
    by (auto simp: bind_Inr_iff Let_def sort_key_Nil_iff split: sum.splits if_splits)
  from enqueue_again [OF c(5) assms(2)] obtain js where e: "t' = t1\<lparr>t_jobs := js\<rparr>"
    "\<And>i' now'. enqueue_in_session i' i (request_fingerprint (sv_sha sv) env u (ex_id x) ''extraction'' (ex_id x)
       (Some revision) (map clause_row.cl_source_hash (sort_key clause_row.cl_ordinal (document_clauses t1 (ex_id x))))) now' t' t' =
       (t', Inr r)"
    by blast
  have "get_extraction_ready_for_analysis sv u i h t' = Inr x"
    using c(1) ready_reads_extractions [of t' t] load_extractions [OF c(2)] e(1) by simp
  moreover have "load_or_create_analysis_document sv uuid' u now' x t' = Inr t'"
    using load_again [OF c(2,3)] e(1) by simp
  moreover have "document_clauses t' (ex_id x) = document_clauses t1 (ex_id x)"
    using e(1) by (simp add: document_clauses_def)
  ultimately show ?thesis using c(3,4) e(2) by (simp add: create_extraction_analysis_job_def Let_def sort_key_Nil_iff)
qed

text \<open>The confirmed example with a stored document and one clause.\<close>

definition confirmed_tables :: tables where
  "confirmed_tables =
     (fst (confirm_extraction example_services (\<lambda>t. t) (lit ''o'') (lit ''now'') (lit ''e'') (Some (lit ''1''))
        (review_tables ''reviewed'')))
     \<lparr>t_documents := [\<lparr>doc_id = lit ''e'', doc_filename_encrypted = [], doc_content_type = None, doc_size_bytes = 0,
        doc_character_count = 0, doc_status = [], doc_unclassified_sections = [], doc_document_warnings = [],
        doc_owner_id = lit ''o'', doc_created_at = 0\<rparr>],
      t_clauses := [\<lparr>cl_id = lit ''c'', cl_clause_id = lit ''c'', cl_document_id = lit ''e'', cl_reference_id = [],
        cl_source_hash = [], cl_ordinal = 1, cl_marker = [], cl_clause_type = [], cl_title_encrypted = None,
        cl_body_encrypted = [], cl_warnings = []\<rparr>]\<rparr>"

lemma example_request:
  obtains t' r where "create_extraction_analysis_job example_services (\<lambda>_. None) (\<lambda>i. lit ''j'') (lit ''o'') 0 (lit ''e'')
      (Some (lit ''1'')) confirmed_tables = (t', Inr r)" "t' \<noteq> confirmed_tables"
proof -
  have "case create_extraction_analysis_job example_services (\<lambda>_. None) (\<lambda>i. lit ''j'') (lit ''o'') 0 (lit ''e'')
      (Some (lit ''1'')) confirmed_tables of
      (t', Inr r) \<Rightarrow> t_jobs t' \<noteq> [] \<and> t_jobs confirmed_tables = [] | (t', Inl e) \<Rightarrow> False"
    by code_simp
  then show ?thesis using that by (fastforce split: prod.splits sum.splits)
qed

lemma repeated_request_keeps_job_witness:
  "\<exists>t' r. create_extraction_analysis_job example_services (\<lambda>_. None) (\<lambda>i. lit ''j'') (lit ''o'') 0 (lit ''e'')
       (Some (lit ''1'')) confirmed_tables = (t', Inr r) \<and>
     create_extraction_analysis_job example_services (\<lambda>_. None) (\<lambda>i. lit ''k'') (lit ''o'') 5 (lit ''e'')
       (Some (lit ''1'')) t' = (t', Inr r)"
proof -
  obtain t' r where t': "create_extraction_analysis_job example_services (\<lambda>_. None) (\<lambda>i. lit ''j'') (lit ''o'') 0 (lit ''e'')
      (Some (lit ''1'')) confirmed_tables = (t', Inr r)" "t' \<noteq> confirmed_tables" by (rule example_request)
  from repeated_request_keeps_job [OF this] t'(1) show ?thesis by blast
qed

end
