(* ===== verification/Document_Api.thy ===== *)
theory Document_Api
  imports Analysis_Job_Api
begin

text \<open>
  Model of \<^verbatim>\<open>src/backend/app/api/documents.py\<close>: the upload of a text, which is split into encrypted clauses,
  and the two reads of a document, with its clauses and with the results of its latest analysis job.
\<close>

subsection \<open>The uploaded file\<close>

text \<open>\<open>_upload_error\<close>.\<close>

definition upload_error :: "int \<Rightarrow> string \<Rightarrow> string \<Rightarrow> exn" where
  "upload_error st code message =
     HTTPException \<lparr>http_status = st, http_code = Some (lit code), http_message = lit message,
       http_retryable = None, http_headers = []\<rparr>"

text \<open>\<open>Path(name).suffix\<close> and \<open>Path(name).stem\<close> of a name without a slash; a dot at either end is no suffix.\<close>

definition last_dot :: "pystr \<Rightarrow> nat option" where
  "last_dot s =
     (let tail = takeWhile (\<lambda>c. c \<noteq> 46) (rev s)
      in if length tail = length s then None else Some (length s - length tail - 1))"

definition path_suffix :: "pystr \<Rightarrow> pystr" where
  "path_suffix s =
     (case last_dot s of None \<Rightarrow> [] | Some i \<Rightarrow> if 0 < i \<and> i < length s - 1 then drop i s else [])"

definition path_stem :: "pystr \<Rightarrow> pystr" where
  "path_stem s =
     (case last_dot s of None \<Rightarrow> s | Some i \<Rightarrow> if 0 < i \<and> i < length s - 1 then take i s else s)"

definition DANGEROUS_INNER_SUFFIXES :: "string list" where
  "DANGEROUS_INNER_SUFFIXES =
     [''.bat'', ''.cmd'', ''.com'', ''.exe'', ''.html'', ''.js'', ''.pdf'', ''.ps1'', ''.py'', ''.sh'', ''.tar'', ''.zip'']"

definition validate_text_filename :: "pystr \<Rightarrow> unit result" where
  "validate_text_filename filename =
     checks
       [(filename = [] \<or> 255 < length filename \<or> 47 \<in> set filename \<or> 92 \<in> set filename \<or>
           contains filename (lit ''..'') \<or> list_ex (\<lambda>c. c < 32 \<or> c = 127) filename \<or>
           list_ex (\<lambda>e. contains (lower filename) (lit e)) [''%00'', ''%0a'', ''%0d''],
         upload_error 400 ''INVALID_FILENAME'' ''The filename is invalid.''),
        (lower (path_suffix filename) \<noteq> lit ''.txt'' \<or>
           lower (path_suffix (path_stem filename)) \<in> lit ` set DANGEROUS_INNER_SUFFIXES,
         upload_error 415 ''UNSUPPORTED_FILE_TYPE'' ''Only UTF-8 text files are supported.'')]"

definition UPLOAD_CHUNK_SIZE :: nat where "UPLOAD_CHUNK_SIZE = 64 * 1024"

text \<open>The loop over the chunks of the file; the limit is tested after every chunk.\<close>

function read_chunks :: "int \<Rightarrow> bytes \<Rightarrow> bytes \<Rightarrow> bytes result" where
  "read_chunks limit content file =
     (if file = [] then Inr content
      else
        let content' = content @ take UPLOAD_CHUNK_SIZE file
        in if limit < int (length content') then
             Inl (upload_error 413 ''UPLOAD_TOO_LARGE'' ''The uploaded file is too large.'')
           else read_chunks limit content' (drop UPLOAD_CHUNK_SIZE file))"
  by auto
termination
  by (relation "measure (\<lambda>(limit, content, file). length file)") (auto simp: UPLOAD_CHUNK_SIZE_def)

declare read_chunks.simps [simp del]

text \<open>\<open>bytes.decode("utf-8-sig")\<close>: one byte order mark at the start is dropped.\<close>

definition decode_utf8_sig :: "bytes \<Rightarrow> pystr result" where
  "decode_utf8_sig bs = decode_utf8 (if take 3 bs = [239, 187, 191] then drop 3 bs else bs)"

definition upload_text :: "environ \<Rightarrow> pystr \<Rightarrow> pystr option \<Rightarrow> bytes \<Rightarrow> (bytes \<times> pystr) result" where
  "upload_text env filename content_type file =
     bind (validate_text_filename filename) (\<lambda>_.
     bind (if content_type \<noteq> Some (lit ''text/plain'')
           then Inl (upload_error 415 ''UNSUPPORTED_FILE_TYPE'' ''The uploaded file content type is not supported.'')
           else Inr ()) (\<lambda>_.
     bind (get_boundary_config env) (\<lambda>c.
     bind (read_chunks (min (max_upload_bytes c) (1024 * 1024)) [] file) (\<lambda>content.
     bind (if content = [] then Inl (upload_error 400 ''EMPTY_FILE'' ''The uploaded file is empty.'') else Inr ()) (\<lambda>_.
     bind (or_raise (upload_error 415 ''UNSUPPORTED_FILE_TYPE'' ''The text file must use UTF-8 encoding.'')
             (decode_utf8_sig content)) (\<lambda>text.
     if 0 \<in> set text then Inl (upload_error 400 ''MALFORMED_DOCUMENT'' ''The text document is malformed.'')
     else Inr (content, text)))))))"

subsection \<open>Reading a document\<close>

definition stored_data_error :: exn where
  "stored_data_error = plain_error 500 ''Stored encrypted data is unavailable.''"

record clause_view =
  cv_clause_id :: pystr
  cv_reference_id :: pystr
  cv_source_hash :: pystr
  cv_ordinal :: int
  cv_marker :: pystr
  cv_clause_type :: pystr
  cv_title :: pyval
  cv_body :: pystr
  cv_warnings :: "pyval list"

definition serialize_clause :: "aead \<Rightarrow> encryption_keyring \<Rightarrow> pystr \<Rightarrow> clause_row \<Rightarrow> clause_view result" where
  "serialize_clause A kr owner_id c =
     bind (no_decrypt stored_data_error
       (bind (decrypt_clause_body A kr (PStr (cl_body_encrypted c)) (PStr (cl_id c)) (PStr owner_id)) (\<lambda>body.
        bind (decrypt_clause_title A kr (opt_pystr (cl_title_encrypted c)) (PStr (cl_id c)) (PStr owner_id)) (\<lambda>title.
        Inr (body, title))))) (\<lambda>(body, title).
     Inr \<lparr>cv_clause_id = cl_clause_id c, cv_reference_id = cl_reference_id c,
          cv_source_hash = clause_row.cl_source_hash c, cv_ordinal = cl_ordinal c,
          cv_marker = clause_row.cl_marker c, cv_clause_type = cl_clause_type c, cv_title = title, cv_body = body,
          cv_warnings = clause_row.cl_warnings c\<rparr>)"

record document_view =
  dv_document_id :: pystr
  dv_filename :: pystr
  dv_content_type :: "pystr option"
  dv_size_bytes :: int
  dv_character_count :: int
  dv_status :: pystr
  dv_clause_count :: nat
  dv_clauses :: "clause_view list"
  dv_unclassified_sections :: "pystr list"
  dv_document_warnings :: "pyval list"

definition serialize_document ::
  "aead \<Rightarrow> encryption_keyring \<Rightarrow> document_row \<Rightarrow> clause_row list \<Rightarrow> document_view result" where
  "serialize_document A kr d rows =
     (let cs = sort_key clause_row.cl_ordinal rows; i = PStr (doc_id d); w = PStr (doc_owner_id d)
      in bind (no_decrypt stored_data_error
           (bind (decrypt_document_filename A kr (PStr (doc_filename_encrypted d)) i w) (\<lambda>filename.
            bind (decrypt_unclassified_sections A kr (PList (doc_unclassified_sections d)) i w) (\<lambda>sections.
            Inr (filename, sections))))) (\<lambda>(filename, sections).
         bind (map_result (serialize_clause A kr (doc_owner_id d)) cs) (\<lambda>views.
         Inr \<lparr>dv_document_id = doc_id d, dv_filename = filename, dv_content_type = doc_content_type d,
              dv_size_bytes = doc_size_bytes d, dv_character_count = doc_character_count d,
              dv_status = doc_status d, dv_clause_count = length cs, dv_clauses = views,
              dv_unclassified_sections = sections, dv_document_warnings = doc_document_warnings d\<rparr>)))"

definition get_document_for_current_user :: "pystr \<Rightarrow> pystr \<Rightarrow> tables \<Rightarrow> document_row result" where
  "get_document_for_current_user user_id document_id t =
     (case List.find (\<lambda>d. doc_id d = document_id \<and> doc_owner_id d = user_id) (t_documents t) of
        None \<Rightarrow> Inl (plain_error 404 ''Document not found.'') | Some d \<Rightarrow> Inr d)"

definition get_document :: "services \<Rightarrow> pystr \<Rightarrow> pystr \<Rightarrow> tables \<Rightarrow> document_view result" where
  "get_document sv user_id document_id t =
     bind (get_document_for_current_user user_id document_id t) (\<lambda>d.
     bind (sv_keyring sv) (\<lambda>kr. serialize_document (sv_aead sv) kr d (document_clauses t (doc_id d))))"

subsection \<open>The upload\<close>

definition uploaded_document ::
  "services \<Rightarrow> encryption_keyring \<Rightarrow> pystr \<Rightarrow> int \<Rightarrow> pystr \<Rightarrow> pystr \<Rightarrow> pystr option \<Rightarrow> bytes \<Rightarrow> pystr \<Rightarrow> split_result \<Rightarrow>
     document_row result" where
  "uploaded_document sv kr user_id now document_id filename content_type content text split =
     (let A = sv_aead sv; i = PStr document_id; u = PStr user_id
      in bind (no_encrypt (plain_error 500 ''Unable to prepare document content.'')
           (bind (encrypt_document_filename A (sv_nonce sv 0) kr (PStr filename) i u) (\<lambda>filename_encrypted.
            bind (encrypt_unclassified_sections A (sv_nonce sv) 1 kr
                    (PList (map PStr (unclassified_sections split))) i u) (\<lambda>sections.
            Inr (filename_encrypted, sections))))) (\<lambda>(filename_encrypted, sections).
         Inr \<lparr>doc_id = document_id, doc_filename_encrypted = filename_encrypted,
              doc_content_type = content_type, doc_size_bytes = int (length content),
              doc_character_count = int (length text), doc_status = lit ''processed'',
              doc_unclassified_sections = sections,
              doc_document_warnings = map PStr (document_warnings split),
              doc_owner_id = user_id, doc_created_at = now\<rparr>))"

text \<open>The row of a clause: its body is the \<open>body\<close> of the split clause; the title is encrypted first.\<close>

definition uploaded_clause ::
  "services \<Rightarrow> encryption_keyring \<Rightarrow> pystr \<Rightarrow> pystr \<Rightarrow> pystr \<Rightarrow> nat \<Rightarrow> clause \<Rightarrow> clause_row result" where
  "uploaded_clause sv kr user_id document_id record_id n c =
     no_encrypt (plain_error 500 ''Unable to prepare document content.'')
       (bind (encrypt_clause_title (sv_aead sv) (sv_nonce sv n) kr (opt_pystr (title c)) (PStr record_id) (PStr user_id))
          (\<lambda>title.
        bind (encrypt_clause_body (sv_aead sv) (sv_nonce sv (Suc n)) kr (PStr (body c)) (PStr record_id) (PStr user_id))
          (\<lambda>body.
        Inr \<lparr>cl_id = record_id, cl_clause_id = clause_id c, cl_document_id = document_id,
             cl_reference_id = reference_id c, cl_source_hash = clause.cl_source_hash c,
             cl_ordinal = int (ordinal c), cl_marker = clause.cl_marker c, cl_clause_type = clause_type c,
             cl_title_encrypted = as_str title, cl_body_encrypted = body,
             cl_warnings = map PStr (clause.cl_warnings c)\<rparr>)))"

fun uploaded_clauses ::
  "services \<Rightarrow> encryption_keyring \<Rightarrow> (nat \<Rightarrow> pystr) \<Rightarrow> pystr \<Rightarrow> pystr \<Rightarrow> nat \<Rightarrow> nat \<Rightarrow> clause list \<Rightarrow> clause_row list result" where
  "uploaded_clauses sv kr uuid user_id document_id i n [] = Inr []"
| "uploaded_clauses sv kr uuid user_id document_id i n (c # cs) =
     bind (uploaded_clause sv kr user_id document_id (uuid i) n c) (\<lambda>row.
     bind (uploaded_clauses sv kr uuid user_id document_id (Suc i) (n + 2) cs) (\<lambda>rows. Inr (row # rows)))"

text \<open>Nothing is stored before the commit; the answer is read back from the stored rows.\<close>

definition upload_document ::
  "services \<Rightarrow> environ \<Rightarrow> (nat \<Rightarrow> pystr) \<Rightarrow> pystr \<Rightarrow> int \<Rightarrow> pystr option \<Rightarrow> pystr option \<Rightarrow> bytes \<Rightarrow> tables \<Rightarrow>
     tables \<times> document_view result" where
  "upload_document sv env uuid user_id now filename content_type file t =
     (let name = (case filename of None \<Rightarrow> [] | Some s \<Rightarrow> s); document_id = uuid 0
      in case bind (upload_text env name content_type file) (\<lambda>(content, text).
              bind (split_clauses (sv_sha sv) text document_id) (\<lambda>split.
              bind (sv_keyring sv) (\<lambda>kr.
              bind (uploaded_document sv kr user_id now document_id name content_type content text split) (\<lambda>d.
              bind (uploaded_clauses sv kr uuid user_id document_id 1 (1 + length (unclassified_sections split))
                      (clauses split)) (\<lambda>rows. Inr (kr, d, rows)))))) of
           Inl e \<Rightarrow> (t, Inl e)
         | Inr (kr, d, rows) \<Rightarrow>
             (t\<lparr>t_documents := t_documents t @ [d], t_clauses := t_clauses t @ rows\<rparr>,
              serialize_document (sv_aead sv) kr d rows))"

end
