(* ===== verification/Document_Api_Correct.thy ===== *)
theory Document_Api_Correct
  imports Document_Api Analysis_Job_Api_Correct
begin

text \<open>
  Uploads: the chunked reading against a test on the length of the file, and the document read back from its
  encrypted rows.
\<close>

subsection \<open>Reading the file\<close>

lemma read_chunks_prefix [code]:
  "read_chunks limit content fl =
     (if int (length content + length fl) \<le> limit \<or> fl = [] then Inr (content @ fl)
      else Inl (upload_error 413 ''UPLOAD_TOO_LARGE'' ''The uploaded file is too large.''))"
proof (induction limit content fl rule: read_chunks.induct)
  case (1 limit content fl)
  show ?case
  proof (cases "fl = []")
    case True
    then show ?thesis by (subst read_chunks.simps) simp
  next
    case False
    let ?c = "content @ take UPLOAD_CHUNK_SIZE fl" and ?rest = "drop UPLOAD_CHUNK_SIZE fl"
    have len: "length ?c + length ?rest = length content + length fl" by simp
    show ?thesis
    proof (cases "limit < int (length ?c)")
      case True
      then have "\<not> int (length content + length fl) \<le> limit" using len by linarith
      with True False show ?thesis by (subst read_chunks.simps) (simp add: Let_def)
    next
      case le: False
      from "1" [OF False refl le] have "read_chunks limit ?c ?rest =
          (if int (length content + length fl) \<le> limit \<or> ?rest = [] then Inr (content @ fl)
           else Inl (upload_error 413 ''UPLOAD_TOO_LARGE'' ''The uploaded file is too large.''))"
        unfolding len by simp
      moreover have "int (length content + length fl) \<le> limit" if "?rest = []"
        using le len that by simp
      ultimately show ?thesis using False le by (subst read_chunks.simps) (auto simp: Let_def)
    qed
  qed
qed

text \<open>C29: Reading the upload chunk by chunk is a test on the length of the whole file.  For a name and a content type
  that are accepted, an empty file is refused as empty and one beyond the limit, the smaller of the configured one
  and one mebibyte, as too large, before a byte of it is decoded; of the files within the limit exactly those that are
  valid UTF-8 (after a byte order mark, if any) and have no NUL character are accepted, with every byte and the
  decoded text, and the others get the refusal for their encoding or for a malformed document.\<close>

theorem chunked_read_is_length_test:
  assumes "get_boundary_config env = Inr c" and "validate_text_filename name = Inr ()"
  shows "upload_text env name (Some (lit ''text/plain'')) file =
    (if file = [] then Inl (upload_error 400 ''EMPTY_FILE'' ''The uploaded file is empty.'')
     else if min (max_upload_bytes c) (1024 * 1024) < int (length file)
     then Inl (upload_error 413 ''UPLOAD_TOO_LARGE'' ''The uploaded file is too large.'')
     else
       (case decode_utf8_sig file of
          Inl e \<Rightarrow> Inl (upload_error 415 ''UNSUPPORTED_FILE_TYPE'' ''The text file must use UTF-8 encoding.'')
        | Inr text \<Rightarrow>
            if 0 \<in> set text then Inl (upload_error 400 ''MALFORMED_DOCUMENT'' ''The text document is malformed.'')
            else Inr (file, text)))"
  using assms
  by (auto simp: upload_text_def read_chunks_prefix or_raise_def decode_utf8_sig_def split: sum.splits)

subsection \<open>Rows that open\<close>

lemma sections_open:
  assumes "can_read A kr kr'" "encrypt_sections_loop A rng kr d w n i (map PStr ss) = Inr es"
  shows "decrypt_sections_loop A kr' d w i es = Inr ss"
  using assms(2)
proof (induction ss arbitrary: n i es)
  case (Cons s ss)
  then obtain a e rest where r: "item_aad d w i = Inr a" "encrypt A (rng n) kr a (utf8_encode s) = Inr e" "is_encodable s"
    "encrypt_sections_loop A rng kr d w (Suc n) (Suc i) (map PStr ss) = Inr rest"
    "es = PDict [(lit ''item_index'', PInt (int i)), (lit ''text_encrypted'', PDict (envelope_to_mapping e))] # rest"
    by (auto simp: bind_Inr_iff encode_ok)
  then show ?case using Cons.IH [OF r(4)] can_read_opens(3) [OF assms(1) r(2)]
    by (simp add: has_exact_keys_def get0_def get_def decode_encoded)
qed simp

definition view_of_clause :: "clause_row \<Rightarrow> clause \<Rightarrow> clause_view" where
  "view_of_clause row c =
     \<lparr>cv_clause_id = clause_id c, cv_reference_id = reference_id c, cv_source_hash = clause.cl_source_hash c,
      cv_ordinal = int (ordinal c), cv_marker = clause.cl_marker c, cv_clause_type = clause_type c,
      cv_title = opt_pystr (title c), cv_body = body c, cv_warnings = map PStr (clause.cl_warnings c)\<rparr>"

lemma uploaded_clause_opens:
  assumes "can_read (sv_aead sv) kr kr'" "uploaded_clause sv kr u doc i n c = Inr row"
  shows "serialize_clause (sv_aead sv) kr' u row = Inr (view_of_clause row c)"
    "clause_row.cl_ordinal row = int (ordinal c)" "cl_document_id row = doc"
proof -
  from assms(2) obtain t b where r:
    "encrypt_clause_title (sv_aead sv) (sv_nonce sv n) kr (opt_pystr (title c)) (PStr i) (PStr u) = Inr t"
    "encrypt_clause_body (sv_aead sv) (sv_nonce sv (Suc n)) kr (PStr (body c)) (PStr i) (PStr u) = Inr b"
    "row = \<lparr>cl_id = i, cl_clause_id = clause_id c, cl_document_id = doc,
             cl_reference_id = reference_id c, cl_source_hash = clause.cl_source_hash c,
             cl_ordinal = int (ordinal c), cl_marker = clause.cl_marker c, cl_clause_type = clause_type c,
             cl_title_encrypted = as_str t, cl_body_encrypted = b,
             cl_warnings = map PStr (clause.cl_warnings c)\<rparr>"
    by (auto simp: uploaded_clause_def bind_Inr_iff)
  have "opt_pystr (as_str t) = t"
    using r(1) by (auto simp: encrypt_clause_title_def encrypt_optional_def bind_Inr_iff opt_pystr_def split: if_splits option.splits)
  then show "serialize_clause (sv_aead sv) kr' u row = Inr (view_of_clause row c)"
    using clause_body_opens [OF assms(1) r(2)] clause_title_opens [OF assms(1) r(1)]
    by (simp add: serialize_clause_def r(3) view_of_clause_def)
  show "clause_row.cl_ordinal row = int (ordinal c)" "cl_document_id row = doc" by (simp_all add: r(3))
qed

lemma uploaded_clauses_open:
  assumes "can_read (sv_aead sv) kr kr'" "uploaded_clauses sv kr uuid u doc i n cs = Inr rows"
  shows "map_result (serialize_clause (sv_aead sv) kr' u) rows = Inr (map2 view_of_clause rows cs)"
    "map clause_row.cl_ordinal rows = map (int \<circ> ordinal) cs" "\<forall>row\<in>set rows. cl_document_id row = doc"
    "length rows = length cs"
  using assms(2)
proof (induction cs arbitrary: i n rows)
  case (Cons c cs)
  {
    case 1
    then show ?case using Cons.IH(1) uploaded_clause_opens(1) [OF assms(1)] by (auto simp: bind_Inr_iff)
  next
    case 2
    then show ?case using Cons.IH(2) uploaded_clause_opens(2) [OF assms(1)] by (auto simp: bind_Inr_iff)
  next
    case 3
    then show ?case using Cons.IH(3) uploaded_clause_opens(3) [OF assms(1)] by (fastforce simp: bind_Inr_iff)
  next
    case 4
    then show ?case using Cons.IH(4) by (auto simp: bind_Inr_iff)
  }
qed simp_all

lemma unknown_to_others:
  assumes "find_document t i = None" and "doc_owner_id d \<noteq> u"
  shows "get_document_for_current_user u i (t\<lparr>t_documents := t_documents t @ [d], t_clauses := cs\<rparr>) =
    Inl (plain_error 404 ''Document not found.'')"
proof -
  have "List.find (\<lambda>e. doc_id e = i \<and> doc_owner_id e = u) (t_documents t @ [d]) = None"
    using assms by (auto simp: find_document_def find_None_iff)
  then show ?thesis by (simp add: get_document_for_current_user_def)
qed

text \<open>The rows of an upload show one and the same document under every ring that can read them.\<close>

lemma uploaded_rows_open:
  assumes "uploaded_document sv kr u now i name ct content decoded split = Inr d"
    and "uploaded_clauses sv kr uuid u i 1 (1 + length (unclassified_sections split)) (clauses split) = Inr rows"
    and "split_clauses sha decoded i = Inr split"
  obtains w where "\<forall>k. can_read (sv_aead sv) kr k \<longrightarrow> serialize_document (sv_aead sv) k d rows = Inr w"
    "dv_filename w = name" "dv_unclassified_sections w = unclassified_sections split"
    "dv_clauses w = map2 view_of_clause rows (clauses split)" "dv_clause_count w = length rows"
    "doc_id d = i" "doc_owner_id d = u"
proof -
  from assms(1) obtain f es where d: "encrypt_document_filename (sv_aead sv) (sv_nonce sv 0) kr (PStr name) (PStr i) (PStr u) = Inr f"
    "encrypt_unclassified_sections (sv_aead sv) (sv_nonce sv) 1 kr
       (PList (map PStr (unclassified_sections split))) (PStr i) (PStr u) = Inr es"
    "doc_filename_encrypted d = f" "doc_unclassified_sections d = es" "doc_id d = i" "doc_owner_id d = u"
    by (auto simp: uploaded_document_def bind_Inr_iff Let_def)
  define w where "w = \<lparr>dv_document_id = doc_id d, dv_filename = name, dv_content_type = doc_content_type d,
      dv_size_bytes = doc_size_bytes d, dv_character_count = doc_character_count d, dv_status = doc_status d,
      dv_clause_count = length rows, dv_clauses = map2 view_of_clause rows (clauses split),
      dv_unclassified_sections = unclassified_sections split, dv_document_warnings = doc_document_warnings d\<rparr>"
  have "serialize_document (sv_aead sv) k d rows = Inr w" if k: "can_read (sv_aead sv) kr k" for k
  proof -
    have "decrypt_document_filename (sv_aead sv) k (PStr f) (PStr i) (PStr u) = Inr name"
      using value_opens [OF k] d(1) unfolding encrypt_document_filename_def decrypt_document_filename_def by blast
    moreover have "decrypt_unclassified_sections (sv_aead sv) k (PList es) (PStr i) (PStr u) = Inr (unclassified_sections split)"
      using d(2) sections_open [OF k]
      by (auto simp: encrypt_unclassified_sections_def decrypt_unclassified_sections_def bind_Inr_iff
          metadata_identifier_transfer)
    moreover have "map ordinal (clauses split) = [1..<Suc (clause_count split)]"
      using split_loop_ordinals [OF split_clauses_cases(1) [OF assms(3)]] split_clauses_cases(2) [OF assms(3)] by simp
    then have "map clause_row.cl_ordinal rows = map int [1..<Suc (clause_count split)]"
      unfolding uploaded_clauses_open(2) [OF k assms(2)] by (metis map_map)
    then have "sort_key clause_row.cl_ordinal rows = rows"
      by (intro sort_key_id_if_sorted) (simp add: sorted_map del: upt_Suc)
    ultimately show ?thesis using uploaded_clauses_open(1) [OF k assms(2)]
      by (simp add: serialize_document_def Let_def d(3-6) w_def)
  qed
  then show thesis by (intro that [of w]) (simp_all add: w_def d(5,6))
qed

lemma known_to_owner:
  assumes "find_document t i = None" and "doc_id d = i"
  shows "get_document_for_current_user (doc_owner_id d) i (t\<lparr>t_documents := t_documents t @ [d], t_clauses := cs\<rparr>) = Inr d"
proof -
  have "List.find (\<lambda>e. doc_id e = i \<and> doc_owner_id e = doc_owner_id d) (t_documents t) = None"
    using assms(1) by (auto simp: find_document_def find_None_iff)
  then show ?thesis using assms(2) by (simp add: get_document_for_current_user_def find_snoc)
qed

text \<open>C9: An upload under an id not used before reads back.  The answer to a successful upload shows the file name,
  the title and body of every clause the splitter found in the decoded text, in order, and the unclassified sections.
  The uploader gets the same answer later from the encrypted rows, with every key ring that still finds the bytes of
  the key that was active at the upload under its id, active or for decryption only; every other user is told that
  there is no such document.\<close>

theorem uploaded_document_reads_back:
  assumes "upload_document sv env uuid u now (Some name) ct data t = (t', Inr v)"
    and "sv_keyring sv = Inr kr" and "can_read (sv_aead sv) kr kr" and "can_read (sv_aead sv) kr kr'"
    and "sv_keyring sv' = Inr kr'" and "sv_aead sv' = sv_aead sv"
    and "find_document t (uuid 0) = None" and "document_clauses t (uuid 0) = []"
  shows "get_document sv' u (uuid 0) t' = Inr v \<and>
    (\<forall>u'. u' \<noteq> u \<longrightarrow> get_document sv' u' (uuid 0) t' = Inl (plain_error 404 ''Document not found.'')) \<and>
    (\<exists>content decoded split. upload_text env name ct data = Inr (content, decoded) \<and>
       split_clauses (sv_sha sv) decoded (uuid 0) = Inr split \<and> dv_filename v = name \<and>
       map (\<lambda>c. (cv_title c, cv_body c)) (dv_clauses v) = map (\<lambda>c. (opt_pystr (title c), body c)) (clauses split) \<and>
       dv_clause_count v = clause_count split \<and> dv_unclassified_sections v = unclassified_sections split)"
proof -
  let ?i = "uuid 0"
  from assms(1,2) obtain content decoded split d rows where s:
    "upload_text env name ct data = Inr (content, decoded)" "split_clauses (sv_sha sv) decoded ?i = Inr split"
    "uploaded_document sv kr u now ?i name ct content decoded split = Inr d"
    "uploaded_clauses sv kr uuid u ?i 1 (1 + length (unclassified_sections split)) (clauses split) = Inr rows"
    "t' = t\<lparr>t_documents := t_documents t @ [d], t_clauses := t_clauses t @ rows\<rparr>"
    "serialize_document (sv_aead sv) kr d rows = Inr v"
    by (auto simp: upload_document_def Let_def bind_Inr_iff split: sum.splits)
  obtain w where w: "\<forall>k. can_read (sv_aead sv) kr k \<longrightarrow> serialize_document (sv_aead sv) k d rows = Inr w"
    "dv_filename w = name" "dv_unclassified_sections w = unclassified_sections split"
    "dv_clauses w = map2 view_of_clause rows (clauses split)" "dv_clause_count w = length rows"
    "doc_id d = ?i" "doc_owner_id d = u"
    by (rule uploaded_rows_open [OF s(3,4,2)])
  have v: "v = w" using w(1) assms(3) s(6) by simp
  have len: "length rows = length (clauses split)" "clause_count split = length (clauses split)"
    using uploaded_clauses_open(4) [OF assms(3) s(4)] split_clauses_cases(2) [OF s(2)] by simp_all
  have "document_clauses t' ?i = rows"
    using assms(8) uploaded_clauses_open(3) [OF assms(3) s(4)] by (simp add: document_clauses_def s(5))
  moreover have "get_document_for_current_user u ?i t' = Inr d"
    using known_to_owner [OF assms(7) w(6)] by (simp add: s(5) w(7))
  ultimately have "get_document sv' u ?i t' = Inr v"
    using w(1) assms(4-6) w(6) v by (simp add: get_document_def)
  moreover have "get_document sv' u' ?i t' = Inl (plain_error 404 ''Document not found.'')" if "u' \<noteq> u" for u'
    using unknown_to_others [OF assms(7), of d u'] w(7) that by (simp add: get_document_def s(5))
  moreover have "map (\<lambda>c. (cv_title c, cv_body c)) (dv_clauses v) = map (\<lambda>c. (opt_pystr (title c), body c)) (clauses split)"
    using len by (auto simp: v w(4) view_of_clause_def intro!: nth_equalityI)
  ultimately show ?thesis using s(1,2) len by (auto simp: v w(2,3,5))
qed

definition example_upload :: bytes where
  "example_upload = utf8_encode (lit ''preface'' @ [10, 10] @ lit ''1. Pay'' @ [10] @ lit ''now'')"

definition no_tables :: tables where
  "no_tables = \<lparr>t_documents = [], t_clauses = [], t_jobs = [], t_results = [], t_extractions = [], t_pages = []\<rparr>"

lemma chunked_read_is_length_test_witness:
  "upload_text (\<lambda>_. None) (lit ''a.txt'') (Some (lit ''text/plain'')) example_upload =
     Inr (example_upload, lit ''preface'' @ [10, 10] @ lit ''1. Pay'' @ [10] @ lit ''now'')"
proof -
  have "case get_boundary_config (\<lambda>_. None) of Inl e \<Rightarrow> False | Inr c \<Rightarrow> 100 \<le> max_upload_bytes c" by code_simp
  then obtain c where c: "get_boundary_config (\<lambda>_. None) = Inr c" "100 \<le> max_upload_bytes c" by (auto split: sum.splits)
  have n: "validate_text_filename (lit ''a.txt'') = Inr ()" by code_simp
  have d: "decode_utf8_sig example_upload = Inr (lit ''preface'' @ [10, 10] @ lit ''1. Pay'' @ [10] @ lit ''now'')"
    "length example_upload \<le> 100" "example_upload \<noteq> []" "0 \<notin> set (lit ''preface'' @ [10, 10] @ lit ''1. Pay'' @ [10] @ lit ''now'')"
    by code_simp+
  then show ?thesis using chunked_read_is_length_test [OF c(1) n, of example_upload] c(2) by simp
qed

lemma example_uploaded:
  obtains t' v where "upload_document example_services (\<lambda>_. None) (\<lambda>i. lit ''d'') (lit ''o'') 0 (Some (lit ''a.txt''))
      (Some (lit ''text/plain'')) example_upload no_tables = (t', Inr v)"
    "map cv_body (dv_clauses v) = [lit ''1'' @ [10] @ lit ''now'']" "dv_unclassified_sections v = [lit ''preface'']"
proof -
  have "case upload_document example_services (\<lambda>_. None) (\<lambda>i. lit ''d'') (lit ''o'') 0 (Some (lit ''a.txt''))
      (Some (lit ''text/plain'')) example_upload no_tables of
      (t', Inl e) \<Rightarrow> False
    | (t', Inr v) \<Rightarrow> map cv_body (dv_clauses v) = [lit ''1'' @ [10] @ lit ''now''] \<and> dv_unclassified_sections v = [lit ''preface'']"
    by code_simp
  then show ?thesis using that by (auto split: prod.splits sum.splits)
qed

lemma uploaded_document_reads_back_witness:
  "\<exists>t' v. upload_document example_services (\<lambda>_. None) (\<lambda>i. lit ''d'') (lit ''o'') 0 (Some (lit ''a.txt''))
      (Some (lit ''text/plain'')) example_upload no_tables = (t', Inr v) \<and>
     map cv_body (dv_clauses v) = [lit ''1'' @ [10] @ lit ''now''] \<and>
     get_document (example_services\<lparr>sv_keyring := Inr rotated_keyring\<rparr>) (lit ''o'') (lit ''d'') t' = Inr v \<and>
     get_document (example_services\<lparr>sv_keyring := Inr rotated_keyring\<rparr>) (lit ''x'') (lit ''d'') t' =
       Inl (plain_error 404 ''Document not found.'')"
proof -
  obtain t' v where u: "upload_document example_services (\<lambda>_. None) (\<lambda>i. lit ''d'') (lit ''o'') 0 (Some (lit ''a.txt''))
      (Some (lit ''text/plain'')) example_upload no_tables = (t', Inr v)"
    "map cv_body (dv_clauses v) = [lit ''1'' @ [10] @ lit ''now'']" by (rule example_uploaded)
  have "find_document no_tables (lit ''d'') = None" "document_clauses no_tables (lit ''d'') = []"
    by (simp_all add: no_tables_def find_document_def document_clauses_def)
  with uploaded_document_reads_back [OF u(1), of example_keyring rotated_keyring "example_services\<lparr>sv_keyring := Inr rotated_keyring\<rparr>"] u
  show ?thesis by (simp add: example_services_simps example_reads example_can_read)
qed

end
