(* ===== verification/Document_Results.thy ===== *)
theory Document_Results
  imports Document_Api Result_Encryption Evidence_Encryption
begin

text \<open>
  The analysis results of a document (\<^verbatim>\<open>src/backend/app/api/documents.py\<close>): its latest job's items are
  decrypted once, serialised by the ordinal of their clauses, and summarised.  The database numbers the items
  itself; \<open>item_id\<close> gives the number of a row.  \<open>order\<close> is the order in which the text fields are opened.
\<close>

subsection \<open>Equality of values\<close>

fun number_of :: "pyval \<Rightarrow> pyfloat option" where
  "number_of (PInt i) = Some (Dec i 0)"
| "number_of (PBool b) = Some (Dec (if b then 1 else 0) 0)"
| "number_of (PFloat f) = Some f"
| "number_of v = None"

text \<open>\<open>a == b\<close>: numbers compare by value, dictionaries whatever the order of their keys.\<close>

function (sequential) py_equal :: "pyval \<Rightarrow> pyval \<Rightarrow> bool" where
  "py_equal PNone w = (w = PNone)"
| "py_equal (PStr s) w = (w = PStr s)"
| "py_equal (PList xs) w =
     (case w of
        PList ys \<Rightarrow> length xs = length ys \<and> list_all (\<lambda>(x, y). py_equal x y) (zip xs ys)
      | _ \<Rightarrow> False)"
| "py_equal (PDict d) w =
     (case w of
        PDict e \<Rightarrow>
          length d = length e \<and>
          list_all (\<lambda>(k, x). case map_of e k of None \<Rightarrow> False | Some y \<Rightarrow> py_equal x y) d
      | _ \<Rightarrow> False)"
| "py_equal v w =
     (case (number_of v, number_of w) of
        (Some x, Some y) \<Rightarrow> float_le x y \<and> float_le y x
      | _ \<Rightarrow> False)"
  by pat_completeness auto
termination
  by (relation "measure (size \<circ> fst)") (auto simp: less_Suc_eq_le dest!: set_zip_leftD intro: size_list_estimation')

subsection \<open>The decrypted items\<close>

text \<open>What one item stores: its members, with the evidence opened.\<close>

definition decrypt_item_value ::
  "string list \<Rightarrow> aead \<Rightarrow> encryption_keyring \<Rightarrow> pystr \<Rightarrow> result_item \<Rightarrow> pydict result" where
  "decrypt_item_value order A kr owner_id item =
     (let extra = ri_extra_data item; raw = get0 extra ''analysis_value'';
          j = PStr (ri_analysis_job_id item); c = PStr (ri_clause_record_id item); u = PStr owner_id
      in if raw = PNone then (if has_key extra ''evidence'' then Inl stored_data_error else Inr [])
         else
           no_decrypt stored_data_error
             (bind (if as_dict raw = None then Inl (ScalarDecryptionError ''Invalid analysis_value payload.'') else Inr ()) (\<lambda>_.
              bind (decrypt_analysis_value order A kr raw j c u) (\<lambda>v.
              let d = dict_of v; evidence = get d ''evidence'' (PList [])
              in bind (checks
                   [(as_list evidence = None, ScalarDecryptionError ''Invalid evidence list.''),
                    (has_key extra ''evidence'' \<and> \<not> py_equal (get0 extra ''evidence'') evidence,
                       ScalarDecryptionError ''Invalid evidence storage.'')]) (\<lambda>_.
                 bind (decrypt_analysis_evidence_list A kr evidence j c u) (\<lambda>es.
                 Inr (put (lit ''evidence'') (PList es) d)))))))"

text \<open>\<open>_decrypt_analysis_values\<close> and \<open>_analysis_value\<close>: the values by the id of their item.\<close>

type_synonym item_values = "(int \<times> pydict) list"

fun decrypt_analysis_values ::
  "string list \<Rightarrow> aead \<Rightarrow> encryption_keyring \<Rightarrow> pystr \<Rightarrow> (result_item \<Rightarrow> int) \<Rightarrow> result_item list \<Rightarrow> item_values result" where
  "decrypt_analysis_values order A kr owner_id item_id [] = Inr []"
| "decrypt_analysis_values order A kr owner_id item_id (item # items) =
     bind (decrypt_item_value order A kr owner_id item) (\<lambda>v.
     bind (decrypt_analysis_values order A kr owner_id item_id items) (\<lambda>vs. Inr ((item_id item, v) # vs)))"

definition analysis_value :: "item_values \<Rightarrow> int \<Rightarrow> pydict" where
  "analysis_value values i = (case map_of values i of None \<Rightarrow> [] | Some v \<Rightarrow> v)"

definition is_snapshot_stale :: "result_item \<Rightarrow> pystr option \<Rightarrow> bool" where
  "is_snapshot_stale item current_snapshot_hash =
     (case current_snapshot_hash of
        None \<Rightarrow> False
      | Some h \<Rightarrow>
          (case as_str (get0 (ri_extra_data item) ''evidence_snapshot_hash'') of None \<Rightarrow> False | Some e \<Rightarrow> e \<noteq> h))"

text \<open>An item joined with its clause.\<close>

type_synonym loaded_item = "result_item \<times> clause_row"

text \<open>\<open>value.get("title") or decrypt_clause_title(...)\<close>.\<close>

definition item_title ::
  "aead \<Rightarrow> encryption_keyring \<Rightarrow> pystr \<Rightarrow> pydict \<Rightarrow> clause_row \<Rightarrow> pyval result" where
  "item_title A kr owner_id v c =
     (if is_truthy (get0 v ''title'') then Inr (get0 v ''title'')
      else decrypt_clause_title A kr (opt_pystr (cl_title_encrypted c)) (PStr (cl_id c)) (PStr owner_id))"

definition resolve_summary :: "aead \<Rightarrow> encryption_keyring \<Rightarrow> pystr \<Rightarrow> result_item \<Rightarrow> pystr result" where
  "resolve_summary A kr owner_id item =
     no_decrypt stored_data_error
       (decrypt_analysis_result_summary A kr (PStr (ri_summary_encrypted item)) (PStr (ri_analysis_job_id item))
          (PStr (ri_clause_record_id item)) (PStr owner_id))"

definition serialize_result_item ::
  "aead \<Rightarrow> encryption_keyring \<Rightarrow> pystr \<Rightarrow> pystr option \<Rightarrow> (result_item \<Rightarrow> int) \<Rightarrow> item_values \<Rightarrow> loaded_item \<Rightarrow>
     pydict result" where
  "serialize_result_item A kr owner_id current_snapshot_hash item_id values li =
     (let item = fst li; c = snd li; v = analysis_value values (item_id item)
      in bind (resolve_summary A kr owner_id item) (\<lambda>s.
         bind (item_title A kr owner_id v c) (\<lambda>t.
         Inr [(lit ''clause_id'', PStr (cl_clause_id c)), (lit ''reference_id'', PStr (ri_reference_id item)),
              (lit ''finding_id'', PInt (item_id item)), (lit ''display_label'', PStr (ri_display_label item)),
              (lit ''summary'', PStr s),
              (lit ''expert_review_recommended'', ri_expert_review_recommended item),
              (lit ''severity'', get v ''severity'' (PStr (lit ''info''))), (lit ''title'', t),
              (lit ''category'', get0 v ''category''), (lit ''risk_type'', get0 v ''risk_type''),
              (lit ''risk_reason'', get0 v ''risk_reason''), (lit ''practical_impact'', get0 v ''practical_impact''),
              (lit ''action_priority'', get0 v ''action_priority''),
              (lit ''questions_to_ask'', get v ''questions_to_ask'' (PList [])),
              (lit ''negotiation_suggestions'', get v ''negotiation_suggestions'' (PList [])),
              (lit ''recommendation'', get v ''recommendation'' (PStr s)),
              (lit ''expert_review_reason_codes'', get v ''expert_review_reason_codes'' (PList [])),
              (lit ''expert_review_summary'', get v ''expert_review_summary'' (PStr [])),
              (lit ''evidence'', get v ''evidence'' (PList [])),
              (lit ''extracted_facts'', get v ''extracted_facts'' (PList [])),
              (lit ''validation_status'', get v ''validation_status'' (PStr (lit ''verified''))),
              (lit ''is_stale'', PBool (is_snapshot_stale item current_snapshot_hash)),
              (lit ''snapshot_version'', get0 (ri_extra_data item) ''snapshot_version'')])))"

subsection \<open>The summary\<close>

definition severity_order :: "string list" where
  "severity_order = [''critical'', ''high'', ''medium'', ''low'', ''info'']"

definition action_priority_order :: "string list" where
  "action_priority_order =
     [''before_signing'', ''negotiate'', ''clarify'', ''monitor'', ''expert_review'', ''informational'']"

text \<open>\<open>{name: len(order) - idx ...}.get(s, 0)\<close>.\<close>

fun rank_in :: "string list \<Rightarrow> pystr \<Rightarrow> int" where
  "rank_in [] s = 0"
| "rank_in (x # xs) s = (if s = lit x then 1 + int (length xs) else rank_in xs s)"

definition severity_of :: "item_values \<Rightarrow> int \<Rightarrow> pystr" where
  "severity_of values i = get_str (analysis_value values i) ''severity'' ''info''"

definition action_of :: "item_values \<Rightarrow> int \<Rightarrow> pystr" where
  "action_of values i = get_str (analysis_value values i) ''action_priority'' ''informational''"

definition priority_key :: "item_values \<Rightarrow> int \<Rightarrow> int \<times> int \<times> pystr" where
  "priority_key values i =
     (rank_in severity_order (severity_of values i), rank_in action_priority_order (action_of values i), str_int i)"

record top_priority =
  tp_finding_id :: pystr
  tp_severity :: pystr
  tp_title :: pystr
  tp_action_priority :: pystr

definition top_priority_of ::
  "aead \<Rightarrow> encryption_keyring \<Rightarrow> pystr \<Rightarrow> (result_item \<Rightarrow> int) \<Rightarrow> item_values \<Rightarrow> loaded_item \<Rightarrow> top_priority result" where
  "top_priority_of A kr owner_id item_id values li =
     (let i = item_id (fst li); v = analysis_value values i
      in bind (item_title A kr owner_id v (snd li)) (\<lambda>t.
         Inr \<lparr>tp_finding_id = py_str (py_or (get0 v ''finding_id'') (PInt i)), tp_severity = severity_of values i,
              tp_title = py_str (py_or t (PInt i)), tp_action_priority = action_of values i\<rparr>))"

text \<open>\<open>for x in v\<close>.\<close>

fun iterated :: "pyval \<Rightarrow> pyval list result" where
  "iterated (PList xs) = Inr xs"
| "iterated (PDict d) = Inr (map (PStr \<circ> fst) d)"
| "iterated (PStr s) = Inr (map (\<lambda>c. PStr [c]) s)"
| "iterated v = Inl (TypeError (lit ''object is not iterable''))"

text \<open>What the loop over the facts collects.\<close>

record fact_tally =
  key_dates :: "pystr list"
  key_amounts :: "pystr list"
  key_obligations :: "pystr list"
  missing_terms_count :: nat
  ambiguity_count :: nat

definition empty_tally :: fact_tally where
  "empty_tally =
     \<lparr>key_dates = [], key_amounts = [], key_obligations = [], missing_terms_count = 0, ambiguity_count = 0\<rparr>"

definition DATE_FACTS :: "string list" where
  "DATE_FACTS = [''contract_start_date'', ''contract_end_date'', ''payment_date'', ''notice_deadline'']"

definition AMOUNT_FACTS :: "string list" where
  "AMOUNT_FACTS = [''payment_amount'', ''deposit'', ''penalty'', ''late_fee'', ''interest_rate'']"

definition tally_status :: "pydict \<Rightarrow> fact_tally \<Rightarrow> fact_tally" where
  "tally_status d a =
     (let status = lower (strip (get_str d ''status'' ''''))
      in if status = lit ''missing'' then a\<lparr>missing_terms_count := Suc (missing_terms_count a)\<rparr>
         else if status = lit ''ambiguous'' then a\<lparr>ambiguity_count := Suc (ambiguity_count a)\<rparr>
         else a)"

definition tally_date :: "pydict \<Rightarrow> fact_tally \<Rightarrow> fact_tally" where
  "tally_date d a =
     (let date_value = strip (get_str d ''date_value'' '''')
      in if get_str d ''fact_type'' '''' \<in> lit ` set DATE_FACTS \<and> date_value \<noteq> []
         then a\<lparr>key_dates := key_dates a @ [date_value]\<rparr> else a)"

definition tally_amount :: "pydict \<Rightarrow> fact_tally \<Rightarrow> fact_tally" where
  "tally_amount d a =
     (let amount_value = strip (get_str d ''amount_value'' ''''); given = strip (get_str d ''currency'' '''');
          currency = (if given \<noteq> [] then given else lit ''KRW'')
      in if get_str d ''fact_type'' '''' \<in> lit ` set AMOUNT_FACTS \<and> amount_value \<noteq> []
         then a\<lparr>key_amounts := key_amounts a @ [amount_value @ [32] @ currency]\<rparr> else a)"

definition tally_obligation :: "pydict \<Rightarrow> fact_tally \<Rightarrow> fact_tally" where
  "tally_obligation d a =
     (let party = strip (get_str d ''obligation_party'' ''''); label = strip (get_str d ''label'' '''')
      in if get_str d ''fact_type'' '''' = lit ''obligation'' \<and> party \<noteq> []
         then a\<lparr>key_obligations := key_obligations a @ [strip (party @ lit '': '' @ label)]\<rparr> else a)"

definition tally_fact :: "fact_tally \<Rightarrow> pyval \<Rightarrow> fact_tally" where
  "tally_fact a v =
     (case as_dict v of
        None \<Rightarrow> a
      | Some d \<Rightarrow> tally_obligation d (tally_amount d (tally_date d (tally_status d a))))"

fun tally_items :: "item_values \<Rightarrow> int list \<Rightarrow> fact_tally \<Rightarrow> fact_tally result" where
  "tally_items values [] a = Inr a"
| "tally_items values (i # js) a =
     bind (iterated (get (analysis_value values i) ''extracted_facts'' (PList []))) (\<lambda>facts.
     tally_items values js (foldl tally_fact a facts))"

record analysis_summary =
  overall_risk_level :: pystr
  overall_display_label :: pystr
  total_findings :: nat
  critical_count :: nat
  high_count :: nat
  medium_count :: nat
  low_count :: nat
  info_count :: nat
  top_priorities :: "top_priority list"
  facts_tally :: fact_tally
  any_expert_review :: bool
  snapshot_version :: "int option"
  snapshot_stale :: bool

definition count_severity :: "pystr list \<Rightarrow> string \<Rightarrow> nat" where
  "count_severity severities s = length (filter (\<lambda>x. x = lit s) severities)"

definition overall_risk :: "pystr list \<Rightarrow> pystr" where
  "overall_risk severities =
     (if 0 < count_severity severities ''critical'' then lit ''critical''
      else if 0 < count_severity severities ''high'' then lit ''high''
      else if 0 < count_severity severities ''medium'' then lit ''medium''
      else if 0 < count_severity severities ''low'' then lit ''low''
      else lit ''info'')"

definition no_findings_summary :: analysis_summary where
  "no_findings_summary =
     \<lparr>overall_risk_level = lit ''info'', overall_display_label = lit ''safe'', total_findings = 0,
      critical_count = 0, high_count = 0, medium_count = 0, low_count = 0, info_count = 0, top_priorities = [],
      facts_tally = empty_tally, any_expert_review = False, snapshot_version = None, snapshot_stale = False\<rparr>"

definition analysis_summary_from_items ::
  "aead \<Rightarrow> encryption_keyring \<Rightarrow> pystr \<Rightarrow> pystr option \<Rightarrow> (result_item \<Rightarrow> int) \<Rightarrow> item_values \<Rightarrow> loaded_item list \<Rightarrow>
     analysis_summary result" where
  "analysis_summary_from_items A kr owner_id current_snapshot_hash item_id values items =
     (let ids = map (item_id \<circ> fst) items; severities = map (severity_of values) ids;
          count = count_severity severities; risk = overall_risk severities
      in if items = [] then Inr no_findings_summary
         else if count ''critical'' + count ''high'' + count ''medium'' + count ''low'' + count ''info'' \<noteq> length items
         then Inl (ValueError (lit ''severity count does not match total findings.''))
         else
           bind (map_result (top_priority_of A kr owner_id item_id values)
                   (take 3 (sort_key (priority_key values \<circ> item_id \<circ> fst) items))) (\<lambda>tops.
           bind (tally_items values ids empty_tally) (\<lambda>tally.
           let versions = List.map_filter (\<lambda>li. as_int (get0 (ri_extra_data (fst li)) ''snapshot_version'')) items
           in Inr \<lparr>overall_risk_level = risk,
                   overall_display_label =
                     (if risk \<in> {lit ''critical'', lit ''high''} then lit ''warning'' else lit ''safe''),
                   total_findings = length items,
                   critical_count = count ''critical'', high_count = count ''high'', medium_count = count ''medium'',
                   low_count = count ''low'', info_count = count ''info'', top_priorities = tops,
                   facts_tally = tally,
                   any_expert_review = list_ex (\<lambda>li. is_truthy (ri_expert_review_recommended (fst li))) items,
                   snapshot_version = (if versions = [] then None else Some (Max (set versions))),
                   snapshot_stale = list_ex (\<lambda>li. is_snapshot_stale (fst li) current_snapshot_hash) items\<rparr>)))"

subsection \<open>The handler\<close>

definition get_extraction_snapshot ::
  "services \<Rightarrow> encryption_keyring \<Rightarrow> pystr \<Rightarrow> pystr \<Rightarrow> tables \<Rightarrow> pyval list result" where
  "get_extraction_snapshot sv kr user_id document_id t =
     (case List.find (\<lambda>x. ex_id x = document_id \<and> ex_owner_id x = user_id) (t_extractions t) of
        None \<Rightarrow> Inr []
      | Some x \<Rightarrow>
          (case as_list (get0 (ex_extra_data x) ''confirmation_snapshot'') of
             Some (p # ps) \<Rightarrow>
               bind (no_decrypt stored_data_error
                 (decrypt_confirmation_snapshot (sv_aead sv) kr (PList (p # ps)) (PStr (ex_id x)) (PStr user_id)
                    (get0 (ex_extra_data x) ''snapshot_version''))) (\<lambda>snapshot.
               Inr (filter (\<lambda>v. as_dict v \<noteq> None) snapshot))
           | _ \<Rightarrow> Inr []))"

text \<open>The latest job of the document; among jobs created at the same time, the one added first.\<close>

definition latest_job :: "tables \<Rightarrow> pystr \<Rightarrow> analysis_job option" where
  "latest_job t document_id =
     (case sort_key (\<lambda>j. - aj_created_at j) (filter (\<lambda>j. aj_document_id j = document_id) (t_jobs t)) of
        [] \<Rightarrow> None | j # js \<Rightarrow> Some j)"

definition load_item :: "tables \<Rightarrow> result_item \<Rightarrow> loaded_item result" where
  "load_item t item =
     (case List.find (\<lambda>c. cl_id c = ri_clause_record_id item) (t_clauses t) of
        None \<Rightarrow> Inl (AttributeError (lit ''NoneType object has no attribute ordinal''))
      | Some c \<Rightarrow> Inr (item, c))"

definition job_items :: "tables \<Rightarrow> pystr \<Rightarrow> loaded_item list result" where
  "job_items t job_id =
     bind (map_result (load_item t) (filter (\<lambda>r. ri_analysis_job_id r = job_id) (t_results t))) (\<lambda>items.
     Inr (sort_key (\<lambda>li. clause_row.cl_ordinal (snd li)) items))"

record results_view =
  rv_document_id :: pystr
  rv_job_id :: pystr
  rv_status :: pystr
  rv_snapshot_version :: pyval
  rv_summary :: analysis_summary
  rv_items :: "pydict list"

definition get_analysis_results ::
  "services \<Rightarrow> string list \<Rightarrow> (pystr \<Rightarrow> pystr) \<Rightarrow> (result_item \<Rightarrow> int) \<Rightarrow> pystr \<Rightarrow> pystr \<Rightarrow> tables \<Rightarrow> results_view result" where
  "get_analysis_results sv order nfc item_id user_id document_id t =
     bind (get_document_for_current_user user_id document_id t) (\<lambda>d.
     case latest_job t document_id of
       None \<Rightarrow> Inl (plain_error 404 ''Analysis result not found.'')
     | Some job \<Rightarrow>
         bind (sv_keyring sv) (\<lambda>kr.
         bind (get_extraction_snapshot sv kr user_id document_id t) (\<lambda>snapshot.
         bind (if snapshot = [] then Inr None
               else bind (calculate_snapshot_hash nfc (sv_sha sv) snapshot) (\<lambda>h. Inr (Some h))) (\<lambda>hash.
         bind (job_items t (aj_id job)) (\<lambda>items.
         bind (decrypt_analysis_values order (sv_aead sv) kr user_id item_id (map fst items)) (\<lambda>values.
         bind (map_result (serialize_result_item (sv_aead sv) kr user_id hash item_id values) items) (\<lambda>payloads.
         bind (analysis_summary_from_items (sv_aead sv) kr user_id hash item_id values items) (\<lambda>s.
         Inr \<lparr>rv_document_id = document_id, rv_job_id = aj_id job, rv_status = aj_status job,
              rv_snapshot_version =
                (case List.find (\<lambda>x. ex_id x = document_id \<and> ex_owner_id x = user_id) (t_extractions t) of
                   None \<Rightarrow> PNone | Some x \<Rightarrow> get0 (ex_extra_data x) ''snapshot_version''),
              rv_summary = s, rv_items = payloads\<rparr>))))))))"

end
