(* ===== verification/Document_Results_Correct.thy ===== *)
theory Document_Results_Correct
  imports Document_Results Analysis_Job_Api_Correct
begin

text \<open>
  What a reader of the results is told: the counts and the overall risk of the summary, and which findings it
  puts first; and what one user can learn of the documents of another.
\<close>

subsection \<open>Counts and overall risk\<close>

lemma count_severity_sum:
  assumes "count_severity ss ''critical'' + count_severity ss ''high'' + count_severity ss ''medium'' +
      count_severity ss ''low'' + count_severity ss ''info'' = length ss"
  shows "\<forall>s\<in>set ss. s \<in> lit ` set severity_order"
proof -
  have "count_severity ss ''critical'' + count_severity ss ''high'' + count_severity ss ''medium'' +
      count_severity ss ''low'' + count_severity ss ''info'' = length (filter (\<lambda>s. s \<in> lit ` set severity_order) ss)" for ss
    by (induction ss) (auto simp: count_severity_def severity_order_def)
  then have "length (filter (\<lambda>s. s \<in> lit ` set severity_order) ss) = length ss" using assms by simp
  then show ?thesis by (metis filter_id_conv filter_True length_filter_less less_irrefl)
qed

lemma count_severity_pos: "0 < count_severity ss s \<longleftrightarrow> lit s \<in> set ss"
  by (auto simp: count_severity_def filter_empty_conv)

lemma overall_risk_max:
  assumes "ss \<noteq> []" "\<forall>s\<in>set ss. s \<in> lit ` set severity_order"
  shows "overall_risk ss \<in> set ss \<and> (\<forall>s\<in>set ss. rank_in severity_order s \<le> rank_in severity_order (overall_risk ss))"
proof -
  have r: "rank_in severity_order (lit ''critical'') = 5" "rank_in severity_order (lit ''high'') = 4"
    "rank_in severity_order (lit ''medium'') = 3" "rank_in severity_order (lit ''low'') = 2"
    "rank_in severity_order (lit ''info'') = 1"
    by (simp_all add: severity_order_def)
  have m: "s = lit ''critical'' \<or> s = lit ''high'' \<or> s = lit ''medium'' \<or> s = lit ''low'' \<or> s = lit ''info''"
    if "s \<in> set ss" for s
    using assms(2) that by (auto simp: severity_order_def)
  obtain s where s: "s \<in> set ss" using assms(1) by (cases ss) auto
  have "overall_risk ss \<in> set ss" unfolding overall_risk_def count_severity_pos using m [OF s] s by auto
  moreover have "rank_in severity_order x \<le> rank_in severity_order (overall_risk ss)" if "x \<in> set ss" for x
    unfolding overall_risk_def count_severity_pos using m [OF that] that by (auto simp: r)
  ultimately show ?thesis by blast
qed

text \<open>C26: The summary of an analysis is a summary.  The counts add up to the number of findings, the overall
  risk is the severity of some finding and none is more severe, and the document is labelled a warning exactly
  when a finding is critical or high; without findings the document is safe.\<close>

theorem summary_reports_highest_risk:
  assumes "analysis_summary_from_items A kr u h item_id values items = Inr s"
  shows "total_findings s = length items \<and>
    critical_count s + high_count s + medium_count s + low_count s + info_count s = length items \<and>
    (let severities = map (\<lambda>li. severity_of values (item_id (fst li))) items
     in (items = [] \<and> overall_risk_level s = lit ''info'' \<or>
         overall_risk_level s \<in> set severities \<and>
         (\<forall>x\<in>set severities. rank_in severity_order x \<le> rank_in severity_order (overall_risk_level s))) \<and>
        (overall_display_label s = lit ''warning'' \<longleftrightarrow>
           lit ''critical'' \<in> set severities \<or> lit ''high'' \<in> set severities))"
proof (cases "items = []")
  case True
  with assms show ?thesis
    by (auto simp: analysis_summary_from_items_def no_findings_summary_def Let_def)
next
  case False
  let ?ss = "map (\<lambda>li. severity_of values (item_id (fst li))) items"
  from assms False have c: "count_severity ?ss ''critical'' + count_severity ?ss ''high'' + count_severity ?ss ''medium'' +
      count_severity ?ss ''low'' + count_severity ?ss ''info'' = length ?ss"
    and s: "total_findings s = length items" "overall_risk_level s = overall_risk ?ss"
    "critical_count s = count_severity ?ss ''critical''" "high_count s = count_severity ?ss ''high''"
    "medium_count s = count_severity ?ss ''medium''" "low_count s = count_severity ?ss ''low''"
    "info_count s = count_severity ?ss ''info''"
    "overall_display_label s =
       (if overall_risk ?ss \<in> {lit ''critical'', lit ''high''} then lit ''warning'' else lit ''safe'')"
    by (auto simp: analysis_summary_from_items_def Let_def bind_Inr_iff comp_def split: if_splits)
  have m: "overall_risk ?ss \<in> set ?ss \<and> (\<forall>x\<in>set ?ss. rank_in severity_order x \<le> rank_in severity_order (overall_risk ?ss))"
    using False by (intro overall_risk_max count_severity_sum c) simp
  have "overall_display_label s = lit ''warning'' \<longleftrightarrow> lit ''critical'' \<in> set ?ss \<or> lit ''high'' \<in> set ?ss"
    unfolding s(8) overall_risk_def count_severity_pos by auto
  with m s c show ?thesis by (simp add: Let_def)
qed

subsection \<open>Priorities\<close>

lemma list_all2_map_result: "map_result f xs = Inr ys \<Longrightarrow> list_all2 (\<lambda>y x. f x = Inr y) ys xs"
  by (induction xs arbitrary: ys) (auto simp: bind_Inr_iff)

text \<open>C31: The top priorities are the least severe findings.  The summary lists three findings (all, when there
  are fewer), and every finding it leaves out is at least as severe as every finding it lists: with three
  findings of severity info, no critical one is ever listed.\<close>

theorem top_priorities_are_least_severe:
  assumes "analysis_summary_from_items A kr u h item_id values items = Inr s"
  shows "\<exists>listed others. mset items = mset listed + mset others \<and> length listed = min 3 (length items) \<and>
    list_all2 (\<lambda>p li. top_priority_of A kr u item_id values li = Inr p) (top_priorities s) listed \<and>
    (\<forall>li\<in>set listed. \<forall>lo\<in>set others.
       rank_in severity_order (severity_of values (item_id (fst li))) \<le>
       rank_in severity_order (severity_of values (item_id (fst lo))))"
proof (cases "items = []")
  case True
  with assms show ?thesis by (auto simp: analysis_summary_from_items_def no_findings_summary_def)
next
  case False
  let ?key = "priority_key values \<circ> item_id \<circ> fst"
  let ?sorted = "sort_key ?key items"
  from assms False have "map_result (top_priority_of A kr u item_id values) (take 3 ?sorted) = Inr (top_priorities s)"
    by (auto simp: analysis_summary_from_items_def Let_def bind_Inr_iff split: if_splits)
  from list_all2_map_result [OF this]
  have l: "list_all2 (\<lambda>p li. top_priority_of A kr u item_id values li = Inr p) (top_priorities s) (take 3 ?sorted)" .
  have "sorted (map ?key (take 3 ?sorted @ drop 3 ?sorted))" by simp
  then have "\<forall>li\<in>set (take 3 ?sorted). \<forall>lo\<in>set (drop 3 ?sorted). ?key li \<le> ?key lo"
    unfolding map_append sorted_append by auto
  then have "\<forall>li\<in>set (take 3 ?sorted). \<forall>lo\<in>set (drop 3 ?sorted).
      rank_in severity_order (severity_of values (item_id (fst li))) \<le>
      rank_in severity_order (severity_of values (item_id (fst lo)))"
    by (fastforce simp: priority_key_def less_eq_prod_def)
  moreover have "mset items = mset (take 3 ?sorted) + mset (drop 3 ?sorted)"
    by (metis append_take_drop_id mset_append mset_sort)
  ultimately show ?thesis using l by (intro exI [of _ "take 3 ?sorted"] exI [of _ "drop 3 ?sorted"]) (simp add: min.commute)
qed

text \<open>Four findings, the first of them critical.\<close>

definition example_item :: "nat \<Rightarrow> loaded_item" where
  "example_item n =
     (\<lparr>ri_analysis_job_id = lit ''j'', ri_clause_record_id = lit ''c'', ri_reference_id = replicate n 49,
       ri_display_label = lit ''l'', ri_summary_encrypted = [], ri_expert_review_recommended = PBool False,
       ri_extra_data = []\<rparr>,
      \<lparr>cl_id = lit ''c'', cl_clause_id = lit ''c'', cl_document_id = lit ''d'', cl_reference_id = [],
       cl_source_hash = [], cl_ordinal = int n, cl_marker = [], cl_clause_type = [], cl_title_encrypted = None,
       cl_body_encrypted = [], cl_warnings = []\<rparr>)"

definition example_values :: item_values where
  "example_values =
     (0, [(lit ''severity'', PStr (lit ''critical'')), (lit ''title'', PStr (lit ''t''))]) #
     map (\<lambda>i. (i, [(lit ''severity'', PStr (lit ''info'')), (lit ''title'', PStr (lit ''t''))])) [1, 2, 3]"

lemma example_summary:
  obtains s where "analysis_summary_from_items plain_aead example_keyring (lit ''o'') None
      (\<lambda>r. int (length (ri_reference_id r))) example_values (map example_item [0, 1, 2, 3]) = Inr s"
    "map tp_severity (top_priorities s) = [lit ''info'', lit ''info'', lit ''info'']" "critical_count s = 1"
proof -
  have "case analysis_summary_from_items plain_aead example_keyring (lit ''o'') None
      (\<lambda>r. int (length (ri_reference_id r))) example_values (map example_item [0, 1, 2, 3]) of
      Inl e \<Rightarrow> False
    | Inr s \<Rightarrow> map tp_severity (top_priorities s) = [lit ''info'', lit ''info'', lit ''info''] \<and> critical_count s = 1"
    by code_simp
  then show ?thesis using that by (auto split: sum.splits)
qed

lemma summary_reports_highest_risk_witness:
  "\<exists>s. analysis_summary_from_items plain_aead example_keyring (lit ''o'') None
      (\<lambda>r. int (length (ri_reference_id r))) example_values (map example_item [0, 1, 2, 3]) = Inr s \<and>
     total_findings s = 4 \<and> critical_count s = 1"
proof -
  obtain s where s: "analysis_summary_from_items plain_aead example_keyring (lit ''o'') None
      (\<lambda>r. int (length (ri_reference_id r))) example_values (map example_item [0, 1, 2, 3]) = Inr s"
    "critical_count s = 1" by (rule example_summary)
  with summary_reports_highest_risk [OF s(1)] show ?thesis by simp
qed

lemma top_priorities_are_least_severe_witness:
  "\<exists>s listed others. analysis_summary_from_items plain_aead example_keyring (lit ''o'') None
      (\<lambda>r. int (length (ri_reference_id r))) example_values (map example_item [0, 1, 2, 3]) = Inr s \<and>
     map tp_severity (top_priorities s) = [lit ''info'', lit ''info'', lit ''info''] \<and> critical_count s = 1 \<and>
     mset (map example_item [0, 1, 2, 3]) = mset listed + mset others \<and> length listed = 3"
proof -
  obtain s where s: "analysis_summary_from_items plain_aead example_keyring (lit ''o'') None
      (\<lambda>r. int (length (ri_reference_id r))) example_values (map example_item [0, 1, 2, 3]) = Inr s"
    "map tp_severity (top_priorities s) = [lit ''info'', lit ''info'', lit ''info'']" "critical_count s = 1"
    by (rule example_summary)
  obtain listed others where l: "mset (map example_item [0, 1, 2, 3]) = mset listed + mset others"
    "length listed = min 3 (length (map example_item [0, 1, 2, 3]))"
    using top_priorities_are_least_severe [OF s(1)] by blast
  have "length listed = 3" using l(2) by simp
  with s l(1) show ?thesis by (intro exI conjI)
qed

subsection \<open>The documents of other users\<close>

definition own_documents :: "pystr \<Rightarrow> tables \<Rightarrow> tables" where
  "own_documents u t = t\<lparr>t_documents := filter (\<lambda>d. doc_owner_id d = u) (t_documents t)\<rparr>"

lemma own_documents_simps [simp]:
  "t_clauses (own_documents u t) = t_clauses t" "t_jobs (own_documents u t) = t_jobs t"
  "t_results (own_documents u t) = t_results t" "t_extractions (own_documents u t) = t_extractions t"
  "document_clauses (own_documents u t) i = document_clauses t i"
  by (simp_all add: own_documents_def document_clauses_def)

lemma own_documents_reads:
  "latest_job (own_documents u t) i = latest_job t i" "job_items (own_documents u t) i = job_items t i"
  "get_extraction_snapshot sv kr u i (own_documents u t) = get_extraction_snapshot sv kr u i t"
proof -
  have "load_item (own_documents u t) = load_item t" by (rule ext) (simp add: load_item_def)
  then show "job_items (own_documents u t) i = job_items t i" by (simp add: job_items_def)
qed (simp_all add: latest_job_def get_extraction_snapshot_def)

lemma find_filter_conj: "List.find P (filter Q xs) = List.find (\<lambda>x. P x \<and> Q x) xs"
  by (induction xs) auto

lemma get_document_own:
  "get_document_for_current_user u i (own_documents u t) = get_document_for_current_user u i t"
proof -
  have "(\<lambda>d. (doc_id d = i \<and> doc_owner_id d = u) \<and> doc_owner_id d = u) = (\<lambda>d. doc_id d = i \<and> doc_owner_id d = u)"
    by auto
  then show ?thesis by (simp add: get_document_for_current_user_def own_documents_def find_filter_conj)
qed

text \<open>With distinct ids, the lookup by id and the test of the owner amount to a lookup among the own documents.\<close>

lemma find_document_own:
  assumes "distinct (map doc_id (t_documents t))"
  shows "find_document (own_documents u t) i =
    (case find_document t i of None \<Rightarrow> None | Some d \<Rightarrow> if doc_owner_id d = u then Some d else None)"
proof -
  have "List.find (\<lambda>d. doc_id d = i \<and> doc_owner_id d = u) ds =
      (case List.find (\<lambda>d. doc_id d = i) ds of None \<Rightarrow> None | Some d \<Rightarrow> if doc_owner_id d = u then Some d else None)"
    if "distinct (map doc_id ds)" for ds
    using that
  proof (induction ds)
    case (Cons d ds)
    have "List.find (\<lambda>x. doc_id x = i) ds = None" if "doc_id d = i"
      using Cons.prems that by (auto simp: find_None_iff image_iff)
    with Cons show ?case by auto
  qed simp
  with assms show ?thesis by (simp add: find_document_def own_documents_def find_filter_conj)
qed

text \<open>C27: A user learns nothing of the documents of others.  Reading a document, its analysis results or the
  state of a job, and asking for an analysis of a document, is answered as if the documents of other users
  did not exist; in particular a foreign id is answered like an unknown one.\<close>

theorem foreign_documents_are_invisible:
  assumes "distinct (map doc_id (t_documents t))"
  shows "get_document sv u i (own_documents u t) = get_document sv u i t \<and>
    get_analysis_results sv order nfc item_id u i (own_documents u t) = get_analysis_results sv order nfc item_id u i t \<and>
    get_analysis_job u j (own_documents u t) = get_analysis_job u j t \<and>
    snd (create_analysis_job sv env u j now i (own_documents u t)) = snd (create_analysis_job sv env u j now i t)"
proof (intro conjI)
  show "get_document sv u i (own_documents u t) = get_document sv u i t"
    by (simp add: get_document_def get_document_own)
  show "get_analysis_results sv order nfc item_id u i (own_documents u t) = get_analysis_results sv order nfc item_id u i t"
    unfolding get_analysis_results_def get_document_own own_documents_reads own_documents_simps ..
  show "get_analysis_job u j (own_documents u t) = get_analysis_job u j t"
    by (auto simp: get_analysis_job_def find_document_own [OF assms] split: option.splits)
  show "snd (create_analysis_job sv env u j now i (own_documents u t)) = snd (create_analysis_job sv env u j now i t)"
    by (auto simp: create_analysis_job_def find_document_own [OF assms] enqueue_in_session_def
        split: option.splits prod.splits sum.splits)
qed

lemma foreign_documents_are_invisible_witness:
  "get_document example_services (lit ''o'') (lit ''e'') (own_documents (lit ''o'') confirmed_tables) =
     get_document example_services (lit ''o'') (lit ''e'') confirmed_tables"
proof -
  have "distinct (map doc_id (t_documents confirmed_tables))"
    by (simp add: confirmed_tables_def)
  from foreign_documents_are_invisible [OF this] show ?thesis by blast
qed

end
