(* ===== verification/Rate_Limit.thy ===== *)
theory Rate_Limit
  imports Runtime_Config
begin

text \<open>
  Model of \<^verbatim>\<open>src/backend/app/core/rate_limit.py\<close>: the limiter of one process.  Times are whole
  microseconds of a monotonic clock, the dictionary of buckets is an association list in insertion order,
  and one call of \<open>check\<close> is atomic, since it holds the lock.
\<close>

subsection \<open>The limiter\<close>

type_synonym buckets = "(pystr \<times> int list) list"

record rate_limit_decision =
  rd_allowed :: bool
  rd_retry_after :: int

definition bucket_of :: "buckets \<Rightarrow> pystr \<Rightarrow> int list" where
  "bucket_of bs key = (case map_of bs key of None \<Rightarrow> [] | Some b \<Rightarrow> b)"

text \<open>\<open>bs[key] = b\<close>: an existing key keeps its place.\<close>

fun set_bucket :: "pystr \<Rightarrow> int list \<Rightarrow> buckets \<Rightarrow> buckets" where
  "set_bucket key b [] = [(key, b)]"
| "set_bucket key b ((k, c) # bs) = (if k = key then (k, b) # bs else (k, c) # set_bucket key b bs)"

definition remove_expired :: "nat \<Rightarrow> int \<Rightarrow> buckets \<Rightarrow> buckets" where
  "remove_expired max_buckets cutoff bs =
     (let live = filter (\<lambda>(k, b). b \<noteq> [] \<and> cutoff < last b) bs
      in drop (length live - max_buckets) live)"

text \<open>\<open>math.ceil\<close> of a duration in seconds.\<close>

definition ceil_seconds :: "int \<Rightarrow> int" where
  "ceil_seconds us = - ((- us) div 1000000)"

definition limiter_check ::
  "nat \<Rightarrow> int \<Rightarrow> pystr \<Rightarrow> int \<Rightarrow> int \<Rightarrow> buckets \<Rightarrow> buckets \<times> rate_limit_decision result" where
  "limiter_check max_buckets now key limit window_seconds bs =
     (let window = window_seconds * 1000000; cutoff = now - window;
          b = dropWhile (\<lambda>t. t \<le> cutoff) (bucket_of bs key); bs1 = set_bucket key b bs
      in if limit \<le> int (length b) then
           (bs1,
            case b of
              [] \<Rightarrow> Inl (IndexError (lit ''deque index out of range''))
            | t # ts \<Rightarrow> Inr \<lparr>rd_allowed = False, rd_retry_after = max 1 (ceil_seconds (t + window - now))\<rparr>)
         else
           (let bs2 = set_bucket key (b @ [now]) bs1
            in (if max_buckets < length bs2 then remove_expired max_buckets cutoff bs2 else bs2,
                Inr \<lparr>rd_allowed = True, rd_retry_after = 0\<rparr>)))"

subsection \<open>The dependencies of the routes\<close>

definition bucket_limit :: "boundary_config \<Rightarrow> string \<Rightarrow> int result" where
  "bucket_limit c bucket =
     (if bucket = ''login'' then Inr (rate_limit_login c)
      else if bucket = ''register'' then Inr (rate_limit_register c)
      else if bucket = ''upload'' then Inr (rate_limit_upload c)
      else if bucket = ''extraction'' then Inr (rate_limit_extraction c)
      else if bucket = ''analysis_job'' then Inr (rate_limit_analysis_job c)
      else Inl (KeyError (lit bucket)))"

definition rate_limit_exceeded :: "int \<Rightarrow> exn" where
  "rate_limit_exceeded retry_after =
     HTTPException \<lparr>http_status = 429, http_code = Some (lit ''RATE_LIMIT_EXCEEDED''),
       http_message = lit ''Too many requests. Please try again later.'', http_retryable = None,
       http_headers = [(''Retry-After'', str_int retry_after)]\<rparr>"

text \<open>
  \<open>who\<close> is the client address of a public route and the user's id of a protected one; the configuration is
  read first.
\<close>

definition enforce_rate_limit ::
  "(pystr \<Rightarrow> pystr) \<Rightarrow> environ \<Rightarrow> nat \<Rightarrow> int \<Rightarrow> string \<Rightarrow> pystr \<Rightarrow> buckets \<Rightarrow> buckets \<times> unit result" where
  "enforce_rate_limit sha env max_buckets now bucket who bs =
     (case bind (get_boundary_config env) (\<lambda>c. bind (bucket_limit c bucket) (\<lambda>limit. Inr (c, limit))) of
        Inl e \<Rightarrow> (bs, Inl e)
      | Inr (c, limit) \<Rightarrow>
          (case limiter_check max_buckets now (lit bucket @ [58] @ sha who) limit (rate_limit_window_seconds c) bs of
             (bs', Inl e) \<Rightarrow> (bs', Inl e)
           | (bs', Inr d) \<Rightarrow> (bs', if rd_allowed d then Inr () else Inl (rate_limit_exceeded (rd_retry_after d)))))"

subsection \<open>Facts\<close>

lemma bucket_of_set: "bucket_of (set_bucket key b bs) k = (if k = key then b else bucket_of bs k)"
  by (induction key b bs rule: set_bucket.induct) (auto simp: bucket_of_def)

lemma keys_of_set: "fst ` set (set_bucket key b bs) = insert key (fst ` set bs)"
  by (induction key b bs rule: set_bucket.induct) auto

lemma distinct_set_bucket: "distinct (map fst bs) \<Longrightarrow> distinct (map fst (set_bucket key b bs))"
proof (induction key b bs rule: set_bucket.induct)
  case (2 key b k c bs)
  have "fst ` set (set_bucket key b bs) = insert key (fst ` set bs)" by (rule keys_of_set)
  with 2 show ?case by auto
qed simp

lemma dropWhile_le_sorted: "sorted ts \<Longrightarrow> dropWhile (\<lambda>t. t \<le> c) ts = filter (\<lambda>t. c < t) (ts :: int list)"
proof (induction ts)
  case (Cons t ts)
  show ?case
  proof (cases "t \<le> c")
    case False
    with Cons.prems have "\<forall>x\<in>set (t # ts). c < x" by force
    then have "filter (\<lambda>t. c < t) (t # ts) = t # ts" by (rule filter_True)
    with False show ?thesis by simp
  qed (use Cons in simp)
qed simp

lemma ceil_seconds_bounds: "us \<le> ceil_seconds us * 1000000" "ceil_seconds us * 1000000 < us + 1000000"
  using mult_div_mod_eq [of 1000000 "- us"] pos_mod_bound [of 1000000 "- us"] pos_mod_sign [of 1000000 "- us"]
  unfolding ceil_seconds_def by linarith+

subsection \<open>Runs\<close>

text \<open>Requests in the order they take the lock; the admitted ones are collected in that order.\<close>

fun limiter_run ::
  "nat \<Rightarrow> int \<Rightarrow> int \<Rightarrow> (int \<times> pystr) list \<Rightarrow> buckets \<Rightarrow> (int \<times> pystr) list \<Rightarrow> buckets \<times> (int \<times> pystr) list" where
  "limiter_run m limit w [] bs admitted = (bs, admitted)"
| "limiter_run m limit w ((now, key) # rs) bs admitted =
     (case limiter_check m now key limit w bs of
        (bs', r) \<Rightarrow>
          limiter_run m limit w rs bs'
            (case r of Inr d \<Rightarrow> if rd_allowed d then admitted @ [(now, key)] else admitted | Inl e \<Rightarrow> admitted))"

definition times_of :: "pystr \<Rightarrow> (int \<times> pystr) list \<Rightarrow> int list" where
  "times_of key rs = map fst (filter (\<lambda>r. snd r = key) rs)"

text \<open>The requests of a key within a window that ends at \<open>t\<close>.\<close>

definition in_window :: "int \<Rightarrow> int \<Rightarrow> int list \<Rightarrow> int list" where
  "in_window w t ts = filter (\<lambda>s. t - w * 1000000 < s \<and> s \<le> t) ts"

text \<open>
  Between requests: the buckets hold the admitted times that still count, in order, and there are no more
  buckets than keys seen.
\<close>

definition limiter_inv :: "pystr set \<Rightarrow> int \<Rightarrow> int \<Rightarrow> int \<Rightarrow> buckets \<Rightarrow> (int \<times> pystr) list \<Rightarrow> bool" where
  "limiter_inv keys limit w now bs admitted \<longleftrightarrow>
     distinct (map fst bs) \<and> fst ` set bs \<subseteq> keys \<and> (\<forall>r\<in>set admitted. fst r \<le> now) \<and>
     (\<forall>k. sorted (bucket_of bs k) \<and> (\<forall>t\<in>set (bucket_of bs k). t \<le> now) \<and>
        filter (\<lambda>t. now - w * 1000000 < t) (bucket_of bs k) =
          filter (\<lambda>t. now - w * 1000000 < t) (times_of k admitted)) \<and>
     (\<forall>k t. int (length (in_window w t (times_of k admitted))) \<le> limit)"

lemma limiter_inv_later:
  assumes "limiter_inv keys limit w now bs admitted" "now \<le> later"
  shows "limiter_inv keys limit w later bs admitted"
proof -
  have later: "filter (\<lambda>t. later - w * 1000000 < t) ts =
      filter (\<lambda>t. later - w * 1000000 < t) (filter (\<lambda>t. now - w * 1000000 < t) ts)" for ts :: "int list"
    using assms(2) by (auto intro!: filter_cong)
  show ?thesis using assms unfolding limiter_inv_def by (auto simp: later) (meson order_trans)+
qed

lemma limiter_check_inv:
  assumes inv: "limiter_inv keys limit w now bs admitted" and "0 < limit" "0 < w" "key \<in> keys"
    "finite keys" "card keys \<le> m"
    and c: "limiter_check m now key limit w bs = (bs', r)"
  shows "limiter_inv keys limit w now bs'
    (case r of Inr d \<Rightarrow> if rd_allowed d then admitted @ [(now, key)] else admitted | Inl e \<Rightarrow> admitted)"
proof -
  let ?cut = "now - w * 1000000"
  define b where "b = filter (\<lambda>t. ?cut < t) (bucket_of bs key)"
  have b: "dropWhile (\<lambda>t. t \<le> ?cut) (bucket_of bs key) = b"
    unfolding b_def using inv by (intro dropWhile_le_sorted) (simp add: limiter_inv_def)
  have admitted: "b = filter (\<lambda>t. ?cut < t) (times_of key admitted)"
    unfolding b_def using inv by (simp add: limiter_inv_def)
  have "sorted (bucket_of bs key)" "\<forall>t\<in>set (bucket_of bs key). t \<le> now" using inv by (simp_all add: limiter_inv_def)
  then have "sorted b" "\<forall>t\<in>set b. t \<le> now" unfolding b_def by (auto simp: sorted_wrt_filter)
  moreover have "filter (\<lambda>t. ?cut < t) b = b" by (simp add: b_def)
  ultimately have "sorted (bucket_of (set_bucket key b bs) k) \<and>
      (\<forall>t\<in>set (bucket_of (set_bucket key b bs) k). t \<le> now) \<and>
      filter (\<lambda>t. ?cut < t) (bucket_of (set_bucket key b bs) k) = filter (\<lambda>t. ?cut < t) (times_of k admitted)" for k
    using inv unfolding limiter_inv_def bucket_of_set admitted [symmetric]
    by (cases "k = key") (simp_all only: if_True if_False simp_thms admitted [symmetric], blast)
  then have trimmed: "limiter_inv keys limit w now (set_bucket key b bs) admitted"
    using inv assms(4) unfolding limiter_inv_def by (auto simp: keys_of_set distinct_set_bucket)
  show ?thesis
  proof (cases "limit \<le> int (length b)")
    case True
    with c b assms(2) have "bs' = set_bucket key b bs" "\<exists>d. r = Inr d \<and> \<not> rd_allowed d"
      by (auto simp: limiter_check_def Let_def split: list.splits)
    with trimmed show ?thesis by auto
  next
    case False
    let ?bs = "set_bucket key (b @ [now]) (set_bucket key b bs)" and ?ad = "admitted @ [(now, key)]"
    have sub: "fst ` set ?bs \<subseteq> keys" "distinct (map fst ?bs)"
      using trimmed assms(4) by (auto simp: keys_of_set limiter_inv_def distinct_set_bucket)
    have "length ?bs = card (fst ` set ?bs)" using sub(2) by (metis distinct_card length_map set_map)
    also have "\<dots> \<le> card keys" using sub(1) assms(5) by (rule card_mono [rotated])
    finally have "\<not> m < length ?bs" using assms(6) by simp
    with c b False have r: "bs' = ?bs" "r = Inr \<lparr>rd_allowed = True, rd_retry_after = 0\<rparr>"
      by (auto simp: limiter_check_def Let_def)
    have times: "times_of k ?ad = (if k = key then times_of k admitted @ [now] else times_of k admitted)" for k
      by (simp add: times_of_def)
    have le: "\<forall>t\<in>set (times_of key admitted). t \<le> now" using inv by (auto simp: limiter_inv_def times_of_def)
    have "int (length (in_window w t (times_of k ?ad))) \<le> limit" for k t
    proof (cases "k = key \<and> now \<le> t \<and> t - w * 1000000 < now")
      case True
      have "length (in_window w t (times_of key admitted)) \<le> length b"
      proof -
        have "in_window w t (times_of key admitted) = filter (\<lambda>s. t - w * 1000000 < s) b"
          unfolding in_window_def admitted filter_filter using le True by (auto intro!: filter_cong)
        then show ?thesis by simp
      qed
      with True False show ?thesis by (simp add: times in_window_def)
    next
      case out: False
      then have "in_window w t (times_of k ?ad) = in_window w t (times_of k admitted)"
        by (auto simp: times in_window_def)
      then show ?thesis using inv by (simp add: limiter_inv_def)
    qed
    moreover have "sorted (bucket_of ?bs k) \<and> (\<forall>t\<in>set (bucket_of ?bs k). t \<le> now) \<and>
        filter (\<lambda>t. ?cut < t) (bucket_of ?bs k) = filter (\<lambda>t. ?cut < t) (times_of k ?ad)" for k
      using trimmed assms(3) unfolding limiter_inv_def times
      by (auto simp: bucket_of_set sorted_append dest: spec [of _ k])
    ultimately show ?thesis using sub inv unfolding r limiter_inv_def by auto
  qed
qed

lemma limiter_run_inv:
  assumes "limiter_inv keys limit w now bs admitted" "0 < limit" "0 < w" "finite keys" "card keys \<le> m"
    and "snd ` set rs \<subseteq> keys" "sorted (now # map fst rs)" "limiter_run m limit w rs bs admitted = (bs', admitted')"
  shows "\<exists>later. limiter_inv keys limit w later bs' admitted'"
  using assms(1,6-8)
proof (induction rs arbitrary: now bs admitted)
  case (Cons q rs)
  obtain t key where q: "q = (t, key)" by (cases q)
  obtain bs1 r where c: "limiter_check m t key limit w bs = (bs1, r)" by fastforce
  have "limiter_inv keys limit w t bs admitted"
    using Cons.prems(1,3) q by (intro limiter_inv_later [OF Cons.prems(1)]) simp
  from limiter_check_inv [OF this assms(2,3) _ assms(4,5) c] Cons.prems(2) q
  have "limiter_inv keys limit w t bs1
    (case r of Inr d \<Rightarrow> if rd_allowed d then admitted @ [(t, key)] else admitted | Inl e \<Rightarrow> admitted)" by simp
  from Cons.IH [OF this] Cons.prems(2-4) q c show ?case by (auto split: prod.splits)
qed auto

text \<open>C16: The limiter is a sliding window.  As long as the clients that are counted fit into the buckets, no
  window of the configured length, wherever it lies, holds more admitted requests of one client than the
  limit, for every sequence of requests in the order of time.\<close>

theorem sliding_window_bound:
  assumes "0 < limit" and "0 < w" and "sorted (map fst rs)" and "card (snd ` set rs) \<le> m"
    and "limiter_run m limit w rs [] [] = (bs', admitted)"
  shows "int (length (in_window w t (times_of key admitted))) \<le> limit"
proof -
  obtain t0 where t0: "sorted (t0 # map fst rs)" using assms(3) by (cases rs) (auto intro: that)
  have "limiter_inv (snd ` set rs) limit w t0 [] []"
    using assms(1) by (simp add: limiter_inv_def bucket_of_def times_of_def in_window_def)
  from limiter_run_inv [OF this assms(1,2) _ assms(4) _ t0 assms(5)] obtain later where
    "limiter_inv (snd ` set rs) limit w later bs' admitted" by auto
  then show ?thesis by (simp add: limiter_inv_def)
qed

lemma sliding_window_bound_witness:
  "int (length (in_window 60 (61000000 :: int) (times_of (lit ''a'')
     (snd (limiter_run 5 2 60 [(1, lit ''a''), (2, lit ''a''), (3, lit ''a''), (60000002, lit ''a'')] [] []))))) \<le> 2"
proof -
  obtain bs ad where "limiter_run 5 2 60 [(1, lit ''a''), (2, lit ''a''), (3, lit ''a''), (60000002, lit ''a'')] [] [] = (bs, ad)"
    by fastforce
  from sliding_window_bound [OF _ _ _ _ this, of 61000000 "lit ''a''"] this show ?thesis by simp
qed

text \<open>C28: The advertised delay is right.  A refused client whose bucket is full is told to wait at least one
  second and at most the window; when it has waited that long without another admitted request, it is admitted.\<close>

theorem retry_after_suffices:
  assumes "limiter_check m now key limit w bs = (bs', Inr d)" and "\<not> rd_allowed d"
    and "int (length (bucket_of bs key)) \<le> limit" and "sorted (bucket_of bs key)"
    and "\<forall>t\<in>set (bucket_of bs key). t \<le> now" and "0 < limit" and "0 < w"
  shows "1 \<le> rd_retry_after d \<and> rd_retry_after d \<le> w \<and>
    (\<forall>later \<ge> now + rd_retry_after d * 1000000. \<exists>bs2 d2. limiter_check m later key limit w bs' = (bs2, Inr d2) \<and> rd_allowed d2)"
proof -
  let ?w = "w * 1000000"
  define b where "b = dropWhile (\<lambda>t. t \<le> now - ?w) (bucket_of bs key)"
  have full: "limit \<le> int (length b)" and bs': "bs' = set_bucket key b bs"
    using assms(1,2) by (auto simp: limiter_check_def b_def Let_def split: if_splits)
  then obtain t ts where b: "b = t # ts" using assms(6) by (cases b) auto
  have d: "rd_retry_after d = max 1 (ceil_seconds (t + ?w - now))"
    using assms(1,2) full b by (auto simp: limiter_check_def b_def [symmetric] Let_def split: if_splits)
  have t: "now - ?w < t" using b b_def by (metis dropWhile_eq_Cons_conv linorder_not_le)
  have mem: "set b \<subseteq> set (bucket_of bs key)" unfolding b_def by (auto dest: set_dropWhileD)
  with b assms(5) have t': "t \<le> now" by auto
  have "ceil_seconds (t + ?w - now) \<le> w"
    using ceil_seconds_bounds(2) [of "t + ?w - now"] t' by linarith
  then have bound: "1 \<le> rd_retry_after d \<and> rd_retry_after d \<le> w" using d assms(7) by simp
  have "\<exists>bs2 d2. limiter_check m later key limit w bs' = (bs2, Inr d2) \<and> rd_allowed d2"
    if l: "now + rd_retry_after d * 1000000 \<le> later" for later
  proof -
    have "t + ?w - now \<le> rd_retry_after d * 1000000"
      using ceil_seconds_bounds(1) [of "t + ?w - now"] d by linarith
    then have out: "t \<le> later - ?w" using l by linarith
    have "length (dropWhile (\<lambda>t. t \<le> later - ?w) b) \<le> length ts"
      using out by (simp add: b length_dropWhile_le)
    also have "\<dots> < length b" by (simp add: b)
    also have "length b \<le> length (bucket_of bs key)" unfolding b_def by (rule length_dropWhile_le)
    finally have "int (length (dropWhile (\<lambda>t. t \<le> later - ?w) b)) < limit" using assms(3) by linarith
    then show ?thesis by (simp add: limiter_check_def bs' bucket_of_set Let_def)
  qed
  with bound show ?thesis by blast
qed

lemma retry_after_suffices_witness:
  "\<exists>bs2 d2. limiter_check 5 60000007 (lit ''a'') 1 60
     (fst (limiter_check 5 (7 :: int) (lit ''a'') 1 60 [(lit ''a'', [7])])) = (bs2, Inr d2) \<and> rd_allowed d2"
proof -
  have c: "limiter_check 5 7 (lit ''a'') 1 60 [(lit ''a'', [7])] =
      ([(lit ''a'', [7])], Inr \<lparr>rd_allowed = False, rd_retry_after = 60\<rparr>)"
    by (simp add: limiter_check_def bucket_of_def ceil_seconds_def)
  show ?thesis
    using retry_after_suffices [OF c] by (simp add: c bucket_of_def)
qed

end
