(* ===== verification/Spec2Isabelle.thy ===== *)
theory Spec2Isabelle
  imports Pii_Masking_Correct Clause_Splitter_Correct Output_Safety_Correct Analysis_Provider_Correct
    Provider_Execution_Correct Evidence_Linking_Correct Job_Queue_Correct Encryption_Domains Pipeline_Values_Correct
    Analysis_Pipeline_Correct Sealed_Results Encryption_Correct Crypto_Correct Analysis_Worker_Runs Extraction_Runs
    Analysis_Job_Api_Correct Document_Api_Correct Document_Results_Correct Rate_Limit
begin

text \<open>
  Verification of the backend of ContractCheck AI.

  The backend (\<^verbatim>\<open>src/backend/app\<close>) takes Korean contracts as text, PDF or image, splits them into clauses, stores
  everything encrypted, and lets a worker analyse the clauses with a provider: each clause is masked before it is sent,
  and the answer is validated before it reaches a reader.  This development models that code as it is written and
  proves what it promises, and where the code does not keep a promise it proves what happens instead.


  \<^bold>\<open>How the parts interact.\<close>
  An upload of a text (\<open>Document_Api\<close>) passes the limits of requests (\<open>Runtime_Config\<close>, \<open>Rate_Limit\<close>), is split
  (\<open>Clause_Splitter\<close>) and stored encrypted.  The pages of an extracted PDF or image are corrected and confirmed
  (\<open>Extraction_Review\<close>, \<open>Extraction_Confirm\<close>); the confirmed snapshot becomes a document and a job in the queue
  (\<open>Analysis_Job_Api\<close>, \<open>Job_Queue\<close>).  A worker (\<open>Analysis_Worker\<close>) claims the job under a lease and runs the pipeline
  (\<open>Analysis_Pipeline\<close>), which masks each clause (\<open>Pii_Masking\<close>), collects the places it may be quoted from
  (\<open>Evidence_Linking\<close>), calls the provider with retries (\<open>Provider_Execution\<close>), checks its answer
  (\<open>Provider_Contract\<close>, \<open>Result_Schema\<close>) and its wording (\<open>Output_Safety\<close>), and stores the result encrypted.
  The reader gets it back decrypted, with a summary (\<open>Document_Results\<close>).


  \<^bold>\<open>Foundations.\<close>
  \<open>Py_Prelude\<close> holds Python strings as lists of code points, exceptions as values of \<open>exn\<close> with \<open>bind\<close> for code that
  may raise, and the shared lemmas; \<open>Unicode_Tables\<close> holds the character data of Python 3.11.  \<open>Py_Regex\<close> is a
  backtracking matcher, \<open>Py_Values\<close> the dynamically typed values, \<open>Py_Codec\<close> UTF-8 and base64, \<open>Py_Json\<close> the JSON
  printer and parser (locale \<open>codec\<close>, interpreted by UTF-8, base64 and JSON), \<open>Py_Env\<close> environment variables, floats and
  durations.  \<open>Database\<close> has the rows of \<^verbatim>\<open>db/models.py\<close>, the tables, and a session with commit and rollback.


  \<^bold>\<open>Components, by file under\<close> \<^verbatim>\<open>src/backend/app\<close>.

  \<^item> Masking, \<^verbatim>\<open>services/pii_masking.py\<close>: \<open>Pii_Masking\<close>.  \<open>Pii_Masking_Spans\<close> shows that candidates lie inside the text and
  that resolution keeps a sorted, disjoint set (locale \<open>span_source\<close>, interpreted by the detector);
  \<open>Pii_Masking_Correct\<close> that masking replaces exactly the spans and that a token stands for one value.

  \<^item> Splitting, \<^verbatim>\<open>services/clause_splitter.py\<close>: \<open>Clause_Splitter\<close>; the partition of the text in \<open>Clause_Splitter_Correct\<close>.

  \<^item> Output safety, \<^verbatim>\<open>services/output_safety.py\<close>: \<open>Output_Safety\<close>; in \<open>Output_Safety_Correct\<close> the contract of the segment
  rules (locale \<open>segment_rule\<close>, interpreted by each of the rules of the code), and that the rounds of splitting, one for
  each contrastive term, cut a text as one scan from left to right does.

  \<^item> Providers, \<^verbatim>\<open>services/analysis_provider_contract.py\<close>, \<^verbatim>\<open>analysis_provider.py\<close>, \<^verbatim>\<open>analysis_result_schema.py\<close>,
  \<^verbatim>\<open>provider_execution.py\<close>: \<open>Provider_Contract\<close>, \<open>Analysis_Provider\<close>, \<open>Result_Schema\<close>, \<open>Provider_Execution\<close>.  The
  validation of answers equals its declarative meaning; the retry loop refines its specification by traces; the
  locale \<open>sound_provider\<close> is interpreted by the synthetic provider.

  \<^item> Evidence, \<^verbatim>\<open>services/evidence_linking.py\<close>: \<open>Evidence_Linking\<close>, \<open>Evidence_Linking_Correct\<close>.

  \<^item> Queue, \<^verbatim>\<open>services/analysis_job_queue.py\<close>: \<open>Job_Queue\<close>.  \<open>Job_Queue_Rows\<close> gives the life cycle of a job as an
  inductive step relation and the contract of an operation (locale \<open>queue_operation\<close>, interpreted by claim, renewal,
  recovery and failure, and by the heartbeat of the worker); \<open>Job_Queue_Correct\<close> the order of claiming and the invariant
  of the table under every operation, the success included, which is written from the row as its session loaded it.

  \<^item> Pipeline, \<^verbatim>\<open>services/analysis_pipeline.py\<close>: \<open>Pipeline_Values\<close>, \<open>Pipeline_Request\<close>, \<open>Analysis_Pipeline\<close>; what the provider
  sees, atomicity of a run under the worker's transaction, and the runs that cannot succeed, in \<open>Analysis_Pipeline_Correct\<close>;
  what the stored payload says about its evidence in \<open>Pipeline_Values_Correct\<close>.

  \<^item> Worker, \<^verbatim>\<open>workers/analysis_worker.py\<close>: \<open>Analysis_Worker\<close>; the bound on attempts in \<open>Analysis_Worker_Correct\<close>, the
  published results of a whole run in \<open>Analysis_Worker_Runs\<close>.  The session of a run deletes the items the job has when it
  is taken up; items that other sessions commit for the job meanwhile stay, and one of them for a clause of the job makes
  the final commit fail on the unique constraint (\<open>deleted_results\<close>, \<open>publish_results\<close>, \<open>finish_success\<close>).

  \<^item> Encryption, \<^verbatim>\<open>core/crypto.py\<close>, \<^verbatim>\<open>core/encryption_config.py\<close> and the encryption services: \<open>Crypto\<close>, \<open>Scalar_Encryption\<close>,
  \<open>Nested_Encryption\<close>, \<open>Result_Encryption\<close>, \<open>Evidence_Encryption\<close>.  Round trips in \<open>Crypto_Correct\<close>,
  \<open>Encryption_Correct\<close>, \<open>Sealed_Lists\<close> and \<open>Sealed_Results\<close> (locale \<open>sealed_list\<close>, interpreted by each list service);
  \<open>Encryption_Domains\<close> shows that no ciphertext can be moved to another field, record, owner or version.  A ring reads
  what another has sealed (\<open>can_read\<close>) when it finds the bytes of the other's active key under its id, whatever the
  status of the key in it; \<open>finds_configured_key\<close> gets this from the configuration of a rotated ring, in which the old
  key is there for decryption only (\<open>rotated_keyring\<close> in the witnesses).

  \<^item> API, \<^verbatim>\<open>api/documents.py\<close>, \<^verbatim>\<open>api/extractions.py\<close>, \<^verbatim>\<open>api/analysis_jobs.py\<close>: \<open>Api_Base\<close>, \<open>Document_Api\<close>,
  \<open>Document_Results\<close>, \<open>Extraction_Review\<close>, \<open>Extraction_Confirm\<close>, \<open>Analysis_Job_Api\<close>, with their properties in the
  theories of the same names ending in \<open>_Correct\<close>, in \<open>Extraction_Ready\<close> and \<open>Extraction_Runs\<close>.  Other sessions act
  between the reads and the commit of a correction as an argument of the handler.

  \<^item> Limits, \<^verbatim>\<open>core/rate_limit.py\<close>, \<^verbatim>\<open>core/boundary_config.py\<close>, \<^verbatim>\<open>core/runtime_environment.py\<close> and
  \<^verbatim>\<open>services/analysis_provider_factory.py\<close>: \<open>Rate_Limit\<close> with the bound of the sliding window, \<open>Runtime_Config\<close>.


  \<open>Pipeline_Example\<close> and \<open>Extraction_Example\<close> hold concrete inputs for the witnesses of several theories.


  \<^bold>\<open>Parameters.\<close>
  SHA-256, AES-GCM and Unicode NFC are functions given to the definitions that call them; what the code relies on
  (authenticity and correctness of the cipher) is a hypothesis of the theorems that need it, and each such theorem has a
  witness with a concrete function.  The provider, random jitter, fresh identifiers, nonces and the clock are arguments;
  what other sessions write between two steps of a worker is an argument as well, so the theorems hold for every such
  behaviour.


  \<^bold>\<open>Bounds.\<close>
  Recursion that is not structural has a termination proof.  The JSON parser runs on a fuel of the length of the text
  plus one: each nested call consumes a character, and the printer's own output is proved to parse.  The polling loop of
  the worker runs over the list of the rounds that start before it is stopped.  Integers are unbounded as in Python;
  columns store what the code computes.  Points in time are microseconds.


  \<^bold>\<open>Not modelled.\<close>
  The upload handlers of \<^verbatim>\<open>api/extractions.py\<close>, \<^verbatim>\<open>services/image_ocr.py\<close> and \<^verbatim>\<open>services/pdf_extraction.py\<close> drive the OCR
  engine, the PDF and image libraries and their worker processes; the pages they store are where the model of an
  extraction starts.  Accounts and tokens (\<^verbatim>\<open>core/auth.py\<close>, \<^verbatim>\<open>core/email_lookup.py\<close>, \<^verbatim>\<open>api/auth.py\<close>), the configuration of
  trusted proxies, log output, the temporary files of an extraction and their cleanup, and the scripted providers for
  tests are left out; a handler starts with the user it is called for.  The Alembic migrations, the wiring of the web
  framework and the database engine and the readiness probe are calls of libraries; the operational scripts, the backup
  contract and the validation spikes are not part of the service.
\<close>

end
